(* ===== verification/Prelude.thy ===== *)
theory Prelude
  imports Main "HOL-Library.Word" "HOL-Library.List_Lexorder" "HOL-Library.AList"
    "HOL-Library.Code_Target_Nat"
begin

text \<open>
  Shared vocabulary of the development: Go's error and panic values, the error monad the
  handlers are written in, Go slices and slice expressions, Go maps, and the library lemmas the
  component theories use.

  \<^item> A Go function that returns \<open>(T, error)\<close> is a function into \<open>go_error + T\<close>. A run-time
    panic (index or slice bounds out of range, nil dereference) is the error value \<open>Panic\<close>, a
    loop that never ends is \<open>Hang\<close>; no handler of the program recovers from either.
  \<^item> A Go map is an association list with distinct keys (\<open>map_of\<close>, \<open>AList.update\<close>,
    \<open>AList.delete\<close>); \<open>len(m)\<close> is the length of the list and the iteration order is the order
    of the list. Where the code ranges over a map the order is arbitrary, and the theorems that
    matter are stated for any order.
  \<^item> \<open>uint\<close>, \<open>uint64\<close> and \<open>int64\<close> are \<open>64 word\<close> (the program is built for 64-bit platforms),
    \<open>uint32\<close> and \<open>int32\<close> are \<open>32 word\<close>, \<open>big.Int\<close> is \<open>int\<close>, and slice lengths are \<open>nat\<close>.
\<close>

unbundle bit_operations_syntax

named_theorems codec_simps \<open>unfolding equations of the binary encoders and decoders\<close>
named_theorems store_simps \<open>effect of writes on reads of the key-value store\<close>

section \<open>Bytes and machine words\<close>

type_synonym byte = "8 word"
type_synonym bytes = "8 word list"
type_synonym uint32 = "32 word"
type_synonym int32 = "32 word"
type_synonym uint64 = "64 word"
type_synonym int64 = "64 word"

lemma ucast_ucast_uint32 [simp]: "ucast (ucast (w :: uint32) :: uint64) = w"
  by (rule bit_word_eqI) (simp add: bit_simps)

lemma ucast_scast_int32 [simp]: "ucast (scast (w :: int32) :: int64) = w"
  by (rule bit_word_eqI) (simp add: bit_simps)

section \<open>Errors\<close>

text \<open>
  The error values of \<open>bchain/types.go\<close> and \<open>db/sync.go\<close> that the code compares against, the
  \<open>StopIteration\<close> of \<open>db/rocksdb.go\<close>, the \<open>APIError\<close> of \<open>api/types.go\<close> with the flag that it is
  shown to the user, errors made from a message, and the two ways a computation fails to return.
\<close>

datatype go_error =
    ErrBlockNotFound
  | ErrAddressMissing
  | ErrTxidMissing
  | ErrTxNotFound
  | ErrSynced
  | ErrOperationInterrupted
  | StopIteration
  | ErrUnsupportedXpub
  | APIError string bool
  | Errorf string
  | Panic string
  | Hang string

fun is_panic :: "go_error \<Rightarrow> bool" where
  "is_panic (Panic _) = True"
| "is_panic (Hang _) = True"
| "is_panic _ = False"

definition rbind :: "go_error + 'a \<Rightarrow> ('a \<Rightarrow> go_error + 'b) \<Rightarrow> go_error + 'b" where
  "rbind m f = (case m of Inl e \<Rightarrow> Inl e | Inr x \<Rightarrow> f x)"

lemma rbind_simps [simp]:
  "rbind (Inl e) f = Inl e"
  "rbind (Inr x) f = f x"
  by (simp_all add: rbind_def)

lemma rbind_cong [fundef_cong]:
  "m = n \<Longrightarrow> (\<And>x. n = Inr x \<Longrightarrow> f x = g x) \<Longrightarrow> rbind m f = rbind n g"
  by (cases n) auto

lemma rbind_eq_Inr_iff:
  "rbind m f = Inr y \<longleftrightarrow> (\<exists>x. m = Inr x \<and> f x = Inr y)"
  by (cases m) auto

lemma rbind_eq_InrE:
  assumes "rbind m f = Inr y"
  obtains x where "m = Inr x" and "f x = Inr y"
  using assms by (auto simp: rbind_eq_Inr_iff)

lemma rbind_assoc: "rbind (rbind m f) g = rbind m (\<lambda>x. rbind (f x) g)"
  by (cases m) auto

lemma rbind_Inr_right [simp]: "rbind m Inr = m"
  by (cases m) auto

text \<open>A Go \<open>for range\<close> loop whose body may return an error.\<close>

fun rfold :: "('a \<Rightarrow> 's \<Rightarrow> go_error + 's) \<Rightarrow> 'a list \<Rightarrow> 's \<Rightarrow> go_error + 's" where
  "rfold f [] s = Inr s"
| "rfold f (x # xs) s = rbind (f x s) (rfold f xs)"

lemma rfold_append: "rfold f (xs @ ys) s = rbind (rfold f xs s) (rfold f ys)"
  by (induction xs arbitrary: s) (auto simp: rbind_assoc cong: rbind_cong)

text \<open>The loop rule: what every iteration keeps, the loop keeps.\<close>

lemma rfold_invariant:
  assumes "rfold f xs s = Inr t" and "P s"
    and "\<And>x s t. x \<in> set xs \<Longrightarrow> P s \<Longrightarrow> f x s = Inr t \<Longrightarrow> P t"
  shows "P t"
  using assms
proof (induction xs arbitrary: s)
  case (Cons x xs)
  from Cons.prems(1) obtain s' where "f x s = Inr s'" "rfold f xs s' = Inr t"
    by (auto simp: rbind_eq_Inr_iff)
  with Cons.prems(2,3) have "P s'" by (meson list.set_intros(1))
  with \<open>rfold f xs s' = Inr t\<close> show ?case
    by (rule Cons.IH) (use Cons.prems(3) in auto)
qed simp

lemma rfold_cong [fundef_cong]:
  assumes "xs = ys" and "s = t" and "\<And>x s. x \<in> set ys \<Longrightarrow> f x s = g x s"
  shows "rfold f xs s = rfold g ys t"
  unfolding assms(1,2) using assms(3)
  by (induction ys arbitrary: t) (auto cong: rbind_cong)

section \<open>Slices\<close>

text \<open>
  \<open>buf[l:]\<close>, \<open>buf[l:h]\<close> and \<open>buf[i]\<close> with Go's bounds checks. The buffers the code slices come
  from \<open>gorocksdb\<close> (\<open>Slice.Data\<close>), whose capacity is their length.
\<close>

definition slice_from :: "'a list \<Rightarrow> nat \<Rightarrow> go_error + 'a list" where
  "slice_from buf l = (if l \<le> length buf then Inr (drop l buf)
     else Inl (Panic ''slice bounds out of range''))"

definition slice :: "'a list \<Rightarrow> nat \<Rightarrow> nat \<Rightarrow> go_error + 'a list" where
  "slice buf l h = (if l \<le> h \<and> h \<le> length buf then Inr (take (h - l) (drop l buf))
     else Inl (Panic ''slice bounds out of range''))"

definition index :: "'a list \<Rightarrow> nat \<Rightarrow> go_error + 'a" where
  "index buf i = (if i < length buf then Inr (buf ! i)
     else Inl (Panic ''index out of range''))"

lemma slice_from_append [simp]: "slice_from (xs @ ys) (length xs) = Inr ys"
  by (simp add: slice_from_def)

lemma slice_append [simp]: "slice (xs @ ys) 0 (length xs) = Inr xs"
  by (simp add: slice_def)

lemma index_Cons_0 [simp]: "index (x # xs) 0 = Inr x"
  by (simp add: index_def)

lemma slice_from_0 [simp]: "slice_from xs 0 = Inr xs"
  by (simp add: slice_from_def)

lemma slice_from_length: "slice_from xs n = Inr ys \<Longrightarrow> length ys = length xs - n \<and> n \<le> length xs"
  by (auto simp: slice_from_def split: if_splits)

section \<open>Go maps as association lists\<close>

type_synonym ('k, 'v) gomap = "('k \<times> 'v) list"

definition wf_map :: "('k, 'v) gomap \<Rightarrow> bool" where
  "wf_map m \<longleftrightarrow> distinct (map fst m)"

lemma wf_map_Nil [simp]: "wf_map []"
  by (simp add: wf_map_def)

lemma wf_map_update [simp]: "wf_map m \<Longrightarrow> wf_map (AList.update k v m)"
  by (simp add: wf_map_def distinct_update)

lemma wf_map_delete [simp]: "wf_map m \<Longrightarrow> wf_map (AList.delete k m)"
  by (simp add: wf_map_def distinct_delete)

lemma map_of_update [simp]: "map_of (AList.update k v m) = (map_of m)(k \<mapsto> v)"
  by (rule update_conv')

lemma map_of_delete [simp]: "map_of (AList.delete k m) = (map_of m)(k := None)"
  by (rule delete_conv')

lemma wf_map_Some_iff: "wf_map m \<Longrightarrow> map_of m k = Some v \<longleftrightarrow> (k, v) \<in> set m"
  by (simp add: wf_map_def)

section \<open>Big-endian numbers and the byte order\<close>

definition be_val :: "bytes \<Rightarrow> nat" where
  "be_val bs = foldl (\<lambda>a b. a * 256 + unat b) 0 bs"

lemma be_val_Nil [simp]: "be_val [] = 0"
  by (simp add: be_val_def)

lemma be_val_snoc [simp]: "be_val (bs @ [b]) = be_val bs * 256 + unat b"
  by (simp add: be_val_def)

lemma be_val_append: "be_val (xs @ ys) = be_val xs * 256 ^ length ys + be_val ys"
proof (induction ys rule: rev_induct)
  case (snoc y ys)
  have "be_val (xs @ ys @ [y]) = be_val (xs @ ys) * 256 + unat y"
    by (metis append.assoc be_val_snoc)
  with snoc show ?case by (simp add: algebra_simps)
qed simp

lemma be_val_Cons: "be_val (b # bs) = unat b * 256 ^ length bs + be_val bs"
  using be_val_append[of "[b]" bs] by (simp add: be_val_def)

lemma be_val_less: "be_val bs < 256 ^ length bs"
proof (induction bs)
  case (Cons b bs)
  have "unat b < 2 ^ LENGTH(8)" by (rule unsigned_less)
  then have "unat b + 1 \<le> 256" by simp
  then have "(unat b + 1) * 256 ^ length bs \<le> 256 * (256 ^ length bs)"
    by (rule mult_le_mono1)
  then have "unat b * 256 ^ length bs + 256 ^ length bs \<le> 256 ^ length (b # bs)"
    by (simp only: add_mult_distrib mult_1 length_Cons power_Suc)
  with Cons show ?case unfolding be_val_Cons by linarith
qed simp

text \<open>On byte strings of the same length the lexicographic order is the numeric order.\<close>

lemma be_val_less_iff:
  "length xs = length ys \<Longrightarrow> xs < ys \<longleftrightarrow> be_val xs < be_val ys"
proof (induction xs ys rule: list_induct2)
  case (Cons x xs y ys)
  have bx: "be_val xs < 256 ^ length ys" using be_val_less[of xs] Cons.hyps by simp
  have by': "be_val ys < 256 ^ length ys" by (rule be_val_less)
  consider "x < y" | "x = y" | "y < x" by (rule linorder_cases)
  then show ?case
  proof cases
    case 1
    then have "unat x + 1 \<le> unat y" by (simp add: word_less_nat_alt)
    then have "(unat x + 1) * 256 ^ length ys \<le> unat y * 256 ^ length ys" by (rule mult_le_mono1)
    with 1 bx Cons.hyps show ?thesis by (simp add: be_val_Cons algebra_simps)
  next
    case 2
    with Cons show ?thesis by (simp add: be_val_Cons)
  next
    case 3
    then have "unat y + 1 \<le> unat x" by (simp add: word_less_nat_alt)
    then have "(unat y + 1) * 256 ^ length ys \<le> unat x * 256 ^ length ys" by (rule mult_le_mono1)
    with 3 by' Cons.hyps show ?thesis by (auto simp: be_val_Cons algebra_simps)
  qed
qed simp

lemma be_val_inject: "length xs = length ys \<Longrightarrow> be_val xs = be_val ys \<Longrightarrow> xs = ys"
  by (metis be_val_less_iff less_irrefl linorder_neqE)

lemma append_less_same_prefix [simp]: "(xs @ ys :: bytes) < xs @ zs \<longleftrightarrow> ys < zs"
  by (induction xs) auto

end
