(* ===== verification/Parallel_Sync.thy ===== *)
theory Parallel_Sync
  imports Prelude "HOL-Library.Multiset"
begin

text \<open>
  The goroutines of \<open>ConnectBlocksParallel\<close> (\<open>db/sync.go\<close>) as a step relation: the calling goroutine that feeds
  the heights into the channel \<open>hch\<close>, the workers that get the blocks and send them on the unbuffered
  channel \<open>bch[height % workers]\<close>, and the writer that receives from the channel of the next height and gives up the
  process when it receives another height.

  A state holds the position of every goroutine; one rule is one step of one goroutine, so every interleaving is a
  run. Heights are natural numbers: the code counts in 32 bits, and for a range that ends below the largest number
  no addition wraps around, except \<open>lastBlock = lower - 1\<close> at the start, for which the model has the number of
  the next block. Repeating a failed call of the back end changes nothing and is no step; after the queue
  is closed a failed call makes the worker exit, which is the rule \<open>get_error\<close>. An error of the bulk connect ends
  the process and is part of \<open>connectParallelLoop\<close> in \<open>Sync_Worker\<close>.

  The theorems show that the writer never skips a block, under any interleaving and with interrupts and errors; that
  every run ends; that without interrupts and errors every run writes all blocks in order and returns; and
  that an error after the queue is closed can leave all goroutines waiting for each other.
\<close>

section \<open>The goroutines\<close>

record psyncConfig =
  workers :: nat
  lower_p :: nat
  higher_p :: nat
  dry_p :: bool
  signals :: bool
  fails :: bool

text \<open>A worker that exits remembers the height it gave up, if any; no rule looks at it.\<close>

datatype workerState = Idle | Getting nat | Sending nat | Exited "nat option"
datatype mainState = Feeding nat | WaitWorkers | WaitWriter | Returned
datatype writerState = Receiving | Connecting nat | WriterDone | Skipped nat

record psync =
  main :: mainState
  hch :: "nat list"
  ws :: "workerState list"
  writer :: writerState
  nextBlock :: nat
  terminating :: bool
  written :: "nat list"

definition isFeeding :: "mainState \<Rightarrow> bool" where
  "isFeeding m = (case m of Feeding _ \<Rightarrow> True | _ \<Rightarrow> False)"

definition isExited :: "workerState \<Rightarrow> bool" where
  "isExited w = (case w of Exited _ \<Rightarrow> True | _ \<Rightarrow> False)"

definition startSync :: "psyncConfig \<Rightarrow> psync" where
  "startSync C = \<lparr> main = Feeding (lower_p C), hch = [], ws = replicate (workers C) Idle, writer = Receiving,
     nextBlock = lower_p C, terminating = False, written = [] \<rparr>"

inductive pstep :: "psyncConfig \<Rightarrow> psync \<Rightarrow> psync \<Rightarrow> bool" for C where
  feed: "main s = Feeding h \<Longrightarrow> h \<le> higher_p C \<Longrightarrow> length (hch s) < workers C \<Longrightarrow>
    pstep C s (s\<lparr> main := Feeding (h + 1), hch := hch s @ [h] \<rparr>)"
| finish: "main s = Feeding h \<Longrightarrow> higher_p C < h \<Longrightarrow> pstep C s (s\<lparr> main := WaitWorkers \<rparr>)"
| interrupt: "signals C \<Longrightarrow> main s = Feeding h \<Longrightarrow> h \<le> higher_p C \<Longrightarrow>
    pstep C s (s\<lparr> main := WaitWorkers, terminating := True \<rparr>)"
| take_height: "i < length (ws s) \<Longrightarrow> ws s ! i = Idle \<Longrightarrow> hch s = h # hs \<Longrightarrow>
    pstep C s (s\<lparr> ws := (ws s)[i := Getting h], hch := hs \<rparr>)"
| leave: "i < length (ws s) \<Longrightarrow> ws s ! i = Idle \<Longrightarrow> hch s = [] \<Longrightarrow> \<not> isFeeding (main s) \<Longrightarrow>
    pstep C s (s\<lparr> ws := (ws s)[i := Exited None] \<rparr>)"
| get: "i < length (ws s) \<Longrightarrow> ws s ! i = Getting h \<Longrightarrow>
    pstep C s (s\<lparr> ws := (ws s)[i := if dry_p C then Idle else Sending h] \<rparr>)"
| get_error: "fails C \<Longrightarrow> i < length (ws s) \<Longrightarrow> ws s ! i = Getting h \<Longrightarrow> \<not> isFeeding (main s) \<Longrightarrow>
    pstep C s (s\<lparr> ws := (ws s)[i := Exited (Some h)] \<rparr>)"
| send: "i < length (ws s) \<Longrightarrow> ws s ! i = Sending h \<Longrightarrow> writer s = Receiving \<Longrightarrow>
    h mod workers C = nextBlock s mod workers C \<Longrightarrow>
    pstep C s (s\<lparr> ws := (ws s)[i := Idle], writer := Connecting h \<rparr>)"
| stop_worker: "i < length (ws s) \<Longrightarrow> ws s ! i = Sending h \<Longrightarrow> terminating s \<Longrightarrow>
    pstep C s (s\<lparr> ws := (ws s)[i := Exited (Some h)] \<rparr>)"
| connect_block: "writer s = Connecting h \<Longrightarrow> h = nextBlock s \<Longrightarrow>
    pstep C s (s\<lparr> writer := Receiving, nextBlock := h + 1, written := written s @ [h] \<rparr>)"
| skip_block: "writer s = Connecting h \<Longrightarrow> h \<noteq> nextBlock s \<Longrightarrow> pstep C s (s\<lparr> writer := Skipped h \<rparr>)"
| stop_writer: "writer s = Receiving \<Longrightarrow> terminating s \<Longrightarrow> pstep C s (s\<lparr> writer := WriterDone \<rparr>)"
| close_bch: "main s = WaitWorkers \<Longrightarrow> list_all isExited (ws s) \<Longrightarrow> pstep C s (s\<lparr> main := WaitWriter \<rparr>)"
| writer_done: "main s = WaitWriter \<Longrightarrow> writer s = Receiving \<Longrightarrow> pstep C s (s\<lparr> writer := WriterDone \<rparr>)"
| return_main: "main s = WaitWriter \<Longrightarrow> writer s = WriterDone \<Longrightarrow> pstep C s (s\<lparr> main := Returned \<rparr>)"

inductive reachable :: "psyncConfig \<Rightarrow> psync \<Rightarrow> bool" for C where
  start: "reachable C (startSync C)"
| step: "reachable C s \<Longrightarrow> pstep C s t \<Longrightarrow> reachable C t"

lemma reachable_invariant:
  assumes "reachable C s" and "P (startSync C)" and "\<And>s t. reachable C s \<Longrightarrow> P s \<Longrightarrow> pstep C s t \<Longrightarrow> P t"
  shows "P s"
  using assms(1) by induction (use assms(2,3) in blast)+

section \<open>The heights on their way\<close>

text \<open>The height a worker holds or has given up, and the one the writer has received.\<close>

definition holds :: "workerState \<Rightarrow> nat multiset" where
  "holds w = (case w of Getting h \<Rightarrow> {#h#} | Sending h \<Rightarrow> {#h#} | Exited (Some h) \<Rightarrow> {#h#} | _ \<Rightarrow> {#})"

definition received :: "writerState \<Rightarrow> nat multiset" where
  "received w = (case w of Connecting h \<Rightarrow> {#h#} | _ \<Rightarrow> {#})"

definition held :: "workerState list \<Rightarrow> nat multiset" where
  "held xs = sum_list (map holds xs)"

lemma held_update:
  assumes "i < length xs"
  obtains R where "held xs = holds (xs ! i) + R" and "\<And>x. held (xs[i := x]) = holds x + R"
proof
  show "held xs = holds (xs ! i) + held (take i xs @ drop (Suc i) xs)"
    using assms by (subst (1) id_take_nth_drop[OF assms]) (simp add: held_def)
  show "held (xs[i := x]) = holds x + held (take i xs @ drop (Suc i) xs)" for x
    using assms by (simp add: held_def upd_conv_take_nth_drop)
qed

lemma size_held: "size (held xs) \<le> length xs"
proof (induction xs)
  case (Cons x xs)
  have "size (holds x) \<le> 1" by (auto simp: holds_def split: workerState.splits option.splits)
  with Cons show ?case by (simp add: held_def)
qed (simp add: held_def)

lemma held_member: "h \<in># held xs \<longleftrightarrow> (\<exists>x \<in> set xs. h \<in># holds x)"
  by (induction xs) (auto simp: held_def)

text \<open>
  The queue holds the heights that were fed last, and the heights between the next block of the writer and the queue
  are held by one worker each or by the writer.
\<close>

definition flow :: "psyncConfig \<Rightarrow> nat \<Rightarrow> nat \<Rightarrow> psync \<Rightarrow> bool" where
  "flow C T F s \<longleftrightarrow> length (ws s) = workers C \<and> lower_p C \<le> nextBlock s \<and> nextBlock s \<le> T \<and> T \<le> F \<and>
     F \<le> max (lower_p C) (Suc (higher_p C)) \<and> hch s = [T..<F] \<and> (\<forall>h. main s = Feeding h \<longrightarrow> h = F) \<and>
     (\<not> isFeeding (main s) \<and> \<not> terminating s \<longrightarrow> F = max (lower_p C) (Suc (higher_p C))) \<and>
     written s = [lower_p C..<nextBlock s] \<and> held (ws s) + received (writer s) = mset [nextBlock s..<T] \<and>
     (\<forall>h. writer s = Connecting h \<longrightarrow> h = nextBlock s) \<and> (\<forall>h. writer s \<noteq> Skipped h)"

lemma held_replicate_Idle: "held (replicate n Idle) = {#}"
  by (induction n) (simp_all add: held_def holds_def)

lemma flow_start: "flow C (lower_p C) (lower_p C) (startSync C)"
  by (auto simp: flow_def startSync_def isFeeding_def received_def held_replicate_Idle)

text \<open>The arithmetic of the round robin: two heights in a window of \<open>n\<close> with the same channel are equal.\<close>

lemma same_channel:
  fixes h L n :: nat
  assumes "L \<le> h" and "h < L + n" and "h mod n = L mod n"
  shows "h = L"
proof -
  have "(h - L) mod n = 0" using assms(1,3) by (metis mod_eq_dvd_iff_nat dvd_imp_mod_0)
  moreover have "h - L < n" using assms(1,2) by linarith
  ultimately show ?thesis using assms(1) by simp
qed

lemma isFeeding_simps [simp]:
  "isFeeding (Feeding h)" "\<not> isFeeding WaitWorkers" "\<not> isFeeding WaitWriter" "\<not> isFeeding Returned"
  by (simp_all add: isFeeding_def)

lemma holds_simps [simp]:
  "holds Idle = {#}" "holds (Getting h) = {#h#}" "holds (Sending h) = {#h#}" "holds (Exited (Some h)) = {#h#}"
  "holds (Exited None) = {#}"
  by (simp_all add: holds_def)

lemma received_simps [simp]:
  "received Receiving = {#}" "received (Connecting h) = {#h#}" "received WriterDone = {#}" "received (Skipped h) = {#}"
  by (simp_all add: received_def)

text \<open>A worker that keeps its height.\<close>

lemma flow_worker:
  assumes "flow C T F s" and "i < length (ws s)" and "holds x = holds (ws s ! i)"
  shows "flow C T F (s\<lparr> ws := (ws s)[i := x] \<rparr>)"
proof -
  obtain R where "held (ws s) = holds (ws s ! i) + R" "\<And>x. held ((ws s)[i := x]) = holds x + R"
    using held_update[OF assms(2)] by blast
  with assms show ?thesis by (simp add: flow_def)
qed

lemma pstep_flow:
  assumes "pstep C s t" and "flow C T F s" and "\<not> dry_p C"
  shows "\<exists>T F. flow C T F t"
  using assms(1)
proof cases
  case (feed h)
  with assms(2) have "flow C T (Suc F) t" by (auto simp: flow_def)
  then show ?thesis by blast
next
  case (finish h)
  with assms(2) have "flow C T F t" by (auto simp: flow_def)
  then show ?thesis by blast
next
  case (interrupt h)
  with assms(2) have "flow C T F t" by (auto simp: flow_def)
  then show ?thesis by blast
next
  case (take_height i h hs)
  obtain R where R: "held (ws s) = holds (ws s ! i) + R" "\<And>x. held ((ws s)[i := x]) = holds x + R"
    using held_update[OF take_height(2)] by blast
  have "[T..<F] = h # hs" using assms(2) take_height(4) by (simp add: flow_def)
  then have TF: "T < F" "h = T" "hs = [Suc T..<F]" by (auto simp: upt_eq_Cons_conv)
  have "nextBlock s \<le> T" using assms(2) by (simp add: flow_def)
  then have "flow C (Suc T) F t" using assms(2) take_height R TF by (auto simp: flow_def)
  then show ?thesis by blast
next
  case (leave i)
  then have "flow C T F t" using flow_worker[OF assms(2), of i "Exited None"] by simp
  then show ?thesis by blast
next
  case (get i h)
  then have "flow C T F t" using flow_worker[OF assms(2), of i "Sending h"] assms(3) by simp
  then show ?thesis by blast
next
  case (get_error i h)
  then have "flow C T F t" using flow_worker[OF assms(2), of i "Exited (Some h)"] by simp
  then show ?thesis by blast
next
  case (send i h)
  obtain R where R: "held (ws s) = holds (ws s ! i) + R" "\<And>x. held ((ws s)[i := x]) = holds x + R"
    using held_update[OF send(2)] by blast
  have m: "held (ws s) = mset [nextBlock s..<T]" using assms(2) send(4) by (simp add: flow_def)
  then have "h \<in># mset [nextBlock s..<T]" using R(1) send(3) by (metis holds_simps(3) union_iff union_single_eq_member)
  then have h: "nextBlock s \<le> h" "h < T" by auto
  have "T - nextBlock s \<le> workers C" using size_held[of "ws s"] m assms(2) by (simp add: flow_def)
  then have "h = nextBlock s" using h by (intro same_channel[OF _ _ send(5)]) auto
  then have "flow C T F t" using assms(2) send R by (simp add: flow_def)
  then show ?thesis by blast
next
  case (stop_worker i h)
  then have "flow C T F t" using flow_worker[OF assms(2), of i "Exited (Some h)"] by simp
  then show ?thesis by blast
next
  case (connect_block h)
  have "nextBlock s < T"
  proof (rule ccontr)
    assume "\<not> nextBlock s < T"
    with assms(2) connect_block show False by (auto simp: flow_def)
  qed
  then have "mset [nextBlock s..<T] = {#nextBlock s#} + mset [Suc (nextBlock s)..<T]" by (simp add: upt_conv_Cons)
  with assms(2) connect_block \<open>nextBlock s < T\<close> have "flow C T F t" by (auto simp: flow_def)
  then show ?thesis by blast
qed (use assms(2) in \<open>auto simp: flow_def\<close>)

lemma reachable_flow:
  assumes "reachable C s" and "\<not> dry_p C"
  shows "\<exists>T F. flow C T F s"
  using assms(1)
proof (rule reachable_invariant)
  show "\<exists>T F. flow C T F (startSync C)" using flow_start by blast
  show "\<exists>T F. flow C T F t" if "\<exists>T F. flow C T F s" "pstep C s t" for s t
    using that pstep_flow[OF that(2) _ assms(2)] by blast
qed

text \<open>In a dry run the workers drop the blocks and the writer receives nothing.\<close>

definition dry_inv :: "psync \<Rightarrow> bool" where
  "dry_inv s \<longleftrightarrow> (\<forall>w \<in> set (ws s). \<forall>h. w \<noteq> Sending h) \<and> writer s \<in> {Receiving, WriterDone} \<and> written s = []"

lemma in_set_update: "w \<in> set (xs[i := x]) \<Longrightarrow> w = x \<or> w \<in> set xs"
  using set_update_subset_insert[of xs i x] by blast

lemma pstep_dry: "pstep C s t \<Longrightarrow> dry_p C \<Longrightarrow> dry_inv s \<Longrightarrow> dry_inv t"
  by (induction rule: pstep.induct) (auto simp: dry_inv_def dest!: in_set_update dest: nth_mem)

lemma reachable_dry: "reachable C s \<Longrightarrow> dry_p C \<Longrightarrow> dry_inv s"
proof (rule reachable_invariant[of C s dry_inv])
  show "dry_inv (startSync C)" by (simp add: dry_inv_def startSync_def)
qed (use pstep_dry in blast)+

section \<open>Properties of the parallel connect\<close>

text \<open>C9: The writer never receives a block out of order. In every reachable state, for any number of workers, any
  interleaving, with interrupts and with errors of the back end after the queue was closed, the writer has not given up
  because of a skipped block, the blocks it wrote are the heights from the lower bound up to its next block without a
  gap, and a block it has just received is that next block.\<close>

theorem parallel_never_skips:
  assumes "reachable C s"
  shows "writer s \<noteq> Skipped h \<and> written s = [lower_p C..<lower_p C + length (written s)] \<and>
    (writer s = Connecting h \<longrightarrow> h = lower_p C + length (written s))"
proof (cases "dry_p C")
  case True
  then show ?thesis using reachable_dry[OF assms] by (auto simp: dry_inv_def)
next
  case False
  then obtain T F where "flow C T F s" using reachable_flow[OF assms] by blast
  then show ?thesis by (auto simp: flow_def)
qed

text \<open>The weight of a state: what every goroutine still has to do.\<close>

definition workerWeight :: "workerState \<Rightarrow> nat" where
  "workerWeight w = (case w of Idle \<Rightarrow> 1 | Getting _ \<Rightarrow> 5 | Sending _ \<Rightarrow> 4 | Exited _ \<Rightarrow> 0)"

definition mainWeight :: "psyncConfig \<Rightarrow> mainState \<Rightarrow> nat" where
  "mainWeight C m = (case m of Feeding h \<Rightarrow> 3 + 6 * (Suc (higher_p C) - h) | WaitWorkers \<Rightarrow> 2 | WaitWriter \<Rightarrow> 1 | Returned \<Rightarrow> 0)"

definition writerWeight :: "writerState \<Rightarrow> nat" where
  "writerWeight w = (case w of Connecting _ \<Rightarrow> 2 | Receiving \<Rightarrow> 1 | _ \<Rightarrow> 0)"

definition weight :: "psyncConfig \<Rightarrow> psync \<Rightarrow> nat" where
  "weight C s = mainWeight C (main s) + 5 * length (hch s) + sum_list (map workerWeight (ws s)) + writerWeight (writer s)"

lemma sum_workerWeight_update:
  assumes "i < length xs"
  obtains R where "sum_list (map workerWeight xs) = workerWeight (xs ! i) + R"
    and "\<And>x. sum_list (map workerWeight (xs[i := x])) = workerWeight x + R"
proof
  show "sum_list (map workerWeight xs) = workerWeight (xs ! i) + sum_list (map workerWeight (take i xs @ drop (Suc i) xs))"
    using assms by (subst (1) id_take_nth_drop[OF assms]) simp
  show "sum_list (map workerWeight (xs[i := x])) = workerWeight x + sum_list (map workerWeight (take i xs @ drop (Suc i) xs))" for x
    using assms by (simp add: upd_conv_take_nth_drop)
qed

lemma weight_worker:
  assumes "i < length (ws s)" and "workerWeight x + k < workerWeight (ws s ! i) + l"
  shows "sum_list (map workerWeight ((ws s)[i := x])) + k < sum_list (map workerWeight (ws s)) + l"
proof -
  obtain R where "sum_list (map workerWeight (ws s)) = workerWeight (ws s ! i) + R"
      "\<And>x. sum_list (map workerWeight ((ws s)[i := x])) = workerWeight x + R"
    using sum_workerWeight_update[OF assms(1)] by blast
  with assms(2) show ?thesis by simp
qed

lemma workerWeight_simps [simp]:
  "workerWeight Idle = 1" "workerWeight (Getting h) = 5" "workerWeight (Sending h) = 4" "workerWeight (Exited r) = 0"
  by (simp_all add: workerWeight_def)

lemma pstep_weight: "pstep C s t \<Longrightarrow> weight C t < weight C s"
proof (induction rule: pstep.induct)
  case (take_height i s h hs)
  then show ?case using weight_worker[of i s "Getting h" 0 5] by (simp add: weight_def)
next
  case (leave i s)
  then show ?case using weight_worker[of i s "Exited None" 0 0] by (simp add: weight_def)
next
  case (get i s h)
  then show ?case using weight_worker[of i s "if dry_p C then Idle else Sending h" 0 0] by (simp add: weight_def)
next
  case (get_error i s h)
  then show ?case using weight_worker[of i s "Exited (Some h)" 0 0] by (simp add: weight_def)
next
  case (send i s h)
  then show ?case using weight_worker[of i s Idle 1 0] by (simp add: weight_def writerWeight_def)
next
  case (stop_worker i s h)
  then show ?case using weight_worker[of i s "Exited (Some h)" 0 0] by (simp add: weight_def)
qed (simp_all add: weight_def mainWeight_def writerWeight_def)

inductive runs :: "psyncConfig \<Rightarrow> nat \<Rightarrow> psync \<Rightarrow> psync \<Rightarrow> bool" for C where
  none: "runs C 0 s s"
| more: "pstep C s t \<Longrightarrow> runs C n t u \<Longrightarrow> runs C (Suc n) s u"

lemma runs_weight: "runs C n s t \<Longrightarrow> n + weight C t \<le> weight C s"
  by (induction rule: runs.induct) (auto dest: pstep_weight)


text \<open>Without interrupts and errors the goroutines end in order: a worker exits only when the queue is closed and
  empty, the channels are closed when all workers have exited, and the writer is the last.\<close>

definition phase_inv :: "psync \<Rightarrow> bool" where
  "phase_inv s \<longleftrightarrow> \<not> terminating s \<and> (\<forall>h. Exited (Some h) \<notin> set (ws s)) \<and>
     (Exited None \<in> set (ws s) \<longrightarrow> \<not> isFeeding (main s) \<and> hch s = []) \<and>
     (main s \<in> {WaitWriter, Returned} \<longrightarrow> list_all isExited (ws s)) \<and>
     (writer s = WriterDone \<longrightarrow> main s \<in> {WaitWriter, Returned}) \<and> (main s = Returned \<longrightarrow> writer s = WriterDone)"

lemma isExited_simps [simp]:
  "\<not> isExited Idle" "\<not> isExited (Getting h)" "\<not> isExited (Sending h)" "isExited (Exited r)"
  by (simp_all add: isExited_def)

lemma list_all_isExited_nth: "list_all isExited xs \<Longrightarrow> i < length xs \<Longrightarrow> isExited (xs ! i)"
  by (simp add: list_all_length)

lemma pstep_phase:
  assumes "pstep C s t" and "\<not> signals C" and "\<not> fails C" and "phase_inv s"
  shows "phase_inv t"
  using assms
  by (induction rule: pstep.induct)
    (auto simp: phase_inv_def list_all_iff isExited_def split: workerState.splits mainState.splits dest!: in_set_update dest: list_all_isExited_nth nth_mem)

lemma reachable_phase:
  assumes "reachable C s" and "0 < workers C" and "\<not> signals C" and "\<not> fails C"
  shows "phase_inv s"
  using assms(1)
proof (rule reachable_invariant)
  show "phase_inv (startSync C)" by (auto simp: phase_inv_def startSync_def)
  show "phase_inv t" if "phase_inv s" "pstep C s t" for s t by (rule pstep_phase[OF that(2) assms(3,4) that(1)])
qed

lemma holds_member: "h \<in># holds w \<longleftrightarrow> w = Getting h \<or> w = Sending h \<or> w = Exited (Some h)"
  by (auto simp: holds_def split: workerState.splits option.splits)

lemma holding_worker:
  assumes "h \<in># held (ws s)" and "\<forall>h. Exited (Some h) \<notin> set (ws s)"
  obtains i where "i < length (ws s)" and "ws s ! i = Getting h \<or> ws s ! i = Sending h"
proof -
  obtain w where w: "w \<in> set (ws s)" "h \<in># holds w" using assms(1) held_member by blast
  then have "w = Getting h \<or> w = Sending h" using assms(2) by (auto simp: holds_member)
  with w(1) show thesis using that by (metis in_set_conv_nth)
qed

lemma nothing_held:
  assumes "held (ws s) = {#}" and "\<forall>h. Exited (Some h) \<notin> set (ws s)" and "w \<in> set (ws s)"
  shows "w = Idle \<or> w = Exited None"
proof (rule ccontr)
  assume "\<not> (w = Idle \<or> w = Exited None)"
  then obtain h where "h \<in># holds w" by (cases w; auto simp: holds_def split: option.splits)
  then show False using assms held_member[of h "ws s"] by auto
qed

text \<open>Some goroutine can go on until the call has returned.\<close>

lemma parallel_progress:
  assumes f: "flow C T F s" and p: "phase_inv s" and n: "0 < workers C" and r: "main s \<noteq> Returned"
  shows "\<exists>t. pstep C s t"
proof (cases "writer s")
  case Receiving
  have m: "held (ws s) = mset [nextBlock s..<T]" using f Receiving by (simp add: flow_def)
  have l: "length (ws s) = workers C" using f by (simp add: flow_def)
  have x: "\<forall>h. Exited (Some h) \<notin> set (ws s)" using p by (simp add: phase_inv_def)
  show ?thesis
  proof (cases "nextBlock s < T")
    case True
    then have "nextBlock s \<in># held (ws s)" using m by simp
    then obtain i where i: "i < length (ws s)" "ws s ! i = Getting (nextBlock s) \<or> ws s ! i = Sending (nextBlock s)"
      using x holding_worker by blast
    from i(2) show ?thesis
    proof
      assume "ws s ! i = Getting (nextBlock s)"
      from pstep.get[OF i(1) this] show ?thesis by blast
    next
      assume "ws s ! i = Sending (nextBlock s)"
      from pstep.send[OF i(1) this Receiving] show ?thesis by blast
    qed
  next
    case False
    then have e: "held (ws s) = {#}" using m by simp
    have w0: "ws s ! 0 \<in> set (ws s)" "0 < length (ws s)" using l n by simp_all
    show ?thesis
    proof (cases "hch s")
      case (Cons h hs)
      then have "Exited None \<notin> set (ws s)" using p by (auto simp: phase_inv_def)
      then have "ws s ! 0 = Idle" using nothing_held[OF e x w0(1)] w0(1) by metis
      from pstep.take_height[OF w0(2) this Cons] show ?thesis by blast
    next
      case Nil
      show ?thesis
      proof (cases "main s")
        case (Feeding h)
        then show ?thesis using pstep.feed[OF Feeding, of C] pstep.finish[OF Feeding, of C] Nil n by (cases "h \<le> higher_p C") auto
      next
        case WaitWorkers
        show ?thesis
        proof (cases "list_all isExited (ws s)")
          case True
          from pstep.close_bch[OF WaitWorkers True] show ?thesis by blast
        next
          case False
          then obtain i where i: "i < length (ws s)" "\<not> isExited (ws s ! i)" by (auto simp: list_all_length)
          then have "ws s ! i = Idle" using nothing_held[OF e x, of "ws s ! i"] by auto
          from pstep.leave[OF i(1) this Nil, of C] WaitWorkers show ?thesis by auto
        qed
      next
        case WaitWriter
        from pstep.writer_done[OF WaitWriter Receiving] show ?thesis by blast
      next
        case Returned
        with r show ?thesis by simp
      qed
    qed
  qed
next
  case (Connecting h)
  then show ?thesis using pstep.connect_block[OF Connecting, of C] f by (auto simp: flow_def)
next
  case WriterDone
  then have "main s = WaitWriter" using p r by (auto simp: phase_inv_def)
  from pstep.return_main[OF this WriterDone] show ?thesis by blast
next
  case (Skipped h)
  with f show ?thesis by (auto simp: flow_def)
qed

text \<open>C10: Without interrupts and errors the parallel connect succeeds under every interleaving: a state in which no
  goroutine can go on is one in which the call has returned, and then every block of the range was written, in order.
  (With \<open>parallel_runs_end\<close>, every run reaches such a state.)\<close>

theorem parallel_completes:
  assumes "reachable C s" and "\<nexists>t. pstep C s t" and "0 < workers C" and "\<not> signals C" and "\<not> fails C" and "\<not> dry_p C"
    and "lower_p C \<le> Suc (higher_p C)"
  shows "main s = Returned \<and> written s = [lower_p C..<Suc (higher_p C)]"
proof -
  obtain T F where f: "flow C T F s" using reachable_flow[OF assms(1,6)] by blast
  have p: "phase_inv s" by (rule reachable_phase[OF assms(1,3,4,5)])
  have r: "main s = Returned" using parallel_progress[OF f p assms(3)] assms(2) by blast
  have w: "writer s = WriterDone" "list_all isExited (ws s)" "\<forall>h. Exited (Some h) \<notin> set (ws s)" "\<not> terminating s"
    using p r by (auto simp: phase_inv_def)
  have "w = Exited None" if "w \<in> set (ws s)" for w
  proof -
    have "isExited w" "\<And>h. w \<noteq> Exited (Some h)" using that w(2,3) by (auto simp: list_all_iff)
    then show ?thesis by (auto simp: isExited_def split: workerState.splits)
  qed
  then have h: "held (ws s) = {#}" using held_member[of _ "ws s"] by (metis holds_simps(5) multiset_nonemptyE empty_not_add_mset set_mset_empty empty_iff)
  have "0 < length (ws s)" using f assms(3) by (simp add: flow_def)
  then have "Exited None \<in> set (ws s)" using \<open>\<And>w. w \<in> set (ws s) \<Longrightarrow> w = Exited None\<close> by (metis nth_mem)
  then have q: "hch s = []" using p by (simp add: phase_inv_def)
  have fl: "hch s = [T..<F]" "held (ws s) + received (writer s) = mset [nextBlock s..<T]" "nextBlock s \<le> T" "T \<le> F"
    using f unfolding flow_def by blast+
  have "F = max (lower_p C) (Suc (higher_p C))" using f r w(4) unfolding flow_def by simp
  then have "F = Suc (higher_p C)" using assms(7) by simp
  moreover have "[T..<F] = []" using fl(1) q by (simp only:)
  moreover have "mset [nextBlock s..<T] = {#}" using fl(2) h w(1) by (simp only: received_simps) simp
  then have "[nextBlock s..<T] = []" by (simp only: mset_zero_iff)
  ultimately have "[T..<F] = [] \<and> [nextBlock s..<T] = [] \<and> nextBlock s \<le> T \<and> T \<le> F \<and> F = Suc (higher_p C)" using fl(3,4) by blast
  then have "nextBlock s = Suc (higher_p C)" unfolding upt_eq_Nil_conv by linarith
  then show ?thesis using r f by (auto simp: flow_def)
qed

subsection \<open>Runs of small instances\<close>

text \<open>One worker and one block: the states of the run, one step after the other.\<close>

definition oneBlock :: psyncConfig where
  "oneBlock = \<lparr> workers = 1, lower_p = 5, higher_p = 5, dry_p = False, signals = False, fails = False \<rparr>"

definition oneBlockState :: "mainState \<Rightarrow> workerState \<Rightarrow> writerState \<Rightarrow> nat list \<Rightarrow> psync" where
  "oneBlockState m w r wr = \<lparr> main = m, hch = [], ws = [w], writer = r, nextBlock = 5 + length wr, terminating = False, written = wr \<rparr>"

lemma reach: "reachable C s \<Longrightarrow> pstep C s t' \<Longrightarrow> t' = t \<Longrightarrow> reachable C t"
  using reachable.step by blast

lemma oneBlock_connecting: "reachable oneBlock (oneBlockState WaitWorkers Idle (Connecting 5) [])"
proof -
  note d = oneBlock_def oneBlockState_def startSync_def
  have "reachable oneBlock ((startSync oneBlock)\<lparr> main := Feeding 6, hch := [5] \<rparr>)"
    by (rule reach[OF reachable.start pstep.feed[where h = 5]]) (simp_all add: d)
  then have "reachable oneBlock ((startSync oneBlock)\<lparr> main := WaitWorkers, hch := [5] \<rparr>)"
    by (rule reach[OF _ pstep.finish[where h = 6]]) (simp_all add: d)
  then have "reachable oneBlock (oneBlockState WaitWorkers (Getting 5) Receiving [])"
    by (rule reach[OF _ pstep.take_height[where i = 0 and h = 5 and hs = "[]"]]) (simp_all add: d)
  then have "reachable oneBlock (oneBlockState WaitWorkers (Sending 5) Receiving [])"
    by (rule reach[OF _ pstep.get[where i = 0 and h = 5]]) (simp_all add: d)
  then show ?thesis
    by (rule reach[OF _ pstep.send[where i = 0 and h = 5]]) (simp_all add: d)
qed

lemma oneBlock_returns: "reachable oneBlock (oneBlockState Returned (Exited None) WriterDone [5])"
proof -
  note d = oneBlock_def oneBlockState_def
  have "reachable oneBlock (oneBlockState WaitWorkers Idle Receiving [5])"
    by (rule reach[OF oneBlock_connecting pstep.connect_block[where h = 5]]) (simp_all add: d)
  then have "reachable oneBlock (oneBlockState WaitWorkers (Exited None) Receiving [5])"
    by (rule reach[OF _ pstep.leave[where i = 0]]) (simp_all add: d)
  then have "reachable oneBlock (oneBlockState WaitWriter (Exited None) Receiving [5])"
    by (rule reach[OF _ pstep.close_bch]) (simp_all add: d)
  then have "reachable oneBlock (oneBlockState WaitWriter (Exited None) WriterDone [5])"
    by (rule reach[OF _ pstep.writer_done]) (simp_all add: d)
  then show ?thesis
    by (rule reach[OF _ pstep.return_main]) (simp_all add: d)
qed

theorem parallel_never_skips_witness:
  "writer (oneBlockState WaitWorkers Idle (Connecting 5) []) = Connecting 5 \<and>
   5 = lower_p oneBlock + length (written (oneBlockState WaitWorkers Idle (Connecting 5) []))"
  using parallel_never_skips[OF oneBlock_connecting, of 5] by (simp add: oneBlockState_def)


theorem parallel_completes_witness:
  "main (oneBlockState Returned (Exited None) WriterDone [5]) = Returned \<and>
   written (oneBlockState Returned (Exited None) WriterDone [5]) = [lower_p oneBlock..<Suc (higher_p oneBlock)]"
proof (rule parallel_completes[OF oneBlock_returns])
  show "\<nexists>t. pstep oneBlock (oneBlockState Returned (Exited None) WriterDone [5]) t"
    by (auto elim!: pstep.cases simp: oneBlockState_def)
qed (simp_all add: oneBlock_def)

text \<open>Two workers, two blocks, and a back end that fails once after the queue was closed.\<close>

definition twoBlocks :: psyncConfig where
  "twoBlocks = \<lparr> workers = 2, lower_p = 1, higher_p = 2, dry_p = False, signals = False, fails = True \<rparr>"

definition twoBlocksState :: "mainState \<Rightarrow> nat list \<Rightarrow> workerState list \<Rightarrow> psync" where
  "twoBlocksState m q w = \<lparr> main = m, hch = q, ws = w, writer = Receiving, nextBlock = 1, terminating = False, written = [] \<rparr>"

text \<open>C38: An error of the back end at the end of the range can block the synchronisation forever. When all heights are
  fed and the queue is closed, a worker whose call fails exits without its block although no interrupt came. Then the
  writer waits for that block, the other workers wait for the writer, and the caller waits for the workers: with two
  workers and two blocks there is a reachable state, without any interrupt, in which no goroutine can go on, the call has not
  returned, and nothing was written.\<close>

theorem parallel_error_deadlock:
  "\<exists>s. reachable twoBlocks s \<and> \<not> signals twoBlocks \<and> (\<nexists>t. pstep twoBlocks s t) \<and> main s = WaitWorkers \<and> written s = []"
proof (intro exI conjI)
  let ?s = "twoBlocksState WaitWorkers [] [Exited (Some 1), Sending 2]"
  note d = twoBlocks_def twoBlocksState_def startSync_def
  have "reachable twoBlocks (twoBlocksState (Feeding 2) [1] [Idle, Idle])"
    by (rule reach[OF reachable.start pstep.feed[where h = 1]]) (simp_all add: d numeral_2_eq_2)
  then have "reachable twoBlocks (twoBlocksState (Feeding 3) [1, 2] [Idle, Idle])"
    by (rule reach[OF _ pstep.feed[where h = 2]]) (simp_all add: d)
  then have "reachable twoBlocks (twoBlocksState WaitWorkers [1, 2] [Idle, Idle])"
    by (rule reach[OF _ pstep.finish[where h = 3]]) (simp_all add: d)
  then have "reachable twoBlocks (twoBlocksState WaitWorkers [2] [Getting 1, Idle])"
    by (rule reach[OF _ pstep.take_height[where i = 0 and h = 1 and hs = "[2]"]]) (simp_all add: d)
  then have "reachable twoBlocks (twoBlocksState WaitWorkers [] [Getting 1, Getting 2])"
    by (rule reach[OF _ pstep.take_height[where i = 1 and h = 2 and hs = "[]"]]) (simp_all add: d)
  then have "reachable twoBlocks (twoBlocksState WaitWorkers [] [Exited (Some 1), Getting 2])"
    by (rule reach[OF _ pstep.get_error[where i = 0 and h = 1]]) (simp_all add: d)
  then show "reachable twoBlocks ?s"
    by (rule reach[OF _ pstep.get[where i = 1 and h = 2]]) (simp_all add: d)
  show "\<nexists>t. pstep twoBlocks ?s t"
    by (auto elim!: pstep.cases simp: d less_Suc_eq numeral_2_eq_2)
qed (simp_all add: twoBlocks_def twoBlocksState_def)

end
