(* ===== verification/Websocket_Locks.thy ===== *)
theory Websocket_Locks
  imports Prelude
begin

text \<open>
  The locks of the websocket server (\<open>server/websocket.go\<close>), step by step. A broadcast (\<open>OnNewBlock\<close>, \<open>OnNewTxAddr\<close>) holds the lock of its subscriptions while it asks each channel with
  \<open>IsAlive\<close>, which takes the lock of the channel, and then sends. \<open>closeChannel\<close> holds the lock of the channel while it unsubscribes, which takes the locks of the
  subscriptions. A step is the code between two points where another goroutine can get in the way: taking a lock, reading or writing what is shared without a lock.

  The output loops are taken to be fast enough, so that a send does not wait for room in the buffer.

  The theorems: a broadcast and a close of the same channel can wait for each other forever; a send can hit a channel that was closed after it was asked; and there is no other way
  to block: whenever all goroutines wait, a broadcast waits for a channel whose close waits for a lock of subscriptions.
\<close>

section \<open>Goroutines\<close>

datatype subscriptionLock = NewBlockLock | AddressLock

type_synonym channel = nat

datatype broadcast_pc = B_start | B_loop "(channel \<times> string) list" | B_check channel string "(channel \<times> string) list"
  | B_send channel string "(channel \<times> string) list" | B_done | B_panic

datatype close_pc = C_start | C_test | C_close | C_unsubscribeNewBlock | C_unsubscribeAddresses | C_unlock | C_done

datatype goroutine = Broadcast subscriptionLock broadcast_pc | Close channel close_pc

record locks =
  holder :: "subscriptionLock \<Rightarrow> nat option"
  aliveLock :: "channel \<Rightarrow> nat option"
  alive_l :: "channel \<Rightarrow> bool"
  closed_l :: "channel \<Rightarrow> bool"
  subscriptions :: "subscriptionLock \<Rightarrow> (channel, string) gomap"
  sent :: "(channel \<times> string) list"

text \<open>One step of goroutine \<open>t\<close>; \<open>None\<close> when it waits or has ended. A deferred unlock also runs when the goroutine panics.\<close>

fun broadcast_step :: "nat \<Rightarrow> subscriptionLock \<Rightarrow> broadcast_pc \<Rightarrow> locks \<Rightarrow> (broadcast_pc \<times> locks) option" where
  "broadcast_step t l B_start s =
     (if holder s l = None then Some (B_loop (subscriptions s l), s\<lparr> holder := (holder s)(l \<mapsto> t) \<rparr>) else None)"
| "broadcast_step t l (B_loop []) s = Some (B_done, s\<lparr> holder := (holder s)(l := None) \<rparr>)"
| "broadcast_step t l (B_loop ((c, i) # r)) s = Some (B_check c i r, s)"
| "broadcast_step t l (B_check c i r) s =
     (if aliveLock s c = None then Some (if alive_l s c then B_send c i r else B_loop r, s) else None)"
| "broadcast_step t l (B_send c i r) s =
     (if closed_l s c then Some (B_panic, s\<lparr> holder := (holder s)(l := None) \<rparr>)
      else Some (B_loop r, s\<lparr> sent := sent s @ [(c, i)] \<rparr>))"
| "broadcast_step t l B_done s = None"
| "broadcast_step t l B_panic s = None"

fun close_step :: "nat \<Rightarrow> channel \<Rightarrow> close_pc \<Rightarrow> locks \<Rightarrow> (close_pc \<times> locks) option" where
  "close_step t c C_start s = (if aliveLock s c = None then Some (C_test, s\<lparr> aliveLock := (aliveLock s)(c \<mapsto> t) \<rparr>) else None)"
| "close_step t c C_test s = (if alive_l s c then Some (C_close, s\<lparr> alive_l := (alive_l s)(c := False) \<rparr>) else Some (C_unlock, s))"
| "close_step t c C_close s = Some (C_unsubscribeNewBlock, s\<lparr> closed_l := (closed_l s)(c := True) \<rparr>)"
| "close_step t c C_unsubscribeNewBlock s =
     (if holder s NewBlockLock = None
      then Some (C_unsubscribeAddresses, s\<lparr> subscriptions := (subscriptions s)(NewBlockLock := AList.delete c (subscriptions s NewBlockLock)) \<rparr>)
      else None)"
| "close_step t c C_unsubscribeAddresses s =
     (if holder s AddressLock = None
      then Some (C_unlock, s\<lparr> subscriptions := (subscriptions s)(AddressLock := AList.delete c (subscriptions s AddressLock)) \<rparr>)
      else None)"
| "close_step t c C_unlock s = Some (C_done, s\<lparr> aliveLock := (aliveLock s)(c := None) \<rparr>)"
| "close_step t c C_done s = None"

type_synonym server = "goroutine list \<times> locks"

definition run_step :: "nat \<Rightarrow> server \<Rightarrow> server option" where
  "run_step t = (\<lambda>(gs, s).
     if t < length gs then
       (case gs ! t of
          Broadcast l pc \<Rightarrow> map_option (\<lambda>(pc, s). (gs[t := Broadcast l pc], s)) (broadcast_step t l pc s)
        | Close c pc \<Rightarrow> map_option (\<lambda>(pc, s). (gs[t := Close c pc], s)) (close_step t c pc s))
     else None)"

fun run :: "nat list \<Rightarrow> server \<Rightarrow> server option" where
  "run [] s = Some s"
| "run (t # ts) s = Option.bind (run_step t s) (run ts)"

fun ended :: "goroutine \<Rightarrow> bool" where
  "ended (Broadcast _ pc) = (pc = B_done \<or> pc = B_panic)"
| "ended (Close _ pc) = (pc = C_done)"

definition stuck :: "server \<Rightarrow> bool" where
  "stuck s \<longleftrightarrow> list_all (\<lambda>t. run_step t s = None) [0..<length (fst s)] \<and> \<not> list_all ended (fst s)"

text \<open>The goroutines before their first step, with no lock taken.\<close>

fun fresh :: "goroutine \<Rightarrow> bool" where
  "fresh (Broadcast _ pc) = (pc = B_start)"
| "fresh (Close _ pc) = (pc = C_start)"

definition initial :: "server \<Rightarrow> bool" where
  "initial = (\<lambda>(gs, s). list_all fresh gs \<and> holder s = Map.empty \<and> aliveLock s = Map.empty)"

section \<open>Two goroutines that wait for each other\<close>

text \<open>
  A broadcast of a new block and the close of a subscribed channel that is alive: after the broadcast has taken the lock of the subscriptions and the close has taken the lock of the channel, none of them
  can go on.
\<close>

theorem broadcast_close_deadlock:
  assumes "initial ([Broadcast NewBlockLock B_start, Close c C_start], s)" "subscriptions s NewBlockLock = (c, i) # subs" "alive_l s c"
  shows "\<exists>gs s'. run [0, 0, 1, 1, 1] ([Broadcast NewBlockLock B_start, Close c C_start], s) = Some (gs, s') \<and> stuck (gs, s')"
  using assms by (simp add: initial_def run_step_def stuck_def upt_rec)

text \<open>A channel may be closed between the question whether it is alive and the send; then the send panics.\<close>

theorem broadcast_close_panic:
  assumes "initial ([Broadcast NewBlockLock B_start, Close c C_start], s)" "subscriptions s NewBlockLock = (c, i) # subs" "alive_l s c" "\<not> closed_l s c"
  shows "\<exists>gs s'. run [0, 0, 0, 1, 1, 1, 0] ([Broadcast NewBlockLock B_start, Close c C_start], s) = Some (gs, s') \<and> gs ! 0 = Broadcast NewBlockLock B_panic"
  using assms by (simp add: initial_def run_step_def)

definition sampleLocks :: locks where
  "sampleLocks = \<lparr> holder = Map.empty, aliveLock = Map.empty, alive_l = (\<lambda>_. True), closed_l = (\<lambda>_. False),
     subscriptions = (\<lambda>_. [(3, ''7'')]), sent = [] \<rparr>"

theorem broadcast_close_deadlock_witness:
  "\<exists>gs s'. run [0, 0, 1, 1, 1] ([Broadcast NewBlockLock B_start, Close 3 C_start], sampleLocks) = Some (gs, s') \<and> stuck (gs, s')"
  using broadcast_close_deadlock[of 3 sampleLocks "''7''" "[]"] by (simp add: initial_def sampleLocks_def)

theorem broadcast_close_panic_witness:
  "\<exists>gs s'. run [0, 0, 0, 1, 1, 1, 0] ([Broadcast NewBlockLock B_start, Close 3 C_start], sampleLocks) = Some (gs, s') \<and>
     gs ! 0 = Broadcast NewBlockLock B_panic"
  using broadcast_close_panic[of 3 sampleLocks "''7''" "[]"] by (simp add: initial_def sampleLocks_def)

section \<open>No other way to block\<close>

text \<open>The lock of subscriptions and the lock of a channel that a goroutine has taken.\<close>

fun inBroadcast :: "goroutine \<Rightarrow> subscriptionLock option" where
  "inBroadcast (Broadcast l pc) = (case pc of B_loop _ \<Rightarrow> Some l | B_check _ _ _ \<Rightarrow> Some l | B_send _ _ _ \<Rightarrow> Some l | _ \<Rightarrow> None)"
| "inBroadcast (Close _ _) = None"

fun inClose :: "goroutine \<Rightarrow> channel option" where
  "inClose (Broadcast _ _) = None"
| "inClose (Close c pc) = (if pc = C_start \<or> pc = C_done then None else Some c)"

text \<open>A table of locks says who is inside the code they guard.\<close>

definition guards :: "('k \<Rightarrow> nat option) \<Rightarrow> ('g \<Rightarrow> 'k option) \<Rightarrow> 'g list \<Rightarrow> bool" where
  "guards f ins gs \<longleftrightarrow> (\<forall>k t. f k = Some t \<longleftrightarrow> t < length gs \<and> ins (gs ! t) = Some k)"

lemma guards_same: "guards f ins gs \<Longrightarrow> ins g = ins (gs ! t) \<Longrightarrow> guards f ins (gs[t := g])"
  by (cases "t < length gs") (auto simp: guards_def nth_list_update)

lemma guards_enter:
  assumes "guards f ins gs" "t < length gs" "ins (gs ! t) = None" "f k = None" "ins g = Some k"
  shows "guards (f(k \<mapsto> t)) ins (gs[t := g])"
proof -
  have eq: "\<And>k t. f k = Some t \<longleftrightarrow> t < length gs \<and> ins (gs ! t) = Some k" using assms(1) by (simp add: guards_def)
  have "(f(k \<mapsto> t)) k' = Some t' \<longleftrightarrow> t' < length (gs[t := g]) \<and> ins (gs[t := g] ! t') = Some k'" for k' t'
    using assms(2-5) eq[of k' t'] by (cases "t' = t") auto
  then show ?thesis by (simp add: guards_def)
qed

lemma guards_leave:
  assumes "guards f ins gs" "t < length gs" "ins (gs ! t) = Some k" "ins g = None"
  shows "guards (f(k := None)) ins (gs[t := g])"
proof -
  have eq: "\<And>k t. f k = Some t \<longleftrightarrow> t < length gs \<and> ins (gs ! t) = Some k" using assms(1) by (simp add: guards_def)
  have "(f(k := None)) k' = Some t' \<longleftrightarrow> t' < length (gs[t := g]) \<and> ins (gs[t := g] ! t') = Some k'" for k' t'
    using assms(2-4) eq[of k' t'] eq[of k t] by (cases "t' = t") auto
  then show ?thesis by (simp add: guards_def)
qed

definition locksOk :: "server \<Rightarrow> bool" where
  "locksOk = (\<lambda>(gs, s). guards (holder s) inBroadcast gs \<and> guards (aliveLock s) inClose gs)"

lemma initial_locksOk: "initial s \<Longrightarrow> locksOk s"
proof -
  assume "initial s"
  then have f: "\<forall>t < length (fst s). fresh (fst s ! t)" and h: "holder (snd s) = Map.empty" "aliveLock (snd s) = Map.empty"
    by (auto simp: initial_def list_all_length)
  have "inBroadcast g = None \<and> inClose g = None" if "fresh g" for g using that by (cases g) auto
  then show "locksOk s" using f h by (auto simp: locksOk_def guards_def split_beta)
qed

lemma run_step_cases:
  assumes "run_step t (gs, s) = Some (gs', s')"
  obtains (broadcast) l pc pc' where "t < length gs" "gs ! t = Broadcast l pc" "broadcast_step t l pc s = Some (pc', s')" "gs' = gs[t := Broadcast l pc']"
  | (close) c pc pc' where "t < length gs" "gs ! t = Close c pc" "close_step t c pc s = Some (pc', s')" "gs' = gs[t := Close c pc']"
  using assms by (auto simp: run_step_def split: if_splits goroutine.splits)

lemma broadcast_step_locks:
  assumes "broadcast_step t l pc s = Some (pc', s')"
  shows "aliveLock s' = aliveLock s \<and>
    (inBroadcast (Broadcast l pc) = None \<and> inBroadcast (Broadcast l pc') = Some l \<and> holder s l = None \<and> holder s' = (holder s)(l \<mapsto> t) \<or>
     inBroadcast (Broadcast l pc) = Some l \<and> inBroadcast (Broadcast l pc') = None \<and> holder s' = (holder s)(l := None) \<or>
     inBroadcast (Broadcast l pc') = inBroadcast (Broadcast l pc) \<and> holder s' = holder s)"
  using assms by (cases "(t, l, pc, s)" rule: broadcast_step.cases) (auto split: if_splits)

lemma close_step_locks:
  assumes "close_step t c pc s = Some (pc', s')"
  shows "holder s' = holder s \<and>
    (inClose (Close c pc) = None \<and> inClose (Close c pc') = Some c \<and> aliveLock s c = None \<and> aliveLock s' = (aliveLock s)(c \<mapsto> t) \<or>
     inClose (Close c pc) = Some c \<and> inClose (Close c pc') = None \<and> aliveLock s' = (aliveLock s)(c := None) \<or>
     inClose (Close c pc') = inClose (Close c pc) \<and> aliveLock s' = aliveLock s)"
  using assms by (cases "(t, c, pc, s)" rule: close_step.cases) (auto split: if_splits)

lemma locksOk_step:
  assumes ok: "locksOk (gs, s)" and r: "run_step t (gs, s) = Some (gs', s')"
  shows "locksOk (gs', s')"
  using r
proof (cases rule: run_step_cases)
  case (broadcast l pc pc')
  have g: "guards (holder s) inBroadcast gs" "guards (aliveLock s) inClose gs" using ok by (simp_all add: locksOk_def)
  from broadcast_step_locks[OF broadcast(3)] have "guards (holder s') inBroadcast gs'"
    unfolding broadcast(4)
    by (metis g(1) broadcast(1,2) guards_same guards_enter guards_leave)
  moreover have "guards (aliveLock s') inClose gs'"
    using broadcast_step_locks[OF broadcast(3)] guards_same[OF g(2), of "Broadcast l pc'" t] by (simp add: broadcast(2,4))
  ultimately show ?thesis by (simp add: locksOk_def)
next
  case (close c pc pc')
  have g: "guards (holder s) inBroadcast gs" "guards (aliveLock s) inClose gs" using ok by (simp_all add: locksOk_def)
  from close_step_locks[OF close(3)] have "guards (aliveLock s') inClose gs'"
    unfolding close(4)
    by (metis g(2) close(1,2) guards_same guards_enter guards_leave)
  moreover have "guards (holder s') inBroadcast gs'"
    using close_step_locks[OF close(3)] guards_same[OF g(1), of "Close c pc'" t] by (simp add: close(2,4))
  ultimately show ?thesis by (simp add: locksOk_def)
qed

lemma holder_inside:
  assumes "locksOk (gs, s)" "holder s l = Some t"
  obtains pc where "t < length gs" "gs ! t = Broadcast l pc" "\<not> ended (Broadcast l pc)" "pc \<noteq> B_start"
proof -
  have "t < length gs" "inBroadcast (gs ! t) = Some l" using assms by (auto simp: locksOk_def guards_def)
  then show ?thesis using that by (cases "gs ! t") (auto split: broadcast_pc.splits)
qed

lemma aliveLock_inside:
  assumes "locksOk (gs, s)" "aliveLock s c = Some t"
  obtains pc where "t < length gs" "gs ! t = Close c pc" "\<not> ended (Close c pc)" "pc \<noteq> C_start"
proof -
  have "t < length gs" "inClose (gs ! t) = Some c" using assms by (auto simp: locksOk_def guards_def)
  then show ?thesis using that by (cases "gs ! t") (auto split: if_splits)
qed

lemma locksOk_run: "run ts s = Some s' \<Longrightarrow> locksOk s \<Longrightarrow> locksOk s'"
proof (induction ts arbitrary: s)
  case (Cons t ts)
  then obtain s1 where s1: "run_step t s = Some s1" "run ts s1 = Some s'" by (auto simp: bind_eq_Some_conv)
  then have "locksOk s1" using locksOk_step[of "fst s" "snd s" t "fst s1" "snd s1"] Cons.prems(2) by simp
  then show ?case using Cons.IH s1(2) by blast
qed simp

text \<open>What a goroutine waits for.\<close>

lemma broadcast_waits:
  "broadcast_step t l pc s = None \<Longrightarrow> \<not> ended (Broadcast l pc) \<Longrightarrow>
   pc = B_start \<and> holder s l \<noteq> None \<or> (\<exists>c i r. pc = B_check c i r \<and> aliveLock s c \<noteq> None)"
  by (cases "(t, l, pc, s)" rule: broadcast_step.cases) (auto split: if_splits)

lemma close_waits:
  "close_step t c pc s = None \<Longrightarrow> \<not> ended (Close c pc) \<Longrightarrow>
   pc = C_start \<and> aliveLock s c \<noteq> None \<or> pc = C_unsubscribeNewBlock \<and> holder s NewBlockLock \<noteq> None \<or>
   pc = C_unsubscribeAddresses \<and> holder s AddressLock \<noteq> None"
  by (cases "(t, c, pc, s)" rule: close_step.cases) (auto split: if_splits)

definition waitCycle :: "server \<Rightarrow> bool" where
  "waitCycle = (\<lambda>(gs, s). \<exists>t u l c i r pc. t < length gs \<and> u < length gs \<and> gs ! t = Broadcast l (B_check c i r) \<and> gs ! u = Close c pc \<and>
     aliveLock s c = Some u \<and> (pc = C_unsubscribeNewBlock \<and> holder s NewBlockLock \<noteq> None \<or> pc = C_unsubscribeAddresses \<and> holder s AddressLock \<noteq> None))"

lemma stuck_waitCycle:
  assumes ok: "locksOk (gs, s)" and st: "stuck (gs, s)"
  shows "waitCycle (gs, s)"
proof -
  have wait: "run_step t (gs, s) = None" if "t < length gs" for t using st that by (auto simp: stuck_def list_all_iff)
  have B: "pc = B_start \<and> holder s l \<noteq> None \<or> (\<exists>c i r. pc = B_check c i r \<and> aliveLock s c \<noteq> None)"
    if "t < length gs" "gs ! t = Broadcast l pc" "\<not> ended (Broadcast l pc)" for t l pc
    using wait[OF that(1)] that broadcast_waits[of t l pc s] by (auto simp: run_step_def)
  have C: "pc = C_start \<and> aliveLock s c \<noteq> None \<or> pc = C_unsubscribeNewBlock \<and> holder s NewBlockLock \<noteq> None \<or>
      pc = C_unsubscribeAddresses \<and> holder s AddressLock \<noteq> None"
    if "t < length gs" "gs ! t = Close c pc" "\<not> ended (Close c pc)" for t c pc
    using wait[OF that(1)] that close_waits[of t c pc s] by (auto simp: run_step_def)
  have held: "waitCycle (gs, s)" if h: "holder s l = Some t" for l t
  proof -
    obtain pc where t: "t < length gs" "gs ! t = Broadcast l pc" "\<not> ended (Broadcast l pc)" "pc \<noteq> B_start" by (rule holder_inside[OF ok h])
    then obtain c i r u where pc: "pc = B_check c i r" and u: "aliveLock s c = Some u" using B[OF t(1-3)] by auto
    obtain cpc where c: "u < length gs" "gs ! u = Close c cpc" "\<not> ended (Close c cpc)" "cpc \<noteq> C_start" by (rule aliveLock_inside[OF ok u])
    show ?thesis unfolding waitCycle_def case_prod_conv
      using t(1,2) pc u c(1,2,4) C[OF c(1-3)] by blast
  qed
  have closing: "\<exists>l t. holder s l = Some t" if h: "aliveLock s c = Some u" for c u
  proof -
    obtain cpc where c: "u < length gs" "gs ! u = Close c cpc" "\<not> ended (Close c cpc)" "cpc \<noteq> C_start" by (rule aliveLock_inside[OF ok h])
    then show ?thesis using C[OF c(1-3)] by auto
  qed
  from st obtain t where t: "t < length gs" "\<not> ended (gs ! t)" by (auto simp: stuck_def list_all_length)
  then show ?thesis using B[of t] C[of t] held closing by (cases "gs ! t") (metis not_None_eq)+
qed



section \<open>A broadcast on its own\<close>

lemma run_append: "run (ts @ us) s = Option.bind (run ts s) (run us)"
proof (induction ts arbitrary: s)
  case (Cons t ts)
  then show ?case by (cases "run_step t s") simp_all
qed simp

lemma broadcast_loop_ends:
  assumes "aliveLock s = Map.empty" "\<forall>c. alive_l s c \<longrightarrow> \<not> closed_l s c"
  shows "\<exists>n. run (replicate n 0) ([Broadcast l (B_loop subs)], s) =
    Some ([Broadcast l B_done], s\<lparr> holder := (holder s)(l := None), sent := sent s @ filter (\<lambda>(c, _). alive_l s c) subs \<rparr>)"
  using assms
proof (induction subs arbitrary: s)
  case Nil
  have "run (replicate 1 0) ([Broadcast l (B_loop [])], s) = Some ([Broadcast l B_done], s\<lparr> holder := (holder s)(l := None) \<rparr>)"
    by (simp add: run_step_def)
  moreover have "s\<lparr> holder := (holder s)(l := None) \<rparr> = s\<lparr> holder := (holder s)(l := None), sent := sent s @ filter (\<lambda>(c, _). alive_l s c) [] \<rparr>"
    by simp
  ultimately show ?case by metis
next
  case (Cons x subs)
  obtain c i where x: "x = (c, i)" by force
  define s1 where "s1 = s\<lparr> sent := sent s @ (if alive_l s c then [(c, i)] else []) \<rparr>"
  have p: "aliveLock s1 = Map.empty" "\<forall>c. alive_l s1 c \<longrightarrow> \<not> closed_l s1 c" using Cons.prems by (simp_all add: s1_def)
  obtain n where n: "run (replicate n 0) ([Broadcast l (B_loop subs)], s1) =
      Some ([Broadcast l B_done], s1\<lparr> holder := (holder s1)(l := None), sent := sent s1 @ filter (\<lambda>(c, _). alive_l s1 c) subs \<rparr>)"
    using Cons.IH[OF p] by blast
  define k :: nat where "k = (if alive_l s c then 3 else 2)"
  have "run (replicate k 0) ([Broadcast l (B_loop (x # subs))], s) = Some ([Broadcast l (B_loop subs)], s1)"
    using Cons.prems by (auto simp: k_def x run_step_def s1_def numeral_3_eq_3 numeral_2_eq_2)
  then have "run (replicate (k + n) 0) ([Broadcast l (B_loop (x # subs))], s) = run (replicate n 0) ([Broadcast l (B_loop subs)], s1)"
    by (simp add: replicate_add run_append)
  then show ?case unfolding n by (intro exI[of _ "k + n"]) (simp add: s1_def x fun_upd_def)
qed

text \<open>
  A broadcast that meets no close ends: it sends once to each subscriber that is alive, in the order of the subscriptions, and gives its lock back.
\<close>

theorem broadcast_alone_ends:
  assumes "initial ([Broadcast l B_start], s)" "\<forall>c. alive_l s c \<longrightarrow> \<not> closed_l s c"
  shows "\<exists>n s'. run (replicate n 0) ([Broadcast l B_start], s) = Some ([Broadcast l B_done], s') \<and> holder s' l = None \<and>
    sent s' = sent s @ filter (\<lambda>(c, _). alive_l s c) (subscriptions s l)"
proof -
  let ?s = "s\<lparr> holder := (holder s)(l \<mapsto> 0) \<rparr>"
  obtain n where n: "run (replicate n 0) ([Broadcast l (B_loop (subscriptions s l))], ?s) =
      Some ([Broadcast l B_done], ?s\<lparr> holder := (holder ?s)(l := None), sent := sent ?s @ filter (\<lambda>(c, _). alive_l ?s c) (subscriptions s l) \<rparr>)"
    using broadcast_loop_ends[of ?s l "subscriptions s l"] assms unfolding initial_def by fastforce
  have "run (replicate (Suc n) 0) ([Broadcast l B_start], s) = run (replicate n 0) ([Broadcast l (B_loop (subscriptions s l))], ?s)"
    using assms(1) by (simp add: initial_def run_step_def)
  then show ?thesis unfolding n by (intro exI[of _ "Suc n"]) simp
qed

theorem broadcast_alone_ends_witness:
  "\<exists>n s'. run (replicate n 0) ([Broadcast AddressLock B_start], sampleLocks) = Some ([Broadcast AddressLock B_done], s') \<and> sent s' = [(3, ''7'')]"
  using broadcast_alone_ends[of AddressLock sampleLocks] by (auto simp: initial_def sampleLocks_def)

end
