(* ===== verification/Internal_State.thy ===== *)
theory Internal_State
  imports Prelude
begin

text \<open>
  \<open>common/internalstate.go\<close>: the synchronization state and column statistics the program keeps in
  memory and stores in the default column. Every method locks the mutex for its whole body, so each is
  one atomic step from state to state. \<open>time.Now()\<close> is the argument \<open>now\<close>, nanoseconds as \<open>int\<close>.
\<close>

definition DbStateClosed :: uint32 where "DbStateClosed = 0"

definition DbStateOpen :: uint32 where "DbStateOpen = 1"

definition DbStateInconsistent :: uint32 where "DbStateInconsistent = 2"

record InternalStateColumn =
  Name_c :: string
  Version_c :: uint32
  Rows :: int64
  KeyBytes :: int64
  ValueBytes :: int64
  Updated :: int

record InternalState =
  Coin :: string
  CoinShortcut :: string
  CoinLabel :: string
  Host :: string
  DbState :: uint32
  LastStore :: int
  SyncMode :: bool
  InitialSync :: bool
  IsSynchronized :: bool
  BestHeight :: uint32
  LastSync :: int
  IsMempoolSynchronized :: bool
  MempoolSize :: int
  LastMempoolSync :: int
  DbColumns :: "InternalStateColumn list"

text \<open>The zero value \<open>InternalState{Coin: rpcCoin}\<close>.\<close>

definition newInternalState :: "string \<Rightarrow> InternalState" where
  "newInternalState rpcCoin = \<lparr> Coin = rpcCoin, CoinShortcut = [], CoinLabel = [], Host = [],
     DbState = 0, LastStore = 0, SyncMode = False, InitialSync = False, IsSynchronized = False,
     BestHeight = 0, LastSync = 0, IsMempoolSynchronized = False, MempoolSize = 0,
     LastMempoolSync = 0, DbColumns = [] \<rparr>"

section \<open>Synchronization\<close>

definition StartedSync :: "InternalState \<Rightarrow> InternalState" where
  "StartedSync st = st\<lparr> IsSynchronized := False \<rparr>"

definition FinishedSync :: "int \<Rightarrow> uint32 \<Rightarrow> InternalState \<Rightarrow> InternalState" where
  "FinishedSync now bestHeight st =
     st\<lparr> IsSynchronized := True, BestHeight := bestHeight, LastSync := now \<rparr>"

definition UpdateBestHeight :: "int \<Rightarrow> uint32 \<Rightarrow> InternalState \<Rightarrow> InternalState" where
  "UpdateBestHeight now bestHeight st = st\<lparr> BestHeight := bestHeight, LastSync := now \<rparr>"

definition FinishedSyncNoChange :: "InternalState \<Rightarrow> InternalState" where
  "FinishedSyncNoChange st = st\<lparr> IsSynchronized := True \<rparr>"

definition GetSyncState :: "InternalState \<Rightarrow> bool \<times> uint32 \<times> int" where
  "GetSyncState st = (IsSynchronized st, BestHeight st, LastSync st)"

definition StartedMempoolSync :: "InternalState \<Rightarrow> InternalState" where
  "StartedMempoolSync st = st\<lparr> IsMempoolSynchronized := False \<rparr>"

definition FinishedMempoolSync :: "int \<Rightarrow> int \<Rightarrow> InternalState \<Rightarrow> InternalState" where
  "FinishedMempoolSync now mempoolSize st =
     st\<lparr> IsMempoolSynchronized := True, MempoolSize := mempoolSize, LastMempoolSync := now \<rparr>"

definition GetMempoolSyncState :: "InternalState \<Rightarrow> bool \<times> int \<times> int" where
  "GetMempoolSyncState st = (IsMempoolSynchronized st, LastMempoolSync st, MempoolSize st)"

section \<open>Column statistics\<close>

definition AddDBColumnStats :: "int \<Rightarrow> nat \<Rightarrow> int64 \<Rightarrow> int64 \<Rightarrow> int64 \<Rightarrow> InternalState \<Rightarrow> go_error + InternalState" where
  "AddDBColumnStats now c rowsDiff keyBytesDiff valueBytesDiff st =
     rbind (index (DbColumns st) c) (\<lambda>dc.
     Inr (st\<lparr> DbColumns := (DbColumns st)[c := dc\<lparr> Rows := Rows dc + rowsDiff,
       KeyBytes := KeyBytes dc + keyBytesDiff, ValueBytes := ValueBytes dc + valueBytesDiff,
       Updated := now \<rparr>] \<rparr>))"

definition SetDBColumnStats :: "int \<Rightarrow> nat \<Rightarrow> int64 \<Rightarrow> int64 \<Rightarrow> int64 \<Rightarrow> InternalState \<Rightarrow> go_error + InternalState" where
  "SetDBColumnStats now c rows keyBytes valueBytes st =
     rbind (index (DbColumns st) c) (\<lambda>dc.
     Inr (st\<lparr> DbColumns := (DbColumns st)[c := dc\<lparr> Rows := rows, KeyBytes := keyBytes,
       ValueBytes := valueBytes, Updated := now \<rparr>] \<rparr>))"

definition GetDBColumnStatValues :: "nat \<Rightarrow> InternalState \<Rightarrow> int64 \<times> int64 \<times> int64" where
  "GetDBColumnStatValues c st =
     (if c < length (DbColumns st)
      then (Rows (DbColumns st ! c), KeyBytes (DbColumns st ! c), ValueBytes (DbColumns st ! c))
      else (0, 0, 0))"

definition GetAllDBColumnStats :: "InternalState \<Rightarrow> InternalStateColumn list" where
  "GetAllDBColumnStats st = DbColumns st"

definition DBSizeTotal :: "InternalState \<Rightarrow> int64" where
  "DBSizeTotal st = fold (\<lambda>c total. total + (KeyBytes c + ValueBytes c)) (DbColumns st) 0"

section \<open>Lemmas\<close>

lemma fold_add_shift:
  fixes t :: "'a :: comm_monoid_add"
  shows "fold (\<lambda>c t. t + f c) cs t = t + sum_list (map f cs)"
  by (induction cs arbitrary: t) (simp_all add: add.assoc)

lemma DBSizeTotal_sum: "DBSizeTotal st = sum_list (map (\<lambda>c. KeyBytes c + ValueBytes c) (DbColumns st))"
  by (simp add: DBSizeTotal_def fold_add_shift)

lemma sum_list_map_update:
  fixes f :: "'b \<Rightarrow> 'a :: ab_group_add"
  shows "i < length xs \<Longrightarrow> sum_list (map f (xs[i := x])) = sum_list (map f xs) - f (xs ! i) + f x"
  by (induction xs arbitrary: i) (auto simp: algebra_simps split: nat.splits)

lemma AddDBColumnStats_total:
  "AddDBColumnStats now c r k x st = Inr st' \<Longrightarrow> DBSizeTotal st' = DBSizeTotal st + k + x"
  by (auto simp: AddDBColumnStats_def index_def DBSizeTotal_sum sum_list_map_update algebra_simps
      split: if_splits)

lemma AddDBColumnStats_values:
  "AddDBColumnStats now c r k x st = Inr st' \<Longrightarrow>
   GetDBColumnStatValues j st' =
     (if j = c then (case GetDBColumnStatValues c st of (r0, k0, x0) \<Rightarrow> (r0 + r, k0 + k, x0 + x))
      else GetDBColumnStatValues j st)"
  by (auto simp: AddDBColumnStats_def index_def GetDBColumnStatValues_def split: if_splits)

lemma AddDBColumnStats_returns:
  "c < length (DbColumns st) \<Longrightarrow>
   \<exists>st'. AddDBColumnStats now c r k x st = Inr st' \<and> length (DbColumns st') = length (DbColumns st)"
  by (simp add: AddDBColumnStats_def index_def)

text \<open>The statistics of the columns add up: adding a difference to one column changes the total size
  by exactly that difference (modulo \<open>2^64\<close>), changes the values read back for that column by the
  difference and those of no other column, and adding and then removing the same entry restores every
  value.\<close>

theorem columnStats_add:
  assumes "c < length (DbColumns st)"
  shows "\<exists>st'. AddDBColumnStats now c r k x st = Inr st' \<and>
    DBSizeTotal st' = DBSizeTotal st + k + x \<and>
    (\<forall>j. GetDBColumnStatValues j st' =
      (if j = c then (case GetDBColumnStatValues c st of (r0, k0, x0) \<Rightarrow> (r0 + r, k0 + k, x0 + x))
       else GetDBColumnStatValues j st)) \<and>
    (\<exists>st''. AddDBColumnStats now' c (- r) (- k) (- x) st' = Inr st'' \<and>
      (\<forall>j. GetDBColumnStatValues j st'' = GetDBColumnStatValues j st))"
proof -
  obtain st' where st': "AddDBColumnStats now c r k x st = Inr st'"
      "length (DbColumns st') = length (DbColumns st)"
    using AddDBColumnStats_returns[OF assms] by blast
  with assms obtain st'' where st'': "AddDBColumnStats now' c (- r) (- k) (- x) st' = Inr st''"
    using AddDBColumnStats_returns[of c st'] by metis
  have "GetDBColumnStatValues j st'' = GetDBColumnStatValues j st" for j
    unfolding AddDBColumnStats_values[OF st''] AddDBColumnStats_values[OF st'(1)]
    by (simp split: prod.splits)
  with st' st'' show ?thesis
    using AddDBColumnStats_total[OF st'(1)] AddDBColumnStats_values[OF st'(1)] by blast
qed

definition sampleState :: InternalState where
  "sampleState = (newInternalState ''Bitcoin'')\<lparr> DbColumns := [\<lparr> Name_c = ''default'',
     Version_c = 5, Rows = 1, KeyBytes = 10, ValueBytes = 20, Updated = 0 \<rparr>] \<rparr>"

theorem columnStats_add_witness:
  "\<exists>st'. AddDBColumnStats 5 0 1 32 100 sampleState = Inr st' \<and> GetDBColumnStatValues 0 st' = (2, 42, 120)"
proof -
  have "0 < length (DbColumns sampleState)" by (simp add: sampleState_def)
  then obtain st' where "AddDBColumnStats 5 0 1 32 100 sampleState = Inr st'"
    and "\<forall>j. GetDBColumnStatValues j st' = (if j = 0 then
       (case GetDBColumnStatValues 0 sampleState of (r0, k0, x0) \<Rightarrow> (r0 + 1, k0 + 32, x0 + 100))
        else GetDBColumnStatValues j sampleState)"
    using columnStats_add[of 0 sampleState 5 1 32 100 0] by blast
  moreover have "GetDBColumnStatValues 0 sampleState = (1, 10, 20)"
    by (simp add: GetDBColumnStatValues_def sampleState_def)
  ultimately show ?thesis by simp
qed

end
