(* ===== verification/Packages.thy ===== *)
theory Packages
  imports Internal_State
begin

text \<open>
  The third-party Go packages the indexer calls, as parameters of the model. None of their code
  is part of the repository, so each package is a record of the functions the code calls, and what
  the code relies on is a locale: the variable-length integers of \<open>github.com/bsm/go-vlq\<close>
  (\<open>vlq_codec\<close>) and the column families, write batches and iterators of
  \<open>github.com/tecbot/gorocksdb\<close> (\<open>rocks_store\<close>). Each locale is interpreted on a complete
  implementation, a base-128 codec and an in-memory store, which is also what the witnesses of the
  properties run on.
\<close>

section \<open>Variable-length integers\<close>

text \<open>
  \<open>vlq.PutUint(buf, x)\<close> writes the encoding of \<open>x\<close> at the start of \<open>buf\<close> and returns its length;
  the callers append exactly these bytes, so the model's \<open>PutUint\<close> is the bytes written.
  \<open>vlq.Uint(buf)\<close> returns the value at the start of \<open>buf\<close> and the number of bytes read.
\<close>

record vlq =
  PutUint :: "uint64 \<Rightarrow> bytes"
  UintAt :: "bytes \<Rightarrow> uint64 \<times> nat"
  PutInt :: "int64 \<Rightarrow> bytes"
  IntAt :: "bytes \<Rightarrow> int64 \<times> nat"

locale vlq_codec =
  fixes v :: vlq
  assumes UintAt_PutUint [simp]: "UintAt v (PutUint v x @ rest) = (x, length (PutUint v x))"
    and IntAt_PutInt [simp]: "IntAt v (PutInt v i @ rest) = (i, length (PutInt v i))"
    and PutUint_nonempty: "PutUint v x \<noteq> []"
    and PutInt_nonempty: "PutInt v i \<noteq> []"
begin

lemma PutUint_length_pos [simp]: "0 < length (PutUint v x)"
  using PutUint_nonempty by blast

lemma PutInt_length_pos [simp]: "0 < length (PutInt v i)"
  using PutInt_nonempty by blast

lemma UintAt_PutUint_only [simp]: "UintAt v (PutUint v x) = (x, length (PutUint v x))"
  using UintAt_PutUint[of x "[]"] by simp

lemma IntAt_PutInt_only [simp]: "IntAt v (PutInt v i) = (i, length (PutInt v i))"
  using IntAt_PutInt[of i "[]"] by simp

lemma PutUint_inject: "PutUint v x = PutUint v y \<Longrightarrow> x = y"
  by (metis UintAt_PutUint_only prod.inject)

end

subsection \<open>A base-128 codec that meets the contract\<close>

text \<open>Most significant group first, the high bit set on every byte but the last.\<close>

fun vlq_high :: "nat \<Rightarrow> bytes" where
  "vlq_high n = (if n = 0 then [] else vlq_high (n div 128) @ [of_nat (128 + n mod 128)])"

declare vlq_high.simps [simp del]

text \<open>The code equation evaluates the guard before it unfolds the recursive call.\<close>

definition vlq_high_if :: "bool \<Rightarrow> nat \<Rightarrow> bytes" where
  "vlq_high_if b n = (if b then [] else vlq_high (n div 128) @ [of_nat (128 + n mod 128)])"

lemma vlq_high_if_code [code]:
  "vlq_high_if True n = []"
  "vlq_high_if False n = vlq_high (n div 128) @ [of_nat (128 + n mod 128)]"
  by (simp_all add: vlq_high_if_def)

lemma vlq_high_code [code]: "vlq_high n = vlq_high_if (n = 0) n"
  unfolding vlq_high_if_def by (rule vlq_high.simps)

definition vlq_bytes :: "nat \<Rightarrow> bytes" where
  "vlq_bytes n = vlq_high (n div 128) @ [of_nat (n mod 128)]"

fun vlq_read :: "nat \<Rightarrow> nat \<Rightarrow> bytes \<Rightarrow> nat \<times> nat" where
  "vlq_read a k [] = (a, k)"
| "vlq_read a k (b # bs) =
     (if unat b < 128 then (a * 128 + unat b, Suc k)
      else vlq_read (a * 128 + (unat b - 128)) (Suc k) bs)"

lemma vlq_read_high:
  "vlq_read a k (vlq_high n @ bs) =
     vlq_read (a * 128 ^ length (vlq_high n) + n) (k + length (vlq_high n)) bs"
proof (induction n arbitrary: bs rule: vlq_high.induct)
  case (1 n)
  show ?case
  proof (cases "n = 0")
    case True
    then show ?thesis by (simp add: vlq_high.simps)
  next
    case False
    have b: "unat (of_nat (128 + n mod 128) :: byte) = 128 + n mod 128"
      by (simp only: unat_of_nat) simp
    have h: "vlq_high n = vlq_high (n div 128) @ [of_nat (128 + n mod 128)]"
      using False by (subst vlq_high.simps) simp
    show ?thesis
      unfolding h using "1.IH"[OF False] b by (simp add: algebra_simps)
  qed
qed

lemma vlq_bytes_nonempty: "vlq_bytes n \<noteq> []"
  by (simp add: vlq_bytes_def)

lemma vlq_read_bytes: "vlq_read 0 0 (vlq_bytes n @ bs) = (n, length (vlq_bytes n))"
proof -
  have "unat (of_nat (n mod 128) :: byte) = n mod 128" by (simp add: unat_of_nat)
  then show ?thesis by (simp add: vlq_bytes_def vlq_read_high)
qed

definition zigzag :: "int64 \<Rightarrow> nat" where
  "zigzag i = (if 0 \<le> sint i then nat (2 * sint i) else nat (- 2 * sint i - 1))"

definition unzigzag :: "nat \<Rightarrow> int64" where
  "unzigzag n = word_of_int (if even n then int (n div 2) else - int (n div 2) - 1)"

lemma unzigzag_zigzag: "unzigzag (zigzag i) = i"
proof (cases "0 \<le> sint i")
  case True
  then obtain n where n: "sint i = int n" using zero_le_imp_eq_int by blast
  have "(of_int (sint i) :: int64) = i" by simp
  with n have "(of_nat n :: int64) = i" by simp
  with n show ?thesis by (simp add: zigzag_def unzigzag_def nat_mult_distrib)
next
  case False
  define n where "n = nat (- sint i - 1)"
  with False have n: "sint i = - int n - 1" by simp
  then have "zigzag i = 2 * n + 1" by (simp add: zigzag_def)
  then have "unzigzag (zigzag i) = word_of_int (- int n - 1)" by (simp add: unzigzag_def)
  also have "\<dots> = of_int (sint i)" by (simp add: n)
  finally show ?thesis by simp
qed

definition base128 :: vlq where
  "base128 = \<lparr> PutUint = (\<lambda>x. vlq_bytes (unat x)),
     UintAt = (\<lambda>bs. map_prod of_nat id (vlq_read 0 0 bs)),
     PutInt = (\<lambda>i. vlq_bytes (zigzag i)),
     IntAt = (\<lambda>bs. map_prod unzigzag id (vlq_read 0 0 bs)) \<rparr>"

interpretation base128: vlq_codec base128
  by unfold_locales
    (simp_all add: base128_def vlq_read_bytes unzigzag_zigzag vlq_bytes_nonempty)

section \<open>The key-value store\<close>

text \<open>The column families of \<open>db/rocksdb.go\<close>; \<open>cfAddressContracts\<close> is \<open>cfAddressBalance\<close>.\<close>

datatype cf = cfDefault | cfHeight | cfAddresses | cfBlockTxs | cfTransactions
  | cfAddressBalance | cfTxAddresses

abbreviation cfAddressContracts :: cf where
  "cfAddressContracts \<equiv> cfAddressBalance"

datatype wb_op = PutWB cf bytes bytes | DeleteWB cf bytes

type_synonym WriteBatch = "wb_op list"

text \<open>
  \<open>GetCF\<close> returns \<open>None\<close> where \<open>Slice.Data()\<close> is nil (the key is not stored); a stored empty value
  is \<open>Some []\<close>. \<open>IteratorCF\<close> is the sequence of entries a new iterator visits from
  \<open>SeekToFirst\<close>.
\<close>

record 's gorocksdb =
  GetCF :: "'s \<Rightarrow> cf \<Rightarrow> bytes \<Rightarrow> go_error + bytes option"
  PutCF :: "'s \<Rightarrow> cf \<Rightarrow> bytes \<Rightarrow> bytes \<Rightarrow> go_error + 's"
  DeleteCF :: "'s \<Rightarrow> cf \<Rightarrow> bytes \<Rightarrow> go_error + 's"
  WriteWB :: "'s \<Rightarrow> WriteBatch \<Rightarrow> go_error + 's"
  IteratorCF :: "'s \<Rightarrow> cf \<Rightarrow> (bytes \<times> bytes) list"

type_synonym contents = "cf \<Rightarrow> bytes \<Rightarrow> bytes option"

fun apply_op :: "wb_op \<Rightarrow> contents \<Rightarrow> contents" where
  "apply_op (PutWB c k x) m = m(c := (m c)(k \<mapsto> x))"
| "apply_op (DeleteWB c k) m = m(c := (m c)(k := None))"

definition apply_batch :: "WriteBatch \<Rightarrow> contents \<Rightarrow> contents" where
  "apply_batch wb m = fold apply_op wb m"

lemma apply_batch_Nil [store_simps]: "apply_batch [] m = m"
  by (simp add: apply_batch_def)

lemma apply_batch_Cons [store_simps]: "apply_batch (x # wb) m = apply_batch wb (apply_op x m)"
  by (simp add: apply_batch_def)

lemma apply_batch_append [store_simps]:
  "apply_batch (xs @ ys) m = apply_batch ys (apply_batch xs m)"
  by (simp add: apply_batch_def)

fun wb_cf :: "wb_op \<Rightarrow> cf" where
  "wb_cf (PutWB c _ _) = c"
| "wb_cf (DeleteWB c _) = c"

fun wb_key :: "wb_op \<Rightarrow> bytes" where
  "wb_key (PutWB _ k _) = k"
| "wb_key (DeleteWB _ k) = k"

fun wb_val :: "wb_op \<Rightarrow> bytes option" where
  "wb_val (PutWB _ _ x) = Some x"
| "wb_val (DeleteWB _ _) = None"

lemma apply_op_other: "(wb_cf x, wb_key x) \<noteq> (c, k) \<Longrightarrow> apply_op x m c k = m c k"
  by (cases x) auto

lemma apply_op_same: "wb_cf x = c \<Longrightarrow> wb_key x = k \<Longrightarrow> apply_op x m c k = wb_val x"
  by (cases x) auto

text \<open>A key that no operation of the batch names keeps its value.\<close>

lemma apply_batch_other:
  "(\<And>x. x \<in> set wb \<Longrightarrow> (wb_cf x, wb_key x) \<noteq> (c, k)) \<Longrightarrow> apply_batch wb m c k = m c k"
proof (induction wb arbitrary: m)
  case (Cons x wb)
  then have "apply_batch wb (apply_op x m) c k = apply_op x m c k" by simp
  also have "\<dots> = m c k" by (rule apply_op_other) (use Cons.prems in auto)
  finally show ?case by (simp add: apply_batch_Cons)
qed (simp add: apply_batch_Nil)

text \<open>An operation whose key no later operation names decides the value.\<close>

lemma apply_batch_last:
  assumes "(wb_cf x, wb_key x) = (c, k)"
    and "\<And>y. y \<in> set ys \<Longrightarrow> (wb_cf y, wb_key y) \<noteq> (c, k)"
  shows "apply_batch (xs @ x # ys) m c k = wb_val x"
  using assms by (simp add: apply_batch_append apply_batch_Cons apply_batch_other apply_op_same)

text \<open>
  A batch whose operations name distinct keys has the same effect in any order: the batches the
  code builds by ranging over a Go map do not depend on the iteration order.
\<close>

lemma apply_batch_distinct:
  assumes "distinct (map (\<lambda>x. (wb_cf x, wb_key x)) wb)" and "x \<in> set wb"
  shows "apply_batch wb m (wb_cf x) (wb_key x) = wb_val x"
proof -
  from assms(2) obtain xs ys where wb: "wb = xs @ x # ys" by (auto dest: split_list)
  show ?thesis unfolding wb
    by (rule apply_batch_last) (use assms(1) wb in \<open>auto simp: image_iff\<close>)
qed

lemma apply_batch_perm:
  assumes "distinct (map (\<lambda>x. (wb_cf x, wb_key x)) wb)"
    and "distinct (map (\<lambda>x. (wb_cf x, wb_key x)) wb')" and "set wb = set wb'"
  shows "apply_batch wb m = apply_batch wb' m"
proof (intro ext)
  fix c k
  show "apply_batch wb m c k = apply_batch wb' m c k"
  proof (cases "\<exists>x \<in> set wb. (wb_cf x, wb_key x) = (c, k)")
    case True
    then obtain x where "x \<in> set wb" "wb_cf x = c" "wb_key x = k" by auto
    then show ?thesis
      using apply_batch_distinct[OF assms(1), of x m] apply_batch_distinct[OF assms(2), of x m]
        assms(3) by simp
  next
    case False
    then show ?thesis
      using apply_batch_other[of wb c k m] apply_batch_other[of wb' c k m] assms(3) by auto
  qed
qed

locale rocks_store =
  fixes R :: "'s gorocksdb" and contents :: "'s \<Rightarrow> contents"
  assumes GetCF_contents: "GetCF R s c k = Inr r \<Longrightarrow> r = contents s c k"
    and PutCF_contents:
      "PutCF R s c k x = Inr s' \<Longrightarrow> contents s' = apply_op (PutWB c k x) (contents s)"
    and DeleteCF_contents:
      "DeleteCF R s c k = Inr s' \<Longrightarrow> contents s' = apply_op (DeleteWB c k) (contents s)"
    and WriteWB_contents: "WriteWB R s wb = Inr s' \<Longrightarrow> contents s' = apply_batch wb (contents s)"
    and IteratorCF_sorted: "sorted_wrt (<) (map fst (IteratorCF R s c))"
    and IteratorCF_contents: "map_of (IteratorCF R s c) = contents s c"
begin

lemma IteratorCF_distinct: "distinct (map fst (IteratorCF R s c))"
  using IteratorCF_sorted[of s c] by (induction "IteratorCF R s c" rule: list.induct)
    (simp_all add: strict_sorted_iff)

lemma IteratorCF_Some_iff: "contents s c k = Some x \<longleftrightarrow> (k, x) \<in> set (IteratorCF R s c)"
  using IteratorCF_distinct[of s c] IteratorCF_contents[of s c] by (metis map_of_eq_Some_iff)

end

text \<open>
  A store that never fails, the extra law of an in-memory database: then the handlers return
  whenever the data they read can be decoded.
\<close>

locale reliable_store = rocks_store R contents for R :: "'s gorocksdb" and contents +
  assumes GetCF_returns: "\<exists>r. GetCF R s c k = Inr r"
    and PutCF_returns: "\<exists>s'. PutCF R s c k x = Inr s'"
    and DeleteCF_returns: "\<exists>s'. DeleteCF R s c k = Inr s'"
    and WriteWB_returns: "\<exists>s'. WriteWB R s wb = Inr s'"
begin

lemma GetCF_eq: "GetCF R s c k = Inr (contents s c k)"
  using GetCF_returns[of s c k] GetCF_contents by blast

end

subsection \<open>An in-memory store that meets the contract\<close>

type_synonym mem = "cf \<Rightarrow> (bytes, bytes) gomap"

fun mem_op :: "wb_op \<Rightarrow> mem \<Rightarrow> mem" where
  "mem_op (PutWB c k x) s = s(c := AList.update k x (s c))"
| "mem_op (DeleteWB c k) s = s(c := AList.delete k (s c))"

definition mem_contents :: "mem \<Rightarrow> contents" where
  "mem_contents s c = map_of (s c)"

definition memdb :: "mem gorocksdb" where
  "memdb = \<lparr> GetCF = (\<lambda>s c k. Inr (map_of (s c) k)),
     PutCF = (\<lambda>s c k x. Inr (mem_op (PutWB c k x) s)),
     DeleteCF = (\<lambda>s c k. Inr (mem_op (DeleteWB c k) s)),
     WriteWB = (\<lambda>s wb. Inr (fold mem_op wb s)),
     IteratorCF = (\<lambda>s c. sort_key fst (AList.clearjunk (s c))) \<rparr>"

lemma mem_contents_op: "mem_contents (mem_op x s) = apply_op x (mem_contents s)"
  by (cases x) (auto simp: mem_contents_def fun_eq_iff)

lemma mem_contents_fold: "mem_contents (fold mem_op wb s) = apply_batch wb (mem_contents s)"
  by (induction wb arbitrary: s) (simp_all add: store_simps mem_contents_op)

lemma memdb_iterator:
  "sorted_wrt (<) (map fst (sort_key fst (AList.clearjunk m)))"
  "map_of (sort_key fst (AList.clearjunk m)) = map_of (m :: (bytes, bytes) gomap)"
proof -
  let ?xs = "sort_key fst (AList.clearjunk m)"
  have d: "distinct (map fst ?xs)"
    by (metis distinct_clearjunk distinct_map distinct_sort set_sort)
  then show "sorted_wrt (<) (map fst ?xs)"
    by (simp add: strict_sorted_iff)
  have "map_of ?xs = map_of (AList.clearjunk m)"
    by (rule map_of_eqI) (use d in \<open>auto simp: map_of_eq_Some_iff distinct_clearjunk\<close>)
  then show "map_of ?xs = map_of m" by (simp add: map_of_clearjunk)
qed

interpretation memdb: reliable_store memdb mem_contents
  by unfold_locales
    (auto simp: memdb_def mem_contents_def[abs_def] mem_contents_op[unfolded mem_contents_def[abs_def]]
       mem_contents_fold[unfolded mem_contents_def[abs_def]] memdb_iterator)

section \<open>Script building\<close>

text \<open>The calls \<open>NewScriptBuilder().AddOp(..)...AddData(..).Script()\<close> of \<open>txscript\<close>.\<close>

datatype script_item = AddOp byte | AddData bytes

section \<open>The packages together\<close>

text \<open>
  \<open>encoding/json\<close> on the internal state is used only to store it and to load it again, so it is a
  parameter too. \<open>Now\<close> is the clock reading at which an operation runs; the index only stores it.
\<close>

record 's packages =
  vlq :: vlq
  rocks :: "'s gorocksdb"
  ScriptBuilder :: "script_item list \<Rightarrow> go_error + bytes"
  MarshalState :: "InternalState \<Rightarrow> go_error + bytes"
  UnmarshalState :: "bytes \<Rightarrow> go_error + InternalState"
  Now :: int

text \<open>
  The packages on the base-128 codec and the in-memory store, with scripts of short data pushes and an
  internal state that is not kept; the witnesses run on it.
\<close>

definition script_bytes :: "script_item \<Rightarrow> bytes" where
  "script_bytes i = (case i of AddOp b \<Rightarrow> [b] | AddData bs \<Rightarrow> of_nat (length bs) # bs)"

definition memPackages :: "mem packages" where
  "memPackages = \<lparr> vlq = base128, rocks = memdb, ScriptBuilder = (\<lambda>items. Inr (concat (map script_bytes items))),
     MarshalState = (\<lambda>_. Inr []), UnmarshalState = (\<lambda>_. Inl (Errorf ''no state'')), Now = 0 \<rparr>"

lemma memPackages_simps [simp]:
  "vlq memPackages = base128" "rocks memPackages = memdb" "Now memPackages = 0"
  "ScriptBuilder memPackages items = Inr (concat (map script_bytes items))"
  by (simp_all add: memPackages_def)

end
