(* ===== verification/Chain_Types.thy ===== *)
theory Chain_Types
  imports Prelude
begin

text \<open>
  The data of \<open>bchain/types.go\<close>: transactions, blocks, and the \<open>BlockChainParser\<close> interface through
  which the index and the mempool see a coin. A struct is a record; a field whose name several
  structs share carries the struct as a suffix. An embedded struct (\<open>BlockHeader\<close> in \<open>Block\<close>) is a
  record extension. A Go interface is a record of its methods; the receiver's configuration is fixed
  when the program starts, so the methods are functions of their arguments alone.
\<close>

datatype ChainType = ChainBitcoinType | ChainEthereumType | ChainOtherType int

text \<open>\<open>AddressDescriptor\<close> is a byte slice; the empty list stands for nil and for the empty slice,
  which the code tells apart only where an option is used below.\<close>

type_synonym AddressDescriptor = bytes

record Outpoint =
  Txid_op :: string
  Vout_op :: int32

record ScriptSig =
  Hex_ss :: string

record Vin =
  Coinbase :: string
  Txid_vin :: string
  Vout_vin :: uint32
  ScriptSig_vin :: ScriptSig
  Sequence :: uint32
  Addresses_vin :: "string list"

record ScriptPubKey =
  Hex_spk :: string
  Addresses_spk :: "string list"

record Vout =
  ValueSat_vout :: int
  JsonValue :: string
  N_vout :: uint32
  ScriptPubKey_vout :: ScriptPubKey

record VShieldIn =
  Data_vsi :: string

record VShieldOut =
  Data_vso :: string

text \<open>
  \<open>CoinSpecificData\<close> is an \<open>interface{}\<close>. The dynamic types the program puts there are the raw JSON of
  a bitcoin type back end and the \<open>completeTransaction\<close> of \<open>coins/eth/ethparser.go\<close>, which is declared here for this
  reason; \<open>NoData\<close> is nil. The pointer \<open>Tx\<close> of a complete transaction is never nil where one is built.
\<close>

record rpcTransaction =
  AccountNonce :: string
  GasPrice :: string
  GasLimit :: string
  To_rt :: string
  Value_rt :: string
  Payload :: string
  Hash_rt :: string
  BlockNumber :: string
  BlockHash :: string
  From_rt :: string
  TransactionIndex :: string

record rpcLog =
  Address_rl :: string
  Topics :: "string list"
  Data_rl :: string

record rpcReceipt =
  GasUsed :: string
  Status_rr :: string
  Logs :: "rpcLog list"

record completeTransaction =
  Tx_ct :: rpcTransaction
  Receipt_ct :: "rpcReceipt option"

datatype coin_data = NoData | RawMessage string | CompleteTransaction completeTransaction

record Tx =
  Hex_tx :: string
  Txid_tx :: string
  Version_tx :: int32
  LockTime :: uint32
  Vin_tx :: "Vin list"
  Vout_tx :: "Vout list"
  Confirmations_tx :: uint32
  Time_tx :: int64
  Blocktime :: int64
  VShieldIn_tx :: "VShieldIn list"
  VShieldOut_tx :: "VShieldOut list"
  ShieldValBal_tx :: int
  CoinSpecificData :: coin_data

record BlockHeader =
  Hash_bh :: string
  Prev_bh :: string
  Next_bh :: string
  Height_bh :: uint32
  Confirmations_bh :: int
  Size_bh :: int
  Time_bh :: int64

record Block = BlockHeader +
  Txs_blk :: "Tx list"

record Erc20Transfer =
  Contract_et :: string
  From_et :: string
  To_et :: string
  Tokens_et :: int

record MempoolTxidEntry =
  Txid_me :: string
  Time_me :: uint32

type_synonym MempoolTxidEntries = "MempoolTxidEntry list"

record BlockChainParser =
  GetChainType :: ChainType
  KeepBlockAddresses :: int
  AmountDecimals :: int
  AmountToDecimalString_p :: "int option \<Rightarrow> go_error + string"
  AmountToBigInt_p :: "string \<Rightarrow> go_error + int"
  GetAddrDescFromVout :: "Vout \<Rightarrow> go_error + AddressDescriptor"
  GetAddrDescFromAddress :: "string \<Rightarrow> go_error + AddressDescriptor"
  GetAddressesFromAddrDesc :: "AddressDescriptor \<Rightarrow> go_error + (string list \<times> bool)"
  GetScriptFromAddrDesc :: "AddressDescriptor \<Rightarrow> go_error + bytes"
  IsAddrDescIndexable :: "AddressDescriptor \<Rightarrow> bool"
  PackedTxidLen :: nat
  PackTxid :: "string \<Rightarrow> go_error + bytes"
  UnpackTxid :: "bytes \<Rightarrow> go_error + string"
  ParseTx :: "bytes \<Rightarrow> go_error + Tx"
  ParseTxFromJson :: "string \<Rightarrow> go_error + Tx"
  PackTx :: "Tx \<Rightarrow> uint32 \<Rightarrow> int64 \<Rightarrow> go_error + bytes"
  UnpackTx :: "bytes \<Rightarrow> go_error + (Tx \<times> uint32)"
  GetAddrDescForUnknownInput :: "Tx \<Rightarrow> nat \<Rightarrow> AddressDescriptor"
  GetValueSatForUnknownInput :: "Tx \<Rightarrow> nat \<Rightarrow> int"
  PackBlockHash :: "string \<Rightarrow> go_error + bytes"
  UnpackBlockHash :: "bytes \<Rightarrow> go_error + string"
  ParseBlock :: "bytes \<Rightarrow> go_error + Block"
  DerivationBasePath :: "string \<Rightarrow> go_error + string"
  DeriveAddressDescriptors :: "string \<Rightarrow> uint32 \<Rightarrow> uint32 list \<Rightarrow> go_error + AddressDescriptor list"
  DeriveAddressDescriptorsFromTo :: "string \<Rightarrow> uint32 \<Rightarrow> uint32 \<Rightarrow> uint32 \<Rightarrow> go_error + AddressDescriptor list"
  EthereumTypeGetErc20FromTx :: "Tx \<Rightarrow> go_error + Erc20Transfer list"

text \<open>
  What the index relies on from a parser: packed transaction ids and block hashes have the
  announced length and unpack to the string they were packed from. A txid in the canonical form is
  one that \<open>UnpackTxid\<close> returns.
\<close>

locale txid_parser =
  fixes p :: BlockChainParser
  assumes PackedTxidLen_pos: "0 < PackedTxidLen p"
    and UnpackTxid_returns: "\<exists>s. UnpackTxid p b = Inr s"
    and PackTxid_UnpackTxid:
      "length b = PackedTxidLen p \<Longrightarrow> UnpackTxid p b = Inr s \<Longrightarrow> PackTxid p s = Inr b"
    and UnpackBlockHash_returns: "\<exists>s. UnpackBlockHash p b = Inr s"
    and PackBlockHash_UnpackBlockHash:
      "UnpackBlockHash p b = Inr s \<Longrightarrow> PackBlockHash p s = Inr b"
begin

lemma UnpackTxid_inject:
  "length b = PackedTxidLen p \<Longrightarrow> length c = PackedTxidLen p \<Longrightarrow>
   UnpackTxid p b = UnpackTxid p c \<Longrightarrow> b = c"
  using UnpackTxid_returns[of b] PackTxid_UnpackTxid[of b] PackTxid_UnpackTxid[of c]
  by (metis Inr_inject)

end

end
