(* ===== verification/Packing.thy ===== *)
theory Packing
  imports Packages Chain_Types
begin

text \<open>
  The binary encodings at the end of \<open>db/rocksdb.go\<close>: fixed-width and variable-length integers,
  amounts (\<open>packBigint\<close>), and the keys of the address index. The locale \<open>delimited\<close> states what
  every encoding of a field promises (a decoder finds the value and its length whatever bytes
  follow); it is interpreted on each field encoder, here and in the theories of the records.
\<close>

section \<open>Integers\<close>

definition packUint :: "uint32 \<Rightarrow> bytes" where
  "packUint i = [ucast (drop_bit 24 i), ucast (drop_bit 16 i), ucast (drop_bit 8 i), ucast i]"

definition unpackUint :: "bytes \<Rightarrow> go_error + uint32" where
  "unpackUint buf = (if length buf < 4 then Inl (Panic ''index out of range'')
     else Inr (push_bit 24 (ucast (buf ! 0)) OR push_bit 16 (ucast (buf ! 1)) OR
               push_bit 8 (ucast (buf ! 2)) OR ucast (buf ! 3)))"

definition packVarint32 :: "vlq \<Rightarrow> int32 \<Rightarrow> bytes" where
  "packVarint32 v i = PutInt v (scast i)"

definition packVarint :: "vlq \<Rightarrow> int64 \<Rightarrow> bytes" where
  "packVarint v i = PutInt v i"

definition packVaruint :: "vlq \<Rightarrow> uint64 \<Rightarrow> bytes" where
  "packVaruint v i = PutUint v i"

definition unpackVarint32 :: "vlq \<Rightarrow> bytes \<Rightarrow> int32 \<times> nat" where
  "unpackVarint32 v buf = (let (i, ofs) = IntAt v buf in (ucast i, ofs))"

definition unpackVarint :: "vlq \<Rightarrow> bytes \<Rightarrow> int64 \<times> nat" where
  "unpackVarint v buf = IntAt v buf"

definition unpackVaruint :: "vlq \<Rightarrow> bytes \<Rightarrow> uint64 \<times> nat" where
  "unpackVaruint v buf = UintAt v buf"

section \<open>Amounts\<close>

text \<open>\<open>big.Int.Bits\<close>: the little-endian 64-bit words of the absolute value, without leading zeros.\<close>

fun nat_words :: "nat \<Rightarrow> uint64 list" where
  "nat_words n = (if n = 0 then [] else of_nat n # nat_words (n div 2 ^ 64))"

declare nat_words.simps [simp del]

definition nat_words_if :: "bool \<Rightarrow> nat \<Rightarrow> uint64 list" where
  "nat_words_if b n = (if b then [] else of_nat n # nat_words (n div 2 ^ 64))"

lemma nat_words_if_code [code]:
  "nat_words_if True n = []"
  "nat_words_if False n = of_nat n # nat_words (n div 2 ^ 64)"
  by (simp_all add: nat_words_if_def)

lemma nat_words_code [code]: "nat_words n = nat_words_if (n = 0) n"
  unfolding nat_words_if_def by (rule nat_words.simps)

definition Bits :: "int \<Rightarrow> uint64 list" where
  "Bits bi = nat_words (nat \<bar>bi\<bar>)"

definition wordBits :: nat where "wordBits = 64"

definition wordBytes :: nat where "wordBytes = wordBits div 8"

definition maxPackedBigintWords :: nat where
  "maxPackedBigintWords = (256 - wordBytes) div wordBytes"

definition maxPackedBigintBytes :: nat where "maxPackedBigintBytes = 249"

text \<open>The loop that skips the zero bytes at the top of the most significant word.\<close>

fun skipZeroBytes :: "nat \<Rightarrow> uint64 \<Rightarrow> uint64 \<Rightarrow> nat" where
  "skipZeroBytes 0 w0 msk = 0"
| "skipZeroBytes (Suc fb) w0 msk =
     (if w0 AND msk = 0 then skipZeroBytes fb w0 (drop_bit 8 msk) else Suc fb)"

text \<open>The loop that writes \<open>n\<close> bytes of a word, the last one first.\<close>

fun putWord :: "nat \<Rightarrow> uint64 \<Rightarrow> bytes" where
  "putWord 0 d = []"
| "putWord (Suc n) d = putWord n (drop_bit 8 d) @ [ucast d]"

definition packBigint :: "int \<Rightarrow> bytes" where
  "packBigint bi =
     (let w = Bits bi; lw = length w in
      if lw = 0 then [0]
      else
        let w0 = w ! (lw - 1);
            fb = skipZeroBytes 8 w0 (push_bit (wordBits - 8) 0xff);
            s = (if lw > maxPackedBigintWords then lw - maxPackedBigintWords else 0);
            body = putWord fb w0 @ concat (map (\<lambda>j. putWord wordBytes (w ! j)) (rev [s..<lw - 1]))
        in of_nat (fb + wordBytes * (lw - 1 - s)) # body)"

definition unpackBigint :: "bytes \<Rightarrow> go_error + (int \<times> nat)" where
  "unpackBigint buf =
     rbind (index buf 0) (\<lambda>b.
     let l = unat b + 1 in
     rbind (slice buf 1 l) (\<lambda>bs. Inr (int (be_val bs), l)))"

section \<open>Address keys\<close>

definition packedHeightBytes :: nat where "packedHeightBytes = 4"

text \<open>The height is stored as its complement, so that newer blocks come first.\<close>

definition packAddressKey :: "AddressDescriptor \<Rightarrow> uint32 \<Rightarrow> bytes" where
  "packAddressKey addrDesc height = addrDesc @ packUint (NOT height)"

definition unpackAddressKey :: "bytes \<Rightarrow> go_error + (bytes \<times> uint32)" where
  "unpackAddressKey key =
     (if length key \<le> packedHeightBytes then Inl (Errorf ''Invalid address key'')
      else
        let i = length key - packedHeightBytes in
        rbind (slice key 0 i) (\<lambda>a.
        rbind (slice key i (i + packedHeightBytes)) (\<lambda>b.
        rbind (unpackUint b) (\<lambda>h. Inr (a, NOT h)))))"

section \<open>Fixed-width integers: round trip and order\<close>

lemma length_packUint [simp]: "length (packUint i) = 4"
  by (simp add: packUint_def)

lemma unat_drop_bit_word: "unat (drop_bit n w) = unat w div 2 ^ n"
proof -
  have "unat (drop_bit n w) = drop_bit n (unat w)"
    by (simp add: unsigned_drop_bit_eq take_bit_nat_eq_self[OF unsigned_less])
  then show ?thesis by (simp only: drop_bit_eq_div)
qed

lemma unat_ucast_byte: "unat (ucast (w :: 'a::len word) :: byte) = unat w mod 256"
  by (simp add: unsigned_ucast_eq take_bit_eq_mod)

lemma be_val_packUint: "be_val (packUint i) = unat i"
proof -
  have "unat i < 2 ^ LENGTH(32)" by (rule unsigned_less)
  then have top: "unat i div 16777216 < 256" by simp
  have split: "n div 16777216 * 16777216 + (n div 65536 mod 256 * 65536 +
      (n div 256 mod 256 * 256 + n mod 256)) = n" for n :: nat
  proof -
    have "n div 65536 = n div 256 div 256" "n div 16777216 = n div 65536 div 256"
      by (simp_all flip: div_mult2_eq)
    then show ?thesis
      using div_mult_mod_eq[of n 256] div_mult_mod_eq[of "n div 256" 256]
        div_mult_mod_eq[of "n div 65536" 256] by linarith
  qed
  from top show ?thesis
    by (simp add: packUint_def be_val_Cons unat_drop_bit_word unat_ucast_byte split)
qed

lemma unpackUint_packUint_append: "unpackUint (packUint i @ rest) = Inr i"
proof -
  have "push_bit 24 (ucast (ucast (drop_bit 24 i) :: byte)) OR
      push_bit 16 (ucast (ucast (drop_bit 16 i) :: byte)) OR
      push_bit 8 (ucast (ucast (drop_bit 8 i) :: byte)) OR ucast (ucast i :: byte) = i"
  proof (rule bit_word_eqI)
    fix n :: nat
    assume "n < LENGTH(32)"
    then have "n < 8 \<or> (\<exists>m<8. n = 8 + m) \<or> (\<exists>m<8. n = 16 + m) \<or> (\<exists>m<8. n = 24 + m)"
      by simp presburger
    then consider "n < 8" | m where "n = 8 + m" "m < 8" | m where "n = 16 + m" "m < 8"
      | m where "n = 24 + m" "m < 8"
      by blast
    then show "bit (push_bit 24 (ucast (ucast (drop_bit 24 i) :: byte)) OR
        push_bit 16 (ucast (ucast (drop_bit 16 i) :: byte)) OR
        push_bit 8 (ucast (ucast (drop_bit 8 i) :: byte)) OR ucast (ucast i :: byte) :: uint32) n
        = bit i n"
      by cases (simp_all add: bit_or_iff bit_push_bit_iff bit_ucast_iff bit_drop_bit_eq)
  qed
  then show ?thesis by (simp add: unpackUint_def packUint_def)
qed

lemma packUint_less_iff: "packUint i < packUint j \<longleftrightarrow> i < j"
  by (simp add: be_val_less_iff be_val_packUint word_less_nat_alt)

lemma packUint_inject [simp]: "packUint i = packUint j \<longleftrightarrow> i = j"
  by (metis be_val_packUint word_unat_eq_iff)

lemma unpackUint_packUint [simp]: "unpackUint (packUint i) = Inr i"
  using unpackUint_packUint_append[of i "[]"] by simp

lemma packAddressKey_inject [simp]:
  "packAddressKey a h = packAddressKey b k \<longleftrightarrow> a = b \<and> h = k"
  by (auto simp: packAddressKey_def)

lemma length_packAddressKey [simp]: "length (packAddressKey a h) = length a + 4"
  by (simp add: packAddressKey_def)

lemma word_not_less_not_iff: "NOT a < NOT b \<longleftrightarrow> b < (a :: 'a::len word)"
proof -
  have "uint (NOT x) = mask LENGTH('a) - uint x" for x :: "'a word"
    by (simp add: unsigned_not_eq take_bit_not_eq_mask_diff take_bit_int_eq_self)
  then show ?thesis by (simp add: word_less_def)
qed

lemma packAddressKey_less_iff [simp]: "packAddressKey a h < packAddressKey a k \<longleftrightarrow> k < h"
  by (simp add: packAddressKey_def packUint_less_iff word_not_less_not_iff)

lemma unpackAddressKey_packAddressKey:
  "a \<noteq> [] \<Longrightarrow> unpackAddressKey (packAddressKey a h) = Inr (a, h)"
  by (simp add: unpackAddressKey_def packAddressKey_def packedHeightBytes_def Let_def slice_def)

section \<open>Amounts: value and round trip\<close>

primrec words_val :: "uint64 list \<Rightarrow> nat" where
  "words_val [] = 0"
| "words_val (w # ws) = unat w + 2 ^ 64 * words_val ws"

lemma words_val_nat_words: "words_val (nat_words n) = n"
proof (induction n rule: nat_words.induct)
  case (1 n)
  show ?case
  proof (cases "n = 0")
    case True
    then show ?thesis by (simp add: nat_words.simps)
  next
    case False
    have "unat (of_nat n :: uint64) = n mod 2 ^ 64" by (simp add: unat_of_nat)
    with False 1 show ?thesis by (subst nat_words.simps) (simp add: div_mult_mod_eq algebra_simps)
  qed
qed

lemma nat_words_eq_Nil_iff: "nat_words n = [] \<longleftrightarrow> n = 0"
  by (subst nat_words.simps) simp

lemma nat_words_last: "n \<noteq> 0 \<Longrightarrow> last (nat_words n) \<noteq> 0"
proof (induction n rule: nat_words.induct)
  case (1 n)
  show ?case
  proof (cases "n div 2 ^ 64 = 0")
    case True
    then have "n < 2 ^ 64" by simp
    then have "(of_nat n :: uint64) \<noteq> 0"
      using "1.prems" by (simp add: of_nat_eq_0_iff nat_dvd_not_less word_of_nat_eq_0_iff)
    with True "1.prems" show ?thesis by (subst nat_words.simps) (simp add: nat_words_eq_Nil_iff)
  next
    case False
    with "1.prems" 1 show ?thesis by (subst nat_words.simps) (simp add: nat_words_eq_Nil_iff)
  qed
qed

lemma length_nat_words_le: "n < 2 ^ (64 * k) \<Longrightarrow> length (nat_words n) \<le> k"
proof (induction k arbitrary: n)
  case (Suc k)
  have "n < 2 ^ (64 * k) * 2 ^ 64"
    using Suc.prems by (simp add: power_add mult.commute)
  then have "n div 2 ^ 64 < 2 ^ (64 * k)" by (rule less_mult_imp_div_less)
  then have "length (nat_words (n div 2 ^ 64)) \<le> k" by (rule Suc.IH)
  then show ?case by (subst nat_words.simps) simp
qed (simp add: nat_words.simps)

lemma words_val_append: "words_val (xs @ ys) = words_val xs + 2 ^ (64 * length xs) * words_val ys"
  by (induction xs) (simp_all add: algebra_simps power_add)

lemma words_val_less: "words_val ws < 2 ^ (64 * length ws)"
proof (induction ws)
  case (Cons w ws)
  have "unat w < 2 ^ LENGTH(64)" by (rule unsigned_less)
  moreover have "2 ^ 64 * (words_val ws + 1) \<le> 2 ^ 64 * (2 ^ (64 * length ws) :: nat)"
    using Cons by (intro mult_le_mono2) simp
  ultimately show ?case by (simp add: power_add)
qed simp

lemma words_val_drop: "words_val (drop s ws) = words_val ws div 2 ^ (64 * s)"
proof (cases "s \<le> length ws")
  case True
  have "words_val ws = words_val (take s ws) + 2 ^ (64 * s) * words_val (drop s ws)"
    using words_val_append[of "take s ws" "drop s ws"] True by simp
  moreover have "words_val (take s ws) < 2 ^ (64 * s)"
    using words_val_less[of "take s ws"] True by simp
  ultimately show ?thesis by simp
next
  case False
  then have "(2 :: nat) ^ (64 * length ws) \<le> 2 ^ (64 * s)" by (intro power_increasing) simp_all
  with words_val_less[of ws] have "words_val ws < 2 ^ (64 * s)" by (rule order.strict_trans2)
  with False show ?thesis by simp
qed

lemma length_putWord [simp]: "length (putWord n d) = n"
  by (induction n arbitrary: d) simp_all

lemma be_val_putWord: "be_val (putWord n d) = unat d mod 256 ^ n"
proof (induction n arbitrary: d)
  case (Suc n)
  have "unat d mod 256 ^ Suc n = unat d div 256 mod 256 ^ n * 256 + unat d mod 256"
    by (simp add: mod_mult2_eq mult.commute)
  with Suc show ?case
    by (simp add: unat_drop_bit_word unat_ucast_byte)
qed simp

text \<open>The mask of the byte at position \<open>k\<close>, and what the skipping loop computes.\<close>

lemma and_byte_mask_eq_0_iff:
  assumes "unat (w :: uint64) < 256 ^ Suc k" and "k < 8"
  shows "w AND push_bit (8 * k) 0xff = 0 \<longleftrightarrow> unat w < 256 ^ k"
proof -
  have m: "(0xff :: uint64) = mask 8" by (simp add: mask_eq_exp_minus_1)
  have "w AND push_bit (8 * k) (mask 8) = push_bit (8 * k) (take_bit 8 (drop_bit (8 * k) w))"
    by (rule bit_word_eqI) (auto simp: bit_simps)
  also have "take_bit 8 (drop_bit (8 * k) w) = drop_bit (8 * k) w"
  proof -
    have "unat (drop_bit (8 * k) w) < 256"
      using assms(1) by (simp add: unat_drop_bit_word power_mult less_mult_imp_div_less)
    then show ?thesis
      by (simp add: word_unat_eq_iff unsigned_take_bit_eq take_bit_nat_eq_self)
  qed
  finally have "w AND push_bit (8 * k) (mask 8) = push_bit (8 * k) (drop_bit (8 * k) w)" .
  also have "\<dots> = 0 \<longleftrightarrow> drop_bit (8 * k) w = 0"
  proof
    assume "push_bit (8 * k) (drop_bit (8 * k) w) = 0"
    moreover have "bit (push_bit (8 * k) (drop_bit (8 * k) w)) n" if "bit w n" "8 * k \<le> n" for n
      using that bit_imp_le_length[OF that(1)] by (simp add: bit_simps)
    ultimately have "\<not> bit w n" if "8 * k \<le> n" for n using that by fastforce
    then show "drop_bit (8 * k) w = 0" by (auto intro!: bit_word_eqI simp: bit_simps)
  qed simp
  also have "\<dots> \<longleftrightarrow> unat w < 256 ^ k"
    by (simp add: word_unat_eq_iff unat_drop_bit_word power_mult div_eq_0_iff)
  finally show ?thesis unfolding m .
qed

lemma skipZeroBytes_spec:
  assumes "w \<noteq> 0" and "unat w < 256 ^ k" and "k \<le> 8"
  shows "0 < skipZeroBytes k w (push_bit (8 * (k - 1)) 0xff) \<and>
    skipZeroBytes k w (push_bit (8 * (k - 1)) 0xff) \<le> k \<and>
    unat w < 256 ^ skipZeroBytes k w (push_bit (8 * (k - 1)) 0xff)"
  using assms(2,3)
proof (induction k)
  case 0
  with assms(1) show ?case by (simp add: unat_eq_zero)
next
  case (Suc k)
  show ?case
  proof (cases "unat w < 256 ^ k")
    case True
    then have "0 < k" using assms(1) by (cases k) (simp_all add: unat_eq_zero)
    with Suc.prems(2) have "k \<in> {1, 2, 3, 4, 5, 6, 7}" by auto
    then have "drop_bit 8 (push_bit (8 * k) 0xff) = (push_bit (8 * (k - 1)) 0xff :: uint64)"
      by auto
    with Suc True show ?thesis by (simp add: and_byte_mask_eq_0_iff)
  next
    case False
    with Suc.prems show ?thesis by (simp add: and_byte_mask_eq_0_iff)
  qed
qed


lemma map_nth_rev_upt: "m \<le> length w \<Longrightarrow>
  map (\<lambda>j. f (w ! j)) (rev [s..<m]) = map f (rev (drop s (take m w)))"
proof -
  assume "m \<le> length w"
  then have "map (\<lambda>j. f (w ! j)) [s..<m] = map f (drop s (take m w))"
    by (intro nth_equalityI) (simp_all add: min_def)
  then show ?thesis by (metis rev_map)
qed

lemma be_val_concat_putWord: "be_val (concat (map (putWord 8) (rev ws))) = words_val ws"
proof (induction ws)
  case (Cons w ws)
  have "unat w < 2 ^ LENGTH(64)" by (rule unsigned_less)
  then have "be_val (putWord 8 w) = unat w" by (simp add: be_val_putWord)
  with Cons show ?case by (simp add: be_val_append)
qed simp

lemma length_concat_putWord [simp]: "length (concat (map (putWord n) ws)) = n * length ws"
  by (induction ws) simp_all

text \<open>
  The bytes after the length byte are the big-endian value of the amount, without its sign and, for
  amounts of more than 31 words, without its low words.
\<close>

lemma packBigint_shape:
  assumes "bi \<noteq> 0"
  defines "lw \<equiv> length (Bits bi)"
  obtains body where "packBigint bi = of_nat (length body) # body"
    and "length body \<le> 8 * min lw maxPackedBigintWords" and "body \<noteq> []"
    and "be_val body = nat \<bar>bi\<bar> div 2 ^ (64 * (lw - maxPackedBigintWords))"
proof -
  let ?w = "Bits bi"
  define s where "s = lw - maxPackedBigintWords"
  define w0 where "w0 = ?w ! (lw - 1)"
  define fb where "fb = skipZeroBytes 8 w0 (push_bit 56 0xff)"
  define rest where "rest = drop s (take (lw - 1) ?w)"
  define body where "body = putWord fb w0 @ concat (map (putWord 8) (rev rest))"
  have max: "maxPackedBigintWords = 31" by (simp add: maxPackedBigintWords_def wordBytes_def wordBits_def)
  have lw: "0 < lw" using assms(1) by (simp add: lw_def Bits_def nat_words_eq_Nil_iff)
  have "w0 = last ?w" using lw by (simp add: w0_def lw_def last_conv_nth)
  then have w0: "w0 \<noteq> 0" using assms(1) by (simp add: Bits_def nat_words_last)
  have "unat w0 < 2 ^ LENGTH(64)" by (rule unsigned_less)
  then have w0': "unat w0 < 256 ^ 8" by simp
  have fb: "0 < fb" "fb \<le> 8" "unat w0 < 256 ^ fb"
    using skipZeroBytes_spec[OF w0 w0'] by (simp_all add: fb_def)
  have s: "s \<le> lw - 1" using lw max by (simp add: s_def)
  have len: "length rest = lw - 1 - s" by (simp add: rest_def lw_def min_def)
  have "drop s ?w = rest @ [w0]"
  proof -
    have "?w = take (lw - 1) ?w @ [w0]"
      using lw by (metis \<open>w0 = last ?w\<close> append_butlast_last_id butlast_conv_take lw_def length_greater_0_conv)
    then show ?thesis using s by (metis drop_append rest_def length_take diff_is_0_eq drop0 lw_def
          diff_le_self min.absorb2)
  qed
  then have val: "words_val (rest @ [w0]) = nat \<bar>bi\<bar> div 2 ^ (64 * s)"
    by (metis Bits_def words_val_drop words_val_nat_words)
  have "packBigint bi = of_nat (length body) # body"
  proof -
    have "packBigint bi = of_nat (fb + 8 * (lw - 1 - s)) # putWord fb w0 @
        concat (map (\<lambda>j. putWord 8 (?w ! j)) (rev [s..<lw - 1]))"
      using lw by (simp add: packBigint_def Let_def wordBits_def wordBytes_def w0_def fb_def s_def
          lw_def del: push_bit_numeral)
    moreover have "length body = fb + 8 * (lw - 1 - s)" by (simp add: body_def len)
    moreover have "map (\<lambda>j. putWord 8 (?w ! j)) (rev [s..<lw - 1]) = map (putWord 8) (rev rest)"
      unfolding rest_def by (rule map_nth_rev_upt) (simp add: lw_def)
    ultimately show ?thesis by (simp add: body_def)
  qed
  moreover have "length body \<le> 8 * min lw maxPackedBigintWords"
    using fb(2) len lw max by (auto simp: body_def s_def min_def)
  moreover have "body \<noteq> []" using fb(1) by (cases fb) (auto simp: body_def)
  moreover have "be_val body = nat \<bar>bi\<bar> div 2 ^ (64 * (lw - maxPackedBigintWords))"
  proof -
    have "(256 :: nat) ^ (8 * n) = 2 ^ (64 * n)" for n by (simp add: power_mult)
    with fb(3) val show ?thesis
      by (simp add: body_def be_val_append be_val_putWord be_val_concat_putWord words_val_append s_def
          mult.commute)
  qed
  ultimately show ?thesis by (rule that)
qed


text \<open>Amounts the format can hold: what fits into 31 words of 64 bits.\<close>

definition amount_bound :: int where
  "amount_bound = 2 ^ (64 * 31)"

definition amount_ok :: "int \<Rightarrow> bool" where
  "amount_ok x \<longleftrightarrow> 0 \<le> x \<and> x < amount_bound"

lemma amount_ok_64: "0 \<le> x \<Longrightarrow> x < 2 ^ 64 \<Longrightarrow> amount_ok x"
proof -
  have "(2 :: int) ^ 64 \<le> amount_bound"
    unfolding amount_bound_def by (rule power_increasing) simp_all
  then show "0 \<le> x \<Longrightarrow> x < 2 ^ 64 \<Longrightarrow> amount_ok x"
    unfolding amount_ok_def by linarith
qed

lemma amount_ok_0 [simp]: "amount_ok 0"
  by (simp add: amount_ok_64)

lemma length_Bits_le: "\<bar>bi\<bar> < amount_bound \<Longrightarrow> length (Bits bi) \<le> maxPackedBigintWords"
proof -
  assume "\<bar>bi\<bar> < amount_bound"
  then have "nat \<bar>bi\<bar> < 2 ^ (64 * 31)"
    unfolding amount_bound_def by (simp only: nat_less_iff abs_ge_zero of_nat_power of_nat_numeral)
  then have "length (Bits bi) \<le> 31" unfolding Bits_def by (rule length_nat_words_le)
  then show ?thesis by (simp add: maxPackedBigintWords_def wordBytes_def wordBits_def)
qed

lemma unpackBigint_packBigint_abs:
  "unpackBigint (packBigint bi @ rest) =
     Inr (\<bar>bi\<bar> div 2 ^ (64 * (length (Bits bi) - maxPackedBigintWords)), length (packBigint bi))"
proof (cases "bi = 0")
  case True
  then show ?thesis
    by (simp add: packBigint_def Bits_def nat_words.simps unpackBigint_def slice_def)
next
  case False
  then obtain body where body: "packBigint bi = of_nat (length body) # body"
      "length body \<le> 8 * min (length (Bits bi)) maxPackedBigintWords"
      "be_val body = nat \<bar>bi\<bar> div 2 ^ (64 * (length (Bits bi) - maxPackedBigintWords))"
    by (rule packBigint_shape)
  have "length body < 256"
    using body(2) by (simp add: maxPackedBigintWords_def wordBytes_def wordBits_def)
  then have "unat (of_nat (length body) :: byte) = length body" by (simp add: unat_of_nat)
  then show ?thesis
    using body by (simp add: unpackBigint_def slice_def zdiv_int)
qed

lemma length_packBigint: "0 < length (packBigint bi) \<and> length (packBigint bi) \<le> maxPackedBigintBytes"
proof (cases "bi = 0")
  case True
  then show ?thesis
    by (simp add: packBigint_def Bits_def nat_words.simps maxPackedBigintBytes_def)
next
  case False
  then obtain body where body: "packBigint bi = of_nat (length body) # body"
      "length body \<le> 8 * min (length (Bits bi)) maxPackedBigintWords"
    by (rule packBigint_shape)
  have "8 * min (length (Bits bi)) maxPackedBigintWords \<le> 248"
    by (simp add: maxPackedBigintWords_def wordBytes_def wordBits_def)
  with body show ?thesis by (simp add: maxPackedBigintBytes_def)
qed

section \<open>The contract of a field encoder\<close>

text \<open>
  The decoding loop \<open>for i := 0; i < n; i++ { l += unpack(&xs[i], buf[l:]) }\<close>: \<open>n\<close> fields read one
  after the other, and the bytes that follow them.
\<close>

fun decode_n :: "nat \<Rightarrow> (bytes \<Rightarrow> go_error + ('a \<times> nat)) \<Rightarrow> bytes \<Rightarrow> go_error + ('a list \<times> bytes)" where
  "decode_n 0 dec buf = Inr ([], buf)"
| "decode_n (Suc n) dec buf =
     rbind (dec buf) (\<lambda>(x, l).
     rbind (slice_from buf l) (\<lambda>buf'.
     rbind (decode_n n dec buf') (\<lambda>(xs, r). Inr (x # xs, r))))"

locale delimited =
  fixes enc :: "'a \<Rightarrow> bytes" and dec :: "bytes \<Rightarrow> go_error + ('a \<times> nat)" and ok :: "'a \<Rightarrow> bool"
  assumes dec_enc: "ok x \<Longrightarrow> dec (enc x @ rest) = Inr (x, length (enc x))"
begin

lemma dec_enc_only: "ok x \<Longrightarrow> dec (enc x) = Inr (x, length (enc x))"
  using dec_enc[of x "[]"] by simp

lemma enc_inject: "ok x \<Longrightarrow> ok y \<Longrightarrow> enc x = enc y \<Longrightarrow> x = y"
  by (metis dec_enc_only Inr_inject prod.inject)

text \<open>No encoding of a field is a proper prefix of another: fields can be concatenated.\<close>

lemma enc_prefix_free: "ok x \<Longrightarrow> ok y \<Longrightarrow> enc x @ r = enc y @ r' \<Longrightarrow> x = y \<and> r = r'"
  by (metis dec_enc Inr_inject prod.inject same_append_eq)

lemma decode_n_concat:
  "(\<And>x. x \<in> set xs \<Longrightarrow> ok x) \<Longrightarrow>
   decode_n (length xs) dec (concat (map enc xs) @ rest) = Inr (xs, rest)"
  by (induction xs) (simp_all add: dec_enc)

end

interpretation bigint: delimited packBigint unpackBigint amount_ok
proof
  fix x rest
  assume "amount_ok x"
  then have "\<bar>x\<bar> = x" and "\<bar>x\<bar> < amount_bound" by (simp_all add: amount_ok_def)
  then show "unpackBigint (packBigint x @ rest) = Inr (x, length (packBigint x))"
    using length_Bits_le[of x] by (simp add: unpackBigint_packBigint_abs)
qed

section \<open>Properties\<close>

text \<open>A key of the \<open>addresses\<close> column determines the address descriptor and the block height it
  was made from; the key of an empty descriptor is rejected.\<close>

theorem addressKey_roundtrip:
  "unpackAddressKey (packAddressKey a h) =
     (if a = [] then Inl (Errorf ''Invalid address key'') else Inr (a, h))"
  by (simp add: unpackAddressKey_packAddressKey)
    (simp add: unpackAddressKey_def packAddressKey_def packedHeightBytes_def)

text \<open>Within one address the keys are ordered from the newest block to the oldest: the database
  iterates over the transactions of an address by descending height.\<close>

theorem addressKey_newest_first:
  "packAddressKey a h < packAddressKey a k \<longleftrightarrow> k < h"
  by (rule packAddressKey_less_iff)

text \<open>An amount is packed into at most 249 bytes and, for every amount below \<open>2^1984\<close>, read back
  exactly, whatever bytes follow it. Beyond that the packed number keeps the leading 31 words, and a
  negative number is read back as its absolute value.\<close>

theorem packBigint_value:
  "length (packBigint bi) \<le> maxPackedBigintBytes \<and>
   unpackBigint (packBigint bi @ rest) =
     Inr (\<bar>bi\<bar> div 2 ^ (64 * (length (Bits bi) - maxPackedBigintWords)), length (packBigint bi)) \<and>
   (amount_ok bi \<longrightarrow> unpackBigint (packBigint bi @ rest) = Inr (bi, length (packBigint bi)))"
  using length_packBigint[of bi] unpackBigint_packBigint_abs[of bi rest] bigint.dec_enc[of bi rest]
  by blast

theorem packBigint_value_witness:
  "amount_ok 1000000 \<and> packBigint 1000000 = [3, 15, 66, 64] \<and>
   unpackBigint (packBigint 1000000 @ [7]) = Inr (1000000, 4)"
proof -
  have "amount_ok 1000000" by (rule amount_ok_64) simp_all
  moreover have p: "packBigint 1000000 = [3, 15, 66, 64]" by code_simp
  moreover have "unpackBigint (packBigint 1000000 @ [7]) = Inr (1000000, length (packBigint 1000000))"
    using packBigint_value[of 1000000 "[7]"] \<open>amount_ok 1000000\<close> by blast
  ultimately show ?thesis by simp
qed

end
