(* ===== verification/Tx_Addresses.thy ===== *)
theory Tx_Addresses
  imports Packing
begin

text \<open>
  The records of the \<open>txAddresses\<close> column (\<open>db/rocksdb.go\<close>): the inputs and outputs of a transaction
  with addresses, amounts and spent flags, and their binary format.
\<close>

record TxInput =
  AddrDesc_ti :: AddressDescriptor
  ValueSat_ti :: int

record TxOutput =
  AddrDesc_to :: AddressDescriptor
  Spent :: bool
  ValueSat_to :: int

record TxAddresses =
  Height_ta :: uint32
  Inputs :: "TxInput list"
  Outputs :: "TxOutput list"
  ShieldIns :: uint32
  ShieldOuts :: uint32
  ShieldValBal_ta :: int

section \<open>Packing\<close>

definition appendTxInput :: "vlq \<Rightarrow> TxInput \<Rightarrow> bytes \<Rightarrow> bytes" where
  "appendTxInput v txi buf =
     (let la = length (AddrDesc_ti txi);
          buf = buf @ packVaruint v (of_nat la);
          buf = buf @ AddrDesc_ti txi
      in buf @ packBigint (ValueSat_ti txi))"

text \<open>The length of the address descriptor is stored complemented when the output is spent.\<close>

definition appendTxOutput :: "vlq \<Rightarrow> TxOutput \<Rightarrow> bytes \<Rightarrow> bytes" where
  "appendTxOutput v txo buf =
     (let la = (of_nat (length (AddrDesc_to txo)) :: int64);
          la = (if Spent txo then NOT la else la);
          buf = buf @ packVarint v la;
          buf = buf @ AddrDesc_to txo
      in buf @ packBigint (ValueSat_to txo))"

definition packTxAddresses :: "vlq \<Rightarrow> TxAddresses \<Rightarrow> bytes" where
  "packTxAddresses v ta =
     (let buf = packVaruint v (ucast (Height_ta ta));
          buf = buf @ packVaruint v (of_nat (length (Inputs ta)));
          buf = fold (appendTxInput v) (Inputs ta) buf;
          buf = buf @ packVaruint v (of_nat (length (Outputs ta)));
          buf = fold (appendTxOutput v) (Outputs ta) buf;
          buf = buf @ packVaruint v (ucast (ShieldIns ta));
          buf = buf @ packVaruint v (ucast (ShieldOuts ta))
      in buf @ packBigint (ShieldValBal_ta ta))"

section \<open>Unpacking\<close>

definition unpackTxInput :: "vlq \<Rightarrow> bytes \<Rightarrow> go_error + (TxInput \<times> nat)" where
  "unpackTxInput v buf =
     (let (al, l) = unpackVaruint v buf; al' = l + unat al in
      rbind (slice buf l al') (\<lambda>a.
      rbind (slice_from buf al') (\<lambda>b.
      rbind (unpackBigint b) (\<lambda>(val, n).
      Inr (\<lparr> AddrDesc_ti = a, ValueSat_ti = val \<rparr>, n + al')))))"

definition unpackTxOutput :: "vlq \<Rightarrow> bytes \<Rightarrow> go_error + (TxOutput \<times> nat)" where
  "unpackTxOutput v buf =
     (let (al, l) = unpackVarint v buf;
          sp = (sint al < 0);
          al = (if sp then NOT al else al);
          al' = l + nat (sint al) in
      rbind (slice buf l al') (\<lambda>a.
      rbind (slice_from buf al') (\<lambda>b.
      rbind (unpackBigint b) (\<lambda>(val, n).
      Inr (\<lparr> AddrDesc_to = a, Spent = sp, ValueSat_to = val \<rparr>, n + al')))))"

definition unpackTxAddresses :: "vlq \<Rightarrow> bytes \<Rightarrow> go_error + TxAddresses" where
  "unpackTxAddresses v buf =
     (let (height, l) = unpackVaruint v buf in
      rbind (slice_from buf l) (\<lambda>buf.
      let (inputs, l) = unpackVaruint v buf in
      rbind (slice_from buf l) (\<lambda>buf.
      rbind (decode_n (unat inputs) (unpackTxInput v) buf) (\<lambda>(ins, buf).
      let (outputs, l) = unpackVaruint v buf in
      rbind (slice_from buf l) (\<lambda>buf.
      rbind (decode_n (unat outputs) (unpackTxOutput v) buf) (\<lambda>(outs, buf).
      let (shieldinputs, l) = unpackVaruint v buf in
      rbind (slice_from buf l) (\<lambda>buf.
      let (shieldoutputs, l) = unpackVaruint v buf in
      rbind (slice_from buf l) (\<lambda>buf.
      rbind (unpackBigint buf) (\<lambda>(bal, _).
      Inr \<lparr> Height_ta = ucast height, Inputs = ins, Outputs = outs,
            ShieldIns = ucast shieldinputs, ShieldOuts = ucast shieldoutputs,
            ShieldValBal_ta = bal \<rparr>)))))))))"

section \<open>Round trip\<close>

text \<open>Slices are shorter than \<open>2^63\<close> bytes, and the amounts fit the format.\<close>

definition len_ok :: "'a list \<Rightarrow> bool" where
  "len_ok xs \<longleftrightarrow> length xs < 2 ^ 63"

definition txinput_ok :: "TxInput \<Rightarrow> bool" where
  "txinput_ok i \<longleftrightarrow> len_ok (AddrDesc_ti i) \<and> amount_ok (ValueSat_ti i)"

definition txoutput_ok :: "TxOutput \<Rightarrow> bool" where
  "txoutput_ok i \<longleftrightarrow> len_ok (AddrDesc_to i) \<and> amount_ok (ValueSat_to i)"

definition txaddresses_ok :: "TxAddresses \<Rightarrow> bool" where
  "txaddresses_ok ta \<longleftrightarrow>
     len_ok (Inputs ta) \<and> (\<forall>i \<in> set (Inputs ta). txinput_ok i) \<and>
     len_ok (Outputs ta) \<and> (\<forall>i \<in> set (Outputs ta). txoutput_ok i)"

lemma unat_of_nat_len_ok [simp]: "len_ok xs \<Longrightarrow> unat (of_nat (length xs) :: uint64) = length xs"
  by (simp add: len_ok_def unat_of_nat)

lemma sint_of_nat_len_ok [simp]: "len_ok xs \<Longrightarrow> sint (of_nat (length xs) :: int64) = int (length xs)"
  by (simp add: len_ok_def sint_uint uint_nat unat_of_nat signed_take_bit_int_eq_self)

lemma sint_not: "sint (NOT w) = - sint (w :: 'a::len word) - 1"
proof -
  have "- (2 ^ (LENGTH('a) - 1)) \<le> sint w" "sint w < 2 ^ (LENGTH('a) - 1)"
    by (simp_all add: sint_greater_eq sint_less)
  moreover have "(2 :: int) ^ (LENGTH('a) - 1) \<le> 2 ^ LENGTH('a)" by (rule power_increasing) simp_all
  ultimately have "signed_take_bit LENGTH('a) (- sint w - 1) = - sint w - 1"
    by (intro signed_take_bit_int_eq_self) linarith+
  then show ?thesis by (simp add: signed_not_eq not_int_def)
qed

lemma appendTxInput_append: "appendTxInput v i buf = buf @ appendTxInput v i []"
  by (simp add: appendTxInput_def Let_def)

lemma appendTxOutput_append: "appendTxOutput v i buf = buf @ appendTxOutput v i []"
  by (simp add: appendTxOutput_def Let_def)

lemma fold_append_concat:
  "(\<And>x buf. f x buf = buf @ f x []) \<Longrightarrow> fold f xs buf = buf @ concat (map (\<lambda>x. f x []) xs)"
proof (induction xs arbitrary: buf)
  case Nil
  show ?case by (simp only: fold_simps list.map concat.simps append_Nil2)
next
  case (Cons x xs)
  have "fold f (x # xs) buf = f x buf @ concat (map (\<lambda>x. f x []) xs)"
    unfolding fold_Cons comp_def by (rule Cons.IH[OF Cons.prems])
  also have "f x buf = buf @ f x []" by (rule Cons.prems)
  finally show ?case by (simp only: list.map concat.simps append_assoc)
qed

lemmas fold_appendTxInput = fold_append_concat[of "appendTxInput v" for v, OF appendTxInput_append]
lemmas fold_appendTxOutput = fold_append_concat[of "appendTxOutput v" for v, OF appendTxOutput_append]

context vlq_codec
begin

lemma unpackTxInput_append:
  "txinput_ok i \<Longrightarrow> unpackTxInput v (appendTxInput v i [] @ rest) = Inr (i, length (appendTxInput v i []))"
  by (simp add: unpackTxInput_def appendTxInput_def unpackVaruint_def packVaruint_def txinput_ok_def
      Let_def slice_def slice_from_def bigint.dec_enc)

lemma unpackTxOutput_append:
  "txoutput_ok i \<Longrightarrow> unpackTxOutput v (appendTxOutput v i [] @ rest) = Inr (i, length (appendTxOutput v i []))"
  by (cases "Spent i")
    (simp_all add: unpackTxOutput_def appendTxOutput_def unpackVarint_def packVarint_def
      txoutput_ok_def Let_def slice_def slice_from_def bigint.dec_enc sint_not)

end

sublocale vlq_codec < txinput: delimited "\<lambda>i. appendTxInput v i []" "unpackTxInput v" txinput_ok
  by unfold_locales (rule unpackTxInput_append)

sublocale vlq_codec < txoutput: delimited "\<lambda>i. appendTxOutput v i []" "unpackTxOutput v" txoutput_ok
  by unfold_locales (rule unpackTxOutput_append)

context vlq_codec
begin

lemma unpackTxAddresses_packTxAddresses:
  assumes "txaddresses_ok ta"
  shows "unpackTxAddresses v (packTxAddresses v ta @ rest) =
    Inr (ta\<lparr> ShieldValBal_ta := \<bar>ShieldValBal_ta ta\<bar> div
      2 ^ (64 * (length (Bits (ShieldValBal_ta ta)) - maxPackedBigintWords)) \<rparr>)"
proof -
  have ins: "decode_n (length (Inputs ta)) (unpackTxInput v)
      (concat (map (\<lambda>i. appendTxInput v i []) (Inputs ta)) @ r) = Inr (Inputs ta, r)" for r
    using assms by (intro txinput.decode_n_concat) (simp add: txaddresses_ok_def)
  have outs: "decode_n (length (Outputs ta)) (unpackTxOutput v)
      (concat (map (\<lambda>i. appendTxOutput v i []) (Outputs ta)) @ r) = Inr (Outputs ta, r)" for r
    using assms by (intro txoutput.decode_n_concat) (simp add: txaddresses_ok_def)
  have "len_ok (Inputs ta)" "len_ok (Outputs ta)" using assms by (simp_all add: txaddresses_ok_def)
  then show ?thesis
    by (simp add: unpackTxAddresses_def packTxAddresses_def Let_def unpackVaruint_def packVaruint_def
        fold_appendTxInput fold_appendTxOutput ins outs unpackBigint_packBigint_abs)
qed

end

text \<open>A transaction record read back from the \<open>txAddresses\<close> column is the record that was stored:
  \<open>unpackTxAddresses\<close> inverts \<open>packTxAddresses\<close>, spent flags included, whenever slices have a Go
  length and every amount, the shielded balance among them, is between 0 and \<open>2^1984\<close>.\<close>

theorem txAddresses_roundtrip:
  assumes "vlq_codec v" and "txaddresses_ok ta" and "amount_ok (ShieldValBal_ta ta)"
  shows "unpackTxAddresses v (packTxAddresses v ta) = Inr ta"
proof -
  have "\<bar>ShieldValBal_ta ta\<bar> = ShieldValBal_ta ta" "\<bar>ShieldValBal_ta ta\<bar> < amount_bound"
    using assms(3) by (simp_all add: amount_ok_def)
  then show ?thesis
    using vlq_codec.unpackTxAddresses_packTxAddresses[OF assms(1,2), of "[]"]
      length_Bits_le[of "ShieldValBal_ta ta"] by simp
qed

definition sampleTxAddresses :: "int \<Rightarrow> TxAddresses" where
  "sampleTxAddresses bal = \<lparr> Height_ta = 100,
     Inputs = [\<lparr> AddrDesc_ti = [118, 169], ValueSat_ti = 5000 \<rparr>],
     Outputs = [\<lparr> AddrDesc_to = [118, 169, 20], Spent = True, ValueSat_to = 3000 \<rparr>,
                \<lparr> AddrDesc_to = [], Spent = False, ValueSat_to = 0 \<rparr>],
     ShieldIns = 0, ShieldOuts = 1, ShieldValBal_ta = bal \<rparr>"

lemma sampleTxAddresses_ok: "txaddresses_ok (sampleTxAddresses bal)"
  by (simp add: sampleTxAddresses_def txaddresses_ok_def txinput_ok_def txoutput_ok_def len_ok_def
      amount_ok_64)

theorem txAddresses_roundtrip_witness:
  "unpackTxAddresses base128 (packTxAddresses base128 (sampleTxAddresses 700)) = Inr (sampleTxAddresses 700)"
proof -
  have "amount_ok (ShieldValBal_ta (sampleTxAddresses 700))"
    by (rule amount_ok_64) (simp_all add: sampleTxAddresses_def)
  then show ?thesis
    by (rule txAddresses_roundtrip[OF base128.vlq_codec_axioms sampleTxAddresses_ok])
qed

text \<open>The shielded balance of a transaction is signed, but the packed amount keeps only its absolute
  value: a record with a negative shielded balance is read back with the sign flipped.\<close>

theorem shieldValBal_sign_lost:
  assumes "vlq_codec v" and "txaddresses_ok ta" and "- amount_bound < ShieldValBal_ta ta"
    and "ShieldValBal_ta ta < 0"
  shows "unpackTxAddresses v (packTxAddresses v ta) = Inr (ta\<lparr> ShieldValBal_ta := - ShieldValBal_ta ta \<rparr>)"
proof -
  have "\<bar>ShieldValBal_ta ta\<bar> = - ShieldValBal_ta ta" "\<bar>ShieldValBal_ta ta\<bar> < amount_bound"
    using assms(3,4) by simp_all
  then show ?thesis
    using vlq_codec.unpackTxAddresses_packTxAddresses[OF assms(1,2), of "[]"]
      length_Bits_le[of "ShieldValBal_ta ta"] by simp
qed


theorem shieldValBal_sign_lost_witness:
  "unpackTxAddresses base128 (packTxAddresses base128 (sampleTxAddresses (-700))) = Inr (sampleTxAddresses 700)"
proof -
  have "- amount_bound < ShieldValBal_ta (sampleTxAddresses (-700))"
    using amount_ok_64[of 700] by (simp add: sampleTxAddresses_def amount_ok_def)
  moreover have "ShieldValBal_ta (sampleTxAddresses (-700)) < 0" by (simp add: sampleTxAddresses_def)
  ultimately show ?thesis
    using shieldValBal_sign_lost[OF base128.vlq_codec_axioms sampleTxAddresses_ok, of "-700"]
    by (simp add: sampleTxAddresses_def)
qed

end
