(* ===== verification/Addr_Balance.thy ===== *)
theory Addr_Balance
  imports Tx_Addresses
begin

text \<open>
  The records of the \<open>addressBalance\<close> column (\<open>db/rocksdb.go\<close>): totals and unspent outputs of an
  address, the operations that add an output and mark one as spent, with and without the index
  \<open>utxosMap\<close>, and the binary format.
\<close>

record Utxo =
  BtxID :: bytes
  Vout_u :: int32
  Height_u :: uint32
  ValueSat_u :: int

record AddrBalance =
  Txs_ab :: uint32
  SentSat :: int
  BalanceSat :: int
  Utxos :: "Utxo list"
  utxosMap :: "(bytes, nat) gomap"

datatype AddressBalanceDetail =
    AddressBalanceDetailNoUTXO
  | AddressBalanceDetailUTXO
  | addressBalanceDetailUTXOIndexed

text \<open>The zero value \<open>AddrBalance{}\<close>.\<close>

definition newAddrBalance :: AddrBalance where
  "newAddrBalance = \<lparr> Txs_ab = 0, SentSat = 0, BalanceSat = 0, Utxos = [], utxosMap = [] \<rparr>"

definition ReceivedSat :: "AddrBalance \<Rightarrow> int" where
  "ReceivedSat ab = BalanceSat ab + SentSat ab"

section \<open>Unspent outputs\<close>

definition hasUtxo :: "AddrBalance \<Rightarrow> bytes \<Rightarrow> int32 \<Rightarrow> go_error + bool" where
  "hasUtxo ab btxID vout =
     (if 0 < length (utxosMap ab) then
        (case map_of (utxosMap ab) btxID of
           Some i \<Rightarrow> rbind (index (Utxos ab) i) (\<lambda>u. Inr (Vout_u u = vout))
         | None \<Rightarrow> Inr False)
      else Inr (list_ex (\<lambda>u. BtxID u = btxID \<and> Vout_u u = vout) (Utxos ab)))"

definition index_utxo :: "Utxo list \<Rightarrow> nat \<Rightarrow> (bytes, nat) gomap \<Rightarrow> (bytes, nat) gomap" where
  "index_utxo us i m =
     (case map_of m (BtxID (us ! i)) of
        None \<Rightarrow> AList.update (BtxID (us ! i)) i m
      | Some _ \<Rightarrow> m)"

definition addUtxo :: "Utxo \<Rightarrow> AddrBalance \<Rightarrow> AddrBalance" where
  "addUtxo u ab =
     (let us = Utxos ab @ [u]; l = length us in
      if 16 \<le> l then
        if length (utxosMap ab) = 0
        then ab\<lparr> Utxos := us, utxosMap := fold (index_utxo us) [0..<l] [] \<rparr>
        else ab\<lparr> Utxos := us, utxosMap := index_utxo us (l - 1) (utxosMap ab) \<rparr>
      else ab\<lparr> Utxos := us \<rparr>)"

text \<open>
  The two searches of \<open>markUtxoAsSpent\<close>. Without an index the code looks at every entry; it compares
  the first machine word of the ids before the whole ids, which changes nothing for ids of at
  least eight bytes. With the index it starts at the first entry of the transaction and gives up
  at the first entry with the right output number but another id.
\<close>

fun spendLinear :: "Utxo list \<Rightarrow> bytes \<Rightarrow> int32 \<Rightarrow> Utxo list option" where
  "spendLinear [] btxID vout = None"
| "spendLinear (u # us) btxID vout =
     (if Vout_u u = vout \<and> take 8 (BtxID u) = take 8 btxID \<and> BtxID u = btxID
      then Some (u\<lparr> Vout_u := -1 \<rparr> # us)
      else map_option (Cons u) (spendLinear us btxID vout))"

fun spendIndexed :: "Utxo list \<Rightarrow> bytes \<Rightarrow> int32 \<Rightarrow> Utxo list option" where
  "spendIndexed [] btxID vout = None"
| "spendIndexed (u # us) btxID vout =
     (if Vout_u u = vout then
        if BtxID u = btxID then Some (u\<lparr> Vout_u := -1 \<rparr> # us) else None
      else map_option (Cons u) (spendIndexed us btxID vout))"

definition markUtxoAsSpent :: "bytes \<Rightarrow> int32 \<Rightarrow> AddrBalance \<Rightarrow> AddrBalance" where
  "markUtxoAsSpent btxID vout ab =
     (let r =
        (if length (utxosMap ab) = 0 then spendLinear (Utxos ab) btxID vout
         else case map_of (utxosMap ab) btxID of
             Some i \<Rightarrow> map_option (\<lambda>us. take i (Utxos ab) @ us)
               (spendIndexed (drop i (Utxos ab)) btxID vout)
           | None \<Rightarrow> None)
      in case r of Some us \<Rightarrow> ab\<lparr> Utxos := us \<rparr> | None \<Rightarrow> ab)"

definition resetValueSatToZero :: "int \<Rightarrow> int" where
  "resetValueSatToZero valueSat = 0"

section \<open>Packing and unpacking\<close>

definition appendUtxo :: "vlq \<Rightarrow> Utxo \<Rightarrow> bytes \<Rightarrow> bytes" where
  "appendUtxo v utxo buf =
     (if 0 \<le> sint (Vout_u utxo)
      then buf @ BtxID utxo @ packVaruint v (scast (Vout_u utxo)) @
        packVaruint v (ucast (Height_u utxo)) @ packBigint (ValueSat_u utxo)
      else buf)"

definition packAddrBalance :: "vlq \<Rightarrow> AddrBalance \<Rightarrow> bytes" where
  "packAddrBalance v ab =
     (let buf = packVaruint v (ucast (Txs_ab ab));
          buf = buf @ packBigint (SentSat ab);
          buf = buf @ packBigint (BalanceSat ab)
      in fold (appendUtxo v) (Utxos ab) buf)"

lemma unpackBigint_pos: "unpackBigint b = Inr (x, l) \<Longrightarrow> 0 < l"
  by (auto simp: unpackBigint_def Let_def rbind_eq_Inr_iff)

function unpackUtxos :: "vlq \<Rightarrow> nat \<Rightarrow> bytes \<Rightarrow> go_error + Utxo list" where
  "unpackUtxos v n b =
     (if length b < n + 3 then Inr []
      else
        let btxID = take n b; b = drop n b;
            (vout, ll) = unpackVaruint v b in
        rbind (slice_from b ll) (\<lambda>b.
        let (height, ll) = unpackVaruint v b in
        rbind (slice_from b ll) (\<lambda>b.
        rbind (unpackBigint b) (\<lambda>(valueSat, ll).
        rbind (slice_from b ll) (\<lambda>b.
        rbind (unpackUtxos v n b) (\<lambda>us.
        Inr (\<lparr> BtxID = btxID, Vout_u = ucast vout, Height_u = ucast height,
               ValueSat_u = valueSat \<rparr> # us)))))))"
  by pat_completeness auto
termination
  by (relation "measure (\<lambda>(v, n, b). length b)")
    (auto dest!: slice_from_length unpackBigint_pos)

declare unpackUtxos.simps [simp del]

definition unpackAddrBalance :: "vlq \<Rightarrow> bytes \<Rightarrow> nat \<Rightarrow> AddressBalanceDetail \<Rightarrow> go_error + AddrBalance" where
  "unpackAddrBalance v buf txidUnpackedLen detail =
     (let (txs, l) = unpackVaruint v buf in
      rbind (slice_from buf l) (\<lambda>buf.
      rbind (unpackBigint buf) (\<lambda>(sentSat, sl).
      rbind (slice_from buf sl) (\<lambda>buf.
      rbind (unpackBigint buf) (\<lambda>(balanceSat, bl).
      let ab = \<lparr> Txs_ab = ucast txs, SentSat = sentSat, BalanceSat = balanceSat,
                 Utxos = [], utxosMap = [] \<rparr> in
      if detail = AddressBalanceDetailNoUTXO then Inr ab
      else
        rbind (slice_from buf bl) (\<lambda>buf.
        rbind (unpackUtxos v txidUnpackedLen buf) (\<lambda>us.
        Inr (if detail = AddressBalanceDetailUTXO then ab\<lparr> Utxos := us \<rparr>
             else fold addUtxo us ab))))))))"

section \<open>The index of unspent outputs\<close>

primrec find_idx :: "('a \<Rightarrow> bool) \<Rightarrow> 'a list \<Rightarrow> nat option" where
  "find_idx P [] = None"
| "find_idx P (x # xs) = (if P x then Some 0 else map_option Suc (find_idx P xs))"

lemma find_idx_append:
  "find_idx P (xs @ ys) =
     (case find_idx P xs of Some i \<Rightarrow> Some i | None \<Rightarrow> map_option (\<lambda>i. length xs + i) (find_idx P ys))"
  by (induction xs; cases "find_idx P ys") (auto split: option.splits)

lemma find_idx_None_iff: "find_idx P xs = None \<longleftrightarrow> (\<forall>x \<in> set xs. \<not> P x)"
  by (induction xs) auto

lemma find_idx_SomeD:
  "find_idx P xs = Some i \<Longrightarrow> i < length xs \<and> P (xs ! i) \<and> (\<forall>x \<in> set (take i xs). \<not> P x)"
  by (induction xs arbitrary: i) (auto split: if_splits)

lemma find_idx_BtxID: "find_idx (\<lambda>u. BtxID u = k) us = find_idx (\<lambda>b. b = k) (map BtxID us)"
  by (induction us) auto

text \<open>The index, once it is built, sends every transaction id to its first entry.\<close>

definition index_ok :: "AddrBalance \<Rightarrow> bool" where
  "index_ok ab \<longleftrightarrow> utxosMap ab = [] \<or>
     16 \<le> length (Utxos ab) \<and>
     (\<forall>k. map_of (utxosMap ab) k = find_idx (\<lambda>u. BtxID u = k) (Utxos ab))"

lemma index_okD:
  "index_ok ab \<Longrightarrow> utxosMap ab \<noteq> [] \<Longrightarrow>
   map_of (utxosMap ab) k = find_idx (\<lambda>u. BtxID u = k) (Utxos ab)"
  by (simp add: index_ok_def)

lemma map_of_index_utxo:
  "map_of (index_utxo us i m) k =
     (case map_of m k of Some j \<Rightarrow> Some j | None \<Rightarrow> if BtxID (us ! i) = k then Some i else None)"
  by (auto simp: index_utxo_def split: option.splits)

lemma map_of_fold_index_utxo:
  "l \<le> length us \<Longrightarrow>
   map_of (fold (index_utxo us) [0..<l] []) k = find_idx (\<lambda>u. BtxID u = k) (take l us)"
  by (induction l) (auto simp: map_of_index_utxo take_Suc_conv_app_nth find_idx_append split: option.splits)

lemma index_ok_no_index: "utxosMap ab = [] \<Longrightarrow> index_ok ab"
  by (simp add: index_ok_def)

lemma index_ok_new [simp]: "index_ok newAddrBalance"
  by (simp add: index_ok_def newAddrBalance_def)

lemma index_ok_addUtxo: "index_ok ab \<Longrightarrow> index_ok (addUtxo u ab)"
proof -
  assume ok: "index_ok ab"
  let ?us = "Utxos ab @ [u]"
  show "index_ok (addUtxo u ab)"
  proof (cases "utxosMap ab = []")
    case True
    then show ?thesis
      using map_of_fold_index_utxo[of "length ?us" ?us]
      by (auto simp: index_ok_def addUtxo_def Let_def simp del: fold_append upt_Suc)
  next
    case False
    with ok have "16 \<le> length (Utxos ab)"
      and "map_of (utxosMap ab) k = find_idx (\<lambda>u. BtxID u = k) (Utxos ab)" for k
      by (auto simp: index_ok_def)
    with False show ?thesis
      by (auto simp: index_ok_def addUtxo_def Let_def map_of_index_utxo find_idx_append
          split: option.splits)
  qed
qed

lemma addUtxo_fields [simp]:
  "Utxos (addUtxo u ab) = Utxos ab @ [u]"
  "Txs_ab (addUtxo u ab) = Txs_ab ab"
  "SentSat (addUtxo u ab) = SentSat ab"
  "BalanceSat (addUtxo u ab) = BalanceSat ab"
  by (simp_all add: addUtxo_def Let_def)

lemma fold_addUtxo_fields [simp]:
  "Utxos (fold addUtxo us ab) = Utxos ab @ us"
  "Txs_ab (fold addUtxo us ab) = Txs_ab ab"
  "SentSat (fold addUtxo us ab) = SentSat ab"
  "BalanceSat (fold addUtxo us ab) = BalanceSat ab"
  by (induction us arbitrary: ab) simp_all

lemma index_ok_fold_addUtxo: "index_ok ab \<Longrightarrow> index_ok (fold addUtxo us ab)"
  by (induction us arbitrary: ab) (simp_all add: index_ok_addUtxo)

subsection \<open>Marking an output as spent\<close>

lemma spendLinear_SomeD:
  "spendLinear us t n = Some us' \<Longrightarrow>
   \<exists>xs u ys. us = xs @ u # ys \<and> us' = xs @ u\<lparr> Vout_u := -1 \<rparr> # ys \<and> BtxID u = t \<and> Vout_u u = n \<and>
     (\<forall>x \<in> set xs. \<not> (BtxID x = t \<and> Vout_u x = n))"
proof (induction us arbitrary: us')
  case (Cons u us)
  show ?case
  proof (cases "BtxID u = t \<and> Vout_u u = n")
    case True
    with Cons.prems show ?thesis by (intro exI[of _ "[]"]) auto
  next
    case False
    with Cons.prems obtain us1 where "spendLinear us t n = Some us1" "us' = u # us1" by auto
    with Cons.IH obtain xs w ys where "us = xs @ w # ys" "us1 = xs @ w\<lparr> Vout_u := -1 \<rparr> # ys"
        "BtxID w = t" "Vout_u w = n" "\<forall>x \<in> set xs. \<not> (BtxID x = t \<and> Vout_u x = n)" by blast
    with False \<open>us' = u # us1\<close> show ?thesis by (intro exI[of _ "u # xs"]) auto
  qed
qed simp

lemma spendLinear_None_iff:
  "spendLinear us t n = None \<longleftrightarrow> (\<forall>u \<in> set us. \<not> (BtxID u = t \<and> Vout_u u = n))"
  by (induction us) auto

lemma spendLinear_append:
  "(\<And>u. u \<in> set xs \<Longrightarrow> BtxID u \<noteq> t) \<Longrightarrow>
   spendLinear (xs @ ys) t n = map_option (\<lambda>us. xs @ us) (spendLinear ys t n)"
  by (induction xs; cases "spendLinear ys t n") auto

lemma spendIndexed_other: "(\<And>u. u \<in> set us \<Longrightarrow> BtxID u \<noteq> t) \<Longrightarrow> spendIndexed us t n = None"
  by (induction us) auto

text \<open>The entries of each transaction stand together, as appending block after block leaves them.\<close>

fun utxos_grouped :: "Utxo list \<Rightarrow> bool" where
  "utxos_grouped [] = True"
| "utxos_grouped (u # us) \<longleftrightarrow> utxos_grouped us \<and>
     BtxID u \<notin> set (map BtxID (dropWhile (\<lambda>w. BtxID w = BtxID u) us))"

lemma spendIndexed_eq_spendLinear:
  "utxos_grouped us \<Longrightarrow> us = [] \<or> BtxID (hd us) = t \<or> (\<forall>u \<in> set us. BtxID u \<noteq> t) \<Longrightarrow>
   spendIndexed us t n = spendLinear us t n"
proof (induction us)
  case (Cons u us)
  show ?case
  proof (cases "BtxID u = t")
    case True
    have "us = [] \<or> BtxID (hd us) = t \<or> (\<forall>w \<in> set us. BtxID w \<noteq> t)"
    proof (cases us)
      case (Cons w ws)
      show ?thesis
      proof (cases "BtxID w = t")
        case False
        with Cons True have "dropWhile (\<lambda>x. BtxID x = BtxID u) us = us" by simp
        with Cons.prems(1) True show ?thesis by (force simp: image_iff)
      qed (simp add: Cons)
    qed simp
    with Cons.IH Cons.prems(1) have "spendIndexed us t n = spendLinear us t n" by simp
    with True show ?thesis by simp
  next
    case False
    with Cons.prems have "\<forall>w \<in> set (u # us). BtxID w \<noteq> t" by auto
    then have "spendLinear (u # us) t n = None" by (auto simp only: spendLinear_None_iff)
    moreover have "spendIndexed (u # us) t n = None"
      by (rule spendIndexed_other) (use \<open>\<forall>w \<in> set (u # us). BtxID w \<noteq> t\<close> in blast)
    ultimately show ?thesis by (simp only:)
  qed
qed simp

lemma utxos_grouped_drop: "utxos_grouped us \<Longrightarrow> utxos_grouped (drop i us)"
proof (induction us arbitrary: i)
  case (Cons u us)
  from Cons.prems have "utxos_grouped us" by (simp only: utxos_grouped.simps)
  then have "utxos_grouped (drop j us)" for j by (rule Cons.IH)
  with Cons.prems show ?case by (cases i) (simp_all only: drop_0 drop_Suc_Cons)
qed simp

lemma markUtxoAsSpent_indexed:
  assumes "index_ok ab" and "utxos_grouped (Utxos ab)"
  shows "markUtxoAsSpent t n ab =
    (case spendLinear (Utxos ab) t n of Some us \<Rightarrow> ab\<lparr> Utxos := us \<rparr> | None \<Rightarrow> ab)"
proof (cases "utxosMap ab = []")
  case True
  then show ?thesis by (simp add: markUtxoAsSpent_def)
next
  case False
  let ?us = "Utxos ab"
  have m: "map_of (utxosMap ab) t = find_idx (\<lambda>u. BtxID u = t) ?us"
    using assms(1) False by (rule index_okD)
  show ?thesis
  proof (cases "find_idx (\<lambda>u. BtxID u = t) ?us")
    case None
    then have "spendLinear ?us t n = None"
      by (auto simp: spendLinear_None_iff find_idx_None_iff)
    with None m False show ?thesis by (simp add: markUtxoAsSpent_def)
  next
    case (Some i)
    then have i: "i < length ?us" "BtxID (?us ! i) = t" "\<forall>u \<in> set (take i ?us). BtxID u \<noteq> t"
      by (auto dest: find_idx_SomeD)
    have "spendIndexed (drop i ?us) t n = spendLinear (drop i ?us) t n"
      using i(1,2) assms(2)
      by (intro spendIndexed_eq_spendLinear utxos_grouped_drop) (auto simp: hd_drop_conv_nth)
    moreover have "spendLinear ?us t n = map_option (\<lambda>us. take i ?us @ us) (spendLinear (drop i ?us) t n)"
      using spendLinear_append[of "take i ?us" t "drop i ?us" n] i(3) by simp
    ultimately show ?thesis using Some m False by (simp add: markUtxoAsSpent_def)
  qed
qed

lemma markUtxoAsSpent_fields [simp]:
  "Txs_ab (markUtxoAsSpent t n ab) = Txs_ab ab"
  "SentSat (markUtxoAsSpent t n ab) = SentSat ab"
  "BalanceSat (markUtxoAsSpent t n ab) = BalanceSat ab"
  "utxosMap (markUtxoAsSpent t n ab) = utxosMap ab"
  by (auto simp: markUtxoAsSpent_def Let_def split: option.splits)

lemma spendIndexed_BtxID: "spendIndexed us t n = Some us' \<Longrightarrow> map BtxID us' = map BtxID us"
  by (induction us arbitrary: us') (auto split: if_splits)

lemma spendLinear_BtxID: "spendLinear us t n = Some us' \<Longrightarrow> map BtxID us' = map BtxID us"
  by (induction us arbitrary: us') (auto split: if_splits)

lemma markUtxoAsSpent_BtxID: "map BtxID (Utxos (markUtxoAsSpent t n ab)) = map BtxID (Utxos ab)"
  by (auto simp: markUtxoAsSpent_def Let_def split: option.splits
      dest!: spendLinear_BtxID spendIndexed_BtxID)
    (metis append_take_drop_id map_append)+

lemma index_ok_markUtxoAsSpent: "index_ok ab \<Longrightarrow> index_ok (markUtxoAsSpent t n ab)"
  using markUtxoAsSpent_BtxID[of t n ab]
  by (simp add: index_ok_def find_idx_BtxID) (metis length_map)

section \<open>Balance and unspent outputs\<close>

text \<open>
  The invariant of an address: the amounts of its unspent entries are its balance. \<open>creditOutput\<close>
  and \<open>debitInput\<close> are what \<open>processAddressesBitcoinType\<close> does to the balance for an output and for
  an input, apart from the transaction count.
\<close>

definition unspent :: "Utxo list \<Rightarrow> Utxo list" where
  "unspent us = filter (\<lambda>u. 0 \<le> sint (Vout_u u)) us"

definition balance_ok :: "AddrBalance \<Rightarrow> bool" where
  "balance_ok ab \<longleftrightarrow> BalanceSat ab = sum_list (map ValueSat_u (unspent (Utxos ab))) \<and>
     (\<forall>u \<in> set (Utxos ab). 0 \<le> ValueSat_u u)"

definition creditOutput :: "Utxo \<Rightarrow> AddrBalance \<Rightarrow> AddrBalance" where
  "creditOutput u ab = addUtxo u (ab\<lparr> BalanceSat := BalanceSat ab + ValueSat_u u \<rparr>)"

definition debitInput :: "bytes \<Rightarrow> int32 \<Rightarrow> int \<Rightarrow> AddrBalance \<Rightarrow> AddrBalance" where
  "debitInput btxID vout val ab =
     (let ab = ab\<lparr> BalanceSat := BalanceSat ab - val \<rparr>;
          ab = markUtxoAsSpent btxID vout ab;
          ab = (if BalanceSat ab < 0 then ab\<lparr> BalanceSat := resetValueSatToZero (BalanceSat ab) \<rparr> else ab)
      in ab\<lparr> SentSat := SentSat ab + val \<rparr>)"

lemma unspent_append [simp]: "unspent (xs @ ys) = unspent xs @ unspent ys"
  by (simp add: unspent_def)

lemma balance_ok_new [simp]: "balance_ok newAddrBalance"
  by (simp add: balance_ok_def newAddrBalance_def unspent_def)

lemma index_ok_upd [simp]:
  "index_ok (ab\<lparr> BalanceSat := x \<rparr>) = index_ok ab"
  "index_ok (ab\<lparr> SentSat := x \<rparr>) = index_ok ab"
  "index_ok (ab\<lparr> Txs_ab := y \<rparr>) = index_ok ab"
  by (simp_all add: index_ok_def)

lemma index_ok_creditOutput: "index_ok ab \<Longrightarrow> index_ok (creditOutput u ab)"
  by (simp add: creditOutput_def index_ok_addUtxo)

lemma index_ok_debitInput: "index_ok ab \<Longrightarrow> index_ok (debitInput t n x ab)"
  by (simp add: debitInput_def Let_def index_ok_markUtxoAsSpent)

lemma balance_ok_creditOutput:
  "balance_ok ab \<Longrightarrow> 0 \<le> sint (Vout_u u) \<Longrightarrow> 0 \<le> ValueSat_u u \<Longrightarrow> balance_ok (creditOutput u ab)"
  by (simp add: balance_ok_def creditOutput_def unspent_def)

text \<open>
  Spending an entry that is there keeps the invariant, and the balance is never reset to zero.
\<close>

lemma sum_list_unspent_mono:
  "(\<forall>u \<in> set us. 0 \<le> ValueSat_u u) \<Longrightarrow> 0 \<le> sum_list (map ValueSat_u (unspent us))"
  by (induction us) (auto simp: unspent_def)

lemma debitInput_spends:
  assumes "balance_ok ab" and "index_ok ab" and "utxos_grouped (Utxos ab)"
    and "u \<in> set (Utxos ab)" and "BtxID u = t" and "Vout_u u = n" and "0 \<le> sint n"
    and unique: "\<And>w. w \<in> set (Utxos ab) \<Longrightarrow> BtxID w = t \<Longrightarrow> Vout_u w = n \<Longrightarrow> ValueSat_u w = x"
  shows "balance_ok (debitInput t n x ab) \<and> BalanceSat (debitInput t n x ab) = BalanceSat ab - x \<and>
    SentSat (debitInput t n x ab) = SentSat ab + x"
proof -
  obtain us' where sp: "spendLinear (Utxos ab) t n = Some us'"
    using assms(4-6) spendLinear_None_iff[of "Utxos ab" t n] by (cases "spendLinear (Utxos ab) t n") auto
  then obtain xs w ys where us: "Utxos ab = xs @ w # ys" and us': "us' = xs @ w\<lparr> Vout_u := -1 \<rparr> # ys"
    and w: "BtxID w = t" "Vout_u w = n" using spendLinear_SomeD by blast
  have x: "ValueSat_u w = x" using unique[of w] us w by simp
  let ?ab = "ab\<lparr> BalanceSat := BalanceSat ab - x \<rparr>"
  have mark: "markUtxoAsSpent t n ?ab = ?ab\<lparr> Utxos := us' \<rparr>"
    using markUtxoAsSpent_indexed[of ?ab t n] assms(2,3) sp by simp
  have minus: "unspent [w] = [w]" "unspent [w\<lparr> Vout_u := -1 \<rparr>] = []"
    using w assms(7) by (simp_all add: unspent_def)
  then have u: "unspent (w # ys) = w # unspent ys" "unspent (w\<lparr> Vout_u := -1 \<rparr> # ys) = unspent ys"
    by (simp_all add: unspent_def split: if_splits)
  have "BalanceSat ab = sum_list (map ValueSat_u (unspent xs)) + x + sum_list (map ValueSat_u (unspent ys))"
    using assms(1) us x u by (simp add: balance_ok_def)
  moreover have "0 \<le> sum_list (map ValueSat_u (unspent xs))" "0 \<le> sum_list (map ValueSat_u (unspent ys))"
    using assms(1) us by (auto intro!: sum_list_unspent_mono simp: balance_ok_def)
  ultimately show ?thesis
    using assms(1) us us' u mark by (auto simp: debitInput_def Let_def balance_ok_def)
qed

lemma BalanceSat_debitInput:
  "BalanceSat (debitInput t n x ab) = max 0 (BalanceSat ab - x)"
  "SentSat (debitInput t n x ab) = SentSat ab + x"
  by (auto simp: debitInput_def Let_def resetValueSatToZero_def)

lemma BalanceSat_creditOutput [simp]:
  "BalanceSat (creditOutput u ab) = BalanceSat ab + ValueSat_u u"
  "SentSat (creditOutput u ab) = SentSat ab"
  "Txs_ab (creditOutput u ab) = Txs_ab ab"
  "Utxos (creditOutput u ab) = Utxos ab @ [u]"
  by (simp_all add: creditOutput_def)

section \<open>Round trip\<close>

definition utxo_ok :: "nat \<Rightarrow> Utxo \<Rightarrow> bool" where
  "utxo_ok n u \<longleftrightarrow> length (BtxID u) = n \<and> amount_ok (ValueSat_u u)"

definition addrbalance_ok :: "nat \<Rightarrow> AddrBalance \<Rightarrow> bool" where
  "addrbalance_ok n ab \<longleftrightarrow> amount_ok (SentSat ab) \<and> amount_ok (BalanceSat ab) \<and>
     (\<forall>u \<in> set (Utxos ab). utxo_ok n u)"

lemma appendUtxo_append: "appendUtxo v u buf = buf @ appendUtxo v u []"
  by (simp add: appendUtxo_def)

lemmas fold_appendUtxo = fold_append_concat[of "appendUtxo v" for v, OF appendUtxo_append]

lemma concat_appendUtxo_unspent:
  "concat (map (\<lambda>u. appendUtxo v u []) us) = concat (map (\<lambda>u. appendUtxo v u []) (unspent us))"
  by (induction us) (auto simp: unspent_def appendUtxo_def)

context vlq_codec
begin

lemma unpackUtxos_concat:
  "\<forall>u \<in> set us. utxo_ok n u \<and> 0 \<le> sint (Vout_u u) \<Longrightarrow>
   unpackUtxos v n (concat (map (\<lambda>u. appendUtxo v u []) us)) = Inr us"
proof (induction us)
  case Nil
  show ?case by (simp add: unpackUtxos.simps)
next
  case (Cons u us)
  let ?rest = "concat (map (\<lambda>u. appendUtxo v u []) us)"
  let ?b = "concat (map (\<lambda>u. appendUtxo v u []) (u # us))"
  have u: "length (BtxID u) = n" "amount_ok (ValueSat_u u)" "0 \<le> sint (Vout_u u)"
    using Cons.prems by (auto simp: utxo_ok_def)
  then have b: "?b = BtxID u @ PutUint v (scast (Vout_u u)) @ PutUint v (ucast (Height_u u)) @
      packBigint (ValueSat_u u) @ ?rest"
    by (simp add: appendUtxo_def packVaruint_def)
  have "0 < length (PutUint v (scast (Vout_u u)))" "0 < length (PutUint v (ucast (Height_u u)))"
      "0 < length (packBigint (ValueSat_u u))"
    using length_packBigint by (auto simp: PutUint_nonempty)
  then have len: "\<not> length ?b < n + 3" unfolding b length_append u(1) by linarith
  have "unpackUtxos v n ?rest = Inr us" using Cons by simp
  then show ?case
    using len u unfolding b
    by (subst unpackUtxos.simps) (simp add: Let_def unpackVaruint_def bigint.dec_enc del: length_append)
qed

lemma unpackAddrBalance_packAddrBalance:
  assumes "addrbalance_ok n ab"
  shows "unpackAddrBalance v (packAddrBalance v ab) n detail =
    Inr (let ab' = ab\<lparr> Utxos := [], utxosMap := [] \<rparr> in
      case detail of AddressBalanceDetailNoUTXO \<Rightarrow> ab'
      | AddressBalanceDetailUTXO \<Rightarrow> ab'\<lparr> Utxos := unspent (Utxos ab) \<rparr>
      | addressBalanceDetailUTXOIndexed \<Rightarrow> fold addUtxo (unspent (Utxos ab)) ab')"
proof -
  have ok: "amount_ok (SentSat ab)" "amount_ok (BalanceSat ab)"
    using assms by (simp_all add: addrbalance_ok_def)
  have "unpackUtxos v n (concat (map (\<lambda>u. appendUtxo v u []) (unspent (Utxos ab)))) = Inr (unspent (Utxos ab))"
    using assms by (intro unpackUtxos_concat) (auto simp: addrbalance_ok_def unspent_def)
  then have "unpackUtxos v n (concat (map (\<lambda>u. appendUtxo v u []) (Utxos ab))) = Inr (unspent (Utxos ab))"
    by (simp only: concat_appendUtxo_unspent[of v "Utxos ab"])
  then show ?thesis
    using ok by (cases ab) (simp add: unpackAddrBalance_def packAddrBalance_def Let_def unpackVaruint_def
        packVaruint_def fold_appendUtxo bigint.dec_enc split: AddressBalanceDetail.splits)
qed

end

section \<open>Properties\<close>

text \<open>A balance record read back from the \<open>addressBalance\<close> column has the stored totals and
  exactly the unspent entries, in their order; entries marked as spent are gone. The indexed variant
  used for updates has the same entries and a correct index.\<close>

theorem addrBalance_roundtrip:
  assumes "vlq_codec v" and "addrbalance_ok n ab"
  shows "unpackAddrBalance v (packAddrBalance v ab) n AddressBalanceDetailUTXO =
      Inr (ab\<lparr> Utxos := unspent (Utxos ab), utxosMap := [] \<rparr>) \<and>
    (\<exists>ab'. unpackAddrBalance v (packAddrBalance v ab) n addressBalanceDetailUTXOIndexed = Inr ab' \<and>
      index_ok ab' \<and> Utxos ab' = unspent (Utxos ab) \<and> Txs_ab ab' = Txs_ab ab \<and>
      BalanceSat ab' = BalanceSat ab \<and> SentSat ab' = SentSat ab)"
  using vlq_codec.unpackAddrBalance_packAddrBalance[OF assms]
  by (simp add: Let_def index_ok_fold_addUtxo index_ok_no_index)

theorem addrBalance_roundtrip_witness:
  "unpackAddrBalance base128 (packAddrBalance base128
      \<lparr> Txs_ab = 2, SentSat = 70000, BalanceSat = 300,
        Utxos = [\<lparr> BtxID = [1, 2], Vout_u = -1, Height_u = 7, ValueSat_u = 70000 \<rparr>,
                 \<lparr> BtxID = [3, 4], Vout_u = 5, Height_u = 9, ValueSat_u = 300 \<rparr>], utxosMap = [] \<rparr>) 2
      AddressBalanceDetailUTXO =
    Inr \<lparr> Txs_ab = 2, SentSat = 70000, BalanceSat = 300,
      Utxos = [\<lparr> BtxID = [3, 4], Vout_u = 5, Height_u = 9, ValueSat_u = 300 \<rparr>], utxosMap = [] \<rparr>"
  using addrBalance_roundtrip[OF base128.vlq_codec_axioms, of 2
      "\<lparr> Txs_ab = 2, SentSat = 70000, BalanceSat = 300,
        Utxos = [\<lparr> BtxID = [1, 2], Vout_u = -1, Height_u = 7, ValueSat_u = 70000 \<rparr>,
                 \<lparr> BtxID = [3, 4], Vout_u = 5, Height_u = 9, ValueSat_u = 300 \<rparr>], utxosMap = [] \<rparr>"]
  by (simp add: addrbalance_ok_def utxo_ok_def amount_ok_64 unspent_def)

text \<open>C26: Marking an output as spent through the index does what the search through all entries does,
  for every address whose index is correct and whose entries stand grouped by transaction.\<close>

theorem indexed_spend_eq_linear:
  assumes "index_ok ab" and "utxos_grouped (Utxos ab)"
  shows "markUtxoAsSpent t n ab =
    (markUtxoAsSpent t n (ab\<lparr> utxosMap := [] \<rparr>))\<lparr> utxosMap := utxosMap ab \<rparr>"
  using markUtxoAsSpent_indexed[OF assms, of t n]
  by (auto simp: markUtxoAsSpent_def split: option.splits)

text \<open>Sixteen entries of which the second transaction has two outputs, one apart from the other.\<close>

definition sampleUtxo :: "byte \<Rightarrow> int32 \<Rightarrow> Utxo" where
  "sampleUtxo k n = \<lparr> BtxID = replicate 8 k, Vout_u = n, Height_u = 100, ValueSat_u = 1000 \<rparr>"

definition sampleUtxos :: "Utxo list \<Rightarrow> AddrBalance" where
  "sampleUtxos us = fold addUtxo (us @ map (\<lambda>k. sampleUtxo (of_nat k) 0) [3..<16]) newAddrBalance"

lemma index_ok_sampleUtxos: "index_ok (sampleUtxos us)"
  unfolding sampleUtxos_def by (rule index_ok_fold_addUtxo) (rule index_ok_new)

theorem indexed_spend_eq_linear_witness:
  "utxosMap (sampleUtxos [sampleUtxo 1 0, sampleUtxo 1 1, sampleUtxo 2 1]) \<noteq> [] \<and>
   markUtxoAsSpent (replicate 8 1) 1 (sampleUtxos [sampleUtxo 1 0, sampleUtxo 1 1, sampleUtxo 2 1]) =
    (markUtxoAsSpent (replicate 8 1) 1
      ((sampleUtxos [sampleUtxo 1 0, sampleUtxo 1 1, sampleUtxo 2 1])\<lparr> utxosMap := [] \<rparr>))
      \<lparr> utxosMap := utxosMap (sampleUtxos [sampleUtxo 1 0, sampleUtxo 1 1, sampleUtxo 2 1]) \<rparr>"
proof -
  have "index_ok (sampleUtxos [sampleUtxo 1 0, sampleUtxo 1 1, sampleUtxo 2 1])"
    by (rule index_ok_sampleUtxos)
  moreover have "utxos_grouped (Utxos (sampleUtxos [sampleUtxo 1 0, sampleUtxo 1 1, sampleUtxo 2 1]))"
    by code_simp
  ultimately have "markUtxoAsSpent (replicate 8 1) 1 (sampleUtxos [sampleUtxo 1 0, sampleUtxo 1 1, sampleUtxo 2 1]) =
    (markUtxoAsSpent (replicate 8 1) 1
      ((sampleUtxos [sampleUtxo 1 0, sampleUtxo 1 1, sampleUtxo 2 1])\<lparr> utxosMap := [] \<rparr>))
      \<lparr> utxosMap := utxosMap (sampleUtxos [sampleUtxo 1 0, sampleUtxo 1 1, sampleUtxo 2 1]) \<rparr>"
    by (rule indexed_spend_eq_linear)
  moreover have "utxosMap (sampleUtxos [sampleUtxo 1 0, sampleUtxo 1 1, sampleUtxo 2 1]) \<noteq> []"
    by code_simp
  ultimately show ?thesis by blast
qed

text \<open>Without the grouping the index loses outputs. In an address with sixteen entries, where the
  entry of another transaction with the same output number stands between the first entry of a
  transaction and the one that is spent, \<open>markUtxoAsSpent\<close> changes nothing although the entry is
  there and the search without the index finds it.\<close>

theorem indexed_spend_misses_interleaved:
  "index_ok (sampleUtxos [sampleUtxo 1 0, sampleUtxo 2 1, sampleUtxo 1 1]) \<and>
   sampleUtxo 1 1 \<in> set (Utxos (sampleUtxos [sampleUtxo 1 0, sampleUtxo 2 1, sampleUtxo 1 1])) \<and>
   markUtxoAsSpent (replicate 8 1) 1 (sampleUtxos [sampleUtxo 1 0, sampleUtxo 2 1, sampleUtxo 1 1]) =
     sampleUtxos [sampleUtxo 1 0, sampleUtxo 2 1, sampleUtxo 1 1] \<and>
   spendLinear (Utxos (sampleUtxos [sampleUtxo 1 0, sampleUtxo 2 1, sampleUtxo 1 1])) (replicate 8 1) 1 \<noteq> None"
proof (intro conjI)
  show "index_ok (sampleUtxos [sampleUtxo 1 0, sampleUtxo 2 1, sampleUtxo 1 1])"
    by (rule index_ok_sampleUtxos)
  show "markUtxoAsSpent (replicate 8 1) 1 (sampleUtxos [sampleUtxo 1 0, sampleUtxo 2 1, sampleUtxo 1 1]) =
     sampleUtxos [sampleUtxo 1 0, sampleUtxo 2 1, sampleUtxo 1 1]"
    by code_simp
qed (code_simp+)

text \<open>The duplicate check sees, in an address with an index, only the first entry of each transaction:
  a second output of the same transaction that is already listed is not recognised, although the
  check without the index recognises it.\<close>

theorem hasUtxo_indexed_first_only:
  "hasUtxo (sampleUtxos [sampleUtxo 1 0, sampleUtxo 1 1, sampleUtxo 2 1]) (replicate 8 1) 1 = Inr False \<and>
   hasUtxo ((sampleUtxos [sampleUtxo 1 0, sampleUtxo 1 1, sampleUtxo 2 1])\<lparr> utxosMap := [] \<rparr>)
     (replicate 8 1) 1 = Inr True"
  by code_simp



end
