(* ===== verification/Base_Parser.thy ===== *)
theory Base_Parser
  imports Chain_Types
begin

text \<open>
  \<open>bchain/baseparser.go\<close>: what every coin's parser inherits. Amounts are converted between decimal strings
  and \<open>big.Int\<close> with string operations, transaction ids and block hashes between hexadecimal strings and
  bytes, and transactions are stored as protobuf messages. \<open>encoding/json\<close> and \<open>gogo/protobuf\<close> are
  parameters; \<open>encoding/hex\<close>, \<open>strings\<close> and \<open>math/big\<close> belong to the standard library and are modelled.
\<close>

section \<open>Hexadecimal strings\<close>

definition hexDigits :: string where
  "hexDigits = ''0123456789abcdef''"

definition hexByte :: "byte \<Rightarrow> string" where
  "hexByte b = [hexDigits ! (unat b div 16), hexDigits ! (unat b mod 16)]"

definition EncodeToString :: "bytes \<Rightarrow> string" where
  "EncodeToString src = concat (map hexByte src)"

definition fromHexChar :: "char \<Rightarrow> nat option" where
  "fromHexChar c =
     (let n = of_char c :: nat in
      if 48 \<le> n \<and> n \<le> 57 then Some (n - 48)
      else if 97 \<le> n \<and> n \<le> 102 then Some (n - 97 + 10)
      else if 65 \<le> n \<and> n \<le> 70 then Some (n - 65 + 10)
      else None)"

fun DecodeString :: "string \<Rightarrow> go_error + bytes" where
  "DecodeString [] = Inr []"
| "DecodeString [c] = Inl (Errorf ''encoding/hex: odd length hex string'')"
| "DecodeString (a # b # s) =
     (case (fromHexChar a, fromHexChar b) of
        (Some x, Some y) \<Rightarrow> rbind (DecodeString s) (\<lambda>bs. Inr (of_nat (16 * x + y) # bs))
      | _ \<Rightarrow> Inl (Errorf ''encoding/hex: invalid byte''))"

lemma fromHexChar_digit: "n < 16 \<Longrightarrow> fromHexChar (hexDigits ! n) = Some n"
proof -
  assume "n < 16"
  then have "n \<in> set [0..<16]" by simp
  then show ?thesis
    by (simp add: upt_rec) (elim disjE; simp add: hexDigits_def fromHexChar_def)
qed

lemma DecodeString_EncodeToString [simp]: "DecodeString (EncodeToString bs) = Inr bs"
proof (induction bs)
  case (Cons b bs)
  have b: "unat b div 16 < 16" using unsigned_less[of b, where 'a = nat] by simp
  have "(of_nat (16 * (unat b div 16) + unat b mod 16) :: byte) = b"
    by (simp only: mult_div_mod_eq) simp
  with Cons b show ?case
    by (simp add: EncodeToString_def hexByte_def fromHexChar_digit del: of_nat_add of_nat_mult)
qed (simp add: EncodeToString_def)

lemma length_EncodeToString [simp]: "length (EncodeToString bs) = 2 * length bs"
  by (induction bs) (simp_all add: EncodeToString_def hexByte_def)

lemma EncodeToString_Nil_iff [simp]: "EncodeToString bs = [] \<longleftrightarrow> bs = []"
  using length_EncodeToString[of bs] by (cases bs) (auto simp: EncodeToString_def hexByte_def)

section \<open>Numbers as decimal strings\<close>

text \<open>\<open>big.Int.String\<close> and \<open>big.Int.SetString(s, 10)\<close>.\<close>

definition digit :: "nat \<Rightarrow> char" where
  "digit n = char_of (48 + n)"

fun dec_digits :: "nat \<Rightarrow> string" where
  "dec_digits n = (if n < 10 then [digit n] else dec_digits (n div 10) @ [digit (n mod 10)])"

declare dec_digits.simps [simp del]

definition dec_digits_if :: "bool \<Rightarrow> nat \<Rightarrow> string" where
  "dec_digits_if b n = (if b then [digit n] else dec_digits (n div 10) @ [digit (n mod 10)])"

lemma dec_digits_if_code [code]:
  "dec_digits_if True n = [digit n]"
  "dec_digits_if False n = dec_digits (n div 10) @ [digit (n mod 10)]"
  by (simp_all add: dec_digits_if_def)

lemma dec_digits_code [code]: "dec_digits n = dec_digits_if (n < 10) n"
  unfolding dec_digits_if_def by (rule dec_digits.simps)

definition BigInt_String :: "int \<Rightarrow> string" where
  "BigInt_String a = (if a < 0 then CHR ''-'' # dec_digits (nat (- a)) else dec_digits (nat a))"

definition digit_val :: "char \<Rightarrow> nat option" where
  "digit_val c = (let n = of_char c :: nat in if 48 \<le> n \<and> n \<le> 57 then Some (n - 48) else None)"

fun digits_val :: "nat \<Rightarrow> string \<Rightarrow> nat option" where
  "digits_val a [] = Some a"
| "digits_val a (c # s) = (case digit_val c of Some x \<Rightarrow> digits_val (10 * a + x) s | None \<Rightarrow> None)"

definition SetString :: "string \<Rightarrow> int option" where
  "SetString s =
     (let (neg, ds) = (case s of
          c # r \<Rightarrow> if c = CHR ''-'' then (True, r) else if c = CHR ''+'' then (False, r) else (False, s)
        | [] \<Rightarrow> (False, [])) in
      if ds = [] then None
      else map_option (\<lambda>n. if neg then - int n else int n) (digits_val 0 ds))"

section \<open>The parser\<close>

record BaseParser =
  BlockAddressesToKeep :: int
  AmountDecimalPoint :: int

definition GetAddrDescForUnknownInput_base :: "Tx \<Rightarrow> nat \<Rightarrow> AddressDescriptor" where
  "GetAddrDescForUnknownInput_base tx input = []"

definition GetValueSatForUnknownInput_base :: "Tx \<Rightarrow> nat \<Rightarrow> int" where
  "GetValueSatForUnknownInput_base tx input = 0"

definition zeros :: string where
  "zeros = replicate 40 CHR ''0''"

text \<open>\<open>strings.IndexByte\<close>; \<open>None\<close> is -1.\<close>

fun IndexByte :: "string \<Rightarrow> char \<Rightarrow> nat option" where
  "IndexByte [] c = None"
| "IndexByte (x # s) c = (if x = c then Some 0 else map_option Suc (IndexByte s c))"

text \<open>The decimal point of the configuration, limited by the length of \<open>zeros\<close>.\<close>

definition decimals :: "int \<Rightarrow> int" where
  "decimals d = (if d > int (length zeros) then int (length zeros) else d)"

text \<open>A slice expression with a negative bound panics.\<close>

definition slice_int :: "'a list \<Rightarrow> int \<Rightarrow> int \<Rightarrow> go_error + 'a list" where
  "slice_int buf l h = (if l < 0 \<or> h < 0 then Inl (Panic ''slice bounds out of range'')
     else slice buf (nat l) (nat h))"

definition AmountToBigInt :: "BaseParser \<Rightarrow> string \<Rightarrow> go_error + int" where
  "AmountToBigInt p s =
     (let d = decimals (AmountDecimalPoint p) in
      rbind (case IndexByte s CHR ''.'' of
          None \<Rightarrow> rbind (slice_int zeros 0 d) (\<lambda>zs. Inr (s @ zs))
        | Some i \<Rightarrow>
            let z = d - int (length s) + int i + 1 in
            if z > 0 then rbind (slice_int zeros 0 z) (\<lambda>zs. Inr (take i s @ drop (i + 1) s @ zs))
            else rbind (slice_int s (int i + 1) (int (length s) + z)) (\<lambda>f. Inr (take i s @ f))) (\<lambda>s.
      case SetString s of
        None \<Rightarrow> Inl (Errorf ''AmountToBigInt: failed to convert'')
      | Some r \<Rightarrow> Inr r))"

definition TrimRight :: "string \<Rightarrow> char \<Rightarrow> string" where
  "TrimRight s c = rev (dropWhile (\<lambda>x. x = c) (rev s))"

definition AmountToDecimalString :: "int option \<Rightarrow> int \<Rightarrow> go_error + string" where
  "AmountToDecimalString a d =
     (case a of
        None \<Rightarrow> Inr ''''
      | Some a \<Rightarrow>
          let n = BigInt_String a;
              (n, s) = (if hd n = CHR ''-'' then (tl n, ''-'') else (n, ''''));
              d = decimals d in
          rbind (if int (length n) \<le> d
                 then rbind (slice_int zeros 0 (d - int (length n) + 1)) (\<lambda>zs. Inr (zs @ n))
                 else Inr n) (\<lambda>n.
          let i = int (length n) - d in
          rbind (slice_int n i (int (length n))) (\<lambda>f.
          rbind (slice_int n 0 i) (\<lambda>ip.
          let ad = TrimRight f CHR ''0'' in
          Inr (s @ ip @ (if ad \<noteq> '''' then ''.'' @ ad else ''''))))))"

text \<open>\<open>ParseTxFromJson\<close>: \<open>json.Unmarshal\<close> gives the transaction with its amounts still as text.\<close>

fun parseVouts :: "BaseParser \<Rightarrow> Vout list \<Rightarrow> go_error + Vout list" where
  "parseVouts p [] = Inr []"
| "parseVouts p (vout # vouts) =
     rbind (AmountToBigInt p (JsonValue vout)) (\<lambda>v.
     rbind (parseVouts p vouts) (\<lambda>vs. Inr (vout\<lparr> ValueSat_vout := v, JsonValue := '''' \<rparr> # vs)))"

definition ParseTxFromJson_base :: "(string \<Rightarrow> go_error + Tx) \<Rightarrow> BaseParser \<Rightarrow> string \<Rightarrow> go_error + Tx" where
  "ParseTxFromJson_base unmarshal p msg =
     rbind (unmarshal msg) (\<lambda>tx.
     rbind (parseVouts p (Vout_tx tx)) (\<lambda>vouts. Inr (tx\<lparr> Vout_tx := vouts \<rparr>)))"

definition PackedTxidLen_base :: nat where "PackedTxidLen_base = 32"

definition PackTxid_base :: "string \<Rightarrow> go_error + bytes" where
  "PackTxid_base txid = (if txid = '''' then Inl ErrTxidMissing else DecodeString txid)"

definition UnpackTxid_base :: "bytes \<Rightarrow> go_error + string" where
  "UnpackTxid_base buf = Inr (EncodeToString buf)"

definition PackBlockHash_base :: "string \<Rightarrow> go_error + bytes" where
  "PackBlockHash_base hash = DecodeString hash"

definition UnpackBlockHash_base :: "bytes \<Rightarrow> go_error + string" where
  "UnpackBlockHash_base buf = Inr (EncodeToString buf)"

section \<open>Transactions as protobuf messages\<close>

text \<open>The messages of \<open>bchain/tx.proto\<close>.\<close>

record ProtoTransaction_VinType =
  Coinbase_pi :: string
  Txid_pi :: bytes
  Vout_pi :: uint32
  ScriptSigHex :: bytes
  Sequence_pi :: uint32
  Addresses_pi :: "string list"

record ProtoTransaction_VoutType =
  ValueSat_po :: bytes
  N_po :: uint32
  ScriptPubKeyHex :: bytes
  Addresses_po :: "string list"

record ProtoTransaction =
  Txid_pt :: bytes
  Hex_pt :: bytes
  Blocktime_pt :: uint64
  Locktime_pt :: uint32
  Height_pt :: uint32
  Vin_pt :: "ProtoTransaction_VinType list"
  Vout_pt :: "ProtoTransaction_VoutType list"
  Version_pt :: int32

record protobuf =
  Marshal :: "ProtoTransaction \<Rightarrow> go_error + bytes"
  Unmarshal :: "bytes \<Rightarrow> go_error + ProtoTransaction"

text \<open>\<open>big.Int.Bytes\<close>: the absolute value, big-endian, without leading zeros; \<open>SetBytes\<close> reads it.\<close>

fun BigInt_Bytes_nat :: "nat \<Rightarrow> bytes" where
  "BigInt_Bytes_nat n = (if n = 0 then [] else BigInt_Bytes_nat (n div 256) @ [of_nat n])"

declare BigInt_Bytes_nat.simps [simp del]

definition BigInt_Bytes_if :: "bool \<Rightarrow> nat \<Rightarrow> bytes" where
  "BigInt_Bytes_if b n = (if b then [] else BigInt_Bytes_nat (n div 256) @ [of_nat n])"

lemma BigInt_Bytes_if_code [code]:
  "BigInt_Bytes_if True n = []"
  "BigInt_Bytes_if False n = BigInt_Bytes_nat (n div 256) @ [of_nat n]"
  by (simp_all add: BigInt_Bytes_if_def)

lemma BigInt_Bytes_nat_code [code]: "BigInt_Bytes_nat n = BigInt_Bytes_if (n = 0) n"
  unfolding BigInt_Bytes_if_def by (rule BigInt_Bytes_nat.simps)

definition BigInt_Bytes :: "int \<Rightarrow> bytes" where
  "BigInt_Bytes a = BigInt_Bytes_nat (nat \<bar>a\<bar>)"

definition BigInt_SetBytes :: "bytes \<Rightarrow> int" where
  "BigInt_SetBytes bs = int (be_val bs)"

text \<open>A loop that builds a slice of the same length and may return an error.\<close>

fun rmap :: "('a \<Rightarrow> go_error + 'b) \<Rightarrow> 'a list \<Rightarrow> go_error + 'b list" where
  "rmap f [] = Inr []"
| "rmap f (x # xs) = rbind (f x) (\<lambda>y. rbind (rmap f xs) (\<lambda>ys. Inr (y # ys)))"

text \<open>\<open>errors.Annotatef\<close> makes a new error value of the message.\<close>

definition Annotatef :: "string \<Rightarrow> go_error + 'a \<Rightarrow> go_error + 'a" where
  "Annotatef msg r = (case r of Inl e \<Rightarrow> Inl (if is_panic e then e else Errorf msg) | Inr x \<Rightarrow> Inr x)"

lemma Annotatef_Inr [simp]: "Annotatef msg (Inr x) = Inr x"
  by (simp add: Annotatef_def)

definition packVin :: "Vin \<Rightarrow> go_error + ProtoTransaction_VinType" where
  "packVin vi =
     rbind (Annotatef ''Vin Hex'' (DecodeString (Hex_ss (ScriptSig_vin vi)))) (\<lambda>hex.
     rbind (case PackTxid_base (Txid_vin vi) of
         Inl e \<Rightarrow> if e = ErrTxidMissing then Inr [] else Annotatef ''Vin Txid'' (Inl e)
       | Inr b \<Rightarrow> Inr b) (\<lambda>itxid.
     Inr \<lparr> Coinbase_pi = Coinbase vi, Txid_pi = itxid, Vout_pi = Vout_vin vi, ScriptSigHex = hex,
           Sequence_pi = Sequence vi, Addresses_pi = Addresses_vin vi \<rparr>))"

definition packVout :: "Vout \<Rightarrow> go_error + ProtoTransaction_VoutType" where
  "packVout vo =
     rbind (Annotatef ''Vout Hex'' (DecodeString (Hex_spk (ScriptPubKey_vout vo)))) (\<lambda>hex.
     Inr \<lparr> ValueSat_po = BigInt_Bytes (ValueSat_vout vo), N_po = N_vout vo, ScriptPubKeyHex = hex,
           Addresses_po = Addresses_spk (ScriptPubKey_vout vo) \<rparr>)"

definition PackTx_base :: "protobuf \<Rightarrow> Tx \<Rightarrow> uint32 \<Rightarrow> int64 \<Rightarrow> go_error + bytes" where
  "PackTx_base pb tx height blockTime =
     rbind (rmap packVin (Vin_tx tx)) (\<lambda>pti.
     rbind (rmap packVout (Vout_tx tx)) (\<lambda>pto.
     rbind (Annotatef ''Hex'' (DecodeString (Hex_tx tx))) (\<lambda>hex.
     rbind (Annotatef ''Txid'' (PackTxid_base (Txid_tx tx))) (\<lambda>txid.
     Marshal pb \<lparr> Txid_pt = txid, Hex_pt = hex, Blocktime_pt = blockTime, Locktime_pt = LockTime tx,
       Height_pt = height, Vin_pt = pti, Vout_pt = pto, Version_pt = Version_tx tx \<rparr>))))"

definition unpackVin :: "ProtoTransaction_VinType \<Rightarrow> go_error + Vin" where
  "unpackVin pti =
     rbind (UnpackTxid_base (Txid_pi pti)) (\<lambda>itxid.
     Inr \<lparr> Coinbase = Coinbase_pi pti, Txid_vin = itxid, Vout_vin = Vout_pi pti,
           ScriptSig_vin = \<lparr> Hex_ss = EncodeToString (ScriptSigHex pti) \<rparr>,
           Sequence = Sequence_pi pti, Addresses_vin = Addresses_pi pti \<rparr>)"

definition unpackVout :: "ProtoTransaction_VoutType \<Rightarrow> Vout" where
  "unpackVout pto =
     \<lparr> ValueSat_vout = BigInt_SetBytes (ValueSat_po pto), JsonValue = '''', N_vout = N_po pto,
       ScriptPubKey_vout = \<lparr> Hex_spk = EncodeToString (ScriptPubKeyHex pto), Addresses_spk = Addresses_po pto \<rparr> \<rparr>"

definition UnpackTx_base :: "protobuf \<Rightarrow> bytes \<Rightarrow> go_error + (Tx \<times> uint32)" where
  "UnpackTx_base pb buf =
     rbind (Unmarshal pb buf) (\<lambda>pt.
     rbind (UnpackTxid_base (Txid_pt pt)) (\<lambda>txid.
     rbind (rmap unpackVin (Vin_pt pt)) (\<lambda>vin.
     Inr (\<lparr> Hex_tx = EncodeToString (Hex_pt pt), Txid_tx = txid, Version_tx = Version_pt pt,
            LockTime = Locktime_pt pt, Vin_tx = vin, Vout_tx = map unpackVout (Vout_pt pt),
            Confirmations_tx = 0, Time_tx = Blocktime_pt pt, Blocktime = Blocktime_pt pt,
            VShieldIn_tx = [], VShieldOut_tx = [], ShieldValBal_tx = 0, CoinSpecificData = NoData \<rparr>, Height_pt pt))))"

section \<open>The parser a coin inherits\<close>

text \<open>
  The method set of a parser that embeds \<open>*BaseParser\<close> and adds the four methods the base leaves out:
  the descriptor of an output and of an address, the addresses and the script of a descriptor.
\<close>

record parser_packages =
  UnmarshalTx :: "string \<Rightarrow> go_error + Tx"
  proto :: protobuf

definition notSupported :: "go_error + 'a" where
  "notSupported = Inl (Errorf ''Not supported'')"

definition embedBaseParser ::
    "parser_packages \<Rightarrow> BaseParser \<Rightarrow> (Vout \<Rightarrow> go_error + AddressDescriptor) \<Rightarrow>
     (string \<Rightarrow> go_error + AddressDescriptor) \<Rightarrow> (AddressDescriptor \<Rightarrow> go_error + (string list \<times> bool)) \<Rightarrow>
     (AddressDescriptor \<Rightarrow> go_error + bytes) \<Rightarrow> BlockChainParser" where
  "embedBaseParser P b fromVout fromAddress addresses script =
     \<lparr> GetChainType = ChainBitcoinType,
       KeepBlockAddresses = BlockAddressesToKeep b,
       AmountDecimals = AmountDecimalPoint b,
       AmountToDecimalString_p = (\<lambda>a. AmountToDecimalString a (AmountDecimalPoint b)),
       AmountToBigInt_p = AmountToBigInt b,
       GetAddrDescFromVout = fromVout,
       GetAddrDescFromAddress = fromAddress,
       GetAddressesFromAddrDesc = addresses,
       GetScriptFromAddrDesc = script,
       IsAddrDescIndexable = (\<lambda>_. True),
       PackedTxidLen = PackedTxidLen_base,
       PackTxid = PackTxid_base,
       UnpackTxid = UnpackTxid_base,
       ParseTx = (\<lambda>_. Inl (Errorf ''ParseTx: not implemented'')),
       ParseTxFromJson = ParseTxFromJson_base (UnmarshalTx P) b,
       PackTx = PackTx_base (proto P),
       UnpackTx = UnpackTx_base (proto P),
       GetAddrDescForUnknownInput = GetAddrDescForUnknownInput_base,
       GetValueSatForUnknownInput = GetValueSatForUnknownInput_base,
       PackBlockHash = PackBlockHash_base,
       UnpackBlockHash = UnpackBlockHash_base,
       ParseBlock = (\<lambda>_. Inl (Errorf ''ParseBlock: not implemented'')),
       DerivationBasePath = (\<lambda>_. notSupported),
       DeriveAddressDescriptors = (\<lambda>_ _ _. notSupported),
       DeriveAddressDescriptorsFromTo = (\<lambda>_ _ _ _. notSupported),
       EthereumTypeGetErc20FromTx = (\<lambda>_. notSupported) \<rparr>"

interpretation base: txid_parser "embedBaseParser P b fv fa ad sc" for P b fv fa ad sc
  by unfold_locales
    (auto simp: embedBaseParser_def PackedTxidLen_base_def UnpackTxid_base_def PackTxid_base_def
       UnpackBlockHash_base_def PackBlockHash_base_def)

text \<open>
  A coin whose addresses are the scripts in hexadecimal and whose transactions are not packed: the
  smallest parser on top of the base, on which the witnesses run.
\<close>

definition hexParser :: "int \<Rightarrow> BlockChainParser" where
  "hexParser keep = embedBaseParser
     \<lparr> UnmarshalTx = (\<lambda>_. notSupported), proto = \<lparr> Marshal = (\<lambda>_. notSupported), Unmarshal = (\<lambda>_. notSupported) \<rparr> \<rparr>
     \<lparr> BlockAddressesToKeep = keep, AmountDecimalPoint = 8 \<rparr>
     (\<lambda>vout. DecodeString (Hex_spk (ScriptPubKey_vout vout))) DecodeString (\<lambda>ad. Inr ([EncodeToString ad], True)) Inr"

lemma hexParser_simps [simp]:
  "PackedTxidLen (hexParser k) = 32" "KeepBlockAddresses (hexParser k) = k"
  "PackTxid (hexParser k) = PackTxid_base" "UnpackTxid (hexParser k) = UnpackTxid_base"
  "PackBlockHash (hexParser k) = PackBlockHash_base" "UnpackBlockHash (hexParser k) = UnpackBlockHash_base"
  "GetChainType (hexParser k) = ChainBitcoinType" "IsAddrDescIndexable (hexParser k) ad = True"
  "GetAddrDescFromVout (hexParser k) vo = DecodeString (Hex_spk (ScriptPubKey_vout vo))"
  by (simp_all add: hexParser_def embedBaseParser_def PackedTxidLen_base_def)

lemma txid_parser_hexParser: "txid_parser (hexParser k)"
  unfolding hexParser_def by (rule base.txid_parser_axioms)

section \<open>Amounts: reading back what was printed\<close>

lemma digit_val_digit: "n < 10 \<Longrightarrow> digit_val (digit n) = Some n"
  by (simp add: digit_val_def digit_def)

lemma digits_val_append:
  "digits_val a (s @ t) = (case digits_val a s of Some b \<Rightarrow> digits_val b t | None \<Rightarrow> None)"
  by (induction a s rule: digits_val.induct) (auto split: option.splits)

lemma digits_val_dec_digits: "digits_val 0 (dec_digits n) = Some n"
proof (induction n rule: dec_digits.induct)
  case (1 n)
  then show ?case
    by (subst dec_digits.simps) (auto simp: digit_val_digit digits_val_append)
qed

lemma digits_val_zeros: "digits_val 0 (replicate k CHR ''0'' @ s) = digits_val 0 s"
  by (induction k) (simp_all add: digit_val_def)

lemma set_dec_digits: "set (dec_digits n) \<subseteq> digit ` {..<10}"
proof (induction n rule: dec_digits.induct)
  case (1 n)
  then show ?case by (subst dec_digits.simps) auto
qed

lemma dec_digits_Nil [simp]: "dec_digits n \<noteq> []"
  by (subst dec_digits.simps) simp

lemma digit_neq [simp]: "n < 10 \<Longrightarrow> digit n \<noteq> CHR ''-''" "n < 10 \<Longrightarrow> digit n \<noteq> CHR ''+''"
  "n < 10 \<Longrightarrow> digit n \<noteq> CHR ''.''"
proof -
  assume n: "n < 10"
  then have d: "digit_val (digit n) = Some n" by (rule digit_val_digit)
  show "digit n \<noteq> CHR ''-''" "digit n \<noteq> CHR ''+''" "digit n \<noteq> CHR ''.''"
    using d by (auto simp: digit_val_def)
qed

text \<open>A string of digits with its numeric value; the decimal strings the parser handles.\<close>

definition all_digits :: "string \<Rightarrow> bool" where
  "all_digits s \<longleftrightarrow> set s \<subseteq> digit ` {..<10}"

lemma all_digits_append [simp]: "all_digits (s @ t) \<longleftrightarrow> all_digits s \<and> all_digits t"
  by (simp add: all_digits_def)

lemma digit_0: "digit 0 = CHR ''0''"
  by code_simp

lemma all_digits_zeros [simp]: "all_digits (replicate k CHR ''0'')"
  by (auto simp: all_digits_def simp flip: digit_0)

lemma all_digits_dec_digits [simp]: "all_digits (dec_digits n)"
  using set_dec_digits by (simp add: all_digits_def)

lemma all_digits_neq:
  "all_digits s \<Longrightarrow> c \<in> set s \<Longrightarrow> c \<noteq> CHR ''-'' \<and> c \<noteq> CHR ''+'' \<and> c \<noteq> CHR ''.''"
proof -
  assume "all_digits s" "c \<in> set s"
  then obtain n where "c = digit n" "n < 10" unfolding all_digits_def by blast
  then show ?thesis using digit_neq[of n] by simp
qed

lemma SetString_digits:
  assumes "all_digits s" and "s \<noteq> []" and "digits_val 0 s = Some n"
  shows "SetString s = Some (int n)" "SetString (CHR ''-'' # s) = Some (- int n)"
proof -
  from assms(2) obtain c r where s: "s = c # r" by (cases s) auto
  then have "c \<noteq> CHR ''-''" "c \<noteq> CHR ''+''" using all_digits_neq[OF assms(1), of c] by auto
  then show "SetString s = Some (int n)" "SetString (CHR ''-'' # s) = Some (- int n)"
    using assms(3) unfolding s SetString_def by (simp_all only: list.case if_False prod.case Let_def if_True) simp_all
qed

lemma IndexByte_none: "c \<notin> set s \<Longrightarrow> IndexByte s c = None"
  by (induction s) auto

lemma IndexByte_append: "c \<notin> set s \<Longrightarrow> IndexByte (s @ c # t) c = Some (length s)"
  by (induction s) auto

lemma TrimRight_split: "\<exists>k. s = TrimRight s c @ replicate k c"
proof -
  have "takeWhile (\<lambda>x. x = c) (rev s) = replicate (length (takeWhile (\<lambda>x. x = c) (rev s))) c"
    by (metis (full_types) replicate_eqI set_takeWhileD)
  moreover have "rev s = takeWhile (\<lambda>x. x = c) (rev s) @ dropWhile (\<lambda>x. x = c) (rev s)" by simp
  ultimately have "rev s = replicate (length (takeWhile (\<lambda>x. x = c) (rev s))) c @ dropWhile (\<lambda>x. x = c) (rev s)"
    by metis
  then have "rev (rev s) = TrimRight s c @ rev (replicate (length (takeWhile (\<lambda>x. x = c) (rev s))) c)"
    unfolding TrimRight_def by (metis rev_append)
  then show ?thesis by (intro exI) (simp only: rev_rev_ident rev_replicate)
qed

text \<open>The printed number before the point is put in: at least one digit more than the decimals.\<close>

definition padded :: "nat \<Rightarrow> nat \<Rightarrow> string" where
  "padded d n = replicate (Suc d - length (dec_digits n)) CHR ''0'' @ dec_digits n"

lemma padded_facts:
  "all_digits (padded d n)" "digits_val 0 (padded d n) = Some n" "d < length (padded d n)"
  by (auto simp: padded_def digits_val_zeros digits_val_dec_digits)

lemma decimals_le: "0 \<le> d \<Longrightarrow> 0 \<le> decimals d \<and> decimals d \<le> 40"
  by (simp add: decimals_def zeros_def)

lemma slice_int_nat [simp]:
  "0 \<le> l \<Longrightarrow> 0 \<le> h \<Longrightarrow> slice_int buf l h = slice buf (nat l) (nat h)"
  by (simp add: slice_int_def)

lemma hd_BigInt_String: "hd (BigInt_String a) = CHR ''-'' \<longleftrightarrow> a < 0"
proof -
  have "hd (dec_digits n) \<noteq> CHR ''-''" for n
    using all_digits_neq[of "dec_digits n" "hd (dec_digits n)"] by simp
  then show ?thesis by (simp add: BigInt_String_def)
qed

lemma slice_zeros: "k \<le> 40 \<Longrightarrow> slice zeros 0 k = Inr (replicate k CHR ''0'')"
  by (simp add: slice_def zeros_def)

lemma AmountToDecimalString_padded:
  fixes a :: int
  assumes "0 \<le> d"
  defines "k \<equiv> nat (decimals d)" and "n \<equiv> padded (nat (decimals d)) (nat \<bar>a\<bar>)"
  shows "AmountToDecimalString (Some a) d =
    Inr ((if a < 0 then ''-'' else '''') @ take (length n - k) n @
      (let ad = TrimRight (drop (length n - k) n) CHR ''0'' in if ad \<noteq> '''' then ''.'' @ ad else ''''))"
proof -
  have k: "decimals d = int k" "k \<le> 40" using decimals_le[OF assms(1)] by (auto simp: k_def)
  let ?n = "dec_digits (nat \<bar>a\<bar>)"
  have n: "(if hd (BigInt_String a) = CHR ''-'' then (tl (BigInt_String a), ''-'') else (BigInt_String a, ''''))
      = (?n, if a < 0 then ''-'' else '''')"
    by (simp add: hd_BigInt_String) (simp add: BigInt_String_def)
  have pad: "(if int (length ?n) \<le> int k
      then rbind (slice_int zeros 0 (int k - int (length ?n) + 1)) (\<lambda>zs. Inr (zs @ ?n)) else Inr ?n) = Inr n"
  proof (cases "length ?n \<le> k")
    case True
    then have "nat (int k - int (length ?n) + 1) = Suc k - length ?n" by simp
    moreover have "Suc k - length ?n \<le> 40" using True k(2) by (cases ?n) auto
    ultimately show ?thesis using True by (simp add: slice_zeros n_def padded_def k)
  qed (simp add: n_def padded_def k)
  have len: "k \<le> length n" using padded_facts(3)[of k "nat \<bar>a\<bar>"] by (simp add: n_def k)
  then have "nat (int (length n) - int k) = length n - k" by simp
  with len have sl: "slice_int n (int (length n) - int k) (int (length n)) = Inr (drop (length n - k) n)"
    "slice_int n 0 (int (length n) - int k) = Inr (take (length n - k) n)"
    by (simp_all add: slice_def)
  show ?thesis
    unfolding AmountToDecimalString_def option.case Let_def n k(1) prod.case pad rbind_simps sl by simp
qed

text \<open>The digits \<open>AmountToBigInt\<close> converts, with and without a decimal point in the text.\<close>

definition parseAmount :: "string \<Rightarrow> go_error + int" where
  "parseAmount s = (case SetString s of
     None \<Rightarrow> Inl (Errorf ''AmountToBigInt: failed to convert'') | Some r \<Rightarrow> Inr r)"

lemma AmountToBigInt_point:
  assumes "CHR ''.'' \<notin> set w" and "decimals (AmountDecimalPoint p) = int (length ad + z)" and "z \<le> 40"
  shows "AmountToBigInt p (w @ CHR ''.'' # ad) = parseAmount (w @ ad @ replicate z CHR ''0'')"
proof -
  let ?s = "w @ CHR ''.'' # ad"
  have len: "int (length ad + z) - int (length ?s) + int (length w) + 1 = int z" by simp
  have sl: "slice_int zeros 0 (int z) = Inr (replicate z CHR ''0'')"
    using assms(3) by (simp add: slice_zeros)
  have "nat (int (length w) + 1) = Suc (length w)" "nat (int (length ?s) + int 0) = length ?s" by simp_all
  then have sl0: "slice_int ?s (int (length w) + 1) (int (length ?s) + int 0) = Inr ad"
    by (simp add: slice_def)
  show ?thesis
    unfolding AmountToBigInt_def Let_def assms(2) IndexByte_append[OF assms(1)] option.case len
    using sl sl0 by (cases "z = 0") (simp_all add: parseAmount_def)
qed

lemma AmountToBigInt_no_point:
  assumes "CHR ''.'' \<notin> set w" and "decimals (AmountDecimalPoint p) = int z" and "z \<le> 40"
  shows "AmountToBigInt p w = parseAmount (w @ replicate z CHR ''0'')"
  unfolding AmountToBigInt_def Let_def assms(2) IndexByte_none[OF assms(1)] option.case
  using assms(3) by (simp add: slice_zeros parseAmount_def)

lemma AmountToBigInt_padded:
  fixes p :: BaseParser
  assumes "0 \<le> AmountDecimalPoint p" and s: "all_digits ip" "ip \<noteq> []" "all_digits f"
    and k: "length f = nat (decimals (AmountDecimalPoint p))" and val: "digits_val 0 (ip @ f) = Some n"
  defines "ad \<equiv> TrimRight f CHR ''0''"
  shows "AmountToBigInt p ((if neg then ''-'' else []) @ ip @ (if ad \<noteq> [] then ''.'' @ ad else [])) =
    Inr (if neg then - int n else int n)"
proof -
  define w where "w = (if neg then ''-'' else []) @ ip"
  obtain z where z: "f = ad @ replicate z CHR ''0''" using TrimRight_split unfolding ad_def by blast
  have d: "decimals (AmountDecimalPoint p) = int (length ad + z)" "z \<le> 40"
    using decimals_le[OF assms(1)] k z by auto
  have dot: "CHR ''.'' \<notin> set w" using all_digits_neq[OF s(1), of "CHR ''.''"] by (auto simp: w_def)
  have "SetString (w @ f) = Some (if neg then - int n else int n)"
    using SetString_digits[of "ip @ f" n] s val by (simp add: w_def)
  then have num: "parseAmount (w @ ad @ replicate z CHR ''0'') = Inr (if neg then - int n else int n)"
    unfolding z parseAmount_def by simp
  have "AmountToBigInt p (w @ (if ad \<noteq> [] then ''.'' @ ad else [])) = parseAmount (w @ ad @ replicate z CHR ''0'')"
    using AmountToBigInt_point[OF dot d] AmountToBigInt_no_point[OF dot _ d(2), of p] d(1) by auto
  then show ?thesis unfolding num by (simp add: w_def)
qed

lemma AmountToBigInt_AmountToDecimalString:
  assumes "0 \<le> AmountDecimalPoint p"
  shows "rbind (AmountToDecimalString (Some a) (AmountDecimalPoint p)) (AmountToBigInt p) = Inr a"
proof -
  let ?k = "nat (decimals (AmountDecimalPoint p))"
  let ?n = "padded ?k (nat \<bar>a\<bar>)"
  let ?i = "length ?n - ?k"
  have "all_digits (take ?i ?n @ drop ?i ?n)" "digits_val 0 (take ?i ?n @ drop ?i ?n) = Some (nat \<bar>a\<bar>)"
    using padded_facts by (simp_all only: append_take_drop_id)
  moreover have "take ?i ?n \<noteq> []" "length (drop ?i ?n) = ?k"
    using padded_facts(3)[of ?k "nat \<bar>a\<bar>"] by auto
  ultimately have "AmountToBigInt p ((if a < 0 then ''-'' else []) @ take ?i ?n @
      (if TrimRight (drop ?i ?n) CHR ''0'' \<noteq> [] then ''.'' @ TrimRight (drop ?i ?n) CHR ''0'' else [])) =
      Inr (if a < 0 then - int (nat \<bar>a\<bar>) else int (nat \<bar>a\<bar>))"
    by (intro AmountToBigInt_padded[OF assms]) (simp_all only: all_digits_append not_False_eq_True)
  moreover have "(if a < 0 then - int (nat \<bar>a\<bar>) else int (nat \<bar>a\<bar>)) = a" by simp
  ultimately show ?thesis
    unfolding AmountToDecimalString_padded[OF assms] Let_def rbind_simps by (simp only:)
qed

text \<open>An amount that was printed with the decimal point of the coin is read back exactly, negative
  amounts included; this holds for every non-negative number of decimals, also for one above the limit of
  40 that both directions apply.\<close>

theorem amount_print_parse:
  assumes "0 \<le> AmountDecimalPoint p"
  shows "rbind (AmountToDecimalString (Some a) (AmountDecimalPoint p)) (AmountToBigInt p) = Inr a"
  by (rule AmountToBigInt_AmountToDecimalString[OF assms])

definition sampleBase :: BaseParser where
  "sampleBase = \<lparr> BlockAddressesToKeep = 300, AmountDecimalPoint = 8 \<rparr>"

theorem amount_print_parse_witness:
  "0 \<le> AmountDecimalPoint sampleBase \<and> AmountToDecimalString (Some (- 1230000)) 8 = Inr ''-0.0123'' \<and>
   AmountToBigInt sampleBase ''-0.0123'' = Inr (- 1230000)"
proof -
  have s: "AmountToDecimalString (Some (- 1230000)) 8 = Inr ''-0.0123''" by code_simp
  have d: "AmountDecimalPoint sampleBase = 8" by (simp add: sampleBase_def)
  with amount_print_parse[of sampleBase "- 1230000"] s show ?thesis by simp
qed

section \<open>Transactions: reading back what was stored\<close>

lemma be_val_BigInt_Bytes: "be_val (BigInt_Bytes_nat n) = n"
proof (induction n rule: BigInt_Bytes_nat.induct)
  case (1 n)
  have "unat (of_nat n :: byte) = n mod 256" by (simp add: unat_of_nat)
  with 1 show ?case by (subst BigInt_Bytes_nat.simps) simp
qed

lemma BigInt_SetBytes_Bytes: "0 \<le> a \<Longrightarrow> BigInt_SetBytes (BigInt_Bytes a) = a"
  by (simp add: BigInt_SetBytes_def BigInt_Bytes_def be_val_BigInt_Bytes)

text \<open>A hexadecimal string in the form \<open>encoding/hex\<close> prints.\<close>

definition canonical_hex :: "string \<Rightarrow> bool" where
  "canonical_hex s \<longleftrightarrow> (case DecodeString s of Inr b \<Rightarrow> EncodeToString b = s | Inl _ \<Rightarrow> False)"

lemma canonical_hexE:
  assumes "canonical_hex s"
  obtains b where "DecodeString s = Inr b" and "EncodeToString b = s"
  using assms by (auto simp: canonical_hex_def split: sum.splits)

definition vin_ok :: "Vin \<Rightarrow> bool" where
  "vin_ok vi \<longleftrightarrow> canonical_hex (Hex_ss (ScriptSig_vin vi)) \<and> canonical_hex (Txid_vin vi)"

definition vout_ok :: "Vout \<Rightarrow> bool" where
  "vout_ok vo \<longleftrightarrow> canonical_hex (Hex_spk (ScriptPubKey_vout vo)) \<and> 0 \<le> ValueSat_vout vo \<and> JsonValue vo = ''''"

lemma rmap_rmap:
  assumes "\<And>x. x \<in> set xs \<Longrightarrow> \<exists>y. f x = Inr y \<and> g y = Inr x"
  shows "\<exists>ys. rmap f xs = Inr ys \<and> rmap g ys = Inr xs"
  using assms
proof (induction xs)
  case (Cons x xs)
  then obtain y ys where "f x = Inr y" "g y = Inr x" "rmap f xs = Inr ys" "rmap g ys = Inr xs"
    by (metis list.set_intros(1,2))
  then show ?case by simp
qed simp

lemma rmap_Inr [simp]: "rmap (\<lambda>x. Inr (f x)) xs = Inr (map f xs)"
  by (induction xs) simp_all

lemma packVin_unpackVin: "vin_ok vi \<Longrightarrow> \<exists>pi. packVin vi = Inr pi \<and> unpackVin pi = Inr vi"
  by (cases vi; cases "Txid_vin vi = []")
    (auto simp: vin_ok_def packVin_def unpackVin_def PackTxid_base_def UnpackTxid_base_def EncodeToString_def
      elim!: canonical_hexE)

lemma packVout_unpackVout: "vout_ok vo \<Longrightarrow> \<exists>po. packVout vo = Inr po \<and> unpackVout po = vo"
  by (cases vo) (auto simp: vout_ok_def packVout_def unpackVout_def BigInt_SetBytes_Bytes elim!: canonical_hexE)

text \<open>The fields of a transaction that the protobuf message carries.\<close>

definition storedTx :: "Tx \<Rightarrow> int64 \<Rightarrow> Tx" where
  "storedTx tx blockTime = tx\<lparr> Confirmations_tx := 0, Time_tx := blockTime, Blocktime := blockTime,
     VShieldIn_tx := [], VShieldOut_tx := [], ShieldValBal_tx := 0, CoinSpecificData := NoData \<rparr>"

definition tx_ok :: "Tx \<Rightarrow> bool" where
  "tx_ok tx \<longleftrightarrow> canonical_hex (Hex_tx tx) \<and> canonical_hex (Txid_tx tx) \<and> Txid_tx tx \<noteq> '''' \<and>
     list_all vin_ok (Vin_tx tx) \<and> list_all vout_ok (Vout_tx tx)"

text \<open>A transaction stored through the default parser is read back with its height and its block time;
  its inputs, outputs, version and lock time are unchanged, and the confirmations and the shielded data,
  which the message does not carry, are reset. Packing itself fails only if the protobuf library refuses
  the message; the library is assumed to read back what it wrote.\<close>

theorem packTx_roundtrip:
  assumes "tx_ok tx" and "\<And>pt b. Marshal pb pt = Inr b \<Longrightarrow> Unmarshal pb b = Inr pt"
  shows "\<exists>pt. PackTx_base pb tx height blockTime = Marshal pb pt \<and> DecodeString (Txid_tx tx) = Inr (Txid_pt pt) \<and>
    (\<forall>buf. PackTx_base pb tx height blockTime = Inr buf \<longrightarrow>
      UnpackTx_base pb buf = Inr (storedTx tx blockTime, height))"
proof -
  obtain pti where pti: "rmap packVin (Vin_tx tx) = Inr pti" "rmap unpackVin pti = Inr (Vin_tx tx)"
    using rmap_rmap[of "Vin_tx tx" packVin unpackVin] packVin_unpackVin assms(1)
    by (auto simp: tx_ok_def list_all_iff)
  obtain pto where pto: "rmap packVout (Vout_tx tx) = Inr pto" "map unpackVout pto = Vout_tx tx"
    using rmap_rmap[of "Vout_tx tx" packVout "\<lambda>po. Inr (unpackVout po)"] packVout_unpackVout assms(1)
    by (auto simp: tx_ok_def list_all_iff)
  obtain hex txid where hex: "DecodeString (Hex_tx tx) = Inr hex" "EncodeToString hex = Hex_tx tx"
    "DecodeString (Txid_tx tx) = Inr txid" "EncodeToString txid = Txid_tx tx" "Txid_tx tx \<noteq> []"
    using assms(1) by (auto simp: tx_ok_def elim!: canonical_hexE)
  let ?pt = "\<lparr> Txid_pt = txid, Hex_pt = hex, Blocktime_pt = blockTime, Locktime_pt = LockTime tx,
       Height_pt = height, Vin_pt = pti, Vout_pt = pto, Version_pt = Version_tx tx \<rparr>"
  have pack: "PackTx_base pb tx height blockTime = Marshal pb ?pt"
    using pti pto hex by (simp add: PackTx_base_def PackTxid_base_def)
  have "UnpackTx_base pb b = Inr (storedTx tx blockTime, height)" if "Marshal pb ?pt = Inr b" for b
    using pti pto hex assms(2)[OF that] by (cases tx) (simp add: UnpackTx_base_def UnpackTxid_base_def storedTx_def)
  with pack hex(3) show ?thesis by (intro exI[of _ ?pt]) simp
qed

definition sampleTx :: Tx where
  "sampleTx = \<lparr> Hex_tx = ''00ff'', Txid_tx = ''0a1b'', Version_tx = 1, LockTime = 0,
     Vin_tx = [\<lparr> Coinbase = ''03'', Txid_vin = [], Vout_vin = 0, ScriptSig_vin = \<lparr> Hex_ss = [] \<rparr>, Sequence = 5,
                 Addresses_vin = [] \<rparr>],
     Vout_tx = [\<lparr> ValueSat_vout = 1000, JsonValue = [], N_vout = 0,
                  ScriptPubKey_vout = \<lparr> Hex_spk = ''76a9'', Addresses_spk = [''addr''] \<rparr> \<rparr>],
     Confirmations_tx = 2, Time_tx = 7, Blocktime = 7, VShieldIn_tx = [], VShieldOut_tx = [], ShieldValBal_tx = 0, CoinSpecificData = NoData \<rparr>"

definition sampleMessage :: ProtoTransaction where
  "sampleMessage = \<lparr> Txid_pt = [10, 27], Hex_pt = [0, 255], Blocktime_pt = 9, Locktime_pt = 0, Height_pt = 100,
     Vin_pt = [\<lparr> Coinbase_pi = ''03'', Txid_pi = [], Vout_pi = 0, ScriptSigHex = [], Sequence_pi = 5, Addresses_pi = [] \<rparr>],
     Vout_pt = [\<lparr> ValueSat_po = [3, 232], N_po = 0, ScriptPubKeyHex = [118, 169], Addresses_po = [''addr''] \<rparr>],
     Version_pt = 1 \<rparr>"

text \<open>A library that knows one message.\<close>

definition sampleProto :: protobuf where
  "sampleProto = \<lparr> Marshal = (\<lambda>pt. if pt = sampleMessage then Inr [1] else Inl (Errorf ''unknown message'')),
     Unmarshal = (\<lambda>b. if b = [1] then Inr sampleMessage else Inl (Errorf ''unknown message'')) \<rparr>"

theorem packTx_roundtrip_witness:
  "tx_ok sampleTx \<and> PackTx_base sampleProto sampleTx 100 9 = Inr [1] \<and>
   UnpackTx_base sampleProto [1] = Inr (storedTx sampleTx 9, 100)"
proof -
  have ok: "tx_ok sampleTx" by code_simp
  have law: "\<And>pt b. Marshal sampleProto pt = Inr b \<Longrightarrow> Unmarshal sampleProto b = Inr pt"
    by (simp add: sampleProto_def split: if_splits)
  have "PackTx_base sampleProto sampleTx 100 9 = Inr [1]" by code_simp
  with packTx_roundtrip[OF ok law, of 100 9] ok show ?thesis by blast
qed

end
