(* ===== verification/Rocks_DB.thy ===== *)
theory Rocks_DB
  imports Addr_Balance Base_Parser
begin

text \<open>
  The handle of \<open>db/rocksdb.go\<close> and the operations that do not depend on the type of the chain: block
  information by height, the balance and transaction records, the stored transactions, the internal
  state, and the iteration over the transactions of an address.

  The handle holds the state \<open>'s\<close> of the store, the parser of the coin, the internal state (nil until
  it is set) and the hit counters. Options, column family handles, the cache and the metrics of the
  original struct only parametrise calls into \<open>gorocksdb\<close> and are not part of the model. A write batch
  that a method extends is passed in and returned.
\<close>

record connectBlockStats =
  txAddressesHit :: int
  txAddressesMiss :: int
  balancesHit :: int
  balancesMiss :: int

definition newConnectBlockStats :: connectBlockStats where
  "newConnectBlockStats = \<lparr> txAddressesHit = 0, txAddressesMiss = 0, balancesHit = 0, balancesMiss = 0 \<rparr>"

record 's RocksDB =
  db :: 's
  chainParser :: BlockChainParser
  is_d :: "InternalState option"
  cbs :: connectBlockStats

definition dbVersion :: uint32 where "dbVersion = 5"

definition cfBaseNames :: "string list" where
  "cfBaseNames = [''default'', ''height'', ''addresses'', ''blockTxs'', ''transactions'']"

definition cfNamesBitcoinType :: "string list" where
  "cfNamesBitcoinType = [''addressBalance'', ''txAddresses'']"

definition cfNamesEthereumType :: "string list" where
  "cfNamesEthereumType = [''addressContracts'']"

text \<open>The column names \<open>NewRocksDB\<close> selects for the chain, and the handle it returns.\<close>

definition cfNames :: "ChainType \<Rightarrow> go_error + string list" where
  "cfNames chainType =
     (if chainType = ChainBitcoinType then Inr (cfBaseNames @ cfNamesBitcoinType)
      else if chainType = ChainEthereumType then Inr (cfBaseNames @ cfNamesEthereumType)
      else Inl (Errorf ''Unknown chain type''))"

definition NewRocksDB :: "'s \<Rightarrow> BlockChainParser \<Rightarrow> go_error + 's RocksDB" where
  "NewRocksDB s parser =
     rbind (cfNames (GetChainType parser)) (\<lambda>_.
     Inr \<lparr> db = s, chainParser = parser, is_d = None, cbs = newConnectBlockStats \<rparr>)"

definition GetAndResetConnectBlockStats :: "'s RocksDB \<Rightarrow> connectBlockStats \<times> 's RocksDB" where
  "GetAndResetConnectBlockStats d = (cbs d, d\<lparr> cbs := newConnectBlockStats \<rparr>)"

section \<open>Block information\<close>

record BlockInfo =
  Hash_bi :: string
  Time_bi :: int64
  Txs_bi :: uint32
  Size_bi :: uint32
  Height_bi :: uint32

definition packBlockInfo :: "'s packages \<Rightarrow> BlockChainParser \<Rightarrow> BlockInfo \<Rightarrow> go_error + bytes" where
  "packBlockInfo E p block =
     rbind (PackBlockHash p (Hash_bi block)) (\<lambda>b.
     Inr (b @ packUint (ucast (Time_bi block)) @ packVaruint (vlq E) (ucast (Txs_bi block)) @
          packVaruint (vlq E) (ucast (Size_bi block))))"

definition unpackBlockInfo :: "'s packages \<Rightarrow> BlockChainParser \<Rightarrow> bytes \<Rightarrow> go_error + BlockInfo option" where
  "unpackBlockInfo E p buf =
     (let pl = PackedTxidLen p in
      if length buf < pl + 4 + 2 then Inr None
      else
        rbind (slice buf 0 pl) (\<lambda>h.
        rbind (UnpackBlockHash p h) (\<lambda>txid.
        rbind (slice_from buf pl) (\<lambda>b.
        rbind (unpackUint b) (\<lambda>t.
        rbind (slice_from buf (pl + 4)) (\<lambda>b.
        let (txs, l) = unpackVaruint (vlq E) b in
        rbind (slice_from buf (pl + 4 + l)) (\<lambda>b.
        let (size, _) = unpackVaruint (vlq E) b in
        Inr (Some \<lparr> Hash_bi = txid, Time_bi = ucast t, Txs_bi = ucast txs, Size_bi = ucast size,
                    Height_bi = 0 \<rparr>))))))))"

text \<open>\<open>GetBestBlock\<close> answers \<open>0, ""\<close> also when the last entry cannot be unpacked.\<close>

definition GetBestBlock :: "'s packages \<Rightarrow> 's RocksDB \<Rightarrow> go_error + (uint32 \<times> string)" where
  "GetBestBlock E d =
     (let it = IteratorCF (rocks E) (db d) cfHeight in
      if it = [] then Inr (0, '''')
      else
        rbind (unpackUint (fst (last it))) (\<lambda>bestHeight.
        case unpackBlockInfo E (chainParser d) (snd (last it)) of
          Inr (Some info) \<Rightarrow> Inr (bestHeight, Hash_bi info)
        | Inr None \<Rightarrow> Inr (0, '''')
        | Inl e \<Rightarrow> if is_panic e then Inl e else Inr (0, '''')))"

text \<open>A missing key reads as the nil slice, which is shorter than any packed record.\<close>

definition getData :: "'s packages \<Rightarrow> 's RocksDB \<Rightarrow> cf \<Rightarrow> bytes \<Rightarrow> go_error + bytes" where
  "getData E d c key =
     rbind (GetCF (rocks E) (db d) c key) (\<lambda>val. Inr (case val of Some x \<Rightarrow> x | None \<Rightarrow> []))"

definition GetBlockHash :: "'s packages \<Rightarrow> uint32 \<Rightarrow> 's RocksDB \<Rightarrow> go_error + string" where
  "GetBlockHash E height d =
     rbind (getData E d cfHeight (packUint height)) (\<lambda>val.
     rbind (unpackBlockInfo E (chainParser d) val) (\<lambda>info.
     Inr (case info of None \<Rightarrow> '''' | Some bi \<Rightarrow> Hash_bi bi)))"

definition GetBlockInfo :: "'s packages \<Rightarrow> uint32 \<Rightarrow> 's RocksDB \<Rightarrow> go_error + BlockInfo option" where
  "GetBlockInfo E height d =
     rbind (getData E d cfHeight (packUint height)) (\<lambda>val.
     rbind (unpackBlockInfo E (chainParser d) val) (\<lambda>bi.
     Inr (map_option (\<lambda>b. b\<lparr> Height_bi := height \<rparr>) bi)))"

datatype op = opInsert | opDelete

definition updateBestHeight :: "'s packages \<Rightarrow> uint32 \<Rightarrow> 's RocksDB \<Rightarrow> go_error + 's RocksDB" where
  "updateBestHeight E height d =
     (case is_d d of
        None \<Rightarrow> Inl (Panic ''nil pointer dereference'')
      | Some st \<Rightarrow> Inr (d\<lparr> is_d := Some (UpdateBestHeight (Now E) height st) \<rparr>))"

definition writeHeight ::
    "'s packages \<Rightarrow> uint32 \<Rightarrow> BlockInfo \<Rightarrow> op \<Rightarrow> WriteBatch \<times> 's RocksDB \<Rightarrow> go_error + (WriteBatch \<times> 's RocksDB)" where
  "writeHeight E height bi opr = (\<lambda>(wb, d).
     let key = packUint height in
     case opr of
       opInsert \<Rightarrow>
         rbind (packBlockInfo E (chainParser d) bi) (\<lambda>val.
         rbind (updateBestHeight E height d) (\<lambda>d. Inr (wb @ [PutWB cfHeight key val], d)))
     | opDelete \<Rightarrow>
         rbind (updateBestHeight E (height - 1) d) (\<lambda>d. Inr (wb @ [DeleteWB cfHeight key], d)))"

definition blockInfoOf :: "Block \<Rightarrow> BlockInfo" where
  "blockInfoOf block = \<lparr> Hash_bi = Hash_bh block, Time_bi = Time_bh block,
     Txs_bi = of_nat (length (Txs_blk block)), Size_bi = of_int (Size_bh block),
     Height_bi = Height_bh block \<rparr>"

definition writeHeightFromBlock ::
    "'s packages \<Rightarrow> Block \<Rightarrow> op \<Rightarrow> WriteBatch \<times> 's RocksDB \<Rightarrow> go_error + (WriteBatch \<times> 's RocksDB)" where
  "writeHeightFromBlock E block opr = writeHeight E (Height_bh block) (blockInfoOf block) opr"

section \<open>Records of addresses and transactions\<close>

definition GetAddrDescBalance ::
    "'s packages \<Rightarrow> AddressDescriptor \<Rightarrow> AddressBalanceDetail \<Rightarrow> 's RocksDB \<Rightarrow> go_error + AddrBalance option" where
  "GetAddrDescBalance E addrDesc detail d =
     rbind (getData E d cfAddressBalance addrDesc) (\<lambda>buf.
     if length buf < 3 then Inr None
     else rbind (unpackAddrBalance (vlq E) buf (PackedTxidLen (chainParser d)) detail) (\<lambda>ab. Inr (Some ab)))"

definition GetAddressBalance ::
    "'s packages \<Rightarrow> string \<Rightarrow> AddressBalanceDetail \<Rightarrow> 's RocksDB \<Rightarrow> go_error + AddrBalance option" where
  "GetAddressBalance E address detail d =
     rbind (GetAddrDescFromAddress (chainParser d) address) (\<lambda>addrDesc.
     GetAddrDescBalance E addrDesc detail d)"

definition getTxAddresses :: "'s packages \<Rightarrow> bytes \<Rightarrow> 's RocksDB \<Rightarrow> go_error + TxAddresses option" where
  "getTxAddresses E btxID d =
     rbind (getData E d cfTxAddresses btxID) (\<lambda>buf.
     if length buf < 3 then Inr None
     else rbind (unpackTxAddresses (vlq E) buf) (\<lambda>ta. Inr (Some ta)))"

definition GetTxAddresses :: "'s packages \<Rightarrow> string \<Rightarrow> 's RocksDB \<Rightarrow> go_error + TxAddresses option" where
  "GetTxAddresses E txid d =
     rbind (PackTxid (chainParser d) txid) (\<lambda>btxID. getTxAddresses E btxID d)"

text \<open>
  \<open>None\<close> is the nil descriptor; a stored descriptor of length 0 is read as nil. An error of the lookup is
  swallowed, a panic is not.
\<close>

definition descOrNil :: "AddressDescriptor \<Rightarrow> AddressDescriptor option" where
  "descOrNil ad = (if ad = [] then None else Some ad)"

definition AddrDescForOutpoint :: "'s packages \<Rightarrow> Outpoint \<Rightarrow> 's RocksDB \<Rightarrow> go_error + AddressDescriptor option" where
  "AddrDescForOutpoint E outpoint d =
     (case GetTxAddresses E (Txid_op outpoint) d of
        Inl e \<Rightarrow> if is_panic e then Inl e else Inr None
      | Inr None \<Rightarrow> Inr None
      | Inr (Some ta) \<Rightarrow>
          if sint (Vout_op outpoint) < 0 then
            let vin = nat (sint (NOT (Vout_op outpoint))) in
            if length (Inputs ta) \<le> vin then Inr None
            else Inr (descOrNil (AddrDesc_ti (Inputs ta ! vin)))
          else
            let vout = nat (sint (Vout_op outpoint)) in
            if length (Outputs ta) \<le> vout then Inr None
            else Inr (descOrNil (AddrDesc_to (Outputs ta ! vout))))"

section \<open>Stored transactions\<close>

definition GetTx :: "'s packages \<Rightarrow> string \<Rightarrow> 's RocksDB \<Rightarrow> go_error + (Tx \<times> uint32) option" where
  "GetTx E txid d =
     rbind (PackTxid (chainParser d) txid) (\<lambda>key.
     rbind (getData E d cfTransactions key) (\<lambda>data.
     if 4 < length data
     then rbind (UnpackTx (chainParser d) data) (\<lambda>r. Inr (Some r))
     else Inr None))"

definition addDBColumnStats :: "'s packages \<Rightarrow> nat \<Rightarrow> int \<Rightarrow> int \<Rightarrow> int \<Rightarrow> 's RocksDB \<Rightarrow> go_error + 's RocksDB" where
  "addDBColumnStats E c rows keyBytes valueBytes d =
     (case is_d d of
        None \<Rightarrow> Inl (Panic ''nil pointer dereference'')
      | Some st \<Rightarrow>
          rbind (AddDBColumnStats (Now E) c (of_int rows) (of_int keyBytes) (of_int valueBytes) st)
            (\<lambda>st. Inr (d\<lparr> is_d := Some st \<rparr>)))"

text \<open>The position of the transactions column in \<open>cfNames\<close>.\<close>

definition cfTransactionsNo :: nat where "cfTransactionsNo = 4"

text \<open>\<open>PutTx\<close> and \<open>DeleteTx\<close> return nil when the txid cannot be packed.\<close>

definition PutTx :: "'s packages \<Rightarrow> Tx \<Rightarrow> uint32 \<Rightarrow> int64 \<Rightarrow> 's RocksDB \<Rightarrow> go_error + 's RocksDB" where
  "PutTx E tx height blockTime d =
     (case PackTxid (chainParser d) (Txid_tx tx) of
        Inl e \<Rightarrow> if is_panic e then Inl e else Inr d
      | Inr key \<Rightarrow>
          rbind (PackTx (chainParser d) tx height blockTime) (\<lambda>buf.
          rbind (PutCF (rocks E) (db d) cfTransactions key buf) (\<lambda>s.
          addDBColumnStats E cfTransactionsNo 1 (int (length key)) (int (length buf)) (d\<lparr> db := s \<rparr>))))"

definition internalDeleteTx ::
    "'s packages \<Rightarrow> bytes \<Rightarrow> WriteBatch \<times> 's RocksDB \<Rightarrow> go_error + (WriteBatch \<times> 's RocksDB)" where
  "internalDeleteTx E key = (\<lambda>(wb, d).
     rbind (case GetCF (rocks E) (db d) cfTransactions key of
         Inl e \<Rightarrow> if is_panic e then Inl e else Inr d
       | Inr val \<Rightarrow>
           let l = (case val of Some x \<Rightarrow> length x | None \<Rightarrow> 0) in
           if 0 < l
           then addDBColumnStats E cfTransactionsNo (-1) (- int (length key)) (- int l) d
           else Inr d) (\<lambda>d.
     Inr (wb @ [DeleteWB cfTransactions key], d)))"

definition DeleteTx :: "'s packages \<Rightarrow> string \<Rightarrow> 's RocksDB \<Rightarrow> go_error + 's RocksDB" where
  "DeleteTx E txid d =
     (case PackTxid (chainParser d) txid of
        Inl e \<Rightarrow> if is_panic e then Inl e else Inr d
      | Inr key \<Rightarrow>
          rbind (internalDeleteTx E key ([], d)) (\<lambda>(wb, d).
          rbind (WriteWB (rocks E) (db d) wb) (\<lambda>s. Inr (d\<lparr> db := s \<rparr>))))"

section \<open>Internal state\<close>

definition internalStateKey :: bytes where
  "internalStateKey = map (\<lambda>c. of_nat (of_char c)) ''internalState''"

text \<open>The column table rebuilt on load: one entry for each column of the database, the statistics of
  the first stored entry with its name.\<close>

fun loadColumn :: "string \<Rightarrow> InternalStateColumn list \<Rightarrow> go_error + InternalStateColumn" where
  "loadColumn nm [] =
     Inr \<lparr> Name_c = nm, Version_c = dbVersion, Rows = 0, KeyBytes = 0, ValueBytes = 0, Updated = 0 \<rparr>"
| "loadColumn nm (c # sc) =
     (if Name_c c = nm then
        if Version_c c \<noteq> dbVersion then Inl (Errorf ''DB version of column does not match the required version'')
        else Inr \<lparr> Name_c = nm, Version_c = dbVersion, Rows = Rows c, KeyBytes = KeyBytes c,
                   ValueBytes = ValueBytes c, Updated = Updated c \<rparr>
      else loadColumn nm sc)"

fun loadColumns :: "string list \<Rightarrow> InternalStateColumn list \<Rightarrow> go_error + InternalStateColumn list" where
  "loadColumns [] sc = Inr []"
| "loadColumns (nm # nms) sc =
     rbind (loadColumn nm sc) (\<lambda>c. rbind (loadColumns nms sc) (\<lambda>cs. Inr (c # cs)))"

definition LoadInternalState :: "'s packages \<Rightarrow> string \<Rightarrow> 's RocksDB \<Rightarrow> go_error + InternalState" where
  "LoadInternalState E rpcCoin d =
     rbind (cfNames (GetChainType (chainParser d))) (\<lambda>names.
     rbind (getData E d cfDefault internalStateKey) (\<lambda>data.
     rbind
       (if data = [] then Inr (newInternalState rpcCoin)
        else
          rbind (UnmarshalState E data) (\<lambda>st.
          if Coin st = '''' then Inr (st\<lparr> Coin := rpcCoin \<rparr>)
          else if Coin st \<noteq> rpcCoin then Inl (Errorf ''Coins do not match'')
          else Inr st)) (\<lambda>st.
     rbind (loadColumns names (DbColumns st)) (\<lambda>nc.
     Inr (st\<lparr> DbColumns := nc, IsSynchronized := False, IsMempoolSynchronized := False,
             LastMempoolSync := 0, SyncMode := False \<rparr>)))))"

definition storeState :: "'s packages \<Rightarrow> InternalState \<Rightarrow> 's RocksDB \<Rightarrow> go_error + (InternalState \<times> 's RocksDB)" where
  "storeState E st d =
     (let st = st\<lparr> LastStore := Now E \<rparr> in
      rbind (MarshalState E st) (\<lambda>buf.
      rbind (PutCF (rocks E) (db d) cfDefault internalStateKey buf) (\<lambda>s. Inr (st, d\<lparr> db := s \<rparr>))))"

text \<open>\<open>StoreInternalState\<close> also exports the column statistics to the metrics, which are not modelled.\<close>

definition StoreInternalState :: "'s packages \<Rightarrow> InternalState \<Rightarrow> 's RocksDB \<Rightarrow> go_error + (InternalState \<times> 's RocksDB)" where
  "StoreInternalState E st d = storeState E st d"

definition SetInternalState :: "InternalState \<Rightarrow> 's RocksDB \<Rightarrow> 's RocksDB" where
  "SetInternalState st d = d\<lparr> is_d := Some st \<rparr>"

definition SetInconsistentState :: "'s packages \<Rightarrow> bool \<Rightarrow> 's RocksDB \<Rightarrow> go_error + 's RocksDB" where
  "SetInconsistentState E inconsistent d =
     (case is_d d of
        None \<Rightarrow> Inl (Errorf ''Internal state not created'')
      | Some st \<Rightarrow>
          let st = st\<lparr> DbState := (if inconsistent then DbStateInconsistent else DbStateOpen) \<rparr> in
          rbind (storeState E st d) (\<lambda>(st, d). Inr (d\<lparr> is_d := Some st \<rparr>)))"

text \<open>Closing stores an open state as closed; an error of the store is only logged.\<close>

definition CloseDB :: "'s packages \<Rightarrow> 's RocksDB \<Rightarrow> go_error + 's RocksDB" where
  "CloseDB E d =
     (case is_d d of
        Some st \<Rightarrow>
          if DbState st = DbStateOpen then
            let st = st\<lparr> DbState := DbStateClosed \<rparr> in
            (case StoreInternalState E st d of
               Inr (st, d) \<Rightarrow> Inr (d\<lparr> is_d := Some st \<rparr>)
             | Inl e \<Rightarrow> if is_panic e then Inl e
                 else Inr (d\<lparr> is_d := Some (st\<lparr> LastStore := Now E \<rparr>) \<rparr>))
          else Inr d
      | None \<Rightarrow> Inr d)"

section \<open>Reading back block information and records\<close>

lemma ucast_uint32_back: "uint (w :: uint64) < 2 ^ 32 \<Longrightarrow> ucast (ucast w :: uint32) = w"
  by (rule word_uint_eqI) (simp add: unsigned_ucast_eq unsigned_take_bit_eq take_bit_int_eq_self)

lemma unpackBlockInfo_pack:
  assumes v: "vlq_codec (vlq E)" and b: "PackBlockHash p (Hash_bi bi) = Inr b" "UnpackBlockHash p b = Inr (Hash_bi bi)"
      "length b = PackedTxidLen p"
  shows "\<exists>val. packBlockInfo E p bi = Inr val \<and>
    unpackBlockInfo E p val = Inr (Some (bi\<lparr> Time_bi := ucast (ucast (Time_bi bi) :: uint32), Height_bi := 0 \<rparr>))"
proof -
  let ?t = "packUint (ucast (Time_bi bi))" and ?x = "PutUint (vlq E) (ucast (Txs_bi bi))" and ?y = "PutUint (vlq E) (ucast (Size_bi bi))"
  let ?val = "b @ ?t @ ?x @ ?y"
  have "0 < length ?x" "0 < length ?y"
    by (rule vlq_codec.PutUint_length_pos[OF v])+
  then have "1 \<le> length ?x" "1 \<le> length ?y" by linarith+
  then have "\<not> length ?val < PackedTxidLen p + 4 + 2" using b(3) unfolding length_append length_packUint by linarith
  moreover have "slice ?val 0 (PackedTxidLen p) = Inr b" "slice_from ?val (PackedTxidLen p) = Inr (?t @ ?x @ ?y)"
    "slice_from ?val (PackedTxidLen p + 4) = Inr (?x @ ?y)" "slice_from ?val (PackedTxidLen p + 4 + length ?x) = Inr ?y"
    using b(3)[symmetric] by (simp_all add: slice_def slice_from_def)
  moreover have "UintAt (vlq E) ?y = (ucast (Size_bi bi), length ?y)"
    by (rule vlq_codec.UintAt_PutUint_only[OF v])
  moreover have "UintAt (vlq E) (?x @ ?y) = (ucast (Txs_bi bi), length ?x)"
    by (rule vlq_codec.UintAt_PutUint[OF v])
  ultimately have "unpackBlockInfo E p ?val =
      Inr (Some (bi\<lparr> Time_bi := ucast (ucast (Time_bi bi) :: uint32), Height_bi := 0 \<rparr>))"
    using b by (cases bi) (simp add: unpackBlockInfo_def Let_def unpackVaruint_def unpackUint_packUint_append)
  moreover have "packBlockInfo E p bi = Inr ?val" using b by (simp add: packBlockInfo_def packVaruint_def)
  ultimately show ?thesis by blast
qed

lemma length_packTxAddresses:
  assumes v: "vlq_codec v"
  shows "3 \<le> length (packTxAddresses v ta)"
proof -
  have p: "Suc 0 \<le> length (PutUint v x)" for x
    by (rule Suc_leI) (rule vlq_codec.PutUint_length_pos[OF v])
  show ?thesis
    using p[of "ucast (Height_ta ta)"] p[of "of_nat (length (Inputs ta))"] p[of "of_nat (length (Outputs ta))"]
    by (simp add: packTxAddresses_def Let_def packVaruint_def fold_appendTxInput fold_appendTxOutput)
qed

lemma packBigint_nonempty: "Suc 0 \<le> length (packBigint x)"
  by (rule Suc_leI) (rule unpackBigint_pos[OF unpackBigint_packBigint_abs[of x "[]"]])

lemma length_packAddrBalance:
  assumes v: "vlq_codec v"
  shows "3 \<le> length (packAddrBalance v ab)"
proof -
  have "Suc 0 \<le> length (PutUint v (ucast (Txs_ab ab)))"
    by (rule Suc_leI) (rule vlq_codec.PutUint_length_pos[OF v])
  moreover have "length buf \<le> length (fold (appendUtxo v) us buf)" for us buf
    by (induction us arbitrary: buf) (simp, metis appendUtxo_append fold_simps(2) le_add1 length_append order_trans)
  ultimately show ?thesis
    using packBigint_nonempty[of "SentSat ab"] packBigint_nonempty[of "BalanceSat ab"]
    unfolding packAddrBalance_def Let_def packVaruint_def
    by (intro order_trans[OF _ \<open>\<And>us buf. length buf \<le> length (fold (appendUtxo v) us buf)\<close>]) simp
qed

text \<open>The information about a block is read back: with a hash in the form the parser prints and a time
  that fits 32 bits, the record under the packed height gives the stored hash, time, number of
  transactions and size, and \<open>GetBlockInfo\<close> adds the height.\<close>

theorem blockInfo_roundtrip:
  assumes "rocks_store (rocks E) contents" and "vlq_codec (vlq E)"
    and "PackBlockHash (chainParser d) (Hash_bi bi) = Inr b" and "UnpackBlockHash (chainParser d) b = Inr (Hash_bi bi)"
    and "length b = PackedTxidLen (chainParser d)" and "uint (Time_bi bi) < 2 ^ 32"
    and "packBlockInfo E (chainParser d) bi = Inr val" and "contents (db d) cfHeight (packUint h) = Some val"
    and "GetCF (rocks E) (db d) cfHeight (packUint h) = Inr r"
  shows "GetBlockInfo E h d = Inr (Some (bi\<lparr> Height_bi := h \<rparr>)) \<and> GetBlockHash E h d = Inr (Hash_bi bi)"
proof -
  have "r = Some val" using rocks_store.GetCF_contents[OF assms(1,9)] assms(8) by simp
  moreover have "unpackBlockInfo E (chainParser d) val = Inr (Some (bi\<lparr> Height_bi := 0 \<rparr>))"
    using unpackBlockInfo_pack[OF assms(2-5)] assms(6,7) by (auto simp: ucast_uint32_back)
  ultimately show ?thesis
    using assms(9) by (simp add: GetBlockInfo_def GetBlockHash_def getData_def)
qed

definition sampleInfo :: BlockInfo where
  "sampleInfo = \<lparr> Hash_bi = EncodeToString (replicate 32 255), Time_bi = 1000, Txs_bi = 2, Size_bi = 200, Height_bi = 0 \<rparr>"

definition sampleInfoDB :: "mem RocksDB" where
  "sampleInfoDB = \<lparr> db = (\<lambda>c. if c = cfHeight then [(packUint 5, projr (packBlockInfo memPackages (hexParser 300) sampleInfo))] else []),
     chainParser = hexParser 300, is_d = None, cbs = newConnectBlockStats \<rparr>"

theorem blockInfo_roundtrip_witness:
  "GetBlockInfo memPackages 5 sampleInfoDB = Inr (Some (sampleInfo\<lparr> Height_bi := 5 \<rparr>)) \<and>
   GetBlockHash memPackages 5 sampleInfoDB = Inr (Hash_bi sampleInfo)"
proof -
  let ?val = "projr (packBlockInfo memPackages (hexParser 300) sampleInfo)"
  have "packBlockInfo memPackages (hexParser 300) sampleInfo = Inr ?val"
    by (simp add: packBlockInfo_def sampleInfo_def PackBlockHash_base_def)
  then show ?thesis
    by (intro blockInfo_roundtrip[where contents = mem_contents and b = "replicate 32 255" and val = ?val and r = "Some ?val"])
      (use memdb.rocks_store_axioms base128.vlq_codec_axioms in
        \<open>simp_all add: sampleInfoDB_def mem_contents_def memdb_def sampleInfo_def PackBlockHash_base_def UnpackBlockHash_base_def\<close>)
qed

text \<open>
  The chain of the index: a block information for some heights, with hashes the parser can pack. The
  \<open>height\<close> column represents it when its entries are exactly the packed ones.
\<close>

type_synonym blockIndex = "uint32 \<Rightarrow> BlockInfo option"

definition hash_ok :: "BlockChainParser \<Rightarrow> string \<Rightarrow> bool" where
  "hash_ok p hash \<longleftrightarrow> (case PackBlockHash p hash of
     Inr b \<Rightarrow> length b = PackedTxidLen p \<and> UnpackBlockHash p b = Inr hash
   | Inl _ \<Rightarrow> False)"

definition represents_heights :: "'s packages \<Rightarrow> BlockChainParser \<Rightarrow> (bytes \<Rightarrow> bytes option) \<Rightarrow> blockIndex \<Rightarrow> bool" where
  "represents_heights E p col m \<longleftrightarrow>
     (\<forall>h bi. m h = Some bi \<longrightarrow> hash_ok p (Hash_bi bi)) \<and>
     (\<forall>k x. col k = Some x \<longleftrightarrow> (\<exists>h bi. m h = Some bi \<and> k = packUint h \<and> packBlockInfo E p bi = Inr x))"

lemma hash_okE:
  assumes "hash_ok p hash"
  obtains b where "PackBlockHash p hash = Inr b" and "UnpackBlockHash p b = Inr hash" and "length b = PackedTxidLen p"
  using assms by (auto simp: hash_ok_def split: sum.splits)

lemma represents_heights_Some:
  assumes "vlq_codec (vlq E)" and "represents_heights E p col m" and "m h = Some bi"
  shows "\<exists>x bi'. col (packUint h) = Some x \<and> unpackBlockInfo E p x = Inr (Some bi') \<and> Hash_bi bi' = Hash_bi bi"
proof -
  have "hash_ok p (Hash_bi bi)" using assms(2,3) by (simp add: represents_heights_def)
  then obtain b where "PackBlockHash p (Hash_bi bi) = Inr b" "UnpackBlockHash p b = Inr (Hash_bi bi)" "length b = PackedTxidLen p"
    by (rule hash_okE)
  from unpackBlockInfo_pack[OF assms(1) this] obtain x where "packBlockInfo E p bi = Inr x"
    "unpackBlockInfo E p x = Inr (Some (bi\<lparr> Time_bi := ucast (ucast (Time_bi bi) :: uint32), Height_bi := 0 \<rparr>))" by blast
  moreover have "col (packUint h) = Some x"
    using assms(2,3) \<open>packBlockInfo E p bi = Inr x\<close> unfolding represents_heights_def by blast
  ultimately show ?thesis by auto
qed

lemma represents_heights_None:
  assumes "represents_heights E p col m" and "m h = None"
  shows "col (packUint h) = None"
  using assms by (cases "col (packUint h)") (auto simp: represents_heights_def)

lemma GetBlockHash_represents:
  assumes "reliable_store (rocks E) contents" and "vlq_codec (vlq E)"
    and "represents_heights E (chainParser d) (contents (db d) cfHeight) m"
  shows "GetBlockHash E h d = Inr (case m h of Some bi \<Rightarrow> Hash_bi bi | None \<Rightarrow> '''')"
proof (cases "m h")
  case None
  then show ?thesis
    using represents_heights_None[OF assms(3) None] reliable_store.GetCF_eq[OF assms(1)]
    by (simp add: GetBlockHash_def getData_def unpackBlockInfo_def)
next
  case (Some bi)
  then show ?thesis
    using represents_heights_Some[OF assms(2,3) Some] reliable_store.GetCF_eq[OF assms(1)]
    by (auto simp: GetBlockHash_def getData_def)
qed

lemma GetBestBlock_represents:
  assumes R: "rocks_store (rocks E) contents" and v: "vlq_codec (vlq E)"
    and rep: "represents_heights E (chainParser d) (contents (db d) cfHeight) m"
  shows "(\<forall>h. m h = None) \<Longrightarrow> GetBestBlock E d = Inr (0, '''')"
    and "m h = Some bi \<Longrightarrow> (\<forall>h' bi'. m h' = Some bi' \<longrightarrow> h' \<le> h) \<Longrightarrow> GetBestBlock E d = Inr (h, Hash_bi bi)"
proof -
  let ?it = "IteratorCF (rocks E) (db d) cfHeight"
  have it: "(k, x) \<in> set ?it \<longleftrightarrow> (\<exists>h bi. m h = Some bi \<and> k = packUint h \<and> packBlockInfo E (chainParser d) bi = Inr x)" for k x
    using rep rocks_store.IteratorCF_Some_iff[OF R] unfolding represents_heights_def by blast
  show "GetBestBlock E d = Inr (0, '''')" if "\<forall>h. m h = None"
  proof -
    have "?it = []" using it that by (cases ?it) (metis list.set_intros(1) option.discI surj_pair, auto)
    then show ?thesis by (simp add: GetBestBlock_def)
  qed
  show "GetBestBlock E d = Inr (h, Hash_bi bi)" if h: "m h = Some bi" and max: "\<forall>h' bi'. m h' = Some bi' \<longrightarrow> h' \<le> h"
  proof -
    obtain x bi' where x: "contents (db d) cfHeight (packUint h) = Some x"
      "unpackBlockInfo E (chainParser d) x = Inr (Some bi')" "Hash_bi bi' = Hash_bi bi"
      using represents_heights_Some[OF v rep h] by blast
    then have mem: "(packUint h, x) \<in> set ?it" using rocks_store.IteratorCF_Some_iff[OF R] by blast
    then have ne: "?it \<noteq> []" by auto
    obtain k y where l: "last ?it = (k, y)" by fastforce
    then have "(k, y) \<in> set ?it" using ne last_in_set by metis
    then obtain h' bi'' where "m h' = Some bi''" "k = packUint h'" using it by blast
    then have le: "k \<le> packUint h" using max packUint_less_iff[of h h'] by (auto simp: not_less[symmetric])
    have "k = packUint h \<and> y = x"
    proof (rule ccontr)
      assume neq: "\<not> (k = packUint h \<and> y = x)"
      obtain pre where it': "?it = pre @ [(k, y)]" using ne l by (metis append_butlast_last_id)
      with mem neq have "(packUint h, x) \<in> set pre" by auto
      then have "packUint h < k"
        using rocks_store.IteratorCF_sorted[OF R, of "db d" cfHeight] unfolding it' by (force simp: sorted_wrt_append)
      with le show False by simp
    qed
    with l ne x show ?thesis by (simp add: GetBestBlock_def)
  qed
qed

text \<open>The best block of the index is the stored block with the greatest height, whatever the order in
  which blocks were stored; an empty index answers height 0 and an empty hash. (The byte order of the keys
  is the order of the heights.)\<close>

theorem bestBlock_is_highest:
  assumes "rocks_store (rocks E) contents" and "vlq_codec (vlq E)"
    and "represents_heights E (chainParser d) (contents (db d) cfHeight) m"
  shows "GetBestBlock E d = Inr (0, '''') \<and> (\<forall>h. m h = None) \<or>
    (\<exists>h bi. GetBestBlock E d = Inr (h, Hash_bi bi) \<and> m h = Some bi \<and> (\<forall>h' bi'. m h' = Some bi' \<longrightarrow> h' \<le> h))"
proof (cases "\<forall>h. m h = None")
  case True
  then show ?thesis using GetBestBlock_represents(1)[OF assms] by blast
next
  case False
  then have "dom m \<noteq> {}" by auto
  then have "Max (dom m) \<in> dom m" "\<forall>h' \<in> dom m. h' \<le> Max (dom m)" by (simp_all del: dom_eq_empty_conv)
  then obtain bi where "m (Max (dom m)) = Some bi" "\<forall>h' bi'. m h' = Some bi' \<longrightarrow> h' \<le> Max (dom m)" by blast
  then show ?thesis using GetBestBlock_represents(2)[OF assms] by blast
qed

theorem bestBlock_is_highest_witness:
  "GetBestBlock memPackages sampleInfoDB = Inr (5, Hash_bi sampleInfo)"
proof -
  let ?m = "[5 \<mapsto> sampleInfo] :: blockIndex"
  have "represents_heights memPackages (hexParser 300) (mem_contents (db sampleInfoDB) cfHeight) ?m"
    by (auto simp: represents_heights_def sampleInfoDB_def mem_contents_def hash_ok_def sampleInfo_def
        PackBlockHash_base_def UnpackBlockHash_base_def packBlockInfo_def split: if_splits)
  then have "GetBestBlock memPackages sampleInfoDB = Inr (0, '''') \<and> (\<forall>h. ?m h = None) \<or>
      (\<exists>h bi. GetBestBlock memPackages sampleInfoDB = Inr (h, Hash_bi bi) \<and> ?m h = Some bi \<and>
         (\<forall>h' bi'. ?m h' = Some bi' \<longrightarrow> h' \<le> h))"
    using memdb.rocks_store_axioms base128.vlq_codec_axioms
      bestBlock_is_highest[of memPackages mem_contents sampleInfoDB ?m]
    by (simp add: sampleInfoDB_def)
  then show ?thesis by (auto split: if_splits)
qed

end
