(* ===== verification/Address_Index.thy ===== *)
theory Address_Index
  imports Rocks_DB
begin

text \<open>
  The \<open>addresses\<close> column of \<open>db/rocksdb.go\<close>: which transactions of a block touch an address and at which
  inputs (negative numbers) and outputs, how a block's entries are collected (\<open>addToAddressesMap\<close>), packed
  and stored, and how \<open>GetAddrDescTransactions\<close> reads them back, newest block first.
\<close>

record txIndexes =
  btxID_ti :: bytes
  indexes :: "int32 list"

type_synonym addressesMap = "(bytes, txIndexes list) gomap"

section \<open>Collecting\<close>

text \<open>The loop over the transactions of an address: the entry of the transaction gets the index
  appended, or there is none.\<close>

fun appendIndex :: "bytes \<Rightarrow> int32 \<Rightarrow> txIndexes list \<Rightarrow> txIndexes list option" where
  "appendIndex btxID ix [] = None"
| "appendIndex btxID ix (t # at) =
     (if btxID = btxID_ti t then Some (t\<lparr> indexes := indexes t @ [ix] \<rparr> # at)
      else map_option (Cons t) (appendIndex btxID ix at))"

definition addToAddressesMap :: "bytes \<Rightarrow> bytes \<Rightarrow> int32 \<Rightarrow> addressesMap \<Rightarrow> bool \<times> addressesMap" where
  "addToAddressesMap strAddrDesc btxID ix addresses =
     (let at = (case map_of addresses strAddrDesc of Some at \<Rightarrow> at | None \<Rightarrow> []) in
      case appendIndex btxID ix at of
        Some at' \<Rightarrow> (True, AList.update strAddrDesc at' addresses)
      | None \<Rightarrow> (False, AList.update strAddrDesc
          (at @ [\<lparr> btxID_ti = btxID, indexes = [ix] \<rparr>]) addresses))"

section \<open>Packing and storing\<close>

text \<open>Each index is shifted left by one bit; the lowest bit marks the last index of a transaction.\<close>

fun packIndexes :: "vlq \<Rightarrow> int32 list \<Rightarrow> bytes" where
  "packIndexes v [] = []"
| "packIndexes v (ix # ixs) =
     packVarint32 v (if ixs = [] then push_bit 1 ix OR 1 else push_bit 1 ix) @ packIndexes v ixs"

definition packTxIndexes :: "vlq \<Rightarrow> txIndexes list \<Rightarrow> bytes" where
  "packTxIndexes v txi =
     fold (\<lambda>t buf. buf @ btxID_ti t @ packIndexes v (indexes t)) (rev txi) []"

definition storeAddresses :: "'s packages \<Rightarrow> uint32 \<Rightarrow> addressesMap \<Rightarrow> WriteBatch \<Rightarrow> WriteBatch" where
  "storeAddresses E height addresses wb =
     wb @ map (\<lambda>(addrDesc, txi). PutWB cfAddresses (packAddressKey addrDesc height)
            (packTxIndexes (vlq E) txi)) addresses"

section \<open>Reading\<close>

text \<open>
  The loop that reads the indexes of one transaction. If the codec reports that it read nothing, the
  buffer does not change and the loop of the code never ends.
\<close>

function readIndexes :: "vlq \<Rightarrow> bytes \<Rightarrow> go_error + (int32 list \<times> bytes)" where
  "readIndexes v val =
     (let (ix, l) = unpackVarint32 v val in
      rbind (slice_from val l) (\<lambda>val'.
      if ix AND 1 = 1 \<or> val' = [] then Inr ([signed_drop_bit 1 ix], val')
      else if l = 0 then Inl (Hang ''GetAddrDescTransactions'')
      else rbind (readIndexes v val') (\<lambda>(ixs, r). Inr (signed_drop_bit 1 ix # ixs, r))))"
  by pat_completeness auto
termination
  by (relation "measure (\<lambda>(v, val). length val)") (auto dest!: slice_from_length)

declare readIndexes.simps [simp del]

text \<open>
  A callback updates the caller's state \<open>'a\<close> and may return an error. The result of the loops below is
  the state and whether the callback stopped the iteration (\<open>StopIteration\<close>).
\<close>

type_synonym 'a GetTransactionsCallback = "string \<Rightarrow> uint32 \<Rightarrow> int32 list \<Rightarrow> 'a \<Rightarrow> go_error option \<times> 'a"

function readTxs ::
    "vlq \<Rightarrow> BlockChainParser \<Rightarrow> 'a GetTransactionsCallback \<Rightarrow> uint32 \<Rightarrow> bytes \<Rightarrow> 'a \<Rightarrow> go_error + (bool \<times> 'a)" where
  "readTxs v p fn height val a =
     (let pl = PackedTxidLen p in
      if length val \<le> pl then Inr (False, a)
      else
        rbind (UnpackTxid p (take pl val)) (\<lambda>tx.
        rbind (readIndexes v (drop pl val)) (\<lambda>(ixs, r).
        case fn tx height ixs a of (err, a) \<Rightarrow>
        case err of
          Some e \<Rightarrow> if e = StopIteration then Inr (True, a) else Inl e
        | None \<Rightarrow>
            if length val \<le> length r then Inl (Hang ''GetAddrDescTransactions'')
            else readTxs v p fn height r a)))"
  by pat_completeness auto
termination
  by (relation "measure (\<lambda>(v, p, fn, height, val, a). length val)") auto

declare readTxs.simps [simp del]

fun iterateAddresses ::
    "vlq \<Rightarrow> BlockChainParser \<Rightarrow> 'a GetTransactionsCallback \<Rightarrow> bytes \<Rightarrow> (bytes \<times> bytes) list \<Rightarrow> 'a \<Rightarrow> go_error + 'a" where
  "iterateAddresses v p fn stopKey [] a = Inr a"
| "iterateAddresses v p fn stopKey ((key, val) # it) a =
     (if stopKey < key then Inr a
      else
        rbind (unpackAddressKey key) (\<lambda>(_, height).
        rbind (readTxs v p fn height val a) (\<lambda>(stopped, a).
        if stopped then Inr a else iterateAddresses v p fn stopKey it a)))"

definition GetAddrDescTransactions ::
    "'s packages \<Rightarrow> AddressDescriptor \<Rightarrow> uint32 \<Rightarrow> uint32 \<Rightarrow> 'a GetTransactionsCallback \<Rightarrow> 'a \<Rightarrow> 's RocksDB \<Rightarrow> go_error + 'a" where
  "GetAddrDescTransactions E addrDesc lower higher fn a d =
     (let startKey = packAddressKey addrDesc higher;
          stopKey = packAddressKey addrDesc lower;
          it = dropWhile (\<lambda>(k, _). k < startKey) (IteratorCF (rocks E) (db d) cfAddresses)
      in iterateAddresses (vlq E) (chainParser d) fn stopKey it a)"

definition GetTransactions ::
    "'s packages \<Rightarrow> string \<Rightarrow> uint32 \<Rightarrow> uint32 \<Rightarrow> 'a GetTransactionsCallback \<Rightarrow> 'a \<Rightarrow> 's RocksDB \<Rightarrow> go_error + 'a" where
  "GetTransactions E address lower higher fn a d =
     rbind (GetAddrDescFromAddress (chainParser d) address) (\<lambda>addrDesc.
     GetAddrDescTransactions E addrDesc lower higher fn a d)"

section \<open>Collecting: what is counted\<close>

definition txs_of :: "addressesMap \<Rightarrow> bytes \<Rightarrow> txIndexes list" where
  "txs_of m a = (case map_of m a of Some at \<Rightarrow> at | None \<Rightarrow> [])"

lemma appendIndex_None_iff: "appendIndex t ix at = None \<longleftrightarrow> t \<notin> set (map btxID_ti at)"
  by (induction at) auto

lemma appendIndex_SomeD:
  "appendIndex t ix at = Some at' \<Longrightarrow>
   \<exists>xs e ys. at = xs @ e # ys \<and> at' = xs @ e\<lparr> indexes := indexes e @ [ix] \<rparr> # ys \<and> btxID_ti e = t \<and>
     t \<notin> set (map btxID_ti xs)"
proof (induction at arbitrary: at')
  case (Cons e at)
  show ?case
  proof (cases "t = btxID_ti e")
    case True
    with Cons.prems show ?thesis by (intro exI[of _ "[]"]) auto
  next
    case False
    with Cons.prems obtain at1 where "appendIndex t ix at = Some at1" "at' = e # at1" by auto
    with Cons.IH obtain xs f ys where "at = xs @ f # ys"
      "at1 = xs @ f\<lparr> indexes := indexes f @ [ix] \<rparr> # ys" "btxID_ti f = t" "t \<notin> set (map btxID_ti xs)" by blast
    with False \<open>at' = e # at1\<close> show ?thesis by (intro exI[of _ "e # xs"]) auto
  qed
qed simp

lemma appendIndex_btxIDs: "appendIndex t ix at = Some at' \<Longrightarrow> map btxID_ti at' = map btxID_ti at"
  using appendIndex_SomeD by fastforce

text \<open>The entries of a block: every address lists each transaction once and with at least one index.\<close>

definition addressesMap_ok :: "addressesMap \<Rightarrow> bool" where
  "addressesMap_ok m \<longleftrightarrow> wf_map m \<and>
     (\<forall>(a, at) \<in> set m. at \<noteq> [] \<and> distinct (map btxID_ti at) \<and> (\<forall>t \<in> set at. indexes t \<noteq> []))"

lemma addressesMap_ok_Nil [simp]: "addressesMap_ok []"
  by (simp add: addressesMap_ok_def)

lemma addressesMap_okD:
  assumes "addressesMap_ok m"
  shows "distinct (map btxID_ti (txs_of m a))" "\<forall>t \<in> set (txs_of m a). indexes t \<noteq> []"
proof -
  have "distinct (map btxID_ti (txs_of m a)) \<and> (\<forall>t \<in> set (txs_of m a). indexes t \<noteq> [])"
  proof (cases "map_of m a")
    case (Some at)
    then have "(a, at) \<in> set m" by (rule map_of_SomeD)
    with assms Some show ?thesis by (auto simp: addressesMap_ok_def txs_of_def)
  qed (simp add: txs_of_def)
  then show "distinct (map btxID_ti (txs_of m a))" "\<forall>t \<in> set (txs_of m a). indexes t \<noteq> []" by auto
qed

lemma addressesMap_ok_update:
  assumes "addressesMap_ok m" and "at \<noteq> []" and "distinct (map btxID_ti at)"
    and "\<forall>t \<in> set at. indexes t \<noteq> []"
  shows "addressesMap_ok (AList.update a at m)"
proof -
  have wf: "wf_map (AList.update a at m)" using assms(1) by (simp add: addressesMap_ok_def)
  have "(b, bt) \<in> set m \<or> (b, bt) = (a, at)" if "(b, bt) \<in> set (AList.update a at m)" for b bt
    using that wf assms(1) by (auto simp: addressesMap_ok_def wf_map_Some_iff[symmetric] split: if_splits)
  with wf assms show ?thesis unfolding addressesMap_ok_def by blast
qed

lemma addToAddressesMap_spec:
  assumes "addressesMap_ok m" and "addToAddressesMap a t ix m = (counted, m')"
  shows "addressesMap_ok m'" and "counted \<longleftrightarrow> t \<in> set (map btxID_ti (txs_of m a))"
    and "set (map btxID_ti (txs_of m' a)) = insert t (set (map btxID_ti (txs_of m a)))"
    and "b \<noteq> a \<Longrightarrow> txs_of m' b = txs_of m b"
proof -
  let ?at = "txs_of m a"
  note at = addressesMap_okD[OF assms(1), of a]
  show "addressesMap_ok m'"
  proof (cases "appendIndex t ix ?at")
    case None
    then have "m' = AList.update a (?at @ [\<lparr> btxID_ti = t, indexes = [ix] \<rparr>]) m"
      using assms(2) by (auto simp: addToAddressesMap_def Let_def txs_of_def)
    then show ?thesis using None at assms(1)
      by (auto intro!: addressesMap_ok_update simp: appendIndex_None_iff)
  next
    case (Some at')
    then have m': "m' = AList.update a at' m"
      using assms(2) by (auto simp: addToAddressesMap_def Let_def txs_of_def)
    obtain xs e ys where e: "?at = xs @ e # ys" "at' = xs @ e\<lparr> indexes := indexes e @ [ix] \<rparr> # ys"
      using appendIndex_SomeD[OF Some] by blast
    have "distinct (map btxID_ti at')" using at(1) appendIndex_btxIDs[OF Some] by simp
    then show ?thesis unfolding m' using e at(2) assms(1)
      by (intro addressesMap_ok_update) auto
  qed
  show "counted \<longleftrightarrow> t \<in> set (map btxID_ti ?at)"
    using assms(2) appendIndex_None_iff[of t ix ?at]
    by (auto simp: addToAddressesMap_def Let_def txs_of_def split: option.splits)
  show "set (map btxID_ti (txs_of m' a)) = insert t (set (map btxID_ti ?at))"
    using assms(2) appendIndex_None_iff[of t ix ?at] appendIndex_btxIDs[of t ix ?at]
    by (force simp: addToAddressesMap_def Let_def txs_of_def simp flip: set_map split: option.splits)
  show "b \<noteq> a \<Longrightarrow> txs_of m' b = txs_of m b"
    using assms(2) by (auto simp: addToAddressesMap_def Let_def txs_of_def split: option.splits)
qed

section \<open>Reading back what was packed\<close>

text \<open>An index that survives the shift by one bit.\<close>

definition index_in_range :: "int32 \<Rightarrow> bool" where
  "index_in_range ix \<longleftrightarrow> - (2 ^ 30) \<le> sint ix \<and> sint ix < 2 ^ 30"

definition txIndexes_ok :: "nat \<Rightarrow> txIndexes \<Rightarrow> bool" where
  "txIndexes_ok pl t \<longleftrightarrow> length (btxID_ti t) = pl \<and> indexes t \<noteq> [] \<and> list_all index_in_range (indexes t)"

text \<open>What \<open>packTxIndexes\<close> writes for an index: shifted, with the flag of the last index.\<close>

definition packedIndex :: "bool \<Rightarrow> int32 \<Rightarrow> int32" where
  "packedIndex isLast ix = (if isLast then push_bit 1 ix OR 1 else push_bit 1 ix)"

lemma packedIndex_flag: "packedIndex isLast ix AND 1 = (if isLast then 1 else 0)"
proof -
  have "push_bit 1 ix AND 1 = 0" "(push_bit 1 ix OR 1) AND 1 = 1"
    by (rule bit_word_eqI; auto simp: bit_and_iff bit_or_iff bit_push_bit_iff bit_1_iff simp del: push_bit_Suc)+
  then show ?thesis by (simp only: packedIndex_def split: if_split) simp
qed

lemma packedIndex_shift:
  assumes "index_in_range ix"
  shows "signed_drop_bit 1 (packedIndex isLast ix) = ix"
proof -
  have "push_bit 1 ix = (of_int (2 * sint ix) :: int32)"
    by (simp add: push_bit_eq_mult)
  moreover have "sint (of_int (2 * sint ix) :: int32) = 2 * sint ix"
  proof -
    have "signed_take_bit (LENGTH(32) - Suc 0) (2 * sint ix) = 2 * sint ix"
      using assms by (intro signed_take_bit_int_eq_self) (simp_all add: index_in_range_def)
    then show ?thesis unfolding signed_of_int by simp
  qed
  ultimately have "sint (push_bit 1 ix) = 2 * sint ix" by (simp only:)
  then have "signed_drop_bit 1 (push_bit 1 ix) = ix"
    using sint_signed_drop_bit_eq[of 1 "push_bit 1 ix"]
    by (simp add: word_eq_iff_signed[where 'a = int] drop_bit_Suc)
  moreover have "signed_drop_bit 1 (push_bit 1 ix OR 1) = signed_drop_bit 1 (push_bit 1 ix)"
    by (rule bit_word_eqI) (auto simp: bit_signed_drop_bit_iff bit_or_iff bit_1_iff)
  ultimately show ?thesis by (simp only: packedIndex_def split: if_split) simp
qed

lemma packIndexes_Cons:
  "packIndexes v (ix # ixs) = packVarint32 v (packedIndex (ixs = []) ix) @ packIndexes v ixs"
  by (simp only: packIndexes.simps packedIndex_def)

lemma packIndexes_eq_Nil_iff: "vlq_codec v \<Longrightarrow> packIndexes v ixs = [] \<longleftrightarrow> ixs = []"
  by (cases ixs) (simp_all add: packVarint32_def vlq_codec.PutInt_nonempty)

lemma readIndexes_packIndexes:
  assumes "vlq_codec v" and "ixs \<noteq> []" and "list_all index_in_range ixs"
  shows "readIndexes v (packIndexes v ixs @ rest) = Inr (ixs, rest)"
  using assms(2,3)
proof (induction ixs)
  case (Cons ix ixs)
  let ?w = "packedIndex (ixs = []) ix"
  have w: "signed_drop_bit 1 ?w = ix" "?w AND 1 = (if ixs = [] then 1 else 0)"
    using Cons.prems by (simp_all only: list.pred_inject packedIndex_shift packedIndex_flag)
  have "ixs = [] \<or> readIndexes v (packIndexes v ixs @ rest) = Inr (ixs, rest) \<and> packIndexes v ixs @ rest \<noteq> []"
    using Cons packIndexes_eq_Nil_iff[OF assms(1)] by auto
  then show ?case
    unfolding packIndexes_Cons
    by (subst readIndexes.simps)
      (use w assms(1) in \<open>auto simp: packVarint32_def unpackVarint32_def vlq_codec.IntAt_PutInt vlq_codec.PutInt_nonempty\<close>)
qed simp


text \<open>
  The abstract iteration: the callback gets a list of transactions, until it returns an error.
\<close>

fun feed :: "'a GetTransactionsCallback \<Rightarrow> (string \<times> uint32 \<times> int32 list) list \<Rightarrow> 'a \<Rightarrow> go_error + (bool \<times> 'a)" where
  "feed fn [] a = Inr (False, a)"
| "feed fn ((tx, h, ixs) # ts) a =
     (case fn tx h ixs a of (err, a) \<Rightarrow>
      case err of
        Some e \<Rightarrow> if e = StopIteration then Inr (True, a) else Inl e
      | None \<Rightarrow> feed fn ts a)"

lemma feed_append:
  "feed fn (xs @ ys) a = rbind (feed fn xs a) (\<lambda>(stopped, a). if stopped then Inr (True, a) else feed fn ys a)"
  by (induction fn xs a rule: feed.induct) (auto split: option.splits prod.splits)

text \<open>The string of a packed transaction id; \<open>UnpackTxid\<close> of the parsers cannot fail.\<close>

definition txid_of :: "BlockChainParser \<Rightarrow> bytes \<Rightarrow> string" where
  "txid_of p b = (case UnpackTxid p b of Inr s \<Rightarrow> s | Inl _ \<Rightarrow> '''')"

lemma UnpackTxid_txid_of: "txid_parser p \<Longrightarrow> UnpackTxid p b = Inr (txid_of p b)"
  using txid_parser.UnpackTxid_returns[of p b] by (auto simp: txid_of_def)

definition entryTxs :: "BlockChainParser \<Rightarrow> uint32 \<Rightarrow> txIndexes list \<Rightarrow> (string \<times> uint32 \<times> int32 list) list" where
  "entryTxs p h txi = map (\<lambda>t. (txid_of p (btxID_ti t), h, indexes t)) (rev txi)"

lemma packTxIndexes_concat:
  "packTxIndexes v txi = concat (map (\<lambda>t. btxID_ti t @ packIndexes v (indexes t)) (rev txi))"
  unfolding packTxIndexes_def
  by (subst fold_append_concat[of "\<lambda>t buf. buf @ btxID_ti t @ packIndexes v (indexes t)"]) simp_all

lemma readTxs_concat:
  assumes v: "vlq_codec v" and p: "txid_parser p" and ok: "list_all (txIndexes_ok (PackedTxidLen p)) ts"
  shows "readTxs v p fn h (concat (map (\<lambda>t. btxID_ti t @ packIndexes v (indexes t)) ts)) a =
    feed fn (map (\<lambda>t. (txid_of p (btxID_ti t), h, indexes t)) ts) a"
  using ok
proof (induction ts arbitrary: a)
  case Nil
  then show ?case by (subst readTxs.simps) simp
next
  case (Cons t ts)
  let ?r = "concat (map (\<lambda>t. btxID_ti t @ packIndexes v (indexes t)) ts)"
  have t: "length (btxID_ti t) = PackedTxidLen p" "indexes t \<noteq> []" "list_all index_in_range (indexes t)"
    using Cons.prems by (auto simp: txIndexes_ok_def)
  have "packIndexes v (indexes t) \<noteq> []" using t(2) packIndexes_eq_Nil_iff[OF v] by simp
  then have "0 < length (packIndexes v (indexes t))" by blast
  moreover have "0 < PackedTxidLen p" by (rule txid_parser.PackedTxidLen_pos[OF p])
  moreover have "\<And>a. readTxs v p fn h ?r a = feed fn (map (\<lambda>t. (txid_of p (btxID_ti t), h, indexes t)) ts) a"
    using Cons by simp
  ultimately show ?case
    by (subst readTxs.simps)
      (auto simp: t(1)[symmetric] UnpackTxid_txid_of[OF p] readIndexes_packIndexes[OF v t(2,3)]
        split: option.splits prod.splits)
qed

lemma readTxs_packTxIndexes:
  "vlq_codec v \<Longrightarrow> txid_parser p \<Longrightarrow> list_all (txIndexes_ok (PackedTxidLen p)) txi \<Longrightarrow>
   readTxs v p fn h (packTxIndexes v txi) a = feed fn (entryTxs p h txi) a"
  unfolding packTxIndexes_concat entryTxs_def
  by (rule readTxs_concat) simp_all

section \<open>The transactions of an address\<close>

text \<open>
  The abstract index: for an address descriptor and a height the transactions of that block. The
  \<open>addresses\<close> column represents it when its entries are exactly the packed ones.
\<close>

type_synonym addressIndex = "bytes \<Rightarrow> uint32 \<Rightarrow> txIndexes list option"

definition represents :: "vlq \<Rightarrow> (bytes \<Rightarrow> bytes option) \<Rightarrow> addressIndex \<Rightarrow> bool" where
  "represents v col ai \<longleftrightarrow>
     (\<forall>k x. col k = Some x \<longleftrightarrow> (\<exists>a h txi. ai a h = Some txi \<and> k = packAddressKey a h \<and> x = packTxIndexes v txi))"

text \<open>No other descriptor of the index continues \<open>a\<close> or is continued by it.\<close>

definition prefix_free :: "addressIndex \<Rightarrow> bytes \<Rightarrow> bool" where
  "prefix_free ai a \<longleftrightarrow>
     (\<forall>b h. ai b h \<noteq> None \<longrightarrow> b \<noteq> a \<longrightarrow> take (length a) b \<noteq> a \<and> take (length b) a \<noteq> b)"

definition history :: "BlockChainParser \<Rightarrow> addressIndex \<Rightarrow> bytes \<Rightarrow> uint32 list \<Rightarrow> (string \<times> uint32 \<times> int32 list) list" where
  "history p ai a hs = concat (map (\<lambda>h. entryTxs p h (the (ai a h))) hs)"

text \<open>A byte string between two that start with \<open>a\<close> starts with \<open>a\<close>.\<close>

lemma between_prefix:
  "(a @ x :: bytes) \<le> k \<Longrightarrow> k \<le> a @ y \<Longrightarrow> take (length a) k = a"
proof (induction a arbitrary: k)
  case (Cons c a)
  then obtain d k' where "k = d # k'" by (cases k) auto
  with Cons show ?case by auto
qed simp

lemma key_in_range:
  assumes "prefix_free ai a" and "ai b h \<noteq> None"
    and "packAddressKey a higher \<le> packAddressKey b h" and "packAddressKey b h \<le> packAddressKey a lower"
  shows "b = a"
proof (rule ccontr)
  assume "b \<noteq> a"
  with assms(1,2) have pf: "take (length a) b \<noteq> a" "take (length b) a \<noteq> b"
    by (auto simp: prefix_free_def)
  have "take (length a) (b @ packUint (NOT h)) = a"
    using between_prefix assms(3,4) unfolding packAddressKey_def by blast
  then show False
  proof (cases "length a \<le> length b")
    case True
    with \<open>take (length a) (b @ _) = a\<close> pf(1) show False by simp
  next
    case False
    with \<open>take (length a) (b @ _) = a\<close> have "a = b @ take (length a - length b) (packUint (NOT h))" by simp
    then have "take (length b) a = b" by (metis append_eq_conv_conj)
    with pf(2) show False by blast
  qed
qed

text \<open>The entries an iterator visits between two keys.\<close>

definition range_of :: "bytes \<Rightarrow> bytes \<Rightarrow> (bytes \<times> bytes) list \<Rightarrow> (bytes \<times> bytes) list" where
  "range_of lo hi it = filter (\<lambda>(k, _). lo \<le> k \<and> k \<le> hi) it"

lemma iterate_range:
  assumes "sorted_wrt (<) (map fst it)"
  shows "iterateAddresses v p fn hi (dropWhile (\<lambda>(k, _). k < lo) it) a =
    iterateAddresses v p fn hi (range_of lo hi it) a"
proof -
  have ge: "iterateAddresses v p fn hi it a = iterateAddresses v p fn hi (range_of lo hi it) a"
    if "sorted_wrt (<) (map fst it)" "\<forall>(k, _) \<in> set it. lo \<le> k" for it a
    using that
  proof (induction it arbitrary: a)
    case (Cons e it)
    obtain k x where e: "e = (k, x)" by (cases e)
    show ?case
    proof (cases "hi < k")
      case True
      with Cons.prems have "range_of lo hi it = []" by (fastforce simp: range_of_def filter_empty_conv e)
      with True show ?thesis by (simp add: e range_of_def)
    next
      case False
      with Cons.prems have "range_of lo hi (e # it) = e # range_of lo hi it" by (simp add: range_of_def e)
      moreover have eq: "iterateAddresses v p fn hi (range_of lo hi it) = iterateAddresses v p fn hi it"
        by (rule ext) (use Cons in auto)
      ultimately show ?thesis using False by (simp add: e) (unfold eq, rule refl)
    qed
  qed (simp add: range_of_def)
  show ?thesis using assms
  proof (induction it)
    case (Cons e it)
    obtain k x where e: "e = (k, x)" by (cases e)
    show ?case
    proof (cases "k < lo")
      case True
      with Cons show ?thesis by (auto simp: e range_of_def)
    next
      case False
      with Cons.prems have "\<forall>(k, _) \<in> set (e # it). lo \<le> k" by (fastforce simp: e)
      with ge[OF Cons.prems(1)] False show ?thesis by (simp add: e)
    qed
  qed (simp add: range_of_def)
qed

lemma assoc_list_eqI:
  assumes "map fst xs = map fst ys" and "set xs = set ys" and "distinct (map fst xs)"
  shows "xs = ys"
proof -
  have m: "map (\<lambda>k. (k, the (map_of zs k))) (map fst zs) = zs" if "distinct (map fst zs)" for zs :: "('a \<times> 'b) list"
    using that by (auto intro!: map_idI simp: map_of_eq_Some_iff)
  have "map_of xs k = Some x \<longleftrightarrow> map_of ys k = Some x" for k x using assms by simp
  then have "map_of xs = map_of ys" by (intro ext) (metis option.exhaust)
  with m[of xs] m[of ys] assms show ?thesis by metis
qed

text \<open>The entries of an address in a range of heights, newest first.\<close>

lemma range_of_address:
  assumes it: "sorted_wrt (<) (map fst it)" "represents v (map_of it) ai" and pf: "prefix_free ai a"
    and hs: "sorted_wrt (>) hs" "set hs = {h. lower \<le> h \<and> h \<le> higher \<and> ai a h \<noteq> None}"
  shows "range_of (packAddressKey a higher) (packAddressKey a lower) it =
    map (\<lambda>h. (packAddressKey a h, packTxIndexes v (the (ai a h)))) hs" (is "?l = ?r")
proof -
  have le: "packAddressKey a x \<le> packAddressKey a y \<longleftrightarrow> y \<le> x" for x y
    by (simp add: linorder_not_less[symmetric])
  have dist: "distinct (map fst it)" using it(1) by (simp add: strict_sorted_iff)
  have mem: "(k, x) \<in> set it \<longleftrightarrow> (\<exists>b h txi. ai b h = Some txi \<and> k = packAddressKey b h \<and> x = packTxIndexes v txi)" for k x
    using it(2) dist unfolding represents_def by (metis map_of_eq_Some_iff)
  have "(k, x) \<in> set ?l \<longleftrightarrow> (k, x) \<in> set ?r" for k x
  proof
    assume "(k, x) \<in> set ?l"
    then have k: "packAddressKey a higher \<le> k" "k \<le> packAddressKey a lower" "(k, x) \<in> set it"
      by (auto simp: range_of_def)
    from k(3) obtain b h txi where e: "ai b h = Some txi" "k = packAddressKey b h" "x = packTxIndexes v txi"
      unfolding mem by blast
    with k key_in_range[OF pf, of b h higher lower] have "b = a" by simp
    with e k(1,2) hs(2) show "(k, x) \<in> set ?r" by (auto simp: le image_iff intro!: bexI[of _ h])
  next
    assume "(k, x) \<in> set ?r"
    then obtain h txi where e: "h \<in> set hs" "k = packAddressKey a h" "x = packTxIndexes v txi" "ai a h = Some txi"
      using hs(2) by auto
    then have "(k, x) \<in> set it" unfolding mem by blast
    with e hs(2) show "(k, x) \<in> set ?l" by (auto simp: range_of_def le)
  qed
  then have set: "set ?l = set ?r" by auto
  have "sorted_wrt (<) (map fst ?l)"
    using it(1) unfolding range_of_def by (induction it) (auto split: prod.splits)
  moreover have "sorted_wrt (<) (map fst ?r)"
    using hs(1) by (simp add: sorted_wrt_map)
  ultimately have "map fst ?l = map fst ?r"
    by (intro strict_sorted_equal) (simp_all only: list.set_map set)
  moreover have "distinct (map fst ?l)" "distinct (map fst ?r)"
    using \<open>sorted_wrt (<) (map fst ?l)\<close> \<open>sorted_wrt (<) (map fst ?r)\<close> by (simp_all add: strict_sorted_iff)
  ultimately show ?thesis using set by (intro assoc_list_eqI) simp_all
qed

lemma iterateAddresses_entries:
  assumes v: "vlq_codec v" and p: "txid_parser p" and a: "a \<noteq> []"
    and hs: "\<forall>h \<in> set hs. lower \<le> h" and ok: "\<forall>h \<in> set hs. list_all (txIndexes_ok (PackedTxidLen p)) (f h)"
  shows "iterateAddresses v p fn (packAddressKey a lower)
      (map (\<lambda>h. (packAddressKey a h, packTxIndexes v (f h))) hs) s =
    rbind (feed fn (concat (map (\<lambda>h. entryTxs p h (f h)) hs)) s) (\<lambda>(_, s). Inr s)"
  using hs ok
proof (induction hs arbitrary: s)
  case (Cons h hs)
  then have h: "readTxs v p fn h (packTxIndexes v (f h)) s = feed fn (entryTxs p h (f h)) s" for s
    by (intro readTxs_packTxIndexes[OF v p]) simp
  have "\<not> packAddressKey a lower < packAddressKey a h" using Cons.prems(1) by (simp add: not_less)
  moreover have "iterateAddresses v p fn (packAddressKey a lower)
      (map (\<lambda>h. (packAddressKey a h, packTxIndexes v (f h))) hs) s' =
    rbind (feed fn (concat (map (\<lambda>h. entryTxs p h (f h)) hs)) s') (\<lambda>(_, s). Inr s)" for s'
    using Cons by simp
  ultimately show ?case
    by (cases "feed fn (entryTxs p h (f h)) s")
      (auto simp: unpackAddressKey_packAddressKey[OF a] h feed_append)
qed simp

lemma GetAddrDescTransactions_history:
  assumes "rocks_store (rocks E) contents" and "vlq_codec (vlq E)" and "txid_parser (chainParser d)"
    and "represents (vlq E) (contents (db d) cfAddresses) ai"
    and "addrDesc \<noteq> []" and "prefix_free ai addrDesc"
    and "sorted_wrt (>) hs" and "set hs = {h. lower \<le> h \<and> h \<le> higher \<and> ai addrDesc h \<noteq> None}"
    and "\<forall>h \<in> set hs. list_all (txIndexes_ok (PackedTxidLen (chainParser d))) (the (ai addrDesc h))"
  shows "GetAddrDescTransactions E addrDesc lower higher fn a d =
    rbind (feed fn (history (chainParser d) ai addrDesc hs) a) (\<lambda>(stopped, a). Inr a)"
proof -
  let ?it = "IteratorCF (rocks E) (db d) cfAddresses"
  have it: "sorted_wrt (<) (map fst ?it)" "represents (vlq E) (map_of ?it) ai"
    using rocks_store.IteratorCF_sorted[OF assms(1)] rocks_store.IteratorCF_contents[OF assms(1)] assms(4) by simp_all
  show ?thesis
    unfolding GetAddrDescTransactions_def Let_def iterate_range[OF it(1)]
      range_of_address[OF it assms(6,7,8)] history_def
    by (rule iterateAddresses_entries) (use assms in auto)
qed

text \<open>C5: Reading the transactions of an address calls the callback with exactly the transactions of the
  index for that address in the requested range of heights, with their input and output indexes, from the
  newest block to the oldest and within a block from the last transaction to the first, and it stops when
  the callback asks for it. The descriptor must not be a prefix of another descriptor of the index.\<close>

theorem getAddrDescTransactions_spec:
  assumes "rocks_store (rocks E) contents" and "vlq_codec (vlq E)" and "txid_parser (chainParser d)"
    and "represents (vlq E) (contents (db d) cfAddresses) ai"
    and "addrDesc \<noteq> []" and "prefix_free ai addrDesc"
    and "sorted_wrt (>) hs" and "set hs = {h. lower \<le> h \<and> h \<le> higher \<and> ai addrDesc h \<noteq> None}"
    and "\<forall>h \<in> set hs. list_all (txIndexes_ok (PackedTxidLen (chainParser d))) (the (ai addrDesc h))"
  shows "GetAddrDescTransactions E addrDesc lower higher fn a d =
    rbind (feed fn (history (chainParser d) ai addrDesc hs) a) (\<lambda>(stopped, a). Inr a)"
  using assms by (rule GetAddrDescTransactions_history)

text \<open>An index of one address with the same entry in the blocks 7 and 9.\<close>

definition sampleIndexes :: "txIndexes list" where
  "sampleIndexes = [\<lparr> btxID_ti = replicate 32 171, indexes = [0, - 1] \<rparr>]"

definition sampleIndex :: addressIndex where
  "sampleIndex a h = (if a = [1, 2] \<and> h \<in> {7, 9} then Some sampleIndexes else None)"

definition sampleColumn :: mem where
  "sampleColumn c = (if c = cfAddresses
     then map (\<lambda>h. (packAddressKey [1, 2] h, packTxIndexes base128 sampleIndexes)) [9, 7] else [])"

definition sampleIndexDB :: "mem RocksDB" where
  "sampleIndexDB = \<lparr> db = sampleColumn, chainParser = hexParser 300, is_d = None, cbs = newConnectBlockStats \<rparr>"

definition collect :: "(string \<times> uint32 \<times> int32 list) list GetTransactionsCallback" where
  "collect tx h ixs acc = (None, acc @ [(tx, h, ixs)])"

lemma sampleIndex_represents: "represents base128 (mem_contents sampleColumn cfAddresses) sampleIndex"
  by (auto simp: represents_def mem_contents_def sampleColumn_def sampleIndex_def split: if_splits)

lemma sampleIndexes_ok: "list_all (txIndexes_ok 32) sampleIndexes"
  by (simp add: sampleIndexes_def txIndexes_ok_def index_in_range_def)

theorem getAddrDescTransactions_spec_witness:
  "GetAddrDescTransactions memPackages [1, 2] 0 8 collect [] sampleIndexDB =
     Inr [(EncodeToString (replicate 32 171), 7, [0, - 1])]"
proof -
  let ?d = sampleIndexDB
  have "prefix_free sampleIndex [1, 2]" by (simp add: prefix_free_def sampleIndex_def)
  moreover have "represents (vlq memPackages) (mem_contents (db ?d) cfAddresses) sampleIndex"
    using sampleIndex_represents by (simp add: sampleIndexDB_def)
  moreover have "set [7] = {h :: uint32. 0 \<le> h \<and> h \<le> 8 \<and> sampleIndex [1, 2] h \<noteq> None}"
    by (auto simp: sampleIndex_def)
  moreover have "\<forall>h \<in> set [7]. list_all (txIndexes_ok (PackedTxidLen (chainParser ?d))) (the (sampleIndex [1, 2] h))"
    using sampleIndexes_ok by (simp add: sampleIndexDB_def sampleIndex_def)
  ultimately have "GetAddrDescTransactions memPackages [1, 2] 0 8 collect [] ?d =
      rbind (feed collect (history (chainParser ?d) sampleIndex [1, 2] [7]) []) (\<lambda>(stopped, a). Inr a)"
    using memdb.rocks_store_axioms base128.vlq_codec_axioms txid_parser_hexParser
    by (intro getAddrDescTransactions_spec[where contents = mem_contents and ai = sampleIndex])
      (assumption | simp add: sampleIndexDB_def)+
  then show ?thesis
    by (simp add: history_def entryTxs_def sampleIndex_def sampleIndexes_def collect_def sampleIndexDB_def
        txid_of_def UnpackTxid_base_def)
qed

lemma zeros_le: "n \<le> length ys \<Longrightarrow> replicate n 0 \<le> (ys :: bytes)"
proof (induction n arbitrary: ys)
  case (Suc n)
  then obtain y r where "ys = y # r" "n \<le> length r" by (cases ys) auto
  with Suc.IH[of r] show ?case by (cases "y = 0") (auto simp: word_neq_0_conv)
qed simp

text \<open>A query over all blocks also reports the transactions of every longer descriptor that starts with
  the queried one, as if they were its own: the range of keys that is read contains them, and the
  descriptor in the key is not compared. (A descriptor whose next byte is 255 is the only exception.)\<close>

theorem query_includes_extensions:
  assumes "rocks_store (rocks E) contents" and "vlq_codec (vlq E)" and "txid_parser (chainParser d)"
    and "b \<noteq> 255"
    and "contents (db d) cfAddresses = [packAddressKey (a @ b # r) h \<mapsto> packTxIndexes (vlq E) txi]"
    and "list_all (txIndexes_ok (PackedTxidLen (chainParser d))) txi"
  shows "GetAddrDescTransactions E a 0 0xFFFFFFFF fn s d =
    rbind (feed fn (entryTxs (chainParser d) h txi) s) (\<lambda>(stopped, s). Inr s)"
proof -
  let ?k = "packAddressKey (a @ b # r) h" and ?x = "packTxIndexes (vlq E) txi"
  let ?it = "IteratorCF (rocks E) (db d) cfAddresses"
  have "map_of ?it = [?k \<mapsto> ?x]" "distinct (map fst ?it)"
    using rocks_store.IteratorCF_contents[OF assms(1)] rocks_store.IteratorCF_distinct[OF assms(1)] assms(5)
    by simp_all
  then have "set ?it = {(?k, ?x)}" by (auto simp: map_of_eq_Some_iff[symmetric] split: if_splits)
  moreover have "distinct ?it" using \<open>distinct (map fst ?it)\<close> by (simp add: distinct_map)
  ultimately have it: "?it = [(?k, ?x)]"
    by (cases ?it; cases "tl ?it") auto
  have "packUint (NOT 0xFFFFFFFF) = replicate 4 0" "packUint (NOT 0) = [255, 255, 255, 255]"
    by (code_simp, code_simp)
  moreover have "b \<le> 255" using unsigned_less[of b, where 'a = nat] by (simp add: word_le_nat_alt)
  ultimately have range: "\<not> ?k < packAddressKey a 0xFFFFFFFF" "\<not> packAddressKey a 0 < ?k"
    using zeros_le[of 4 "b # r @ packUint (NOT h)"] assms(4)
    by (auto simp: packAddressKey_def not_less)
  show ?thesis
    using range readTxs_packTxIndexes[OF assms(2,3,6), of fn h s]
    by (cases "feed fn (entryTxs (chainParser d) h txi) s")
      (auto simp: GetAddrDescTransactions_def it unpackAddressKey_packAddressKey)
qed

theorem query_includes_extensions_witness:
  "GetAddrDescTransactions memPackages [1] 0 0xFFFFFFFF collect []
     (sampleIndexDB\<lparr> db := (\<lambda>c. if c = cfAddresses
        then [(packAddressKey [1, 2] 7, packTxIndexes base128 sampleIndexes)] else []) \<rparr>) =
     Inr [(EncodeToString (replicate 32 171), 7, [0, - 1])]"
proof -
  let ?s = "\<lambda>c. if c = cfAddresses then [(packAddressKey [1, 2] 7, packTxIndexes base128 sampleIndexes)] else []"
  let ?d = "sampleIndexDB\<lparr> db := ?s \<rparr>"
  have "GetAddrDescTransactions memPackages [1] 0 0xFFFFFFFF collect [] ?d =
      rbind (feed collect (entryTxs (chainParser ?d) 7 sampleIndexes) []) (\<lambda>(stopped, s). Inr s)"
    by (rule query_includes_extensions[where contents = mem_contents and b = 2 and r = "[]"])
      (use memdb.rocks_store_axioms base128.vlq_codec_axioms txid_parser_hexParser sampleIndexes_ok
        in \<open>auto simp: sampleIndexDB_def mem_contents_def\<close>)
  then show ?thesis
    by (simp add: entryTxs_def sampleIndexes_def collect_def sampleIndexDB_def txid_of_def UnpackTxid_base_def)
qed

end
