(* ===== verification/Bitcoin_Index.thy ===== *)
theory Bitcoin_Index
  imports Address_Index
begin

text \<open>
  Indexing a block of a bitcoin type chain (\<open>db/rocksdb.go\<close>): \<open>processAddressesBitcoinType\<close> collects the
  addresses, transaction records and balances the block touches, \<open>storeTxAddresses\<close>, \<open>storeBalances\<close> and
  \<open>storeAndCleanupBlockTxs\<close> put them into a write batch.

  The maps the code fills while it walks through a block are the fields of \<open>connectState\<close>; the
  counters it increments on the handle are its field \<open>stats\<close>. The objects behind the pointers of the maps
  are their values. One object can be reached on another way: \<open>blockTxAddresses[txi]\<close> is the record of
  the transaction number \<open>txi\<close>, which is also the value in the map unless a later transaction of the block
  has the same id; only then (\<open>owner\<close> is false) are the writes to it lost.
\<close>

record connectState =
  addresses_cs :: addressesMap
  txAddressesMap :: "(bytes, TxAddresses) gomap"
  balances_cs :: "(bytes, AddrBalance) gomap"
  stats :: connectBlockStats

definition newConnectState :: "connectBlockStats \<Rightarrow> connectState" where
  "newConnectState s = \<lparr> addresses_cs = [], txAddressesMap = [], balances_cs = [], stats = s \<rparr>"

section \<open>Cold staking scripts\<close>

definition OP_CHECKCOLDSTAKEVERIFY :: byte where "OP_CHECKCOLDSTAKEVERIFY = 0xd1"

definition isPayToColdStake :: "bytes \<Rightarrow> bool" where
  "isPayToColdStake signatureScript \<longleftrightarrow>
     length signatureScript > 50 \<and> signatureScript ! 4 = OP_CHECKCOLDSTAKEVERIFY"

text \<open>The slice has 21 bytes and the destination 20, so the last one is not copied.\<close>

definition getOwnerFromP2CS :: "'s packages \<Rightarrow> bytes \<Rightarrow> go_error + bytes" where
  "getOwnerFromP2CS E signatureScript =
     rbind (slice signatureScript 28 49) (\<lambda>src.
     ScriptBuilder E [AddOp 0x76, AddOp 0xa9, AddData (take 20 src), AddOp 0x88, AddOp 0xac])"

text \<open>The descriptors an output counts for: its own and, for a cold staking script, the owner's.\<close>

definition outputDescriptors :: "'s packages \<Rightarrow> AddressDescriptor \<Rightarrow> go_error + AddressDescriptor list" where
  "outputDescriptors E addrDesc =
     (if isPayToColdStake addrDesc then
        (case getOwnerFromP2CS E addrDesc of
           Inr ownerDesc \<Rightarrow> Inr [addrDesc, ownerDesc]
         | Inl e \<Rightarrow> if is_panic e then Inl e else Inr [addrDesc])
      else Inr [addrDesc])"

section \<open>Outputs\<close>

definition maxAddrDescLen :: nat where "maxAddrDescLen = 1024"

text \<open>The balance of a descriptor, from the map or from the database.\<close>

definition loadBalance ::
    "'s packages \<Rightarrow> 's RocksDB \<Rightarrow> AddressDescriptor \<Rightarrow> connectState \<Rightarrow> go_error + (AddrBalance \<times> connectState)" where
  "loadBalance E d ad st =
     (case map_of (balances_cs st) ad of
        Some balance \<Rightarrow>
          Inr (balance, st\<lparr> stats := (stats st)\<lparr> balancesHit := balancesHit (stats st) + 1 \<rparr> \<rparr>)
      | None \<Rightarrow>
          rbind (GetAddrDescBalance E ad addressBalanceDetailUTXOIndexed d) (\<lambda>b.
          let balance = (case b of Some b \<Rightarrow> b | None \<Rightarrow> newAddrBalance) in
          Inr (balance, st\<lparr> balances_cs := AList.update ad balance (balances_cs st),
            stats := (stats st)\<lparr> balancesMiss := balancesMiss (stats st) + 1 \<rparr> \<rparr>)))"

definition processOutputDesc ::
    "'s packages \<Rightarrow> 's RocksDB \<Rightarrow> uint32 \<Rightarrow> bytes \<Rightarrow> nat \<Rightarrow> int \<Rightarrow> AddressDescriptor \<Rightarrow> connectState \<Rightarrow> go_error + connectState" where
  "processOutputDesc E d height btxID i val oad st =
     (if IsAddrDescIndexable (chainParser d) oad then
        rbind (loadBalance E d oad st) (\<lambda>(balance, st).
        rbind (hasUtxo balance btxID (of_nat i)) (\<lambda>dup.
        if dup then Inr st
        else
          let balance = creditOutput \<lparr> BtxID = btxID, Vout_u = of_nat i, Height_u = height, ValueSat_u = val \<rparr> balance;
              (counted, addresses) = addToAddressesMap oad btxID (of_nat i) (addresses_cs st);
              balance = (if counted then balance else balance\<lparr> Txs_ab := Txs_ab balance + 1 \<rparr>)
          in Inr (st\<lparr> addresses_cs := addresses, balances_cs := AList.update oad balance (balances_cs st) \<rparr>)))
      else Inr st)"

text \<open>An output without a usable descriptor keeps only its amount.\<close>

definition processOutput ::
    "'s packages \<Rightarrow> 's RocksDB \<Rightarrow> uint32 \<Rightarrow> bytes \<Rightarrow> nat \<times> Vout \<Rightarrow> TxOutput list \<times> connectState \<Rightarrow>
     go_error + (TxOutput list \<times> connectState)" where
  "processOutput E d height btxID = (\<lambda>(i, output) (outputs, st).
     let val = ValueSat_vout output;
         skipped = Inr (outputs @ [\<lparr> AddrDesc_to = [], Spent = False, ValueSat_to = val \<rparr>], st) in
     case GetAddrDescFromVout (chainParser d) output of
       Inl e \<Rightarrow> if is_panic e then Inl e else skipped
     | Inr addrDesc \<Rightarrow>
         if length addrDesc = 0 \<or> length addrDesc > maxAddrDescLen then skipped
         else
           rbind (outputDescriptors E addrDesc) (\<lambda>ds.
           rbind (rfold (processOutputDesc E d height btxID i val) ds st) (\<lambda>st.
           Inr (outputs @ [\<lparr> AddrDesc_to = addrDesc, Spent = False, ValueSat_to = val \<rparr>], st))))"

definition processTxOutputs ::
    "'s packages \<Rightarrow> 's RocksDB \<Rightarrow> uint32 \<Rightarrow> Tx \<Rightarrow> bytes list \<times> connectState \<Rightarrow> go_error + (bytes list \<times> connectState)" where
  "processTxOutputs E d height tx = (\<lambda>(blockTxIDs, st).
     rbind (PackTxid (chainParser d) (Txid_tx tx)) (\<lambda>btxID.
     rbind (rfold (processOutput E d height btxID) (enumerate 0 (Vout_tx tx)) ([], st)) (\<lambda>(outputs, st).
     let ta = \<lparr> Height_ta = height, Inputs = [], Outputs = outputs, ShieldIns = 0, ShieldOuts = 0,
                ShieldValBal_ta = 0 \<rparr>
     in Inr (blockTxIDs @ [btxID], st\<lparr> txAddressesMap := AList.update btxID ta (txAddressesMap st) \<rparr>))))"

section \<open>Inputs\<close>

definition updateTa :: "bool \<Rightarrow> bytes \<Rightarrow> (TxAddresses \<Rightarrow> TxAddresses) \<Rightarrow> connectState \<Rightarrow> connectState" where
  "updateTa owner btxID f st =
     (if owner then st\<lparr> txAddressesMap := AList.map_entry btxID f (txAddressesMap st) \<rparr> else st)"

definition setInput :: "nat \<Rightarrow> AddressDescriptor \<Rightarrow> int \<Rightarrow> TxAddresses \<Rightarrow> TxAddresses" where
  "setInput i ad val ta = ta\<lparr> Inputs := (Inputs ta)[i := \<lparr> AddrDesc_ti = ad, ValueSat_ti = val \<rparr>] \<rparr>"

definition setSpent :: "nat \<Rightarrow> bool \<Rightarrow> TxAddresses \<Rightarrow> TxAddresses" where
  "setSpent n spent ta = ta\<lparr> Outputs := (Outputs ta)[n := (Outputs ta ! n)\<lparr> Spent := spent \<rparr>] \<rparr>"

text \<open>The record of the transaction an input spends, from the map or from the database.\<close>

definition lookupTxAddresses ::
    "'s packages \<Rightarrow> 's RocksDB \<Rightarrow> bytes \<Rightarrow> connectState \<Rightarrow> go_error + (TxAddresses option \<times> connectState)" where
  "lookupTxAddresses E d btxID st =
     (case map_of (txAddressesMap st) btxID of
        Some ita \<Rightarrow>
          Inr (Some ita, st\<lparr> stats := (stats st)\<lparr> txAddressesHit := txAddressesHit (stats st) + 1 \<rparr> \<rparr>)
      | None \<Rightarrow>
          rbind (getTxAddresses E btxID d) (\<lambda>r.
          case r of
            None \<Rightarrow> Inr (None, st)
          | Some ita \<Rightarrow>
              Inr (Some ita, st\<lparr> txAddressesMap := AList.update btxID ita (txAddressesMap st),
                stats := (stats st)\<lparr> txAddressesMiss := txAddressesMiss (stats st) + 1 \<rparr> \<rparr>)))"

definition processInputDesc ::
    "'s packages \<Rightarrow> 's RocksDB \<Rightarrow> bytes \<Rightarrow> bytes \<Rightarrow> nat \<Rightarrow> uint32 \<Rightarrow> int \<Rightarrow> AddressDescriptor \<Rightarrow> connectState \<Rightarrow>
     go_error + connectState" where
  "processInputDesc E d spendingTxid btxID i vout val soad st =
     (if IsAddrDescIndexable (chainParser d) soad then
        rbind (loadBalance E d soad st) (\<lambda>(balance, st).
        let (counted, addresses) = addToAddressesMap soad spendingTxid (NOT (of_nat i)) (addresses_cs st);
            balance = (if counted then balance else balance\<lparr> Txs_ab := Txs_ab balance + 1 \<rparr>);
            balance = debitInput btxID vout val balance
        in Inr (st\<lparr> addresses_cs := addresses, balances_cs := AList.update soad balance (balances_cs st) \<rparr>))
      else Inr st)"

definition processInput ::
    "'s packages \<Rightarrow> 's RocksDB \<Rightarrow> Tx \<Rightarrow> bytes \<Rightarrow> bool \<Rightarrow> nat \<times> Vin \<Rightarrow> connectState \<Rightarrow> go_error + connectState" where
  "processInput E d tx spendingTxid owner = (\<lambda>(i, input) st.
     case PackTxid (chainParser d) (Txid_vin input) of
       Inl e \<Rightarrow> if e = ErrTxidMissing then Inr st else Inl e
     | Inr btxID \<Rightarrow>
         rbind (lookupTxAddresses E d btxID st) (\<lambda>(r, st).
         case r of
           None \<Rightarrow>
             Inr (updateTa owner spendingTxid
               (setInput i (GetAddrDescForUnknownInput (chainParser d) tx i)
                           (GetValueSatForUnknownInput (chainParser d) tx i)) st)
         | Some ita \<Rightarrow>
             let n = unat (Vout_vin input) in
             if length (Outputs ita) \<le> n then Inr st
             else
               let spentOutput = Outputs ita ! n;
                   st = updateTa owner spendingTxid
                     (setInput i (AddrDesc_to spentOutput) (ValueSat_to spentOutput)) st;
                   st = updateTa True btxID (setSpent n True) st in
               if AddrDesc_to spentOutput = [] then Inr st
               else
                 rbind (outputDescriptors E (AddrDesc_to spentOutput)) (\<lambda>ds.
                 rfold (processInputDesc E d spendingTxid btxID i (Vout_vin input) (ValueSat_to spentOutput)) ds st)))"

text \<open>Both shielded counts are taken from \<open>VShieldIn\<close>, as in the code.\<close>

definition processTxInputs ::
    "'s packages \<Rightarrow> 's RocksDB \<Rightarrow> Tx \<times> bytes \<times> bool \<Rightarrow> connectState \<Rightarrow> go_error + connectState" where
  "processTxInputs E d = (\<lambda>(tx, spendingTxid, owner) st.
     let st = updateTa owner spendingTxid
       (\<lambda>ta. ta\<lparr> Inputs := replicate (length (Vin_tx tx)) \<lparr> AddrDesc_ti = [], ValueSat_ti = 0 \<rparr> \<rparr>) st in
     rbind (rfold (processInput E d tx spendingTxid owner) (enumerate 0 (Vin_tx tx)) st) (\<lambda>st.
     Inr (updateTa owner spendingTxid
       (\<lambda>ta. ta\<lparr> ShieldIns := of_nat (length (VShieldIn_tx tx)), ShieldOuts := of_nat (length (VShieldIn_tx tx)),
               ShieldValBal_ta := ShieldValBal_tx tx \<rparr>) st)))"

fun owners :: "bytes list \<Rightarrow> bool list" where
  "owners [] = []"
| "owners (b # bs) = (b \<notin> set bs) # owners bs"

definition processAddressesBitcoinType ::
    "'s packages \<Rightarrow> Block \<Rightarrow> 's RocksDB \<Rightarrow> connectState \<Rightarrow> go_error + connectState" where
  "processAddressesBitcoinType E block d st =
     rbind (rfold (processTxOutputs E d (Height_bh block)) (Txs_blk block) ([], st)) (\<lambda>(blockTxIDs, st).
     rfold (processTxInputs E d) (zip (Txs_blk block) (zip blockTxIDs (owners blockTxIDs))) st)"

section \<open>Storing\<close>

definition storeTxAddresses :: "'s packages \<Rightarrow> (bytes, TxAddresses) gomap \<Rightarrow> WriteBatch \<Rightarrow> WriteBatch" where
  "storeTxAddresses E am wb = wb @ map (\<lambda>(txID, ta). PutWB cfTxAddresses txID (packTxAddresses (vlq E) ta)) am"

text \<open>\<open>None\<close> is a nil pointer, which only disconnecting puts into the map.\<close>

definition storeBalances :: "'s packages \<Rightarrow> (bytes, AddrBalance option) gomap \<Rightarrow> WriteBatch \<Rightarrow> WriteBatch" where
  "storeBalances E abm wb =
     wb @ map (\<lambda>(addrDesc, ab).
       case ab of
         None \<Rightarrow> DeleteWB cfAddressBalance addrDesc
       | Some ab \<Rightarrow> if Txs_ab ab \<le> 0 then DeleteWB cfAddressBalance addrDesc
           else PutWB cfAddressBalance addrDesc (packAddrBalance (vlq E) ab)) abm"

section \<open>Inputs of the transactions of a block\<close>

record outpoint =
  btxID_o :: bytes
  index_o :: int32

record blockTxs =
  btxID_bt :: bytes
  inputs :: "outpoint list"

definition packOutpoints :: "vlq \<Rightarrow> outpoint list \<Rightarrow> bytes" where
  "packOutpoints v outpoints = fold (\<lambda>o' buf. buf @ btxID_o o' @ packVarint32 v (index_o o')) outpoints []"

fun unpackOutpointsAt :: "vlq \<Rightarrow> nat \<Rightarrow> bytes \<Rightarrow> nat \<Rightarrow> nat \<Rightarrow> go_error + (outpoint list \<times> nat)" where
  "unpackOutpointsAt v txidUnpackedLen buf 0 p = Inr ([], p)"
| "unpackOutpointsAt v txidUnpackedLen buf (Suc n) p =
     (if p + txidUnpackedLen \<ge> length buf then Inl (Errorf ''Inconsistent data in unpackNOutpoints'')
      else
        let btxID = take txidUnpackedLen (drop p buf);
            (vout, voutLen) = unpackVarint32 v (drop (p + txidUnpackedLen) buf) in
        rbind (unpackOutpointsAt v txidUnpackedLen buf n (p + txidUnpackedLen + voutLen)) (\<lambda>(os, q).
        Inr (\<lparr> btxID_o = btxID, index_o = vout \<rparr> # os, q)))"

definition unpackNOutpoints :: "vlq \<Rightarrow> nat \<Rightarrow> bytes \<Rightarrow> go_error + (outpoint list \<times> nat)" where
  "unpackNOutpoints v txidUnpackedLen buf =
     (let (n, p) = unpackVaruint v buf in unpackOutpointsAt v txidUnpackedLen buf (unat n) p)"

definition vinOutpoint :: "BlockChainParser \<Rightarrow> Vin \<Rightarrow> go_error + outpoint" where
  "vinOutpoint p vin =
     rbind (case PackTxid p (Txid_vin vin) of
         Inl e \<Rightarrow> if e = ErrTxidMissing then Inr (replicate (PackedTxidLen p) 0) else Inl e
       | Inr b \<Rightarrow> Inr b) (\<lambda>btxID.
     Inr \<lparr> btxID_o = btxID, index_o = Vout_vin vin \<rparr>)"

definition blockTxOf :: "BlockChainParser \<Rightarrow> Tx \<Rightarrow> go_error + blockTxs" where
  "blockTxOf p tx =
     rbind (rmap (vinOutpoint p) (Vin_tx tx)) (\<lambda>os.
     rbind (PackTxid p (Txid_tx tx)) (\<lambda>btxID.
     Inr \<lparr> btxID_bt = btxID, inputs = os \<rparr>))"

definition packBlockTx :: "vlq \<Rightarrow> blockTxs \<Rightarrow> bytes" where
  "packBlockTx v bt = btxID_bt bt @ packVaruint v (of_nat (length (inputs bt))) @ packOutpoints v (inputs bt)"

text \<open>Deleting the data of old blocks goes to the database at once, not through the batch; an error of the
  deletion is ignored.\<close>

function cleanupFrom :: "'s packages \<Rightarrow> uint32 \<Rightarrow> 's RocksDB \<Rightarrow> go_error + 's RocksDB" where
  "cleanupFrom E rh d =
     (if rh = 0 then Inr d
      else
        rbind (GetCF (rocks E) (db d) cfBlockTxs (packUint rh)) (\<lambda>val.
        case val of
          None \<Rightarrow> Inr d
        | Some _ \<Rightarrow>
            rbind (case DeleteCF (rocks E) (db d) cfBlockTxs (packUint rh) of
                Inr s \<Rightarrow> Inr (d\<lparr> db := s \<rparr>)
              | Inl e \<Rightarrow> if is_panic e then Inl e else Inr d) (\<lambda>d.
            cleanupFrom E (rh - 1) d)))"
  by pat_completeness auto
termination
  by (relation "measure (\<lambda>(E, rh, d). unat rh)") (simp_all add: unat_minus_one unat_gt_0)

declare cleanupFrom.simps [simp del]

definition cleanupBlockTxs :: "'s packages \<Rightarrow> uint32 \<Rightarrow> 's RocksDB \<Rightarrow> go_error + 's RocksDB" where
  "cleanupBlockTxs E height d =
     (let keep = of_int (KeepBlockAddresses (chainParser d)) in
      if keep < height then cleanupFrom E (height - keep) d else Inr d)"

definition storeAndCleanupBlockTxs ::
    "'s packages \<Rightarrow> Block \<Rightarrow> WriteBatch \<times> 's RocksDB \<Rightarrow> go_error + (WriteBatch \<times> 's RocksDB)" where
  "storeAndCleanupBlockTxs E block = (\<lambda>(wb, d).
     rbind (rmap (blockTxOf (chainParser d)) (Txs_blk block)) (\<lambda>bts.
     let buf = concat (map (packBlockTx (vlq E)) bts);
         wb = wb @ [PutWB cfBlockTxs (packUint (Height_bh block)) buf] in
     rbind (cleanupBlockTxs E (Height_bh block) d) (\<lambda>d. Inr (wb, d))))"

function readBlockTxs :: "vlq \<Rightarrow> nat \<Rightarrow> bytes \<Rightarrow> nat \<Rightarrow> go_error + blockTxs list" where
  "readBlockTxs v pl buf i =
     (if i < length buf then
        if length buf - i < pl then Inl (Errorf ''Inconsistent data in blockTxs'')
        else
          (case unpackNOutpoints v pl (drop (i + pl) buf) of
             Inl e \<Rightarrow> if is_panic e then Inl e else Inl (Errorf ''Inconsistent data in blockTxs'')
           | Inr (os, ol) \<Rightarrow>
               if pl + ol = 0 then Inl (Hang ''getBlockTxs'')
               else rbind (readBlockTxs v pl buf (i + pl + ol)) (\<lambda>bts.
                 Inr (\<lparr> btxID_bt = take pl (drop i buf), inputs = os \<rparr> # bts)))
      else Inr [])"
  by pat_completeness auto
termination
  by (relation "measure (\<lambda>(v, pl, buf, i). length buf - i)") auto

declare readBlockTxs.simps [simp del]

definition getBlockTxs :: "'s packages \<Rightarrow> uint32 \<Rightarrow> 's RocksDB \<Rightarrow> go_error + blockTxs list" where
  "getBlockTxs E height d =
     rbind (getData E d cfBlockTxs (packUint height)) (\<lambda>buf.
     readBlockTxs (vlq E) (PackedTxidLen (chainParser d)) buf 0)"

section \<open>What holds while a block is processed\<close>

text \<open>
  The invariant of the maps: every balance has a correct index and neither total is negative, every
  output of a transaction record has a non-negative amount, the addresses list every transaction once,
  and the number of transactions of an address is the stored number plus the number of transactions
  that are listed for it.
\<close>

definition balance_inv :: "AddrBalance \<Rightarrow> bool" where
  "balance_inv ab \<longleftrightarrow> index_ok ab \<and> 0 \<le> BalanceSat ab \<and> 0 \<le> SentSat ab"

definition outputs_inv :: "TxAddresses \<Rightarrow> bool" where
  "outputs_inv ta \<longleftrightarrow> (\<forall>o' \<in> set (Outputs ta). 0 \<le> ValueSat_to o')"

text \<open>The number of transactions stored for a descriptor.\<close>

definition storedTxs :: "'s packages \<Rightarrow> 's RocksDB \<Rightarrow> AddressDescriptor \<Rightarrow> uint32" where
  "storedTxs E d ad =
     (case GetAddrDescBalance E ad addressBalanceDetailUTXOIndexed d of
        Inr (Some ab) \<Rightarrow> Txs_ab ab
      | _ \<Rightarrow> 0)"

definition connect_inv :: "(AddressDescriptor \<Rightarrow> uint32) \<Rightarrow> connectState \<Rightarrow> bool" where
  "connect_inv base st \<longleftrightarrow>
     wf_map (balances_cs st) \<and> wf_map (txAddressesMap st) \<and> addressesMap_ok (addresses_cs st) \<and>
     (\<forall>a b. map_of (balances_cs st) a = Some b \<longrightarrow>
        balance_inv b \<and> Txs_ab b = base a + of_nat (length (txs_of (addresses_cs st) a))) \<and>
     (\<forall>a. map_of (balances_cs st) a = None \<longrightarrow> txs_of (addresses_cs st) a = []) \<and>
     (\<forall>t ta. map_of (txAddressesMap st) t = Some ta \<longrightarrow> outputs_inv ta)"

lemma connect_inv_new: "connect_inv base (newConnectState s)"
  by (simp add: connect_inv_def newConnectState_def txs_of_def)

lemma connect_inv_stats [simp]: "connect_inv base (st\<lparr> stats := x \<rparr>) = connect_inv base st"
  by (simp add: connect_inv_def)

lemma unpackBigint_nonneg: "unpackBigint b = Inr (x, l) \<Longrightarrow> 0 \<le> x"
  by (auto simp: unpackBigint_def Let_def rbind_eq_Inr_iff)

text \<open>Whatever the database holds, a balance that can be read satisfies the invariant.\<close>

lemma unpackAddrBalance_inv:
  assumes "unpackAddrBalance v buf n addressBalanceDetailUTXOIndexed = Inr ab"
  shows "balance_inv ab"
proof -
  let ?ab = "\<lambda>t s x. \<lparr> Txs_ab = t, SentSat = s, BalanceSat = x, Utxos = [], utxosMap = [] \<rparr>"
  have new: "index_ok (?ab t s x)" for t s x by (simp add: index_ok_def)
  obtain us t s x where "ab = fold addUtxo us (?ab t s x)" "0 \<le> s" "0 \<le> x"
    using assms
    by (auto simp: unpackAddrBalance_def Let_def rbind_eq_Inr_iff case_prod_unfold dest!: unpackBigint_nonneg)
  then show ?thesis using new by (simp add: balance_inv_def index_ok_fold_addUtxo)
qed

lemma GetAddrDescBalance_inv:
  "GetAddrDescBalance E ad addressBalanceDetailUTXOIndexed d = Inr (Some ab) \<Longrightarrow> balance_inv ab"
  by (auto simp: GetAddrDescBalance_def rbind_eq_Inr_iff split: if_splits intro: unpackAddrBalance_inv)

lemma decode_n_all:
  assumes "decode_n n dec buf = Inr (xs, r)" and "\<And>b x l. dec b = Inr (x, l) \<Longrightarrow> P x"
  shows "\<forall>x \<in> set xs. P x"
  using assms(1)
proof (induction n arbitrary: buf xs r)
  case (Suc n)
  then show ?case by (fastforce simp: rbind_eq_Inr_iff dest: assms(2))
qed simp

lemma unpackTxOutput_nonneg: "unpackTxOutput v b = Inr (o', l) \<Longrightarrow> 0 \<le> ValueSat_to o'"
  by (auto simp: unpackTxOutput_def Let_def rbind_eq_Inr_iff case_prod_unfold dest!: unpackBigint_nonneg split: if_splits)

lemma getTxAddresses_inv:
  assumes "getTxAddresses E t d = Inr (Some ta)"
  shows "outputs_inv ta"
proof -
  obtain buf where "unpackTxAddresses (vlq E) buf = Inr ta"
    using assms by (auto simp: getTxAddresses_def rbind_eq_Inr_iff split: if_splits)
  then obtain n b r where "decode_n n (unpackTxOutput (vlq E)) b = Inr (Outputs ta, r)"
    by (auto simp: unpackTxAddresses_def Let_def rbind_eq_Inr_iff case_prod_unfold)
  then show ?thesis unfolding outputs_inv_def by (rule decode_n_all) (rule unpackTxOutput_nonneg)
qed

text \<open>Loading, counting and updating a balance.\<close>

lemma balance_inv_new: "balance_inv newAddrBalance" "Txs_ab newAddrBalance = 0"
  by (simp_all add: balance_inv_def) (simp_all add: newAddrBalance_def)

lemma loadBalance_inv:
  assumes "connect_inv (storedTxs E d) st" and "loadBalance E d ad st = Inr (b, st')"
  shows "connect_inv (storedTxs E d) st'" and "map_of (balances_cs st') ad = Some b"
    and "addresses_cs st' = addresses_cs st"
proof -
  have "connect_inv (storedTxs E d) st' \<and> map_of (balances_cs st') ad = Some b \<and> addresses_cs st' = addresses_cs st"
  proof (cases "map_of (balances_cs st) ad")
    case (Some c)
    then have "b = c" "balances_cs st' = balances_cs st" "addresses_cs st' = addresses_cs st"
      "txAddressesMap st' = txAddressesMap st" using assms(2) by (auto simp: loadBalance_def)
    with assms(1) Some show ?thesis by (simp add: connect_inv_def)
  next
    case None
    then obtain r where r: "GetAddrDescBalance E ad addressBalanceDetailUTXOIndexed d = Inr r"
      "b = (case r of Some b \<Rightarrow> b | None \<Rightarrow> newAddrBalance)"
      and st': "balances_cs st' = AList.update ad b (balances_cs st)"
      "addresses_cs st' = addresses_cs st" "txAddressesMap st' = txAddressesMap st"
      using assms(2) by (auto simp: loadBalance_def rbind_eq_Inr_iff Let_def)
    have "balance_inv b \<and> Txs_ab b = storedTxs E d ad"
      using r by (cases r) (auto simp: storedTxs_def balance_inv_new intro: GetAddrDescBalance_inv)
    moreover have "txs_of (addresses_cs st) ad = []" using assms(1) None by (simp add: connect_inv_def)
    ultimately show ?thesis using assms(1) None st' by (auto simp: connect_inv_def)
  qed
  then show "connect_inv (storedTxs E d) st'" "map_of (balances_cs st') ad = Some b"
    "addresses_cs st' = addresses_cs st" by auto
qed

lemma addToAddressesMap_length:
  assumes "addToAddressesMap a t ix m = (counted, m')"
  shows "length (txs_of m' a) = length (txs_of m a) + (if counted then 0 else 1)"
proof -
  have "length at' = length at" if "appendIndex t ix at = Some at'" for at at'
    using arg_cong[OF appendIndex_btxIDs[OF that], of length] by simp
  then show ?thesis using assms
    by (auto simp: addToAddressesMap_def Let_def txs_of_def split: option.splits)
qed

lemma connect_inv_update:
  assumes "connect_inv base st" and "map_of (balances_cs st) a = Some b"
    and add: "addToAddressesMap a t ix (addresses_cs st) = (counted, m')"
    and "balance_inv b'" and "Txs_ab b' = (if counted then Txs_ab b else Txs_ab b + 1)"
  shows "connect_inv base (st\<lparr> addresses_cs := m', balances_cs := AList.update a b' (balances_cs st) \<rparr>)"
proof -
  have ok: "addressesMap_ok (addresses_cs st)" using assms(1) by (simp add: connect_inv_def)
  note spec = addToAddressesMap_spec[OF ok add]
  have "Txs_ab b' = base a + of_nat (length (txs_of m' a))"
    using assms(1,2,5) addToAddressesMap_length[OF add] by (auto simp: connect_inv_def)
  then show ?thesis using assms(1,2,4) spec(1) spec(4) by (auto simp: connect_inv_def)
qed

lemma balance_inv_credit:
  "balance_inv b \<Longrightarrow> 0 \<le> ValueSat_u u \<Longrightarrow> balance_inv (creditOutput u b)"
  by (simp add: balance_inv_def index_ok_creditOutput)

lemma balance_inv_debit:
  "balance_inv b \<Longrightarrow> 0 \<le> x \<Longrightarrow> balance_inv (debitInput t n x b)"
  by (simp add: balance_inv_def index_ok_debitInput BalanceSat_debitInput)

lemma balance_inv_Txs [simp]: "balance_inv (b\<lparr> Txs_ab := n \<rparr>) = balance_inv b"
  by (simp add: balance_inv_def)

lemma Txs_ab_markUtxoAsSpent [simp]: "Txs_ab (markUtxoAsSpent t n ab) = Txs_ab ab"
  by (simp add: markUtxoAsSpent_def Let_def split: option.splits)

lemma Txs_ab_debitInput [simp]: "Txs_ab (debitInput t n x ab) = Txs_ab ab"
  by (simp add: debitInput_def Let_def)

lemma processOutputDesc_inv:
  assumes "connect_inv (storedTxs E d) st" and "0 \<le> val"
    and "processOutputDesc E d height t i val oad st = Inr st'"
  shows "connect_inv (storedTxs E d) st'"
proof (cases "IsAddrDescIndexable (chainParser d) oad")
  case True
  then obtain b st1 dup where l: "loadBalance E d oad st = Inr (b, st1)" and "hasUtxo b t (of_nat i) = Inr dup"
    using assms(3) by (auto simp: processOutputDesc_def rbind_eq_Inr_iff split: if_splits)
  note load = loadBalance_inv[OF assms(1) l]
  obtain counted m' where add: "addToAddressesMap oad t (of_nat i) (addresses_cs st1) = (counted, m')" by fastforce
  let ?b = "creditOutput \<lparr> BtxID = t, Vout_u = of_nat i, Height_u = height, ValueSat_u = val \<rparr> b"
  let ?b' = "if counted then ?b else ?b\<lparr> Txs_ab := Txs_ab ?b + 1 \<rparr>"
  have "balance_inv b" using load(1,2) by (auto simp: connect_inv_def)
  then have "balance_inv ?b'" using assms(2) by (simp add: balance_inv_credit)
  then have "connect_inv (storedTxs E d) (st1\<lparr> addresses_cs := m', balances_cs := AList.update oad ?b' (balances_cs st1) \<rparr>)"
    by (intro connect_inv_update[OF load(1,2) add]) simp_all
  with load(1) True assms(3) l \<open>hasUtxo b t (of_nat i) = Inr dup\<close> add show ?thesis
    by (auto simp: processOutputDesc_def Let_def split: if_splits)
qed (use assms in \<open>simp add: processOutputDesc_def\<close>)

lemma processInputDesc_inv:
  assumes "connect_inv (storedTxs E d) st" and "0 \<le> val"
    and "processInputDesc E d t' t i vout val soad st = Inr st'"
  shows "connect_inv (storedTxs E d) st'"
proof (cases "IsAddrDescIndexable (chainParser d) soad")
  case True
  then obtain b st1 where l: "loadBalance E d soad st = Inr (b, st1)"
    using assms(3) by (auto simp: processInputDesc_def rbind_eq_Inr_iff split: if_splits)
  note load = loadBalance_inv[OF assms(1) l]
  obtain counted m' where add: "addToAddressesMap soad t' (NOT (of_nat i)) (addresses_cs st1) = (counted, m')" by fastforce
  let ?b' = "debitInput t vout val (if counted then b else b\<lparr> Txs_ab := Txs_ab b + 1 \<rparr>)"
  have "balance_inv b" using load(1,2) by (auto simp: connect_inv_def)
  then have "balance_inv ?b'" using assms(2) by (simp add: balance_inv_debit)
  then have "connect_inv (storedTxs E d) (st1\<lparr> addresses_cs := m', balances_cs := AList.update soad ?b' (balances_cs st1) \<rparr>)"
    by (intro connect_inv_update[OF load(1,2) add]) simp_all
  with True assms(3) l add show ?thesis
    by (auto simp: processInputDesc_def Let_def split: if_splits)
qed (use assms in \<open>simp add: processInputDesc_def\<close>)

lemma processOutput_inv:
  assumes "connect_inv (storedTxs E d) st \<and> (\<forall>o' \<in> set outs. 0 \<le> ValueSat_to o')"
    and "0 \<le> ValueSat_vout output" and "processOutput E d height t (i, output) (outs, st) = Inr (outs', st')"
  shows "connect_inv (storedTxs E d) st' \<and> (\<forall>o' \<in> set outs'. 0 \<le> ValueSat_to o')"
proof -
  have "connect_inv (storedTxs E d) s'" if "rfold (processOutputDesc E d height t i (ValueSat_vout output)) ds st = Inr s'" for ds s'
    by (rule rfold_invariant[OF that, of "connect_inv (storedTxs E d)"])
      (use assms(1,2) processOutputDesc_inv in blast)+
  then show ?thesis using assms
    by (auto simp: processOutput_def Let_def rbind_eq_Inr_iff split: sum.splits if_splits)
qed

lemma connect_inv_txAddresses:
  "connect_inv base st \<Longrightarrow> outputs_inv ta \<Longrightarrow>
   connect_inv base (st\<lparr> txAddressesMap := AList.update t ta (txAddressesMap st) \<rparr>)"
  by (auto simp: connect_inv_def)

text \<open>A block whose outputs have non-negative amounts.\<close>

definition block_values_ok :: "Block \<Rightarrow> bool" where
  "block_values_ok block \<longleftrightarrow> (\<forall>tx \<in> set (Txs_blk block). \<forall>vo \<in> set (Vout_tx tx). 0 \<le> ValueSat_vout vo)"

lemma enumerate_snd: "x \<in> set (enumerate n xs) \<Longrightarrow> snd x \<in> set xs"
  by (cases x) (auto simp: enumerate_eq_zip dest: set_zip_rightD)

lemma processTxOutputs_inv:
  assumes "connect_inv (storedTxs E d) st" and "\<forall>vo \<in> set (Vout_tx tx). 0 \<le> ValueSat_vout vo"
    and "processTxOutputs E d height tx (ids, st) = Inr (ids', st')"
  shows "connect_inv (storedTxs E d) st'"
proof -
  obtain t outs st1 where f: "rfold (processOutput E d height t) (enumerate 0 (Vout_tx tx)) ([], st) = Inr (outs, st1)"
    and st': "st' = st1\<lparr> txAddressesMap := AList.update t \<lparr> Height_ta = height, Inputs = [], Outputs = outs, ShieldIns = 0,
        ShieldOuts = 0, ShieldValBal_ta = 0 \<rparr> (txAddressesMap st1) \<rparr>"
    using assms(3) by (auto simp: processTxOutputs_def Let_def rbind_eq_Inr_iff)
  let ?P = "\<lambda>(outs, st). connect_inv (storedTxs E d) st \<and> (\<forall>o' \<in> set outs. 0 \<le> ValueSat_to o')"
  have "?P (outs, st1)"
  proof (rule rfold_invariant[OF f, of ?P])
    fix x s s'
    assume "x \<in> set (enumerate 0 (Vout_tx tx))" "?P s" "processOutput E d height t x s = Inr s'"
    moreover from this(1) have "snd x \<in> set (Vout_tx tx)" by (rule enumerate_snd)
    ultimately show "?P s'"
      using processOutput_inv[of E d "snd s" "fst s" "snd x" height t "fst x" "fst s'" "snd s'"] assms(2)
      by (simp add: case_prod_unfold)
  qed (use assms(1) in simp)
  then show ?thesis unfolding st' by (intro connect_inv_txAddresses) (simp_all add: outputs_inv_def)
qed

lemma wf_map_entry [simp]: "wf_map m \<Longrightarrow> wf_map (AList.map_entry k f m)"
  by (simp add: wf_map_def distinct_map_entry)

lemma connect_inv_updateTa:
  assumes "connect_inv base st" and "\<And>ta. outputs_inv ta \<Longrightarrow> outputs_inv (f ta)"
  shows "connect_inv base (updateTa owner t f st)"
  using assms by (auto simp: connect_inv_def updateTa_def map_of_map_entry split: option.splits)

lemma outputs_inv_upd [simp]:
  "outputs_inv (setInput i ad val ta) = outputs_inv ta"
  "outputs_inv (ta\<lparr> Inputs := x \<rparr>) = outputs_inv ta"
  "outputs_inv (ta\<lparr> ShieldIns := n, ShieldOuts := n', ShieldValBal_ta := y \<rparr>) = outputs_inv ta"
  by (simp_all add: outputs_inv_def setInput_def)

lemma outputs_inv_setSpent: "outputs_inv ta \<Longrightarrow> outputs_inv (setSpent n spent ta)"
proof (cases "n < length (Outputs ta)")
  case True
  assume "outputs_inv ta"
  with True show ?thesis
    by (auto simp: outputs_inv_def setSpent_def dest!: set_update_subset_insert[THEN subsetD] nth_mem)
qed (simp add: outputs_inv_def setSpent_def not_less list_update_beyond)

lemma lookupTxAddresses_inv:
  assumes "connect_inv base st" and "lookupTxAddresses E d t st = Inr (r, st')"
  shows "connect_inv base st'" and "r = Some ita \<Longrightarrow> outputs_inv ita"
  using assms getTxAddresses_inv[of E t d]
  by (auto simp: lookupTxAddresses_def rbind_eq_Inr_iff connect_inv_def split: option.splits if_splits)

lemma processInput_inv:
  assumes "connect_inv (storedTxs E d) st" and "processInput E d tx t' owner (i, input) st = Inr st'"
  shows "connect_inv (storedTxs E d) st'"
proof (cases "PackTxid (chainParser d) (Txid_vin input)")
  case (Inl e)
  with assms show ?thesis by (auto simp: processInput_def split: if_splits)
next
  case (Inr t)
  then obtain r st1 where l: "lookupTxAddresses E d t st = Inr (r, st1)"
    using assms(2) by (auto simp: processInput_def rbind_eq_Inr_iff)
  note look = lookupTxAddresses_inv[OF assms(1) l]
  show ?thesis
  proof (cases r)
    case None
    then show ?thesis using assms(2) Inr l look(1)
      by (auto simp: processInput_def intro!: connect_inv_updateTa)
  next
    case (Some ita)
    let ?n = "unat (Vout_vin input)"
    let ?so = "Outputs ita ! ?n"
    let ?st2 = "updateTa True t (setSpent ?n True) (updateTa owner t' (setInput i (AddrDesc_to ?so) (ValueSat_to ?so)) st1)"
    have st2: "connect_inv (storedTxs E d) ?st2"
      using look(1) by (intro connect_inv_updateTa) (simp_all add: outputs_inv_setSpent)
    have "connect_inv (storedTxs E d) s'"
      if "rfold (processInputDesc E d t' t i (Vout_vin input) (ValueSat_to ?so)) ds ?st2 = Inr s'" "?n < length (Outputs ita)" for ds s'
    proof (rule rfold_invariant[OF that(1), of "connect_inv (storedTxs E d)"])
      have "0 \<le> ValueSat_to ?so" using look(2)[OF Some] that(2) by (simp add: outputs_inv_def)
      then show "connect_inv (storedTxs E d) s2" if "connect_inv (storedTxs E d) s1"
          "processInputDesc E d t' t i (Vout_vin input) (ValueSat_to ?so) x s1 = Inr s2" for x s1 s2
        using that processInputDesc_inv by blast
    qed (rule st2)
    with st2 assms(2) Inr l Some look(1) show ?thesis
      by (auto simp: processInput_def Let_def rbind_eq_Inr_iff not_le split: if_splits)
  qed
qed

lemma processTxInputs_inv:
  assumes "connect_inv (storedTxs E d) st" and "processTxInputs E d (tx, t, owner) st = Inr st'"
  shows "connect_inv (storedTxs E d) st'"
proof -
  let ?P = "connect_inv (storedTxs E d)"
  obtain st1 where f: "rfold (processInput E d tx t owner) (enumerate 0 (Vin_tx tx))
      (updateTa owner t (\<lambda>ta. ta\<lparr> Inputs := replicate (length (Vin_tx tx)) \<lparr> AddrDesc_ti = [], ValueSat_ti = 0 \<rparr> \<rparr>) st) = Inr st1"
    and st': "st' = updateTa owner t (\<lambda>ta. ta\<lparr> ShieldIns := of_nat (length (VShieldIn_tx tx)),
        ShieldOuts := of_nat (length (VShieldIn_tx tx)), ShieldValBal_ta := ShieldValBal_tx tx \<rparr>) st1"
    using assms(2) by (auto simp: processTxInputs_def Let_def rbind_eq_Inr_iff)
  have "?P st1"
  proof (rule rfold_invariant[OF f, of ?P])
    show "?P (updateTa owner t (\<lambda>ta. ta\<lparr> Inputs := replicate (length (Vin_tx tx)) \<lparr> AddrDesc_ti = [], ValueSat_ti = 0 \<rparr> \<rparr>) st)"
      using assms(1) by (rule connect_inv_updateTa) simp
    show "?P s2" if "?P s1" "processInput E d tx t owner x s1 = Inr s2" for x s1 s2
      using that processInput_inv[of E d s1 tx t owner "fst x" "snd x" s2] by simp
  qed
  then show ?thesis unfolding st' by (rule connect_inv_updateTa) simp
qed

lemma processAddressesBitcoinType_inv:
  assumes "connect_inv (storedTxs E d) st" and "block_values_ok block"
    and "processAddressesBitcoinType E block d st = Inr st'"
  shows "connect_inv (storedTxs E d) st'"
proof -
  let ?P = "connect_inv (storedTxs E d)"
  obtain ids st1 where outs: "rfold (processTxOutputs E d (Height_bh block)) (Txs_blk block) ([], st) = Inr (ids, st1)"
    and ins: "rfold (processTxInputs E d) (zip (Txs_blk block) (zip ids (owners ids))) st1 = Inr st'"
    using assms(3) by (auto simp: processAddressesBitcoinType_def rbind_eq_Inr_iff)
  have "?P (snd (ids, st1))"
  proof (rule rfold_invariant[OF outs, of "\<lambda>s. ?P (snd s)"])
    show "?P (snd s2)" if "tx \<in> set (Txs_blk block)" "?P (snd s1)"
        "processTxOutputs E d (Height_bh block) tx s1 = Inr s2" for tx s1 s2
      using that assms(2) processTxOutputs_inv[of E d "snd s1" tx "Height_bh block" "fst s1" "fst s2" "snd s2"]
      by (simp add: block_values_ok_def)
  qed (use assms(1) in simp)
  then have "?P st1" by simp
  then show ?thesis
  proof (rule rfold_invariant[OF ins, of ?P])
    show "?P s2" if "?P s1" "processTxInputs E d x s1 = Inr s2" for x s1 s2
      using that processTxInputs_inv[of E d s1 "fst x" "fst (snd x)" "snd (snd x)" s2] by simp
  qed
qed

section \<open>Properties of connecting\<close>

text \<open>C3: While a block is indexed no balance goes wrong. Whatever the database holds, when the outputs of
  the block have non-negative amounts and the processing returns, then the balance and the sent total of
  every address of the block are not negative, its index of unspent outputs is correct, and its number of
  transactions is the stored number plus the number of transactions of the block that are listed for it
  in the address index; an address without a balance record has no listed transactions. In the address index
  every transaction of the block occurs at most once for an address and with at least one input or output.\<close>

theorem connect_balances_consistent:
  assumes "block_values_ok block"
    and "processAddressesBitcoinType E block d (newConnectState s) = Inr st"
  shows "(\<forall>a b. map_of (balances_cs st) a = Some b \<longrightarrow>
            0 \<le> BalanceSat b \<and> 0 \<le> SentSat b \<and> index_ok b \<and>
            Txs_ab b = storedTxs E d a + of_nat (length (txs_of (addresses_cs st) a))) \<and>
         (\<forall>a. map_of (balances_cs st) a = None \<longrightarrow> txs_of (addresses_cs st) a = []) \<and>
         (\<forall>a. distinct (map btxID_ti (txs_of (addresses_cs st) a)) \<and>
            (\<forall>t \<in> set (txs_of (addresses_cs st) a). indexes t \<noteq> []))"
  using processAddressesBitcoinType_inv[OF connect_inv_new assms] addressesMap_okD[of "addresses_cs st"]
  by (auto simp: connect_inv_def balance_inv_def)

definition sampleTxid :: "byte \<Rightarrow> string" where
  "sampleTxid b = EncodeToString (replicate 32 b)"

definition sampleVout :: "string \<Rightarrow> int \<Rightarrow> Vout" where
  "sampleVout script val = \<lparr> ValueSat_vout = val, JsonValue = '''', N_vout = 0,
     ScriptPubKey_vout = \<lparr> Hex_spk = script, Addresses_spk = [] \<rparr> \<rparr>"

definition sampleVin :: "string \<Rightarrow> uint32 \<Rightarrow> Vin" where
  "sampleVin txid n = \<lparr> Coinbase = '''', Txid_vin = txid, Vout_vin = n, ScriptSig_vin = \<lparr> Hex_ss = '''' \<rparr>,
     Sequence = 0, Addresses_vin = [] \<rparr>"

definition sampleTransaction :: "byte \<Rightarrow> Vin list \<Rightarrow> Vout list \<Rightarrow> Tx" where
  "sampleTransaction b vin vout = \<lparr> Hex_tx = '''', Txid_tx = sampleTxid b, Version_tx = 1, LockTime = 0, Vin_tx = vin,
     Vout_tx = vout, Confirmations_tx = 1, Time_tx = 0, Blocktime = 0, VShieldIn_tx = [], VShieldOut_tx = [],
     ShieldValBal_tx = 0, CoinSpecificData = NoData \<rparr>"

definition sampleBlock :: Block where
  "sampleBlock = \<lparr> Hash_bh = sampleTxid 255, Prev_bh = '''', Next_bh = '''', Height_bh = 5, Confirmations_bh = 1,
     Size_bh = 200, Time_bh = 1000,
     Txs_blk = [sampleTransaction 1 [sampleVin '''' 0] [sampleVout ''aa'' 50, sampleVout ''bb'' 30],
                sampleTransaction 2 [sampleVin (sampleTxid 1) 0] [sampleVout ''bb'' 45]] \<rparr>"

definition sampleDB :: "mem RocksDB" where
  "sampleDB = \<lparr> db = (\<lambda>_. []), chainParser = hexParser 300, is_d = Some (newInternalState ''SKYR''), cbs = newConnectBlockStats \<rparr>"

abbreviation sampleConnected :: "go_error + connectState" where
  "sampleConnected \<equiv> processAddressesBitcoinType memPackages sampleBlock sampleDB (newConnectState newConnectBlockStats)"

lemma sampleConnected_returns: "sampleConnected = Inr (projr sampleConnected)"
proof -
  have "\<not> isl sampleConnected" by code_simp
  then show ?thesis by simp
qed

theorem connect_balances_consistent_witness:
  "block_values_ok sampleBlock \<and>
   map_option (\<lambda>b. (Txs_ab b, BalanceSat b, SentSat b)) (map_of (balances_cs (projr sampleConnected)) [0xaa]) = Some (2, 0, 50) \<and>
   storedTxs memPackages sampleDB [0xaa] + of_nat (length (txs_of (addresses_cs (projr sampleConnected)) [0xaa])) = 2"
proof -
  have ok: "block_values_ok sampleBlock" by code_simp
  have b: "map_option (\<lambda>b. (Txs_ab b, BalanceSat b, SentSat b)) (map_of (balances_cs (projr sampleConnected)) [0xaa]) = Some (2, 0, 50)"
    by code_simp
  then obtain ab where "map_of (balances_cs (projr sampleConnected)) [0xaa] = Some ab" "Txs_ab ab = 2" by auto
  with connect_balances_consistent[OF ok sampleConnected_returns] have
    "Txs_ab ab = storedTxs memPackages sampleDB [0xaa] + of_nat (length (txs_of (addresses_cs (projr sampleConnected)) [0xaa]))"
    by blast
  with ok b \<open>Txs_ab ab = 2\<close> show ?thesis by simp
qed

section \<open>The transactions of a block: reading back and cleaning up\<close>

definition outpoint_ok :: "nat \<Rightarrow> outpoint \<Rightarrow> bool" where
  "outpoint_ok pl o' \<longleftrightarrow> length (btxID_o o') = pl"

definition blockTxs_ok :: "nat \<Rightarrow> blockTxs \<Rightarrow> bool" where
  "blockTxs_ok pl bt \<longleftrightarrow> length (btxID_bt bt) = pl \<and> len_ok (inputs bt) \<and> list_all (outpoint_ok pl) (inputs bt)"

lemma packOutpoints_concat: "packOutpoints v os = concat (map (\<lambda>o'. btxID_o o' @ packVarint32 v (index_o o')) os)"
  unfolding packOutpoints_def
  by (subst fold_append_concat[of "\<lambda>o' buf. buf @ btxID_o o' @ packVarint32 v (index_o o')"]) simp_all

lemma unpackVarint32_packVarint32:
  "vlq_codec v \<Longrightarrow> unpackVarint32 v (packVarint32 v i @ rest) = (i, length (packVarint32 v i))"
  by (simp add: unpackVarint32_def packVarint32_def vlq_codec.IntAt_PutInt)

lemma unpackOutpointsAt_pack:
  assumes v: "vlq_codec v"
  shows "list_all (outpoint_ok pl) os \<Longrightarrow>
    unpackOutpointsAt v pl (pre @ packOutpoints v os @ rest) (length os) (length pre) =
      Inr (os, length pre + length (packOutpoints v os))"
proof (induction os arbitrary: pre)
  case (Cons o' os)
  let ?x = "btxID_o o' @ packVarint32 v (index_o o')"
  have o': "length (btxID_o o') = pl" using Cons.prems by (simp add: outpoint_ok_def)
  have ne: "0 < length (packVarint32 v (index_o o'))"
    using vlq_codec.PutInt_nonempty[OF v] by (simp add: packVarint32_def)
  have pk: "packOutpoints v (o' # os) = ?x @ packOutpoints v os" by (simp add: packOutpoints_concat)
  have "unpackOutpointsAt v pl ((pre @ ?x) @ packOutpoints v os @ rest) (length os) (length (pre @ ?x)) =
      Inr (os, length (pre @ ?x) + length (packOutpoints v os))"
    by (rule Cons.IH) (use Cons.prems in simp)
  with o' ne show ?case
    by (simp add: pk unpackVarint32_packVarint32[OF v] add.assoc)
qed (simp add: packOutpoints_concat)

lemma unpackNOutpoints_pack:
  assumes v: "vlq_codec v" and "list_all (outpoint_ok pl) os" and "len_ok os"
  shows "unpackNOutpoints v pl (packVaruint v (of_nat (length os)) @ packOutpoints v os @ rest) =
    Inr (os, length (packVaruint v (of_nat (length os)) @ packOutpoints v os))"
  using unpackOutpointsAt_pack[OF assms(1,2), of "packVaruint v (of_nat (length os))" rest] assms(3)
  by (simp add: unpackNOutpoints_def unpackVaruint_def packVaruint_def vlq_codec.UintAt_PutUint[OF v])

lemma readBlockTxs_pack:
  assumes v: "vlq_codec v" and pl: "0 < pl"
  shows "list_all (blockTxs_ok pl) bts \<Longrightarrow>
    readBlockTxs v pl (pre @ concat (map (packBlockTx v) bts)) (length pre) = Inr bts"
proof (induction bts arbitrary: pre)
  case Nil
  then show ?case by (subst readBlockTxs.simps) simp
next
  case (Cons bt bts)
  let ?n = "packVaruint v (of_nat (length (inputs bt)))"
  let ?r = "concat (map (packBlockTx v) bts)"
  have bt: "length (btxID_bt bt) = pl" "len_ok (inputs bt)" "list_all (outpoint_ok pl) (inputs bt)"
    using Cons.prems by (simp_all add: blockTxs_ok_def)
  have "readBlockTxs v pl ((pre @ packBlockTx v bt) @ ?r) (length (pre @ packBlockTx v bt)) = Inr bts"
    by (rule Cons.IH) (use Cons.prems in simp)
  moreover have "unpackNOutpoints v pl (?n @ packOutpoints v (inputs bt) @ ?r) =
      Inr (inputs bt, length (?n @ packOutpoints v (inputs bt)))"
    by (rule unpackNOutpoints_pack[OF v bt(3,2)])
  ultimately show ?case
    using bt(1) pl
    by (subst readBlockTxs.simps) (simp add: packBlockTx_def add.assoc)
qed

text \<open>The entries that cleaning up from a height downwards deletes: the heights from which on every
  height up to \<open>rh\<close> has an entry.\<close>

definition cleaned :: "contents \<Rightarrow> uint32 \<Rightarrow> uint32 \<Rightarrow> bool" where
  "cleaned m rh h \<longleftrightarrow> 0 < h \<and> h \<le> rh \<and> (\<forall>j. h \<le> j \<and> j \<le> rh \<longrightarrow> m cfBlockTxs (packUint j) \<noteq> None)"

definition removeBlockTxs :: "(uint32 \<Rightarrow> bool) \<Rightarrow> contents \<Rightarrow> contents" where
  "removeBlockTxs P m =
     m(cfBlockTxs := (\<lambda>k. if \<exists>h. P h \<and> k = packUint h then None else m cfBlockTxs k))"

lemma cleaned_step:
  fixes rh :: uint32
  assumes "rh \<noteq> 0" and "m cfBlockTxs (packUint rh) \<noteq> None"
  shows "cleaned m rh h \<longleftrightarrow> h = rh \<or> cleaned (apply_op (DeleteWB cfBlockTxs (packUint rh)) m) (rh - 1) h"
proof -
  have le: "j \<le> rh - 1 \<longleftrightarrow> j < rh" for j :: uint32
    using assms(1) by (simp add: word_le_nat_alt word_less_nat_alt unat_minus_one unat_eq_0) (metis Suc_pred less_Suc_eq_le unat_eq_zero neq0_conv)
  show ?thesis
    using assms by (auto simp: cleaned_def le word_neq_0_conv) (metis order_le_less)+
qed

lemma removeBlockTxs_none: "(\<And>h. \<not> P h) \<Longrightarrow> removeBlockTxs P m = m"
  by (simp add: removeBlockTxs_def)

lemma removeBlockTxs_step:
  assumes "\<And>h. P h \<longleftrightarrow> h = rh \<or> Q h"
  shows "removeBlockTxs Q (apply_op (DeleteWB cfBlockTxs (packUint rh)) m) = removeBlockTxs P m"
  using assms by (auto simp: removeBlockTxs_def fun_eq_iff)

lemma cleanupFrom_effect:
  assumes R: "reliable_store (rocks E) contents"
  shows "\<exists>s'. cleanupFrom E rh d = Inr (d\<lparr> db := s' \<rparr>) \<and>
    contents s' = removeBlockTxs (cleaned (contents (db d)) rh) (contents (db d))"
proof (induction "unat rh" arbitrary: rh d)
  case 0
  then have "rh = 0" by (simp add: unat_eq_zero)
  then show ?case
    by (subst cleanupFrom.simps) (auto simp: removeBlockTxs_none cleaned_def intro!: exI[of _ "db d"])
next
  case (Suc n)
  then have rh: "rh \<noteq> 0" by auto
  let ?m = "contents (db d)" and ?k = "packUint rh"
  note get = reliable_store.GetCF_eq[OF R]
  show ?case
  proof (cases "?m cfBlockTxs ?k")
    case None
    then have "removeBlockTxs (cleaned ?m rh) ?m = ?m"
      by (intro removeBlockTxs_none) (auto simp: cleaned_def)
    with None rh show ?thesis
      by (subst cleanupFrom.simps) (auto simp: get intro!: exI[of _ "db d"])
  next
    case (Some x)
    obtain s1 where s1: "DeleteCF (rocks E) (db d) cfBlockTxs ?k = Inr s1"
      using reliable_store.DeleteCF_returns[OF R] by blast
    then have c1: "contents s1 = apply_op (DeleteWB cfBlockTxs ?k) ?m"
      using rocks_store.DeleteCF_contents[OF reliable_store.axioms(1)[OF R]] by blast
    have "n = unat (rh - 1)" using Suc.hyps(2) rh by (simp add: unat_minus_one)
    then obtain s' where s': "cleanupFrom E (rh - 1) (d\<lparr> db := s1 \<rparr>) = Inr (d\<lparr> db := s' \<rparr>)"
      "contents s' = removeBlockTxs (cleaned (contents s1) (rh - 1)) (contents s1)"
      using Suc.hyps(1)[of "rh - 1" "d\<lparr> db := s1 \<rparr>"] by auto
    have "removeBlockTxs (cleaned (contents s1) (rh - 1)) (contents s1) = removeBlockTxs (cleaned ?m rh) ?m"
      unfolding c1 by (rule removeBlockTxs_step) (use cleaned_step[OF rh, of ?m] Some in auto)
    with s' s1 Some rh show ?thesis
      by (subst cleanupFrom.simps) (auto simp: get)
  qed
qed

text \<open>Indexing a block cleans up the data kept for disconnecting old blocks. With \<open>keep\<close> blocks to keep, a
  block at height \<open>height > keep\<close> deletes exactly the unbroken run of entries at the heights
  \<open>height - keep\<close> and below; entries of newer blocks, entries below a gap, and every other column stay.\<close>

theorem cleanup_deletes_old_run:
  assumes "reliable_store (rocks E) contents" and "keep = of_int (KeepBlockAddresses (chainParser d))"
  shows "\<exists>s'. cleanupBlockTxs E height d = Inr (d\<lparr> db := s' \<rparr>) \<and>
    contents s' = (if keep < height then removeBlockTxs (cleaned (contents (db d)) (height - keep)) (contents (db d))
                   else contents (db d))"
  using cleanupFrom_effect[OF assms(1), of "height - keep" d] assms(2)
  by (auto simp: cleanupBlockTxs_def Let_def intro!: exI[of _ "db d"])

definition sampleBlockTxsDB :: "mem RocksDB" where
  "sampleBlockTxsDB = sampleDB\<lparr> db := (\<lambda>c. if c = cfBlockTxs then map (\<lambda>h. (packUint h, [])) [1, 3, 4, 5] else []),
     chainParser := hexParser 1 \<rparr>"

theorem cleanup_deletes_old_run_witness:
  "\<exists>s'. cleanupBlockTxs memPackages 5 sampleBlockTxsDB = Inr (sampleBlockTxsDB\<lparr> db := s' \<rparr>) \<and>
     mem_contents s' cfBlockTxs (packUint 4) = None \<and> mem_contents s' cfBlockTxs (packUint 5) = Some []"
proof -
  let ?d = sampleBlockTxsDB
  obtain s' where "cleanupBlockTxs memPackages 5 ?d = Inr (?d\<lparr> db := s' \<rparr>)"
    and s': "mem_contents s' = (if 1 < (5 :: uint32)
      then removeBlockTxs (cleaned (mem_contents (db ?d)) (5 - 1)) (mem_contents (db ?d)) else mem_contents (db ?d))"
    using cleanup_deletes_old_run[of memPackages mem_contents 1 ?d 5] memdb.reliable_store_axioms
    by (auto simp: sampleBlockTxsDB_def)
  moreover have c: "mem_contents (db ?d) cfBlockTxs (packUint 4) = Some []" "mem_contents (db ?d) cfBlockTxs (packUint 5) = Some []"
    by (simp_all add: sampleBlockTxsDB_def mem_contents_def)
  moreover have "cleaned (mem_contents (db ?d)) 4 4" "\<not> cleaned (mem_contents (db ?d)) 4 5"
    using c by (auto simp: cleaned_def)
  ultimately have "mem_contents s' cfBlockTxs (packUint 4) = None" "mem_contents s' cfBlockTxs (packUint 5) = Some []"
    by (auto simp: removeBlockTxs_def)
  with \<open>cleanupBlockTxs memPackages 5 ?d = _\<close> show ?thesis by blast
qed

text \<open>The transactions and inputs of a block that were stored for a later disconnect are read back.\<close>

theorem blockTxs_roundtrip:
  assumes "reliable_store (rocks E) contents" and "vlq_codec (vlq E)" and "0 < PackedTxidLen (chainParser d)"
    and "list_all (blockTxs_ok (PackedTxidLen (chainParser d))) bts"
    and "contents (db d) cfBlockTxs (packUint height) = Some (concat (map (packBlockTx (vlq E)) bts))"
  shows "getBlockTxs E height d = Inr bts"
  using readBlockTxs_pack[OF assms(2,3,4), of "[]"] reliable_store.GetCF_eq[OF assms(1)] assms(5)
  by (simp add: getBlockTxs_def getData_def)

definition sampleBlockTx :: blockTxs where
  "sampleBlockTx = \<lparr> btxID_bt = replicate 32 2, inputs = [\<lparr> btxID_o = replicate 32 1, index_o = 0 \<rparr>, \<lparr> btxID_o = replicate 32 0, index_o = - 1 \<rparr>] \<rparr>"

theorem blockTxs_roundtrip_witness:
  "getBlockTxs memPackages 7 (sampleDB\<lparr> db := (\<lambda>c. if c = cfBlockTxs
      then [(packUint 7, packBlockTx base128 sampleBlockTx)] else []) \<rparr>) = Inr [sampleBlockTx]"
proof -
  have "list_all (blockTxs_ok 32) [sampleBlockTx]"
    by (simp add: sampleBlockTx_def blockTxs_ok_def outpoint_ok_def len_ok_def)
  then show ?thesis
    using memdb.reliable_store_axioms base128.vlq_codec_axioms
    by (intro blockTxs_roundtrip[where contents = mem_contents]) (simp_all add: sampleDB_def mem_contents_def)
qed

end
