(* ===== verification/Bitcoin_Disconnect.thy ===== *)
theory Bitcoin_Disconnect
  imports Bitcoin_Index "HOL-Library.Multiset"
begin

text \<open>
  Removing blocks of a bitcoin type chain (\<open>db/rocksdb.go\<close>): \<open>DisconnectBlockRangeBitcoinType\<close> reads the
  transactions of the blocks from the \<open>blockTxs\<close> column, undoes them from the last to the first and writes
  the changes in one batch.
\<close>

record disconnectState =
  txAddressesToUpdate :: "(bytes, TxAddresses) gomap"
  balances_ds :: "(bytes, AddrBalance option) gomap"

text \<open>The closure \<open>getAddressBalance\<close>; a balance that is not in the database is remembered as nil.\<close>

definition getAddressBalance ::
    "'s packages \<Rightarrow> 's RocksDB \<Rightarrow> AddressDescriptor \<Rightarrow> disconnectState \<Rightarrow>
     go_error + (AddrBalance option \<times> disconnectState)" where
  "getAddressBalance E d ad st =
     (case map_of (balances_ds st) ad of
        Some b \<Rightarrow> Inr (b, st)
      | None \<Rightarrow>
          rbind (GetAddrDescBalance E ad addressBalanceDetailUTXOIndexed d) (\<lambda>b.
          Inr (b, st\<lparr> balances_ds := AList.update ad b (balances_ds st) \<rparr>)))"

definition getTxAddressesToUpdate ::
    "'s packages \<Rightarrow> 's RocksDB \<Rightarrow> bytes \<Rightarrow> disconnectState \<Rightarrow> go_error + (TxAddresses option \<times> disconnectState)" where
  "getTxAddressesToUpdate E d btxID st =
     (case map_of (txAddressesToUpdate st) btxID of
        Some sa \<Rightarrow> Inr (Some sa, st)
      | None \<Rightarrow>
          rbind (getTxAddresses E btxID d) (\<lambda>r.
          Inr (r, case r of
              Some sa \<Rightarrow> st\<lparr> txAddressesToUpdate := AList.update btxID sa (txAddressesToUpdate st) \<rparr>
            | None \<Rightarrow> st)))"

text \<open>Setting the spent flag of the output an input had spent back; the index is a signed number.\<close>

definition unspendOutput ::
    "outpoint \<Rightarrow> TxAddresses option \<Rightarrow> disconnectState \<Rightarrow> go_error + (uint32 \<times> disconnectState)" where
  "unspendOutput input sa st =
     (case sa of
        None \<Rightarrow> Inr (0, st)
      | Some sa \<Rightarrow>
          if sint (index_o input) < 0 \<or> length (Outputs sa) \<le> nat (sint (index_o input))
          then Inl (Panic ''index out of range'')
          else Inr (Height_ta sa, st\<lparr> txAddressesToUpdate :=
            AList.update (btxID_o input) (setSpent (nat (sint (index_o input))) False sa) (txAddressesToUpdate st) \<rparr>))"

text \<open>What an input gives back to an address; the new entry is not put into the index.\<close>

definition revertInput :: "bool \<Rightarrow> outpoint \<Rightarrow> uint32 \<Rightarrow> int \<Rightarrow> AddrBalance \<Rightarrow> AddrBalance" where
  "revertInput exist input inputHeight val balance =
     (let balance = (if exist then balance else balance\<lparr> Txs_ab := Txs_ab balance - 1 \<rparr>);
          sent = SentSat balance - val;
          balance = balance\<lparr> SentSat := (if sent < 0 then resetValueSatToZero sent else sent) \<rparr>
      in balance\<lparr> BalanceSat := BalanceSat balance + val,
           Utxos := Utxos balance @ [\<lparr> BtxID = btxID_o input, Vout_u = index_o input, Height_u = inputHeight,
                                      ValueSat_u = val \<rparr>] \<rparr>)"

definition revertOutput :: "bool \<Rightarrow> bytes \<Rightarrow> nat \<Rightarrow> int \<Rightarrow> AddrBalance \<Rightarrow> AddrBalance" where
  "revertOutput exist btxID i val balance =
     (let balance = (if exist then balance else balance\<lparr> Txs_ab := Txs_ab balance - 1 \<rparr>);
          bal = BalanceSat balance - val;
          balance = balance\<lparr> BalanceSat := (if bal < 0 then resetValueSatToZero bal else bal) \<rparr>
      in markUtxoAsSpent btxID (of_nat i) balance)"

definition revertBalance ::
    "'s packages \<Rightarrow> 's RocksDB \<Rightarrow> (AddrBalance \<Rightarrow> AddrBalance) \<Rightarrow> AddressDescriptor \<Rightarrow> disconnectState \<Rightarrow>
     go_error + disconnectState" where
  "revertBalance E d f ad st =
     (if IsAddrDescIndexable (chainParser d) ad then
        rbind (getAddressBalance E d ad st) (\<lambda>(b, st).
        case b of
          None \<Rightarrow> Inr st
        | Some balance \<Rightarrow> Inr (st\<lparr> balances_ds := AList.update ad (Some (f balance)) (balances_ds st) \<rparr>))
      else Inr st)"

text \<open>The set of addresses of the transaction, in the order they are added.\<close>

definition addAddress :: "bytes \<Rightarrow> bytes list \<Rightarrow> bool \<times> bytes list" where
  "addAddress s addresses = (if s \<in> set addresses then (True, addresses) else (False, addresses @ [s]))"

definition disconnectInputDesc ::
    "'s packages \<Rightarrow> 's RocksDB \<Rightarrow> outpoint list \<Rightarrow> nat \<Rightarrow> int \<Rightarrow> AddressDescriptor \<Rightarrow> bytes list \<times> disconnectState \<Rightarrow>
     go_error + (bytes list \<times> disconnectState)" where
  "disconnectInputDesc E d ins i val ad = (\<lambda>(addresses, st).
     if length ad > 0 then
       rbind (index ins i) (\<lambda>input.
       let (exist, addresses) = addAddress ad addresses in
       rbind (getTxAddressesToUpdate E d (btxID_o input) st) (\<lambda>(sa, st).
       rbind (unspendOutput input sa st) (\<lambda>(inputHeight, st).
       rbind (revertBalance E d (revertInput exist input inputHeight val) ad st) (\<lambda>st.
       Inr (addresses, st)))))
     else Inr (addresses, st))"

definition disconnectOutputDesc ::
    "'s packages \<Rightarrow> 's RocksDB \<Rightarrow> bytes \<Rightarrow> nat \<Rightarrow> int \<Rightarrow> AddressDescriptor \<Rightarrow> bytes list \<times> disconnectState \<Rightarrow>
     go_error + (bytes list \<times> disconnectState)" where
  "disconnectOutputDesc E d btxID i val ad = (\<lambda>(addresses, st).
     if length ad > 0 then
       let (exist, addresses) = addAddress ad addresses in
       rbind (revertBalance E d (revertOutput exist btxID i val) ad st) (\<lambda>st. Inr (addresses, st))
     else Inr (addresses, st))"

definition disconnectTxAddresses ::
    "'s packages \<Rightarrow> 's RocksDB \<Rightarrow> uint32 \<Rightarrow> bytes \<Rightarrow> outpoint list \<Rightarrow> TxAddresses \<Rightarrow> WriteBatch \<times> disconnectState \<Rightarrow>
     go_error + (WriteBatch \<times> disconnectState)" where
  "disconnectTxAddresses E d height btxID ins txa = (\<lambda>(wb, st).
     rbind (rfold (\<lambda>(i, t) s.
         rbind (outputDescriptors E (AddrDesc_ti t)) (\<lambda>ds.
         rfold (disconnectInputDesc E d ins i (ValueSat_ti t)) ds s)) (enumerate 0 (Inputs txa)) ([], st)) (\<lambda>s.
     rbind (rfold (\<lambda>(i, t) s.
         rbind (outputDescriptors E (AddrDesc_to t)) (\<lambda>ds.
         rfold (disconnectOutputDesc E d btxID i (ValueSat_to t)) ds s)) (enumerate 0 (Outputs txa)) s) (\<lambda>(addresses, st).
     Inr (wb @ map (\<lambda>a. DeleteWB cfAddresses (packAddressKey a height)) addresses, st))))"

definition heights :: "uint32 \<Rightarrow> uint32 \<Rightarrow> uint32 list" where
  "heights lower higher = map of_nat [unat lower..<Suc (unat higher)]"

text \<open>
  \<open>for height := lower; height <= higher; height++\<close>, which fills a slice of length \<open>higher-lower+1\<close>. When
  \<open>higher\<close> is the largest \<open>uint32\<close> the condition always holds, the heights start again at 0, and the index
  into the slice is out of range; for the full range the slice is empty already at the start.
\<close>

definition readRange :: "(uint32 \<Rightarrow> go_error + 'b) \<Rightarrow> uint32 \<Rightarrow> uint32 \<Rightarrow> go_error + 'b list" where
  "readRange read lower higher =
     rbind (if lower = 0 \<and> higher = - 1 then Inr [] else rmap read (heights lower higher)) (\<lambda>blocks.
     if higher = - 1 then rbind (read 0) (\<lambda>_. Inl (Panic ''index out of range''))
     else Inr blocks)"

definition readBlock :: "'s packages \<Rightarrow> 's RocksDB \<Rightarrow> uint32 \<Rightarrow> go_error + blockTxs list" where
  "readBlock E d height =
     rbind (getBlockTxs E height d) (\<lambda>bts.
     if bts = [] then Inl (Errorf ''Cannot disconnect blocks with height and lower. It is necessary to rebuild index.'')
     else Inr bts)"

definition disconnectTx ::
    "'s packages \<Rightarrow> 's RocksDB \<Rightarrow> uint32 \<Rightarrow> blockTxs \<Rightarrow> bytes list \<times> WriteBatch \<times> disconnectState \<Rightarrow>
     go_error + (bytes list \<times> WriteBatch \<times> disconnectState)" where
  "disconnectTx E d height bt = (\<lambda>(txsToDelete, wb, st).
     let txsToDelete = snd (addAddress (btxID_bt bt) txsToDelete) in
     rbind (getTxAddresses E (btxID_bt bt) d) (\<lambda>r.
     case r of
       None \<Rightarrow> Inr (txsToDelete, wb, st)
     | Some txa \<Rightarrow>
         rbind (disconnectTxAddresses E d height (btxID_bt bt) (inputs bt) txa (wb, st)) (\<lambda>(wb, st).
         Inr (txsToDelete, wb, st))))"

definition disconnectBlock ::
    "'s packages \<Rightarrow> 's RocksDB \<Rightarrow> uint32 \<times> blockTxs list \<Rightarrow> bytes list \<times> WriteBatch \<times> disconnectState \<Rightarrow>
     go_error + (bytes list \<times> WriteBatch \<times> disconnectState)" where
  "disconnectBlock E d = (\<lambda>(height, bts) s.
     rbind (rfold (disconnectTx E d height) (rev bts) s) (\<lambda>(txsToDelete, wb, st).
     Inr (txsToDelete, wb @ [DeleteWB cfBlockTxs (packUint height), DeleteWB cfHeight (packUint height)], st)))"

text \<open>The spent entries are removed and the rest is sorted by height; the order of equal heights is kept.\<close>

definition compactBalance :: "AddrBalance \<Rightarrow> AddrBalance" where
  "compactBalance b = b\<lparr> Utxos := sort_key Height_u (filter (\<lambda>u. 0 \<le> sint (Vout_u u)) (Utxos b)) \<rparr>"

definition storeBalancesDisconnect ::
    "'s packages \<Rightarrow> (bytes, AddrBalance option) gomap \<Rightarrow> WriteBatch \<Rightarrow> WriteBatch" where
  "storeBalancesDisconnect E balances wb =
     storeBalances E (map (map_prod id (map_option compactBalance)) balances) wb"

text \<open>
  \<open>for height := higher; height >= lower; height--\<close>: with \<open>lower = 0\<close> the condition always holds, the
  decrement after height 0 wraps around, and the index into \<open>blocks\<close> is out of range.
\<close>

definition DisconnectBlockRangeBitcoinType ::
    "'s packages \<Rightarrow> uint32 \<Rightarrow> uint32 \<Rightarrow> 's RocksDB \<Rightarrow> go_error + 's RocksDB" where
  "DisconnectBlockRangeBitcoinType E lower higher d =
     rbind (readRange (readBlock E d) lower higher) (\<lambda>blocks.
     rbind (rfold (disconnectBlock E d) (rev (zip (heights lower higher) blocks))
       ([], [], \<lparr> txAddressesToUpdate = [], balances_ds = [] \<rparr>)) (\<lambda>(txsToDelete, wb, st).
     if lower = 0 then Inl (Panic ''index out of range'')
     else
       let wb = storeTxAddresses E (txAddressesToUpdate st) wb;
           wb = storeBalancesDisconnect E (balances_ds st) wb;
           wb = wb @ concat (map (\<lambda>s. [DeleteWB cfTransactions s, DeleteWB cfTxAddresses s]) txsToDelete) in
       rbind (WriteWB (rocks E) (db d) wb) (\<lambda>s. Inr (d\<lparr> db := s \<rparr>))))"

section \<open>What a disconnect deletes\<close>

lemma set_heights: "set (heights lower higher) = {h. lower \<le> h \<and> h \<le> higher}"
proof -
  have "unat (of_nat n :: uint32) = n" if "n \<le> unat higher" for n
  proof -
    have "unat higher < 2 ^ LENGTH(32)" by (rule unsigned_less)
    with that show ?thesis by (simp add: unat_of_nat)
  qed
  then have "h \<in> of_nat ` {unat lower..unat higher} \<longleftrightarrow> unat lower \<le> unat h \<and> unat h \<le> unat higher" for h :: uint32
    by (auto intro!: image_eqI[of h of_nat "unat h"])
  then have "h \<in> set (heights lower higher) \<longleftrightarrow> lower \<le> h \<and> h \<le> higher" for h
    unfolding heights_def set_map set_upt atLeastLessThanSuc_atLeastAtMost word_le_nat_alt by blast
  then show ?thesis by blast
qed

text \<open>A column after a batch depends only on the operations of the batch on that column.\<close>

lemma apply_batch_filter: "apply_batch wb m c = apply_batch (filter (\<lambda>x. wb_cf x = c) wb) m c"
proof -
  have "m c = m' c \<Longrightarrow> apply_batch wb m c = apply_batch (filter (\<lambda>x. wb_cf x = c) wb) m' c" for m m' :: contents
  proof (induction wb arbitrary: m m')
    case (Cons x wb)
    have "apply_op x m c = m c" if "wb_cf x \<noteq> c" using that by (cases x) auto
    moreover have "apply_op x m c = apply_op x m' c" if "wb_cf x = c" using that Cons.prems by (cases x) auto
    ultimately show ?case using Cons.IH[of "apply_op x m" "apply_op x m'"] Cons.IH[of "apply_op x m" m'] Cons.prems
      by (simp add: apply_batch_Cons)
  qed (simp add: apply_batch_Nil)
  then show ?thesis by simp
qed

lemma apply_batch_deletes:
  "apply_batch (map (DeleteWB c) ks) m c k = (if k \<in> set ks then None else m c k)"
proof -
  have "apply_batch (map (DeleteWB c) ks) m c = (\<lambda>k. if k \<in> set ks then None else m c k)"
    by (induction ks arbitrary: m) (auto simp: store_simps fun_eq_iff)
  then show ?thesis by simp
qed

lemma disconnectTx_batch:
  assumes "disconnectTx E d h bt (del, wb, st) = Inr (del', wb', st')"
  shows "\<exists>as. wb' = wb @ map (\<lambda>a. DeleteWB cfAddresses (packAddressKey a h)) as" and "set del' = insert (btxID_bt bt) (set del)"
  using assms
  by (auto simp: disconnectTx_def disconnectTxAddresses_def Let_def rbind_eq_Inr_iff addAddress_def split: option.splits if_splits)

abbreviation column :: "cf \<Rightarrow> WriteBatch \<Rightarrow> WriteBatch" where
  "column c wb \<equiv> filter (\<lambda>x. wb_cf x = c) wb"

lemma rfold_disconnectTx_batch:
  assumes "rfold (disconnectTx E d h) bts (del, wb, st) = Inr (del', wb', st')"
  shows "(c \<noteq> cfAddresses \<longrightarrow> column c wb' = column c wb) \<and> set del' = set del \<union> btxID_bt ` set bts"
  using assms
proof (induction bts arbitrary: del wb st)
  case (Cons bt bts)
  then obtain del1 wb1 st1 where 1: "disconnectTx E d h bt (del, wb, st) = Inr (del1, wb1, st1)"
    and 2: "rfold (disconnectTx E d h) bts (del1, wb1, st1) = Inr (del', wb', st')"
    by (auto simp: rbind_eq_Inr_iff)
  show ?case using disconnectTx_batch[OF 1] Cons.IH[OF 2] by (auto simp: filter_empty_conv)
qed simp

lemma rfold_disconnectBlock_batch:
  assumes "rfold (disconnectBlock E d) zs (del, wb, st) = Inr (del', wb', st')"
  shows "column cfHeight wb' = column cfHeight wb @ map (DeleteWB cfHeight) (map (\<lambda>z. packUint (fst z)) zs) \<and>
    column cfBlockTxs wb' = column cfBlockTxs wb @ map (DeleteWB cfBlockTxs) (map (\<lambda>z. packUint (fst z)) zs) \<and>
    column cfTxAddresses wb' = column cfTxAddresses wb \<and> column cfTransactions wb' = column cfTransactions wb \<and>
    set del' = set del \<union> (\<Union>z \<in> set zs. btxID_bt ` set (snd z))"
  using assms
proof (induction zs arbitrary: del wb st)
  case (Cons z zs)
  then obtain del1 wb1 st1 where
    1: "rfold (disconnectTx E d (fst z)) (rev (snd z)) (del, wb, st) = Inr (del1, wb1, st1)"
    and 2: "rfold (disconnectBlock E d) zs (del1, wb1 @ [DeleteWB cfBlockTxs (packUint (fst z)), DeleteWB cfHeight (packUint (fst z))], st1)
       = Inr (del', wb', st')"
    by (auto simp: rbind_eq_Inr_iff disconnectBlock_def case_prod_unfold)
  show ?case
    using rfold_disconnectTx_batch[OF 1, of cfHeight] rfold_disconnectTx_batch[OF 1, of cfBlockTxs]
      rfold_disconnectTx_batch[OF 1, of cfTxAddresses] rfold_disconnectTx_batch[OF 1, of cfTransactions] Cons.IH[OF 2]
    by auto
qed simp

lemma rmap_length: "rmap f xs = Inr ys \<Longrightarrow> length ys = length xs"
  by (induction xs arbitrary: ys) (auto simp: rbind_eq_Inr_iff)

lemma rmap_nth: "rmap f xs = Inr ys \<Longrightarrow> i < length xs \<Longrightarrow> f (xs ! i) = Inr (ys ! i)"
  by (induction xs arbitrary: ys i) (auto simp: rbind_eq_Inr_iff nth_Cons split: nat.splits)

lemma readRange_Inr:
  assumes "readRange read lower higher = Inr blocks"
  shows "length blocks = length (heights lower higher)" and "higher \<noteq> -1"
    and "(h, b) \<in> set (zip (heights lower higher) blocks) \<Longrightarrow> read h = Inr b"
  using assms
  by (auto simp: readRange_def rbind_eq_Inr_iff in_set_zip dest: rmap_length rmap_nth split: if_splits)

lemma DisconnectBlockRange_columns:
  assumes R: "rocks_store (rocks E) contents" and dc: "DisconnectBlockRangeBitcoinType E lower higher d = Inr d'"
  obtains blocks where "readRange (readBlock E d) lower higher = Inr blocks" and "0 < lower" and "chainParser d' = chainParser d"
    and "\<And>k. contents (db d') cfHeight k = (if k \<in> packUint ` {lower..higher} then None else contents (db d) cfHeight k)"
    and "\<And>k. contents (db d') cfBlockTxs k = (if k \<in> packUint ` {lower..higher} then None else contents (db d) cfBlockTxs k)"
    and "\<And>t. contents (db d') cfTransactions t =
      (if t \<in> btxID_bt ` set (concat blocks) then None else contents (db d) cfTransactions t)"
    and "\<And>t. t \<in> btxID_bt ` set (concat blocks) \<Longrightarrow> contents (db d') cfTxAddresses t = None"
proof -
  let ?hs = "heights lower higher"
  obtain blocks del wb st s where b: "readRange (readBlock E d) lower higher = Inr blocks"
    and f: "rfold (disconnectBlock E d) (rev (zip ?hs blocks)) ([], [], \<lparr> txAddressesToUpdate = [], balances_ds = [] \<rparr>) = Inr (del, wb, st)"
    and l: "lower \<noteq> 0" and d': "d' = d\<lparr> db := s \<rparr>"
    and w: "WriteWB (rocks E) (db d) (storeBalancesDisconnect E (balances_ds st) (storeTxAddresses E (txAddressesToUpdate st) wb) @
        concat (map (\<lambda>s. [DeleteWB cfTransactions s, DeleteWB cfTxAddresses s]) del)) = Inr s"
    using dc by (auto simp: DisconnectBlockRangeBitcoinType_def Let_def rbind_eq_Inr_iff split: if_splits)
  note len = readRange_Inr(1)[OF b]
  note cols = rfold_disconnectBlock_batch[OF f]
  have keys: "map (\<lambda>z. packUint (fst z)) (rev (zip ?hs blocks)) = map packUint (rev ?hs)"
  proof -
    have "map (\<lambda>z. packUint (fst z)) (rev zs) = map packUint (rev (map fst zs))" for zs :: "(uint32 \<times> blockTxs list) list"
      by (simp add: rev_map)
    then show ?thesis using len by (simp only: map_fst_zip)
  qed
  have "snd ` set (zip ?hs blocks) = set (map snd (zip ?hs blocks))" by simp
  also have "\<dots> = set blocks" using len by (simp only: map_snd_zip)
  finally have "(\<Union>z \<in> set (zip ?hs blocks). btxID_bt ` set (snd z)) = (\<Union>b \<in> set blocks. btxID_bt ` set b)"
    by (metis (no_types) image_image)
  then have dels: "set del = btxID_bt ` set (concat blocks)" using cols by (simp add: image_UN)
  have sb: "column c (storeBalancesDisconnect E m wb) = column c wb" if "c \<noteq> cfAddressBalance" for c m wb
    using that by (auto simp: storeBalancesDisconnect_def storeBalances_def filter_empty_conv split: option.splits if_splits)
  have st: "column c (storeTxAddresses E m wb) = column c wb" if "c \<noteq> cfTxAddresses" for c m wb
    using that by (auto simp: storeTxAddresses_def filter_empty_conv)
  have dl: "column c (concat (map (\<lambda>s. [DeleteWB cfTransactions s, DeleteWB cfTxAddresses s]) del)) =
      (if c = cfTransactions \<or> c = cfTxAddresses then map (DeleteWB c) del else [])" for c
    by (induction del) auto
  have w': "contents (db d') c k = apply_batch (column c (storeBalancesDisconnect E (balances_ds st)
      (storeTxAddresses E (txAddressesToUpdate st) wb)) @ column c (concat (map (\<lambda>s. [DeleteWB cfTransactions s, DeleteWB cfTxAddresses s]) del)))
      (contents (db d)) c k" for c k
    unfolding filter_append[symmetric] apply_batch_filter[symmetric]
    using rocks_store.WriteWB_contents[OF R w] by (simp add: d')
  have at: "{lower..higher} = set ?hs" by (auto simp: set_heights)
  show thesis
  proof (rule that[OF b])
    show "0 < lower" using l by (simp add: word_neq_0_conv)
    show "contents (db d') cfHeight k = (if k \<in> packUint ` {lower..higher} then None else contents (db d) cfHeight k)" for k
      unfolding w' at using cols by (simp add: sb st dl keys apply_batch_deletes del: map_map)
    show "contents (db d') cfBlockTxs k = (if k \<in> packUint ` {lower..higher} then None else contents (db d) cfBlockTxs k)" for k
      unfolding w' at using cols by (simp add: sb st dl keys apply_batch_deletes del: map_map)
    show "contents (db d') cfTransactions t = (if t \<in> btxID_bt ` set (concat blocks) then None else contents (db d) cfTransactions t)" for t
      unfolding w' using cols dels by (simp add: sb st dl apply_batch_deletes)
    show "contents (db d') cfTxAddresses t = None" if "t \<in> btxID_bt ` set (concat blocks)" for t
      unfolding w' using that dels by (simp add: dl apply_batch_append apply_batch_deletes)
  qed (simp add: d')
qed

section \<open>Properties of disconnecting\<close>

lemma represents_heights_remove:
  assumes "represents_heights E p col m" and "p' = p"
    and "\<And>k. col' k = (if k \<in> packUint ` S then None else col k)"
  shows "represents_heights E p' col' (\<lambda>h. if h \<in> S then None else m h)"
proof -
  have "col' k = Some x \<longleftrightarrow> (\<exists>h bi. (if h \<in> S then None else m h) = Some bi \<and> k = packUint h \<and> packBlockInfo E p bi = Inr x)" for k x
  proof (cases "k \<in> packUint ` S")
    case True
    then show ?thesis using assms(3)[of k] by auto
  next
    case False
    then have "(\<exists>h bi. (if h \<in> S then None else m h) = Some bi \<and> k = packUint h \<and> packBlockInfo E p bi = Inr x) =
        (\<exists>h bi. m h = Some bi \<and> k = packUint h \<and> packBlockInfo E p bi = Inr x)"
      by (intro ex_cong1) auto
    then show ?thesis using False assms(1) assms(3)[of k] unfolding represents_heights_def by simp
  qed
  then show ?thesis using assms(1,2) unfolding represents_heights_def by (auto split: if_splits)
qed

text \<open>C4: Disconnecting removes exactly the given blocks. When the height column represents the block
  informations \<open>m\<close> and the call returns, then the range does not include the genesis block, the column
  represents \<open>m\<close> without the heights of the range, the data for disconnecting is gone for the range and
  unchanged elsewhere, every block of the range had such data, and every transaction of these blocks has lost
  its record and its cached transaction.\<close>

theorem disconnect_removes_range:
  assumes "reliable_store (rocks E) contents" and "represents_heights E (chainParser d) (contents (db d) cfHeight) m"
    and "DisconnectBlockRangeBitcoinType E lower higher d = Inr d'"
  shows "0 < lower \<and>
    represents_heights E (chainParser d') (contents (db d') cfHeight) (\<lambda>h. if h \<in> {lower..higher} then None else m h) \<and>
    (\<forall>h. contents (db d') cfBlockTxs (packUint h) =
       (if h \<in> {lower..higher} then None else contents (db d) cfBlockTxs (packUint h))) \<and>
    (\<forall>h \<in> {lower..higher}. \<exists>bts. getBlockTxs E h d = Inr bts \<and> bts \<noteq> [] \<and>
       (\<forall>bt \<in> set bts. getTxAddresses E (btxID_bt bt) d' = Inr None \<and> contents (db d') cfTransactions (btxID_bt bt) = None))"
proof -
  note R = reliable_store.axioms(1)[OF assms(1)]
  obtain blocks where b: "readRange (readBlock E d) lower higher = Inr blocks" and "0 < lower" "chainParser d' = chainParser d"
    and h: "\<And>k. contents (db d') cfHeight k = (if k \<in> packUint ` {lower..higher} then None else contents (db d) cfHeight k)"
    and t: "\<And>k. contents (db d') cfBlockTxs k = (if k \<in> packUint ` {lower..higher} then None else contents (db d) cfBlockTxs k)"
    and x: "\<And>t. contents (db d') cfTransactions t = (if t \<in> btxID_bt ` set (concat blocks) then None else contents (db d) cfTransactions t)"
    and a: "\<And>t. t \<in> btxID_bt ` set (concat blocks) \<Longrightarrow> contents (db d') cfTxAddresses t = None"
    by (rule DisconnectBlockRange_columns[OF R assms(3)]) blast
  have "represents_heights E (chainParser d') (contents (db d') cfHeight) (\<lambda>h. if h \<in> {lower..higher} then None else m h)"
    by (rule represents_heights_remove[OF assms(2) _ h]) fact
  moreover have "\<exists>bts. getBlockTxs E k d = Inr bts \<and> bts \<noteq> [] \<and> (\<forall>bt \<in> set bts.
      getTxAddresses E (btxID_bt bt) d' = Inr None \<and> contents (db d') cfTransactions (btxID_bt bt) = None)"
    if k: "k \<in> {lower..higher}" for k
  proof -
    have "k \<in> set (heights lower higher)" using k by (simp add: set_heights)
    then obtain i where i: "i < length (heights lower higher)" "heights lower higher ! i = k" by (auto simp: in_set_conv_nth)
    then have "i < length blocks" "(k, blocks ! i) \<in> set (zip (heights lower higher) blocks)"
      using readRange_Inr(1)[OF b] by (auto simp: in_set_zip intro!: exI[of _ i])
    moreover from this have "readBlock E d k = Inr (blocks ! i)" using readRange_Inr(3)[OF b] by blast
    moreover have "contents (db d') cfTxAddresses (btxID_bt bt) = None \<and> contents (db d') cfTransactions (btxID_bt bt) = None"
      if "bt \<in> set (blocks ! i)" for bt
    proof -
      have "btxID_bt bt \<in> btxID_bt ` set (concat blocks)" using that \<open>i < length blocks\<close> by (auto intro!: imageI bexI[of _ "blocks ! i"])
      then show ?thesis using a x by simp
    qed
    ultimately show ?thesis
      using reliable_store.GetCF_eq[OF assms(1)]
      by (auto simp: readBlock_def rbind_eq_Inr_iff getTxAddresses_def getData_def split: if_splits)
  qed
  ultimately show ?thesis using \<open>0 < lower\<close> t by auto
qed

definition sampleDisconnectDB :: "mem RocksDB" where
  "sampleDisconnectDB = sampleInfoDB\<lparr> db := (\<lambda>c. if c = cfBlockTxs then [(packUint 5, replicate 32 1 @ [0])] else db sampleInfoDB c),
     is_d := Some (newInternalState ''SKYR'') \<rparr>"

theorem disconnect_removes_range_witness:
  "\<exists>d'. DisconnectBlockRangeBitcoinType memPackages 5 5 sampleDisconnectDB = Inr d' \<and>
     represents_heights memPackages (chainParser d') (mem_contents (db d') cfHeight)
       (\<lambda>h. if h \<in> {5..5} then None else [5 \<mapsto> sampleInfo] h)"
proof -
  have "\<not> isl (DisconnectBlockRangeBitcoinType memPackages 5 5 sampleDisconnectDB)" by code_simp
  then obtain d' where d': "DisconnectBlockRangeBitcoinType memPackages 5 5 sampleDisconnectDB = Inr d'"
    by (metis sum.collapse(2))
  have "represents_heights memPackages (chainParser sampleDisconnectDB) (mem_contents (db sampleDisconnectDB) cfHeight) [5 \<mapsto> sampleInfo]"
    by (auto simp: represents_heights_def sampleDisconnectDB_def sampleInfoDB_def mem_contents_def hash_ok_def sampleInfo_def
        PackBlockHash_base_def UnpackBlockHash_base_def packBlockInfo_def split: if_splits)
  moreover have "reliable_store (rocks memPackages) mem_contents" by (simp add: memdb.reliable_store_axioms)
  ultimately have "represents_heights memPackages (chainParser d') (mem_contents (db d') cfHeight)
      (\<lambda>h. if h \<in> {5..5} then None else [5 \<mapsto> sampleInfo] h)"
    using disconnect_removes_range[of memPackages mem_contents sampleDisconnectDB "[5 \<mapsto> sampleInfo]" 5 5 d'] d' by blast
  with d' show ?thesis by blast
qed

text \<open>A range in which some block has no stored transactions is refused: the call returns an error and
  writes nothing.\<close>

theorem disconnect_needs_block_data:
  assumes "lower \<le> h" and "h \<le> higher" and "getBlockTxs E h d = Inr []"
  shows "\<exists>e. DisconnectBlockRangeBitcoinType E lower higher d = Inl e"
proof (cases "readRange (readBlock E d) lower higher")
  case (Inr blocks)
  have "h \<in> set (heights lower higher)" using assms(1,2) by (simp add: set_heights)
  then obtain i where "i < length (heights lower higher)" "heights lower higher ! i = h" by (auto simp: in_set_conv_nth)
  then have "(h, blocks ! i) \<in> set (zip (heights lower higher) blocks)"
    using readRange_Inr(1)[OF Inr] by (auto simp: in_set_zip intro!: exI[of _ i])
  then have "readBlock E d h = Inr (blocks ! i)" by (rule readRange_Inr(3)[OF Inr])
  with assms(3) show ?thesis by (simp add: readBlock_def)
qed (simp add: DisconnectBlockRangeBitcoinType_def)

theorem disconnect_needs_block_data_witness:
  "\<exists>e. DisconnectBlockRangeBitcoinType memPackages 3 5 sampleDB = Inl e"
proof -
  have "getBlockTxs memPackages 4 sampleDB = Inr []"
    by (simp add: getBlockTxs_def getData_def memdb_def sampleDB_def readBlockTxs.simps)
  then show ?thesis by (intro disconnect_needs_block_data[of 3 4 5 memPackages sampleDB]) simp_all
qed

lemma unspent_filter: "filter (\<lambda>u. 0 \<le> sint (Vout_u u)) us = unspent us"
  by (simp add: unspent_def)



text \<open>Undoing an output restores the address: the totals and the list of unspent outputs are the ones
  before the output was added.\<close>

theorem undo_credit_restores:
  assumes "index_ok ab" and "utxos_grouped (Utxos ab @ [u])" and "0 \<le> BalanceSat ab" and "u = \<lparr> BtxID = t, Vout_u = of_nat i,
      Height_u = h, ValueSat_u = x \<rparr>"
    and "\<forall>w \<in> set (Utxos ab). \<not> (BtxID w = t \<and> Vout_u w = of_nat i)"
  shows "BalanceSat (revertOutput True t i x (creditOutput u ab)) = BalanceSat ab \<and>
    SentSat (revertOutput True t i x (creditOutput u ab)) = SentSat ab \<and>
    unspent (Utxos (revertOutput True t i x (creditOutput u ab))) = unspent (Utxos ab)"
proof -
  let ?c = "(creditOutput u ab)\<lparr> BalanceSat := BalanceSat ab \<rparr>"
  have "spendLinear us t (of_nat i) = None" if "\<forall>w \<in> set us. \<not> (BtxID w = t \<and> Vout_u w = of_nat i)" for us
    using that by (simp add: spendLinear_None_iff)
  have "spendLinear (us @ [u]) t (of_nat i) = Some (us @ [u\<lparr> Vout_u := -1 \<rparr>])"
    if "\<forall>w \<in> set us. \<not> (BtxID w = t \<and> Vout_u w = of_nat i)" for us
    using that assms(4) by (induction us) auto
  then have "spendLinear (Utxos ?c) t (of_nat i) = Some (Utxos ab @ [u\<lparr> Vout_u := -1 \<rparr>])" using assms(5) by simp
  then have "markUtxoAsSpent t (of_nat i) ?c = ?c\<lparr> Utxos := Utxos ab @ [u\<lparr> Vout_u := -1 \<rparr>] \<rparr>"
    using markUtxoAsSpent_indexed[of ?c t "of_nat i"] assms(1,2) by (simp add: index_ok_creditOutput)
  moreover have "revertOutput True t i x (creditOutput u ab) = markUtxoAsSpent t (of_nat i) ?c"
    using assms(3,4) by (simp add: revertOutput_def Let_def)
  ultimately show ?thesis using assms(4) by (simp add: unspent_def)
qed

theorem undo_credit_restores_witness:
  "unspent (Utxos (revertOutput True (replicate 8 1) 1 1000 (creditOutput (sampleUtxo 1 1) (creditOutput (sampleUtxo 1 0) newAddrBalance)))) =
   [sampleUtxo 1 0]"
proof -
  let ?ab = "creditOutput (sampleUtxo 1 0) newAddrBalance"
  have "utxos_grouped (Utxos ?ab @ [sampleUtxo 1 1])" by code_simp
  moreover have "index_ok ?ab" by (intro index_ok_creditOutput) simp
  moreover have "0 \<le> BalanceSat ?ab" by (simp add: newAddrBalance_def sampleUtxo_def)
  ultimately have "unspent (Utxos (revertOutput True (replicate 8 1) 1 1000 (creditOutput (sampleUtxo 1 1) ?ab))) = unspent (Utxos ?ab)"
    using undo_credit_restores[of ?ab "sampleUtxo 1 1" "replicate 8 1" 1 100 1000]
    by (simp add: sampleUtxo_def newAddrBalance_def)
  then show ?thesis by (simp add: newAddrBalance_def unspent_def sampleUtxo_def)
qed

text \<open>C37: Disconnecting two blocks at once can leave an unspent output of a deleted transaction. When the later
  block spent the output of a transaction of the earlier one and the address has an index, then undoing the input
  adds the output to the list but not to the index, undoing the output does not find it, and it stays listed as
  unspent although the balance no longer contains it.\<close>

theorem disconnect_keeps_phantom_utxo:
  assumes "index_ok ab" and "utxosMap ab \<noteq> []" and "\<forall>u \<in> set (Utxos ab). BtxID u \<noteq> t" and "0 \<le> sint (of_nat i :: int32)"
    and "0 \<le> BalanceSat ab"
    and "ab' = compactBalance (revertOutput e t i x (revertInput e' \<lparr> btxID_o = t, index_o = of_nat i \<rparr> h x ab))"
  shows "\<lparr> BtxID = t, Vout_u = of_nat i, Height_u = h, ValueSat_u = x \<rparr> \<in> set (Utxos ab') \<and> BalanceSat ab' = BalanceSat ab"
proof -
  have "map_of (utxosMap ab) t = None"
    using index_okD[OF assms(1,2)] assms(3) by (simp add: find_idx_None_iff)
  with assms(2,4-6) show ?thesis
    by (simp add: compactBalance_def revertOutput_def revertInput_def Let_def markUtxoAsSpent_def)
qed

theorem disconnect_keeps_phantom_utxo_witness:
  "sampleUtxo 200 0 \<in> set (Utxos (compactBalance (revertOutput False (replicate 8 200) 0 1000
     (revertInput False \<lparr> btxID_o = replicate 8 200, index_o = 0 \<rparr> 100 1000
        (sampleUtxos [sampleUtxo 1 0, sampleUtxo 1 1, sampleUtxo 2 1])))))"
proof -
  let ?ab = "sampleUtxos [sampleUtxo 1 0, sampleUtxo 1 1, sampleUtxo 2 1]"
  have "index_ok ?ab" by (rule index_ok_sampleUtxos)
  moreover have "utxosMap ?ab \<noteq> []" by code_simp
  moreover have "\<forall>u \<in> set (Utxos ?ab). BtxID u \<noteq> replicate 8 200" by code_simp
  moreover have "0 \<le> BalanceSat ?ab" by code_simp
  ultimately show ?thesis
    using disconnect_keeps_phantom_utxo[OF _ _ _ _ _ refl, where ab = ?ab and t = "replicate 8 200" and i = 0
        and e = False and e' = False and x = 1000 and h = 100]
    by (simp add: sampleUtxo_def)
qed

end
