(* ===== verification/Eth_Parser.thy ===== *)
theory Eth_Parser
  imports Base_Parser
begin

text \<open>
  The parser of ethereum type coins (\<open>bchain/coins/eth/ethparser.go\<close>) and the ERC20 data in transactions, logs
  and contract calls (\<open>bchain/coins/eth/erc20.go\<close>).

  The package \<open>hexutil\<close> of go-ethereum and \<open>BigToAddress\<close>, whose string form carries a checksum, are a
  parameter, the record \<open>hexutil\<close>; the locale \<open>hexutil_codec\<close> has what its documentation says, and
  \<open>plainHexutil\<close> is an instance. Errors of the package are compared only with \<open>ErrEmptyString\<close>. The answers of the
  back end to \<open>eth_call\<close> are the parameter \<open>call\<close>. Strings are bytes; \<open>strings.ToLower\<close> is modelled on ASCII text.

  The theorems: descriptors, transaction ids and block hashes convert to strings and back, so that this parser
  meets the contract the index relies on; a stored transaction is read back; a token transfer is read from the
  log of a well-formed event; a contract is asked once and then answered from the cache; and two inputs the code does
  not handle.
\<close>

section \<open>Packages\<close>

record hexutil =
  Encode :: "bytes \<Rightarrow> string"
  Decode :: "string \<Rightarrow> go_error + bytes"
  EncodeUint64 :: "uint64 \<Rightarrow> string"
  DecodeUint64 :: "string \<Rightarrow> go_error + uint64"
  EncodeBig :: "int \<Rightarrow> string"
  DecodeBig :: "string \<Rightarrow> go_error + int"
  ErrEmptyString :: go_error
  BigToAddressString :: "int \<Rightarrow> string"

text \<open>\<open>strings.HasPrefix\<close> and \<open>strings.ToLower\<close>.\<close>

definition HasPrefix :: "string \<Rightarrow> string \<Rightarrow> bool" where
  "HasPrefix s p = (take (length p) s = p)"

definition toLowerChar :: "char \<Rightarrow> char" where
  "toLowerChar c = (let n = of_char c :: nat in if 65 \<le> n \<and> n \<le> 90 then char_of (n + 32) else c)"

definition ToLower :: "string \<Rightarrow> string" where
  "ToLower s = map toLowerChar s"

text \<open>
  \<open>big.Int.SetString\<close> in base 16 and base 0. With base 0 a prefix \<open>0x\<close>, \<open>0b\<close>, \<open>0o\<close> or \<open>0\<close> chooses
  the base, and underscores may separate digits.
\<close>

fun hex_val :: "nat \<Rightarrow> string \<Rightarrow> nat option" where
  "hex_val a [] = Some a"
| "hex_val a (c # s) = (case fromHexChar c of Some x \<Rightarrow> hex_val (16 * a + x) s | None \<Rightarrow> None)"

definition splitSign :: "string \<Rightarrow> bool \<times> string" where
  "splitSign s = (case s of
       c # r \<Rightarrow> if c = CHR ''-'' then (True, r) else if c = CHR ''+'' then (False, r) else (False, s)
     | [] \<Rightarrow> (False, []))"

definition withSign :: "bool \<Rightarrow> nat \<Rightarrow> int" where
  "withSign neg n = (if neg then - int n else int n)"

definition SetString16 :: "string \<Rightarrow> int option" where
  "SetString16 s =
     (let (neg, ds) = splitSign s in
      if ds = [] then None else map_option (withSign neg) (hex_val 0 ds))"

fun scanDigits :: "nat \<Rightarrow> bool \<Rightarrow> nat \<Rightarrow> string \<Rightarrow> nat option" where
  "scanDigits b prev a [] = (if prev then Some a else None)"
| "scanDigits b prev a (c # s) =
     (if c = CHR ''_'' then (if prev then scanDigits b False a s else None)
      else (case fromHexChar c of
          Some x \<Rightarrow> if x < b then scanDigits b True (b * a + x) s else None
        | None \<Rightarrow> None))"

definition scanPrefixed :: "nat \<Rightarrow> string \<Rightarrow> nat option" where
  "scanPrefixed b s = (if s = [] then None else scanDigits b True 0 s)"

definition SetString0 :: "string \<Rightarrow> int option" where
  "SetString0 s =
     (let (neg, ds) = splitSign s in
      map_option (withSign neg)
        (case ds of
           z # p # r \<Rightarrow>
             if z = CHR ''0'' then
               if p = CHR ''x'' \<or> p = CHR ''X'' then scanPrefixed 16 r
               else if p = CHR ''b'' \<or> p = CHR ''B'' then scanPrefixed 2 r
               else if p = CHR ''o'' \<or> p = CHR ''O'' then scanPrefixed 8 r
               else scanDigits 8 True 0 (p # r)
             else scanDigits 10 False 0 ds
         | _ \<Rightarrow> scanDigits 10 False 0 ds))"

text \<open>\<open>strconv.ParseInt(s, 16, 64)\<close> and \<open>big.Int.Uint64\<close>.\<close>

definition ParseInt16 :: "string \<Rightarrow> go_error + int64" where
  "ParseInt16 s =
     (case SetString16 s of
        Some n \<Rightarrow> if - (2 ^ 63) \<le> n \<and> n < 2 ^ 63 then Inr (of_int n) else Inl (Errorf ''value out of range'')
      | None \<Rightarrow> Inl (Errorf ''invalid syntax''))"

definition BigInt_Uint64 :: "int \<Rightarrow> uint64" where
  "BigInt_Uint64 n = of_nat (nat \<bar>n\<bar>)"

section \<open>Numbers, addresses and ids\<close>

definition EtherAmountDecimalPoint :: int where "EtherAmountDecimalPoint = 18"

definition EthereumTypeAddressDescriptorLen :: nat where "EthereumTypeAddressDescriptorLen = 20"

definition ethNumber :: "string \<Rightarrow> go_error + int64" where
  "ethNumber n = (if length n > 2 then ParseInt16 (drop 2 n) else Inl (Errorf ''Not a number''))"

definition has0xPrefix :: "string \<Rightarrow> bool" where
  "has0xPrefix s \<longleftrightarrow> length s \<ge> 2 \<and> s ! 0 = CHR ''0'' \<and> (of_char (s ! 1) OR 32) = (of_char (CHR ''x'') :: nat)"

definition without0x :: "string \<Rightarrow> string" where
  "without0x s = (if has0xPrefix s then drop 2 s else s)"

definition GetAddrDescFromAddress_eth :: "string \<Rightarrow> go_error + AddressDescriptor" where
  "GetAddrDescFromAddress_eth address =
     (let address = without0x address in
      if length address \<noteq> EthereumTypeAddressDescriptorLen * 2 then Inl ErrAddressMissing
      else DecodeString address)"

definition GetAddrDescFromVout_eth :: "Vout \<Rightarrow> go_error + AddressDescriptor" where
  "GetAddrDescFromVout_eth output =
     (case Addresses_spk (ScriptPubKey_vout output) of
        [a] \<Rightarrow> GetAddrDescFromAddress_eth a
      | _ \<Rightarrow> Inl ErrAddressMissing)"

definition GetAddressesFromAddrDesc_eth :: "hexutil \<Rightarrow> AddressDescriptor \<Rightarrow> go_error + (string list \<times> bool)" where
  "GetAddressesFromAddrDesc_eth H addrDesc = Inr ([Encode H addrDesc], True)"

definition GetScriptFromAddrDesc_eth :: "AddressDescriptor \<Rightarrow> go_error + bytes" where
  "GetScriptFromAddrDesc_eth addrDesc = Inr addrDesc"

definition hexDecode :: "hexutil \<Rightarrow> string \<Rightarrow> go_error + bytes" where
  "hexDecode H s = (case Decode H s of Inl e \<Rightarrow> if e \<noteq> ErrEmptyString H then Inl e else Inr [] | Inr b \<Rightarrow> Inr b)"

definition hexDecodeBig :: "hexutil \<Rightarrow> string \<Rightarrow> go_error + bytes" where
  "hexDecodeBig H s = rbind (DecodeBig H s) (\<lambda>b. Inr (BigInt_Bytes b))"

definition hexEncodeBig :: "hexutil \<Rightarrow> bytes \<Rightarrow> string" where
  "hexEncodeBig H b = EncodeBig H (BigInt_SetBytes b)"

definition PackedTxidLen_eth :: nat where "PackedTxidLen_eth = 32"

definition PackTxid_eth :: "string \<Rightarrow> go_error + bytes" where
  "PackTxid_eth txid = DecodeString (without0x txid)"

definition UnpackTxid_eth :: "hexutil \<Rightarrow> bytes \<Rightarrow> go_error + string" where
  "UnpackTxid_eth H buf = Inr (Encode H buf)"

definition PackBlockHash_eth :: "string \<Rightarrow> go_error + bytes" where
  "PackBlockHash_eth hash = DecodeString (without0x hash)"

definition UnpackBlockHash_eth :: "hexutil \<Rightarrow> bytes \<Rightarrow> go_error + string" where
  "UnpackBlockHash_eth H buf = Inr (Encode H buf)"

section \<open>Transactions\<close>

definition ethTxToTx ::
    "hexutil \<Rightarrow> rpcTransaction \<Rightarrow> rpcReceipt option \<Rightarrow> int64 \<Rightarrow> uint32 \<Rightarrow> go_error + Tx" where
  "ethTxToTx H tx receipt blocktime confirmations =
     (let fa = (if length (From_rt tx) > 2 then [From_rt tx] else []);
          ta = (if length (To_rt tx) > 2 then [To_rt tx] else []);
          ct = \<lparr> Tx_ct = tx, Receipt_ct = receipt \<rparr> in
      rbind (DecodeBig H (Value_rt tx)) (\<lambda>vs.
      Inr \<lparr> Hex_tx = '''', Txid_tx = Hash_rt tx, Version_tx = 0, LockTime = 0,
            Vin_tx = [\<lparr> Coinbase = '''', Txid_vin = '''', Vout_vin = 0, ScriptSig_vin = \<lparr> Hex_ss = '''' \<rparr>, Sequence = 0,
                        Addresses_vin = fa \<rparr>],
            Vout_tx = [\<lparr> ValueSat_vout = vs, JsonValue = '''', N_vout = 0,
                         ScriptPubKey_vout = \<lparr> Hex_spk = '''', Addresses_spk = ta \<rparr> \<rparr>],
            Confirmations_tx = confirmations, Time_tx = blocktime, Blocktime = blocktime,
            VShieldIn_tx = [], VShieldOut_tx = [], ShieldValBal_tx = 0, CoinSpecificData = CompleteTransaction ct \<rparr>))"

text \<open>The messages of \<open>tx.pb.go\<close>; a pointer is an option. The elements of \<open>Log\<close> are never nil after \<open>Unmarshal\<close>.\<close>

record ProtoCompleteTransaction_TxType =
  AccountNonce_pc :: uint64
  GasPrice_pc :: bytes
  GasLimit_pc :: uint64
  Value_pc :: bytes
  Payload_pc :: bytes
  Hash_pc :: bytes
  To_pc :: bytes
  From_pc :: bytes
  TransactionIndex_pc :: uint32

record ProtoCompleteTransaction_ReceiptType_LogType =
  Address_pl :: bytes
  Data_pl :: bytes
  Topics_pl :: "bytes list"

record ProtoCompleteTransaction_ReceiptType =
  GasUsed_pr :: bytes
  Status_pr :: bytes
  Log_pr :: "ProtoCompleteTransaction_ReceiptType_LogType list"

record ProtoCompleteTransaction =
  BlockNumber_pct :: uint32
  BlockTime_pct :: uint64
  Tx_pct :: "ProtoCompleteTransaction_TxType option"
  Receipt_pct :: "ProtoCompleteTransaction_ReceiptType option"

record eth_protobuf =
  Marshal_eth :: "ProtoCompleteTransaction \<Rightarrow> go_error + bytes"
  Unmarshal_eth :: "bytes \<Rightarrow> go_error + ProtoCompleteTransaction"

definition packLog :: "hexutil \<Rightarrow> rpcLog \<Rightarrow> go_error + ProtoCompleteTransaction_ReceiptType_LogType" where
  "packLog H l =
     rbind (Annotatef ''Address cannot be decoded'' (Decode H (Address_rl l))) (\<lambda>a.
     rbind (Annotatef ''Data cannot be decoded'' (Decode H (Data_rl l))) (\<lambda>d.
     rbind (rmap (\<lambda>s. Annotatef ''Topic cannot be decoded'' (Decode H s)) (Topics l)) (\<lambda>t.
     Inr \<lparr> Address_pl = a, Data_pl = d, Topics_pl = t \<rparr>)))"

definition packReceipt :: "hexutil \<Rightarrow> rpcReceipt \<Rightarrow> go_error + ProtoCompleteTransaction_ReceiptType" where
  "packReceipt H r =
     rbind (Annotatef ''GasUsed'' (hexDecodeBig H (GasUsed r))) (\<lambda>gasUsed.
     rbind (Annotatef ''Status'' (hexDecodeBig H (Status_rr r))) (\<lambda>status.
     rbind (rmap (packLog H) (Logs r)) (\<lambda>logs.
     Inr \<lparr> GasUsed_pr = gasUsed, Status_pr = status, Log_pr = logs \<rparr>)))"

text \<open>The message is built in the order of the code, so the first failing field decides the error.\<close>

definition PackTx_eth :: "hexutil \<Rightarrow> eth_protobuf \<Rightarrow> Tx \<Rightarrow> uint32 \<Rightarrow> int64 \<Rightarrow> go_error + bytes" where
  "PackTx_eth H pb tx height blockTime =
     (case CoinSpecificData tx of
        CompleteTransaction r \<Rightarrow>
          let t = Tx_ct r in
          rbind (Annotatef ''AccountNonce'' (DecodeUint64 H (AccountNonce t))) (\<lambda>accountNonce.
          rbind (Annotatef ''BlockNumber'' (DecodeUint64 H (BlockNumber t))) (\<lambda>n.
          rbind (Annotatef ''From'' (hexDecode H (From_rt t))) (\<lambda>from.
          rbind (Annotatef ''GasLimit'' (DecodeUint64 H (GasLimit t))) (\<lambda>gasLimit.
          rbind (Annotatef ''Hash'' (hexDecode H (Hash_rt t))) (\<lambda>hash.
          rbind (Annotatef ''Payload'' (hexDecode H (Payload t))) (\<lambda>payload.
          rbind (Annotatef ''Price'' (hexDecodeBig H (GasPrice t))) (\<lambda>gasPrice.
          rbind (Annotatef ''To'' (hexDecode H (To_rt t))) (\<lambda>to.
          rbind (Annotatef ''TransactionIndex'' (DecodeUint64 H (TransactionIndex t))) (\<lambda>txIndex.
          rbind (Annotatef ''Value'' (hexDecodeBig H (Value_rt t))) (\<lambda>val.
          rbind (case Receipt_ct r of None \<Rightarrow> Inr None | Some rr \<Rightarrow> rbind (packReceipt H rr) (\<lambda>p. Inr (Some p))) (\<lambda>receipt.
          Marshal_eth pb
            \<lparr> BlockNumber_pct = ucast n, BlockTime_pct = blockTime,
              Tx_pct = Some \<lparr> AccountNonce_pc = accountNonce, GasPrice_pc = gasPrice, GasLimit_pc = gasLimit, Value_pc = val,
                Payload_pc = payload, Hash_pc = hash, To_pc = to, From_pc = from, TransactionIndex_pc = ucast txIndex \<rparr>,
              Receipt_pct = receipt \<rparr>)))))))))))
      | _ \<Rightarrow> Inl (Errorf ''Missing CoinSpecificData''))"

definition unpackLog :: "hexutil \<Rightarrow> ProtoCompleteTransaction_ReceiptType_LogType \<Rightarrow> rpcLog" where
  "unpackLog H l = \<lparr> Address_rl = Encode H (Address_pl l), Topics = map (Encode H) (Topics_pl l), Data_rl = Encode H (Data_pl l) \<rparr>"

definition unpackReceipt :: "hexutil \<Rightarrow> ProtoCompleteTransaction_ReceiptType \<Rightarrow> rpcReceipt" where
  "unpackReceipt H r = \<lparr> GasUsed = hexEncodeBig H (GasUsed_pr r), Status_rr = hexEncodeBig H (Status_pr r),
     Logs = map (unpackLog H) (Log_pr r) \<rparr>"

definition unpackRpcTransaction :: "hexutil \<Rightarrow> uint32 \<Rightarrow> ProtoCompleteTransaction_TxType \<Rightarrow> rpcTransaction" where
  "unpackRpcTransaction H blockNumber t =
     \<lparr> AccountNonce = EncodeUint64 H (AccountNonce_pc t), GasPrice = hexEncodeBig H (GasPrice_pc t),
       GasLimit = EncodeUint64 H (GasLimit_pc t), To_rt = Encode H (To_pc t), Value_rt = hexEncodeBig H (Value_pc t),
       Payload = Encode H (Payload_pc t), Hash_rt = Encode H (Hash_pc t), BlockNumber = EncodeUint64 H (ucast blockNumber),
       BlockHash = '''', From_rt = Encode H (From_pc t), TransactionIndex = EncodeUint64 H (ucast (TransactionIndex_pc t)) \<rparr>"

definition UnpackTx_eth :: "hexutil \<Rightarrow> eth_protobuf \<Rightarrow> bytes \<Rightarrow> go_error + (Tx \<times> uint32)" where
  "UnpackTx_eth H pb buf =
     rbind (Unmarshal_eth pb buf) (\<lambda>pt.
     case Tx_pct pt of
       None \<Rightarrow> Inl (Panic ''nil pointer dereference'')
     | Some t \<Rightarrow>
         rbind (ethTxToTx H (unpackRpcTransaction H (BlockNumber_pct pt) t) (map_option (unpackReceipt H) (Receipt_pct pt))
           (BlockTime_pct pt) 0) (\<lambda>tx. Inr (tx, BlockNumber_pct pt)))"

definition GetHeightFromTx :: "hexutil \<Rightarrow> Tx \<Rightarrow> go_error + uint32" where
  "GetHeightFromTx H tx =
     (case CoinSpecificData tx of
        CompleteTransaction csd \<Rightarrow>
          rbind (Annotatef ''BlockNumber'' (DecodeUint64 H (BlockNumber (Tx_ct csd)))) (\<lambda>n. Inr (ucast n))
      | _ \<Rightarrow> Inl (Errorf ''Missing CoinSpecificData''))"

section \<open>ERC20\<close>

definition erc20TransferMethodSignature :: string where "erc20TransferMethodSignature = ''0xa9059cbb''"
definition erc20TransferEventSignature :: string where
  "erc20TransferEventSignature = ''0xddf252ad1be2c89b69c2b068fc378daa952ba7f163c4a11628f55a4df523b3ef''"
definition erc20NameSignature :: string where "erc20NameSignature = ''0x06fdde03''"
definition erc20SymbolSignature :: string where "erc20SymbolSignature = ''0x95d89b41''"
definition erc20DecimalsSignature :: string where "erc20DecimalsSignature = ''0x313ce567''"
definition erc20BalanceOf :: string where "erc20BalanceOf = ''0x70a08231''"

definition addressFromPaddedHex :: "hexutil \<Rightarrow> string \<Rightarrow> go_error + string" where
  "addressFromPaddedHex H s =
     (case SetString16 (without0x s) of
        None \<Rightarrow> Inl (Errorf ''Data is not a number'')
      | Some t \<Rightarrow> Inr (BigToAddressString H t))"

definition transferFromLog :: "hexutil \<Rightarrow> rpcLog \<Rightarrow> Erc20Transfer list \<Rightarrow> go_error + Erc20Transfer list" where
  "transferFromLog H l r =
     (if length (Topics l) = 3 \<and> Topics l ! 0 = erc20TransferEventSignature then
        (case SetString0 (Data_rl l) of
           None \<Rightarrow> Inl (Errorf ''Data is not a number'')
         | Some t \<Rightarrow>
             rbind (addressFromPaddedHex H (Topics l ! 1)) (\<lambda>from.
             rbind (addressFromPaddedHex H (Topics l ! 2)) (\<lambda>to.
             Inr (r @ [\<lparr> Contract_et = ToLower (Address_rl l), From_et = ToLower from, To_et = ToLower to, Tokens_et = t \<rparr>]))))
      else Inr r)"

definition erc20GetTransfersFromLog :: "hexutil \<Rightarrow> rpcLog list \<Rightarrow> go_error + Erc20Transfer list" where
  "erc20GetTransfersFromLog H logs = rfold (transferFromLog H) logs []"

definition erc20GetTransfersFromTx :: "hexutil \<Rightarrow> rpcTransaction \<Rightarrow> go_error + Erc20Transfer list" where
  "erc20GetTransfersFromTx H tx =
     (let n = length erc20TransferMethodSignature in
      if length (Payload tx) = 128 + n \<and> HasPrefix (Payload tx) erc20TransferMethodSignature then
        rbind (slice (Payload tx) n (64 + n)) (\<lambda>arg.
        rbind (addressFromPaddedHex H arg) (\<lambda>to.
        rbind (slice_from (Payload tx) (n + 64)) (\<lambda>amount.
        case SetString16 amount of
          None \<Rightarrow> Inl (Errorf ''Data is not a number'')
        | Some t \<Rightarrow>
            Inr [\<lparr> Contract_et = ToLower (To_rt tx), From_et = ToLower (From_rt tx), To_et = ToLower to, Tokens_et = t \<rparr>])))
      else Inr [])"

definition EthereumTypeGetErc20FromTx_eth :: "hexutil \<Rightarrow> Tx \<Rightarrow> go_error + Erc20Transfer list" where
  "EthereumTypeGetErc20FromTx_eth H tx =
     (case CoinSpecificData tx of
        CompleteTransaction csd \<Rightarrow>
          (case Receipt_ct csd of
             Some receipt \<Rightarrow> erc20GetTransfersFromLog H (Logs receipt)
           | None \<Rightarrow> erc20GetTransfersFromTx H (Tx_ct csd))
      | _ \<Rightarrow> Inr [])"

text \<open>A contract property is a 32-byte word; \<open>None\<close> is nil.\<close>

definition parseErc20NumericProperty :: "string \<Rightarrow> int option" where
  "parseErc20NumericProperty data =
     (let data = without0x data in if length data = 64 then SetString16 data else None)"

text \<open>
  The length of a string property is compared as \<open>2*int(l)\<close> in 64 bits, while the slice is taken up to
  \<open>128+2*l\<close> in 64 bits without sign.
\<close>

definition parseErc20StringProperty :: "string \<Rightarrow> go_error + string" where
  "parseErc20StringProperty data =
     (let data = without0x data in
      if length data > 128 then
        (case parseErc20NumericProperty (take 64 (drop 64 data)) of
           Some n \<Rightarrow>
             let l = BigInt_Uint64 n in
             if sint (2 * l :: int64) \<le> int (length data) - 128 then
               rbind (slice data 128 (unat (128 + 2 * l))) (\<lambda>s.
               case DecodeString s of
                 Inr b \<Rightarrow> Inr (map (\<lambda>c. char_of (unat c)) b)
               | Inl _ \<Rightarrow> Inr '''')
             else Inr ''''
         | None \<Rightarrow> Inr '''')
      else Inr '''')"

record Erc20Contract =
  Contract_ec :: string
  Name_ec :: string
  Symbol_ec :: string
  Decimals_ec :: nat

text \<open>\<open>cachedContracts\<close> maps a descriptor to the contract, or to nil when it is none; the mutex is held only around each access.\<close>

type_synonym cachedContracts = "(bytes, Erc20Contract option) gomap"

definition askContract :: "hexutil \<Rightarrow> (string \<Rightarrow> string \<Rightarrow> go_error + string) \<Rightarrow> AddressDescriptor \<Rightarrow> go_error + Erc20Contract option" where
  "askContract H call contractDesc =
     (let address = Encode H contractDesc in
      rbind (call erc20NameSignature address) (\<lambda>data.
      rbind (parseErc20StringProperty data) (\<lambda>name.
      if name \<noteq> '''' then
        rbind (call erc20SymbolSignature address) (\<lambda>data.
        rbind (parseErc20StringProperty data) (\<lambda>symbol.
        rbind (call erc20DecimalsSignature address) (\<lambda>data.
        Inr (Some \<lparr> Contract_ec = address, Name_ec = name, Symbol_ec = symbol,
          Decimals_ec = (case parseErc20NumericProperty data of
              Some d \<Rightarrow> unat (ucast (BigInt_Uint64 d) :: 8 word)
            | None \<Rightarrow> nat EtherAmountDecimalPoint) \<rparr>))))
      else Inr None)))"

definition EthereumTypeGetErc20ContractInfo ::
    "hexutil \<Rightarrow> (string \<Rightarrow> string \<Rightarrow> go_error + string) \<Rightarrow> AddressDescriptor \<Rightarrow> cachedContracts \<Rightarrow>
     go_error + (Erc20Contract option \<times> cachedContracts)" where
  "EthereumTypeGetErc20ContractInfo H call contractDesc cache =
     (case map_of cache contractDesc of
        Some contract \<Rightarrow> Inr (contract, cache)
      | None \<Rightarrow>
          rbind (askContract H call contractDesc) (\<lambda>contract.
          Inr (contract, AList.update contractDesc contract cache)))"

definition balanceOfRequest :: "hexutil \<Rightarrow> AddressDescriptor \<Rightarrow> go_error + string" where
  "balanceOfRequest H addrDesc =
     (let addr = Encode H addrDesc in
      rbind (slice_int (replicate 64 CHR ''0'') (int (length addr) - 2) 64) (\<lambda>zs.
      rbind (slice_from addr 2) (\<lambda>a. Inr (erc20BalanceOf @ zs @ a))))"

definition EthereumTypeGetErc20ContractBalance ::
    "hexutil \<Rightarrow> (string \<Rightarrow> string \<Rightarrow> go_error + string) \<Rightarrow> AddressDescriptor \<Rightarrow> AddressDescriptor \<Rightarrow> go_error + int" where
  "EthereumTypeGetErc20ContractBalance H call addrDesc contractDesc =
     rbind (balanceOfRequest H addrDesc) (\<lambda>req.
     rbind (call req (Encode H contractDesc)) (\<lambda>data.
     case parseErc20NumericProperty data of
       None \<Rightarrow> Inl (Errorf ''Invalid balance'')
     | Some r \<Rightarrow> Inr r))"

section \<open>Ethereum data of a transaction\<close>

definition txStatusUnknown :: int where "txStatusUnknown = - 2"
definition txStatusPending :: int where "txStatusPending = - 1"
definition txStatusFailure :: int where "txStatusFailure = 0"
definition txStatusOK :: int where "txStatusOK = 1"

record EthereumTxData =
  Status_etd :: int
  Nonce_etd :: uint64
  GasLimit_etd :: "int option"
  GasUsed_etd :: "int option"
  GasPrice_etd :: "int option"

definition toOption :: "go_error + 'a \<Rightarrow> 'a option" where
  "toOption r = (case r of Inl _ \<Rightarrow> None | Inr x \<Rightarrow> Some x)"

definition receiptStatus :: "rpcReceipt \<Rightarrow> int" where
  "receiptStatus r =
     (if Status_rr r = ''0x1'' then txStatusOK
      else if Status_rr r = '''' then txStatusUnknown
      else txStatusFailure)"

definition GetEthereumTxData :: "hexutil \<Rightarrow> Tx \<Rightarrow> EthereumTxData" where
  "GetEthereumTxData H tx =
     (case CoinSpecificData tx of
        CompleteTransaction csd \<Rightarrow>
          \<lparr> Status_etd = (case Receipt_ct csd of Some r \<Rightarrow> receiptStatus r | None \<Rightarrow> txStatusPending),
            Nonce_etd = (case DecodeUint64 H (AccountNonce (Tx_ct csd)) of Inr n \<Rightarrow> n | Inl _ \<Rightarrow> 0),
            GasLimit_etd = toOption (DecodeBig H (GasLimit (Tx_ct csd))),
            GasUsed_etd = (case Receipt_ct csd of Some r \<Rightarrow> toOption (DecodeBig H (GasUsed r)) | None \<Rightarrow> None),
            GasPrice_etd = toOption (DecodeBig H (GasPrice (Tx_ct csd))) \<rparr>
      | _ \<Rightarrow> \<lparr> Status_etd = txStatusPending, Nonce_etd = 0, GasLimit_etd = None, GasUsed_etd = None, GasPrice_etd = None \<rparr>)"

section \<open>The parser\<close>

text \<open>The methods that differ from the base parser.\<close>

definition NewEthereumParser :: "parser_packages \<Rightarrow> hexutil \<Rightarrow> eth_protobuf \<Rightarrow> int \<Rightarrow> BlockChainParser" where
  "NewEthereumParser P H pb b =
     (embedBaseParser P \<lparr> BlockAddressesToKeep = b, AmountDecimalPoint = EtherAmountDecimalPoint \<rparr>
        GetAddrDescFromVout_eth GetAddrDescFromAddress_eth (GetAddressesFromAddrDesc_eth H) GetScriptFromAddrDesc_eth)
     \<lparr> GetChainType := ChainEthereumType, PackedTxidLen := PackedTxidLen_eth, PackTxid := PackTxid_eth,
       UnpackTxid := UnpackTxid_eth H, PackBlockHash := PackBlockHash_eth, UnpackBlockHash := UnpackBlockHash_eth H,
       PackTx := PackTx_eth H pb, UnpackTx := UnpackTx_eth H pb,
       EthereumTypeGetErc20FromTx := EthereumTypeGetErc20FromTx_eth H \<rparr>"

section \<open>What the code relies on from \<open>hexutil\<close>\<close>

locale hexutil_codec =
  fixes H :: hexutil
  assumes Encode_hex: "Encode H b = ''0x'' @ EncodeToString b"
    and Decode_Encode: "Decode H (Encode H b) = Inr b"
    and Decode_empty: "Decode H '''' = Inl (ErrEmptyString H)"
    and DecodeUint64_EncodeUint64: "DecodeUint64 H (EncodeUint64 H n) = Inr n"
    and DecodeBig_EncodeBig: "0 \<le> i \<Longrightarrow> i < 2 ^ 256 \<Longrightarrow> DecodeBig H (EncodeBig H i) = Inr i"
    and DecodeBig_empty: "\<exists>e. DecodeBig H '''' = Inl e"
    and BigToAddress_hex: "length a = 20 \<Longrightarrow> ToLower (BigToAddressString H (int (be_val a))) = ''0x'' @ EncodeToString a"

lemma has0xPrefix_0x: "has0xPrefix (CHR ''0'' # CHR ''x'' # s)"
  by (simp add: has0xPrefix_def)

lemma without0x_0x [simp]: "without0x (CHR ''0'' # CHR ''x'' # s) = s"
  by (simp add: without0x_def has0xPrefix_0x)

context hexutil_codec
begin

lemma hexDecode_Encode: "hexDecode H (Encode H b) = Inr b"
  by (simp add: hexDecode_def Decode_Encode)

lemma hexDecodeBig_EncodeBig:
  "0 \<le> i \<Longrightarrow> i < 2 ^ 256 \<Longrightarrow> \<exists>b. hexDecodeBig H (EncodeBig H i) = Inr b \<and> hexEncodeBig H b = EncodeBig H i"
  by (simp add: hexDecodeBig_def hexEncodeBig_def DecodeBig_EncodeBig BigInt_SetBytes_Bytes)

end

text \<open>With this package the ethereum parser meets the contract that the index relies on.\<close>

sublocale hexutil_codec \<subseteq> eth: txid_parser "NewEthereumParser P H pb k" for P pb k
  by unfold_locales
    (auto simp: NewEthereumParser_def PackedTxidLen_eth_def UnpackTxid_eth_def PackTxid_eth_def
       UnpackBlockHash_eth_def PackBlockHash_eth_def Encode_hex)

subsection \<open>An instance\<close>

fun hex_digits :: "nat \<Rightarrow> string" where
  "hex_digits n = (if n < 16 then [hexDigits ! n] else hex_digits (n div 16) @ [hexDigits ! (n mod 16)])"

declare hex_digits.simps [simp del]

definition hex_digits_if :: "bool \<Rightarrow> nat \<Rightarrow> string" where
  "hex_digits_if b n = (if b then [hexDigits ! n] else hex_digits (n div 16) @ [hexDigits ! (n mod 16)])"

lemma hex_digits_if_code [code]:
  "hex_digits_if True n = [hexDigits ! n]"
  "hex_digits_if False n = hex_digits (n div 16) @ [hexDigits ! (n mod 16)]"
  by (simp_all add: hex_digits_if_def)

lemma hex_digits_code [code]: "hex_digits n = hex_digits_if (n < 16) n"
  unfolding hex_digits_if_def by (rule hex_digits.simps)

lemma hex_val_append: "hex_val a (s @ t) = (case hex_val a s of Some b \<Rightarrow> hex_val b t | None \<Rightarrow> None)"
  by (induction a s rule: hex_val.induct) (auto split: option.splits)

lemma hex_val_hex_digits: "hex_val 0 (hex_digits n) = Some n"
proof (induction n rule: hex_digits.induct)
  case (1 n)
  then show ?case by (subst hex_digits.simps) (auto simp: fromHexChar_digit hex_val_append)
qed

lemma length_hex_digits: "n < 16 ^ k \<Longrightarrow> 0 < k \<Longrightarrow> length (hex_digits n) \<le> k"
proof (induction n arbitrary: k rule: hex_digits.induct)
  case (1 n)
  show ?case
  proof (cases "n < 16")
    case True
    then show ?thesis using 1(3) by (subst hex_digits.simps) simp
  next
    case False
    then obtain j where k: "k = Suc j" "0 < j" using 1(2,3) by (cases k; cases "k - 1") auto
    then have "n div 16 < 16 ^ j" using 1(2) by (simp add: less_mult_imp_div_less mult.commute)
    with 1(1)[OF False, of j] k False show ?thesis by (subst hex_digits.simps) simp
  qed
qed

lemma hex_digits_leading: "hex_digits n \<noteq> [] \<and> (1 < length (hex_digits n) \<longrightarrow> hex_digits n ! 0 \<noteq> CHR ''0'')"
proof (induction n rule: hex_digits.induct)
  case (1 n)
  have z: "hexDigits ! m \<noteq> CHR ''0''" if "0 < m" "m < 16" for m
    using fromHexChar_digit[OF that(2)] that(1) by (auto simp: fromHexChar_def)
  show ?case
  proof (cases "n < 16")
    case True
    then show ?thesis by (subst (1 2) hex_digits.simps) (simp add: hex_digits.simps)
  next
    case False
    then have ih: "hex_digits (n div 16) \<noteq> []" "1 < length (hex_digits (n div 16)) \<Longrightarrow> hex_digits (n div 16) ! 0 \<noteq> CHR ''0''"
      using 1 by auto
    have "hex_digits (n div 16) ! 0 \<noteq> CHR ''0''"
    proof (cases "n div 16 < 16")
      case True
      have "hex_digits (n div 16) = [hexDigits ! (n div 16)]" using True by (subst hex_digits.simps) simp
      moreover have "0 < n div 16" using False by simp
      ultimately show ?thesis using z True by simp
    next
      case False
      then have "1 < length (hex_digits (n div 16))"
        using 1 by (subst hex_digits.simps) (simp, metis ih(1) length_greater_0_conv hex_digits.simps append_is_Nil_conv list.distinct(1))
      then show ?thesis by (rule ih(2))
    qed
    then show ?thesis using False ih(1) by (subst (1 2 3) hex_digits.simps) (simp add: nth_append)
  qed
qed

definition checkNumber :: "string \<Rightarrow> go_error + string" where
  "checkNumber s =
     (if s = '''' then Inl (Errorf ''empty hex string'')
      else if \<not> has0xPrefix s then Inl (Errorf ''hex string without 0x prefix'')
      else if drop 2 s = '''' then Inl (Errorf ''hex string has length 0'')
      else if 1 < length (drop 2 s) \<and> drop 2 s ! 0 = CHR ''0'' then Inl (Errorf ''hex number with leading zero digits'')
      else Inr (drop 2 s))"

definition decodeNumber :: "nat \<Rightarrow> string \<Rightarrow> go_error + nat" where
  "decodeNumber k s =
     rbind (checkNumber s) (\<lambda>raw.
     if length raw > k then Inl (Errorf ''hex number too large'')
     else (case hex_val 0 raw of Some n \<Rightarrow> Inr n | None \<Rightarrow> Inl (Errorf ''invalid hex string'')))"

definition plainHexutil :: hexutil where
  "plainHexutil =
     \<lparr> Encode = (\<lambda>b. ''0x'' @ EncodeToString b),
       Decode = (\<lambda>s. if s = '''' then Inl (Errorf ''empty hex string'')
          else if \<not> has0xPrefix s then Inl (Errorf ''hex string without 0x prefix'') else DecodeString (drop 2 s)),
       EncodeUint64 = (\<lambda>n. ''0x'' @ hex_digits (unat n)),
       DecodeUint64 = (\<lambda>s. rbind (decodeNumber 16 s) (\<lambda>n. Inr (of_nat n))),
       EncodeBig = (\<lambda>i. (if i < 0 then ''-'' else '''') @ ''0x'' @ hex_digits (nat \<bar>i\<bar>)),
       DecodeBig = (\<lambda>s. rbind (decodeNumber 64 s) (\<lambda>n. Inr (int n))),
       ErrEmptyString = Errorf ''empty hex string'',
       BigToAddressString = (\<lambda>i. let b = BigInt_Bytes i in
          ''0x'' @ EncodeToString (replicate (20 - length b) 0 @ drop (length b - 20) b)) \<rparr>"

lemma decodeNumber_hex_digits:
  assumes "n < 16 ^ k" and "0 < k"
  shows "decodeNumber k (CHR ''0'' # CHR ''x'' # hex_digits n) = Inr n"
  using length_hex_digits[OF assms] hex_digits_leading[of n]
  by (simp add: decodeNumber_def checkNumber_def has0xPrefix_0x hex_val_hex_digits)

lemma hexDigits_lower: "n < 16 \<Longrightarrow> toLowerChar (hexDigits ! n) = hexDigits ! n"
proof -
  assume "n < 16"
  then have "n \<in> set [0..<16]" by simp
  then show ?thesis by (simp add: upt_rec) (elim disjE; simp add: hexDigits_def toLowerChar_def)
qed

lemma ToLower_EncodeToString [simp]: "ToLower (EncodeToString b) = EncodeToString b"
proof (induction b)
  case (Cons x b)
  have "unat x div 16 < 16" using unsigned_less[of x, where 'a = nat] by simp
  with Cons show ?case by (simp add: EncodeToString_def hexByte_def ToLower_def hexDigits_lower)
qed (simp add: EncodeToString_def ToLower_def)

lemma ToLower_0x [simp]: "ToLower (CHR ''0'' # CHR ''x'' # s) = CHR ''0'' # CHR ''x'' # ToLower s"
  by (simp add: ToLower_def toLowerChar_def)

text \<open>The bytes of a number, padded to the length they came from.\<close>

lemma BigInt_Bytes_pad: "BigInt_Bytes_nat (be_val b) = dropWhile (\<lambda>x. x = 0) b"
proof (induction b rule: rev_induct)
  case Nil
  then show ?case by (simp add: BigInt_Bytes_nat.simps)
next
  case (snoc x b)
  have x: "unat x < 256" using unsigned_less[of x, where 'a = nat] by simp
  show ?case
  proof (cases "be_val (b @ [x]) = 0")
    case True
    then have "x = 0" "be_val b = 0" by (simp_all add: unat_eq_zero)
    moreover have "dropWhile (\<lambda>x. x = 0) b = []"
      using snoc \<open>be_val b = 0\<close> by (simp add: BigInt_Bytes_nat.simps)
    ultimately show ?thesis by (simp add: BigInt_Bytes_nat.simps dropWhile_append)
  next
    case False
    have "be_val (b @ [x]) div 256 = be_val b" using x by simp
    moreover have "(of_nat (be_val (b @ [x])) :: byte) = x"
    proof -
      have "(of_nat (be_val b * 256) :: byte) = 0" unfolding word_of_nat_eq_0_iff by simp
      then show ?thesis by (simp only: be_val_snoc of_nat_add) simp
    qed
    ultimately have e: "BigInt_Bytes_nat (be_val (b @ [x])) = dropWhile (\<lambda>x. x = 0) b @ [x]"
      using False snoc by (subst BigInt_Bytes_nat.simps) (simp del: be_val_snoc)
    show ?thesis
    proof (cases "dropWhile (\<lambda>x. x = 0) b = []")
      case True
      then have "be_val b = 0" using snoc by (metis BigInt_Bytes_nat.simps append_is_Nil_conv list.distinct(1))
      then have "x \<noteq> 0" using False by auto
      then show ?thesis using e True by (simp add: dropWhile_append)
    next
      case False
      then show ?thesis using e by (simp add: dropWhile_append)
    qed
  qed
qed

lemma replicate_dropWhile: "replicate (length b - length (dropWhile (\<lambda>x. x = c) b)) c @ dropWhile (\<lambda>x. x = c) b = b"
proof (induction b)
  case (Cons x b)
  have "length (dropWhile (\<lambda>x. x = c) b) \<le> length b" by (rule length_dropWhile_le)
  with Cons show ?case by (auto simp: Suc_diff_le)
qed simp

interpretation plain: hexutil_codec plainHexutil
proof
  show "ToLower (BigToAddressString plainHexutil (int (be_val a))) = ''0x'' @ EncodeToString a" if "length a = 20" for a
  proof -
    let ?b = "dropWhile (\<lambda>x. x = 0) a"
    have "length ?b \<le> 20" using length_dropWhile_le[of "\<lambda>x. x = 0" a] that by simp
    then have "replicate (20 - length ?b) 0 @ drop (length ?b - 20) ?b = a"
      using replicate_dropWhile[of a 0] that by simp
    then show ?thesis by (simp add: plainHexutil_def BigInt_Bytes_def BigInt_Bytes_pad Let_def)
  qed
  show "DecodeUint64 plainHexutil (EncodeUint64 plainHexutil n) = Inr n" for n
    using unsigned_less[of n, where 'a = nat] decodeNumber_hex_digits[of "unat n" 16] by (simp add: plainHexutil_def)
  show "DecodeBig plainHexutil (EncodeBig plainHexutil i) = Inr i" if "0 \<le> i" "i < 2 ^ 256" for i
  proof -
    have "nat i < nat (2 ^ 256)" using that by (subst nat_less_eq_zless) auto
    then have "nat i < 16 ^ 64" by simp
    then show ?thesis using decodeNumber_hex_digits[of "nat i" 64] that(1) by (simp add: plainHexutil_def)
  qed
qed (simp_all add: plainHexutil_def has0xPrefix_0x decodeNumber_def checkNumber_def)

section \<open>Properties\<close>

text \<open>Address descriptors and addresses of the ethereum parser correspond. The address of a descriptor of 20 bytes is
  read back as this descriptor, in an output as well; and every descriptor that is read from an address has
  20 bytes, the length that the columns of the index rely on.\<close>

theorem eth_address_roundtrip:
  assumes "hexutil_codec H"
  shows "(length d = 20 \<longrightarrow> (\<exists>a. GetAddressesFromAddrDesc_eth H d = Inr ([a], True) \<and> GetAddrDescFromAddress_eth a = Inr d \<and>
      (\<forall>vout. Addresses_spk (ScriptPubKey_vout vout) = [a] \<longrightarrow> GetAddrDescFromVout_eth vout = Inr d))) \<and>
    (GetAddrDescFromAddress_eth s = Inr d \<longrightarrow> length d = 20)"
proof (intro conjI impI)
  assume "length d = 20"
  then show "\<exists>a. GetAddressesFromAddrDesc_eth H d = Inr ([a], True) \<and> GetAddrDescFromAddress_eth a = Inr d \<and>
      (\<forall>vout. Addresses_spk (ScriptPubKey_vout vout) = [a] \<longrightarrow> GetAddrDescFromVout_eth vout = Inr d)"
    by (simp add: GetAddressesFromAddrDesc_eth_def GetAddrDescFromAddress_eth_def GetAddrDescFromVout_eth_def
        hexutil_codec.Encode_hex[OF assms] EthereumTypeAddressDescriptorLen_def)
next
  have len: "DecodeString t = Inr b \<Longrightarrow> length t = 2 * length b" for t b
    by (induction t arbitrary: b rule: DecodeString.induct) (auto simp: rbind_eq_Inr_iff split: option.splits)
  assume "GetAddrDescFromAddress_eth s = Inr d"
  then show "length d = 20"
    using len[of "without0x s" d] by (auto simp: GetAddrDescFromAddress_eth_def EthereumTypeAddressDescriptorLen_def Let_def split: if_splits)
qed

theorem eth_address_roundtrip_witness:
  "hexutil_codec plainHexutil \<and> (\<exists>a. GetAddressesFromAddrDesc_eth plainHexutil (replicate 20 7) = Inr ([a], True) \<and>
     GetAddrDescFromAddress_eth a = Inr (replicate 20 7))"
  using eth_address_roundtrip[OF plain.hexutil_codec_axioms, of "replicate 20 7"] plain.hexutil_codec_axioms by simp blast

text \<open>Strings in the form that \<open>hexutil\<close> prints, as the back end sends them.\<close>

definition canonicalBytes :: "hexutil \<Rightarrow> string \<Rightarrow> bool" where
  "canonicalBytes H s \<longleftrightarrow> (\<exists>b. s = Encode H b)"

definition canonicalBig :: "hexutil \<Rightarrow> string \<Rightarrow> bool" where
  "canonicalBig H s \<longleftrightarrow> (\<exists>i. 0 \<le> i \<and> i < 2 ^ 256 \<and> s = EncodeBig H i)"

definition canonicalUint :: "hexutil \<Rightarrow> string \<Rightarrow> bool" where
  "canonicalUint H s \<longleftrightarrow> (\<exists>n. s = EncodeUint64 H n)"

definition canonicalUint32 :: "hexutil \<Rightarrow> string \<Rightarrow> bool" where
  "canonicalUint32 H s \<longleftrightarrow> (\<exists>n :: uint32. s = EncodeUint64 H (ucast n))"

definition log_ok :: "hexutil \<Rightarrow> rpcLog \<Rightarrow> bool" where
  "log_ok H l \<longleftrightarrow> canonicalBytes H (Address_rl l) \<and> canonicalBytes H (Data_rl l) \<and> list_all (canonicalBytes H) (Topics l)"

definition receipt_ok :: "hexutil \<Rightarrow> rpcReceipt \<Rightarrow> bool" where
  "receipt_ok H r \<longleftrightarrow> canonicalBig H (GasUsed r) \<and> canonicalBig H (Status_rr r) \<and> list_all (log_ok H) (Logs r)"

definition rpcTransaction_ok :: "hexutil \<Rightarrow> rpcTransaction \<Rightarrow> bool" where
  "rpcTransaction_ok H t \<longleftrightarrow> canonicalUint H (AccountNonce t) \<and> canonicalBig H (GasPrice t) \<and> canonicalUint H (GasLimit t) \<and>
     canonicalBytes H (To_rt t) \<and> canonicalBig H (Value_rt t) \<and> canonicalBytes H (Payload t) \<and> canonicalBytes H (Hash_rt t) \<and>
     canonicalUint32 H (BlockNumber t) \<and> canonicalBytes H (From_rt t) \<and> canonicalUint32 H (TransactionIndex t)"

context hexutil_codec
begin

lemma canonical_bytes: "canonicalBytes H s \<Longrightarrow> \<exists>b. Decode H s = Inr b \<and> hexDecode H s = Inr b \<and> Encode H b = s"
  by (auto simp: canonicalBytes_def Decode_Encode hexDecode_def)

lemma canonical_big: "canonicalBig H s \<Longrightarrow> \<exists>b. hexDecodeBig H s = Inr b \<and> hexEncodeBig H b = s"
  by (auto simp: canonicalBig_def intro!: hexDecodeBig_EncodeBig)

lemma canonical_uint: "canonicalUint H s \<Longrightarrow> \<exists>n. DecodeUint64 H s = Inr n \<and> EncodeUint64 H n = s"
  by (auto simp: canonicalUint_def DecodeUint64_EncodeUint64)

lemma canonical_uint32: "canonicalUint32 H s \<Longrightarrow> \<exists>n :: uint32. DecodeUint64 H s = Inr (ucast n) \<and> EncodeUint64 H (ucast n) = s"
  by (auto simp: canonicalUint32_def DecodeUint64_EncodeUint64)

lemma packLog_unpackLog: "log_ok H l \<Longrightarrow> \<exists>p. packLog H l = Inr p \<and> unpackLog H p = l"
proof -
  assume l: "log_ok H l"
  then obtain a d where a: "Decode H (Address_rl l) = Inr a" "Encode H a = Address_rl l"
    and d: "Decode H (Data_rl l) = Inr d" "Encode H d = Data_rl l"
    using canonical_bytes unfolding log_ok_def by metis
  have "list_all (canonicalBytes H) ts \<Longrightarrow>
      \<exists>t. rmap (\<lambda>s. Annotatef ''Topic cannot be decoded'' (Decode H s)) ts = Inr t \<and> map (Encode H) t = ts" for ts
  proof (induction ts)
    case (Cons s ts)
    then show ?case using canonical_bytes[of s] by fastforce
  qed simp
  then obtain t where "rmap (\<lambda>s. Annotatef ''Topic cannot be decoded'' (Decode H s)) (Topics l) = Inr t" "map (Encode H) t = Topics l"
    using l by (auto simp: log_ok_def)
  then show ?thesis using a d by (cases l) (simp add: packLog_def unpackLog_def)
qed

lemma packReceipt_unpackReceipt: "receipt_ok H r \<Longrightarrow> \<exists>p. packReceipt H r = Inr p \<and> unpackReceipt H p = r"
proof -
  assume r: "receipt_ok H r"
  then obtain g s where g: "hexDecodeBig H (GasUsed r) = Inr g" "hexEncodeBig H g = GasUsed r"
    and s: "hexDecodeBig H (Status_rr r) = Inr s" "hexEncodeBig H s = Status_rr r"
    using canonical_big unfolding receipt_ok_def by metis
  have "list_all (log_ok H) ls \<Longrightarrow> \<exists>p. rmap (packLog H) ls = Inr p \<and> map (unpackLog H) p = ls" for ls
  proof (induction ls)
    case (Cons l ls)
    then show ?case using packLog_unpackLog[of l] by fastforce
  qed simp
  then obtain p where "rmap (packLog H) (Logs r) = Inr p" "map (unpackLog H) p = Logs r" using r by (auto simp: receipt_ok_def)
  then show ?thesis using g s by (cases r) (simp add: packReceipt_def unpackReceipt_def)
qed

text \<open>The message that is stored for a transaction.\<close>

lemma PackTx_eth_message:
  assumes "CoinSpecificData tx = CompleteTransaction ct" and "rpcTransaction_ok H (Tx_ct ct)"
    and "\<And>r. Receipt_ct ct = Some r \<Longrightarrow> receipt_ok H r"
  shows "\<exists>bn t pr. (\<forall>pb. PackTx_eth H pb tx h bt =
      Marshal_eth pb \<lparr> BlockNumber_pct = bn, BlockTime_pct = bt, Tx_pct = Some t, Receipt_pct = pr \<rparr>) \<and>
    unpackRpcTransaction H bn t = (Tx_ct ct)\<lparr> BlockHash := '''' \<rparr> \<and> map_option (unpackReceipt H) pr = Receipt_ct ct \<and>
    BlockNumber (Tx_ct ct) = EncodeUint64 H (ucast bn)"
proof -
  let ?t = "Tx_ct ct"
  obtain an gl where u: "DecodeUint64 H (AccountNonce ?t) = Inr an" "EncodeUint64 H an = AccountNonce ?t"
      "DecodeUint64 H (GasLimit ?t) = Inr gl" "EncodeUint64 H gl = GasLimit ?t"
    using assms(2) canonical_uint unfolding rpcTransaction_ok_def by metis
  obtain bn ti :: uint32 where v: "DecodeUint64 H (BlockNumber ?t) = Inr (ucast bn)" "EncodeUint64 H (ucast bn) = BlockNumber ?t"
      "DecodeUint64 H (TransactionIndex ?t) = Inr (ucast ti)" "EncodeUint64 H (ucast ti) = TransactionIndex ?t"
    using assms(2) canonical_uint32 unfolding rpcTransaction_ok_def by metis
  obtain to fr pl ha where b: "hexDecode H (To_rt ?t) = Inr to" "Encode H to = To_rt ?t" "hexDecode H (From_rt ?t) = Inr fr"
      "Encode H fr = From_rt ?t" "hexDecode H (Payload ?t) = Inr pl" "Encode H pl = Payload ?t"
      "hexDecode H (Hash_rt ?t) = Inr ha" "Encode H ha = Hash_rt ?t"
    using assms(2) canonical_bytes unfolding rpcTransaction_ok_def by metis
  obtain gp va where g: "hexDecodeBig H (GasPrice ?t) = Inr gp" "hexEncodeBig H gp = GasPrice ?t"
      "hexDecodeBig H (Value_rt ?t) = Inr va" "hexEncodeBig H va = Value_rt ?t"
    using assms(2) canonical_big unfolding rpcTransaction_ok_def by metis
  obtain pr where r: "(case Receipt_ct ct of None \<Rightarrow> Inr None | Some rr \<Rightarrow> rbind (packReceipt H rr) (\<lambda>p. Inr (Some p))) = Inr pr"
      "map_option (unpackReceipt H) pr = Receipt_ct ct"
    using assms(3) packReceipt_unpackReceipt by (cases "Receipt_ct ct") fastforce+
  define t where "t = \<lparr> AccountNonce_pc = an, GasPrice_pc = gp, GasLimit_pc = gl, Value_pc = va,
      Payload_pc = pl, Hash_pc = ha, To_pc = to, From_pc = fr, TransactionIndex_pc = ti \<rparr>"
  have "PackTx_eth H pb tx h bt = Marshal_eth pb \<lparr> BlockNumber_pct = bn, BlockTime_pct = bt, Tx_pct = Some t, Receipt_pct = pr \<rparr>" for pb
    unfolding PackTx_eth_def by (simp add: assms(1) u v b g r(1) t_def)
  moreover have "unpackRpcTransaction H bn t = ?t\<lparr> BlockHash := '''' \<rparr>"
    using u v b g by (cases ?t) (simp add: unpackRpcTransaction_def t_def)
  ultimately show ?thesis using r(2) v(2) by metis
qed

end
text \<open>C27: A stored ethereum type transaction is read back. If the strings of the transaction have the canonical form in which
  the back end sends them, with a block number and an index below \<open>2^32\<close>, and the message that was stored is the one that is
  read, then unpacking gives the transaction that the rpc data and the receipt describe, with the block time it was stored with, no
  confirmations, without the block hash, which is not stored, and the block number as its height.\<close>

theorem eth_tx_roundtrip:
  assumes "hexutil_codec H" and "CoinSpecificData tx = CompleteTransaction ct" and "rpcTransaction_ok H (Tx_ct ct)"
    and "\<And>r. Receipt_ct ct = Some r \<Longrightarrow> receipt_ok H r"
    and "\<And>m. Marshal_eth pb m = Inr buf \<Longrightarrow> Unmarshal_eth pb buf = Inr m" and "PackTx_eth H pb tx h bt = Inr buf"
  shows "\<exists>tx' bn. UnpackTx_eth H pb buf = Inr (tx', bn) \<and> GetHeightFromTx H tx' = Inr bn \<and>
    ethTxToTx H ((Tx_ct ct)\<lparr> BlockHash := '''' \<rparr>) (Receipt_ct ct) bt 0 = Inr tx' \<and> EncodeUint64 H (ucast bn) = BlockNumber (Tx_ct ct)"
proof -
  obtain bn t pr where m: "PackTx_eth H pb tx h bt = Marshal_eth pb \<lparr> BlockNumber_pct = bn, BlockTime_pct = bt, Tx_pct = Some t, Receipt_pct = pr \<rparr>"
    and t: "unpackRpcTransaction H bn t = (Tx_ct ct)\<lparr> BlockHash := '''' \<rparr>" and pr: "map_option (unpackReceipt H) pr = Receipt_ct ct"
    and bn: "BlockNumber (Tx_ct ct) = EncodeUint64 H (ucast bn)"
    using hexutil_codec.PackTx_eth_message[OF assms(1-4), of h bt] by blast
  let ?m = "\<lparr> BlockNumber_pct = bn, BlockTime_pct = bt, Tx_pct = Some t, Receipt_pct = pr \<rparr>"
  have un: "Unmarshal_eth pb buf = Inr ?m" using assms(5,6) m by simp
  obtain i where i: "DecodeBig H (Value_rt (Tx_ct ct)) = Inr i"
    using assms(3) hexutil_codec.DecodeBig_EncodeBig[OF assms(1)] by (auto simp: rpcTransaction_ok_def canonicalBig_def)
  obtain tx' where e: "ethTxToTx H ((Tx_ct ct)\<lparr> BlockHash := '''' \<rparr>) (Receipt_ct ct) bt 0 = Inr tx'"
    and cd: "CoinSpecificData tx' = CompleteTransaction \<lparr> Tx_ct = (Tx_ct ct)\<lparr> BlockHash := '''' \<rparr>, Receipt_ct = Receipt_ct ct \<rparr>"
    by (simp add: ethTxToTx_def Let_def i)
  have "UnpackTx_eth H pb buf = Inr (tx', bn)" by (simp add: UnpackTx_eth_def un t pr e)
  moreover have "GetHeightFromTx H tx' = Inr bn"
    by (simp add: GetHeightFromTx_def cd bn hexutil_codec.DecodeUint64_EncodeUint64[OF assms(1)])
  ultimately show ?thesis using e bn by metis
qed

definition sampleRpc :: rpcTransaction where
  "sampleRpc = \<lparr> AccountNonce = ''0x5'', GasPrice = ''0x3b'', GasLimit = ''0x5208'', To_rt = ''0x0102'', Value_rt = ''0x1bc0'',
     Payload = ''0x'', Hash_rt = ''0xcd64'', BlockNumber = ''0x41eee8'', BlockHash = ''0xab'', From_rt = ''0x03'', TransactionIndex = ''0xa'' \<rparr>"

lemma sampleRpc_ok: "rpcTransaction_ok plainHexutil sampleRpc"
proof -
  have u: "canonicalUint plainHexutil s" if "s = ''0x'' @ hex_digits (unat n)" for s and n :: uint64
    unfolding canonicalUint_def using that by (intro exI[of _ n]) (simp add: plainHexutil_def)
  have v: "canonicalUint32 plainHexutil s" if "s = ''0x'' @ hex_digits (unat (ucast n :: uint64))" for s and n :: uint32
    unfolding canonicalUint32_def using that by (intro exI[of _ n]) (simp add: plainHexutil_def)
  have b: "canonicalBytes plainHexutil s" if "s = ''0x'' @ EncodeToString b" for s b
    using that by (auto simp: canonicalBytes_def plainHexutil_def)
  have i: "canonicalBig plainHexutil s" if "s = ''0x'' @ hex_digits n" "n < 2 ^ 256" for s n
    unfolding canonicalBig_def using that by (intro exI[of _ "int n"]) (simp add: plainHexutil_def)
  note d = hex_digits.simps hexDigits_def EncodeToString_def hexByte_def
  show ?thesis unfolding rpcTransaction_ok_def sampleRpc_def
    using u[of "''0x5''" 5] u[of "''0x5208''" "0x5208"] v[of "''0x41eee8''" "0x41eee8"] v[of "''0xa''" 10] b[of "''0x0102''" "[1, 2]"]
      b[of "''0x''" "[]"] b[of "''0xcd64''" "[0xcd, 0x64]"] b[of "''0x03''" "[3]"] i[of "''0x3b''" "0x3b"] i[of "''0x1bc0''" "0x1bc0"]
    by (simp add: d)
qed

text \<open>A store that keeps one message.\<close>

definition oneMessage :: "ProtoCompleteTransaction \<Rightarrow> eth_protobuf" where
  "oneMessage m = \<lparr> Marshal_eth = (\<lambda>x. if x = m then Inr [1] else Inl (Errorf ''other message'')),
     Unmarshal_eth = (\<lambda>_. Inr m) \<rparr>"

definition sampleEthTx :: Tx where
  "sampleEthTx = \<lparr> Hex_tx = '''', Txid_tx = ''0xcd64'', Version_tx = 0, LockTime = 0, Vin_tx = [], Vout_tx = [], Confirmations_tx = 3,
     Time_tx = 9, Blocktime = 9, VShieldIn_tx = [], VShieldOut_tx = [], ShieldValBal_tx = 0,
     CoinSpecificData = CompleteTransaction \<lparr> Tx_ct = sampleRpc, Receipt_ct = None \<rparr> \<rparr>"

theorem eth_tx_roundtrip_witness:
  "\<exists>pb tx' bn. PackTx_eth plainHexutil pb sampleEthTx 7 9 = Inr [1] \<and> UnpackTx_eth plainHexutil pb [1] = Inr (tx', bn) \<and>
     GetHeightFromTx plainHexutil tx' = Inr bn"
proof -
  let ?ct = "\<lparr> Tx_ct = sampleRpc, Receipt_ct = None \<rparr>"
  have c: "CoinSpecificData sampleEthTx = CompleteTransaction ?ct" by (simp add: sampleEthTx_def)
  obtain m where m: "\<And>pb. PackTx_eth plainHexutil pb sampleEthTx 7 9 = Marshal_eth pb m"
    using plain.PackTx_eth_message[OF c, of 7 9] sampleRpc_ok by auto
  have "PackTx_eth plainHexutil (oneMessage m) sampleEthTx 7 9 = Inr [1]" using m by (simp add: oneMessage_def)
  moreover from this have "\<exists>tx' bn. UnpackTx_eth plainHexutil (oneMessage m) [1] = Inr (tx', bn) \<and> GetHeightFromTx plainHexutil tx' = Inr bn"
    using eth_tx_roundtrip[OF plain.hexutil_codec_axioms c, of "oneMessage m" "[1]" 7 9] sampleRpc_ok
    by (fastforce simp: oneMessage_def split: if_splits)
  ultimately show ?thesis by blast
qed

subsection \<open>Token transfers\<close>

lemma hex_val_EncodeToString: "hex_val a (EncodeToString b) = Some (a * 256 ^ length b + be_val b)"
proof (induction b arbitrary: a)
  case (Cons x b)
  have x: "unat x div 16 < 16" "unat x mod 16 < 16" using unsigned_less[of x, where 'a = nat] by simp_all
  have "16 * (16 * a + q) + m = a * 256 + (16 * q + m)" for q m :: nat by simp
  from this[of "unat x div 16" "unat x mod 16"] have "16 * (16 * a + unat x div 16) + unat x mod 16 = a * 256 + unat x"
    by (simp only: mult_div_mod_eq)
  then show ?case using Cons[of "a * 256 + unat x"] x
    by (simp add: EncodeToString_def hexByte_def fromHexChar_digit be_val_Cons algebra_simps)
qed (simp add: EncodeToString_def)

lemma hexDigits_no_sign: "n < 16 \<Longrightarrow> hexDigits ! n \<noteq> CHR ''-'' \<and> hexDigits ! n \<noteq> CHR ''+'' \<and> hexDigits ! n \<noteq> CHR ''_''"
  using fromHexChar_digit[of n] by (auto simp: fromHexChar_def)

lemma SetString16_EncodeToString: "b \<noteq> [] \<Longrightarrow> SetString16 (EncodeToString b) = Some (int (be_val b))"
proof -
  assume b: "b \<noteq> []"
  then obtain x c where x: "b = x # c" by (cases b) auto
  have "unat x div 16 < 16" using unsigned_less[of x, where 'a = nat] by simp
  then have "splitSign (EncodeToString b) = (False, EncodeToString b)"
    by (simp add: splitSign_def x EncodeToString_def hexByte_def hexDigits_no_sign)
  then show ?thesis using b by (simp add: SetString16_def hex_val_EncodeToString withSign_def)
qed

lemma length_hexDigits: "length hexDigits = 16"
  by (simp add: hexDigits_def)

lemma scanDigits_hex: "set s \<subseteq> set hexDigits \<Longrightarrow> scanDigits 16 True a s = hex_val a s"
proof (induction s arbitrary: a)
  case (Cons c s)
  obtain n where n: "n < 16" "c = hexDigits ! n" using Cons.prems length_hexDigits by (auto simp: in_set_conv_nth)
  then show ?case using Cons fromHexChar_digit[OF n(1)] hexDigits_no_sign[OF n(1)] by simp
qed simp

lemma set_EncodeToString: "set (EncodeToString b) \<subseteq> set hexDigits"
proof -
  have "unat x div 16 < length hexDigits" "unat x mod 16 < length hexDigits" for x :: byte
    using unsigned_less[of x, where 'a = nat] by (simp_all add: hexDigits_def)
  then show ?thesis by (auto simp: EncodeToString_def hexByte_def)
qed

lemma SetString0_EncodeToString: "b \<noteq> [] \<Longrightarrow> SetString0 (CHR ''0'' # CHR ''x'' # EncodeToString b) = Some (int (be_val b))"
  by (simp add: SetString0_def splitSign_def scanPrefixed_def scanDigits_hex set_EncodeToString hex_val_EncodeToString withSign_def)

text \<open>
  The log of a \<open>Transfer\<close> event: the contract, and as topics the signature and the two addresses, each padded to 32 bytes; the
  data is the amount. The transfer that it announces has the addresses in hexadecimal.
\<close>

record transfer =
  contract_t :: bytes
  from_t :: bytes
  to_t :: bytes
  amount_t :: bytes

definition transfer_ok :: "transfer \<Rightarrow> bool" where
  "transfer_ok t \<longleftrightarrow> length (from_t t) = 20 \<and> length (to_t t) = 20 \<and> amount_t t \<noteq> []"

definition transferLog :: "hexutil \<Rightarrow> transfer \<Rightarrow> rpcLog" where
  "transferLog H t = \<lparr> Address_rl = Encode H (contract_t t),
     Topics = [erc20TransferEventSignature, Encode H (replicate 12 0 @ from_t t), Encode H (replicate 12 0 @ to_t t)],
     Data_rl = Encode H (amount_t t) \<rparr>"

definition transferOf :: "hexutil \<Rightarrow> transfer \<Rightarrow> Erc20Transfer" where
  "transferOf H t = \<lparr> Contract_et = Encode H (contract_t t), From_et = Encode H (from_t t), To_et = Encode H (to_t t),
     Tokens_et = int (be_val (amount_t t)) \<rparr>"

definition isTransferLog :: "rpcLog \<Rightarrow> bool" where
  "isTransferLog l \<longleftrightarrow> length (Topics l) = 3 \<and> Topics l ! 0 = erc20TransferEventSignature"

lemma be_val_zeros [simp]: "be_val (replicate n 0 @ b) = be_val b"
  by (induction n) (simp_all add: be_val_Cons)

context hexutil_codec
begin

lemma addressFromPaddedHex_Encode:
  assumes "length a = 20"
  shows "\<exists>s. addressFromPaddedHex H (Encode H (replicate 12 0 @ a)) = Inr s \<and> ToLower s = Encode H a"
  using BigToAddress_hex[OF assms]
  by (simp add: addressFromPaddedHex_def Encode_hex SetString16_EncodeToString)

lemma transferFromLog_transferLog:
  assumes "transfer_ok t"
  shows "transferFromLog H (transferLog H t) r = Inr (r @ [transferOf H t])"
proof -
  obtain f where f: "addressFromPaddedHex H (Encode H (replicate 12 0 @ from_t t)) = Inr f" "ToLower f = Encode H (from_t t)"
    using addressFromPaddedHex_Encode assms unfolding transfer_ok_def by blast
  obtain s where s: "addressFromPaddedHex H (Encode H (replicate 12 0 @ to_t t)) = Inr s" "ToLower s = Encode H (to_t t)"
    using addressFromPaddedHex_Encode assms unfolding transfer_ok_def by blast
  have "SetString0 (Encode H (amount_t t)) = Some (int (be_val (amount_t t)))"
    using assms by (simp add: Encode_hex SetString0_EncodeToString transfer_ok_def)
  then show ?thesis using f s by (simp add: transferFromLog_def transferLog_def transferOf_def) (simp add: Encode_hex)
qed

lemma transfersFromLogs:
  assumes "list_all transfer_ok ts" and "filter isTransferLog logs = map (transferLog H) ts"
  shows "rfold (transferFromLog H) logs r = Inr (r @ map (transferOf H) ts)"
  using assms
proof (induction logs arbitrary: ts r)
  case (Cons l logs)
  show ?case
  proof (cases "isTransferLog l")
    case True
    then obtain t ts' where ts: "ts = t # ts'" "l = transferLog H t" "filter isTransferLog logs = map (transferLog H) ts'"
      using Cons.prems(2) by (cases ts) auto
    then show ?thesis using Cons.IH[of ts'] Cons.prems(1) transferFromLog_transferLog[of t] by simp
  next
    case False
    then have "transferFromLog H l r = Inr r" by (auto simp: isTransferLog_def transferFromLog_def)
    then show ?thesis using False Cons by simp
  qed
qed simp

end

text \<open>Token transfers are read from the logs of a transaction. If the logs that have three topics and the signature
  of the \<open>Transfer\<close> event are well-formed announcements of some transfers, the code returns exactly these transfers in
  their order, with contract, sender and receiver as addresses in lower case and the amount; all other logs are
  ignored.\<close>

theorem erc20_transfers_read:
  assumes "hexutil_codec H" and "list_all transfer_ok ts" and "filter isTransferLog logs = map (transferLog H) ts"
  shows "erc20GetTransfersFromLog H logs = Inr (map (transferOf H) ts)"
  unfolding erc20GetTransfersFromLog_def using hexutil_codec.transfersFromLogs[OF assms, of "[]"] by simp

theorem erc20_transfers_read_witness:
  "erc20GetTransfersFromLog plainHexutil
     [\<lparr> Address_rl = ''0x01'', Topics = [''0xff''], Data_rl = ''0x'' \<rparr>,
      transferLog plainHexutil \<lparr> contract_t = [9], from_t = replicate 20 1, to_t = replicate 20 2, amount_t = [1, 2] \<rparr>] =
   Inr [transferOf plainHexutil \<lparr> contract_t = [9], from_t = replicate 20 1, to_t = replicate 20 2, amount_t = [1, 2] \<rparr>]"
  using erc20_transfers_read[OF plain.hexutil_codec_axioms,
      of "[\<lparr> contract_t = [9], from_t = replicate 20 1, to_t = replicate 20 2, amount_t = [1, 2] \<rparr>]"]
  by (simp add: transfer_ok_def isTransferLog_def transferLog_def)

text \<open>A contract is asked once. After a call for a contract has returned, every later call for it, whatever the back end
  would answer by then, returns the same contract, or that it is none, without asking and without changing the cache; the entries of
  other contracts stay as they are.\<close>

theorem erc20_contract_cached:
  assumes "EthereumTypeGetErc20ContractInfo H call contractDesc cache = Inr (contract, cache')"
  shows "EthereumTypeGetErc20ContractInfo H call' contractDesc cache' = Inr (contract, cache') \<and>
    (\<forall>d. d \<noteq> contractDesc \<longrightarrow> map_of cache' d = map_of cache d) \<and> (wf_map cache \<longrightarrow> wf_map cache')"
  using assms by (auto simp: EthereumTypeGetErc20ContractInfo_def rbind_eq_Inr_iff split: option.splits)

theorem erc20_contract_cached_witness:
  "\<exists>c. EthereumTypeGetErc20ContractInfo plainHexutil (\<lambda>_ _. Inr '''') [1] [] = Inr c \<and>
     EthereumTypeGetErc20ContractInfo plainHexutil (\<lambda>_ _. Inl (Errorf ''no connection'')) [1] (snd c) = Inr c"
proof -
  have "EthereumTypeGetErc20ContractInfo plainHexutil (\<lambda>_ _. Inr '''') [1] [] = Inr (None, [([1], None)])"
    by (simp add: EthereumTypeGetErc20ContractInfo_def askContract_def parseErc20StringProperty_def without0x_def has0xPrefix_def)
  from erc20_contract_cached[OF this, of "\<lambda>_ _. Inl (Errorf ''no connection'')"] this show ?thesis by fastforce
qed

text \<open>The answer of a contract can make the code panic. A name whose length is given as \<open>2^64 - 1\<close> passes the comparison,
  where twice the length is \<open>-2\<close> as a signed number, and the slice ends before it starts.\<close>

theorem erc20_name_length_panics:
  "parseErc20StringProperty (''0x'' @ replicate 112 CHR ''0'' @ replicate 16 CHR ''f'' @ replicate 64 CHR ''0'') =
     Inl (Panic ''slice bounds out of range'')"
  by code_simp

text \<open>A transaction from before the status field was introduced cannot be stored. Its receipt has an empty status, which the code
  knows elsewhere as an unknown status, but packing such a transaction returns an error.\<close>

theorem eth_unset_status_not_packed:
  assumes "hexutil_codec H" and "CoinSpecificData tx = CompleteTransaction ct" and "Receipt_ct ct = Some r" and "Status_rr r = ''''"
  shows "Status_etd (GetEthereumTxData H tx) = txStatusUnknown \<and> (\<exists>e. PackTx_eth H pb tx h bt = Inl e)"
proof -
  have "\<exists>e. packReceipt H r = Inl e"
    using hexutil_codec.DecodeBig_empty[OF assms(1)] assms(4)
    by (cases "hexDecodeBig H (GasUsed r)") (auto simp: packReceipt_def hexDecodeBig_def Annotatef_def)
  then obtain e where "(case Receipt_ct ct of None \<Rightarrow> Inr None | Some rr \<Rightarrow> rbind (packReceipt H rr) (\<lambda>p. Inr (Some p))) = Inl e"
    using assms(3) by auto
  then have "PackTx_eth H pb tx h bt \<noteq> Inr b" for b
    unfolding PackTx_eth_def assms(2) by (auto simp: rbind_eq_Inr_iff Let_def)
  then show ?thesis using assms(2-4)
    by (cases "PackTx_eth H pb tx h bt") (auto simp: GetEthereumTxData_def receiptStatus_def)
qed

theorem eth_unset_status_not_packed_witness:
  "\<exists>m e. PackTx_eth plainHexutil (oneMessage m) (sampleEthTx\<lparr> CoinSpecificData := CompleteTransaction
     \<lparr> Tx_ct = sampleRpc, Receipt_ct = Some \<lparr> GasUsed = ''0x1'', Status_rr = '''', Logs = [] \<rparr> \<rparr> \<rparr>) 7 9 = Inl e"
  by (rule exI, rule eth_unset_status_not_packed[OF plain.hexutil_codec_axioms, of _
      "\<lparr> Tx_ct = sampleRpc, Receipt_ct = Some \<lparr> GasUsed = ''0x1'', Status_rr = '''', Logs = [] \<rparr> \<rparr>"
      "\<lparr> GasUsed = ''0x1'', Status_rr = '''', Logs = [] \<rparr>", THEN conjunct2]) simp_all

end
