(* ===== verification/Ethereum_Index.thy ===== *)
theory Ethereum_Index
  imports Bitcoin_Disconnect Eth_Parser
begin

text \<open>
  Indexing and removing blocks of an ethereum type chain (\<open>db/rocksdb_ethereumtype.go\<close>): for every address the
  number of transactions and the contracts it used.

  A contract that is nil in the code is \<open>None\<close>; a descriptor the parser returns without an error is never
  nil. \<open>uint\<close> is 64 bits wide.
\<close>

record AddrContract =
  Contract_ac :: AddressDescriptor
  Txs_ac :: uint64

record AddrContracts =
  TotalTxs :: uint64
  NonContractTxs :: uint64
  Contracts :: "AddrContract list"

definition newAddrContracts :: AddrContracts where
  "newAddrContracts = \<lparr> TotalTxs = 0, NonContractTxs = 0, Contracts = [] \<rparr>"

section \<open>The record of an address\<close>

definition packContract :: "vlq \<Rightarrow> AddrContract \<Rightarrow> bytes" where
  "packContract v ac = Contract_ac ac @ packVaruint v (Txs_ac ac)"

definition packAddrContracts :: "vlq \<Rightarrow> AddrContracts \<Rightarrow> bytes" where
  "packAddrContracts v acs =
     packVaruint v (TotalTxs acs) @ packVaruint v (NonContractTxs acs) @ concat (map (packContract v) (Contracts acs))"

definition storeAddressContracts :: "'s packages \<Rightarrow> (bytes, AddrContracts option) gomap \<Rightarrow> WriteBatch \<Rightarrow> WriteBatch" where
  "storeAddressContracts E acm wb =
     wb @ map (\<lambda>(addrDesc, acs).
       case acs of
         None \<Rightarrow> DeleteWB cfAddressContracts addrDesc
       | Some acs \<Rightarrow>
           if NonContractTxs acs = 0 \<and> Contracts acs = [] then DeleteWB cfAddressContracts addrDesc
           else PutWB cfAddressContracts addrDesc (packAddrContracts (vlq E) acs)) acm"

function unpackContracts :: "vlq \<Rightarrow> bytes \<Rightarrow> go_error + AddrContract list" where
  "unpackContracts v buf =
     (if length buf > 0 then
        if length buf < EthereumTypeAddressDescriptorLen
        then Inl (Errorf ''Invalid data stored in cfAddressContracts'')
        else
          let (txs, l) = unpackVaruint v (drop EthereumTypeAddressDescriptorLen buf) in
          rbind (slice_from buf (EthereumTypeAddressDescriptorLen + l)) (\<lambda>rest.
          rbind (unpackContracts v rest) (\<lambda>cs.
          Inr (\<lparr> Contract_ac = take EthereumTypeAddressDescriptorLen buf, Txs_ac = txs \<rparr> # cs)))
      else Inr [])"
  by pat_completeness auto
termination
  by (relation "measure (\<lambda>(v, buf). length buf)")
    (auto dest!: slice_from_length simp: EthereumTypeAddressDescriptorLen_def)

declare unpackContracts.simps [simp del]

definition unpackAddrContracts :: "vlq \<Rightarrow> bytes \<Rightarrow> go_error + AddrContracts" where
  "unpackAddrContracts v buf =
     (let (tt, l) = unpackVaruint v buf in
      rbind (slice_from buf l) (\<lambda>buf.
      let (nct, l) = unpackVaruint v buf in
      rbind (slice_from buf l) (\<lambda>buf.
      rbind (unpackContracts v buf) (\<lambda>c.
      Inr \<lparr> TotalTxs = tt, NonContractTxs = nct, Contracts = c \<rparr>))))"

definition GetAddrDescContracts :: "'s packages \<Rightarrow> AddressDescriptor \<Rightarrow> 's RocksDB \<Rightarrow> go_error + AddrContracts option" where
  "GetAddrDescContracts E addrDesc d =
     rbind (getData E d cfAddressContracts addrDesc) (\<lambda>buf.
     if length buf = 0 then Inr None
     else rbind (unpackAddrContracts (vlq E) buf) (\<lambda>acs. Inr (Some acs)))"

fun findContractInAddressContracts :: "AddressDescriptor \<Rightarrow> AddrContract list \<Rightarrow> nat option" where
  "findContractInAddressContracts contract [] = None"
| "findContractInAddressContracts contract (c # cs) =
     (if contract = Contract_ac c then Some 0 else map_option Suc (findContractInAddressContracts contract cs))"

definition isZeroAddress :: "AddressDescriptor \<Rightarrow> bool" where
  "isZeroAddress addrDesc \<longleftrightarrow> list_all (\<lambda>b. b = 0) addrDesc"

section \<open>Connecting\<close>

record ethConnectState =
  addresses_es :: addressesMap
  addressContracts :: "(bytes, AddrContracts) gomap"
  stats_es :: connectBlockStats

definition loadAddrContracts ::
    "'s packages \<Rightarrow> 's RocksDB \<Rightarrow> AddressDescriptor \<Rightarrow> ethConnectState \<Rightarrow> go_error + (AddrContracts \<times> ethConnectState)" where
  "loadAddrContracts E d addrDesc st =
     (case map_of (addressContracts st) addrDesc of
        Some ac \<Rightarrow>
          Inr (ac, st\<lparr> stats_es := (stats_es st)\<lparr> balancesHit := balancesHit (stats_es st) + 1 \<rparr> \<rparr>)
      | None \<Rightarrow>
          rbind (GetAddrDescContracts E addrDesc d) (\<lambda>r.
          let ac = (case r of Some ac \<Rightarrow> ac | None \<Rightarrow> newAddrContracts) in
          Inr (ac, st\<lparr> addressContracts := AList.update addrDesc ac (addressContracts st),
            stats_es := (stats_es st)\<lparr> balancesMiss := balancesMiss (stats_es st) + 1 \<rparr> \<rparr>)))"

definition addTxsAt :: "nat \<Rightarrow> AddrContract list \<Rightarrow> AddrContract list" where
  "addTxsAt i cs = cs[i := (cs ! i)\<lparr> Txs_ac := Txs_ac (cs ! i) + 1 \<rparr>]"

text \<open>The counters of the address, and the index under which the transaction is listed.\<close>

definition countContract ::
    "AddressDescriptor \<Rightarrow> int32 \<Rightarrow> AddressDescriptor option \<Rightarrow> bool \<Rightarrow> AddrContracts \<Rightarrow> AddrContracts \<times> int32" where
  "countContract addrDesc ix contract addTxCount ac =
     (case contract of
        None \<Rightarrow> (if addTxCount then ac\<lparr> NonContractTxs := NonContractTxs ac + 1 \<rparr> else ac, ix)
      | Some c \<Rightarrow>
          if isZeroAddress addrDesc then (ac, ix)
          else
            let (i, cs) = (case findContractInAddressContracts c (Contracts ac) of
                Some i \<Rightarrow> (i, Contracts ac)
              | None \<Rightarrow> (length (Contracts ac), Contracts ac @ [\<lparr> Contract_ac = c, Txs_ac = 0 \<rparr>]));
                ix = (if sint ix < 0 then NOT (of_nat (i + 1)) else of_nat (i + 1))
            in (ac\<lparr> Contracts := (if addTxCount then addTxsAt i cs else cs) \<rparr>, ix))"

definition addToAddressesAndContractsEthereumType ::
    "'s packages \<Rightarrow> 's RocksDB \<Rightarrow> AddressDescriptor \<Rightarrow> bytes \<Rightarrow> int32 \<Rightarrow> AddressDescriptor option \<Rightarrow> bool \<Rightarrow>
     ethConnectState \<Rightarrow> go_error + ethConnectState" where
  "addToAddressesAndContractsEthereumType E d addrDesc btxID ix contract addTxCount st =
     rbind (loadAddrContracts E d addrDesc st) (\<lambda>(ac, st).
     let (ac, ix) = countContract addrDesc ix contract addTxCount ac;
         (counted, addresses) = addToAddressesMap addrDesc btxID ix (addresses_es st);
         ac = (if counted then ac else ac\<lparr> TotalTxs := TotalTxs ac + 1 \<rparr>)
     in Inr (st\<lparr> addresses_es := addresses, addressContracts := AList.update addrDesc ac (addressContracts st) \<rparr>))"

record ethBlockTxContract =
  addr_c :: AddressDescriptor
  contract_c :: "AddressDescriptor option"

record ethBlockTx =
  btxID_eb :: bytes
  from_eb :: AddressDescriptor
  to_eb :: AddressDescriptor
  contracts_eb :: "ethBlockTxContract list"

text \<open>The descriptors of an ERC20 transfer, or an error that skips it.\<close>

definition transferDescs ::
    "BlockChainParser \<Rightarrow> Erc20Transfer \<Rightarrow> go_error + (AddressDescriptor \<times> AddressDescriptor \<times> AddressDescriptor)" where
  "transferDescs p t =
     rbind (GetAddrDescFromAddress p (Contract_et t)) (\<lambda>contract.
     rbind (GetAddrDescFromAddress p (From_et t)) (\<lambda>from.
     rbind (GetAddrDescFromAddress p (To_et t)) (\<lambda>to. Inr (contract, from, to))))"

definition processTransfer ::
    "'s packages \<Rightarrow> 's RocksDB \<Rightarrow> bytes \<Rightarrow> nat \<times> Erc20Transfer \<Rightarrow> ethBlockTxContract list \<times> ethConnectState \<Rightarrow>
     go_error + (ethBlockTxContract list \<times> ethConnectState)" where
  "processTransfer E d btxID = (\<lambda>(i, t) (bcs, st).
     case transferDescs (chainParser d) t of
       Inl e \<Rightarrow> if is_panic e then Inl e else Inr (bcs, st)
     | Inr (contract, from, to) \<Rightarrow>
         rbind (addToAddressesAndContractsEthereumType E d to btxID (of_nat i) (Some contract) True st) (\<lambda>st.
         rbind (addToAddressesAndContractsEthereumType E d from btxID (NOT (of_nat i)) (Some contract) (from \<noteq> to) st) (\<lambda>st.
         Inr (bcs @ [\<lparr> addr_c = from, contract_c = Some contract \<rparr>] @
              (if from = to then [] else [\<lparr> addr_c = to, contract_c = Some contract \<rparr>]), st))))"

text \<open>
  One transaction. A descriptor that cannot be made from the output or the input address ends the
  processing of the transaction (\<open>continue\<close>).
\<close>

definition processTransfers ::
    "'s packages \<Rightarrow> 's RocksDB \<Rightarrow> Tx \<Rightarrow> ethBlockTx \<Rightarrow> ethConnectState \<Rightarrow> go_error + (ethBlockTx \<times> ethConnectState)" where
  "processTransfers E d tx blockTx st =
     rbind (case EthereumTypeGetErc20FromTx (chainParser d) tx of
         Inr erc20 \<Rightarrow> Inr erc20
       | Inl e \<Rightarrow> if is_panic e then Inl e else Inr []) (\<lambda>erc20.
     rbind (rfold (processTransfer E d (btxID_eb blockTx)) (enumerate 0 erc20) ([], st)) (\<lambda>(bcs, st).
     Inr (blockTx\<lparr> contracts_eb := bcs \<rparr>, st)))"

definition processFrom ::
    "'s packages \<Rightarrow> 's RocksDB \<Rightarrow> Tx \<Rightarrow> ethBlockTx \<Rightarrow> ethConnectState \<Rightarrow> go_error + (ethBlockTx \<times> ethConnectState)" where
  "processFrom E d tx blockTx st =
     (if length (Vin_tx tx) = 1 \<and> length (Addresses_vin (hd (Vin_tx tx))) = 1 then
        (case GetAddrDescFromAddress (chainParser d) (hd (Addresses_vin (hd (Vin_tx tx)))) of
           Inl e \<Rightarrow> if is_panic e then Inl e else Inr (blockTx, st)
         | Inr from \<Rightarrow>
             rbind (addToAddressesAndContractsEthereumType E d from (btxID_eb blockTx) (NOT 0) None
                 (from \<noteq> to_eb blockTx) st) (\<lambda>st.
             processTransfers E d tx (blockTx\<lparr> from_eb := from \<rparr>) st))
      else processTransfers E d tx blockTx st)"

definition processTxEthereumType ::
    "'s packages \<Rightarrow> 's RocksDB \<Rightarrow> Tx \<Rightarrow> ethBlockTx list \<times> ethConnectState \<Rightarrow> go_error + (ethBlockTx list \<times> ethConnectState)" where
  "processTxEthereumType E d tx = (\<lambda>(blockTxs, st).
     rbind (PackTxid (chainParser d) (Txid_tx tx)) (\<lambda>btxID.
     let blockTx = \<lparr> btxID_eb = btxID, from_eb = [], to_eb = [], contracts_eb = [] \<rparr> in
     rbind
       (if length (Vout_tx tx) = 1 \<and> length (Addresses_spk (ScriptPubKey_vout (hd (Vout_tx tx)))) = 1 then
          (case GetAddrDescFromAddress (chainParser d) (hd (Addresses_spk (ScriptPubKey_vout (hd (Vout_tx tx))))) of
             Inl e \<Rightarrow> if is_panic e then Inl e else Inr (blockTx, st)
           | Inr to \<Rightarrow>
               rbind (addToAddressesAndContractsEthereumType E d to btxID 0 None True st) (\<lambda>st.
               processFrom E d tx (blockTx\<lparr> to_eb := to \<rparr>) st))
        else processFrom E d tx blockTx st) (\<lambda>(blockTx, st).
     Inr (blockTxs @ [blockTx], st))))"

definition processAddressesEthereumType ::
    "'s packages \<Rightarrow> Block \<Rightarrow> 's RocksDB \<Rightarrow> ethConnectState \<Rightarrow> go_error + (ethBlockTx list \<times> ethConnectState)" where
  "processAddressesEthereumType E block d st = rfold (processTxEthereumType E d) (Txs_blk block) ([], st)"

section \<open>The transactions of a block\<close>

definition appendAddress_eb :: "AddressDescriptor \<Rightarrow> bytes" where
  "appendAddress_eb a = (if length a \<noteq> EthereumTypeAddressDescriptorLen
     then replicate EthereumTypeAddressDescriptorLen 0 else a)"

definition contract_bytes :: "AddressDescriptor option \<Rightarrow> AddressDescriptor" where
  "contract_bytes c = (case c of Some c \<Rightarrow> c | None \<Rightarrow> [])"

definition packEthBlockTx :: "vlq \<Rightarrow> ethBlockTx \<Rightarrow> bytes" where
  "packEthBlockTx v bt =
     btxID_eb bt @ appendAddress_eb (from_eb bt) @ appendAddress_eb (to_eb bt) @
     packVaruint v (of_nat (length (contracts_eb bt))) @
     concat (map (\<lambda>c. appendAddress_eb (addr_c c) @ appendAddress_eb (contract_bytes (contract_c c))) (contracts_eb bt))"

definition storeAndCleanupBlockTxsEthereumType ::
    "'s packages \<Rightarrow> Block \<Rightarrow> ethBlockTx list \<Rightarrow> WriteBatch \<times> 's RocksDB \<Rightarrow> go_error + (WriteBatch \<times> 's RocksDB)" where
  "storeAndCleanupBlockTxsEthereumType E block bts = (\<lambda>(wb, d).
     let wb = wb @ [PutWB cfBlockTxs (packUint (Height_bh block)) (concat (map (packEthBlockTx (vlq E)) bts))] in
     rbind (cleanupBlockTxs E (Height_bh block) d) (\<lambda>d. Inr (wb, d)))"

text \<open>The zero address is returned as nil.\<close>

definition getAddress_eb :: "bytes \<Rightarrow> nat \<Rightarrow> go_error + (AddressDescriptor option \<times> nat)" where
  "getAddress_eb buf i =
     (if int (length buf) - int i < int EthereumTypeAddressDescriptorLen
      then Inl (Errorf ''Inconsistent data in blockTxs'')
      else
        let a = take EthereumTypeAddressDescriptorLen (drop i buf) in
        Inr (if isZeroAddress a then None else Some a, i + EthereumTypeAddressDescriptorLen))"

fun readContracts_eb :: "bytes \<Rightarrow> nat \<Rightarrow> nat \<Rightarrow> go_error + (ethBlockTxContract list \<times> nat)" where
  "readContracts_eb buf 0 i = Inr ([], i)"
| "readContracts_eb buf (Suc n) i =
     rbind (getAddress_eb buf i) (\<lambda>(a, i).
     rbind (getAddress_eb buf i) (\<lambda>(c, i).
     rbind (readContracts_eb buf n i) (\<lambda>(cs, i).
     Inr (\<lparr> addr_c = contract_bytes a, contract_c = c \<rparr> # cs, i))))"

definition readEthBlockTx :: "vlq \<Rightarrow> nat \<Rightarrow> bytes \<Rightarrow> nat \<Rightarrow> go_error + (ethBlockTx \<times> nat)" where
  "readEthBlockTx v pl buf i =
     (if length buf - i < pl then Inl (Errorf ''Inconsistent data in blockTxs'')
      else
        let txid = take pl (drop i buf) in
        rbind (getAddress_eb buf (i + pl)) (\<lambda>(from, i).
        rbind (getAddress_eb buf i) (\<lambda>(to, i).
        rbind (slice_from buf i) (\<lambda>b.
        let (cc, l) = unpackVaruint v b in
        rbind (readContracts_eb buf (unat cc) (i + l)) (\<lambda>(contracts, i).
        Inr (\<lparr> btxID_eb = txid, from_eb = contract_bytes from, to_eb = contract_bytes to,
               contracts_eb = contracts \<rparr>, i))))))"

lemma getAddress_eb_forward: "getAddress_eb buf i = Inr (a, j) \<Longrightarrow> i < j \<and> j \<le> length buf"
  by (auto simp: getAddress_eb_def EthereumTypeAddressDescriptorLen_def Let_def split: if_splits)

lemma readContracts_eb_forward: "readContracts_eb buf n i = Inr (cs, j) \<Longrightarrow> i \<le> j"
proof (induction n arbitrary: i cs j)
  case (Suc n)
  then show ?case by (fastforce simp: rbind_eq_Inr_iff dest!: getAddress_eb_forward)
qed simp

lemma readEthBlockTx_forward:
  assumes "readEthBlockTx v pl buf i = Inr (bt, j)"
  shows "i < j"
proof -
  from assms obtain fr k where fr: "getAddress_eb buf (i + pl) = Inr (fr, k)"
    by (cases "getAddress_eb buf (i + pl)") (auto simp: readEthBlockTx_def split: if_splits)
  with assms obtain t m where t: "getAddress_eb buf k = Inr (t, m)"
    by (cases "getAddress_eb buf k") (auto simp: readEthBlockTx_def split: if_splits)
  with fr assms have cs: "\<exists>cc l cs. readContracts_eb buf cc (m + l) = Inr (cs, j)"
    by (auto simp: readEthBlockTx_def rbind_eq_Inr_iff case_prod_unfold Let_def split: if_splits)
  from cs obtain cc l cs where "readContracts_eb buf cc (m + l) = Inr (cs, j)" by blast
  then have "m + l \<le> j" by (rule readContracts_eb_forward)
  with getAddress_eb_forward[OF fr] getAddress_eb_forward[OF t] show ?thesis by linarith
qed

function readEthBlockTxs :: "vlq \<Rightarrow> nat \<Rightarrow> bytes \<Rightarrow> nat \<Rightarrow> go_error + ethBlockTx list" where
  "readEthBlockTxs v pl buf i =
     (if i < length buf then
        rbind (readEthBlockTx v pl buf i) (\<lambda>(bt, j).
        rbind (readEthBlockTxs v pl buf j) (\<lambda>bts. Inr (bt # bts)))
      else Inr [])"
  by pat_completeness auto
termination
  by (relation "measure (\<lambda>(v, pl, buf, i). length buf - i)") (auto dest!: readEthBlockTx_forward)

declare readEthBlockTxs.simps [simp del]

definition getBlockTxsEthereumType :: "'s packages \<Rightarrow> uint32 \<Rightarrow> 's RocksDB \<Rightarrow> go_error + ethBlockTx list option" where
  "getBlockTxsEthereumType E height d =
     rbind (GetCF (rocks E) (db d) cfBlockTxs (packUint height)) (\<lambda>val.
     case val of
       None \<Rightarrow> Inr None
     | Some buf \<Rightarrow>
         rbind (readEthBlockTxs (vlq E) (PackedTxidLen (chainParser d)) buf 0) (\<lambda>bts. Inr (Some bts)))"

section \<open>Disconnecting\<close>

definition removeTxsAt :: "nat \<Rightarrow> AddrContract list \<Rightarrow> AddrContract list" where
  "removeTxsAt i cs =
     (if Txs_ac (cs ! i) > 0 then
        if Txs_ac (cs ! i) - 1 = 0 then take i cs @ drop (Suc i) cs
        else cs[i := (cs ! i)\<lparr> Txs_ac := Txs_ac (cs ! i) - 1 \<rparr>]
      else cs)"

definition uncountContract :: "bool \<Rightarrow> AddressDescriptor option \<Rightarrow> AddrContracts \<Rightarrow> AddrContracts" where
  "uncountContract ftx contract c =
     (let c = (if ftx then c else c\<lparr> TotalTxs := TotalTxs c - 1 \<rparr>) in
      case contract of
        None \<Rightarrow> if NonContractTxs c > 0 then c\<lparr> NonContractTxs := NonContractTxs c - 1 \<rparr> else c
      | Some ct \<Rightarrow>
          (case findContractInAddressContracts ct (Contracts c) of
             Some i \<Rightarrow> c\<lparr> Contracts := removeTxsAt i (Contracts c) \<rparr>
           | None \<Rightarrow> c))"

record ethDisconnectState =
  addresses_ed :: "(bytes, bytes list) gomap"
  contracts_ed :: "(bytes, AddrContracts option) gomap"

definition disconnectAddress ::
    "'s packages \<Rightarrow> 's RocksDB \<Rightarrow> bytes \<Rightarrow> AddressDescriptor \<Rightarrow> AddressDescriptor option \<Rightarrow> ethDisconnectState \<Rightarrow>
     go_error + ethDisconnectState" where
  "disconnectAddress E d btxID addrDesc contract st =
     (if length addrDesc = 0 then Inr st
      else
        let (ftx, mtx) = (case map_of (addresses_ed st) addrDesc of
            None \<Rightarrow> (False, [btxID])
          | Some mtx \<Rightarrow> addAddress btxID mtx);
            st = st\<lparr> addresses_ed := AList.update addrDesc mtx (addresses_ed st) \<rparr> in
        rbind (case map_of (contracts_ed st) addrDesc of
            Some c \<Rightarrow> Inr (c, st)
          | None \<Rightarrow>
              rbind (GetAddrDescContracts E addrDesc d) (\<lambda>c.
              Inr (c, st\<lparr> contracts_ed := AList.update addrDesc c (contracts_ed st) \<rparr>))) (\<lambda>(c, st).
        case c of
          None \<Rightarrow> Inr st
        | Some c \<Rightarrow>
            Inr (st\<lparr> contracts_ed := AList.update addrDesc (Some (uncountContract ftx contract c)) (contracts_ed st) \<rparr>)))"

definition disconnectEthTx ::
    "'s packages \<Rightarrow> 's RocksDB \<Rightarrow> ethBlockTx \<Rightarrow> WriteBatch \<times> ethDisconnectState \<Rightarrow> go_error + (WriteBatch \<times> ethDisconnectState)" where
  "disconnectEthTx E d bt = (\<lambda>(wb, st).
     rbind (disconnectAddress E d (btxID_eb bt) (from_eb bt) None st) (\<lambda>st.
     rbind (if from_eb bt \<noteq> to_eb bt then disconnectAddress E d (btxID_eb bt) (to_eb bt) None st else Inr st) (\<lambda>st.
     rbind (rfold (\<lambda>c. disconnectAddress E d (btxID_eb bt) (addr_c c) (contract_c c)) (contracts_eb bt) st) (\<lambda>st.
     Inr (wb @ [DeleteWB cfTransactions (btxID_eb bt)], st)))))"

definition disconnectBlockTxsEthereumType ::
    "'s packages \<Rightarrow> 's RocksDB \<Rightarrow> uint32 \<Rightarrow> ethBlockTx list \<Rightarrow> WriteBatch \<times> (bytes, AddrContracts option) gomap \<Rightarrow>
     go_error + (WriteBatch \<times> (bytes, AddrContracts option) gomap)" where
  "disconnectBlockTxsEthereumType E d height bts = (\<lambda>(wb, contracts).
     rbind (rfold (disconnectEthTx E d) bts (wb, \<lparr> addresses_ed = [], contracts_ed = contracts \<rparr>)) (\<lambda>(wb, st).
     Inr (wb @ map (\<lambda>(a, _). DeleteWB cfAddresses (packAddressKey a height)) (addresses_ed st), contracts_ed st)))"

definition readBlockEthereumType :: "'s packages \<Rightarrow> 's RocksDB \<Rightarrow> uint32 \<Rightarrow> go_error + ethBlockTx list" where
  "readBlockEthereumType E d height =
     rbind (getBlockTxsEthereumType E height d) (\<lambda>r.
     case r of
       None \<Rightarrow> Inl (Errorf ''Cannot disconnect blocks with height and lower. It is necessary to rebuild index.'')
     | Some bts \<Rightarrow> Inr bts)"

definition DisconnectBlockRangeEthereumType ::
    "'s packages \<Rightarrow> uint32 \<Rightarrow> uint32 \<Rightarrow> 's RocksDB \<Rightarrow> go_error + 's RocksDB" where
  "DisconnectBlockRangeEthereumType E lower higher d =
     rbind (readRange (readBlockEthereumType E d) lower higher) (\<lambda>blocks.
     rbind (rfold (\<lambda>(height, bts) s.
         rbind (disconnectBlockTxsEthereumType E d height bts s) (\<lambda>(wb, contracts).
         Inr (wb @ [DeleteWB cfBlockTxs (packUint height), DeleteWB cfHeight (packUint height)], contracts)))
       (rev (zip (heights lower higher) blocks)) ([], [])) (\<lambda>(wb, contracts).
     if lower = 0 then Inl (Panic ''index out of range'')
     else
       rbind (WriteWB (rocks E) (db d) (storeAddressContracts E contracts wb)) (\<lambda>s. Inr (d\<lparr> db := s \<rparr>))))"

section \<open>Reading back the records\<close>

definition contract_ok :: "AddrContract \<Rightarrow> bool" where
  "contract_ok c \<longleftrightarrow> length (Contract_ac c) = EthereumTypeAddressDescriptorLen"

lemma unpackContracts_pack:
  assumes v: "vlq_codec v"
  shows "list_all contract_ok cs \<Longrightarrow> unpackContracts v (concat (map (packContract v) cs)) = Inr cs"
proof (induction cs)
  case Nil
  then show ?case by (subst unpackContracts.simps) simp
next
  case (Cons c cs)
  let ?x = "PutUint v (Txs_ac c)" and ?r = "concat (map (packContract v) cs)"
  have l: "length (Contract_ac c) = EthereumTypeAddressDescriptorLen" using Cons.prems by (simp add: contract_ok_def)
  have u: "UintAt v (?x @ ?r) = (Txs_ac c, length ?x)" by (rule vlq_codec.UintAt_PutUint[OF v])
  have "slice_from (Contract_ac c @ ?x @ ?r) (length (Contract_ac c) + length ?x) = Inr ?r"
    using slice_from_append[of "Contract_ac c @ ?x" ?r] by simp
  moreover have "packContract v c = Contract_ac c @ ?x" by (simp add: packContract_def packVaruint_def)
  ultimately show ?case using Cons l u
    by (subst unpackContracts.simps)
      (auto simp: unpackVaruint_def EthereumTypeAddressDescriptorLen_def)
qed

text \<open>The record of an ethereum type address is read back: when every contract has a descriptor of 20 bytes,
  unpacking the packed record gives the same counters and the same contracts in the same order.\<close>

theorem addrContracts_roundtrip:
  assumes "vlq_codec v" and "list_all contract_ok (Contracts acs)"
  shows "unpackAddrContracts v (packAddrContracts v acs) = Inr acs"
  using unpackContracts_pack[OF assms] vlq_codec.UintAt_PutUint[OF assms(1)]
  by (simp add: unpackAddrContracts_def packAddrContracts_def packVaruint_def unpackVaruint_def)

theorem addrContracts_roundtrip_witness:
  "unpackAddrContracts base128 (packAddrContracts base128 \<lparr> TotalTxs = 300, NonContractTxs = 2,
      Contracts = [\<lparr> Contract_ac = replicate 20 7, Txs_ac = 298 \<rparr>, \<lparr> Contract_ac = replicate 20 8, Txs_ac = 1 \<rparr>] \<rparr>) =
   Inr \<lparr> TotalTxs = 300, NonContractTxs = 2,
      Contracts = [\<lparr> Contract_ac = replicate 20 7, Txs_ac = 298 \<rparr>, \<lparr> Contract_ac = replicate 20 8, Txs_ac = 1 \<rparr>] \<rparr>"
  by (rule addrContracts_roundtrip[OF base128.vlq_codec_axioms])
    (simp add: contract_ok_def EthereumTypeAddressDescriptorLen_def)

text \<open>What remains of a descriptor in the stored transactions of a block: one that does not have 20 bytes, and the zero
  address, are read as nil.\<close>

definition storedDesc :: "AddressDescriptor \<Rightarrow> AddressDescriptor option" where
  "storedDesc a = (if length a \<noteq> EthereumTypeAddressDescriptorLen \<or> isZeroAddress a then None else Some a)"

definition storedContract :: "ethBlockTxContract \<Rightarrow> ethBlockTxContract" where
  "storedContract c = \<lparr> addr_c = contract_bytes (storedDesc (addr_c c)), contract_c = storedDesc (contract_bytes (contract_c c)) \<rparr>"

definition storedTx :: "ethBlockTx \<Rightarrow> ethBlockTx" where
  "storedTx bt = bt\<lparr> from_eb := contract_bytes (storedDesc (from_eb bt)), to_eb := contract_bytes (storedDesc (to_eb bt)),
     contracts_eb := map storedContract (contracts_eb bt) \<rparr>"

lemma isZeroAddress_replicate [simp]: "isZeroAddress (replicate n b) \<longleftrightarrow> n = 0 \<or> b = 0"
  by (auto simp: isZeroAddress_def list_all_iff)

lemma length_appendAddress_eb [simp]: "length (appendAddress_eb a) = EthereumTypeAddressDescriptorLen"
  by (simp add: appendAddress_eb_def)

lemma getAddress_eb_append:
  "getAddress_eb (pre @ appendAddress_eb a @ rest) (length pre) = Inr (storedDesc a, length pre + EthereumTypeAddressDescriptorLen)"
proof -
  have "take EthereumTypeAddressDescriptorLen (appendAddress_eb a @ rest) = appendAddress_eb a" by simp
  then show ?thesis
    by (simp add: getAddress_eb_def storedDesc_def) (auto simp: appendAddress_eb_def Let_def)
qed

abbreviation packContract_eb :: "ethBlockTxContract \<Rightarrow> bytes" where
  "packContract_eb c \<equiv> appendAddress_eb (addr_c c) @ appendAddress_eb (contract_bytes (contract_c c))"

lemma readContracts_eb_append:
  "readContracts_eb (pre @ concat (map packContract_eb cs) @ rest) (length cs) (length pre) =
     Inr (map storedContract cs, length pre + length (concat (map packContract_eb cs)))"
proof (induction cs arbitrary: pre)
  case (Cons c cs)
  let ?a = "appendAddress_eb (addr_c c)" and ?b = "appendAddress_eb (contract_bytes (contract_c c))"
  let ?r = "concat (map packContract_eb cs) @ rest"
  have 1: "getAddress_eb (pre @ ?a @ ?b @ ?r) (length pre) = Inr (storedDesc (addr_c c), length (pre @ ?a))"
    using getAddress_eb_append[of pre "addr_c c" "?b @ ?r"] by simp
  have 2: "getAddress_eb (pre @ ?a @ ?b @ ?r) (length (pre @ ?a)) = Inr (storedDesc (contract_bytes (contract_c c)), length (pre @ ?a @ ?b))"
    using getAddress_eb_append[of "pre @ ?a" "contract_bytes (contract_c c)" ?r] by simp
  have 3: "readContracts_eb (pre @ ?a @ ?b @ ?r) (length cs) (length (pre @ ?a @ ?b)) =
      Inr (map storedContract cs, length (pre @ ?a @ ?b) + length (concat (map packContract_eb cs)))"
    using Cons.IH[of "pre @ ?a @ ?b"] by simp
  show ?case using 1 2 3 by (simp add: storedContract_def del: length_append) simp
qed simp

lemma readEthBlockTx_append:
  assumes v: "vlq_codec v" and "length (btxID_eb bt) = pl" and n: "len_ok (contracts_eb bt)"
  shows "readEthBlockTx v pl (pre @ packEthBlockTx v bt @ rest) (length pre) = Inr (storedTx bt, length pre + length (packEthBlockTx v bt))"
proof -
  let ?f = "appendAddress_eb (from_eb bt)" and ?t = "appendAddress_eb (to_eb bt)"
  let ?n = "PutUint v (of_nat (length (contracts_eb bt)))" and ?c = "concat (map packContract_eb (contracts_eb bt))"
  let ?buf = "pre @ btxID_eb bt @ ?f @ ?t @ ?n @ ?c @ rest"
  have 1: "getAddress_eb ?buf (length (pre @ btxID_eb bt)) = Inr (storedDesc (from_eb bt), length (pre @ btxID_eb bt @ ?f))"
    using getAddress_eb_append[of "pre @ btxID_eb bt" "from_eb bt" "?t @ ?n @ ?c @ rest"] by simp
  have 2: "getAddress_eb ?buf (length (pre @ btxID_eb bt @ ?f)) = Inr (storedDesc (to_eb bt), length (pre @ btxID_eb bt @ ?f @ ?t))"
    using getAddress_eb_append[of "pre @ btxID_eb bt @ ?f" "to_eb bt" "?n @ ?c @ rest"] by simp
  have 3: "slice_from ?buf (length (pre @ btxID_eb bt @ ?f @ ?t)) = Inr (?n @ ?c @ rest)"
    using slice_from_append[of "pre @ btxID_eb bt @ ?f @ ?t" "?n @ ?c @ rest"] by simp
  have 4: "readContracts_eb ?buf (length (contracts_eb bt)) (length (pre @ btxID_eb bt @ ?f @ ?t @ ?n)) =
      Inr (map storedContract (contracts_eb bt), length (pre @ btxID_eb bt @ ?f @ ?t @ ?n) + length ?c)"
    using readContracts_eb_append[of "pre @ btxID_eb bt @ ?f @ ?t @ ?n" "contracts_eb bt" rest] by simp
  have 5: "UintAt v (?n @ ?c @ rest) = (of_nat (length (contracts_eb bt)), length ?n)" by (rule vlq_codec.UintAt_PutUint[OF v])
  have p: "pre @ packEthBlockTx v bt @ rest = ?buf" by (simp add: packEthBlockTx_def packVaruint_def)
  have l: "length pre + pl = length (pre @ btxID_eb bt)" "length (pre @ btxID_eb bt @ ?f @ ?t) + length ?n = length (pre @ btxID_eb bt @ ?f @ ?t @ ?n)"
    using assms(2) by simp_all
  show ?thesis
    unfolding readEthBlockTx_def p l(1)
    using assms(2) n by (simp add: 1 2 3 4 5 l(2) unpackVaruint_def storedTx_def packEthBlockTx_def packVaruint_def del: length_append) simp
qed

definition ethBlockTx_ok :: "nat \<Rightarrow> ethBlockTx \<Rightarrow> bool" where
  "ethBlockTx_ok pl bt \<longleftrightarrow> length (btxID_eb bt) = pl \<and> len_ok (contracts_eb bt)"

lemma readEthBlockTxs_append:
  assumes v: "vlq_codec v"
  shows "list_all (ethBlockTx_ok pl) bts \<Longrightarrow>
    readEthBlockTxs v pl (pre @ concat (map (packEthBlockTx v) bts)) (length pre) = Inr (map storedTx bts)"
proof (induction bts arbitrary: pre)
  case Nil
  then show ?case by (subst readEthBlockTxs.simps) simp
next
  case (Cons bt bts)
  let ?r = "concat (map (packEthBlockTx v) bts)"
  have "readEthBlockTxs v pl ((pre @ packEthBlockTx v bt) @ ?r) (length (pre @ packEthBlockTx v bt)) = Inr (map storedTx bts)"
    by (rule Cons.IH) (use Cons.prems in simp)
  moreover have "readEthBlockTx v pl (pre @ packEthBlockTx v bt @ ?r) (length pre) = Inr (storedTx bt, length pre + length (packEthBlockTx v bt))"
    by (rule readEthBlockTx_append[OF v]) (use Cons.prems in \<open>simp_all add: ethBlockTx_ok_def\<close>)
  moreover have "0 < length (packEthBlockTx v bt)" by (simp add: packEthBlockTx_def EthereumTypeAddressDescriptorLen_def)
  ultimately show ?case by (subst readEthBlockTxs.simps) simp
qed

text \<open>The transactions of an ethereum type block are read back for disconnecting, with one loss: a descriptor that does not
  have 20 bytes and the zero address come back as nil, so that the entries of the zero address are never removed.\<close>

theorem ethBlockTxs_roundtrip:
  assumes "vlq_codec v" and "list_all (ethBlockTx_ok pl) bts"
  shows "readEthBlockTxs v pl (concat (map (packEthBlockTx v) bts)) 0 = Inr (map storedTx bts)"
  using readEthBlockTxs_append[OF assms, of "[]"] by simp

theorem ethBlockTxs_roundtrip_witness:
  "readEthBlockTxs base128 2 (packEthBlockTx base128
      \<lparr> btxID_eb = [1, 2], from_eb = replicate 20 5, to_eb = replicate 20 0, contracts_eb = [] \<rparr>) 0 =
   Inr [\<lparr> btxID_eb = [1, 2], from_eb = replicate 20 5, to_eb = [], contracts_eb = [] \<rparr>]"
  using ethBlockTxs_roundtrip[OF base128.vlq_codec_axioms, of 2
      "[\<lparr> btxID_eb = [1, 2], from_eb = replicate 20 5, to_eb = replicate 20 0, contracts_eb = [] \<rparr>]"]
  by (simp add: ethBlockTx_ok_def len_ok_def storedTx_def storedDesc_def contract_bytes_def EthereumTypeAddressDescriptorLen_def)

section \<open>Undoing the counters of an address\<close>

lemma findContract_SomeD:
  "findContractInAddressContracts c cs = Some i \<Longrightarrow> i < length cs \<and> Contract_ac (cs ! i) = c"
  by (induction cs arbitrary: i) (auto split: if_splits)

lemma findContract_append:
  "findContractInAddressContracts c cs = None \<Longrightarrow> Contract_ac x = c \<Longrightarrow>
   findContractInAddressContracts c (cs @ [x]) = Some (length cs)"
  by (induction cs) (auto split: if_splits)

lemma findContract_update:
  "findContractInAddressContracts c (cs[i := (cs ! i)\<lparr> Txs_ac := n \<rparr>]) = findContractInAddressContracts c cs"
proof (induction cs arbitrary: i)
  case (Cons x cs)
  then show ?case by (cases i) auto
qed simp

text \<open>Undoing a transaction restores the counters of an ethereum type address. For a transaction that counts, with or
  without a contract, and an address other than the zero address, counting it and uncounting it again gives the same
  record; a contract that the transaction added is removed again. (The total number of transactions changes
  only with the first entry of a transaction and is treated alike on both sides; the counters must not be about to wrap.)\<close>

theorem uncount_undoes_count:
  assumes "countContract addrDesc ix contract True ac = (ac', ix')" and "\<not> isZeroAddress addrDesc"
    and "NonContractTxs ac \<noteq> -1" and "\<forall>c \<in> set (Contracts ac). 0 < Txs_ac c \<and> Txs_ac c \<noteq> -1"
  shows "uncountContract True contract ac' = ac \<and>
    uncountContract False contract (ac'\<lparr> TotalTxs := TotalTxs ac' + 1 \<rparr>) = ac"
proof (cases contract)
  case None
  have pos: "0 < NonContractTxs ac + 1" using assms(3) by (metis word_neq_0_conv add_eq_0_iff add.commute minus_equation_iff)
  with None assms(1) show ?thesis by (auto simp: countContract_def uncountContract_def)
next
  case (Some c)
  show ?thesis
  proof (cases "findContractInAddressContracts c (Contracts ac)")
    case (Some i)
    then have i: "i < length (Contracts ac)" by (auto dest: findContract_SomeD)
    then have ci: "0 < Txs_ac (Contracts ac ! i)" "Txs_ac (Contracts ac ! i) \<noteq> -1" using assms(4) by auto
    then have pos: "0 < Txs_ac (Contracts ac ! i) + 1" by (metis word_neq_0_conv add_eq_0_iff add.commute minus_equation_iff)
    have "removeTxsAt i (addTxsAt i (Contracts ac)) = Contracts ac"
      using i ci pos by (auto simp: removeTxsAt_def addTxsAt_def)
    moreover have "findContractInAddressContracts c (addTxsAt i (Contracts ac)) = Some i"
      using Some by (simp add: addTxsAt_def findContract_update)
    ultimately show ?thesis using Some \<open>contract = Some c\<close> assms(1,2)
      by (auto simp: countContract_def uncountContract_def Let_def)
  next
    case None
    let ?i = "length (Contracts ac)" and ?cs = "Contracts ac @ [\<lparr> Contract_ac = c, Txs_ac = 0 \<rparr>]"
    have "findContractInAddressContracts c (addTxsAt ?i ?cs) = Some ?i"
      using findContract_append[OF None, of "\<lparr> Contract_ac = c, Txs_ac = 1 \<rparr>"] by (simp add: addTxsAt_def)
    moreover have "removeTxsAt ?i (addTxsAt ?i ?cs) = Contracts ac" by (simp add: removeTxsAt_def addTxsAt_def)
    ultimately show ?thesis using None \<open>contract = Some c\<close> assms(1,2)
      by (auto simp: countContract_def uncountContract_def Let_def)
  qed
qed

theorem uncount_undoes_count_witness:
  "uncountContract True (Some (replicate 20 9))
     (fst (countContract (replicate 20 1) 0 (Some (replicate 20 9)) True newAddrContracts)) = newAddrContracts"
  using uncount_undoes_count[of "replicate 20 1" 0 "Some (replicate 20 9)" newAddrContracts
      "fst (countContract (replicate 20 1) 0 (Some (replicate 20 9)) True newAddrContracts)"
      "snd (countContract (replicate 20 1) 0 (Some (replicate 20 9)) True newAddrContracts)"]
  by (simp add: newAddrContracts_def)

end
