(* ===== verification/Connect_Block.thy ===== *)
theory Connect_Block
  imports Ethereum_Index "HOL-Library.Multiset"
begin

text \<open>
  \<open>ConnectBlock\<close> of \<open>db/rocksdb.go\<close> and the bulk mode of \<open>db/bulkconnect.go\<close>.

  In bulk mode the maps are kept over many blocks and stored in parts. The code stores transaction
  records and balances in goroutines of their own, while the calling goroutine stores the address
  index; it waits for all of them before it returns. They work on different maps and write to different
  columns, so the model runs them one after the other; \<open>bulk_writes_commute\<close> below shows that the order
  does not matter. Where the code stores some random part of a map, the model takes the first entries of
  the list that stands for the map.
\<close>

section \<open>One block at a time\<close>

definition finishBlock ::
    "'s packages \<Rightarrow> uint32 \<Rightarrow> addressesMap \<Rightarrow> WriteBatch \<times> 's RocksDB \<Rightarrow> go_error + 's RocksDB" where
  "finishBlock E height addresses = (\<lambda>(wb, d).
     rbind (WriteWB (rocks E) (db d) (storeAddresses E height addresses wb)) (\<lambda>s. Inr (d\<lparr> db := s \<rparr>)))"

definition ConnectBlock :: "'s packages \<Rightarrow> Block \<Rightarrow> 's RocksDB \<Rightarrow> go_error + 's RocksDB" where
  "ConnectBlock E block d =
     (let chainType = GetChainType (chainParser d) in
      rbind (writeHeightFromBlock E block opInsert ([], d)) (\<lambda>(wb, d).
      if chainType = ChainBitcoinType then
        rbind (processAddressesBitcoinType E block d (newConnectState (cbs d))) (\<lambda>st.
        let d = d\<lparr> cbs := stats st \<rparr>;
            wb = storeTxAddresses E (txAddressesMap st) wb;
            wb = storeBalances E (map (map_prod id Some) (balances_cs st)) wb in
        rbind (storeAndCleanupBlockTxs E block (wb, d)) (finishBlock E (Height_bh block) (addresses_cs st)))
      else if chainType = ChainEthereumType then
        rbind (processAddressesEthereumType E block d
            \<lparr> addresses_es = [], addressContracts = [], stats_es = cbs d \<rparr>) (\<lambda>(bts, st).
        let d = d\<lparr> cbs := stats_es st \<rparr>;
            wb = storeAddressContracts E (map (map_prod id Some) (addressContracts st)) wb in
        rbind (storeAndCleanupBlockTxsEthereumType E block bts (wb, d))
          (finishBlock E (Height_bh block) (addresses_es st)))
      else Inl (Errorf ''Unknown chain type'')))"

section \<open>Bulk mode\<close>

record bulkAddresses =
  bi_ba :: BlockInfo
  addresses_ba :: addressesMap

record 's BulkConnect =
  d_bc :: "'s RocksDB"
  chainType_bc :: ChainType
  bulkAddresses_bc :: "bulkAddresses list"
  bulkAddressesCount :: nat
  txAddressesMap_bc :: "(bytes, TxAddresses) gomap"
  balances_bc :: "(bytes, AddrBalance) gomap"
  addressContracts_bc :: "(bytes, AddrContracts) gomap"
  height_bc :: uint32

definition maxBulkAddresses :: nat where "maxBulkAddresses = 80000"
definition maxBulkTxAddresses :: nat where "maxBulkTxAddresses = 500000"
definition partialStoreAddresses :: nat where "partialStoreAddresses = maxBulkTxAddresses div 10"
definition maxBulkBalances :: nat where "maxBulkBalances = 700000"
definition partialStoreBalances :: nat where "partialStoreBalances = maxBulkBalances div 10"
definition maxBulkAddrContracts :: nat where "maxBulkAddrContracts = 1200000"
definition partialStoreAddrContracts :: nat where "partialStoreAddrContracts = maxBulkAddrContracts div 10"

definition InitBulkConnect :: "'s packages \<Rightarrow> 's RocksDB \<Rightarrow> go_error + 's BulkConnect" where
  "InitBulkConnect E d =
     rbind (SetInconsistentState E True d) (\<lambda>d.
     Inr \<lparr> d_bc = d, chainType_bc = GetChainType (chainParser d), bulkAddresses_bc = [], bulkAddressesCount = 0,
           txAddressesMap_bc = [], balances_bc = [], addressContracts_bc = [], height_bc = 0 \<rparr>)"

definition allSpent :: "TxAddresses \<Rightarrow> bool" where
  "allSpent a \<longleftrightarrow> list_all Spent (Outputs a)"

text \<open>Which records are stored and which stay: all, or the completely spent ones and some others.\<close>

definition splitTxAddresses ::
    "bool \<Rightarrow> (bytes, TxAddresses) gomap \<Rightarrow> (bytes, TxAddresses) gomap \<times> (bytes, TxAddresses) gomap" where
  "splitTxAddresses al m =
     (if al then (m, [])
      else
        let txm = filter (\<lambda>(k, a). allSpent a) m;
            rest = filter (\<lambda>(k, a). \<not> allSpent a) m;
            more = partialStoreAddresses - length txm
        in (txm @ take more rest, drop more rest))"

definition bulkStoreTxAddresses ::
    "'s packages \<Rightarrow> bool \<Rightarrow> 's BulkConnect \<Rightarrow> WriteBatch \<times> 's BulkConnect" where
  "bulkStoreTxAddresses E al b =
     (let (txm, rest) = splitTxAddresses al (txAddressesMap_bc b)
      in (storeTxAddresses E txm [], b\<lparr> txAddressesMap_bc := rest \<rparr>))"

definition writeBulk :: "'s packages \<Rightarrow> WriteBatch \<times> 's BulkConnect \<Rightarrow> go_error + 's BulkConnect" where
  "writeBulk E = (\<lambda>(wb, b).
     rbind (WriteWB (rocks E) (db (d_bc b)) wb) (\<lambda>s. Inr (b\<lparr> d_bc := (d_bc b)\<lparr> db := s \<rparr> \<rparr>)))"

definition parallelStoreTxAddresses :: "'s packages \<Rightarrow> bool \<Rightarrow> 's BulkConnect \<Rightarrow> go_error + 's BulkConnect" where
  "parallelStoreTxAddresses E al b = writeBulk E (bulkStoreTxAddresses E al b)"

definition splitPart :: "bool \<Rightarrow> nat \<Rightarrow> 'a list \<Rightarrow> 'a list \<times> 'a list" where
  "splitPart al n m = (if al then (m, []) else (take n m, drop n m))"

definition bulkStoreBalances :: "'s packages \<Rightarrow> bool \<Rightarrow> 's BulkConnect \<Rightarrow> WriteBatch \<times> 's BulkConnect" where
  "bulkStoreBalances E al b =
     (let (bal, rest) = splitPart al partialStoreBalances (balances_bc b)
      in (storeBalances E (map (map_prod id Some) bal) [], b\<lparr> balances_bc := rest \<rparr>))"

definition parallelStoreBalances :: "'s packages \<Rightarrow> bool \<Rightarrow> 's BulkConnect \<Rightarrow> go_error + 's BulkConnect" where
  "parallelStoreBalances E al b = writeBulk E (bulkStoreBalances E al b)"

definition storeBulkAddresses ::
    "'s packages \<Rightarrow> WriteBatch \<times> 's BulkConnect \<Rightarrow> go_error + (WriteBatch \<times> 's BulkConnect)" where
  "storeBulkAddresses E = (\<lambda>(wb, b).
     rbind (rfold (\<lambda>ba (wb, d).
         writeHeight E (Height_bi (bi_ba ba)) (bi_ba ba) opInsert
           (storeAddresses E (Height_bi (bi_ba ba)) (addresses_ba ba) wb, d)) (bulkAddresses_bc b) (wb, d_bc b)) (\<lambda>(wb, d).
     Inr (wb, b\<lparr> d_bc := d, bulkAddressesCount := 0, bulkAddresses_bc := [] \<rparr>)))"

definition appendBulkAddresses :: "Block \<Rightarrow> addressesMap \<Rightarrow> 's BulkConnect \<Rightarrow> 's BulkConnect" where
  "appendBulkAddresses block addresses b =
     b\<lparr> bulkAddresses_bc := bulkAddresses_bc b @ [\<lparr> bi_ba = blockInfoOf block, addresses_ba = addresses \<rparr>],
        bulkAddressesCount := bulkAddressesCount b + length addresses \<rparr>"

text \<open>The write of the calling goroutine; \<open>storeTxs\<close> stores the transactions of the block.\<close>

definition writeBlockBulk ::
    "'s packages \<Rightarrow> bool \<Rightarrow> bool \<Rightarrow> (WriteBatch \<times> 's RocksDB \<Rightarrow> go_error + (WriteBatch \<times> 's RocksDB)) \<Rightarrow>
     's BulkConnect \<Rightarrow> go_error + 's BulkConnect" where
  "writeBlockBulk E sa storeBlockTxs storeTxs b =
     (if sa \<or> bulkAddressesCount b > maxBulkAddresses \<or> storeBlockTxs then
        rbind (if sa \<or> bulkAddressesCount b > maxBulkAddresses then storeBulkAddresses E ([], b) else Inr ([], b)) (\<lambda>(wb, b).
        rbind (if storeBlockTxs then storeTxs (wb, d_bc b) else Inr (wb, d_bc b)) (\<lambda>(wb, d).
        writeBulk E (wb, b\<lparr> d_bc := d \<rparr>)))
      else Inr b)"

definition connectBlockBitcoinType ::
    "'s packages \<Rightarrow> Block \<Rightarrow> bool \<Rightarrow> 's BulkConnect \<Rightarrow> go_error + 's BulkConnect" where
  "connectBlockBitcoinType E block storeBlockTxs b =
     rbind (processAddressesBitcoinType E block (d_bc b)
         \<lparr> addresses_cs = [], txAddressesMap = txAddressesMap_bc b, balances_cs = balances_bc b, stats = cbs (d_bc b) \<rparr>) (\<lambda>st.
     let b = b\<lparr> d_bc := (d_bc b)\<lparr> cbs := stats st \<rparr>, txAddressesMap_bc := txAddressesMap st,
               balances_bc := balances_cs st \<rparr>;
         nta = length (txAddressesMap_bc b); nb = length (balances_bc b);
         sa = (nta > maxBulkTxAddresses \<or> nb > maxBulkBalances);
         b = appendBulkAddresses block (addresses_cs st) b in
     rbind (writeBlockBulk E sa storeBlockTxs (storeAndCleanupBlockTxs E block) b) (\<lambda>b.
     rbind (if sa \<and> nta + partialStoreAddresses > maxBulkTxAddresses then parallelStoreTxAddresses E False b else Inr b) (\<lambda>b.
     if sa \<and> nb + partialStoreBalances > maxBulkBalances then parallelStoreBalances E False b else Inr b)))"

definition bulkStoreAddressContracts :: "'s packages \<Rightarrow> bool \<Rightarrow> 's BulkConnect \<Rightarrow> WriteBatch \<times> 's BulkConnect" where
  "bulkStoreAddressContracts E al b =
     (let (ac, rest) = splitPart al partialStoreAddrContracts (addressContracts_bc b)
      in (storeAddressContracts E (map (map_prod id Some) ac) [], b\<lparr> addressContracts_bc := rest \<rparr>))"

definition parallelStoreAddressContracts :: "'s packages \<Rightarrow> bool \<Rightarrow> 's BulkConnect \<Rightarrow> go_error + 's BulkConnect" where
  "parallelStoreAddressContracts E al b = writeBulk E (bulkStoreAddressContracts E al b)"

definition connectBlockEthereumType ::
    "'s packages \<Rightarrow> Block \<Rightarrow> bool \<Rightarrow> 's BulkConnect \<Rightarrow> go_error + 's BulkConnect" where
  "connectBlockEthereumType E block storeBlockTxs b =
     rbind (processAddressesEthereumType E block (d_bc b)
         \<lparr> addresses_es = [], addressContracts = addressContracts_bc b, stats_es = cbs (d_bc b) \<rparr>) (\<lambda>(bts, st).
     let b = b\<lparr> d_bc := (d_bc b)\<lparr> cbs := stats_es st \<rparr>, addressContracts_bc := addressContracts st \<rparr>;
         sa = (length (addressContracts_bc b) > maxBulkAddrContracts);
         b = appendBulkAddresses block (addresses_es st) b in
     rbind (writeBlockBulk E sa storeBlockTxs (storeAndCleanupBlockTxsEthereumType E block bts) b) (\<lambda>b.
     if sa then parallelStoreAddressContracts E False b else Inr b))"

definition BulkConnectBlock :: "'s packages \<Rightarrow> Block \<Rightarrow> bool \<Rightarrow> 's BulkConnect \<Rightarrow> go_error + 's BulkConnect" where
  "BulkConnectBlock E block storeBlockTxs b =
     (let b = b\<lparr> height_bc := Height_bh block \<rparr> in
      if chainType_bc b = ChainBitcoinType then connectBlockBitcoinType E block storeBlockTxs b
      else if chainType_bc b = ChainEthereumType then connectBlockEthereumType E block storeBlockTxs b
      else rbind (ConnectBlock E block (d_bc b)) (\<lambda>d. Inr (b\<lparr> d_bc := d \<rparr>)))"

text \<open>After \<open>Close\<close> the bulk object is gone; the handle of the database is what remains.\<close>

definition CloseBulk :: "'s packages \<Rightarrow> 's BulkConnect \<Rightarrow> go_error + 's RocksDB" where
  "CloseBulk E b =
     rbind (storeBulkAddresses E ([], b)) (\<lambda>(wb, b).
     rbind (writeBulk E (wb, b)) (\<lambda>b.
     rbind
       (if chainType_bc b = ChainBitcoinType then
          rbind (parallelStoreTxAddresses E True b) (parallelStoreBalances E True)
        else if chainType_bc b = ChainEthereumType then parallelStoreAddressContracts E True b
        else Inr b) (\<lambda>b.
     SetInconsistentState E False (d_bc b))))"

section \<open>The effect of connecting a block\<close>

text \<open>A batch whose keys are distinct, seen as a map for each column.\<close>

definition batch_map :: "WriteBatch \<Rightarrow> cf \<Rightarrow> bytes \<Rightarrow> bytes option option" where
  "batch_map wb c = map_of (map (\<lambda>x. (wb_key x, wb_val x)) (filter (\<lambda>x. wb_cf x = c) wb))"

definition distinct_batch :: "WriteBatch \<Rightarrow> bool" where
  "distinct_batch wb \<longleftrightarrow> distinct (map (\<lambda>x. (wb_cf x, wb_key x)) wb)"

lemma apply_batch_map:
  assumes "distinct_batch wb"
  shows "apply_batch wb m c k = (case batch_map wb c k of Some r \<Rightarrow> r | None \<Rightarrow> m c k)"
proof (cases "batch_map wb c k")
  case None
  then have "k \<notin> wb_key ` {x \<in> set wb. wb_cf x = c}" by (auto simp: batch_map_def map_of_eq_None_iff image_image)
  with None show ?thesis by (simp add: image_iff) (rule apply_batch_other, auto)
next
  case (Some r)
  then obtain x where "x \<in> set wb" "wb_cf x = c" "wb_key x = k" "wb_val x = r"
    by (auto simp: batch_map_def dest!: map_of_SomeD)
  then show ?thesis using apply_batch_distinct[of wb x m] assms Some by (auto simp: distinct_batch_def)
qed

lemma batch_map_append: "batch_map (xs @ ys) c = batch_map ys c ++ batch_map xs c"
  by (simp add: batch_map_def)

lemma batch_map_storeTxAddresses:
  "batch_map (storeTxAddresses E am []) c k =
     (if c = cfTxAddresses then map_option (\<lambda>ta. Some (packTxAddresses (vlq E) ta)) (map_of am k) else None)"
  by (induction am) (auto simp: batch_map_def storeTxAddresses_def)

definition balance_val :: "vlq \<Rightarrow> AddrBalance option \<Rightarrow> bytes option" where
  "balance_val v ab = (case ab of None \<Rightarrow> None | Some b \<Rightarrow> if Txs_ab b \<le> 0 then None else Some (packAddrBalance v b))"

lemma batch_map_storeBalances:
  "batch_map (storeBalances E abm []) c k =
     (if c = cfAddressBalance then map_option (balance_val (vlq E)) (map_of abm k) else None)"
proof (induction abm)
  case (Cons x abm)
  obtain a ab where x: "x = (a, ab)" by (cases x)
  obtain w where w: "storeBalances E (x # abm) [] = w # storeBalances E abm []"
      "wb_cf w = cfAddressBalance" "wb_key w = a" "wb_val w = balance_val (vlq E) ab"
    by (cases ab) (auto simp: x storeBalances_def balance_val_def)
  then show ?case using Cons by (auto simp: batch_map_def x)
qed (simp add: batch_map_def storeBalances_def)

lemma batch_map_storeAddresses:
  "batch_map (storeAddresses E h am []) c k =
     (if c = cfAddresses then map_of (map (\<lambda>(a, txi). (packAddressKey a h, Some (packTxIndexes (vlq E) txi))) am) k else None)"
  by (induction am) (auto simp: batch_map_def storeAddresses_def)

lemma store_append:
  "storeTxAddresses E am wb = wb @ storeTxAddresses E am []"
  "storeBalances E abm wb = wb @ storeBalances E abm []"
  "storeAddresses E h adm wb = wb @ storeAddresses E h adm []"
  by (simp_all add: storeTxAddresses_def storeBalances_def storeAddresses_def)

lemma map_of_packed_keys:
  "map_of (map (\<lambda>(a, txi). (packAddressKey a h, f txi)) am) (packAddressKey a h) = map_option f (map_of am a)"
  by (induction am) auto

text \<open>The batch of a bitcoin type block, and the database after it is written.\<close>

definition connectBatch :: "'s packages \<Rightarrow> uint32 \<Rightarrow> bytes \<Rightarrow> connectState \<Rightarrow> blockTxs list \<Rightarrow> WriteBatch" where
  "connectBatch E h val st bts =
     [PutWB cfHeight (packUint h) val] @ storeTxAddresses E (txAddressesMap st) [] @
     storeBalances E (map (map_prod id Some) (balances_cs st)) [] @
     [PutWB cfBlockTxs (packUint h) (concat (map (packBlockTx (vlq E)) bts))] @ storeAddresses E h (addresses_cs st) []"

lemma keys_stored:
  "map (\<lambda>x. (wb_cf x, wb_key x)) (storeTxAddresses E am []) = map (Pair cfTxAddresses) (map fst am)"
  "map (\<lambda>x. (wb_cf x, wb_key x)) (storeBalances E abm []) = map (Pair cfAddressBalance) (map fst abm)"
  "map (\<lambda>x. (wb_cf x, wb_key x)) (storeAddresses E h adm []) = map (Pair cfAddresses) (map (\<lambda>a. packAddressKey a h) (map fst adm))"
  by (auto simp: storeTxAddresses_def storeBalances_def storeAddresses_def split: option.splits)

lemma distinct_Pair: "distinct (map (Pair c) xs) = distinct xs"
  by (simp add: distinct_map inj_on_def)

lemma distinct_keys: "distinct (map (\<lambda>a. packAddressKey a h) xs) = distinct xs"
  by (simp add: distinct_map inj_on_def)

lemma distinct_connectBatch:
  assumes "connect_inv base st"
  shows "distinct_batch (connectBatch E h val st bts)"
proof -
  have d: "distinct (map fst (txAddressesMap st))" "distinct (map fst (balances_cs st))" "distinct (map fst (addresses_cs st))"
    using assms by (auto simp: connect_inv_def wf_map_def addressesMap_ok_def)
  have "map fst (map (map_prod id Some) (balances_cs st)) = map fst (balances_cs st)" by simp
  then show ?thesis using d
    by (auto simp: distinct_batch_def connectBatch_def keys_stored distinct_Pair distinct_keys simp del: map_map) 
qed

lemma updateBestHeight_keeps:
  "updateBestHeight E h d = Inr d1 \<Longrightarrow> db d1 = db d \<and> chainParser d1 = chainParser d \<and> cbs d1 = cbs d"
  by (auto simp: updateBestHeight_def split: option.splits)

text \<open>The handle during processing differs from the initial one only in the internal state.\<close>

definition connected ::
    "'s packages \<Rightarrow> Block \<Rightarrow> 's RocksDB \<Rightarrow> bytes \<Rightarrow> 's RocksDB \<Rightarrow> connectState \<Rightarrow> blockTxs list \<Rightarrow> bool" where
  "connected E block d val d1 st bts \<longleftrightarrow>
     packBlockInfo E (chainParser d) (blockInfoOf block) = Inr val \<and>
     updateBestHeight E (Height_bh block) d = Inr d1 \<and>
     processAddressesBitcoinType E block d1 (newConnectState (cbs d)) = Inr st \<and>
     rmap (blockTxOf (chainParser d)) (Txs_blk block) = Inr bts"

lemma contents_cleanup:
  assumes R: "reliable_store (rocks E) contents" and "cleanupBlockTxs E h d = Inr d'"
  shows "\<exists>P s. d' = d\<lparr> db := s \<rparr> \<and> contents s = removeBlockTxs P (contents (db d)) \<and>
    (\<forall>j. P j \<longrightarrow> of_int (KeepBlockAddresses (chainParser d)) < h \<and> j \<le> h - of_int (KeepBlockAddresses (chainParser d)))"
proof (cases "of_int (KeepBlockAddresses (chainParser d)) < h")
  case True
  let ?rh = "h - of_int (KeepBlockAddresses (chainParser d))"
  obtain s where "cleanupFrom E ?rh d = Inr (d\<lparr> db := s \<rparr>)"
      "contents s = removeBlockTxs (cleaned (contents (db d)) ?rh) (contents (db d))"
    using cleanupFrom_effect[OF R] by blast
  with True assms(2) show ?thesis
    by (intro exI[of _ "cleaned (contents (db d)) ?rh"] exI[of _ s]) (auto simp: cleanupBlockTxs_def Let_def cleaned_def)
next
  case False
  with assms(2) show ?thesis
    by (intro exI[of _ "\<lambda>_. False"] exI[of _ "db d"]) (auto simp: cleanupBlockTxs_def Let_def removeBlockTxs_none)
qed

lemma ConnectBlock_bitcoin:
  assumes R: "reliable_store (rocks E) contents" and ct: "GetChainType (chainParser d) = ChainBitcoinType"
    and "ConnectBlock E block d = Inr d'"
  obtains val d1 st bts P where "connected E block d val d1 st bts" and "chainParser d' = chainParser d"
    and "contents (db d') = apply_batch (connectBatch E (Height_bh block) val st bts) (removeBlockTxs P (contents (db d)))"
proof -
  obtain val d1 st bts d2 s where c: "connected E block d val d1 st bts"
    and cl: "cleanupBlockTxs E (Height_bh block) (d1\<lparr> cbs := stats st \<rparr>) = Inr d2"
    and w: "WriteWB (rocks E) (db d2) (connectBatch E (Height_bh block) val st bts) = Inr s" and d': "d' = d2\<lparr> db := s \<rparr>"
  proof -
    have *: "storeAddresses E h adm (storeBalances E abm (storeTxAddresses E am [x]) @ [y]) =
        [x] @ storeTxAddresses E am [] @ storeBalances E abm [] @ [y] @ storeAddresses E h adm []" for h adm abm am x y
      by (simp add: storeAddresses_def storeBalances_def storeTxAddresses_def)
    obtain d1 where d1: "updateBestHeight E (Height_bh block) d = Inr d1"
      using assms(3)
      by (auto simp: ConnectBlock_def writeHeightFromBlock_def writeHeight_def Let_def rbind_eq_Inr_iff)
    show thesis
      using assms(3) ct that d1 updateBestHeight_keeps[OF d1]
      by (auto simp: ConnectBlock_def finishBlock_def writeHeightFromBlock_def writeHeight_def storeAndCleanupBlockTxs_def
          Let_def rbind_eq_Inr_iff connected_def connectBatch_def *)
  qed
  obtain P s1 where P: "d2 = (d1\<lparr> cbs := stats st \<rparr>)\<lparr> db := s1 \<rparr>" "contents s1 = removeBlockTxs P (contents (db d1))"
    using contents_cleanup[OF R cl] by auto
  moreover have "db d1 = db d" "chainParser d1 = chainParser d"
    using c updateBestHeight_keeps by (auto simp: connected_def)
  moreover have "contents s = apply_batch (connectBatch E (Height_bh block) val st bts) (contents (db d2))"
    using rocks_store.WriteWB_contents[OF reliable_store.axioms(1)[OF R] w] .
  ultimately show thesis using that[OF c] d' by simp
qed

lemma batch_map_connectBatch:
  "batch_map (connectBatch E h val st bts) cfHeight k = (if k = packUint h then Some (Some val) else None)"
  "batch_map (connectBatch E h val st bts) cfTxAddresses k =
     map_option (\<lambda>ta. Some (packTxAddresses (vlq E) ta)) (map_of (txAddressesMap st) k)"
  "batch_map (connectBatch E h val st bts) cfAddressBalance k =
     map_option (\<lambda>b. balance_val (vlq E) (Some b)) (map_of (balances_cs st) k)"
  "batch_map (connectBatch E h val st bts) cfBlockTxs k =
     (if k = packUint h then Some (Some (concat (map (packBlockTx (vlq E)) bts))) else None)"
  "batch_map (connectBatch E h val st bts) cfAddresses k =
     map_of (map (\<lambda>(a, txi). (packAddressKey a h, Some (packTxIndexes (vlq E) txi))) (addresses_cs st)) k"
proof -
  have one: "batch_map [PutWB c k x] c' k' = (if c' = c \<and> k' = k then Some (Some x) else None)" for c k x c' k'
    by (simp add: batch_map_def)
  have m: "map_of (map (map_prod id Some) m) k = map_option Some (map_of m k)" for m :: "(bytes, AddrBalance) gomap"
    by (induction m) auto
  show "batch_map (connectBatch E h val st bts) cfHeight k = (if k = packUint h then Some (Some val) else None)"
    "batch_map (connectBatch E h val st bts) cfTxAddresses k =
      map_option (\<lambda>ta. Some (packTxAddresses (vlq E) ta)) (map_of (txAddressesMap st) k)"
    "batch_map (connectBatch E h val st bts) cfAddressBalance k =
      map_option (\<lambda>b. balance_val (vlq E) (Some b)) (map_of (balances_cs st) k)"
    "batch_map (connectBatch E h val st bts) cfBlockTxs k =
      (if k = packUint h then Some (Some (concat (map (packBlockTx (vlq E)) bts))) else None)"
    "batch_map (connectBatch E h val st bts) cfAddresses k =
      map_of (map (\<lambda>(a, txi). (packAddressKey a h, Some (packTxIndexes (vlq E) txi))) (addresses_cs st)) k"
    unfolding connectBatch_def batch_map_append map_add_def batch_map_storeTxAddresses batch_map_storeBalances
      batch_map_storeAddresses one m
    by (auto split: option.splits simp: option.map_comp o_def)
qed

text \<open>What the columns hold after a block was connected.\<close>

lemma connected_columns:
  assumes R: "reliable_store (rocks E) contents" and ct: "GetChainType (chainParser d) = ChainBitcoinType"
    and "block_values_ok block" and cb: "ConnectBlock E block d = Inr d'" and c: "connected E block d val d1 st bts"
  shows "contents (db d') cfHeight = (contents (db d) cfHeight)(packUint (Height_bh block) \<mapsto> val)"
    and "contents (db d') cfTxAddresses t = (case map_of (txAddressesMap st) t of
           Some ta \<Rightarrow> Some (packTxAddresses (vlq E) ta) | None \<Rightarrow> contents (db d) cfTxAddresses t)"
    and "contents (db d') cfAddressBalance a = (case map_of (balances_cs st) a of
           Some b \<Rightarrow> balance_val (vlq E) (Some b) | None \<Rightarrow> contents (db d) cfAddressBalance a)"
    and "contents (db d') cfBlockTxs (packUint (Height_bh block)) = Some (concat (map (packBlockTx (vlq E)) bts))"
    and "contents (db d') cfAddresses k = (case map_of (map (\<lambda>(a, txi). (packAddressKey a (Height_bh block),
             Some (packTxIndexes (vlq E) txi))) (addresses_cs st)) k of
           Some r \<Rightarrow> r | None \<Rightarrow> contents (db d) cfAddresses k)"
    and "chainParser d' = chainParser d" and "connect_inv (storedTxs E d1) st"
proof -
  from ConnectBlock_bitcoin[OF R ct cb] obtain val' d1' st' bts' P where c': "connected E block d val' d1' st' bts'"
    and p: "chainParser d' = chainParser d"
    and m: "contents (db d') = apply_batch (connectBatch E (Height_bh block) val' st' bts') (removeBlockTxs P (contents (db d)))"
    by blast
  have eq: "val' = val" "d1' = d1" "st' = st" "bts' = bts" using c c' by (auto simp: connected_def)
  have inv: "connect_inv (storedTxs E d1) st"
    using c processAddressesBitcoinType_inv[OF connect_inv_new assms(3)] by (auto simp: connected_def)
  then show "connect_inv (storedTxs E d1) st" "chainParser d' = chainParser d" using p by auto
  have get: "contents (db d') c k = (case batch_map (connectBatch E (Height_bh block) val st bts) c k of
      Some r \<Rightarrow> r | None \<Rightarrow> removeBlockTxs P (contents (db d)) c k)" for c k
    unfolding m eq by (rule apply_batch_map) (rule distinct_connectBatch[OF inv])
  show "contents (db d') cfHeight = (contents (db d) cfHeight)(packUint (Height_bh block) \<mapsto> val)"
    by (rule ext) (simp add: get batch_map_connectBatch removeBlockTxs_def)
  show "contents (db d') cfTxAddresses t = (case map_of (txAddressesMap st) t of
      Some ta \<Rightarrow> Some (packTxAddresses (vlq E) ta) | None \<Rightarrow> contents (db d) cfTxAddresses t)"
    "contents (db d') cfAddressBalance a = (case map_of (balances_cs st) a of
      Some b \<Rightarrow> balance_val (vlq E) (Some b) | None \<Rightarrow> contents (db d) cfAddressBalance a)"
    "contents (db d') cfBlockTxs (packUint (Height_bh block)) = Some (concat (map (packBlockTx (vlq E)) bts))"
    "contents (db d') cfAddresses k = (case map_of (map (\<lambda>(a, txi). (packAddressKey a (Height_bh block),
        Some (packTxIndexes (vlq E) txi))) (addresses_cs st)) k of
      Some r \<Rightarrow> r | None \<Rightarrow> contents (db d) cfAddresses k)"
    by (simp_all add: get batch_map_connectBatch removeBlockTxs_def split: option.splits)
qed

text \<open>The address index with the transactions of one more block.\<close>

definition addBlock :: "uint32 \<Rightarrow> addressesMap \<Rightarrow> addressIndex \<Rightarrow> addressIndex" where
  "addBlock h adm ai = (\<lambda>a k. if k = h \<and> map_of adm a \<noteq> None then map_of adm a else ai a k)"

lemma represents_addBlock:
  assumes "represents v col ai"
    and "\<And>k. col' k = (case map_of (map (\<lambda>(a, txi). (packAddressKey a h, Some (packTxIndexes v txi))) adm) k of
           Some r \<Rightarrow> r | None \<Rightarrow> col k)"
  shows "represents v col' (addBlock h adm ai)"
proof -
  let ?m = "map (\<lambda>(a, txi). (packAddressKey a h, Some (packTxIndexes v txi))) adm"
  have key: "map_of ?m (packAddressKey a h) = map_option (\<lambda>txi. Some (packTxIndexes v txi)) (map_of adm a)" for a
    by (rule map_of_packed_keys)
  have old: "map_of ?m k = None" if "\<And>a. map_of adm a \<noteq> None \<Longrightarrow> k \<noteq> packAddressKey a h" for k
    using that by (auto simp: map_of_eq_None_iff image_iff split: prod.splits) (metis image_eqI fst_conv)
  show ?thesis
    unfolding represents_def
  proof (intro allI)
    fix k x
    show "col' k = Some x \<longleftrightarrow> (\<exists>a h' txi. addBlock h adm ai a h' = Some txi \<and> k = packAddressKey a h' \<and> x = packTxIndexes v txi)"
    proof (cases "\<exists>a. map_of adm a \<noteq> None \<and> k = packAddressKey a h")
      case True
      then obtain a txi where "map_of adm a = Some txi" "k = packAddressKey a h" by auto
      then show ?thesis using assms(2)[of k] key[of a] by (auto simp: addBlock_def)
    next
      case False
      have "map_of ?m k = None" by (rule old) (use False in blast)
      then have "col' k = col k" using assms(2)[of k] by simp
      moreover have "(\<exists>a h' txi. addBlock h adm ai a h' = Some txi \<and> k = packAddressKey a h' \<and> x = packTxIndexes v txi) =
          (\<exists>a h' txi. ai a h' = Some txi \<and> k = packAddressKey a h' \<and> x = packTxIndexes v txi)"
        using False by (intro ex_cong1) (metis addBlock_def)
      ultimately show ?thesis using assms(1) unfolding represents_def by simp
    qed
  qed
qed


lemma ConnectBlock_returns:
  assumes R: "reliable_store (rocks E) contents" and ct: "GetChainType (chainParser d) = ChainBitcoinType"
    and c: "connected E block d val d1 st bts"
  shows "\<exists>d'. ConnectBlock E block d = Inr d'"
proof -
  have k: "chainParser d1 = chainParser d" "cbs d1 = cbs d"
    using c updateBestHeight_keeps by (auto simp: connected_def)
  obtain s where "cleanupBlockTxs E (Height_bh block) (d1\<lparr> cbs := stats st \<rparr>) = Inr (d1\<lparr> cbs := stats st, db := s \<rparr>)"
    using cleanupFrom_effect[OF R, of "Height_bh block - of_int (KeepBlockAddresses (chainParser d1))" "d1\<lparr> cbs := stats st \<rparr>"]
    by (cases "of_int (KeepBlockAddresses (chainParser d1)) < Height_bh block")
      (auto simp: cleanupBlockTxs_def Let_def intro: that[of "db d1"])
  moreover have "\<exists>s'. WriteWB (rocks E) s wb = Inr s'" for s wb using reliable_store.WriteWB_returns[OF R] .
  ultimately show ?thesis
    using c ct k by (auto simp: ConnectBlock_def finishBlock_def writeHeightFromBlock_def writeHeight_def
        storeAndCleanupBlockTxs_def Let_def rbind_eq_Inr_iff connected_def) 
qed

definition sampleHandle :: "mem RocksDB" where
  "sampleHandle = projr (updateBestHeight memPackages 5 sampleDB)"

definition sampleDBConnected :: "mem RocksDB" where
  "sampleDBConnected = projr (ConnectBlock memPackages sampleBlock sampleDB)"

lemma sampleBlockTxs:
  "rmap (blockTxOf (hexParser 300)) (Txs_blk sampleBlock) = Inr (projr (rmap (blockTxOf (hexParser 300)) (Txs_blk sampleBlock)))"
  "list_all (blockTxs_ok 32) (projr (rmap (blockTxOf (hexParser 300)) (Txs_blk sampleBlock)))"
proof -
  have "\<not> isl (rmap (blockTxOf (hexParser 300)) (Txs_blk sampleBlock))" by code_simp
  then show "rmap (blockTxOf (hexParser 300)) (Txs_blk sampleBlock) = Inr (projr (rmap (blockTxOf (hexParser 300)) (Txs_blk sampleBlock)))"
    by simp
  show "list_all (blockTxs_ok 32) (projr (rmap (blockTxOf (hexParser 300)) (Txs_blk sampleBlock)))" by code_simp
qed

lemma sampleBlock_connects:
  "reliable_store (rocks memPackages) mem_contents" "GetChainType (chainParser sampleDB) = ChainBitcoinType"
  "block_values_ok sampleBlock" "hash_ok (chainParser sampleDB) (Hash_bh sampleBlock)"
  "chainParser sampleDB = hexParser 300" "Height_bh sampleBlock = 5" "Hash_bh sampleBlock = sampleTxid 255"
  by (simp add: memdb.reliable_store_axioms, simp add: sampleDB_def, code_simp,
      simp_all add: sampleDB_def sampleBlock_def hash_ok_def sampleTxid_def PackBlockHash_base_def UnpackBlockHash_base_def)

lemma sampleBlock_connected:
  "\<exists>val st bts. connected memPackages sampleBlock sampleDB val sampleHandle st bts"
proof -
  have "\<not> isl (processAddressesBitcoinType memPackages sampleBlock sampleHandle (newConnectState (cbs sampleDB)))"
    by code_simp
  then obtain st where "processAddressesBitcoinType memPackages sampleBlock sampleHandle (newConnectState (cbs sampleDB)) = Inr st"
    by (metis sum.collapse(2))
  moreover have "updateBestHeight memPackages 5 sampleDB = Inr sampleHandle"
    by (simp add: sampleHandle_def updateBestHeight_def sampleDB_def)
  moreover obtain val where "packBlockInfo memPackages (hexParser 300) (blockInfoOf sampleBlock) = Inr val"
    by (auto simp: packBlockInfo_def blockInfoOf_def sampleBlock_connects sampleTxid_def PackBlockHash_base_def)
  ultimately show ?thesis using sampleBlockTxs(1) by (auto simp: connected_def sampleBlock_connects)
qed

lemma sampleDBConnected_returns: "ConnectBlock memPackages sampleBlock sampleDB = Inr sampleDBConnected"
proof -
  obtain d' where "ConnectBlock memPackages sampleBlock sampleDB = Inr d'"
    using sampleBlock_connected ConnectBlock_returns[OF sampleBlock_connects(1,2)] by blast
  then show ?thesis by (simp add: sampleDBConnected_def)
qed




section \<open>Bulk mode keeps the view\<close>

text \<open>
  In bulk mode a record is read from the map when it is there and from the database otherwise. This view is what the
  processing of the blocks sees; storing a part of a map must not change it.
\<close>

definition bulkView :: "'s packages \<Rightarrow> ('s \<Rightarrow> contents) \<Rightarrow> 's BulkConnect \<Rightarrow> contents" where
  "bulkView E contents b c k =
     (if c = cfTxAddresses \<and> map_of (txAddressesMap_bc b) k \<noteq> None
      then map_option (packTxAddresses (vlq E)) (map_of (txAddressesMap_bc b) k)
      else if c = cfAddressBalance \<and> map_of (balances_bc b) k \<noteq> None
      then balance_val (vlq E) (map_of (balances_bc b) k)
      else contents (db (d_bc b)) c k)"

text \<open>A column after a batch depends on that column only, and batches for different columns commute.\<close>

lemma apply_batch_column: "m c = n c \<Longrightarrow> apply_batch wb m c = apply_batch wb n c"
proof (induction wb arbitrary: m n)
  case (Cons x wb)
  have "apply_op x m c = apply_op x n c" using Cons.prems by (cases x) auto
  then have "apply_batch wb (apply_op x m) c = apply_batch wb (apply_op x n) c" by (rule Cons.IH)
  then show ?case by (simp only: apply_batch_Cons)
qed (simp add: apply_batch_Nil)

lemma apply_batch_other_column: "c \<notin> wb_cf ` set wb \<Longrightarrow> apply_batch wb m c = m c"
  by (rule ext, rule apply_batch_other) auto

lemma bulk_writes_commute:
  assumes "wb_cf ` set xs \<inter> wb_cf ` set ys = {}"
  shows "apply_batch ys (apply_batch xs m) = apply_batch xs (apply_batch ys m)"
proof
  fix c
  show "apply_batch ys (apply_batch xs m) c = apply_batch xs (apply_batch ys m) c"
  proof (cases "c \<in> wb_cf ` set ys")
    case True
    then have c: "c \<notin> wb_cf ` set xs" using assms by auto
    then show ?thesis
      using apply_batch_column[of "apply_batch xs m" c m ys] by (simp add: apply_batch_other_column)
  next
    case False
    then show ?thesis
      using apply_batch_column[of "apply_batch ys m" c m xs] by (simp add: apply_batch_other_column)
  qed
qed

lemma stored_columns:
  "wb_cf ` set (storeTxAddresses E am []) \<subseteq> {cfTxAddresses}"
  "wb_cf ` set (storeBalances E abm []) \<subseteq> {cfAddressBalance}"
  "wb_cf ` set (storeAddresses E h adm []) \<subseteq> {cfAddresses}"
  by (auto simp: storeTxAddresses_def storeBalances_def storeAddresses_def split: option.splits prod.splits)

text \<open>The stored part and the rest are a partition of the map.\<close>

lemma partition_lookup:
  assumes "wf_map m" and "mset (xs @ ys) = mset m"
  shows "wf_map xs" and "wf_map ys" and "map_of m k = (case map_of xs k of Some a \<Rightarrow> Some a | None \<Rightarrow> map_of ys k)"
    and "map_of xs k \<noteq> None \<Longrightarrow> map_of ys k = None"
proof -
  have "mset (map fst (xs @ ys)) = mset (map fst m)" using assms(2) by (metis mset_map)
  then have d: "distinct (map fst (xs @ ys))" using assms(1) mset_eq_imp_distinct_iff unfolding wf_map_def by blast
  then show "wf_map xs" "wf_map ys" by (auto simp: wf_map_def)
  have "map_of m = map_of (xs @ ys)"
    using assms(1) d mset_eq_setD[OF assms(2)] by (intro map_of_inject_set[THEN iffD2]) (auto simp: wf_map_def)
  then show "map_of m k = (case map_of xs k of Some a \<Rightarrow> Some a | None \<Rightarrow> map_of ys k)"
    by (simp add: map_add_def split: option.splits)
  show "map_of xs k \<noteq> None \<Longrightarrow> map_of ys k = None"
    using d by (auto simp: map_of_eq_None_iff dest!: map_of_SomeD)
qed

lemma mset_take_drop: "mset (take n xs) + mset (drop n xs) = mset xs"
  by (metis append_take_drop_id mset_append)

lemma splitTxAddresses_partition: "mset (fst (splitTxAddresses al m) @ snd (splitTxAddresses al m)) = mset m"
proof (cases al)
  case False
  let ?P = "\<lambda>(k, a). allSpent a"
  have n: "(\<lambda>(k, a). \<not> allSpent a) = (\<lambda>x. \<not> ?P x)" by auto
  have "mset (filter ?P m) + mset (filter (\<lambda>x. \<not> ?P x) m) = mset m" by (simp flip: multiset_partition)
  then show ?thesis using False by (simp add: splitTxAddresses_def Let_def n mset_take_drop add.assoc)
qed (simp add: splitTxAddresses_def)

lemma splitPart_partition: "mset (fst (splitPart al n m) @ snd (splitPart al n m)) = mset m"
  by (simp add: splitPart_def mset_take_drop)

lemma writeBulk_contents:
  assumes "rocks_store (rocks E) contents" and "writeBulk E (wb, b) = Inr b'"
  shows "\<exists>s. b' = b\<lparr> d_bc := (d_bc b)\<lparr> db := s \<rparr> \<rparr> \<and> contents s = apply_batch wb (contents (db (d_bc b)))"
  using assms(2) rocks_store.WriteWB_contents[OF assms(1)] by (auto simp: writeBulk_def rbind_eq_Inr_iff)

lemma parallelStoreTxAddresses_view:
  assumes "rocks_store (rocks E) contents" and "wf_map (txAddressesMap_bc b)" and "parallelStoreTxAddresses E al b = Inr b'"
  shows "bulkView E contents b' = bulkView E contents b \<and> balances_bc b' = balances_bc b \<and> wf_map (txAddressesMap_bc b') \<and>
    (al \<longrightarrow> txAddressesMap_bc b' = [])"
proof -
  obtain txm rest where sp: "splitTxAddresses al (txAddressesMap_bc b) = (txm, rest)" by fastforce
  then have p: "mset (txm @ rest) = mset (txAddressesMap_bc b)"
    using splitTxAddresses_partition[of al "txAddressesMap_bc b"] by simp
  note l = partition_lookup[OF assms(2) p]
  obtain s where b': "b' = b\<lparr> txAddressesMap_bc := rest, d_bc := (d_bc b)\<lparr> db := s \<rparr> \<rparr>"
    and s: "contents s = apply_batch (storeTxAddresses E txm []) (contents (db (d_bc b)))"
    using writeBulk_contents[OF assms(1), of "storeTxAddresses E txm []" "b\<lparr> txAddressesMap_bc := rest \<rparr>" b'] assms(3) sp
    by (auto simp: parallelStoreTxAddresses_def bulkStoreTxAddresses_def)
  have "distinct_batch (storeTxAddresses E txm [])"
    using l(1) by (simp add: distinct_batch_def keys_stored distinct_Pair wf_map_def del: map_map)
  then have c: "contents s c k = (if c = cfTxAddresses \<and> map_of txm k \<noteq> None then map_option (packTxAddresses (vlq E)) (map_of txm k)
      else contents (db (d_bc b)) c k)" for c k
    by (auto simp: s apply_batch_map batch_map_storeTxAddresses split: option.splits)
  have "bulkView E contents b' c k = bulkView E contents b c k" for c k
    using l(3)[of k] l(4)[of k] by (auto simp: bulkView_def b' c split: option.splits)
  moreover have "al \<Longrightarrow> rest = []" using sp by (simp add: splitTxAddresses_def)
  ultimately show ?thesis using l(2) by (simp add: b' fun_eq_iff)
qed

lemma map_of_Some_values: "map_of (map (map_prod id Some) m) k = map_option Some (map_of m k)"
  by (induction m) auto

lemma parallelStoreBalances_view:
  assumes "rocks_store (rocks E) contents" and "wf_map (balances_bc b)" and "parallelStoreBalances E al b = Inr b'"
  shows "bulkView E contents b' = bulkView E contents b \<and> txAddressesMap_bc b' = txAddressesMap_bc b \<and> wf_map (balances_bc b') \<and>
    (al \<longrightarrow> balances_bc b' = [])"
proof -
  obtain bal rest where sp: "splitPart al partialStoreBalances (balances_bc b) = (bal, rest)" by fastforce
  then have p: "mset (bal @ rest) = mset (balances_bc b)"
    using splitPart_partition[of al partialStoreBalances "balances_bc b"] by simp
  note l = partition_lookup[OF assms(2) p]
  let ?wb = "storeBalances E (map (map_prod id Some) bal) []"
  obtain s where b': "b' = b\<lparr> balances_bc := rest, d_bc := (d_bc b)\<lparr> db := s \<rparr> \<rparr>" and s: "contents s = apply_batch ?wb (contents (db (d_bc b)))"
    using writeBulk_contents[OF assms(1), of ?wb "b\<lparr> balances_bc := rest \<rparr>" b'] assms(3) sp
    by (auto simp: parallelStoreBalances_def bulkStoreBalances_def)
  have "map fst (map (map_prod id Some) bal) = map fst bal" by simp
  then have "distinct_batch ?wb" using l(1) unfolding distinct_batch_def keys_stored by (simp add: distinct_Pair wf_map_def del: map_map)
  then have c: "contents s c k = (if c = cfAddressBalance \<and> map_of bal k \<noteq> None then balance_val (vlq E) (map_of bal k)
      else contents (db (d_bc b)) c k)" for c k
    by (auto simp: s apply_batch_map batch_map_storeBalances map_of_Some_values split: option.splits)
  have "bulkView E contents b' c k = bulkView E contents b c k" for c k
    using l(3)[of k] l(4)[of k] by (auto simp: bulkView_def b' c split: option.splits)
  moreover have "al \<Longrightarrow> rest = []" using sp by (simp add: splitPart_def)
  ultimately show ?thesis using l(2) by (simp add: b' fun_eq_iff)
qed

lemma storeBulkAddresses_columns:
  assumes "storeBulkAddresses E (wb, b) = Inr (wb', b')"
  shows "wb_cf ` set wb' \<subseteq> wb_cf ` set wb \<union> {cfHeight, cfAddresses} \<and> db (d_bc b') = db (d_bc b) \<and>
    txAddressesMap_bc b' = txAddressesMap_bc b \<and> balances_bc b' = balances_bc b \<and> chainType_bc b' = chainType_bc b"
proof -
  let ?f = "\<lambda>ba (wb, d). writeHeight E (Height_bi (bi_ba ba)) (bi_ba ba) opInsert
      (storeAddresses E (Height_bi (bi_ba ba)) (addresses_ba ba) wb, d)"
  obtain d where r: "rfold ?f (bulkAddresses_bc b) (wb, d_bc b) = Inr (wb', d)"
    and b': "b' = b\<lparr> d_bc := d, bulkAddressesCount := 0, bulkAddresses_bc := [] \<rparr>"
    using assms by (auto simp: storeBulkAddresses_def rbind_eq_Inr_iff)
  let ?P = "\<lambda>(w, x). wb_cf ` set w \<subseteq> wb_cf ` set wb \<union> {cfHeight, cfAddresses} \<and> db x = db (d_bc b)"
  have "?P (wb', d)"
  proof (rule rfold_invariant[OF r, of ?P])
    fix ba and p q :: "WriteBatch \<times> 'a RocksDB"
    assume p: "?P p" and f: "?f ba p = Inr q"
    obtain w x where wx: "p = (w, x)" by fastforce
    let ?w = "storeAddresses E (Height_bi (bi_ba ba)) (addresses_ba ba) w"
    from f wx obtain val x1 where "updateBestHeight E (Height_bi (bi_ba ba)) x = Inr x1"
      and q: "q = (?w @ [PutWB cfHeight (packUint (Height_bi (bi_ba ba))) val], x1)"
      by (auto simp: writeHeight_def rbind_eq_Inr_iff Let_def)
    moreover have "wb_cf ` set ?w \<subseteq> wb_cf ` set w \<union> {cfAddresses}"
      using stored_columns(3)[of E "Height_bi (bi_ba ba)" "addresses_ba ba"] store_append(3)[of E "Height_bi (bi_ba ba)" "addresses_ba ba" w] by auto
    moreover have "db x1 = db x" using calculation(1) updateBestHeight_keeps by blast
    ultimately show "?P q" using p wx by (auto simp: q)
  qed auto
  then show ?thesis by (simp add: b')
qed

lemma SetInconsistentState_contents:
  assumes "rocks_store (rocks E) contents" and "SetInconsistentState E i d = Inr d'" and "c \<noteq> cfDefault"
  shows "contents (db d') c = contents (db d) c"
  using assms(2,3) rocks_store.PutCF_contents[OF assms(1)]
  by (auto simp: SetInconsistentState_def storeState_def Let_def rbind_eq_Inr_iff split: option.splits)

lemma bulkView_empty: "txAddressesMap_bc b = [] \<Longrightarrow> balances_bc b = [] \<Longrightarrow> bulkView E contents b = contents (db (d_bc b))"
  by (simp add: bulkView_def fun_eq_iff)

text \<open>C15: Bulk mode loses no record. Storing some or all of the collected transaction records, or balances, does not
  change what a lookup through the maps sees in any column, and after a successful \<open>Close\<close> the database alone holds for every
  transaction and every address what the lookup saw before.\<close>

theorem bulk_mode_loses_nothing:
  assumes "rocks_store (rocks E) contents" and "chainType_bc b = ChainBitcoinType"
    and "wf_map (txAddressesMap_bc b)" and "wf_map (balances_bc b)"
  shows "(\<forall>al b'. parallelStoreTxAddresses E al b = Inr b' \<longrightarrow> bulkView E contents b' = bulkView E contents b) \<and>
    (\<forall>al b'. parallelStoreBalances E al b = Inr b' \<longrightarrow> bulkView E contents b' = bulkView E contents b) \<and>
    (\<forall>d'. CloseBulk E b = Inr d' \<longrightarrow>
       contents (db d') cfTxAddresses = bulkView E contents b cfTxAddresses \<and>
       contents (db d') cfAddressBalance = bulkView E contents b cfAddressBalance)"
proof (intro conjI allI impI)
  show "bulkView E contents b' = bulkView E contents b" if "parallelStoreTxAddresses E al b = Inr b'" for al b'
    using parallelStoreTxAddresses_view[OF assms(1,3) that] by simp
  show "bulkView E contents b' = bulkView E contents b" if "parallelStoreBalances E al b = Inr b'" for al b'
    using parallelStoreBalances_view[OF assms(1,4) that] by simp
  fix d'
  assume "CloseBulk E b = Inr d'"
  then obtain wb b1 b2 b4 where s1: "storeBulkAddresses E ([], b) = Inr (wb, b1)" and s2: "writeBulk E (wb, b1) = Inr b2"
    and s3: "(if chainType_bc b2 = ChainBitcoinType then rbind (parallelStoreTxAddresses E True b2) (parallelStoreBalances E True)
        else if chainType_bc b2 = ChainEthereumType then parallelStoreAddressContracts E True b2 else Inr b2) = Inr b4"
    and s4: "SetInconsistentState E False (d_bc b4) = Inr d'"
    unfolding CloseBulk_def by (clarsimp simp only: rbind_eq_Inr_iff[of "storeBulkAddresses E ([], b)"]
        rbind_eq_Inr_iff[of _ "\<lambda>b. SetInconsistentState E False (d_bc b)"] rbind_eq_Inr_iff[of "writeBulk E _"] case_prod_conv split_paired_Ex)
  note c1 = storeBulkAddresses_columns[OF s1]
  obtain s where b2: "b2 = b1\<lparr> d_bc := (d_bc b1)\<lparr> db := s \<rparr> \<rparr>" and s: "contents s = apply_batch wb (contents (db (d_bc b1)))"
    using writeBulk_contents[OF assms(1) s2] by blast
  have col: "contents s c = contents (db (d_bc b)) c" if "c \<in> {cfTxAddresses, cfAddressBalance}" for c
    using that c1 by (simp add: s) (subst apply_batch_other_column, auto)
  have v: "bulkView E contents b2 c = bulkView E contents b c" if "c \<in> {cfTxAddresses, cfAddressBalance}" for c
    using col[OF that] c1 b2 by (auto simp: bulkView_def fun_eq_iff)
  have "chainType_bc b2 = ChainBitcoinType" using c1 b2 assms(2) by simp
  with s3 obtain b3 where p: "parallelStoreTxAddresses E True b2 = Inr b3" "parallelStoreBalances E True b3 = Inr b4"
    by (auto simp: rbind_eq_Inr_iff)
  have t: "bulkView E contents b3 = bulkView E contents b2 \<and> balances_bc b3 = balances_bc b2 \<and> txAddressesMap_bc b3 = []"
    using parallelStoreTxAddresses_view[OF assms(1) _ p(1)] c1 b2 assms(3) by simp
  then have "bulkView E contents b4 = bulkView E contents b3 \<and> txAddressesMap_bc b4 = [] \<and> balances_bc b4 = []"
    using parallelStoreBalances_view[OF assms(1) _ p(2)] c1 b2 assms(4) by simp
  then have "contents (db (d_bc b4)) = bulkView E contents b2" using t bulkView_empty[of b4 E contents] by simp
  then show "contents (db d') cfTxAddresses = bulkView E contents b cfTxAddresses"
    "contents (db d') cfAddressBalance = bulkView E contents b cfAddressBalance"
    using SetInconsistentState_contents[OF assms(1) s4] v by simp_all
qed

definition sampleBulk :: "mem BulkConnect" where
  "sampleBulk = \<lparr> d_bc = sampleDB, chainType_bc = ChainBitcoinType, bulkAddresses_bc = [], bulkAddressesCount = 0,
     txAddressesMap_bc = [([1], \<lparr> Height_ta = 7, Inputs = [], Outputs = [], ShieldIns = 0, ShieldOuts = 0, ShieldValBal_ta = 0 \<rparr>)],
     balances_bc = [([2], newAddrBalance\<lparr> Txs_ab := 1 \<rparr>)], addressContracts_bc = [], height_bc = 7 \<rparr>"

lemma sampleBulk_closes: "\<exists>d'. CloseBulk memPackages sampleBulk = Inr d'"
  by (simp add: sampleBulk_def sampleDB_def CloseBulk_def storeBulkAddresses_def writeBulk_def parallelStoreTxAddresses_def
      parallelStoreBalances_def bulkStoreTxAddresses_def bulkStoreBalances_def SetInconsistentState_def storeState_def
      memPackages_def memdb_def rbind_def Let_def splitTxAddresses_def splitPart_def)

theorem bulk_mode_loses_nothing_witness:
  "\<exists>d' x y. CloseBulk memPackages sampleBulk = Inr d' \<and> mem_contents (db d') cfTxAddresses [1] = Some x \<and>
     mem_contents (db d') cfAddressBalance [2] = Some y"
proof -
  have R: "rocks_store (rocks memPackages) mem_contents" by (simp add: memdb.rocks_store_axioms)
  obtain d' where d': "CloseBulk memPackages sampleBulk = Inr d'" using sampleBulk_closes by blast
  have "mem_contents (db d') cfTxAddresses = bulkView memPackages mem_contents sampleBulk cfTxAddresses \<and>
      mem_contents (db d') cfAddressBalance = bulkView memPackages mem_contents sampleBulk cfAddressBalance"
    using bulk_mode_loses_nothing[OF R, of sampleBulk] d' by (simp add: sampleBulk_def wf_map_def)
  then show ?thesis using d' by (simp add: bulkView_def sampleBulk_def balance_val_def)
qed

end
