(* ===== verification/Sync_Worker.thy ===== *)
theory Sync_Worker
  imports Connect_Block
begin

text \<open>
  Synchronising the index with the chain of the back end (\<open>db/sync.go\<close>) and the transaction cache
  (\<open>db/txcache.go\<close>).

  The back end is a parameter: a record of its calls on a world state \<open>'c\<close> that every call may change, so
  that its chain can grow and fork between two calls. The signal of the operating system is part of the
  world. The loops that may run forever have fuel; running out of it is the error \<open>Hang\<close>, and the theorems
  say how much is enough. The result of \<open>resyncIndex\<close> tells whether the index was synced already
  (\<open>errSynced\<close>), which is not an error for its caller.
\<close>

record 'c BlockChain =
  GetBestBlockHash :: "'c \<Rightarrow> (go_error + string) \<times> 'c"
  GetBestBlockHeight :: "'c \<Rightarrow> (go_error + uint32) \<times> 'c"
  GetBlockHash_c :: "uint32 \<Rightarrow> 'c \<Rightarrow> (go_error + string) \<times> 'c"
  GetBlock :: "string \<Rightarrow> uint32 \<Rightarrow> 'c \<Rightarrow> (go_error + Block) \<times> 'c"
  GetTransaction_c :: "string \<Rightarrow> 'c \<Rightarrow> (go_error + Tx) \<times> 'c"
  Signal :: "'c \<Rightarrow> bool \<times> 'c"

record ('s, 'c) SyncWorker =
  db_sw :: "'s RocksDB"
  chain :: 'c
  syncWorkers :: int
  syncChunk :: int
  dryRun :: bool
  startHeight :: uint32
  startHash :: string
  newBlocks :: "(string \<times> uint32) list"

definition NewSyncWorker ::
    "'s RocksDB \<Rightarrow> 'c \<Rightarrow> int \<Rightarrow> int \<Rightarrow> int \<Rightarrow> bool \<Rightarrow> ('s, 'c) SyncWorker" where
  "NewSyncWorker d c workers chunk minStartHeight dry =
     \<lparr> db_sw = d, chain = c, syncWorkers = workers, syncChunk = chunk, dryRun = dry,
       startHeight = of_int (if minStartHeight < 0 then 0 else minStartHeight), startHash = '''', newBlocks = [] \<rparr>"

text \<open>A call of the back end by the worker.\<close>

definition ask :: "('c \<Rightarrow> (go_error + 'a) \<times> 'c) \<Rightarrow> ('s, 'c) SyncWorker \<Rightarrow> go_error + ('a \<times> ('s, 'c) SyncWorker)" where
  "ask f w = (case f (chain w) of
     (Inl e, c) \<Rightarrow> Inl e
   | (Inr x, c) \<Rightarrow> Inr (x, w\<lparr> chain := c \<rparr>))"

text \<open>A block hash of the back end, where a block that is not found is the empty hash.\<close>

definition askHash :: "'c BlockChain \<Rightarrow> uint32 \<Rightarrow> ('s, 'c) SyncWorker \<Rightarrow> go_error + (string \<times> ('s, 'c) SyncWorker)" where
  "askHash ch height w = (case GetBlockHash_c ch height (chain w) of
     (Inl e, c) \<Rightarrow> if e = ErrBlockNotFound then Inr ('''', w\<lparr> chain := c \<rparr>) else Inl e
   | (Inr x, c) \<Rightarrow> Inr (x, w\<lparr> chain := c \<rparr>))"

section \<open>Connecting block by block\<close>

definition connect ::
    "'s packages \<Rightarrow> bool \<Rightarrow> Block \<Rightarrow> ('s, 'c) SyncWorker \<Rightarrow> go_error + ('s, 'c) SyncWorker" where
  "connect E onNewBlock block w =
     rbind (ConnectBlock E block (db_sw w)) (\<lambda>d.
     Inr (w\<lparr> db_sw := d,
       newBlocks := newBlocks w @ (if onNewBlock then [(Hash_bh block, Height_bh block)] else []) \<rparr>))"

text \<open>
  The goroutine \<open>getBlockChain\<close> reads one block after the other and hands them over through a channel;
  \<open>connectBlocks\<close> connects them in that order. During the initial sync a signal interrupts the loop;
  before the first block the message about it dereferences a nil pointer.
\<close>

fun connectLoop ::
    "nat \<Rightarrow> 's packages \<Rightarrow> 'c BlockChain \<Rightarrow> bool \<Rightarrow> bool \<Rightarrow> bool \<Rightarrow> string \<Rightarrow> uint32 \<Rightarrow> ('s, 'c) SyncWorker \<Rightarrow>
     go_error + ('s, 'c) SyncWorker" where
  "connectLoop 0 E ch onNewBlock initialSync first hash height w = Inl (Hang ''connectBlocks'')"
| "connectLoop (Suc n) E ch onNewBlock initialSync first hash height w =
     (let (interrupted, c) = (if initialSync then Signal ch (chain w) else (False, chain w));
          w = w\<lparr> chain := c \<rparr> in
      if interrupted then
        Inl (if first then Panic ''nil pointer dereference'' else ErrOperationInterrupted)
      else
        case GetBlock ch hash height (chain w) of
          (Inl e, c) \<Rightarrow> if e = ErrBlockNotFound then Inr (w\<lparr> chain := c \<rparr>) else Inl e
        | (Inr block, c) \<Rightarrow>
            rbind (connect E onNewBlock block (w\<lparr> chain := c \<rparr>)) (\<lambda>w.
            connectLoop n E ch onNewBlock initialSync False (Next_bh block) (height + 1) w))"

definition connectBlocks ::
    "nat \<Rightarrow> 's packages \<Rightarrow> 'c BlockChain \<Rightarrow> bool \<Rightarrow> bool \<Rightarrow> ('s, 'c) SyncWorker \<Rightarrow> go_error + ('s, 'c) SyncWorker" where
  "connectBlocks n E ch onNewBlock initialSync w =
     connectLoop n E ch onNewBlock initialSync True (startHash w) (startHeight w) w"

section \<open>Connecting in parallel\<close>

text \<open>A call that is repeated until it succeeds.\<close>

fun retry :: "nat \<Rightarrow> ('c \<Rightarrow> (go_error + 'a) \<times> 'c) \<Rightarrow> 'c \<Rightarrow> go_error + ('a \<times> 'c)" where
  "retry 0 f c = Inl (Hang ''retry'')"
| "retry (Suc n) f c = (case f c of
     (Inr x, c) \<Rightarrow> Inr (x, c)
   | (Inl e, c) \<Rightarrow> if is_panic e then Inl e else retry n f c)"

text \<open>
  \<open>ConnectBlocksParallel\<close> as the writer sees it: the blocks from \<open>lower\<close> to \<open>higher\<close> in this order. That the
  goroutines deliver them so is the subject of \<open>Parallel_Sync\<close>. An error of the bulk connect is fatal.
\<close>

fun connectParallelLoop ::
    "nat \<Rightarrow> 's packages \<Rightarrow> 'c BlockChain \<Rightarrow> bool \<Rightarrow> uint32 \<Rightarrow> uint32 list \<Rightarrow> 'c \<times> 's BulkConnect \<Rightarrow> go_error + ('c \<times> 's BulkConnect)" where
  "connectParallelLoop n E ch dry higher [] s = Inr s"
| "connectParallelLoop n E ch dry higher (h # hs) (c, b) =
     (case Signal ch c of (interrupted, c) \<Rightarrow>
      if interrupted then Inl ErrOperationInterrupted
      else
        rbind (retry n (GetBlockHash_c ch h) c) (\<lambda>(hash, c).
        rbind (retry n (GetBlock ch hash h) c) (\<lambda>(block, c).
        if dry then connectParallelLoop n E ch dry higher hs (c, b)
        else if Height_bh block \<noteq> h then Inl (Panic ''writeBlockWorker skipped block'')
        else
          (case BulkConnectBlock E block
              (higher < Height_bh block + of_int (KeepBlockAddresses (chainParser (d_bc b)))) b of
             Inl e \<Rightarrow> Inl (Panic ''writeBlockWorker error'')
           | Inr b \<Rightarrow> connectParallelLoop n E ch dry higher hs (c, b)))))"

definition ConnectBlocksParallel ::
    "nat \<Rightarrow> 's packages \<Rightarrow> 'c BlockChain \<Rightarrow> uint32 \<Rightarrow> uint32 \<Rightarrow> ('s, 'c) SyncWorker \<Rightarrow> go_error + ('s, 'c) SyncWorker" where
  "ConnectBlocksParallel n E ch lower higher w =
     (if higher = - 1 then Inl (Hang ''ConnectBlocksParallel'')
      else
        case InitBulkConnect E (db_sw w) of
          Inl e \<Rightarrow> Inl (Panic ''nil pointer dereference'')
        | Inr b \<Rightarrow>
            rbind (connectParallelLoop n E ch (dryRun w) higher (heights lower higher) (chain w, b)) (\<lambda>(c, b).
            case CloseBulk E b of
              Inl e \<Rightarrow> if is_panic e then Inl e else Inr (w\<lparr> chain := c, db_sw := d_bc b \<rparr>)
            | Inr d \<Rightarrow> Inr (w\<lparr> chain := c, db_sw := d \<rparr>)))"

section \<open>Forks\<close>

definition DisconnectBlocks :: "'s packages \<Rightarrow> uint32 \<Rightarrow> uint32 \<Rightarrow> ('s, 'c) SyncWorker \<Rightarrow> go_error + ('s, 'c) SyncWorker" where
  "DisconnectBlocks E lower higher w =
     (let ct = GetChainType (chainParser (db_sw w)) in
      rbind
        (if ct = ChainBitcoinType then DisconnectBlockRangeBitcoinType E lower higher (db_sw w)
         else if ct = ChainEthereumType then DisconnectBlockRangeEthereumType E lower higher (db_sw w)
         else Inl (Errorf ''Unknown chain type'')) (\<lambda>d.
      Inr (w\<lparr> db_sw := d \<rparr>)))"

text \<open>
  The search for the last common block goes down from the height below the local best block. The
  condition \<open>height >= 0\<close> always holds for an unsigned number; after height 0 the search goes on at the
  largest one. The result is the height at which the loop stops.
\<close>

fun findFork ::
    "nat \<Rightarrow> 's packages \<Rightarrow> 'c BlockChain \<Rightarrow> uint32 \<Rightarrow> ('s, 'c) SyncWorker \<Rightarrow> go_error + (uint32 \<times> ('s, 'c) SyncWorker)" where
  "findFork 0 E ch height w = Inl (Hang ''handleFork'')"
| "findFork (Suc n) E ch height w =
     rbind (Rocks_DB.GetBlockHash E height (db_sw w)) (\<lambda>local.
     if local = '''' then Inr (height, w)
     else
       rbind (askHash ch height w) (\<lambda>(remote, w).
       if local = remote then Inr (height, w)
       else findFork n E ch (height - 1) w))"

section \<open>Resync\<close>

text \<open>\<open>resyncIndex\<close> and \<open>handleFork\<close> call each other; both are one function here.\<close>

fun resyncIndex ::
    "nat \<Rightarrow> 's packages \<Rightarrow> 'c BlockChain \<Rightarrow> bool \<Rightarrow> bool \<Rightarrow> ('s, 'c) SyncWorker \<Rightarrow> go_error + (bool \<times> ('s, 'c) SyncWorker)" where
  "resyncIndex 0 E ch onNewBlock initialSync w = Inl (Hang ''resyncIndex'')"
| "resyncIndex (Suc n) E ch onNewBlock initialSync w =
     rbind (ask (GetBestBlockHash ch) w) (\<lambda>(remoteBestHash, w).
     rbind (GetBestBlock E (db_sw w)) (\<lambda>(localBestHeight, localBestHash).
     if localBestHash = remoteBestHash then Inr (True, w)
     else
       rbind
         (if localBestHash \<noteq> '''' then
            rbind (askHash ch localBestHeight w) (\<lambda>(remoteHash, w).
            if remoteHash \<noteq> localBestHash then Inr (True, w)
            else Inr (False, w\<lparr> startHeight := localBestHeight + 1 \<rparr>))
          else Inr (False, w)) (\<lambda>(forked, w).
       if forked then
         rbind (findFork n E ch (localBestHeight - 1) w) (\<lambda>(height, w).
         rbind (DisconnectBlocks E (height + 1) localBestHeight w) (\<lambda>w.
         resyncIndex n E ch onNewBlock initialSync w))
       else
         rbind (ask (GetBlockHash_c ch (startHeight w)) w) (\<lambda>(hash, w).
         let w = w\<lparr> startHash := hash \<rparr> in
         if syncWorkers w > 1 \<and> initialSync then
           rbind (ask (GetBestBlockHeight ch) w) (\<lambda>(remoteBestHeight, w).
           if remoteBestHeight < startHeight w then Inl (Errorf ''resync: remote best height error'')
           else if of_int (syncChunk w) < remoteBestHeight - startHeight w then
             rbind (ConnectBlocksParallel n E ch (startHeight w) remoteBestHeight w)
               (resyncIndex n E ch onNewBlock initialSync)
           else rbind (connectBlocks n E ch onNewBlock initialSync w) (\<lambda>w. Inr (False, w)))
         else rbind (connectBlocks n E ch onNewBlock initialSync w) (\<lambda>w. Inr (False, w))))))"

definition updateState :: "(InternalState \<Rightarrow> InternalState) \<Rightarrow> ('s, 'c) SyncWorker \<Rightarrow> go_error + ('s, 'c) SyncWorker" where
  "updateState f w =
     (case is_d (db_sw w) of
        None \<Rightarrow> Inl (Panic ''nil pointer dereference'')
      | Some st \<Rightarrow> Inr (w\<lparr> db_sw := (db_sw w)\<lparr> is_d := Some (f st) \<rparr> \<rparr>))"

definition ResyncIndex ::
    "nat \<Rightarrow> 's packages \<Rightarrow> 'c BlockChain \<Rightarrow> bool \<Rightarrow> bool \<Rightarrow> ('s, 'c) SyncWorker \<Rightarrow> go_error + ('s, 'c) SyncWorker" where
  "ResyncIndex n E ch onNewBlock initialSync w =
     rbind (updateState StartedSync w) (\<lambda>w.
     rbind (resyncIndex n E ch onNewBlock initialSync w) (\<lambda>(synced, w).
     if synced then updateState FinishedSyncNoChange w
     else
       rbind (GetBestBlock E (db_sw w)) (\<lambda>(bh, _). updateState (FinishedSync (Now E) bh) w)))"

section \<open>Synchronising with a back end whose chain does not change\<close>

text \<open>
  The contract of the back end during one resync: it answers from one chain of blocks \<open>blk 0, \<dots>, blk top\<close>, whose hashes
  differ and are linked by \<open>Next\<close>, which is empty for the last one, and no signal of the operating system arrives.
\<close>

locale chain_backend =
  fixes ch :: "'c BlockChain" and blk :: "uint32 \<Rightarrow> Block" and top_c :: uint32 and c :: 'c
  assumes best_hash: "GetBestBlockHash ch c = (Inr (Hash_bh (blk top_c)), c)"
    and hash_at: "GetBlockHash_c ch h c = (if h \<le> top_c then Inr (Hash_bh (blk h)) else Inl ErrBlockNotFound, c)"
    and block_at: "h \<le> top_c \<Longrightarrow> GetBlock ch (Hash_bh (blk h)) h c = (Inr (blk h), c)"
    and no_block: "top_c < h \<Longrightarrow> GetBlock ch '''' h c = (Inl ErrBlockNotFound, c)"
    and next_hash: "h < top_c \<Longrightarrow> Next_bh (blk h) = Hash_bh (blk (h + 1))"
    and no_next: "Next_bh (blk top_c) = ''''"
    and height_at: "h \<le> top_c \<Longrightarrow> Height_bh (blk h) = h"
    and hash_inj: "h \<le> top_c \<Longrightarrow> h' \<le> top_c \<Longrightarrow> Hash_bh (blk h) = Hash_bh (blk h') \<Longrightarrow> h = h'"
    and hash_nonempty: "h \<le> top_c \<Longrightarrow> Hash_bh (blk h) \<noteq> ''''"
    and top_less: "top_c \<noteq> -1"
    and no_signal: "Signal ch c = (False, c)"

text \<open>The first blocks of the chain, as the height column has them.\<close>

definition chainUpTo :: "(uint32 \<Rightarrow> Block) \<Rightarrow> nat \<Rightarrow> blockIndex" where
  "chainUpTo blk k = (\<lambda>h. if unat h < k then Some (blockInfoOf (blk h)) else None)"

definition indexed :: "'s packages \<Rightarrow> ('s \<Rightarrow> contents) \<Rightarrow> blockIndex \<Rightarrow> 's RocksDB \<Rightarrow> bool" where
  "indexed E contents m d \<longleftrightarrow> represents_heights E (chainParser d) (contents (db d) cfHeight) m"

text \<open>What the blocks need so that connecting them succeeds: \<open>I\<close> is whatever the caller knows of the database.\<close>

definition connectable :: "'s packages \<Rightarrow> (uint32 \<Rightarrow> Block) \<Rightarrow> uint32 \<Rightarrow> ('s RocksDB \<Rightarrow> bool) \<Rightarrow> bool" where
  "connectable E blk tp I \<longleftrightarrow> (\<forall>h d. h \<le> tp \<and> I d \<longrightarrow>
     GetChainType (chainParser d) = ChainBitcoinType \<and> block_values_ok (blk h) \<and> hash_ok (chainParser d) (Hash_bh (blk h)) \<and>
     (\<exists>d'. ConnectBlock E (blk h) d = Inr d' \<and> I d'))"

lemma represents_heights_insert:
  assumes "represents_heights E p col m" and "hash_ok p (Hash_bi bi)" and "packBlockInfo E p bi = Inr val"
  shows "represents_heights E p (col(packUint h \<mapsto> val)) (m(h \<mapsto> bi))"
  using assms unfolding represents_heights_def by auto

lemma ConnectBlock_indexed:
  assumes R: "reliable_store (rocks E) contents" and "connectable E blk tp I" and "h \<le> tp" and "I d"
    and "indexed E contents m d"
  obtains d' where "ConnectBlock E (blk h) d = Inr d'" and "I d'"
    and "indexed E contents (m(Height_bh (blk h) \<mapsto> blockInfoOf (blk h))) d'"
proof -
  have ct: "GetChainType (chainParser d) = ChainBitcoinType" and bv: "block_values_ok (blk h)"
    and hk: "hash_ok (chainParser d) (Hash_bh (blk h))" and ex: "\<exists>d'. ConnectBlock E (blk h) d = Inr d' \<and> I d'"
    using assms(2-4) unfolding connectable_def by blast+
  obtain d' where d': "ConnectBlock E (blk h) d = Inr d'" "I d'" using ex by blast
  obtain val d1 st bts where c: "connected E (blk h) d val d1 st bts"
    by (rule ConnectBlock_bitcoin[OF R ct d'(1)])
  note cols = connected_columns[OF R ct bv d'(1) c]
  have "packBlockInfo E (chainParser d) (blockInfoOf (blk h)) = Inr val" using c by (simp add: connected_def)
  then have "indexed E contents (m(Height_bh (blk h) \<mapsto> blockInfoOf (blk h))) d'"
    unfolding indexed_def cols(1) cols(6)
    by (intro represents_heights_insert) (use assms(5) hk in \<open>simp_all add: indexed_def blockInfoOf_def\<close>)
  with d' show thesis by (rule that)
qed

lemma chainUpTo_Suc: "unat h = k \<Longrightarrow> (chainUpTo blk k)(h \<mapsto> blockInfoOf (blk h)) = chainUpTo blk (Suc k)"
  by (auto simp: chainUpTo_def fun_eq_iff less_Suc_eq dest: word_unat_eq_iff[THEN iffD2])

context chain_backend
begin

lemma connectLoop_catches_up:
  assumes R: "reliable_store (rocks E) contents" and co: "connectable E blk top_c I"
  shows "unat k \<le> Suc (unat top_c) \<Longrightarrow> hash = (if k \<le> top_c then Hash_bh (blk k) else '''') \<Longrightarrow> chain w = c \<Longrightarrow> I (db_sw w) \<Longrightarrow>
    indexed E contents (chainUpTo blk (unat k)) (db_sw w) \<Longrightarrow> Suc (unat top_c) - unat k < n \<Longrightarrow>
    \<exists>d. connectLoop n E ch onNew initial first hash k w =
        Inr (w\<lparr> db_sw := d, newBlocks := newBlocks w @ (if onNew then map (\<lambda>h. (Hash_bh (blk h), h)) (heights k top_c) else []) \<rparr>) \<and>
      I d \<and> indexed E contents (chainUpTo blk (Suc (unat top_c))) d"
proof (induction "Suc (unat top_c) - unat k" arbitrary: k n hash first w)
  case 0
  then have k: "unat k = Suc (unat top_c)" and lt: "top_c < k" by (simp_all add: word_less_nat_alt)
  obtain m where n: "n = Suc m" using 0(7) by (cases n) auto
  have "heights k top_c = []" using k by (simp add: heights_def)
  moreover have "hash = ''''" using 0(3) lt by (simp add: not_le[symmetric])
  ultimately show ?case using 0 k n no_block[OF lt] no_signal by (auto simp: Let_def split: prod.splits intro!: exI[of _ "db_sw w"])
next
  case (Suc j)
  then have le: "k \<le> top_c" by (simp add: word_le_nat_alt)
  obtain m where n: "n = Suc m" using Suc(8) by (cases n) auto
  have "k \<noteq> -1" using le top_less by (metis word_order.extremum_unique)
  then have "1 + k \<noteq> 0" by (metis add_eq_0_iff)
  then have k1: "unat (k + 1) = Suc (unat k)" using unatSuc[of k] by (simp add: add.commute)
  have hs: "heights k top_c = k # heights (k + 1) top_c"
    using le k1 by (simp add: heights_def word_le_nat_alt upt_conv_Cons del: upt_Suc)
  obtain d' where d': "ConnectBlock E (blk k) (db_sw w) = Inr d'" "I d'"
      "indexed E contents ((chainUpTo blk (unat k))(Height_bh (blk k) \<mapsto> blockInfoOf (blk k))) d'"
    by (rule ConnectBlock_indexed[OF R co le Suc(6,7)])
  let ?w = "w\<lparr> db_sw := d', newBlocks := newBlocks w @ (if onNew then [(Hash_bh (blk k), k)] else []) \<rparr>"
  have step: "connectLoop n E ch onNew initial first hash k w = connectLoop m E ch onNew initial False (Next_bh (blk k)) (k + 1) ?w"
    using n le Suc(4,5) block_at[OF le] no_signal d'(1) height_at[OF le]
    by (cases w) (auto simp: connect_def Let_def)
  have "\<exists>d. connectLoop m E ch onNew initial False (Next_bh (blk k)) (k + 1) ?w =
        Inr (?w\<lparr> db_sw := d, newBlocks := newBlocks ?w @ (if onNew then map (\<lambda>h. (Hash_bh (blk h), h)) (heights (k + 1) top_c) else []) \<rparr>) \<and>
      I d \<and> indexed E contents (chainUpTo blk (Suc (unat top_c))) d"
  proof (rule Suc.hyps(1))
    show "j = Suc (unat top_c) - unat (k + 1)" "unat (k + 1) \<le> Suc (unat top_c)" "Suc (unat top_c) - unat (k + 1) < m"
      using Suc.hyps(2) Suc(8) n k1 le by (simp_all add: word_le_nat_alt)
    have "k = top_c" if "\<not> k + 1 \<le> top_c" using that le k1 by (simp add: word_le_nat_alt word_unat_eq_iff)
    then show "Next_bh (blk k) = (if k + 1 \<le> top_c then Hash_bh (blk (k + 1)) else '''')"
      using next_hash[of k] no_next k1 by (auto simp: word_le_nat_alt word_less_nat_alt)
    show "indexed E contents (chainUpTo blk (unat (k + 1))) (db_sw ?w)"
      using d'(3) height_at[OF le] k1 chainUpTo_Suc[OF refl, of blk k] by simp
  qed (use Suc(5) d'(2) in simp_all)
  then show ?case unfolding step using hs by (cases onNew) auto
qed
end

lemma unat_minus_1: "k \<noteq> 0 \<Longrightarrow> unat (k - 1 :: uint32) = unat k - 1"
  by (simp add: unat_minus_one)

lemma best_of_chainUpTo:
  assumes R: "rocks_store (rocks E) contents" and v: "vlq_codec (vlq E)" and "indexed E contents (chainUpTo blk (unat k)) d"
  shows "GetBestBlock E d = Inr (if k = 0 then (0, '''') else (k - 1, Hash_bh (blk (k - 1))))"
proof (cases "k = 0")
  case True
  then show ?thesis
    using GetBestBlock_represents(1)[OF R v assms(3)[unfolded indexed_def]] by (simp add: chainUpTo_def)
next
  case False
  have "h' \<le> k - 1" if "chainUpTo blk (unat k) h' = Some bi'" for h' bi'
    using that False by (auto simp: chainUpTo_def word_le_nat_alt unat_minus_1 split: if_splits)
  moreover have "chainUpTo blk (unat k) (k - 1) = Some (blockInfoOf (blk (k - 1)))"
    using False by (simp add: chainUpTo_def unat_minus_1 unat_gt_0)
  ultimately show ?thesis
    using GetBestBlock_represents(2)[OF R v assms(3)[unfolded indexed_def], of "k - 1" "blockInfoOf (blk (k - 1))"] False
    by (auto simp: blockInfoOf_def)
qed

context chain_backend
begin

lemma resync_behind:
  assumes R: "reliable_store (rocks E) contents" and v: "vlq_codec (vlq E)" and co: "connectable E blk top_c I"
    and k: "k \<le> top_c" and w: "chain w = c" "I (db_sw w)" "indexed E contents (chainUpTo blk (unat k)) (db_sw w)"
    and st: "k = 0 \<longrightarrow> startHeight w = 0" and par: "\<not> (1 < syncWorkers w \<and> initial)"
    and n: "unat top_c + 2 - unat k < n"
  shows "\<exists>w'. resyncIndex n E ch onNew initial w = Inr (False, w') \<and> chain w' = c \<and> I (db_sw w') \<and>
    indexed E contents (chainUpTo blk (Suc (unat top_c))) (db_sw w') \<and>
    newBlocks w' = newBlocks w @ (if onNew then map (\<lambda>h. (Hash_bh (blk h), h)) (heights k top_c) else [])"
proof -
  let ?w1 = "w\<lparr> startHeight := k, startHash := Hash_bh (blk k) \<rparr>"
  obtain m where m: "n = Suc m" using n by (cases n) auto
  have best: "GetBestBlock E (db_sw w) = Inr (if k = 0 then (0, '''') else (k - 1, Hash_bh (blk (k - 1))))"
    by (rule best_of_chainUpTo[OF reliable_store.axioms(1)[OF R] v w(3)])
  have k1: "k - 1 < top_c" "k - 1 \<le> top_c" if "k \<noteq> 0"
    using k that unat_gt_0[of k] by (auto simp: word_less_nat_alt word_le_nat_alt unat_minus_1)
  have ne: "Hash_bh (blk (k - 1)) \<noteq> Hash_bh (blk top_c)" if "k \<noteq> 0" using k1[OF that] hash_inj[of "k - 1" top_c] by auto
  have "resyncIndex n E ch onNew initial w =
      rbind (connectBlocks m E ch onNew initial ?w1) (\<lambda>w. Inr (False, w))"
    using m w(1) best_hash best par k hash_at[of k] hash_at[of "k - 1"] k1 ne hash_nonempty[of top_c] hash_nonempty[of "k - 1"] st
    by (cases w; cases "k = 0") (auto simp: ask_def askHash_def Let_def)
  moreover have "\<exists>d. connectBlocks m E ch onNew initial ?w1 =
      Inr (?w1\<lparr> db_sw := d, newBlocks := newBlocks ?w1 @ (if onNew then map (\<lambda>h. (Hash_bh (blk h), h)) (heights k top_c) else []) \<rparr>) \<and>
      I d \<and> indexed E contents (chainUpTo blk (Suc (unat top_c))) d"
    unfolding connectBlocks_def using connectLoop_catches_up[OF R co, of k "Hash_bh (blk k)" ?w1 m] k w n m
    by (simp add: word_le_nat_alt)
  ultimately show ?thesis using w(1) by auto
qed

lemma findFork_stops:
  assumes R: "reliable_store (rocks E) contents" and v: "vlq_codec (vlq E)"
    and ix: "indexed E contents loc (db_sw w)" and ne: "\<And>h bi. loc h = Some bi \<Longrightarrow> Hash_bi bi \<noteq> ''''" and w: "chain w = c"
    and stop: "loc k = None \<or> k \<le> top_c \<and> map_option Hash_bi (loc k) = Some (Hash_bh (blk k))"
  shows "(\<And>j. k < j \<Longrightarrow> j \<le> h \<Longrightarrow> loc j \<noteq> None \<and> \<not> (j \<le> top_c \<and> map_option Hash_bi (loc j) = Some (Hash_bh (blk j)))) \<Longrightarrow>
    k \<le> h \<Longrightarrow> unat h - unat k < n \<Longrightarrow> findFork n E ch h w = Inr (k, w)"
proof (induction "unat h - unat k" arbitrary: h n)
  have lh: "Rocks_DB.GetBlockHash E j (db_sw w) = Inr (case loc j of Some bi \<Rightarrow> Hash_bi bi | None \<Rightarrow> '''')" for j
    by (rule GetBlockHash_represents[OF R v ix[unfolded indexed_def]])
  have rh: "askHash ch j w = Inr (if j \<le> top_c then Hash_bh (blk j) else '''', w)" for j
    using w hash_at[of j] by (cases w) (simp add: askHash_def)
  {
    case 0
    then have "h = k" by (simp add: word_le_nat_alt word_unat_eq_iff)
    moreover obtain m where "n = Suc m" using 0(4) by (cases n) auto
    ultimately show ?case using stop lh[of k] rh[of k] ne[of k] by (cases "loc k") auto
  next
    case (Suc i)
    obtain m where n: "n = Suc m" using Suc(5) by (cases n) auto
    have kh: "k < h" using Suc.hyps(2) by (simp add: word_less_nat_alt)
    obtain bi where bi: "loc h = Some bi" using Suc.prems(1)[OF kh] by auto
    have "Hash_bi bi \<noteq> (if h \<le> top_c then Hash_bh (blk h) else '''')" using Suc.prems(1)[OF kh] bi ne[OF bi] by auto
    then have "findFork n E ch h w = findFork m E ch (h - 1) w" using n lh[of h] rh[of h] bi ne[OF bi] by simp
    also have "\<dots> = Inr (k, w)"
    proof (rule Suc.hyps(1))
      have "h \<noteq> 0" using kh by auto
      then have h: "unat (h - 1) = unat h - 1" "0 < unat h" by (simp_all add: unat_minus_1 unat_gt_0)
      then show "i = unat (h - 1) - unat k" "k \<le> h - 1" "unat (h - 1) - unat k < m"
        using Suc.hyps(2) Suc.prems(3) n kh by (simp_all add: word_less_nat_alt word_le_nat_alt)
      show "loc j \<noteq> None \<and> \<not> (j \<le> top_c \<and> map_option Hash_bi (loc j) = Some (Hash_bh (blk j)))" if "k < j" "j \<le> h - 1" for j
        by (rule Suc.prems(1)[OF that(1)]) (use that h in \<open>simp add: word_le_nat_alt\<close>)
    qed
    finally show ?case .
  }
qed

end

lemma Hash_bi_blockInfoOf [simp]: "Hash_bi (blockInfoOf b) = Hash_bh b"
  by (simp add: blockInfoOf_def)

text \<open>The local chain of a forked index: informations for all heights up to the best block.\<close>

definition localChain :: "(uint32 \<Rightarrow> BlockInfo) \<Rightarrow> uint32 \<Rightarrow> blockIndex" where
  "localChain info best = (\<lambda>h. if h \<le> best then Some (info h) else None)"

lemma best_of_localChain:
  assumes "rocks_store (rocks E) contents" and "vlq_codec (vlq E)" and "indexed E contents (localChain info best) d"
  shows "GetBestBlock E d = Inr (best, Hash_bi (info best))"
  by (rule GetBestBlock_represents(2)[OF assms(1,2) assms(3)[unfolded indexed_def]]) (auto simp: localChain_def split: if_splits)

lemma DisconnectBlocks_indexed:
  assumes R: "rocks_store (rocks E) contents" and ct: "GetChainType (chainParser (db_sw w)) = ChainBitcoinType"
    and "indexed E contents m (db_sw w)" and dc: "DisconnectBlocks E lower higher w = Inr w'"
  shows "indexed E contents (\<lambda>h. if h \<in> {lower..higher} then None else m h) (db_sw w') \<and> w' = w\<lparr> db_sw := db_sw w' \<rparr> \<and> 0 < lower"
proof -
  obtain d where d: "DisconnectBlockRangeBitcoinType E lower higher (db_sw w) = Inr d" "w' = w\<lparr> db_sw := d \<rparr>"
    using dc ct by (auto simp: DisconnectBlocks_def rbind_eq_Inr_iff)
  obtain blocks where l: "0 < lower" and p: "chainParser d = chainParser (db_sw w)"
    and h: "\<And>k. contents (db d) cfHeight k = (if k \<in> packUint ` {lower..higher} then None else contents (db (db_sw w)) cfHeight k)"
    by (rule DisconnectBlockRange_columns[OF R d(1)]) blast
  have "indexed E contents (\<lambda>h. if h \<in> {lower..higher} then None else m h) d"
    unfolding indexed_def by (rule represents_heights_remove[OF assms(3)[unfolded indexed_def] p h])
  with l d(2) show ?thesis by simp
qed

context chain_backend
begin

text \<open>The hashes above the fork are not hashes of the remote chain.\<close>

definition stale :: "(uint32 \<Rightarrow> BlockInfo) \<Rightarrow> uint32 \<Rightarrow> bool" where
  "stale info h \<longleftrightarrow> Hash_bi (info h) \<noteq> '''' \<and> (\<forall>j. j \<le> top_c \<longrightarrow> Hash_bi (info h) \<noteq> Hash_bh (blk j))"

lemma resync_forked:
  assumes R: "reliable_store (rocks E) contents" and v: "vlq_codec (vlq E)" and co: "connectable E blk top_c I"
    and w: "chain w = c" "GetChainType (chainParser (db_sw w)) = ChainBitcoinType" "indexed E contents (localChain info best) (db_sw w)"
    and f: "f < best" "f < top_c" and same: "\<And>h. h \<le> f \<Longrightarrow> info h = blockInfoOf (blk h)"
    and st: "\<And>h. f < h \<Longrightarrow> h \<le> best \<Longrightarrow> stale info h"
    and dc: "DisconnectBlocks E (f + 1) best w = Inr w1" "I (db_sw w1)" and par: "\<not> (1 < syncWorkers w \<and> initial)"
    and n: "unat best + unat top_c + 3 < n"
  shows "\<exists>w'. resyncIndex n E ch onNew initial w = Inr (False, w') \<and> indexed E contents (chainUpTo blk (Suc (unat top_c))) (db_sw w') \<and>
    newBlocks w' = newBlocks w @ (if onNew then map (\<lambda>h. (Hash_bh (blk h), h)) (heights (f + 1) top_c) else [])"
proof -
  note R' = reliable_store.axioms(1)[OF R]
  obtain m where m: "n = Suc m" using n by (cases n) auto
  have best: "GetBestBlock E (db_sw w) = Inr (best, Hash_bi (info best))" by (rule best_of_localChain[OF R' v w(3)])
  have sb: "stale info best" using st f(1) by simp
  have f1: "unat (f + 1) = Suc (unat f)"
  proof -
    have "f \<noteq> -1" using f(1) by (metis word_order.extremum_strict)
    then have "1 + f \<noteq> 0" by (metis add_eq_0_iff)
    then show ?thesis using unatSuc[of f] by (simp add: add.commute)
  qed
  have "best \<noteq> 0" using f(1) by auto
  then have b1: "unat (best - 1) = unat best - 1" "0 < unat best" by (simp_all add: unat_minus_1 unat_gt_0)
  have fork: "findFork m E ch (best - 1) w = Inr (f, w)"
  proof (rule findFork_stops[OF R v w(3) _ w(1)])
    show "Hash_bi bi \<noteq> ''''" if "localChain info best h = Some bi" for h bi
    proof (cases "h \<le> f")
      case True
      then have "h \<le> top_c" using f(2) by simp
      moreover have "Hash_bi (info h) = Hash_bh (blk h)" by (simp add: same[OF True])
      ultimately show ?thesis using that hash_nonempty[of h] by (auto simp: localChain_def split: if_splits)
    next
      case False
      then show ?thesis using that st[of h] by (auto simp: localChain_def stale_def split: if_splits)
    qed
    show "localChain info best f = None \<or> f \<le> top_c \<and> map_option Hash_bi (localChain info best f) = Some (Hash_bh (blk f))"
      using f same[of f] by (simp add: localChain_def order_less_imp_le)
    show "localChain info best j \<noteq> None \<and> \<not> (j \<le> top_c \<and> map_option Hash_bi (localChain info best j) = Some (Hash_bh (blk j)))"
      if "f < j" "j \<le> best - 1" for j
      using that st[of j] b1 by (auto simp: localChain_def stale_def word_le_nat_alt)
    show "f \<le> best - 1" "unat (best - 1) - unat f < m" using f(1) b1 n m by (auto simp: word_le_nat_alt word_less_nat_alt)
  qed
  note d = DisconnectBlocks_indexed[OF R' w(2,3) dc(1)]
  have "(\<lambda>h. if h \<in> {f + 1..best} then None else localChain info best h) = chainUpTo blk (unat (f + 1))"
    using f(1) f1 same by (auto simp: fun_eq_iff chainUpTo_def localChain_def word_le_nat_alt word_less_nat_alt)
  then have w1: "chain w1 = c" "I (db_sw w1)" "indexed E contents (chainUpTo blk (unat (f + 1))) (db_sw w1)"
      "\<not> (1 < syncWorkers w1 \<and> initial)" "newBlocks w1 = newBlocks w"
  proof -
    have e: "w1 = w\<lparr> db_sw := db_sw w1 \<rparr>" using d by blast
    show "chain w1 = c" by (subst e) (simp add: w(1))
    show "\<not> (1 < syncWorkers w1 \<and> initial)" by (subst e) (use par in simp)
    show "newBlocks w1 = newBlocks w" by (subst e) simp
    show "I (db_sw w1)" by (rule dc(2))
    show "indexed E contents (chainUpTo blk (unat (f + 1))) (db_sw w1)" if "(\<lambda>h. if h \<in> {f + 1..best} then None else localChain info best h) = chainUpTo blk (unat (f + 1))"
      using d that by simp
  qed
  have "resyncIndex n E ch onNew initial w = resyncIndex m E ch onNew initial w1"
    using m w(1) best_hash best sb hash_at[of best] fork dc(1)
    by (cases w) (auto simp: ask_def askHash_def stale_def)
  moreover have "\<exists>w'. resyncIndex m E ch onNew initial w1 = Inr (False, w') \<and> chain w' = c \<and> I (db_sw w') \<and>
      indexed E contents (chainUpTo blk (Suc (unat top_c))) (db_sw w') \<and>
      newBlocks w' = newBlocks w1 @ (if onNew then map (\<lambda>h. (Hash_bh (blk h), h)) (heights (f + 1) top_c) else [])"
  proof (rule resync_behind[OF R v co _ w1(1-3) _ w1(4)])
    show "f + 1 \<le> top_c" using f(2) f1 by (simp add: word_le_nat_alt word_less_nat_alt)
    show "f + 1 = 0 \<longrightarrow> startHeight w1 = 0" using f1 by (metis nat.distinct(1) unat_0)
    show "unat top_c + 2 - unat (f + 1) < m" using n m by simp
  qed
  ultimately show ?thesis using w1(5) by auto
qed

lemma findFork_wraps:
  assumes R: "reliable_store (rocks E) contents" and v: "vlq_codec (vlq E)"
    and ix: "indexed E contents (localChain info best) (db_sw w)" and w: "chain w = c" and last: "best \<noteq> -1"
  shows "(\<And>j. j \<le> h \<Longrightarrow> j \<le> best \<and> stale info j) \<Longrightarrow> Suc (unat h) < n \<Longrightarrow> findFork n E ch h w = Inr (-1, w)"
    and "findFork (Suc m) E ch (-1) w = Inr (-1, w)"
proof -
  have lh: "Rocks_DB.GetBlockHash E j (db_sw w) = Inr (case localChain info best j of Some bi \<Rightarrow> Hash_bi bi | None \<Rightarrow> '''')" for j
    by (rule GetBlockHash_represents[OF R v ix[unfolded indexed_def]])
  have rh: "askHash ch j w = Inr (if j \<le> top_c then Hash_bh (blk j) else '''', w)" for j
    using w hash_at[of j] by (cases w) (simp add: askHash_def)
  have step: "findFork (Suc m) E ch j w = findFork m E ch (j - 1) w" if "j \<le> best" "stale info j" for j m
    using that lh[of j] rh[of j] by (auto simp: localChain_def stale_def)
  have "\<not> (-1 :: uint32) \<le> best" using last by (metis word_order.extremum_unique)
  then show minus: "findFork (Suc m) E ch (-1) w = Inr (-1, w)" for m
    using lh[of "-1"] by (simp add: localChain_def)
  show "(\<And>j. j \<le> h \<Longrightarrow> j \<le> best \<and> stale info j) \<Longrightarrow> Suc (unat h) < n \<Longrightarrow> findFork n E ch h w = Inr (-1, w)"
  proof (induction "unat h" arbitrary: h n)
    case 0
    then obtain m where "n = Suc (Suc m)" by (cases n; cases "n - 1") auto
    moreover have "h = 0" using 0(1) by (simp add: unat_eq_zero)
    ultimately show ?case using step[of h "Suc m"] 0(2)[of h] minus[of m] by simp
  next
    case (Suc i)
    then obtain m where n: "n = Suc m" by (cases n) auto
    have "h \<noteq> 0" using Suc(2) by auto
    then have h: "unat (h - 1) = i" using Suc(2) by (simp add: unat_minus_1)
    have "findFork m E ch (h - 1) w = Inr (-1, w)"
    proof (rule Suc(1))
      show "i = unat (h - 1)" "Suc (unat (h - 1)) < m" using h Suc(2,4) n by simp_all
      show "j \<le> best \<and> stale info j" if "j \<le> h - 1" for j
        by (rule Suc(3)) (use that h Suc(2) in \<open>simp add: word_le_nat_alt\<close>)
    qed
    then show ?case using n step[of h m] Suc(3)[of h] by simp
  qed
qed

lemma resync_forked_at_genesis:
  assumes R: "reliable_store (rocks E) contents" and v: "vlq_codec (vlq E)"
    and w: "chain w = c" "indexed E contents (localChain info best) (db_sw w)" and last: "best \<noteq> -1"
    and st: "\<And>h. h \<le> best \<Longrightarrow> stale info h" and n: "unat best + 2 < n"
  shows "\<exists>e. resyncIndex n E ch onNew initial w = Inl e"
proof -
  obtain m where m: "n = Suc (Suc m)" using n by (cases n; cases "n - 1") auto
  note R' = reliable_store.axioms(1)[OF R]
  have best: "GetBestBlock E (db_sw w) = Inr (best, Hash_bi (info best))" by (rule best_of_localChain[OF R' v w(2)])
  have sb: "stale info best" using st by simp
  have ff: "findFork (Suc m) E ch (best - 1) w = Inr (-1, w)"
  proof (cases "best = 0")
    case True
    then show ?thesis using findFork_wraps(2)[OF R v w(2,1) last] by simp
  next
    case False
    then have b: "unat (best - 1) = unat best - 1" "0 < unat best" by (simp_all add: unat_minus_1 unat_gt_0)
    show ?thesis
      by (rule findFork_wraps(1)[OF R v w(2,1) last]) (use b st n m in \<open>auto simp: word_le_nat_alt\<close>)
  qed
  have "resyncIndex n E ch onNew initial w = rbind (DisconnectBlocks E 0 best w) (resyncIndex (Suc m) E ch onNew initial)"
    using m w(1) best_hash best sb hash_at[of best] ff by (cases w) (auto simp: ask_def askHash_def stale_def)
  moreover have "\<exists>e. DisconnectBlocks E 0 best w = Inl e"
  proof (cases "DisconnectBlocks E 0 best w")
    case (Inr w')
    then show ?thesis
      by (auto simp: DisconnectBlocks_def DisconnectBlockRangeBitcoinType_def DisconnectBlockRangeEthereumType_def Let_def
          rbind_eq_Inr_iff split: if_splits prod.splits)
  qed simp
  ultimately show ?thesis by auto
qed

end

section \<open>Properties of the synchronisation\<close>

text \<open>C7: A resync catches up with the back end. Against a chain that does not change during the call, with the first
  \<open>k\<close> blocks of it indexed, blocks that can be connected, and sequential connecting, \<open>resyncIndex\<close> returns (it needs
  one unit of fuel for each missing block and two more), the height column then holds exactly the blocks of the chain, and the
  callback was called once for each missing block, in order.\<close>

theorem resync_catches_up:
  assumes "chain_backend ch blk tp c" and "reliable_store (rocks E) contents" and "vlq_codec (vlq E)" and "connectable E blk tp I"
    and "k \<le> tp" and "chain w = c" and "I (db_sw w)" and "indexed E contents (chainUpTo blk (unat k)) (db_sw w)"
    and "k = 0 \<longrightarrow> startHeight w = 0" and "\<not> (1 < syncWorkers w \<and> initial)" and "unat tp + 2 - unat k < n"
  shows "\<exists>w'. resyncIndex n E ch onNew initial w = Inr (False, w') \<and>
    indexed E contents (chainUpTo blk (Suc (unat tp))) (db_sw w') \<and>
    newBlocks w' = newBlocks w @ (if onNew then map (\<lambda>h. (Hash_bh (blk h), h)) (heights k tp) else [])"
  using chain_backend.resync_behind[OF assms, of onNew] by blast

text \<open>C8: A resync recovers from a fork. When the local chain agrees with the chain of the back end up to height \<open>f\<close> and
  its blocks above are not blocks of that chain, and disconnecting them succeeds, then \<open>resyncIndex\<close> finds the
  fork, disconnects exactly the blocks above \<open>f\<close>, connects the blocks of the back end, and the height column
  then holds exactly the chain of the back end.\<close>

theorem resync_recovers_from_fork:
  assumes "chain_backend ch blk tp c" and "reliable_store (rocks E) contents" and "vlq_codec (vlq E)" and "connectable E blk tp I"
    and "chain w = c" and "GetChainType (chainParser (db_sw w)) = ChainBitcoinType"
    and "indexed E contents (localChain info best) (db_sw w)" and "f < best" and "f < tp"
    and "\<forall>h. h \<le> f \<longrightarrow> info h = blockInfoOf (blk h)"
    and "\<forall>h. f < h \<and> h \<le> best \<longrightarrow> Hash_bi (info h) \<noteq> '''' \<and> (\<forall>j. j \<le> tp \<longrightarrow> Hash_bi (info h) \<noteq> Hash_bh (blk j))"
    and "DisconnectBlocks E (f + 1) best w = Inr w1" and "I (db_sw w1)" and "\<not> (1 < syncWorkers w \<and> initial)"
    and "unat best + unat tp + 3 < n"
  shows "\<exists>w'. resyncIndex n E ch onNew initial w = Inr (False, w') \<and>
    indexed E contents (chainUpTo blk (Suc (unat tp))) (db_sw w') \<and>
    newBlocks w' = newBlocks w @ (if onNew then map (\<lambda>h. (Hash_bh (blk h), h)) (heights (f + 1) tp) else [])"
proof -
  have "chain_backend.stale blk tp info h" if "f < h" "h \<le> best" for h
    using that assms(11) unfolding chain_backend.stale_def[OF assms(1)] by blast
  with chain_backend.resync_forked[OF assms(1-9) _ _ assms(12-15), of onNew] assms(10) show ?thesis by blast
qed

text \<open>C39: A fork at the first block is never resolved. When no block of the index is a block of the back end's chain, the search
  for the fork passes height 0, wraps around to the largest height, and asks to disconnect from height 0 on, which
  fails; \<open>resyncIndex\<close> returns an error with any sufficient fuel.\<close>

theorem fork_at_genesis_fails:
  assumes "chain_backend ch blk tp c" and "reliable_store (rocks E) contents" and "vlq_codec (vlq E)"
    and "chain w = c" and "indexed E contents (localChain info best) (db_sw w)" and "best \<noteq> -1"
    and "\<forall>h. h \<le> best \<longrightarrow> Hash_bi (info h) \<noteq> '''' \<and> (\<forall>j. j \<le> tp \<longrightarrow> Hash_bi (info h) \<noteq> Hash_bh (blk j))"
    and "unat best + 2 < n"
  shows "\<exists>e. resyncIndex n E ch onNew initial w = Inl e"
proof -
  have "chain_backend.stale blk tp info h" if "h \<le> best" for h
    using that assms(7) unfolding chain_backend.stale_def[OF assms(1)] by blast
  then show ?thesis by (rule chain_backend.resync_forked_at_genesis[OF assms(1-6) _ assms(8)])
qed

subsection \<open>A back end with a list of blocks\<close>

definition listChain :: "Block list BlockChain" where
  "listChain = \<lparr> GetBestBlockHash = (\<lambda>bs. (Inr (Hash_bh (last bs)), bs)),
     GetBestBlockHeight = (\<lambda>bs. (Inr (of_nat (length bs - 1)), bs)),
     GetBlockHash_c = (\<lambda>h bs. (if unat h < length bs then Inr (Hash_bh (bs ! unat h)) else Inl ErrBlockNotFound, bs)),
     GetBlock = (\<lambda>hash h bs. (if unat h < length bs then Inr (bs ! unat h) else Inl ErrBlockNotFound, bs)),
     GetTransaction_c = (\<lambda>txid bs. (Inl ErrTxNotFound, bs)), Signal = (\<lambda>bs. (False, bs)) \<rparr>"

definition emptyBlock :: "nat \<Rightarrow> string \<Rightarrow> Block" where
  "emptyBlock i nxt = \<lparr> Hash_bh = sampleTxid (of_nat (10 + i)), Prev_bh = '''', Next_bh = nxt, Height_bh = of_nat i,
     Confirmations_bh = 1, Size_bh = 200, Time_bh = 1000, Txs_blk = [] \<rparr>"

definition emptyBlocks :: "Block list" where
  "emptyBlocks = [emptyBlock 0 (sampleTxid 11), emptyBlock 1 (sampleTxid 12), emptyBlock 2 '''']"

lemma le_2_cases: "h \<le> (2 :: uint32) \<Longrightarrow> h = 0 \<or> h = 1 \<or> h = 2"
proof -
  assume "h \<le> 2"
  then have "unat h \<le> 2" by (simp add: word_le_nat_alt)
  then have "unat h = 0 \<or> unat h = 1 \<or> unat h = 2" by linarith
  then show ?thesis by (simp add: word_unat_eq_iff)
qed

lemma sampleTxid_inject [simp]: "sampleTxid a = sampleTxid b \<longleftrightarrow> a = b"
proof
  assume "sampleTxid a = sampleTxid b"
  then have "DecodeString (sampleTxid a) = DecodeString (sampleTxid b)" by simp
  then show "a = b" by (simp add: sampleTxid_def)
qed simp

lemma sampleTxid_nonempty [simp]: "sampleTxid a \<noteq> []"
  by (simp add: sampleTxid_def)

abbreviation sampleBlk :: "uint32 \<Rightarrow> Block" where
  "sampleBlk \<equiv> (\<lambda>h. emptyBlocks ! unat h)"

interpretation sampleBackend: chain_backend listChain sampleBlk 2 emptyBlocks
proof unfold_locales
  have len: "unat h < length emptyBlocks \<longleftrightarrow> h \<le> 2" for h :: uint32
    by (auto simp: emptyBlocks_def word_le_nat_alt)
  show "GetBestBlockHash listChain emptyBlocks = (Inr (Hash_bh (sampleBlk 2)), emptyBlocks)"
    by (simp add: listChain_def emptyBlocks_def)
  show "GetBlockHash_c listChain h emptyBlocks = (if h \<le> 2 then Inr (Hash_bh (sampleBlk h)) else Inl ErrBlockNotFound, emptyBlocks)" for h
    by (simp add: listChain_def len)
  show "GetBlock listChain (Hash_bh (sampleBlk h)) h emptyBlocks = (Inr (sampleBlk h), emptyBlocks)" if "h \<le> 2" for h
    using that by (simp add: listChain_def len)
  show "GetBlock listChain '''' h emptyBlocks = (Inl ErrBlockNotFound, emptyBlocks)" if "2 < h" for h
    using that by (simp add: listChain_def len)
  show "Next_bh (sampleBlk h) = Hash_bh (sampleBlk (h + 1))" if "h < 2" for h
    using le_2_cases[OF order_less_imp_le[OF that]] that by (auto simp: emptyBlocks_def emptyBlock_def)
  show "Next_bh (sampleBlk 2) = ''''" by (simp add: emptyBlocks_def emptyBlock_def)
  show "Height_bh (sampleBlk h) = h" if "h \<le> 2" for h
    using le_2_cases[OF that] by (auto simp: emptyBlocks_def emptyBlock_def)
  show "h = h'" if "h \<le> 2" "h' \<le> 2" "Hash_bh (sampleBlk h) = Hash_bh (sampleBlk h')" for h h'
    using le_2_cases[OF that(1)] le_2_cases[OF that(2)] that(3) by (auto simp: emptyBlocks_def emptyBlock_def)
  show "Hash_bh (sampleBlk h) \<noteq> ''''" if "h \<le> 2" for h
    using le_2_cases[OF that] by (auto simp: emptyBlocks_def emptyBlock_def)
qed (simp_all add: listChain_def)

lemma cleanupBlockTxs_returns:
  assumes "reliable_store (rocks E) contents"
  shows "\<exists>s. cleanupBlockTxs E h d = Inr (d\<lparr> db := s \<rparr>)"
proof (cases "of_int (KeepBlockAddresses (chainParser d)) < h")
  case True
  then show ?thesis
    using cleanupFrom_effect[OF assms, of "h - of_int (KeepBlockAddresses (chainParser d))" d] by (auto simp: cleanupBlockTxs_def Let_def)
next
  case False
  then show ?thesis by (auto simp: cleanupBlockTxs_def Let_def intro!: exI[of _ "db d"])
qed

text \<open>Blocks without transactions can always be connected.\<close>

definition openDB :: "mem RocksDB \<Rightarrow> bool" where
  "openDB d \<longleftrightarrow> chainParser d = hexParser 300 \<and> is_d d \<noteq> None"

lemma ConnectBlock_openDB:
  assumes "openDB d" and "Txs_blk block = []" and "hash_ok (hexParser 300) (Hash_bh block)"
  shows "\<exists>d'. ConnectBlock memPackages block d = Inr d' \<and> openDB d'"
proof -
  have R: "reliable_store (rocks memPackages) mem_contents" by (simp add: memdb.reliable_store_axioms)
  have p: "chainParser d = hexParser 300" "is_d d \<noteq> None" using assms(1) by (simp_all add: openDB_def)
  obtain b where "PackBlockHash (hexParser 300) (Hash_bh block) = Inr b" using assms(3) by (rule hash_okE)
  then obtain val where val: "packBlockInfo memPackages (hexParser 300) (blockInfoOf block) = Inr val"
    by (simp add: packBlockInfo_def blockInfoOf_def)
  obtain d1 where d1: "updateBestHeight memPackages (Height_bh block) d = Inr d1" "chainParser d1 = hexParser 300" "is_d d1 \<noteq> None"
    using p by (auto simp: updateBestHeight_def)
  let ?d = "d1\<lparr> cbs := stats (newConnectState (cbs d1)) \<rparr>"
  have "\<exists>s. cleanupBlockTxs memPackages (Height_bh block) ?d = Inr (?d\<lparr> db := s \<rparr>)" by (rule cleanupBlockTxs_returns[OF R])
  then obtain s where s: "cleanupBlockTxs memPackages (Height_bh block) ?d = Inr (?d\<lparr> db := s \<rparr>)" by blast
  show ?thesis
    using val d1 s p assms(2)
    by (simp add: ConnectBlock_def writeHeightFromBlock_def writeHeight_def processAddressesBitcoinType_def
        storeAndCleanupBlockTxs_def finishBlock_def Let_def openDB_def memdb_def)
qed

lemma sampleBlk_cases:
  assumes "h \<le> 2"
  shows "Txs_blk (sampleBlk h) = []" and "\<exists>i. Hash_bh (sampleBlk h) = sampleTxid i"
  using le_2_cases[OF assms] by (auto simp: emptyBlocks_def emptyBlock_def)

lemma hash_ok_sampleTxid: "hash_ok (hexParser 300) (sampleTxid i)"
  by (simp add: hash_ok_def sampleTxid_def PackBlockHash_base_def UnpackBlockHash_base_def)

lemma sampleBlk_connectable: "connectable memPackages sampleBlk 2 openDB"
  unfolding connectable_def
proof (intro allI impI)
  fix h :: uint32 and d :: "mem RocksDB"
  assume a: "h \<le> 2 \<and> openDB d"
  then have "hash_ok (hexParser 300) (Hash_bh (sampleBlk h))" using sampleBlk_cases(2)[of h] hash_ok_sampleTxid by metis
  moreover have "Txs_blk (sampleBlk h) = []" using a sampleBlk_cases(1) by blast
  ultimately show "GetChainType (chainParser d) = ChainBitcoinType \<and> block_values_ok (sampleBlk h) \<and>
      hash_ok (chainParser d) (Hash_bh (sampleBlk h)) \<and> (\<exists>d'. ConnectBlock memPackages (sampleBlk h) d = Inr d' \<and> openDB d')"
    using a ConnectBlock_openDB[of d "sampleBlk h"] by (simp add: openDB_def block_values_ok_def)
qed

definition sampleWorker :: "mem RocksDB \<Rightarrow> (mem, Block list) SyncWorker" where
  "sampleWorker d = NewSyncWorker d emptyBlocks 1 100 0 False"

lemma sampleWorker_simps [simp]:
  "chain (sampleWorker d) = emptyBlocks" "db_sw (sampleWorker d) = d" "startHeight (sampleWorker d) = 0"
  "syncWorkers (sampleWorker d) = 1" "newBlocks (sampleWorker d) = []"
  by (simp_all add: sampleWorker_def NewSyncWorker_def)

lemma mem_reliable: "reliable_store (rocks memPackages) mem_contents" "vlq_codec (vlq memPackages)"
  by (simp_all add: memdb.reliable_store_axioms base128.vlq_codec_axioms)

theorem resync_catches_up_witness:
  "\<exists>w'. resyncIndex 10 memPackages listChain True False (sampleWorker sampleDB) = Inr (False, w') \<and>
     indexed memPackages mem_contents (chainUpTo sampleBlk 3) (db_sw w') \<and>
     newBlocks w' = [(sampleTxid 10, 0), (sampleTxid 11, 1), (sampleTxid 12, 2)]"
proof -
  have "indexed memPackages mem_contents (chainUpTo sampleBlk (unat (0 :: uint32))) sampleDB"
    by (simp add: indexed_def represents_heights_def chainUpTo_def sampleDB_def mem_contents_def)
  moreover have "openDB sampleDB" by (simp add: openDB_def sampleDB_def)
  moreover have "map (\<lambda>h. (Hash_bh (sampleBlk h), h)) (heights 0 2) = [(sampleTxid 10, 0), (sampleTxid 11, 1), (sampleTxid 12, 2)]"
    by (simp add: heights_def upt_rec emptyBlocks_def emptyBlock_def)
  ultimately show ?thesis
    using resync_catches_up[OF sampleBackend.chain_backend_axioms mem_reliable sampleBlk_connectable, of 0 "sampleWorker sampleDB" False 10 True]
    by simp
qed

text \<open>A local chain that leaves the chain of the back end after the first block.\<close>

definition forkedInfo :: "uint32 \<Rightarrow> BlockInfo" where
  "forkedInfo h = (if h = 0 then blockInfoOf (emptyBlock 0 (sampleTxid 11)) else
     \<lparr> Hash_bi = sampleTxid 99, Time_bi = 1000, Txs_bi = 1, Size_bi = 200, Height_bi = 1 \<rparr>)"

definition forkedDB :: "mem RocksDB" where
  "forkedDB = sampleDB\<lparr> db := (\<lambda>c.
     if c = cfHeight then map (\<lambda>h. (packUint h, projr (packBlockInfo memPackages (hexParser 300) (forkedInfo h)))) [0, 1]
     else if c = cfBlockTxs then [(packUint 1, replicate 32 1 @ [0])] else []) \<rparr>"

lemma le_1_cases: "h \<le> (1 :: uint32) \<longleftrightarrow> h = 0 \<or> h = 1"
proof -
  have "unat h \<le> 1 \<longleftrightarrow> unat h = 0 \<or> unat h = 1" by linarith
  then show ?thesis by (simp add: word_le_nat_alt word_unat_eq_iff)
qed

lemma forkedDB_indexed: "indexed memPackages mem_contents (localChain forkedInfo 1) forkedDB"
proof -
  have h: "\<exists>i. Hash_bi (forkedInfo h) = sampleTxid i" for h by (auto simp: forkedInfo_def emptyBlock_def)
  have p: "packBlockInfo memPackages (hexParser 300) (forkedInfo h) = Inr (projr (packBlockInfo memPackages (hexParser 300) (forkedInfo h)))" for h
  proof -
    obtain b where "PackBlockHash (hexParser 300) (Hash_bi (forkedInfo h)) = Inr b"
      using h[of h] hash_ok_sampleTxid by (metis hash_okE)
    then show ?thesis by (simp add: packBlockInfo_def)
  qed
  have "mem_contents (db forkedDB) cfHeight k = Some x \<longleftrightarrow> (\<exists>h bi. localChain forkedInfo 1 h = Some bi \<and> k = packUint h \<and>
      packBlockInfo memPackages (hexParser 300) bi = Inr x)" for k x
  proof -
    have "mem_contents (db forkedDB) cfHeight k = Some x \<longleftrightarrow>
        k = packUint 0 \<and> packBlockInfo memPackages (hexParser 300) (forkedInfo 0) = Inr x \<or>
        k = packUint 1 \<and> packBlockInfo memPackages (hexParser 300) (forkedInfo 1) = Inr x"
      using p[of 0] p[of 1] by (auto simp: forkedDB_def mem_contents_def split: if_splits)
    moreover have "(\<exists>h bi. localChain forkedInfo 1 h = Some bi \<and> k = packUint h \<and> packBlockInfo memPackages (hexParser 300) bi = Inr x) \<longleftrightarrow>
        (\<exists>h. h \<le> 1 \<and> k = packUint h \<and> packBlockInfo memPackages (hexParser 300) (forkedInfo h) = Inr x)"
    proof -
      have "(\<exists>h bi. (if Q h then Some (f h) else None) = Some bi \<and> P h bi) \<longleftrightarrow> (\<exists>h. Q h \<and> P h (f h))" for Q f P
        by (metis option.distinct(1) option.inject)
      then show ?thesis unfolding localChain_def .
    qed
    ultimately show ?thesis unfolding le_1_cases by blast
  qed
  moreover have "hash_ok (hexParser 300) (Hash_bi bi)" if "localChain forkedInfo 1 h' = Some bi" for h' bi
    using that h[of h'] hash_ok_sampleTxid by (auto simp: localChain_def split: if_splits)
  ultimately show ?thesis unfolding indexed_def represents_heights_def by (simp add: forkedDB_def sampleDB_def)
qed

lemma forkedInfo_stale: "1 \<le> h \<Longrightarrow> Hash_bi (forkedInfo h) \<noteq> '''' \<and> (\<forall>j. j \<le> 2 \<longrightarrow> Hash_bi (forkedInfo h) \<noteq> Hash_bh (sampleBlk j))"
  using le_2_cases by (force simp: forkedInfo_def emptyBlocks_def emptyBlock_def)

theorem resync_recovers_from_fork_witness:
  "\<exists>w'. resyncIndex 10 memPackages listChain True False (sampleWorker forkedDB) = Inr (False, w') \<and>
     indexed memPackages mem_contents (chainUpTo sampleBlk 3) (db_sw w') \<and> newBlocks w' = [(sampleTxid 11, 1), (sampleTxid 12, 2)]"
proof -
  let ?w = "sampleWorker forkedDB"
  have bt: "readBlockTxs base128 32 (replicate 32 1 @ [0]) 0 = Inr [\<lparr> btxID_bt = replicate 32 1, inputs = [] \<rparr>]" by code_simp
  obtain d where d: "DisconnectBlockRangeBitcoinType memPackages 1 1 forkedDB = Inr d"
    by (simp add: DisconnectBlockRangeBitcoinType_def readRange_def readBlock_def getBlockTxs_def getTxAddresses_def getData_def memdb_def
        forkedDB_def sampleDB_def heights_def bt disconnectBlock_def disconnectTx_def Let_def)
  then have "openDB d"
    by (auto simp: DisconnectBlockRangeBitcoinType_def Let_def rbind_eq_Inr_iff openDB_def forkedDB_def sampleDB_def split: prod.splits if_splits)
  moreover have ct: "GetChainType (chainParser (db_sw ?w)) = ChainBitcoinType" by (simp add: forkedDB_def sampleDB_def)
  moreover have "DisconnectBlocks memPackages (0 + 1) 1 ?w = Inr (?w\<lparr> db_sw := d \<rparr>)"
    using d ct by (simp add: DisconnectBlocks_def)
  moreover have "\<forall>h. h \<le> 0 \<longrightarrow> forkedInfo h = blockInfoOf (sampleBlk h)" by (simp add: forkedInfo_def emptyBlocks_def)
  moreover have "\<forall>h. 0 < h \<and> h \<le> 1 \<longrightarrow> Hash_bi (forkedInfo h) \<noteq> '''' \<and> (\<forall>j. j \<le> 2 \<longrightarrow> Hash_bi (forkedInfo h) \<noteq> Hash_bh (sampleBlk j))"
    using forkedInfo_stale by (metis le_1_cases order_refl word_neq_0_conv)
  moreover have "map (\<lambda>h. (Hash_bh (sampleBlk h), h)) (heights (0 + 1) 2) = [(sampleTxid 11, 1), (sampleTxid 12, 2)]"
    by (simp add: heights_def upt_rec emptyBlocks_def emptyBlock_def)
  ultimately show ?thesis
    using resync_recovers_from_fork[OF sampleBackend.chain_backend_axioms mem_reliable sampleBlk_connectable,
        of ?w forkedInfo 1 0 "?w\<lparr> db_sw := d \<rparr>" False 10 True] forkedDB_indexed
    by simp
qed

definition strangeInfo :: "uint32 \<Rightarrow> BlockInfo" where
  "strangeInfo h = (forkedInfo 1)\<lparr> Height_bi := h \<rparr>"

definition strangeDB :: "mem RocksDB" where
  "strangeDB = sampleDB\<lparr> db := (\<lambda>c.
     if c = cfHeight then [(packUint 0, projr (packBlockInfo memPackages (hexParser 300) (strangeInfo 0)))] else []) \<rparr>"

theorem fork_at_genesis_fails_witness:
  "\<exists>e. resyncIndex 10 memPackages listChain True False (sampleWorker strangeDB) = Inl e"
proof -
  have "packBlockInfo memPackages (hexParser 300) (strangeInfo 0) = Inr (projr (packBlockInfo memPackages (hexParser 300) (strangeInfo 0)))"
    by (simp add: packBlockInfo_def strangeInfo_def forkedInfo_def sampleTxid_def PackBlockHash_base_def)
  then have "indexed memPackages mem_contents (localChain strangeInfo 0) strangeDB"
    using hash_ok_sampleTxid
    by (auto simp: indexed_def represents_heights_def strangeDB_def sampleDB_def mem_contents_def localChain_def strangeInfo_def forkedInfo_def split: if_splits)
  moreover have "\<forall>h. h \<le> 0 \<longrightarrow> Hash_bi (strangeInfo h) \<noteq> '''' \<and> (\<forall>j. j \<le> 2 \<longrightarrow> Hash_bi (strangeInfo h) \<noteq> Hash_bh (sampleBlk j))"
    using forkedInfo_stale[of 1] by (simp add: strangeInfo_def)
  ultimately show ?thesis
    by (intro fork_at_genesis_fails[OF sampleBackend.chain_backend_axioms mem_reliable, where info = strangeInfo and best = 0]) simp_all
qed

end
