(* ===== verification/Tx_Cache.thy ===== *)
theory Tx_Cache
  imports Sync_Worker
begin

text \<open>
  The transaction cache (\<open>db/txcache.go\<close>): a transaction comes from the database or from the back end, and
  a confirmed one is stored. The cache shares the internal state with the database handle.

  The operations of the cache and of the API worker are actions: functions of a state that give an error or
  a result, and the state afterwards. An error keeps the state it left behind, because the API worker logs many errors
  and continues.
\<close>

section \<open>Actions\<close>

type_synonym ('w, 'a) action = "'w \<Rightarrow> (go_error + 'a) \<times> 'w"

definition ret :: "'a \<Rightarrow> ('w, 'a) action" where
  "ret x w = (Inr x, w)"

definition throw :: "go_error \<Rightarrow> ('w, 'a) action" where
  "throw e w = (Inl e, w)"

definition query :: "('w \<Rightarrow> go_error + 'a) \<Rightarrow> ('w, 'a) action" where
  "query f w = (f w, w)"

definition abind :: "('w, 'a) action \<Rightarrow> ('a \<Rightarrow> ('w, 'b) action) \<Rightarrow> ('w, 'b) action" where
  "abind m f w = (case m w of (Inl e, w) \<Rightarrow> (Inl e, w) | (Inr x, w) \<Rightarrow> f x w)"

text \<open>Code that looks at the error and continues. A panic is not an error value and goes on.\<close>

definition attempt :: "('w, 'a) action \<Rightarrow> ('w, go_error + 'a) action" where
  "attempt m w = (case m w of (Inl e, w) \<Rightarrow> (if is_panic e then Inl e else Inr (Inl e), w) | (Inr x, w) \<Rightarrow> (Inr (Inr x), w))"

fun amap :: "('a \<Rightarrow> ('w, 'b) action) \<Rightarrow> 'a list \<Rightarrow> ('w, 'b list) action" where
  "amap f [] = ret []"
| "amap f (x # xs) = abind (f x) (\<lambda>y. abind (amap f xs) (\<lambda>ys. ret (y # ys)))"

lemma action_simps [simp]:
  "ret x w = (Inr x, w)" "throw e w = (Inl e, w)" "query f w = (f w, w)"
  by (simp_all add: ret_def throw_def query_def)

lemma abind_simps [simp]:
  "m w = (Inl e, w') \<Longrightarrow> abind m f w = (Inl e, w')"
  "m w = (Inr x, w') \<Longrightarrow> abind m f w = f x w'"
  by (simp_all add: abind_def)

lemma abind_eq_Inr_iff: "abind m f w = (Inr y, w') \<longleftrightarrow> (\<exists>x v. m w = (Inr x, v) \<and> f x v = (Inr y, w'))"
  by (auto simp: abind_def split: prod.splits sum.splits)

lemma abind_ret [simp]: "abind (ret x) f = f x"
  by (rule ext) (simp add: abind_def)

lemma abind_throw [simp]: "abind (throw e) f = throw e"
  by (rule ext) (simp add: abind_def)

lemma abind_query: "abind (query g) f w = (case g w of Inl e \<Rightarrow> (Inl e, w) | Inr x \<Rightarrow> f x w)"
  by (simp add: abind_def)

lemma attempt_eq_Inr_iff:
  "attempt m w = (Inr r, w') \<longleftrightarrow>
   (\<exists>e. m w = (Inl e, w') \<and> \<not> is_panic e \<and> r = Inl e) \<or> (\<exists>x. m w = (Inr x, w') \<and> r = Inr x)"
  by (auto simp: attempt_def split: prod.splits sum.splits if_splits)

text \<open>What an action keeps, whatever its result.\<close>

definition keeps :: "('w \<Rightarrow> bool) \<Rightarrow> ('w, 'a) action \<Rightarrow> bool" where
  "keeps P m \<longleftrightarrow> (\<forall>w. P w \<longrightarrow> P (snd (m w)))"

lemma keeps_basic [intro, simp]: "keeps P (ret x)" "keeps P (throw e)" "keeps P (query f)"
  by (simp_all add: keeps_def)

lemma keeps_abind [intro]: "keeps P m \<Longrightarrow> (\<And>x. keeps P (f x)) \<Longrightarrow> keeps P (abind m f)"
  by (fastforce simp: keeps_def abind_def split: prod.splits sum.splits)

lemma keeps_attempt [intro]: "keeps P m \<Longrightarrow> keeps P (attempt m)"
  by (fastforce simp: keeps_def attempt_def split: prod.splits sum.splits)

lemma keeps_amap: "(\<And>x. x \<in> set xs \<Longrightarrow> keeps P (f x)) \<Longrightarrow> keeps P (amap f xs)"
  by (induction xs) auto

lemma keeps_if [intro]: "keeps P m \<Longrightarrow> keeps P n \<Longrightarrow> keeps P (if b then m else n)"
  by simp

lemma amap_Inr_length: "amap f xs w = (Inr ys, w') \<Longrightarrow> length ys = length xs"
  by (induction xs arbitrary: w ys) (auto simp: abind_eq_Inr_iff)

section \<open>The cache\<close>

record ('s, 'c) TxCache =
  db_tc :: "'s RocksDB"
  chain_tc :: 'c
  enabled :: bool
  chainType_tc :: ChainType

definition NewTxCache :: "'s RocksDB \<Rightarrow> 'c \<Rightarrow> bool \<Rightarrow> ('s, 'c) TxCache" where
  "NewTxCache d c en = \<lparr> db_tc = d, chain_tc = c, enabled = en, chainType_tc = GetChainType (chainParser d) \<rparr>"

text \<open>A call of the back end.\<close>

definition onChain :: "('c, 'a) action \<Rightarrow> (('s, 'c) TxCache, 'a) action" where
  "onChain f c = (case f (chain_tc c) of (r, w) \<Rightarrow> (r, c\<lparr> chain_tc := w \<rparr>))"

text \<open>The height under which a confirmed transaction of the back end is cached.\<close>

definition heightForCache ::
    "'s packages \<Rightarrow> 'c BlockChain \<Rightarrow> hexutil \<Rightarrow> string \<Rightarrow> Tx \<Rightarrow> (('s, 'c) TxCache, uint32) action" where
  "heightForCache E ch H txid tx c =
     (if chainType_tc c = ChainBitcoinType then
        abind (query (\<lambda>c. GetTxAddresses E txid (db_tc c))) (\<lambda>ta.
        case ta of
          None \<Rightarrow> onChain (GetBestBlockHeight ch)
        | Some ta \<Rightarrow> ret (Height_ta ta)) c
      else if chainType_tc c = ChainEthereumType then query (\<lambda>_. GetHeightFromTx H tx) c
      else throw (Errorf ''Unknown chain type'') c)"

text \<open>An error of storing the transaction is logged only.\<close>

definition putInCache :: "'s packages \<Rightarrow> Tx \<Rightarrow> uint32 \<Rightarrow> (('s, 'c) TxCache, unit) action" where
  "putInCache E tx h c =
     (if enabled c then
        (case PutTx E tx h (Blocktime tx) (db_tc c) of
           Inl e \<Rightarrow> (if is_panic e then Inl e else Inr (), c)
         | Inr d \<Rightarrow> (Inr (), c\<lparr> db_tc := d \<rparr>))
      else (Inr (), c))"

definition fetchTransaction ::
    "'s packages \<Rightarrow> 'c BlockChain \<Rightarrow> hexutil \<Rightarrow> string \<Rightarrow> (('s, 'c) TxCache, Tx \<times> uint32) action" where
  "fetchTransaction E ch H txid =
     abind (onChain (GetTransaction_c ch txid)) (\<lambda>tx.
     if Confirmations_tx tx > 0 then
       abind (heightForCache E ch H txid tx) (\<lambda>h.
       abind (putInCache E tx h) (\<lambda>_. ret (tx, h)))
     else ret (tx, 0))"

definition GetTransaction ::
    "'s packages \<Rightarrow> 'c BlockChain \<Rightarrow> hexutil \<Rightarrow> string \<Rightarrow> (('s, 'c) TxCache, Tx \<times> uint32) action" where
  "GetTransaction E ch H txid c =
     (if enabled c then
        abind (query (\<lambda>c. GetTx E txid (db_tc c))) (\<lambda>r.
        case r of
          Some (tx, h) \<Rightarrow>
            query (\<lambda>c. case is_d (db_tc c) of
               None \<Rightarrow> Inl (Panic ''nil pointer dereference'')
             | Some st \<Rightarrow>
                 let (_, bestheight, _) = GetSyncState st in
                 Inr (tx\<lparr> Confirmations_tx := bestheight - h + 1 \<rparr>, h))
        | None \<Rightarrow> fetchTransaction E ch H txid) c
      else fetchTransaction E ch H txid c)"


lemma onChain_keeps_db: "onChain f c = (r, c') \<Longrightarrow> db_tc c' = db_tc c \<and> enabled c' = enabled c \<and> chainType_tc c' = chainType_tc c"
  by (auto simp: onChain_def split: prod.splits)

lemma heightForCache_keeps_db: "heightForCache E ch H txid tx c = (r, c') \<Longrightarrow> db_tc c' = db_tc c \<and> enabled c' = enabled c"
  by (auto simp: heightForCache_def abind_query split: sum.splits option.splits if_splits dest: onChain_keeps_db)

lemma PutTx_effect:
  assumes "reliable_store (rocks E) contents" and "is_d d = Some st" and "cfTransactionsNo < length (DbColumns st)"
    and "PackTxid (chainParser d) (Txid_tx tx) = Inr key" and "PackTx (chainParser d) tx h bt = Inr buf"
  shows "\<exists>d' st'. PutTx E tx h bt d = Inr d' \<and> chainParser d' = chainParser d \<and> is_d d' = Some st' \<and> BestHeight st' = BestHeight st
    \<and> contents (db d') = apply_op (PutWB cfTransactions key buf) (contents (db d))"
proof -
  obtain s where s: "PutCF (rocks E) (db d) cfTransactions key buf = Inr s"
    using reliable_store.PutCF_returns[OF assms(1)] by blast
  then have "contents s = apply_op (PutWB cfTransactions key buf) (contents (db d))"
    using rocks_store.PutCF_contents[OF reliable_store.axioms(1)[OF assms(1)]] by blast
  moreover obtain st' where "AddDBColumnStats (Now E) cfTransactionsNo 1 (of_int (int (length key))) (of_int (int (length buf))) st = Inr st'"
    using AddDBColumnStats_returns[OF assms(3)] by blast
  moreover from this have "BestHeight st' = BestHeight st"
    by (auto simp: AddDBColumnStats_def rbind_eq_Inr_iff)
  ultimately show ?thesis by (simp add: PutTx_def assms s addDBColumnStats_def)
qed

text \<open>A confirmed transaction is asked for once. After the cache has fetched it from the back end, the next
  request is answered from the database, whatever the back end would say: the transaction as the parser reads it back, at the same height,
  with the confirmations that the best height gives.\<close>

theorem cached_transaction_returned:
  assumes "reliable_store (rocks E) contents" and "enabled c"
    and "is_d (db_tc c) = Some st" and "cfTransactionsNo < length (DbColumns st)"
    and "GetTx E txid (db_tc c) = Inr None"
    and "GetTransaction E ch H txid c = (Inr (tx, h), c')" and "Confirmations_tx tx > 0" and "Txid_tx tx = txid"
    and "PackTxid (chainParser (db_tc c)) txid = Inr key"
    and "PackTx (chainParser (db_tc c)) tx h (Blocktime tx) = Inr buf" and "4 < length buf"
    and "UnpackTx (chainParser (db_tc c)) buf = Inr (tx', h)"
  shows "GetTransaction E ch' H txid c' = (Inr (tx'\<lparr> Confirmations_tx := BestHeight st - h + 1 \<rparr>, h), c')"
proof -
  from assms(2,5-7) obtain c\<^sub>1 c\<^sub>2 where
      "onChain (GetTransaction_c ch txid) c = (Inr tx, c\<^sub>1)" "heightForCache E ch H txid tx c\<^sub>1 = (Inr h, c\<^sub>2)"
      and put: "putInCache E tx h c\<^sub>2 = (Inr (), c')"
    by (auto simp: GetTransaction_def abind_query fetchTransaction_def abind_eq_Inr_iff split: if_splits)
  then have db: "db_tc c\<^sub>2 = db_tc c" "enabled c\<^sub>2" using assms(2) by (metis onChain_keeps_db heightForCache_keeps_db)+
  obtain d st' where d: "PutTx E tx h (Blocktime tx) (db_tc c) = Inr d" "chainParser d = chainParser (db_tc c)" "is_d d = Some st'"
      "BestHeight st' = BestHeight st" "contents (db d) = apply_op (PutWB cfTransactions key buf) (contents (db (db_tc c)))"
    using PutTx_effect[OF assms(1,3,4), of tx key h] assms(8-10) by blast
  then have c': "db_tc c' = d" "enabled c'" using put db by (auto simp: putInCache_def)
  have "GetCF (rocks E) (db d) cfTransactions key = Inr (Some buf)"
    by (simp add: reliable_store.GetCF_eq[OF assms(1)] d(5))
  then have "GetTx E txid d = Inr (Some (tx', h))"
    using assms(9,11,12) by (simp add: GetTx_def getData_def d(2))
  then show ?thesis using c' d(3,4) by (simp add: GetTransaction_def abind_query GetSyncState_def)
qed

definition sampleCache :: "(mem, Block list) TxCache" where
  "sampleCache = NewTxCache
     \<lparr> db = (\<lambda>_. []),
       chainParser = (hexParser 300)\<lparr> PackTx := (\<lambda>tx h bt. Inr (packUint h @ [1])), UnpackTx := (\<lambda>buf. Inr (sampleTx, 2)) \<rparr>,
       is_d = Some ((newInternalState ''SKYR'')\<lparr> BestHeight := 5, DbColumns := replicate 7 (hd (DbColumns sampleState)) \<rparr>),
       cbs = newConnectBlockStats \<rparr> emptyBlocks True"

definition sampleFetched :: "(mem, Block list) TxCache" where
  "sampleFetched = snd (GetTransaction memPackages (listChain\<lparr> GetTransaction_c := \<lambda>txid bs. (Inr sampleTx, bs) \<rparr>) plainHexutil ''0a1b'' sampleCache)"

theorem cached_transaction_returned_witness:
  "GetTransaction memPackages listChain plainHexutil ''0a1b'' sampleFetched = (Inr (sampleTx\<lparr> Confirmations_tx := 4 \<rparr>, 2), sampleFetched)"
proof -
  let ?ch = "listChain\<lparr> GetTransaction_c := \<lambda>txid bs. (Inr sampleTx, bs) \<rparr>"
  have key: "PackTxid_base ''0a1b'' = Inr [10, 27]" by code_simp
  have g: "GetTx memPackages ''0a1b'' (db_tc sampleCache) = Inr None" "GetTxAddresses memPackages ''0a1b'' (db_tc sampleCache) = Inr None"
    by (simp_all add: sampleCache_def NewTxCache_def GetTx_def getData_def key GetTxAddresses_def getTxAddresses_def memdb_def)
  have s: "cfTransactionsNo < length (DbColumns (the (is_d (db_tc sampleCache))))" "chainType_tc sampleCache = ChainBitcoinType"
    "enabled sampleCache" "chain_tc sampleCache = emptyBlocks"
    by (simp_all add: sampleCache_def NewTxCache_def cfTransactionsNo_def)
  have "is_d (db_tc sampleCache) = Some (the (is_d (db_tc sampleCache)))"
    "PackTxid (chainParser (db_tc sampleCache)) (Txid_tx sampleTx) = Inr [10, 27]"
    "PackTx (chainParser (db_tc sampleCache)) sampleTx 2 (Blocktime sampleTx) = Inr (packUint 2 @ [1])"
    by (simp_all add: sampleCache_def NewTxCache_def sampleTx_def key)
  then obtain d where d: "PutTx memPackages sampleTx 2 (Blocktime sampleTx) (db_tc sampleCache) = Inr d"
    using PutTx_effect[OF mem_reliable(1) _ s(1)] by blast
  have c: "0 < Confirmations_tx sampleTx" by (simp add: sampleTx_def)
  have "fst (GetTransaction memPackages ?ch plainHexutil ''0a1b'' sampleCache) = Inr (sampleTx, 2)"
    using g s d c by (simp add: putInCache_def GetTransaction_def fetchTransaction_def abind_def onChain_def heightForCache_def listChain_def emptyBlocks_def)
  then have f: "GetTransaction memPackages ?ch plainHexutil ''0a1b'' sampleCache = (Inr (sampleTx, 2), sampleFetched)"
    unfolding sampleFetched_def by (metis prod.collapse)
  show ?thesis
    using cached_transaction_returned[OF mem_reliable(1) _ _ s(1) g(1) f, of "[10, 27]" "packUint 2 @ [1]" sampleTx listChain] key
    by (simp add: sampleCache_def NewTxCache_def sampleTx_def)
qed

end
