(* ===== verification/Mempool.thy ===== *)
theory Mempool
  imports Base_Parser "HOL-Library.Multiset" "HOL-Library.Char_ord" "HOL-Library.Product_Lexorder"
begin

text \<open>
  The mempool (\<open>bchain/basemempool.go\<close>, \<open>mempool_bitcoin_type.go\<close>, \<open>mempool_ethereum_type.go\<close>): the
  unconfirmed transactions and, for every address descriptor, the inputs and outputs of these
  transactions that touch it.

  The methods hold the mutex while they change the two maps, so each is one step. The bitcoin type
  mempool resolves transactions and their inputs in goroutines, whose results arrive in any order;
  the model processes them in the order of the lists, and the properties do not depend on it. The calls
  \<open>OnNewTxAddr\<close> of the callback are collected in \<open>notified\<close>. What the back end answers during an operation is
  the record \<open>mempool_env\<close>; times are in nanoseconds.
\<close>

record addrIndex =
  addrDesc_ai :: bytes
  n_ai :: int32

record txEntry =
  addrIndexes :: "addrIndex list"
  time_te :: uint32

record BaseMempool =
  txEntries :: "(string, txEntry) gomap"
  addrDescToTx :: "(bytes, Outpoint list) gomap"
  notified :: "(Tx \<times> AddressDescriptor) list"

record mempool_env =
  GetMempoolTransactions :: "go_error + string list"
  GetTransactionForMempool :: "string \<Rightarrow> go_error + Tx"
  parser_m :: BlockChainParser
  AddrDescForOutpoint_m :: "(Outpoint \<Rightarrow> AddressDescriptor option) option"
  OnNewTxAddr :: bool

section \<open>Common part\<close>

definition outpointsOf :: "bytes \<Rightarrow> BaseMempool \<Rightarrow> Outpoint list" where
  "outpointsOf addrDesc m = (case map_of (addrDescToTx m) addrDesc of Some os \<Rightarrow> os | None \<Rightarrow> [])"

definition GetAddrDescTransactions_m :: "AddressDescriptor \<Rightarrow> BaseMempool \<Rightarrow> Outpoint list" where
  "GetAddrDescTransactions_m addrDesc m = rev (outpointsOf addrDesc m)"

definition GetTransactions_m :: "mempool_env \<Rightarrow> string \<Rightarrow> BaseMempool \<Rightarrow> go_error + Outpoint list" where
  "GetTransactions_m env address m =
     rbind (GetAddrDescFromAddress (parser_m env) address) (\<lambda>addrDesc. Inr (GetAddrDescTransactions_m addrDesc m))"

text \<open>The order of the entries: newest first, equal times by descending txid.\<close>

definition Less :: "MempoolTxidEntry \<Rightarrow> MempoolTxidEntry \<Rightarrow> bool" where
  "Less a b = (if Time_me a = Time_me b then Txid_me a > Txid_me b else Time_me a > Time_me b)"

definition removeOutpoints :: "string \<Rightarrow> bytes \<Rightarrow> (bytes, Outpoint list) gomap \<Rightarrow> (bytes, Outpoint list) gomap" where
  "removeOutpoints txid ad m =
     (case map_of m ad of
        None \<Rightarrow> m
      | Some outpoints \<Rightarrow>
          let newOutpoints = filter (\<lambda>o'. Txid_op o' \<noteq> txid) outpoints in
          if length newOutpoints > 0 then AList.update ad newOutpoints m else AList.delete ad m)"

definition removeEntryFromMempool :: "string \<Rightarrow> txEntry \<Rightarrow> BaseMempool \<Rightarrow> BaseMempool" where
  "removeEntryFromMempool txid entry m =
     m\<lparr> txEntries := AList.delete txid (txEntries m),
        addrDescToTx := fold (\<lambda>si. removeOutpoints txid (addrDesc_ai si)) (addrIndexes entry) (addrDescToTx m) \<rparr>"

text \<open>\<open>sort.Sort\<close> with \<open>Less\<close>; the keys are distinct, so the result is unique.\<close>

definition GetAllEntries :: "BaseMempool \<Rightarrow> MempoolTxidEntries" where
  "GetAllEntries m = rev (sort_key (\<lambda>e. (Time_me e, Txid_me e))
     (map (\<lambda>(txid, entry). \<lparr> Txid_me = txid, Time_me = time_te entry \<rparr>) (txEntries m)))"

definition GetTransactionTime :: "string \<Rightarrow> BaseMempool \<Rightarrow> uint32" where
  "GetTransactionTime txid m = (case map_of (txEntries m) txid of Some e \<Rightarrow> time_te e | None \<Rightarrow> 0)"

definition addOutpoint :: "string \<Rightarrow> addrIndex \<Rightarrow> (bytes, Outpoint list) gomap \<Rightarrow> (bytes, Outpoint list) gomap" where
  "addOutpoint txid si m =
     AList.update (addrDesc_ai si)
       ((case map_of m (addrDesc_ai si) of Some os \<Rightarrow> os | None \<Rightarrow> []) @ [\<lparr> Txid_op = txid, Vout_op = n_ai si \<rparr>]) m"

text \<open>Both mempools add an entry like this.\<close>

definition addEntry :: "string \<Rightarrow> txEntry \<Rightarrow> BaseMempool \<Rightarrow> BaseMempool" where
  "addEntry txid entry m =
     m\<lparr> txEntries := AList.update txid entry (txEntries m),
        addrDescToTx := fold (addOutpoint txid) (addrIndexes entry) (addrDescToTx m) \<rparr>"

definition newMempool :: BaseMempool where
  "newMempool = \<lparr> txEntries = [], addrDescToTx = [], notified = [] \<rparr>"

section \<open>Bitcoin type\<close>

text \<open>
  The address of an input: from the index, or else from the transaction it spends. \<open>None\<close> is an input
  that is skipped. A negative output number passes the check of the length and panics.
\<close>

definition getInputAddress :: "mempool_env \<Rightarrow> Outpoint \<Rightarrow> go_error + addrIndex option" where
  "getInputAddress env input =
     (case (case AddrDescForOutpoint_m env of Some f \<Rightarrow> f input | None \<Rightarrow> None) of
        Some addrDesc \<Rightarrow> Inr (Some \<lparr> addrDesc_ai = addrDesc, n_ai = NOT (Vout_op input) \<rparr>)
      | None \<Rightarrow>
          (case GetTransactionForMempool env (Txid_op input) of
             Inl e \<Rightarrow> if is_panic e then Inl e else Inr None
           | Inr itx \<Rightarrow>
               if sint (Vout_op input) \<ge> int (length (Vout_tx itx)) then Inr None
               else if sint (Vout_op input) < 0 then Inl (Panic ''index out of range'')
               else
                 (case GetAddrDescFromVout (parser_m env) (Vout_tx itx ! nat (sint (Vout_op input))) of
                    Inl e \<Rightarrow> if is_panic e then Inl e else Inr None
                  | Inr addrDesc \<Rightarrow> Inr (Some \<lparr> addrDesc_ai = addrDesc, n_ai = NOT (Vout_op input) \<rparr>))))"

definition outputAddress ::
    "mempool_env \<Rightarrow> bool \<Rightarrow> Tx \<Rightarrow> Vout \<Rightarrow> addrIndex list \<times> (Tx \<times> AddressDescriptor) list \<Rightarrow>
     go_error + (addrIndex list \<times> (Tx \<times> AddressDescriptor) list)" where
  "outputAddress env notify tx output = (\<lambda>(io, ns).
     case GetAddrDescFromVout (parser_m env) output of
       Inl e \<Rightarrow> if is_panic e then Inl e else Inr (io, ns)
     | Inr addrDesc \<Rightarrow>
         Inr (if length addrDesc > 0 then io @ [\<lparr> addrDesc_ai = addrDesc, n_ai = N_vout output \<rparr>] else io,
              if notify then ns @ [(tx, addrDesc)] else ns))"

definition inputAddress :: "mempool_env \<Rightarrow> Vin \<Rightarrow> addrIndex list \<Rightarrow> go_error + addrIndex list" where
  "inputAddress env input io =
     (if Coinbase input \<noteq> '''' then Inr io
      else
        rbind (getInputAddress env \<lparr> Txid_op = Txid_vin input, Vout_op = Vout_vin input \<rparr>) (\<lambda>ai.
        Inr (case ai of Some ai \<Rightarrow> io @ [ai] | None \<Rightarrow> io)))"

definition getTxAddrs ::
    "mempool_env \<Rightarrow> string \<Rightarrow> go_error + (addrIndex list \<times> (Tx \<times> AddressDescriptor) list) option" where
  "getTxAddrs env txid =
     (case GetTransactionForMempool env txid of
        Inl e \<Rightarrow> if is_panic e then Inl e else Inr None
      | Inr tx \<Rightarrow>
          rbind (rfold (outputAddress env (OnNewTxAddr env) tx) (Vout_tx tx) ([], [])) (\<lambda>(io, ns).
          rbind (rfold (inputAddress env) (Vin_tx tx) io) (\<lambda>io. Inr (Some (io, ns)))))"

definition onNewEntry :: "string \<Rightarrow> txEntry \<Rightarrow> BaseMempool \<Rightarrow> BaseMempool" where
  "onNewEntry txid entry m = (if length (addrIndexes entry) > 0 then addEntry txid entry m else m)"

definition resyncTx :: "mempool_env \<Rightarrow> uint32 \<Rightarrow> string \<Rightarrow> BaseMempool \<Rightarrow> go_error + BaseMempool" where
  "resyncTx env txTime txid m =
     rbind (getTxAddrs env txid) (\<lambda>r.
     let (io, ns) = (case r of Some x \<Rightarrow> x | None \<Rightarrow> ([], [])) in
     Inr (onNewEntry txid \<lparr> addrIndexes = io, time_te = txTime \<rparr> (m\<lparr> notified := notified m @ ns \<rparr>)))"

definition removeMissing :: "string list \<Rightarrow> BaseMempool \<Rightarrow> BaseMempool" where
  "removeMissing txs m =
     fold (\<lambda>(txid, entry) m. if txid \<in> set txs then m else removeEntryFromMempool txid entry m) (txEntries m) m"

text \<open>The transactions that are not in the mempool yet are resolved, the ones the back end no longer
  has are removed.\<close>

definition Resync_btc :: "mempool_env \<Rightarrow> uint32 \<Rightarrow> BaseMempool \<Rightarrow> go_error + (nat \<times> BaseMempool)" where
  "Resync_btc env txTime m =
     rbind (GetMempoolTransactions env) (\<lambda>txs.
     let new = filter (\<lambda>txid. map_of (txEntries m) txid = None) txs in
     rbind (rfold (resyncTx env txTime) new m) (\<lambda>m.
     let m = removeMissing txs m in
     Inr (length (txEntries m), m)))"

section \<open>Ethereum type\<close>

record MempoolEthereumType = BaseMempool +
  mempoolTimeoutTime :: int
  queryBackendOnResync :: bool
  nextTimeoutRun :: int

definition mempoolTimeoutRunPeriod :: int where "mempoolTimeoutRunPeriod = 10 * 60 * 10 ^ 9"

definition NewMempoolEthereumType :: "int \<Rightarrow> int \<Rightarrow> bool \<Rightarrow> MempoolEthereumType" where
  "NewMempoolEthereumType now mempoolTxTimeoutHours query =
     \<lparr> txEntries = [], addrDescToTx = [], notified = [],
       mempoolTimeoutTime = mempoolTxTimeoutHours * 3600 * 10 ^ 9, queryBackendOnResync = query,
       nextTimeoutRun = now + mempoolTxTimeoutHours * 3600 * 10 ^ 9 \<rparr>"

definition appendAddress :: "BlockChainParser \<Rightarrow> int32 \<Rightarrow> string \<Rightarrow> addrIndex list \<Rightarrow> go_error + addrIndex list" where
  "appendAddress p i a io =
     (if length a > 0 then
        (case GetAddrDescFromAddress p a of
           Inl e \<Rightarrow> if is_panic e then Inl e else Inr io
         | Inr addrDesc \<Rightarrow> Inr (io @ [\<lparr> addrDesc_ai = addrDesc, n_ai = i \<rparr>]))
      else Inr io)"

definition firstOccurrences :: "'a list \<Rightarrow> 'a list" where
  "firstOccurrences xs = rev (remdups (rev xs))"

definition createTxEntry ::
    "mempool_env \<Rightarrow> string \<Rightarrow> uint32 \<Rightarrow> go_error + (txEntry \<times> (Tx \<times> AddressDescriptor) list) option" where
  "createTxEntry env txid txTime =
     (case GetTransactionForMempool env txid of
        Inl e \<Rightarrow> if is_panic e then Inl e else Inr None
      | Inr tx \<Rightarrow>
          let p = parser_m env in
          rbind (rfold (outputAddress env False tx) (Vout_tx tx) ([], [])) (\<lambda>(ais, _).
          rbind (rfold (\<lambda>input ais.
              rfold (\<lambda>(i, a). appendAddress p (NOT (of_nat i)) a) (enumerate 0 (Addresses_vin input)) ais) (Vin_tx tx) ais) (\<lambda>ais.
          rbind (case EthereumTypeGetErc20FromTx p tx of
              Inl e \<Rightarrow> if is_panic e then Inl e else Inr ais
            | Inr ts \<Rightarrow>
                rfold (\<lambda>(i, t) ais.
                  rbind (appendAddress p (NOT (of_nat (i + 1))) (From_et t) ais) (appendAddress p (of_nat (i + 1)) (To_et t)))
                  (enumerate 0 ts) ais) (\<lambda>ais.
          Inr (Some (\<lparr> addrIndexes = ais, time_te = txTime \<rparr>,
            if OnNewTxAddr env then map (Pair tx) (firstOccurrences (map addrDesc_ai ais)) else []))))))"

definition baseOf :: "MempoolEthereumType \<Rightarrow> BaseMempool" where
  "baseOf m = BaseMempool.truncate m"

definition withBase :: "(BaseMempool \<Rightarrow> BaseMempool) \<Rightarrow> MempoolEthereumType \<Rightarrow> MempoolEthereumType" where
  "withBase f m = (let b = f (baseOf m) in
     m\<lparr> txEntries := txEntries b, addrDescToTx := addrDescToTx b, notified := notified b \<rparr>)"

text \<open>\<open>now\<close> is the time in nanoseconds; entries keep it in seconds.\<close>

definition AddTransactionToMempool :: "mempool_env \<Rightarrow> int \<Rightarrow> string \<Rightarrow> MempoolEthereumType \<Rightarrow> go_error + MempoolEthereumType" where
  "AddTransactionToMempool env now txid m =
     (if map_of (txEntries m) txid \<noteq> None then Inr m
      else
        rbind (createTxEntry env txid (of_int (now div 10 ^ 9))) (\<lambda>r.
        case r of
          None \<Rightarrow> Inr m
        | Some (entry, ns) \<Rightarrow> Inr (withBase (\<lambda>b. addEntry txid entry (b\<lparr> notified := notified b @ ns \<rparr>)) m)))"

definition RemoveTransactionFromMempool :: "string \<Rightarrow> MempoolEthereumType \<Rightarrow> MempoolEthereumType" where
  "RemoveTransactionFromMempool txid m =
     (case map_of (txEntries m) txid of
        Some entry \<Rightarrow> withBase (removeEntryFromMempool txid entry) m
      | None \<Rightarrow> m)"

definition removeTimedOut :: "int \<Rightarrow> BaseMempool \<Rightarrow> BaseMempool" where
  "removeTimedOut threshold m =
     fold (\<lambda>(txid, entry) m.
       if uint (time_te entry) * 10 ^ 9 < threshold then removeEntryFromMempool txid entry m else m) (txEntries m) m"

definition Resync_eth :: "mempool_env \<Rightarrow> int \<Rightarrow> MempoolEthereumType \<Rightarrow> go_error + (nat \<times> MempoolEthereumType)" where
  "Resync_eth env now m =
     rbind
       (if queryBackendOnResync m then
          rbind (GetMempoolTransactions env) (\<lambda>txs. rfold (AddTransactionToMempool env now) txs m)
        else Inr m) (\<lambda>m.
     let m = (if nextTimeoutRun m < now
       then (withBase (removeTimedOut (now - mempoolTimeoutTime m)) m)\<lparr> nextTimeoutRun := now + mempoolTimeoutRunPeriod \<rparr>
       else m) in
     Inr (length (txEntries m), m))"

section \<open>The two maps agree\<close>

text \<open>
  The invariant of the mempool: the outpoints listed for an address are, transaction by transaction, exactly the inputs
  and outputs of the stored entries that touch the address, and no address has an empty list.
\<close>

definition entryOutpoints :: "string \<Rightarrow> bytes \<Rightarrow> txEntry \<Rightarrow> Outpoint list" where
  "entryOutpoints txid ad e = map (\<lambda>si. \<lparr> Txid_op = txid, Vout_op = n_ai si \<rparr>) (filter (\<lambda>si. addrDesc_ai si = ad) (addrIndexes e))"

definition ofTx :: "string \<Rightarrow> Outpoint list \<Rightarrow> Outpoint list" where
  "ofTx txid os = filter (\<lambda>o'. Txid_op o' = txid) os"

definition mempool_ok :: "BaseMempool \<Rightarrow> bool" where
  "mempool_ok m \<longleftrightarrow> wf_map (txEntries m) \<and> wf_map (addrDescToTx m) \<and> (\<forall>ad. map_of (addrDescToTx m) ad \<noteq> Some []) \<and>
     (\<forall>ad txid. ofTx txid (outpointsOf ad m) =
        (case map_of (txEntries m) txid of None \<Rightarrow> [] | Some e \<Rightarrow> entryOutpoints txid ad e))"

lemma mempool_ok_new: "mempool_ok newMempool"
  by (simp add: mempool_ok_def newMempool_def outpointsOf_def ofTx_def)

lemma mempool_ok_notified [simp]: "mempool_ok (m\<lparr> notified := x \<rparr>) = mempool_ok m"
  by (simp add: mempool_ok_def outpointsOf_def)

lemma fold_addOutpoint:
  "(case map_of (fold (addOutpoint txid) sis m) ad of Some os \<Rightarrow> os | None \<Rightarrow> []) =
     (case map_of m ad of Some os \<Rightarrow> os | None \<Rightarrow> []) @
     map (\<lambda>si. \<lparr> Txid_op = txid, Vout_op = n_ai si \<rparr>) (filter (\<lambda>si. addrDesc_ai si = ad) sis)"
  "wf_map m \<Longrightarrow> wf_map (fold (addOutpoint txid) sis m)"
  "map_of m ad \<noteq> Some [] \<Longrightarrow> map_of (fold (addOutpoint txid) sis m) ad \<noteq> Some []"
proof -
  show "wf_map m \<Longrightarrow> wf_map (fold (addOutpoint txid) sis m)"
    by (induction sis arbitrary: m) (simp_all add: addOutpoint_def)
  show "(case map_of (fold (addOutpoint txid) sis m) ad of Some os \<Rightarrow> os | None \<Rightarrow> []) =
     (case map_of m ad of Some os \<Rightarrow> os | None \<Rightarrow> []) @
     map (\<lambda>si. \<lparr> Txid_op = txid, Vout_op = n_ai si \<rparr>) (filter (\<lambda>si. addrDesc_ai si = ad) sis)"
    by (induction sis arbitrary: m) (auto simp: addOutpoint_def)
  show "map_of m ad \<noteq> Some [] \<Longrightarrow> map_of (fold (addOutpoint txid) sis m) ad \<noteq> Some []"
  proof (induction sis arbitrary: m)
    case (Cons si sis)
    then show ?case by (auto simp: addOutpoint_def intro!: Cons.IH)
  qed simp
qed

lemma ofTx_append [simp]: "ofTx t (xs @ ys) = ofTx t xs @ ofTx t ys"
  by (simp add: ofTx_def)

lemma ofTx_entryOutpoints: "ofTx t (entryOutpoints txid ad e) = (if t = txid then entryOutpoints txid ad e else [])"
  by (auto simp: ofTx_def entryOutpoints_def filter_map o_def)

lemma outpointsOf_addEntry: "outpointsOf ad (addEntry txid e m) = outpointsOf ad m @ entryOutpoints txid ad e"
  by (simp add: outpointsOf_def addEntry_def fold_addOutpoint(1) entryOutpoints_def)

lemma mempool_ok_addEntry:
  assumes "mempool_ok m" and "map_of (txEntries m) txid = None"
  shows "mempool_ok (addEntry txid e m)"
proof -
  have "ofTx t (outpointsOf ad (addEntry txid e m)) =
      (case map_of (txEntries (addEntry txid e m)) t of None \<Rightarrow> [] | Some e \<Rightarrow> entryOutpoints t ad e)" for t ad
    using assms by (auto simp: outpointsOf_addEntry ofTx_entryOutpoints mempool_ok_def) (simp_all add: addEntry_def)
  then show ?thesis using assms(1) by (auto simp: mempool_ok_def addEntry_def fold_addOutpoint)
qed

lemma fold_removeOutpoints:
  "(case map_of (fold (\<lambda>si. removeOutpoints txid (addrDesc_ai si)) sis m) ad of Some os \<Rightarrow> os | None \<Rightarrow> []) =
     (if ad \<in> addrDesc_ai ` set sis then filter (\<lambda>o'. Txid_op o' \<noteq> txid) (case map_of m ad of Some os \<Rightarrow> os | None \<Rightarrow> [])
      else (case map_of m ad of Some os \<Rightarrow> os | None \<Rightarrow> []))"
  "wf_map m \<Longrightarrow> wf_map (fold (\<lambda>si. removeOutpoints txid (addrDesc_ai si)) sis m)"
  "map_of m ad \<noteq> Some [] \<Longrightarrow> map_of (fold (\<lambda>si. removeOutpoints txid (addrDesc_ai si)) sis m) ad \<noteq> Some []"
proof -
  let ?l = "\<lambda>m. case map_of m ad of Some os \<Rightarrow> os | None \<Rightarrow> []"
  have one: "(case map_of (removeOutpoints txid a m) b of Some os \<Rightarrow> os | None \<Rightarrow> []) =
      (if b = a then filter (\<lambda>o'. Txid_op o' \<noteq> txid) (case map_of m b of Some os \<Rightarrow> os | None \<Rightarrow> [])
       else (case map_of m b of Some os \<Rightarrow> os | None \<Rightarrow> []))" for a b m
    by (auto simp: removeOutpoints_def Let_def split: option.splits)
  show "?l (fold (\<lambda>si. removeOutpoints txid (addrDesc_ai si)) sis m) =
     (if ad \<in> addrDesc_ai ` set sis then filter (\<lambda>o'. Txid_op o' \<noteq> txid) (?l m) else ?l m)"
    by (induction sis arbitrary: m) (auto simp: one)
  show "wf_map m \<Longrightarrow> wf_map (fold (\<lambda>si. removeOutpoints txid (addrDesc_ai si)) sis m)"
  proof (induction sis arbitrary: m)
    case (Cons si sis)
    then show ?case by (auto simp: removeOutpoints_def Let_def split: option.splits)
  qed simp
  show "map_of m ad \<noteq> Some [] \<Longrightarrow> map_of (fold (\<lambda>si. removeOutpoints txid (addrDesc_ai si)) sis m) ad \<noteq> Some []"
  proof (induction sis arbitrary: m)
    case (Cons si sis)
    then show ?case by (auto simp: removeOutpoints_def Let_def split: option.splits intro!: Cons.IH)
  qed simp
qed

lemma outpointsOf_remove:
  assumes "mempool_ok m" and "map_of (txEntries m) txid = Some e"
  shows "outpointsOf ad (removeEntryFromMempool txid e m) = filter (\<lambda>o'. Txid_op o' \<noteq> txid) (outpointsOf ad m)"
proof (cases "ad \<in> addrDesc_ai ` set (addrIndexes e)")
  case True
  then show ?thesis by (simp add: outpointsOf_def removeEntryFromMempool_def fold_removeOutpoints(1))
next
  case False
  then have "entryOutpoints txid ad e = []" by (auto simp: entryOutpoints_def filter_empty_conv)
  then have "ofTx txid (outpointsOf ad m) = []" using assms by (simp add: mempool_ok_def)
  then have "filter (\<lambda>o'. Txid_op o' \<noteq> txid) (outpointsOf ad m) = outpointsOf ad m"
    by (auto simp: ofTx_def filter_empty_conv filter_id_conv)
  with False show ?thesis by (simp add: outpointsOf_def removeEntryFromMempool_def fold_removeOutpoints(1))
qed

lemma mempool_ok_remove:
  assumes "mempool_ok m" and "map_of (txEntries m) txid = Some e"
  shows "mempool_ok (removeEntryFromMempool txid e m)"
proof -
  let ?m = "removeEntryFromMempool txid e m"
  have "ofTx t (outpointsOf ad ?m) = (case map_of (txEntries ?m) t of None \<Rightarrow> [] | Some e \<Rightarrow> entryOutpoints t ad e)" for t ad
  proof (cases "t = txid")
    case True
    then have "ofTx t (outpointsOf ad ?m) = []" using assms by (simp add: outpointsOf_remove ofTx_def)
    then show ?thesis using True by (simp add: removeEntryFromMempool_def)
  next
    case False
    then have "ofTx t (outpointsOf ad ?m) = ofTx t (outpointsOf ad m)"
      using assms by (auto simp: outpointsOf_remove ofTx_def intro!: filter_cong)
    then show ?thesis using False assms(1) by (simp add: mempool_ok_def removeEntryFromMempool_def)
  qed
  then show ?thesis using assms(1) by (auto simp: mempool_ok_def removeEntryFromMempool_def fold_removeOutpoints)
qed

text \<open>Removing the entries that a condition names, while ranging over the map.\<close>

lemma fold_remove:
  fixes P :: "string \<Rightarrow> txEntry \<Rightarrow> bool"
  assumes "mempool_ok m" and "distinct (map fst es)" and "\<forall>(t, e) \<in> set es. map_of (txEntries m) t = Some e"
    and "m' = fold (\<lambda>(t, e) m. if P t e then removeEntryFromMempool t e m else m) es m"
  shows "mempool_ok m' \<and> (\<forall>t. map_of (txEntries m') t = (if \<exists>e. (t, e) \<in> set es \<and> P t e then None else map_of (txEntries m) t))"
  unfolding assms(4) using assms(1-3)
proof (induction es arbitrary: m)
  case (Cons x es)
  obtain t e where x: "x = (t, e)" by (cases x)
  define m1 where m1: "m1 = (if P t e then removeEntryFromMempool t e m else m)"
  have ok: "mempool_ok m1" using Cons.prems x m1 by (simp add: mempool_ok_remove)
  have lk: "map_of (txEntries m1) s = (if s = t \<and> P t e then None else map_of (txEntries m) s)" for s
    by (simp add: m1 removeEntryFromMempool_def)
  have es: "\<forall>(s, f) \<in> set es. map_of (txEntries m1) s = Some f"
  proof (intro ballI)
    fix y
    assume y: "y \<in> set es"
    then have "fst y \<noteq> t" using Cons.prems(2) x by force
    then show "case y of (s, f) \<Rightarrow> map_of (txEntries m1) s = Some f" using Cons.prems(3) y lk by (auto split: prod.splits)
  qed
  have "(\<exists>f. (s, f) \<in> set (x # es) \<and> P s f) \<longleftrightarrow> s = t \<and> P t e \<or> (\<exists>f. (s, f) \<in> set es \<and> P s f)" for s
    using x by auto
  moreover have "fold (\<lambda>(t, e) m. if P t e then removeEntryFromMempool t e m else m) (x # es) m =
      fold (\<lambda>(t, e) m. if P t e then removeEntryFromMempool t e m else m) es m1" by (simp add: x m1)
  ultimately show ?case using Cons.IH[OF ok _ es] Cons.prems(2) lk by auto
qed simp

lemma fold_remove_all:
  fixes P :: "string \<Rightarrow> txEntry \<Rightarrow> bool"
  assumes "mempool_ok m" and "m' = fold (\<lambda>(t, e) m. if P t e then removeEntryFromMempool t e m else m) (txEntries m) m"
  shows "mempool_ok m'" and "map_of (txEntries m') t = (case map_of (txEntries m) t of Some e \<Rightarrow> if P t e then None else Some e | None \<Rightarrow> None)"
proof -
  have wf: "wf_map (txEntries m)" using assms(1) by (simp add: mempool_ok_def)
  have all: "\<forall>(t, e) \<in> set (txEntries m). map_of (txEntries m) t = Some e" using wf_map_Some_iff[OF wf] by auto
  note r = fold_remove[OF assms(1) _ all assms(2)]
  show "mempool_ok m'" using r wf by (simp add: wf_map_def)
  show "map_of (txEntries m') t = (case map_of (txEntries m) t of Some e \<Rightarrow> if P t e then None else Some e | None \<Rightarrow> None)"
  proof (cases "map_of (txEntries m) t")
    case None
    then have "\<nexists>e. (t, e) \<in> set (txEntries m) \<and> P t e" using wf_map_Some_iff[OF wf] by (metis option.distinct(1))
    then show ?thesis using r wf None by (simp add: wf_map_def)
  next
    case (Some e)
    then have "(\<exists>f. (t, f) \<in> set (txEntries m) \<and> P t f) \<longleftrightarrow> P t e" using wf_map_Some_iff[OF wf] by (metis option.inject)
    then show ?thesis using r wf Some by (simp add: wf_map_def)
  qed
qed

lemma removeMissing_spec:
  assumes "mempool_ok m"
  shows "mempool_ok (removeMissing txs m)" and "map_of (txEntries (removeMissing txs m)) t = (if t \<in> set txs then map_of (txEntries m) t else None)"
proof -
  have e: "removeMissing txs m = fold (\<lambda>(t, e) m. if t \<notin> set txs then removeEntryFromMempool t e m else m) (txEntries m) m"
    unfolding removeMissing_def by (rule fold_cong) (auto split: prod.splits)
  show "mempool_ok (removeMissing txs m)" by (rule fold_remove_all(1)[OF assms e])
  show "map_of (txEntries (removeMissing txs m)) t = (if t \<in> set txs then map_of (txEntries m) t else None)"
    using fold_remove_all(2)[OF assms e, of t] by (auto split: option.splits)
qed

section \<open>Properties of the bitcoin type mempool\<close>

lemma resyncTx_spec:
  assumes "mempool_ok m" and "map_of (txEntries m) txid = None" and "resyncTx env tm txid m = Inr m'"
  shows "mempool_ok m' \<and> (\<forall>t. t \<noteq> txid \<longrightarrow> map_of (txEntries m') t = map_of (txEntries m) t)"
proof -
  obtain e ns where m': "m' = onNewEntry txid e (m\<lparr> notified := ns \<rparr>)"
    using assms(3) by (auto simp: resyncTx_def rbind_eq_Inr_iff case_prod_unfold Let_def)
  show ?thesis
  proof (cases "addrIndexes e = []")
    case False
    then have "m' = addEntry txid e (m\<lparr> notified := ns \<rparr>)" using m' by (simp add: onNewEntry_def)
    then show ?thesis using mempool_ok_addEntry[of "m\<lparr> notified := ns \<rparr>" txid e] assms(1,2) by (simp add: addEntry_def)
  qed (use m' assms(1) in \<open>simp add: onNewEntry_def\<close>)
qed

lemma rfold_resyncTx:
  assumes "mempool_ok m" and "distinct ts" and "\<forall>t \<in> set ts. map_of (txEntries m) t = None" and "rfold (resyncTx env tm) ts m = Inr m'"
  shows "mempool_ok m' \<and> (\<forall>t. t \<notin> set ts \<longrightarrow> map_of (txEntries m') t = map_of (txEntries m) t)"
  using assms
proof (induction ts arbitrary: m)
  case (Cons t ts)
  then obtain m1 where m1: "resyncTx env tm t m = Inr m1" "rfold (resyncTx env tm) ts m1 = Inr m'" by (auto simp: rbind_eq_Inr_iff)
  have s: "mempool_ok m1 \<and> (\<forall>s. s \<noteq> t \<longrightarrow> map_of (txEntries m1) s = map_of (txEntries m) s)"
    using resyncTx_spec[OF Cons.prems(1) _ m1(1)] Cons.prems(3) by simp
  have "mempool_ok m' \<and> (\<forall>s. s \<notin> set ts \<longrightarrow> map_of (txEntries m') s = map_of (txEntries m1) s)"
    by (rule Cons.IH[OF _ _ _ m1(2)]) (use s Cons.prems(2,3) in auto)
  with s show ?case by auto
qed simp


text \<open>The transactions of an address in the mempool are exactly the inputs and outputs of stored transactions that touch it.\<close>

theorem mempool_address_lookup:
  assumes "mempool_ok m"
  shows "set (GetAddrDescTransactions_m ad m) = {\<lparr> Txid_op = t, Vout_op = n_ai si \<rparr> | t si e.
    map_of (txEntries m) t = Some e \<and> si \<in> set (addrIndexes e) \<and> addrDesc_ai si = ad}"
proof -
  have "o' \<in> set (outpointsOf ad m) \<longleftrightarrow> o' \<in> set (ofTx (Txid_op o') (outpointsOf ad m))" for o' by (auto simp: ofTx_def)
  then have "o' \<in> set (outpointsOf ad m) \<longleftrightarrow> (\<exists>e. map_of (txEntries m) (Txid_op o') = Some e \<and> o' \<in> set (entryOutpoints (Txid_op o') ad e))" for o'
    using assms by (cases "map_of (txEntries m) (Txid_op o')") (simp_all add: mempool_ok_def)
  then show ?thesis by (auto simp: GetAddrDescTransactions_m_def entryOutpoints_def) (metis Outpoint.select_convs(1))+
qed

text \<open>All entries are returned newest first: the list is ordered by descending first seen time, equal times by descending
  id, and it has exactly the stored transactions with their times.\<close>

theorem getAllEntries_sorted:
  assumes "mempool_ok m"
  shows "sorted_wrt Less (GetAllEntries m) \<and>
    mset (GetAllEntries m) = mset (map (\<lambda>(txid, e). \<lparr> Txid_me = txid, Time_me = time_te e \<rparr>) (txEntries m))"
proof
  let ?key = "\<lambda>e. (Time_me e, Txid_me e)"
  let ?es = "map (\<lambda>(txid, e). \<lparr> Txid_me = txid, Time_me = time_te e \<rparr>) (txEntries m)"
  have "distinct (map fst (txEntries m))" using assms by (simp add: mempool_ok_def wf_map_def)
  then have "distinct (map Txid_me ?es)" by (simp add: o_def case_prod_unfold)
  moreover have "mset (map Txid_me (sort_key ?key ?es)) = mset (map Txid_me ?es)" by (simp only: mset_map mset_sort)
  ultimately have "distinct (map Txid_me (sort_key ?key ?es))" using mset_eq_imp_distinct_iff by blast
  then have d: "distinct (map ?key (sort_key ?key ?es))" by (auto simp: distinct_map inj_on_def)
  then have "sorted_wrt (<) (map ?key (sort_key ?key ?es))" by (simp add: strict_sorted_iff)
  then have "sorted_wrt (\<lambda>a b. ?key a < ?key b) (sort_key ?key ?es)" by (simp add: sorted_wrt_map)
  moreover have "Less b a" if "?key a < ?key b" for a b using that by (auto simp: Less_def)
  ultimately have "sorted_wrt (\<lambda>a b. Less b a) (sort_key ?key ?es)" using sorted_wrt_mono_rel by (metis (no_types, lifting))
  then show "sorted_wrt Less (GetAllEntries m)" unfolding GetAllEntries_def sorted_wrt_rev .
  show "mset (GetAllEntries m) = mset ?es" by (simp add: GetAllEntries_def)
qed

text \<open>A mempool with two transactions, one address in both.\<close>

definition sampleMempool :: BaseMempool where
  "sampleMempool = addEntry ''a'' \<lparr> addrIndexes = [\<lparr> addrDesc_ai = [1], n_ai = 0 \<rparr>, \<lparr> addrDesc_ai = [2], n_ai = 1 \<rparr>], time_te = 10 \<rparr>
     (addEntry ''b'' \<lparr> addrIndexes = [\<lparr> addrDesc_ai = [1], n_ai = - 1 \<rparr>], time_te = 20 \<rparr> newMempool)"

lemma sampleMempool_ok: "mempool_ok sampleMempool"
  unfolding sampleMempool_def by (intro mempool_ok_addEntry mempool_ok_new) (simp_all add: addEntry_def newMempool_def)

definition emptyBackend :: "BlockChainParser \<Rightarrow> string list \<Rightarrow> mempool_env" where
  "emptyBackend p txs = \<lparr> GetMempoolTransactions = Inr txs, GetTransactionForMempool = (\<lambda>_. Inl ErrTxNotFound),
     parser_m = p, AddrDescForOutpoint_m = None, OnNewTxAddr = False \<rparr>"

lemma Resync_btc_sample:
  "\<exists>k m'. Resync_btc (emptyBackend p [''b'', ''c'']) 30 sampleMempool = Inr (k, m')"
  by (simp add: Resync_btc_def emptyBackend_def sampleMempool_def addEntry_def newMempool_def resyncTx_def getTxAddrs_def
      onNewEntry_def rbind_def Let_def)


theorem mempool_address_lookup_witness:
  "set (GetAddrDescTransactions_m [1] sampleMempool) = {\<lparr> Txid_op = t, Vout_op = n_ai si \<rparr> | t si e.
    map_of (txEntries sampleMempool) t = Some e \<and> si \<in> set (addrIndexes e) \<and> addrDesc_ai si = [1]}"
  by (rule mempool_address_lookup[OF sampleMempool_ok])

theorem getAllEntries_sorted_witness: "sorted_wrt Less (GetAllEntries sampleMempool)"
  using getAllEntries_sorted[OF sampleMempool_ok] by simp

section \<open>Properties of the ethereum type mempool\<close>

lemma baseOf_withBase [simp]: "baseOf (withBase f m) = f (baseOf m)"
  by (simp add: baseOf_def withBase_def Let_def BaseMempool.truncate_def)

lemma txEntries_baseOf [simp]: "txEntries (baseOf m) = txEntries m"
  by (simp add: baseOf_def BaseMempool.truncate_def)

lemma AddTransactionToMempool_ok:
  assumes "mempool_ok (baseOf m)" and "AddTransactionToMempool env now txid m = Inr m'"
  shows "mempool_ok (baseOf m')"
proof (cases "map_of (txEntries m) txid")
  case None
  then consider "m' = m" | entry ns where "m' = withBase (\<lambda>b. addEntry txid entry (b\<lparr> notified := notified b @ ns \<rparr>)) m"
    using assms(2) by (auto simp: AddTransactionToMempool_def rbind_eq_Inr_iff split: option.splits prod.splits)
  then show ?thesis
  proof cases
    case 2
    then show ?thesis using mempool_ok_addEntry[of "(baseOf m)\<lparr> notified := notified (baseOf m) @ ns \<rparr>" txid entry] assms(1) None by simp
  qed (use assms(1) in simp)
qed (use assms in \<open>simp add: AddTransactionToMempool_def\<close>)

lemma removeTimedOut_spec:
  assumes "mempool_ok m"
  shows "mempool_ok (removeTimedOut th m)"
    and "map_of (txEntries (removeTimedOut th m)) t =
      (case map_of (txEntries m) t of Some e \<Rightarrow> if uint (time_te e) * 10 ^ 9 < th then None else Some e | None \<Rightarrow> None)"
  using fold_remove_all[OF assms, of "removeTimedOut th m" "\<lambda>_ e. uint (time_te e) * 10 ^ 9 < th"] by (simp_all add: removeTimedOut_def)

text \<open>The operations of the ethereum type mempool keep the two maps in agreement: adding a transaction, removing one, and the
  resync. After a resync that runs the cleanup no stored transaction is older than the timeout.\<close>

theorem mempool_eth_consistent:
  assumes "mempool_ok (baseOf m)"
  shows "(\<forall>m'. AddTransactionToMempool env now txid m = Inr m' \<longrightarrow> mempool_ok (baseOf m')) \<and>
    mempool_ok (baseOf (RemoveTransactionFromMempool txid m)) \<and>
    (\<forall>k m'. Resync_eth env now m = Inr (k, m') \<longrightarrow> mempool_ok (baseOf m') \<and>
       (nextTimeoutRun m < now \<longrightarrow> (\<forall>t e. map_of (txEntries m') t = Some e \<longrightarrow> now - mempoolTimeoutTime m \<le> uint (time_te e) * 10 ^ 9)))"
proof (intro conjI allI impI)
  show "mempool_ok (baseOf m')" if "AddTransactionToMempool env now txid m = Inr m'" for m'
    using AddTransactionToMempool_ok[OF assms that] .
  show "mempool_ok (baseOf (RemoveTransactionFromMempool txid m))"
    using assms mempool_ok_remove[of "baseOf m" txid] by (auto simp: RemoveTransactionFromMempool_def split: option.splits)
  fix k m'
  assume r: "Resync_eth env now m = Inr (k, m')"
  have keep: "nextTimeoutRun m2 = nextTimeoutRun m1 \<and> mempoolTimeoutTime m2 = mempoolTimeoutTime m1"
    if "AddTransactionToMempool env now t m1 = Inr m2" for t m1 m2
    using that by (auto simp: AddTransactionToMempool_def rbind_eq_Inr_iff withBase_def Let_def split: option.splits prod.splits if_splits)
  let ?P = "\<lambda>x. mempool_ok (baseOf x) \<and> nextTimeoutRun x = nextTimeoutRun m \<and> mempoolTimeoutTime x = mempoolTimeoutTime m"
  have add: "?P m1" if "rfold (AddTransactionToMempool env now) txs m = Inr m1" for txs m1
    by (rule rfold_invariant[OF that, of ?P]) (use assms keep AddTransactionToMempool_ok in \<open>auto\<close>)
  obtain m1 where q: "(if queryBackendOnResync m then
          rbind (GetMempoolTransactions env) (\<lambda>txs. rfold (AddTransactionToMempool env now) txs m)
        else Inr m) = Inr m1" and m': "m' = (if nextTimeoutRun m1 < now
       then (withBase (removeTimedOut (now - mempoolTimeoutTime m1)) m1)\<lparr> nextTimeoutRun := now + mempoolTimeoutRunPeriod \<rparr> else m1)"
    using r unfolding Resync_eth_def Let_def by (subst (asm) rbind_eq_Inr_iff) auto
  have m1: "?P m1"
  proof (cases "queryBackendOnResync m")
    case True
    then obtain txs where "rfold (AddTransactionToMempool env now) txs m = Inr m1" using q by (auto simp: rbind_eq_Inr_iff)
    then show ?thesis by (rule add)
  qed (use q assms in simp)
  have upd: "baseOf (x\<lparr> nextTimeoutRun := y \<rparr>) = baseOf x" for x y by (simp add: baseOf_def BaseMempool.truncate_def)
  have b: "baseOf m' = (if nextTimeoutRun m < now then removeTimedOut (now - mempoolTimeoutTime m) (baseOf m1) else baseOf m1)"
    using m1 by (simp add: m' upd)
  then show "mempool_ok (baseOf m')" using m1 removeTimedOut_spec(1) by simp
  show "now - mempoolTimeoutTime m \<le> uint (time_te e) * 10 ^ 9"
    if "nextTimeoutRun m < now" "map_of (txEntries m') t = Some e" for t e
  proof -
    have "map_of (txEntries (removeTimedOut (now - mempoolTimeoutTime m) (baseOf m1))) t = Some e"
      using that b by (metis txEntries_baseOf)
    then show ?thesis using m1 by (auto simp: removeTimedOut_spec(2) split: option.splits if_splits)
  qed
qed

theorem mempool_eth_consistent_witness:
  "\<exists>env. mempool_ok (baseOf (NewMempoolEthereumType 0 12 False)) \<and>
    (\<forall>k m'. Resync_eth env 50 (NewMempoolEthereumType 0 12 False) = Inr (k, m') \<longrightarrow> mempool_ok (baseOf m'))"
proof -
  have "baseOf (NewMempoolEthereumType 0 12 False) = newMempool"
    by (simp add: baseOf_def NewMempoolEthereumType_def newMempool_def BaseMempool.truncate_def)
  then have ok: "mempool_ok (baseOf (NewMempoolEthereumType 0 12 False))" by (simp add: mempool_ok_new)
  then show ?thesis using mempool_eth_consistent[OF ok, where now = 50] by blast
qed

end
