(* ===== verification/Api_Types.thy ===== *)
theory Api_Types
  imports Base_Parser
begin

text \<open>
  The data that the API returns (\<open>api/types.go\<close>), with amounts as optional integers where the code has a pointer, and the
  functions on it that need no index: amounts, the order of unspent outputs, paging and the removal of duplicates
  (\<open>api/worker.go\<close>). Types that the API shares by name with \<open>bchain\<close> or \<open>db\<close> carry the suffix \<open>A\<close>. The JSON tags are not
  modelled.

  Go's \<open>int\<close> has 64 bits. Paging multiplies the page number of the request with the page size, so the model writes the
  wrap-around out (\<open>wrap64\<close>), and division by zero panics.
\<close>

section \<open>Data\<close>

definition maxUint32 :: uint32 where "maxUint32 = - 1"
definition maxInt :: int where "maxInt = 2 ^ 63 - 1"

datatype AccountDetails = AccountDetailsBasic | AccountDetailsTokens | AccountDetailsTokenBalances
  | AccountDetailsTxidHistory | AccountDetailsTxHistoryLight | AccountDetailsTxHistory

fun detailLevel :: "AccountDetails \<Rightarrow> nat" where
  "detailLevel AccountDetailsBasic = 0"
| "detailLevel AccountDetailsTokens = 1"
| "detailLevel AccountDetailsTokenBalances = 2"
| "detailLevel AccountDetailsTxidHistory = 3"
| "detailLevel AccountDetailsTxHistoryLight = 4"
| "detailLevel AccountDetailsTxHistory = 5"

text \<open>The constants are numbered in their order, and the code compares them with \<open>>\<close> and \<open>>=\<close>.\<close>

instantiation AccountDetails :: linorder
begin

definition less_eq_AccountDetails :: "AccountDetails \<Rightarrow> AccountDetails \<Rightarrow> bool" where
  "less_eq_AccountDetails a b = (detailLevel a \<le> detailLevel b)"

definition less_AccountDetails :: "AccountDetails \<Rightarrow> AccountDetails \<Rightarrow> bool" where
  "less_AccountDetails a b = (detailLevel a < detailLevel b)"

instance
proof
  fix a b :: AccountDetails
  show "a \<le> b \<Longrightarrow> b \<le> a \<Longrightarrow> a = b" by (cases a; cases b) (simp_all add: less_eq_AccountDetails_def)
qed (auto simp: less_eq_AccountDetails_def less_AccountDetails_def)

end

definition IsZeroBigInt :: "int \<Rightarrow> bool" where "IsZeroBigInt b = (b = 0)"

text \<open>Methods of \<open>*Amount\<close>; \<open>None\<close> is nil. \<open>Int64\<close> takes the low 64 bits.\<close>

definition Amount_String :: "int option \<Rightarrow> string" where
  "Amount_String a = (case a of None \<Rightarrow> '''' | Some n \<Rightarrow> BigInt_String n)"

definition Amount_MarshalJSON :: "int option \<Rightarrow> string" where
  "Amount_MarshalJSON a = (case a of None \<Rightarrow> [CHR 0x22] @ ''0'' @ [CHR 0x22] | Some n \<Rightarrow> [CHR 0x22] @ BigInt_String n @ [CHR 0x22])"

definition Amount_DecimalString :: "int option \<Rightarrow> int \<Rightarrow> go_error + string" where
  "Amount_DecimalString a d = AmountToDecimalString a d"

definition AsBigInt :: "int option \<Rightarrow> int" where
  "AsBigInt a = (case a of None \<Rightarrow> 0 | Some n \<Rightarrow> n)"

definition AsInt64 :: "int option \<Rightarrow> int64" where
  "AsInt64 a = (case a of None \<Rightarrow> 0 | Some n \<Rightarrow> of_int n)"

record VinA =
  Txid_va :: string
  Vout_va :: uint32
  Sequence_va :: int64
  N_va :: nat
  AddrDesc_va :: AddressDescriptor
  Addresses_va :: "string list"
  Searchable_va :: bool
  ValueSat_va :: "int option"
  Hex_va :: string
  Coinbase_va :: string

record VoutA =
  ValueSat_oa :: "int option"
  N_oa :: nat
  Spent_oa :: bool
  SpentTxID :: string
  SpentIndex :: int
  SpentHeight :: int
  Hex_oa :: string
  AddrDesc_oa :: AddressDescriptor
  Addresses_oa :: "string list"
  Searchable_oa :: bool

datatype TokenType = NoTokenType | ERC20TokenType | XPUBAddressTokenType

record Token =
  Type_tk :: TokenType
  Name_tk :: string
  Path_tk :: string
  Contract_tk :: string
  Transfers :: int
  Symbol_tk :: string
  Decimals_tk :: int
  BalanceSat_tk :: "int option"
  TotalReceivedSat_tk :: "int option"
  TotalSentSat_tk :: "int option"
  ContractIndex :: string

record TokenTransfer =
  Type_tt :: TokenType
  From_tt :: string
  To_tt :: string
  Token_tt :: string
  Name_tt :: string
  Symbol_tt :: string
  Decimals_tt :: int
  Value_tt :: "int option"

record EthereumSpecific =
  Status_es :: int
  Nonce_es :: uint64
  GasLimit_es :: "int option"
  GasUsed_es :: "int option"
  GasPrice_es :: "int option"

record TxA =
  Txid_a :: string
  Version_a :: int32
  Locktime_a :: uint32
  Vin_a :: "VinA list"
  Vout_a :: "VoutA list"
  Blockhash_a :: string
  Blockheight :: uint32
  Confirmations_a :: uint32
  Blocktime_a :: int64
  ValueOutSat :: "int option"
  ValueInSat :: "int option"
  ShieldIns_a :: nat
  ShieldOuts_a :: nat
  ShieldValBal_a :: "int option"
  FeesSat :: "int option"
  Hex_a :: string
  CoinSpecificData_a :: coin_data
  CoinSpecificJSON :: string
  TokenTransfers :: "TokenTransfer list"
  EthereumSpecific_a :: "EthereumSpecific option"

record Paging =
  Page :: int
  TotalPages :: int
  ItemsOnPage :: int

definition AddressFilterVoutOff :: int where "AddressFilterVoutOff = - 1"
definition AddressFilterVoutInputs :: int where "AddressFilterVoutInputs = - 2"
definition AddressFilterVoutOutputs :: int where "AddressFilterVoutOutputs = - 3"

datatype TokensToReturn = TokensToReturnNonzeroBalance | TokensToReturnUsed | TokensToReturnDerived

record AddressFilter =
  Vout_f :: int
  Contract_f :: string
  FromHeight :: uint32
  ToHeight :: uint32
  TokensToReturn_f :: TokensToReturn
  OnlyConfirmed :: bool

record UtxoA =
  Txid_ua :: string
  Vout_ua :: int32
  AmountSat :: "int option"
  Height_ua :: int
  Confirmations_ua :: int
  Address_ua :: string
  Path_ua :: string
  Locktime_ua :: uint32

text \<open>\<open>Utxos.Less\<close>: the newest first, unconfirmed ones on top.\<close>

definition utxoHeight :: "UtxoA \<Rightarrow> int" where
  "utxoHeight a = (if Height_ua a = 0 then maxInt else Height_ua a)"

definition Utxos_Less :: "UtxoA \<Rightarrow> UtxoA \<Rightarrow> bool" where
  "Utxos_Less a b = (utxoHeight a \<ge> utxoHeight b)"

record MempoolTxid =
  Time_mt :: int64
  Txid_mt :: string

record MempoolTxids =
  Paging_mt :: Paging
  Mempool_mt :: "MempoolTxid list"
  MempoolSize :: nat

section \<open>Values of an address in a transaction\<close>

definition getAddrVoutValue :: "AddressDescriptor \<Rightarrow> TxA \<Rightarrow> int" where
  "getAddrVoutValue addrDesc t =
     sum_list (map (\<lambda>vout. AsBigInt (ValueSat_oa vout)) (filter (\<lambda>vout. AddrDesc_oa vout = addrDesc \<and> ValueSat_oa vout \<noteq> None) (Vout_a t)))"

definition getAddrVinValue :: "AddressDescriptor \<Rightarrow> TxA \<Rightarrow> int" where
  "getAddrVinValue addrDesc t =
     sum_list (map (\<lambda>vin. AsBigInt (ValueSat_va vin)) (filter (\<lambda>vin. AddrDesc_va vin = addrDesc \<and> ValueSat_va vin \<noteq> None) (Vin_a t)))"

section \<open>Duplicates\<close>

text \<open>The loop keeps the set of ids it has seen and fills the result from the left.\<close>

fun uniqueFrom :: "string list \<Rightarrow> string list \<Rightarrow> string list" where
  "uniqueFrom seen [] = []"
| "uniqueFrom seen (txid # txids) =
     (if txid \<in> set seen then uniqueFrom seen txids else txid # uniqueFrom (txid # seen) txids)"

definition GetUniqueTxids :: "string list \<Rightarrow> string list" where
  "GetUniqueTxids txids = uniqueFrom [] txids"

section \<open>Paging\<close>

definition wrap64 :: "int \<Rightarrow> int" where
  "wrap64 x = sint (of_int x :: int64)"

text \<open>Go divides towards zero.\<close>

definition goDiv :: "int \<Rightarrow> int \<Rightarrow> int" where
  "goDiv a b = (if (a < 0) = (b < 0) then \<bar>a\<bar> div \<bar>b\<bar> else - (\<bar>a\<bar> div \<bar>b\<bar>))"

text \<open>Each operation wraps; with the wrap-around at the end of an expression the result is the same.\<close>

definition computePaging :: "int \<Rightarrow> int \<Rightarrow> int \<Rightarrow> go_error + (Paging \<times> int \<times> int \<times> int)" where
  "computePaging count page itemsOnPage =
     (if itemsOnPage = 0 then Inl (Panic ''integer divide by zero'')
      else
        let from = wrap64 (page * itemsOnPage);
            totalPages = wrap64 (goDiv (wrap64 (count - 1)) itemsOnPage);
            totalPages = (if totalPages < 0 then 0 else totalPages);
            page = (if from \<ge> count then totalPages else page);
            from = wrap64 (page * itemsOnPage);
            to = wrap64 ((page + 1) * itemsOnPage);
            to = (if to > count then count else to)
        in Inr (\<lparr> Page = wrap64 (page + 1), TotalPages = wrap64 (totalPages + 1), ItemsOnPage = itemsOnPage \<rparr>, from, to, page))"

text \<open>The part of a slice that a page shows; the bounds of an index expression are checked by Go.\<close>

definition pageOf :: "'a list \<Rightarrow> int \<Rightarrow> int \<Rightarrow> go_error + 'a list" where
  "pageOf xs from to =
     (if from \<ge> to then Inr []
      else if from < 0 \<or> to > int (length xs) then Inl (Panic ''index out of range'')
      else Inr (take (nat (to - from)) (drop (nat from) xs)))"

text \<open>\<open>make\<close> with a negative length panics.\<close>

definition makeLen :: "int \<Rightarrow> go_error + nat" where
  "makeLen n = (if n < 0 then Inl (Panic ''makeslice: len out of range'') else Inr (nat n))"

text \<open>The page number of a request starts at 1; smaller ones mean the first page.\<close>

definition pageIndex :: "int \<Rightarrow> int" where
  "pageIndex page = (if wrap64 (page - 1) < 0 then 0 else wrap64 (page - 1))"

section \<open>Properties\<close>

lemma remdups_snoc: "remdups (xs @ [t]) = filter (\<lambda>x. x \<noteq> t) (remdups xs) @ [t]"
  by (induction xs) auto

lemma uniqueFrom_filter: "uniqueFrom seen ts = filter (\<lambda>t. t \<notin> set seen) (rev (remdups (rev ts)))"
proof (induction ts arbitrary: seen)
  case (Cons t ts)
  have e: "rev (remdups (rev (t # ts))) = t # filter (\<lambda>x. x \<noteq> t) (rev (remdups (rev ts)))"
    by (simp add: remdups_snoc rev_filter)
  show ?case unfolding e by (auto simp: Cons intro: filter_cong)
qed simp

text \<open>Removing duplicates keeps the first occurrence of every id, in the order of the list: the result has no
  duplicates, the same ids, and is the list without the later occurrences.\<close>

theorem uniqueTxids_first_occurrences:
  "GetUniqueTxids txids = rev (remdups (rev txids)) \<and> distinct (GetUniqueTxids txids) \<and> set (GetUniqueTxids txids) = set txids"
  by (simp add: GetUniqueTxids_def uniqueFrom_filter)

lemma wrap64_id: "- (2 ^ 63) \<le> x \<Longrightarrow> x < 2 ^ 63 \<Longrightarrow> wrap64 x = x"
  by (simp add: wrap64_def signed_of_int signed_take_bit_int_eq_self)

definition lastPage :: "int \<Rightarrow> int \<Rightarrow> int" where
  "lastPage count items = (if count = 0 then 0 else (count - 1) div items)"

lemma lastPage_bounds:
  assumes "0 < items" and "0 \<le> count"
  shows "0 \<le> lastPage count items" and "lastPage count items * items \<le> count" and "lastPage count items \<le> count"
    and "count \<le> (lastPage count items + 1) * items"
proof -
  let ?l = "lastPage count items"
  show l0: "0 \<le> ?l" using assms by (simp add: lastPage_def pos_imp_zdiv_nonneg_iff)
  have dm: "(count - 1) div items * items + (count - 1) mod items = count - 1" by simp
  have m: "0 \<le> (count - 1) mod items" "(count - 1) mod items < items" using assms(1) by simp_all
  have d1: "(count - 1) div items * items \<le> count - 1" using dm m(1) by linarith
  have d2: "count \<le> ((count - 1) div items + 1) * items" using dm m(2) unfolding distrib_right by linarith
  show l1: "?l * items \<le> count" using d1 assms(2) by (auto simp: lastPage_def)
  have "?l \<le> ?l * items" using l0 assms(1) mult_left_mono[of 1 items ?l] by simp
  then show "?l \<le> count" using l1 by simp
  show "count \<le> (?l + 1) * items" using d2 assms by (auto simp: lastPage_def)
qed

lemma computePaging_eq:
  fixes count page items :: int
  assumes "0 < items" and "0 \<le> count" and "count + items < 2 ^ 63" and "0 \<le> page" and "page * items < 2 ^ 63"
  defines "p \<equiv> (if page * items \<ge> count then lastPage count items else page)"
  shows "computePaging count page items =
    Inr (\<lparr> Page = p + 1, TotalPages = lastPage count items + 1, ItemsOnPage = items \<rparr>, p * items, min ((p + 1) * items) count, p)"
proof -
  note lp = lastPage_bounds[OF assms(1,2)]
  have tp: "(if wrap64 (goDiv (wrap64 (count - 1)) items) < 0 then 0 else wrap64 (goDiv (wrap64 (count - 1)) items)) = lastPage count items"
  proof (cases "count = 0")
    case True
    have "1 div items = 0 \<or> 1 div items = 1" using assms(1) by (cases "items = 1") (auto simp: div_pos_pos_trivial)
    then show ?thesis using True assms(1) by (auto simp: wrap64_id goDiv_def lastPage_def)
  next
    case False
    then have "goDiv (wrap64 (count - 1)) items = lastPage count items"
      using assms(1-3) by (simp add: wrap64_id goDiv_def lastPage_def)
    moreover have "wrap64 (lastPage count items) = lastPage count items" using lp assms(1,3) by (intro wrap64_id) auto
    ultimately show ?thesis using lp(1) by simp
  qed
  have w1: "wrap64 (page * items) = page * items" using assms(1,4,5) by (intro wrap64_id) (auto intro: order_trans[of _ 0])
  have p0: "0 \<le> p" "p * items \<le> count" using lp assms(4) by (auto simp: p_def)
  have "p \<le> p * items" using p0(1) assms(1) mult_left_mono[of 1 items p] by simp
  then have pb: "p \<le> count" using p0(2) by simp
  have w2: "wrap64 (p * items) = p * items" using p0 assms(1,3) by (intro wrap64_id) (auto intro: order_trans[of _ 0])
  have "(p + 1) * items \<le> count + items" using p0(2) by (simp add: algebra_simps)
  then have w3: "wrap64 ((p + 1) * items) = (p + 1) * items" using p0 assms(1,3) by (intro wrap64_id) (auto intro: order_trans[of _ 0])
  have w4: "wrap64 (p + 1) = p + 1" "wrap64 (lastPage count items + 1) = lastPage count items + 1"
    using pb p0 lp assms(1,3) by (auto intro!: wrap64_id)
  have "items \<noteq> 0" using assms(1) by simp
  then show ?thesis
    unfolding computePaging_def Let_def w1 tp p_def[symmetric] w2 w3 w4 by (simp add: min_def not_less)
qed

lemma concat_pages: "concat (map (\<lambda>p. take m (drop (p * m) xs)) [0..<k]) = take (k * m) xs"
proof (induction k)
  case (Suc k)
  have "take (k * m) xs @ take m (drop (k * m) xs) = take (k * m + m) xs" by (simp add: take_add)
  with Suc show ?case by (simp add: add.commute)
qed simp

text \<open>What page \<open>p\<close>, counted from 0, shows of a list.\<close>

definition showPage :: "'a list \<Rightarrow> int \<Rightarrow> int \<Rightarrow> go_error + 'a list" where
  "showPage xs p items = rbind (computePaging (int (length xs)) p items) (\<lambda>(_, from, to, _). pageOf xs from to)"

lemma showPage_eq:
  assumes "0 < m" and "int (length xs) + int m < 2 ^ 63" and "int p \<le> lastPage (int (length xs)) (int m)"
  shows "showPage xs (int p) (int m) = Inr (take m (drop (p * m) xs))"
proof -
  let ?n = "int (length xs)"
  note lp = lastPage_bounds[of "int m" ?n]
  have pm: "int p * int m \<le> ?n"
  proof -
    have "int p * int m \<le> lastPage ?n (int m) * int m" using assms(1,3) by (intro mult_right_mono) auto
    also have "\<dots> \<le> ?n" using lp assms(1) by simp
    finally show ?thesis .
  qed
  have e: "(if int p * int m \<ge> ?n then lastPage ?n (int m) else int p) = int p"
  proof (cases "int p * int m \<ge> ?n")
    case True
    then have eq: "int p * int m = ?n" using pm by simp
    have "lastPage ?n (int m) * int m \<le> int p * int m" using lp(2) assms(1) eq by simp
    then have "lastPage ?n (int m) \<le> int p" using assms(1) by simp
    then show ?thesis using True assms(3) by simp
  qed simp
  have "computePaging ?n (int p) (int m) = Inr (\<lparr> Page = int p + 1, TotalPages = lastPage ?n (int m) + 1, ItemsOnPage = int m \<rparr>,
      int p * int m, min ((int p + 1) * int m) ?n, int p)"
    using computePaging_eq[of "int m" ?n "int p"] assms(1,2) pm e by simp
  moreover have "pageOf xs (int p * int m) (min ((int p + 1) * int m) ?n) = Inr (take m (drop (p * m) xs))"
  proof -
    define q where "q = p * m"
    have q: "int p * int m = int q" "(int p + 1) * int m = int (q + m)" by (simp_all add: q_def distrib_right)
    show ?thesis
    proof (cases "q < length xs")
      case True
      have "nat (min (int (q + m)) ?n - int q) = min m (length xs - q)" by (cases "q + m \<le> length xs") auto
      then show ?thesis unfolding q q_def[symmetric] using True assms(1) by (simp add: pageOf_def min_def)
    next
      case False
      then show ?thesis unfolding q q_def[symmetric] by (simp add: pageOf_def)
    qed
  qed
  ultimately show ?thesis by (simp add: showPage_def)
qed

text \<open>The pages of a list show every entry once and in order. For a page size above zero that does not overflow with the length,
  every page up to the number of pages that is reported returns without a panic and has at most the page
  size of entries, and the pages put together are the list.\<close>

theorem paging_covers_list:
  fixes xs :: "'a list"
  assumes "0 < m" and "int (length xs) + int m < 2 ^ 63"
  shows "\<exists>k pages. length pages = k \<and> concat pages = xs \<and> (\<forall>p < k. showPage xs (int p) (int m) = Inr (pages ! p) \<and> length (pages ! p) \<le> m \<and>
    (\<exists>pg from to q. computePaging (int (length xs)) (int p) (int m) = Inr (pg, from, to, q) \<and> TotalPages pg = int k))"
proof -
  let ?n = "int (length xs)"
  note lp = lastPage_bounds[of "int m" ?n]
  define k where "k = nat (lastPage ?n (int m) + 1)"
  let ?pages = "map (\<lambda>p. take m (drop (p * m) xs)) [0..<k]"
  have k: "int k = lastPage ?n (int m) + 1" using lp(1) assms(1) by (simp add: k_def)
  have "?n \<le> int (k * m)" using lp(4) assms(1) k by simp
  then have "length xs \<le> k * m" by linarith
  then have c: "concat ?pages = xs" by (simp only: concat_pages take_all)
  have s: "showPage xs (int p) (int m) = Inr (take m (drop (p * m) xs))" if "p < k" for p
    using showPage_eq[OF assms, of p] that k by simp
  have t: "\<exists>pg from to q. computePaging ?n (int p) (int m) = Inr (pg, from, to, q) \<and> TotalPages pg = int k" if "p < k" for p
  proof -
    have "int p * int m \<le> lastPage ?n (int m) * int m" using that k assms(1) by (intro mult_right_mono) auto
    also have "\<dots> \<le> ?n" using lp(2) assms(1) by simp
    finally have "int p * int m < 2 ^ 63" using assms(2) by simp
    then show ?thesis using computePaging_eq[of "int m" ?n "int p"] assms k by simp
  qed
  show ?thesis using c s t by (intro exI[of _ k] exI[of _ ?pages]) simp
qed

theorem paging_covers_list_witness:
  "\<exists>k pages. length pages = k \<and> concat pages = ''abcde'' \<and> (\<forall>p < k. showPage ''abcde'' (int p) 2 = Inr (pages ! p))"
  using paging_covers_list[of 2 "''abcde''"] by fastforce

text \<open>Requests can choose a page that makes the code panic. A page size of zero is a division by zero, and a page number whose product with
  the page size leaves 64 bits gives a negative position, which is out of range.\<close>

theorem paging_request_panics:
  "computePaging count page 0 = Inl (Panic ''integer divide by zero'') \<and>
   showPage ''abc'' (2 ^ 62) 2 = Inl (Panic ''index out of range'')"
proof
  have "wrap64 (2 ^ 62 * 2) = - (2 ^ 63)" "wrap64 ((2 ^ 62 + 1) * 2) = - (2 ^ 63) + 2" "wrap64 2 = 2"
    by code_simp+
  then show "showPage ''abc'' (2 ^ 62) 2 = Inl (Panic ''index out of range'')"
    by (simp add: showPage_def computePaging_def pageOf_def Let_def)
qed (simp add: computePaging_def)

end
