(* ===== verification/Api_Tx.thy ===== *)
theory Api_Tx
  imports Tx_Cache Mempool Api_Types
begin

text \<open>
  Transactions of the API worker (\<open>api/worker.go\<close>): the worker handle, the spending transaction of an output, and the
  two ways a transaction is shown, from the back end or the cache (\<open>GetTransactionFromBchainTx\<close>) and from the index alone (\<open>txFromTxAddress\<close>).

  The handle holds one database, one back end and one mempool. In the code \<open>w.db\<close> and \<open>w.txCache.db\<close> are the same pointer, as
  are \<open>w.chain\<close> and \<open>w.txCache.chain\<close>, and \<open>w.is\<close> is the internal state of the database handle; so the worker here has the cache and the mempool.
  The methods of the \<open>BlockChain\<close> interface and \<open>json.Unmarshal\<close> are parameters. Logging is left out. An error that the code only
  logs is handled by \<open>attempt\<close> and \<open>logged\<close>.
\<close>

section \<open>The worker\<close>

record BlockInfo_rpc = BlockHeader +
  Version_ri :: string
  MerkleRoot_ri :: string
  Nonce_ri :: string
  Bits_ri :: string
  Difficulty_ri :: string
  Txids_ri :: "string list"
  SaplingRoot_ri :: string

text \<open>\<open>UnmarshalTx\<close> is what \<open>json.Unmarshal\<close> leaves in a zero transaction, also when it returns an error.\<close>

record ('s, 'c) api_env =
  pk :: "'s packages"
  bc :: "'c BlockChain"
  hx :: hexutil
  UnmarshalTx :: "string \<Rightarrow> Tx"
  GetTransactionSpecific :: "Tx \<Rightarrow> ('c, string) action"
  GetBlockInfo_c :: "string \<Rightarrow> ('c, BlockInfo_rpc) action"
  EthereumTypeGetBalance :: "AddressDescriptor \<Rightarrow> ('c, int option) action"
  EthereumTypeGetNonce :: "AddressDescriptor \<Rightarrow> ('c, uint64) action"
  GetErc20ContractInfo :: "AddressDescriptor \<Rightarrow> ('c, Erc20Contract option) action"
  GetErc20ContractBalance :: "AddressDescriptor \<Rightarrow> AddressDescriptor \<Rightarrow> ('c, int) action"

record ('s, 'c) Worker =
  txCache :: "('s, 'c) TxCache"
  mempool_w :: BaseMempool

definition NewWorker :: "('s, 'c) TxCache \<Rightarrow> BaseMempool \<Rightarrow> ('s, 'c) Worker" where
  "NewWorker c m = \<lparr> txCache = c, mempool_w = m \<rparr>"

abbreviation db_w :: "('s, 'c) Worker \<Rightarrow> 's RocksDB" where
  "db_w w \<equiv> db_tc (txCache w)"

abbreviation chainParser_w :: "('s, 'c) Worker \<Rightarrow> BlockChainParser" where
  "chainParser_w w \<equiv> chainParser (db_w w)"

definition chainType_w :: "('s, 'c) Worker \<Rightarrow> ChainType" where
  "chainType_w w = GetChainType (chainParser_w w)"

definition onCache :: "(('s, 'c) TxCache, 'a) action \<Rightarrow> (('s, 'c) Worker, 'a) action" where
  "onCache f w = (case f (txCache w) of (r, c) \<Rightarrow> (r, w\<lparr> txCache := c \<rparr>))"

definition callChain :: "('c, 'a) action \<Rightarrow> (('s, 'c) Worker, 'a) action" where
  "callChain f = onCache (onChain f)"

definition queryDB :: "('s RocksDB \<Rightarrow> go_error + 'a) \<Rightarrow> (('s, 'c) Worker, 'a) action" where
  "queryDB f = query (\<lambda>w. f (db_w w))"

definition cachedTx :: "('s, 'c) api_env \<Rightarrow> string \<Rightarrow> (('s, 'c) Worker, Tx \<times> uint32) action" where
  "cachedTx A txid = onCache (GetTransaction (pk A) (bc A) (hx A) txid)"

definition annotated :: "string \<Rightarrow> ('w, 'a) action \<Rightarrow> ('w, 'a) action" where
  "annotated msg m w = (case m w of (r, w) \<Rightarrow> (Annotatef msg r, w))"

definition apiError :: "string \<Rightarrow> ('w, 'a) action \<Rightarrow> ('w, 'a) action" where
  "apiError msg m w = (case m w of (Inl e, w) \<Rightarrow> (Inl (if is_panic e then e else APIError msg True), w) | (Inr x, w) \<Rightarrow> (Inr x, w))"

definition logged :: "'a \<Rightarrow> go_error + 'a \<Rightarrow> go_error + 'a" where
  "logged x r = (case r of Inl e \<Rightarrow> if is_panic e then Inl e else Inr x | Inr y \<Rightarrow> Inr y)"

section \<open>Addresses of an output\<close>

definition getAddressesFromVout ::
    "BlockChainParser \<Rightarrow> Vout \<Rightarrow> go_error + (AddressDescriptor \<times> string list \<times> bool \<times> go_error option)" where
  "getAddressesFromVout p vout =
     (case GetAddrDescFromVout p vout of
        Inl e \<Rightarrow> if is_panic e then Inl e else Inr ([], [], False, Some e)
      | Inr addrDesc \<Rightarrow>
          (case GetAddressesFromAddrDesc p addrDesc of
             Inl e \<Rightarrow> if is_panic e then Inl e else Inr (addrDesc, [], False, Some e)
           | Inr (a, s) \<Rightarrow> Inr (addrDesc, a, s, None)))"

definition TxInput_Addresses :: "BlockChainParser \<Rightarrow> TxInput \<Rightarrow> go_error + (string list \<times> bool)" where
  "TxInput_Addresses p ti = GetAddressesFromAddrDesc p (AddrDesc_ti ti)"

definition TxOutput_Addresses :: "BlockChainParser \<Rightarrow> TxOutput \<Rightarrow> go_error + (string list \<times> bool)" where
  "TxOutput_Addresses p to = GetAddressesFromAddrDesc p (AddrDesc_to to)"

section \<open>The transaction that spent an output\<close>

text \<open>One index of a transaction of the address; the result is the changed output when it is the spending input.\<close>

definition spendingIndex ::
    "('s, 'c) api_env \<Rightarrow> string \<Rightarrow> VoutA \<Rightarrow> string \<Rightarrow> int32 \<Rightarrow> (('s, 'c) Worker, VoutA option) action" where
  "spendingIndex A txid vout t idx =
     (if sint idx < 0 then
        let n = unat (NOT idx) in
        abind (queryDB (GetTxAddresses (pk A) t)) (\<lambda>tsp.
        case tsp of
          None \<Rightarrow> ret None
        | Some tsp \<Rightarrow>
            if n < length (Inputs tsp) then
              (case ValueSat_oa vout of
                 None \<Rightarrow> throw (Panic ''nil pointer dereference'')
               | Some v \<Rightarrow>
                   if ValueSat_ti (Inputs tsp ! n) = v then
                     abind (attempt (cachedTx A t)) (\<lambda>r.
                     case r of
                       Inl _ \<Rightarrow> ret None
                     | Inr (spentTx, spentHeight) \<Rightarrow>
                         if n < length (Vin_tx spentTx) \<and> Txid_vin (Vin_tx spentTx ! n) = txid
                         then ret (Some (vout\<lparr> SpentTxID := t, SpentHeight := uint spentHeight, SpentIndex := int n \<rparr>))
                         else ret None)
                   else ret None)
            else ret None)
      else ret None)"

fun spendingIndexes ::
    "('s, 'c) api_env \<Rightarrow> string \<Rightarrow> VoutA \<Rightarrow> string \<Rightarrow> int32 list \<Rightarrow> (('s, 'c) Worker, VoutA option) action" where
  "spendingIndexes A txid vout t [] = ret None"
| "spendingIndexes A txid vout t (idx # ixs) =
     abind (spendingIndex A txid vout t idx) (\<lambda>r.
     case r of Some v \<Rightarrow> ret (Some v) | None \<Rightarrow> spendingIndexes A txid vout t ixs)"

text \<open>
  The callback keeps the worker, the output and the error it returned. The iterator reads the snapshot of the index that it was
  opened on.
\<close>

definition spendingCallback ::
    "('s, 'c) api_env \<Rightarrow> string \<Rightarrow> (('s, 'c) Worker \<times> VoutA \<times> go_error option) GetTransactionsCallback" where
  "spendingCallback A txid t height ixs = (\<lambda>(w, vout, err).
     case spendingIndexes A txid vout t ixs w of
       (Inl e, w) \<Rightarrow> (Some StopIteration, (w, vout, Some e))
     | (Inr None, w) \<Rightarrow> (None, (w, vout, err))
     | (Inr (Some v), w) \<Rightarrow> (Some StopIteration, (w, v, err)))"

definition setSpendingTxToVout ::
    "('s, 'c) api_env \<Rightarrow> VoutA \<Rightarrow> string \<Rightarrow> uint32 \<Rightarrow> (('s, 'c) Worker, VoutA) action" where
  "setSpendingTxToVout A vout txid height w =
     (case GetAddrDescTransactions (pk A) (AddrDesc_oa vout) height maxUint32 (spendingCallback A txid) (w, vout, None) (db_w w) of
        Inl e \<Rightarrow> (Inl e, w)
      | Inr (w, vout, err) \<Rightarrow> (case err of Some e \<Rightarrow> (Inl e, w) | None \<Rightarrow> (Inr vout, w)))"

section \<open>A transaction of the back end\<close>

definition startVin :: "nat \<Rightarrow> Vin \<Rightarrow> VinA" where
  "startVin i vi = \<lparr> Txid_va = Txid_vin vi, Vout_va = Vout_vin vi, Sequence_va = ucast (Sequence vi), N_va = i, AddrDesc_va = [],
     Addresses_va = [], Searchable_va = False, ValueSat_va = None, Hex_va = Hex_ss (ScriptSig_vin vi), Coinbase_va = Coinbase vi \<rparr>"

text \<open>The input of an unknown transaction: the parser may know its value and address.\<close>

definition unknownVin :: "BlockChainParser \<Rightarrow> Tx \<Rightarrow> nat \<Rightarrow> VinA \<Rightarrow> go_error + VinA" where
  "unknownVin p tx i vin =
     (let desc = GetAddrDescForUnknownInput p tx i in
      rbind (logged ([], False) (GetAddressesFromAddrDesc p desc)) (\<lambda>(a, s).
      Inr (vin\<lparr> AddrDesc_va := desc, ValueSat_va := Some (GetValueSatForUnknownInput p tx i), Addresses_va := a, Searchable_va := s \<rparr>)))"

definition vinFromVout :: "BlockChainParser \<Rightarrow> Vout \<Rightarrow> VinA \<Rightarrow> go_error + VinA" where
  "vinFromVout p vout vin =
     rbind (getAddressesFromVout p vout) (\<lambda>(d, a, s, _).
     Inr (vin\<lparr> ValueSat_va := Some (ValueSat_vout vout), AddrDesc_va := d, Addresses_va := a, Searchable_va := s \<rparr>))"

definition vinFromOutput :: "BlockChainParser \<Rightarrow> TxOutput \<Rightarrow> VinA \<Rightarrow> go_error + VinA" where
  "vinFromOutput p out vin =
     rbind (logged ([], False) (TxOutput_Addresses p out)) (\<lambda>(a, s).
     Inr (vin\<lparr> ValueSat_va := Some (ValueSat_to out), AddrDesc_va := AddrDesc_to out, Addresses_va := a, Searchable_va := s \<rparr>))"

definition bitcoinVin :: "('s, 'c) api_env \<Rightarrow> BlockChainParser \<Rightarrow> Tx \<Rightarrow> nat \<Rightarrow> VinA \<Rightarrow> (('s, 'c) Worker, VinA) action" where
  "bitcoinVin A p tx i vin =
     (if Txid_va vin = '''' then ret vin
      else
        abind (annotated ''GetTxAddresses'' (queryDB (GetTxAddresses (pk A) (Txid_va vin)))) (\<lambda>tas.
        let n = unat (Vout_va vin) in
        case tas of
          None \<Rightarrow>
            abind (attempt (cachedTx A (Txid_va vin))) (\<lambda>r.
            case r of
              Inl e \<Rightarrow>
                if e = ErrTxNotFound then query (\<lambda>_. unknownVin p tx i vin)
                else throw (Errorf ''txCache.GetTransaction'')
            | Inr (otx, _) \<Rightarrow>
                if n < length (Vout_tx otx) then query (\<lambda>_. vinFromVout p (Vout_tx otx ! n) vin) else ret vin)
        | Some tas \<Rightarrow>
            if n < length (Outputs tas) then query (\<lambda>_. vinFromOutput p (Outputs tas ! n) vin) else ret vin))"

definition ethereumVin :: "BlockChainParser \<Rightarrow> Vin \<Rightarrow> VinA \<Rightarrow> go_error + VinA" where
  "ethereumVin p vi vin =
     (case Addresses_vin vi of
        [] \<Rightarrow> Inr vin
      | a # as \<Rightarrow>
          rbind (logged [] (GetAddrDescFromAddress p a)) (\<lambda>d.
          Inr (vin\<lparr> AddrDesc_va := d, Addresses_va := a # as, Searchable_va := True \<rparr>)))"

definition showVin :: "('s, 'c) api_env \<Rightarrow> BlockChainParser \<Rightarrow> Tx \<Rightarrow> nat \<times> Vin \<Rightarrow> (('s, 'c) Worker, VinA) action" where
  "showVin A p tx = (\<lambda>(i, vi).
     let vin = startVin i vi in
     if GetChainType p = ChainBitcoinType then bitcoinVin A p tx i vin
     else if GetChainType p = ChainEthereumType then query (\<lambda>_. ethereumVin p vi vin)
     else ret vin)"

definition showVout ::
    "('s, 'c) api_env \<Rightarrow> BlockChainParser \<Rightarrow> Tx \<Rightarrow> TxAddresses option \<Rightarrow> bool \<Rightarrow> uint32 \<Rightarrow> nat \<times> Vout \<Rightarrow> (('s, 'c) Worker, VoutA) action" where
  "showVout A p tx ta spendingTxs height = (\<lambda>(i, vo).
     abind (query (\<lambda>_. getAddressesFromVout p vo)) (\<lambda>(d, a, s, _).
     let vout = \<lparr> ValueSat_oa = Some (ValueSat_vout vo), N_oa = i, Spent_oa = False, SpentTxID = '''', SpentIndex = 0, SpentHeight = 0,
           Hex_oa = Hex_spk (ScriptPubKey_vout vo), AddrDesc_oa = d, Addresses_oa = a, Searchable_oa = s \<rparr> in
     case ta of
       None \<Rightarrow> ret vout
     | Some ta \<Rightarrow>
         abind (query (\<lambda>_. index (Outputs ta) i)) (\<lambda>out.
         let vout = vout\<lparr> Spent_oa := Spent out \<rparr> in
         if spendingTxs \<and> Spent out then
           abind (attempt (setSpendingTxToVout A vout (Txid_tx tx) height)) (\<lambda>r.
           case r of Inl _ \<Rightarrow> ret vout | Inr v \<Rightarrow> ret v)
         else ret vout)))"

section \<open>Tokens and fees\<close>

definition zeroTokenTransfer :: TokenTransfer where
  "zeroTokenTransfer = \<lparr> Type_tt = NoTokenType, From_tt = '''', To_tt = '''', Token_tt = '''', Name_tt = '''', Symbol_tt = '''',
     Decimals_tt = 0, Value_tt = None \<rparr>"

text \<open>A contract that cannot be read is shown by its address.\<close>

definition showTransfer :: "('s, 'c) api_env \<Rightarrow> BlockChainParser \<Rightarrow> Erc20Transfer \<Rightarrow> (('s, 'c) Worker, TokenTransfer) action" where
  "showTransfer A p e =
     abind (attempt (query (\<lambda>_. GetAddrDescFromAddress p (Contract_et e)))) (\<lambda>cd.
     case cd of
       Inl _ \<Rightarrow> ret zeroTokenTransfer
     | Inr cd \<Rightarrow>
         abind (attempt (callChain (GetErc20ContractInfo A cd))) (\<lambda>r.
         let erc20c = (case r of Inr (Some c) \<Rightarrow> c
               | _ \<Rightarrow> \<lparr> Contract_ec = '''', Name_ec = Contract_et e, Symbol_ec = '''', Decimals_ec = 0 \<rparr>) in
         ret \<lparr> Type_tt = ERC20TokenType, From_tt = From_et e, To_tt = To_et e, Token_tt = Contract_et e, Name_tt = Name_ec erc20c,
               Symbol_tt = Symbol_ec erc20c, Decimals_tt = int (Decimals_ec erc20c), Value_tt = Some (Tokens_et e) \<rparr>))"

text \<open>Mempool transactions do not have fees yet; multiplying with a nil price is a nil dereference.\<close>

definition gasFees :: "EthereumTxData \<Rightarrow> go_error + int" where
  "gasFees d =
     (case GasUsed_etd d of
        None \<Rightarrow> Inr 0
      | Some used \<Rightarrow> (case GasPrice_etd d of None \<Rightarrow> Inl (Panic ''nil pointer dereference'') | Some price \<Rightarrow> Inr (price * used)))"

definition ethereumData ::
    "('s, 'c) api_env \<Rightarrow> BlockChainParser \<Rightarrow> Tx \<Rightarrow> (('s, 'c) Worker, TokenTransfer list \<times> int \<times> EthereumSpecific) action" where
  "ethereumData A p tx =
     abind (query (\<lambda>_. logged [] (EthereumTypeGetErc20FromTx p tx))) (\<lambda>ets.
     abind (amap (showTransfer A p) ets) (\<lambda>tokens.
     let d = GetEthereumTxData (hx A) tx in
     abind (query (\<lambda>_. gasFees d)) (\<lambda>fees.
     ret (tokens, fees, \<lparr> Status_es = Status_etd d, Nonce_es = Nonce_etd d, GasLimit_es = GasLimit_etd d, GasUsed_es = GasUsed_etd d,
       GasPrice_es = GasPrice_etd d \<rparr>))))"

definition sumVins :: "VinA list \<Rightarrow> int" where
  "sumVins vins = sum_list (map (\<lambda>vin. AsBigInt (ValueSat_va vin)) vins)"

definition sumVouts :: "Vout list \<Rightarrow> int" where
  "sumVouts vouts = sum_list (map ValueSat_vout vouts)"

text \<open>The fee with the balance of the shielded pool: a negative fee without one is shown as zero.\<close>

definition withShield :: "int \<Rightarrow> int \<Rightarrow> int option \<times> int" where
  "withShield shieldValBal fees =
     (if IsZeroBigInt shieldValBal then (None, if fees < 0 then 0 else fees) else (Some shieldValBal, fees + shieldValBal))"

section \<open>GetTransaction\<close>

text \<open>\<open>json.Unmarshal\<close> of nothing is an error and leaves the zero value.\<close>

definition zeroTx :: Tx where
  "zeroTx = \<lparr> Hex_tx = '''', Txid_tx = '''', Version_tx = 0, LockTime = 0, Vin_tx = [], Vout_tx = [], Confirmations_tx = 0, Time_tx = 0,
     Blocktime = 0, VShieldIn_tx = [], VShieldOut_tx = [], ShieldValBal_tx = 0, CoinSpecificData = NoData \<rparr>"

text \<open>The record of the index and the hash of the block, for a confirmed transaction.\<close>

definition confirmedData ::
    "('s, 'c) api_env \<Rightarrow> BlockChainParser \<Rightarrow> Tx \<Rightarrow> uint32 \<Rightarrow> (('s, 'c) Worker, TxAddresses option \<times> string) action" where
  "confirmedData A p tx height =
     (if Confirmations_tx tx > 0 then
        abind (if GetChainType p = ChainBitcoinType then annotated ''GetTxAddresses'' (queryDB (GetTxAddresses (pk A) (Txid_tx tx))) else ret None) (\<lambda>ta.
        abind (annotated ''GetBlockHash'' (queryDB (GetBlockHash (pk A) height))) (\<lambda>blockhash.
        ret (ta, blockhash)))
      else ret (None, ''''))"

definition GetTransactionFromBchainTx ::
    "('s, 'c) api_env \<Rightarrow> Tx \<Rightarrow> uint32 \<Rightarrow> bool \<Rightarrow> bool \<Rightarrow> (('s, 'c) Worker, TxA) action" where
  "GetTransactionFromBchainTx A tx height spendingTxs specificJSON w =
     (let p = chainParser_w w in
      abind (confirmedData A p tx height) (\<lambda>(ta, blockhash).
      abind (amap (showVin A p tx) (enumerate 0 (Vin_tx tx))) (\<lambda>vins.
      abind (amap (showVout A p tx ta spendingTxs height) (enumerate 0 (Vout_tx tx))) (\<lambda>vouts.
      abind (if GetChainType p = ChainBitcoinType then ret ([], sumVins vins - sumVouts (Vout_tx tx), None)
             else if GetChainType p = ChainEthereumType then
               abind (ethereumData A p tx) (\<lambda>(tokens, fees, es). ret (tokens, fees, Some es))
             else ret ([], 0, None)) (\<lambda>(tokens, fees, ethSpecific).
      let valOut = (if GetChainType p = ChainEthereumType \<and> Vout_tx tx \<noteq> [] then ValueSat_vout (hd (Vout_tx tx)) else sumVouts (Vout_tx tx)) in
      abind (if specificJSON then callChain (GetTransactionSpecific A tx) else ret '''') (\<lambda>sj.
      let tempTx = (if sj = '''' then zeroTx else UnmarshalTx A sj);
          (saplingBalance, fees) = withShield (ShieldValBal_tx tempTx) fees in
      abind (query (\<lambda>w. Inr (if Confirmations_tx tx = 0 then ucast (GetTransactionTime (Txid_tx tx) (mempool_w w)) else Blocktime tx))) (\<lambda>blocktime.
      ret \<lparr> Txid_a = Txid_tx tx, Version_a = Version_tx tx, Locktime_a = LockTime tx, Vin_a = vins, Vout_a = vouts, Blockhash_a = blockhash,
            Blockheight = height, Confirmations_a = Confirmations_tx tx, Blocktime_a = blocktime, ValueOutSat = Some valOut,
            ValueInSat = (if GetChainType p = ChainBitcoinType then Some (sumVins vins) else None), ShieldIns_a = length (VShieldIn_tx tempTx),
            ShieldOuts_a = length (VShieldOut_tx tempTx), ShieldValBal_a = saplingBalance, FeesSat = Some fees, Hex_a = Hex_tx tx,
            CoinSpecificData_a = CoinSpecificData tx, CoinSpecificJSON = sj, TokenTransfers = tokens, EthereumSpecific_a = ethSpecific \<rparr>)))))) w)"

definition GetTransaction_w :: "('s, 'c) api_env \<Rightarrow> string \<Rightarrow> bool \<Rightarrow> bool \<Rightarrow> (('s, 'c) Worker, TxA) action" where
  "GetTransaction_w A txid spendingTxs specificJSON =
     abind (apiError ''Transaction not found'' (cachedTx A txid)) (\<lambda>(tx, height).
     GetTransactionFromBchainTx A tx height spendingTxs specificJSON)"

definition GetSpendingTxid :: "('s, 'c) api_env \<Rightarrow> string \<Rightarrow> int \<Rightarrow> (('s, 'c) Worker, string) action" where
  "GetSpendingTxid A txid n =
     abind (GetTransaction_w A txid False False) (\<lambda>tx.
     if n \<ge> int (length (Vout_a tx)) \<or> n < 0 then throw (APIError ''Passed incorrect vout index'' False)
     else abind (setSpendingTxToVout A (Vout_a tx ! nat n) (Txid_a tx) (Blockheight tx)) (\<lambda>vout. ret (SpentTxID vout)))"

section \<open>A transaction of the index\<close>

definition taVin :: "BlockChainParser \<Rightarrow> nat \<times> TxInput \<Rightarrow> go_error + VinA" where
  "taVin p = (\<lambda>(i, tai).
     rbind (logged ([], False) (TxInput_Addresses p tai)) (\<lambda>(a, s).
     Inr \<lparr> Txid_va = '''', Vout_va = 0, Sequence_va = 0, N_va = i, AddrDesc_va = [], Addresses_va = a, Searchable_va = s,
           ValueSat_va = Some (ValueSat_ti tai), Hex_va = '''', Coinbase_va = '''' \<rparr>))"

definition taVout :: "BlockChainParser \<Rightarrow> nat \<times> TxOutput \<Rightarrow> go_error + VoutA" where
  "taVout p = (\<lambda>(i, tao).
     rbind (logged ([], False) (TxOutput_Addresses p tao)) (\<lambda>(a, s).
     Inr \<lparr> ValueSat_oa = Some (ValueSat_to tao), N_oa = i, Spent_oa = Spent tao, SpentTxID = '''', SpentIndex = 0, SpentHeight = 0,
           Hex_oa = '''', AddrDesc_oa = [], Addresses_oa = a, Searchable_oa = s \<rparr>))"

text \<open>Here a negative transparent fee is cut before the balance of the shielded pool is added.\<close>

definition taFees :: "TxAddresses \<Rightarrow> int option \<times> int" where
  "taFees ta =
     (let fees = sum_list (map ValueSat_ti (Inputs ta)) - sum_list (map ValueSat_to (Outputs ta));
          fees = (if fees < 0 then 0 else fees) in
      if IsZeroBigInt (ShieldValBal_ta ta) then (None, fees) else (Some (ShieldValBal_ta ta), fees + ShieldValBal_ta ta))"

definition txFromTxAddress :: "BlockChainParser \<Rightarrow> string \<Rightarrow> TxAddresses \<Rightarrow> BlockInfo \<Rightarrow> uint32 \<Rightarrow> go_error + TxA" where
  "txFromTxAddress p txid ta bi bestheight =
     rbind (rmap (taVin p) (enumerate 0 (Inputs ta))) (\<lambda>vins.
     rbind (rmap (taVout p) (enumerate 0 (Outputs ta))) (\<lambda>vouts.
     let (saplingBalance, fees) = taFees ta in
     Inr \<lparr> Txid_a = txid, Version_a = 0, Locktime_a = 0, Vin_a = vins, Vout_a = vouts, Blockhash_a = Hash_bi bi, Blockheight = Height_ta ta,
           Confirmations_a = bestheight - Height_ta ta + 1, Blocktime_a = Time_bi bi, ValueOutSat = Some (sum_list (map ValueSat_to (Outputs ta))),
           ValueInSat = Some (sum_list (map ValueSat_ti (Inputs ta))), ShieldIns_a = unat (ShieldIns ta), ShieldOuts_a = unat (ShieldOuts ta),
           ShieldValBal_a = saplingBalance, FeesSat = Some fees, Hex_a = '''', CoinSpecificData_a = NoData, CoinSpecificJSON = '''',
           TokenTransfers = [], EthereumSpecific_a = None \<rparr>))"

definition emptyBlockInfo :: BlockInfo where
  "emptyBlockInfo = \<lparr> Hash_bi = '''', Time_bi = 0, Txs_bi = 0, Size_bi = 0, Height_bi = 0 \<rparr>"

definition txFromTxid ::
    "('s, 'c) api_env \<Rightarrow> string \<Rightarrow> uint32 \<Rightarrow> AccountDetails \<Rightarrow> BlockInfo option \<Rightarrow> (('s, 'c) Worker, TxA) action" where
  "txFromTxid A txid bestheight option blockInfo w =
     (let p = chainParser_w w in
      if option = AccountDetailsTxHistoryLight \<and> GetChainType p = ChainBitcoinType then
        abind (annotated ''GetTxAddresses'' (queryDB (GetTxAddresses (pk A) txid))) (\<lambda>ta.
        case ta of
          None \<Rightarrow> annotated ''GetTransaction'' (GetTransaction_w A txid False True)
        | Some ta \<Rightarrow>
            abind (case blockInfo of
                Some bi \<Rightarrow> ret bi
              | None \<Rightarrow>
                  abind (annotated ''GetBlockInfo'' (queryDB (GetBlockInfo (pk A) (Height_ta ta)))) (\<lambda>bi.
                  ret (case bi of Some bi \<Rightarrow> bi | None \<Rightarrow> emptyBlockInfo))) (\<lambda>bi.
            query (\<lambda>_. txFromTxAddress p txid ta bi bestheight))) w
      else
        abind (annotated ''GetTransaction'' (GetTransaction_w A txid False True)) (\<lambda>tx.
        ret (case blockInfo of Some bi \<Rightarrow> tx\<lparr> Blocktime_a := Time_bi bi \<rparr> | None \<Rightarrow> tx)) w)"

section \<open>Transactions of an address\<close>

definition matchesFilter :: "AddressFilter \<Rightarrow> int32 \<Rightarrow> bool" where
  "matchesFilter f idx \<longleftrightarrow>
     Vout_f f = AddressFilterVoutInputs \<and> sint idx < 0 \<or>
     Vout_f f = AddressFilterVoutOutputs \<and> sint idx \<ge> 0 \<or>
     (if sint idx < 0 then NOT idx else idx) = of_int (Vout_f f)"

definition txidsCallback :: "AddressFilter \<Rightarrow> int \<Rightarrow> string list GetTransactionsCallback" where
  "txidsCallback f maxResults txid height ixs txids =
     (if Vout_f f = AddressFilterVoutOff \<or> (\<exists>idx \<in> set ixs. matchesFilter f idx) then
        let txids = txids @ [txid] in
        (if int (length txids) \<ge> maxResults then Some StopIteration else None, txids)
      else (None, txids))"

text \<open>The loop over the outpoints of the mempool calls the same callback and ignores what it returns.\<close>

definition mempoolTxid :: "AddressFilter \<Rightarrow> int \<Rightarrow> Outpoint \<Rightarrow> string list \<times> string list \<Rightarrow> string list \<times> string list" where
  "mempoolTxid f maxResults m = (\<lambda>(txids, uniqueTxs).
     if Txid_op m \<in> set uniqueTxs then (txids, uniqueTxs)
     else let (_, txids') = txidsCallback f maxResults (Txid_op m) 0 [Vout_op m] txids in
       (txids', if length txids' > length txids then Txid_op m # uniqueTxs else uniqueTxs))"

definition getAddressTxids ::
    "('s, 'c) api_env \<Rightarrow> AddressDescriptor \<Rightarrow> bool \<Rightarrow> AddressFilter \<Rightarrow> int \<Rightarrow> (('s, 'c) Worker, string list) action" where
  "getAddressTxids A addrDesc mempool f maxResults =
     (if mempool then
        query (\<lambda>w. Inr (fst (fold (mempoolTxid f maxResults) (GetAddrDescTransactions_m addrDesc (mempool_w w)) ([], []))))
      else
        let to = (if ToHeight f = 0 then maxUint32 else ToHeight f) in
        queryDB (GetAddrDescTransactions (pk A) addrDesc (FromHeight f) to (txidsCallback f maxResults) []))"

section \<open>Transactions of an address: properties\<close>

definition matching :: "AddressFilter \<Rightarrow> string \<times> uint32 \<times> int32 list \<Rightarrow> bool" where
  "matching f = (\<lambda>(txid, h, ixs). Vout_f f = AddressFilterVoutOff \<or> (\<exists>idx \<in> set ixs. matchesFilter f idx))"

lemma txidsCallback_matching:
  "txidsCallback f k txid h ixs acc =
     (if matching f (txid, h, ixs) then (if int (length acc) + 1 \<ge> k then Some StopIteration else None, acc @ [txid]) else (None, acc))"
  by (simp add: txidsCallback_def matching_def)

lemma feed_txidsCallback:
  "length acc < n \<Longrightarrow>
   \<exists>b. feed (txidsCallback f (int n)) ts acc = Inr (b, take n (acc @ map fst (filter (matching f) ts)))"
proof (induction ts arbitrary: acc)
  case (Cons t ts)
  obtain txid h ixs where t: "t = (txid, h, ixs)" by (cases t)
  consider "\<not> matching f t" | "matching f t" "Suc (length acc) < n" | "matching f t" "n = Suc (length acc)"
    using Cons.prems by linarith
  then show ?case
  proof cases
    case 2
    then show ?thesis using Cons.IH[of "acc @ [txid]"] by (simp add: t txidsCallback_matching)
  qed (use Cons in \<open>auto simp: t txidsCallback_matching\<close>)
qed auto

text \<open>C28: The confirmed transactions of an address are the first \<open>n\<close> of its history that pass the filter, the newest block first. The
  index must represent the address index, and the descriptor must not continue into another one.\<close>

theorem address_history_returned:
  assumes "rocks_store (rocks (pk A)) contents" and "vlq_codec (vlq (pk A))" and "txid_parser (chainParser_w w)"
    and "represents (vlq (pk A)) (contents (db (db_w w)) cfAddresses) ai"
    and "addrDesc \<noteq> []" and "prefix_free ai addrDesc" and "sorted_wrt (>) hs"
    and "set hs = {h. FromHeight f \<le> h \<and> h \<le> (if ToHeight f = 0 then maxUint32 else ToHeight f) \<and> ai addrDesc h \<noteq> None}"
    and "\<forall>h \<in> set hs. list_all (txIndexes_ok (PackedTxidLen (chainParser_w w))) (the (ai addrDesc h))" and "0 < n"
  shows "getAddressTxids A addrDesc False f (int n) w =
    (Inr (take n (map fst (filter (matching f) (history (chainParser_w w) ai addrDesc hs)))), w)"
proof -
  let ?to = "if ToHeight f = 0 then maxUint32 else ToHeight f"
  have "GetAddrDescTransactions (pk A) addrDesc (FromHeight f) ?to (txidsCallback f (int n)) [] (db_w w) =
      rbind (feed (txidsCallback f (int n)) (history (chainParser_w w) ai addrDesc hs) []) (\<lambda>(stopped, a). Inr a)"
    using assms(1-9) by (intro GetAddrDescTransactions_history)
  also obtain b where "feed (txidsCallback f (int n)) (history (chainParser_w w) ai addrDesc hs) [] =
      Inr (b, take n (map fst (filter (matching f) (history (chainParser_w w) ai addrDesc hs))))"
    using feed_txidsCallback[of "[]" n f "history (chainParser_w w) ai addrDesc hs"] assms(10) by auto
  finally show ?thesis by (simp add: getAddressTxids_def queryDB_def)
qed

definition emptyFilter :: AddressFilter where
  "emptyFilter = \<lparr> Vout_f = AddressFilterVoutOff, Contract_f = '''', FromHeight = 0, ToHeight = 0, TokensToReturn_f = TokensToReturnNonzeroBalance,
     OnlyConfirmed = False \<rparr>"

lemma fold_mempoolTxid:
  "fst (fold (mempoolTxid f k) os (txids, seen)) =
     txids @ uniqueFrom seen (map Txid_op (filter (\<lambda>m. matching f (Txid_op m, 0, [Vout_op m])) os))"
  by (induction os arbitrary: txids seen) (simp_all add: mempoolTxid_def txidsCallback_matching)

text \<open>The mempool transactions of an address are the transactions of the outpoints that pass the filter, each once, in the order of
  the first outpoint that passes; the limit on the number of results does not apply to them.\<close>

theorem mempool_txids_unique:
  "getAddressTxids A addrDesc True f maxResults w =
     (Inr (GetUniqueTxids (map Txid_op (filter (\<lambda>m. matching f (Txid_op m, 0, [Vout_op m]))
        (GetAddrDescTransactions_m addrDesc (mempool_w w))))), w)"
  by (simp add: getAddressTxids_def fold_mempoolTxid GetUniqueTxids_def)

text \<open>A back end that knows no blocks, and a worker on the sample index.\<close>

definition plainEnv :: "(string \<Rightarrow> Tx) \<Rightarrow> (mem, Block list) api_env" where
  "plainEnv um = \<lparr> pk = memPackages, bc = listChain, hx = plainHexutil, UnmarshalTx = um, GetTransactionSpecific = (\<lambda>tx. ret ''{}''),
     GetBlockInfo_c = (\<lambda>hash. throw ErrBlockNotFound), EthereumTypeGetBalance = (\<lambda>a. ret None), EthereumTypeGetNonce = (\<lambda>a. ret 0),
     GetErc20ContractInfo = (\<lambda>a. ret None), GetErc20ContractBalance = (\<lambda>a c. throw (Errorf ''not supported'')) \<rparr>"

definition sampleW :: "mem RocksDB \<Rightarrow> (mem, Block list) Worker" where
  "sampleW d = NewWorker (NewTxCache d emptyBlocks False) newMempool"

lemma sampleW_simps [simp]: "db_w (sampleW d) = d" "mempool_w (sampleW d) = newMempool"
  by (simp_all add: sampleW_def NewWorker_def NewTxCache_def)

theorem address_history_returned_witness:
  "getAddressTxids (plainEnv (\<lambda>_. zeroTx)) [1, 2] False emptyFilter 1 (sampleW sampleIndexDB) =
     (Inr [EncodeToString (replicate 32 171)], sampleW sampleIndexDB)"
proof -
  have p: "chainParser sampleIndexDB = hexParser 300" by (simp add: sampleIndexDB_def)
  have m: "matching emptyFilter t" for t by (cases t) (simp add: matching_def emptyFilter_def)
  have hs: "set [9, 7 :: uint32] = {h. FromHeight emptyFilter \<le> h \<and> h \<le> (if ToHeight emptyFilter = 0 then maxUint32 else ToHeight emptyFilter) \<and>
      sampleIndex [1, 2] h \<noteq> None}"
    by (auto simp: sampleIndex_def emptyFilter_def maxUint32_def)
  have ok: "\<forall>h \<in> set [9, 7 :: uint32]. list_all (txIndexes_ok (PackedTxidLen (chainParser sampleIndexDB))) (the (sampleIndex [1, 2] h))"
    using sampleIndexes_ok by (simp add: p sampleIndex_def)
  have "getAddressTxids (plainEnv (\<lambda>_. zeroTx)) [1, 2] False emptyFilter (int 1) (sampleW sampleIndexDB) =
      (Inr (take 1 (map fst (filter (matching emptyFilter) (history (hexParser 300) sampleIndex [1, 2] [9, 7])))), sampleW sampleIndexDB)"
    using address_history_returned[of "plainEnv (\<lambda>_. zeroTx)" mem_contents "sampleW sampleIndexDB" sampleIndex "[1, 2]" "[9, 7]" emptyFilter 1]
      hs ok sampleIndex_represents
    by (simp add: plainEnv_def p memdb.rocks_store_axioms base128.vlq_codec_axioms txid_parser_hexParser sampleIndexDB_def prefix_free_def sampleIndex_def)
  then show ?thesis
    by (simp add: m history_def entryTxs_def sampleIndex_def sampleIndexes_def txid_of_def UnpackTxid_base_def)
qed

section \<open>Fees\<close>

lemma amap_query_values:
  assumes "amap f xs w = (Inr ys, w')" and "\<And>x v y v'. x \<in> set xs \<Longrightarrow> f x v = (Inr y, v') \<Longrightarrow> g y = h x"
  shows "map g ys = map h xs"
  using assms
proof (induction xs arbitrary: w ys)
  case (Cons x xs)
  then obtain y v ys' where "f x w = (Inr y, v)" "amap f xs v = (Inr ys', w')" "ys = y # ys'"
    by (auto simp: abind_eq_Inr_iff)
  with Cons show ?case by fastforce
qed simp

lemma rmap_values:
  assumes "rmap f xs = Inr ys" and "\<And>x y. x \<in> set xs \<Longrightarrow> f x = Inr y \<Longrightarrow> g y = h x"
  shows "map g ys = map h xs"
  using assms
proof (induction xs arbitrary: ys)
  case (Cons x xs)
  then obtain y ys' where "f x = Inr y" "rmap f xs = Inr ys'" "ys = y # ys'" by (auto simp: rbind_eq_Inr_iff)
  with Cons show ?case by fastforce
qed simp

text \<open>What a shown transaction of a bitcoin type chain says about amounts.\<close>

lemma GetTransactionFromBchainTx_amounts:
  assumes "GetTransactionFromBchainTx A tx height sp js w = (Inr r, w')" and "chainType_w w = ChainBitcoinType"
  shows "ValueInSat r = Some (sumVins (Vin_a r))" and "ValueOutSat r = Some (sumVouts (Vout_tx tx))"
    and "\<exists>sh. (ShieldValBal_a r, the (FeesSat r)) = withShield sh (sumVins (Vin_a r) - sumVouts (Vout_tx tx)) \<and> FeesSat r \<noteq> None"
  using assms
  by (auto simp: GetTransactionFromBchainTx_def chainType_w_def abind_eq_Inr_iff Let_def split_beta)

lemma AsBigInt_withShield: "withShield sh fees = (sb, fees') \<Longrightarrow> AsBigInt sb = sh"
  by (auto simp: withShield_def IsZeroBigInt_def AsBigInt_def split: if_splits)

text \<open>C32: A transaction is shown from the back end or, for a light history, from the index alone. When the index has the amounts of
  the transaction, both show the same totals, and they show the same fee exactly when the transaction has no balance of the shielded pool or
  its transparent inputs cover its outputs. Otherwise the index cuts the negative difference before the balance is added and the fee is too high.\<close>

theorem light_fee_agrees_iff:
  assumes "GetTransactionFromBchainTx A tx height sp js w = (Inr r, w')" and "chainType_w w = ChainBitcoinType"
    and "txFromTxAddress p txid ta bi best = Inr r'"
    and "map ValueSat_ti (Inputs ta) = map (\<lambda>vin. AsBigInt (ValueSat_va vin)) (Vin_a r)"
    and "map ValueSat_to (Outputs ta) = map ValueSat_vout (Vout_tx tx)"
    and "ShieldValBal_ta ta = AsBigInt (ShieldValBal_a r)"
  shows "ValueInSat r' = ValueInSat r \<and> ValueOutSat r' = ValueOutSat r \<and> ShieldValBal_a r' = ShieldValBal_a r \<and>
    (FeesSat r' = FeesSat r \<longleftrightarrow> ShieldValBal_ta ta = 0 \<or> AsBigInt (ValueInSat r) \<ge> AsBigInt (ValueOutSat r))"
proof -
  note r = GetTransactionFromBchainTx_amounts[OF assms(1,2)]
  obtain sh where sh: "(ShieldValBal_a r, the (FeesSat r)) = withShield sh (sumVins (Vin_a r) - sumVouts (Vout_tx tx))" "FeesSat r \<noteq> None"
    using r(3) by blast
  then have s: "ShieldValBal_ta ta = sh" using assms(6) AsBigInt_withShield by metis
  obtain sb fee where f: "taFees ta = (sb, fee)" by (cases "taFees ta")
  from assms(3) have r': "ValueInSat r' = Some (sumVins (Vin_a r))" "ValueOutSat r' = Some (sumVouts (Vout_tx tx))"
      "ShieldValBal_a r' = sb" "FeesSat r' = Some fee"
    using assms(4,5) by (auto simp: txFromTxAddress_def f rbind_eq_Inr_iff sumVins_def sumVouts_def)
  obtain fr where fr: "FeesSat r = Some fr" using sh(2) by auto
  have io: "sum_list (map ValueSat_ti (Inputs ta)) = sumVins (Vin_a r)" "sum_list (map ValueSat_to (Outputs ta)) = sumVouts (Vout_tx tx)"
    using assms(4,5) by (simp_all add: sumVins_def sumVouts_def)
  show ?thesis using sh(1) f unfolding taFees_def io s Let_def withShield_def IsZeroBigInt_def r' r(1,2) fr
    by (auto simp: AsBigInt_def split: if_splits)
qed

text \<open>A transaction that takes 100 from the shielded pool and pays 99: its fee is 1, the light history says 100.\<close>

definition unshieldTx :: Tx where
  "unshieldTx = zeroTx\<lparr> Txid_tx := ''0a1b'', Vout_tx := [\<lparr> ValueSat_vout = 99, JsonValue = '''', N_vout = 0,
     ScriptPubKey_vout = \<lparr> Hex_spk = ''76a9'', Addresses_spk = [] \<rparr> \<rparr>] \<rparr>"

definition unshieldTa :: TxAddresses where
  "unshieldTa = \<lparr> Height_ta = 5, Inputs = [], Outputs = [\<lparr> AddrDesc_to = [118, 169], Spent = False, ValueSat_to = 99 \<rparr>], ShieldIns = 1,
     ShieldOuts = 0, ShieldValBal_ta = 100 \<rparr>"

definition apiDB :: "mem RocksDB" where
  "apiDB = sampleDB\<lparr> chainParser := (hexParser 300)\<lparr> GetAddressesFromAddrDesc := (\<lambda>d. Inr ([EncodeToString d], True)) \<rparr> \<rparr>"

theorem light_fee_agrees_iff_witness:
  "\<exists>r w' r'. GetTransactionFromBchainTx (plainEnv (\<lambda>_. zeroTx\<lparr> ShieldValBal_tx := 100 \<rparr>)) unshieldTx 0 False True (sampleW apiDB) = (Inr r, w') \<and>
     txFromTxAddress (chainParser apiDB) ''0a1b'' unshieldTa emptyBlockInfo 5 = Inr r' \<and> FeesSat r = Some 1 \<and> FeesSat r' \<noteq> FeesSat r"
proof -
  let ?A = "plainEnv (\<lambda>_. zeroTx\<lparr> ShieldValBal_tx := 100 \<rparr>)"
  have "case fst (GetTransactionFromBchainTx ?A unshieldTx 0 False True (sampleW apiDB)) of Inl e \<Rightarrow> False | Inr r \<Rightarrow>
      FeesSat r = Some 1 \<and> Vin_a r = [] \<and> ValueInSat r = Some 0 \<and> ValueOutSat r = Some 99 \<and> ShieldValBal_a r = Some 100"
    by code_simp
  then obtain r w' where r: "GetTransactionFromBchainTx ?A unshieldTx 0 False True (sampleW apiDB) = (Inr r, w')"
      "FeesSat r = Some 1" "Vin_a r = []" "ValueInSat r = Some 0" "ValueOutSat r = Some 99" "ShieldValBal_a r = Some 100"
    by (cases "GetTransactionFromBchainTx ?A unshieldTx 0 False True (sampleW apiDB)") (auto split: sum.splits)
  obtain r' where r': "txFromTxAddress (chainParser apiDB) ''0a1b'' unshieldTa emptyBlockInfo 5 = Inr r'"
    by (simp add: txFromTxAddress_def unshieldTa_def taVout_def TxOutput_Addresses_def apiDB_def logged_def split_beta)
  have "chainType_w (sampleW apiDB) = ChainBitcoinType" by (simp add: chainType_w_def apiDB_def sampleDB_def)
  from light_fee_agrees_iff[OF r(1) this r'] r show ?thesis
    using r' by (auto simp: unshieldTa_def unshieldTx_def AsBigInt_def)
qed

section \<open>The spending transaction\<close>

lemma readTxs_map:
  assumes "\<And>t h ixs a. fn t h ixs (g a) = map_prod id g (fn t h ixs a)"
  shows "readTxs v p fn h val (g a) = map_sum id (map_prod id g) (readTxs v p fn h val a)"
  using assms
proof (induction v p fn h val a rule: readTxs.induct)
  case (1 v p fn h val a)
  have IH: "readTxs v p fn h r (g a') = map_sum id (map_prod id g) (readTxs v p fn h r a')"
    if "\<not> length val \<le> PackedTxidLen p" "UnpackTxid p (take (PackedTxidLen p) val) = Inr tx"
      "readIndexes v (drop (PackedTxidLen p) val) = Inr (ixs, r)" "fn tx h ixs a = (None, a')" "\<not> length val \<le> length r" for tx ixs r a'
    by (rule "1.IH"[OF refl that(1,2,3) refl that(4)[symmetric] refl that(5)]) (rule "1.prems")
  show ?case
    by (subst readTxs.simps, subst (2) readTxs.simps)
      (auto simp: Let_def "1.prems" rbind_def IH split: sum.splits prod.splits option.splits)
qed

lemma GetAddrDescTransactions_map:
  assumes "\<And>t h ixs a. fn t h ixs (g a) = map_prod id g (fn t h ixs a)"
  shows "GetAddrDescTransactions E ad lo hi fn (g a) d = map_sum id g (GetAddrDescTransactions E ad lo hi fn a d)"
proof -
  have "iterateAddresses v p fn stopKey it (g a) = map_sum id g (iterateAddresses v p fn stopKey it a)" for v p stopKey it a
  proof (induction it arbitrary: a)
    case (Cons kx it)
    then show ?case by (cases kx) (auto simp: readTxs_map[of fn g, OF assms] rbind_def split: sum.splits prod.splits)
  qed simp
  then show ?thesis by (simp add: GetAddrDescTransactions_def Let_def)
qed

definition atOutput :: "nat \<Rightarrow> VoutA \<Rightarrow> VoutA" where
  "atOutput m vout = vout\<lparr> N_oa := m \<rparr>"

lemma spendingIndex_atOutput:
  "spendingIndex A txid (atOutput m vout) t idx w = map_prod (map_sum id (map_option (atOutput m))) id (spendingIndex A txid vout t idx w)"
  by (auto simp: spendingIndex_def atOutput_def abind_def queryDB_def Let_def split: sum.splits prod.splits option.splits)

lemma spendingIndexes_atOutput:
  "spendingIndexes A txid (atOutput m vout) t ixs w = map_prod (map_sum id (map_option (atOutput m))) id (spendingIndexes A txid vout t ixs w)"
  by (induction ixs arbitrary: w) (auto simp: spendingIndex_atOutput abind_def split: sum.splits prod.splits option.splits)

text \<open>The search for the transaction that spent an output does not use the number of the output: it compares the id of the transaction,
  the address and the value. Two outputs of one transaction with the same address and the same value are reported as spent by the same
  input, the first one that is found.\<close>

theorem spending_ignores_output_number:
  "setSpendingTxToVout A (vout\<lparr> N_oa := m \<rparr>) txid height w =
     map_prod (map_sum id (\<lambda>v. v\<lparr> N_oa := m \<rparr>)) id (setSpendingTxToVout A vout txid height w)"
proof -
  let ?g = "\<lambda>(w :: ('a, 'b) Worker, vout, err :: go_error option). (w, atOutput m vout, err)"
  have "spendingCallback A txid t h ixs (?g a) = map_prod id ?g (spendingCallback A txid t h ixs a)" for t h ixs a
    by (auto simp: spendingCallback_def spendingIndexes_atOutput split: sum.splits prod.splits option.splits)
  from GetAddrDescTransactions_map[of "spendingCallback A txid" ?g "pk A" "AddrDesc_oa vout" height maxUint32 "(w, vout, None)" "db_w w", OF this]
  show ?thesis unfolding atOutput_def
    by (auto simp: setSpendingTxToVout_def split: sum.splits prod.splits option.splits)
qed

end
