(* ===== verification/Api_Address.thy ===== *)
theory Api_Address
  imports Api_Tx
begin

text \<open>
  Answers of the API worker about addresses, blocks and the mempool (\<open>api/worker.go\<close>): \<open>GetAddress\<close>, \<open>GetAddressUtxo\<close>,
  \<open>GetBlocks\<close>, \<open>GetBlock\<close> and \<open>GetMempool\<close>. \<open>waitForBackendSync\<close> only sleeps and is left out, as is the timing of the requests.
\<close>

section \<open>Loops\<close>

fun afold :: "('a \<Rightarrow> 's \<Rightarrow> ('w, 's) action) \<Rightarrow> 'a list \<Rightarrow> 's \<Rightarrow> ('w, 's) action" where
  "afold f [] s = ret s"
| "afold f (x # xs) s = abind (f x s) (afold f xs)"

section \<open>Balances of an ethereum type address\<close>

definition newAddrBalance_api :: AddrBalance where
  "newAddrBalance_api = \<lparr> Txs_ab = 0, SentSat = 0, BalanceSat = 0, Utxos = [], utxosMap = [] \<rparr>"

text \<open>A contract that is not an ERC20 contract is shown by its address and its balance is not read.\<close>

definition contractToken ::
    "('s, 'c) api_env \<Rightarrow> BlockChainParser \<Rightarrow> AddressDescriptor \<Rightarrow> AccountDetails \<Rightarrow> nat \<times> AddrContract \<Rightarrow> (('s, 'c) Worker, Token) action" where
  "contractToken A p addrDesc details = (\<lambda>(i, c).
     abind (annotated ''EthereumTypeGetErc20ContractInfo'' (callChain (GetErc20ContractInfo A (Contract_ac c)))) (\<lambda>ci.
     abind (case ci of
         Some ci \<Rightarrow> ret (ci, True)
       | None \<Rightarrow>
           abind (query (\<lambda>_. logged ([], False) (GetAddressesFromAddrDesc p (Contract_ac c)))) (\<lambda>(addresses, _).
           let name = (case addresses of [] \<Rightarrow> '''' | a # _ \<Rightarrow> a) in
           ret (\<lparr> Contract_ec = name, Name_ec = name, Symbol_ec = '''', Decimals_ec = 0 \<rparr>, False))) (\<lambda>(ci, validContract).
     abind (if details \<ge> AccountDetailsTokenBalances \<and> validContract
            then abind (attempt (callChain (GetErc20ContractBalance A addrDesc (Contract_ac c)))) (\<lambda>r.
                 ret (case r of Inr b \<Rightarrow> Some b | Inl _ \<Rightarrow> None))
            else ret None) (\<lambda>b.
     ret \<lparr> Type_tk = ERC20TokenType, Name_tk = Name_ec ci, Path_tk = '''', Contract_tk = Contract_ec ci, Transfers = sint (Txs_ac c),
           Symbol_tk = Symbol_ec ci, Decimals_tk = int (Decimals_ec ci), BalanceSat_tk = b, TotalReceivedSat_tk = None, TotalSentSat_tk = None,
           ContractIndex = BigInt_String (int i + 1) \<rparr>))))"

text \<open>The filter is shared with the caller: a contract filter also selects the transactions of that contract.\<close>

definition filterContracts :: "AddressDescriptor \<Rightarrow> AddrContract list \<Rightarrow> (nat \<times> AddrContract) list" where
  "filterContracts filterDesc cs = filter (\<lambda>(i, c). filterDesc = [] \<or> filterDesc = Contract_ac c) (enumerate 0 cs)"

definition setFilter :: "AddressDescriptor \<Rightarrow> (nat \<times> AddrContract) list \<Rightarrow> AddressFilter \<Rightarrow> AddressFilter" where
  "setFilter filterDesc ics f = (if filterDesc = [] \<or> ics = [] then f else f\<lparr> Vout_f := int (fst (last ics)) + 1 \<rparr>)"

definition totalResultsOf :: "AddrContracts \<Rightarrow> AddressFilter \<Rightarrow> int" where
  "totalResultsOf ca f =
     (if FromHeight f = 0 \<and> ToHeight f = 0 then
        if Vout_f f = AddressFilterVoutOff then sint (TotalTxs ca)
        else if Vout_f f = 0 then sint (NonContractTxs ca)
        else if Vout_f f > 0 \<and> Vout_f f - 1 < int (length (Contracts ca)) then sint (Txs_ac (Contracts ca ! nat (Vout_f f - 1)))
        else - 1
      else - 1)"

record ethBalances =
  ba_eb :: "AddrBalance option"
  tokens_eb :: "Token list"
  ci_eb :: "Erc20Contract option"
  nonce_eb :: uint64
  nonContractTxs_eb :: int
  totalResults_eb :: int
  filter_eb :: AddressFilter

definition getEthereumTypeAddressBalances ::
    "('s, 'c) api_env \<Rightarrow> AddressDescriptor \<Rightarrow> AccountDetails \<Rightarrow> AddressFilter \<Rightarrow> (('s, 'c) Worker, ethBalances) action" where
  "getEthereumTypeAddressBalances A addrDesc details f w =
     (let p = chainParser_w w in
      abind (apiError ''Address not found'' (queryDB (GetAddrDescContracts (pk A) addrDesc))) (\<lambda>ca.
      abind (annotated ''EthereumTypeGetBalance'' (callChain (EthereumTypeGetBalance A addrDesc))) (\<lambda>b.
      case ca of
        None \<Rightarrow>
          ret \<lparr> ba_eb = map_option (\<lambda>b. newAddrBalance_api\<lparr> BalanceSat := b \<rparr>) b, tokens_eb = [], ci_eb = None, nonce_eb = 0,
                nonContractTxs_eb = 0, totalResults_eb = - 1, filter_eb = f \<rparr>
      | Some ca \<Rightarrow>
          abind (annotated ''EthereumTypeGetNonce'' (callChain (EthereumTypeGetNonce A addrDesc))) (\<lambda>n.
          abind (if Contract_f f \<noteq> '''' then apiError ''Invalid contract filter'' (query (\<lambda>_. GetAddrDescFromAddress p (Contract_f f)))
                 else ret []) (\<lambda>filterDesc.
          let ics = (if details > AccountDetailsBasic then filterContracts filterDesc (Contracts ca) else []);
              f = setFilter filterDesc ics f in
          abind (amap (contractToken A p addrDesc details) ics) (\<lambda>tokens.
          abind (callChain (GetErc20ContractInfo A addrDesc)) (\<lambda>ci.
          ret \<lparr> ba_eb = Some (newAddrBalance_api\<lparr> Txs_ab := ucast (TotalTxs ca), BalanceSat := AsBigInt b \<rparr>), tokens_eb = tokens, ci_eb = ci,
                nonce_eb = n, nonContractTxs_eb = sint (NonContractTxs ca), totalResults_eb = totalResultsOf ca f, filter_eb = f \<rparr>)))))) w)"

section \<open>GetAddress\<close>

record Address =
  Paging_ad :: Paging
  AddrStr :: string
  BalanceSat_ad :: int
  TotalReceivedSat_ad :: "int option"
  TotalSentSat_ad :: "int option"
  UnconfirmedBalanceSat :: int
  UnconfirmedTxs :: int
  Txs_ad :: int
  NonTokenTxs :: int
  Transactions_ad :: "TxA list"
  Txids_ad :: "string list"
  Nonce_ad :: string
  Tokens_ad :: "Token list"
  Erc20Contract_ad :: "Erc20Contract option"

definition getAddrDescAndNormalizeAddress :: "BlockChainParser \<Rightarrow> string \<Rightarrow> go_error + (AddressDescriptor \<times> string)" where
  "getAddrDescAndNormalizeAddress p address =
     (case GetAddrDescFromAddress p address of
        Inl e \<Rightarrow> Inl (if is_panic e then e else APIError ''Invalid address'' True)
      | Inr addrDesc \<Rightarrow>
          rbind (logged ([], False) (GetAddressesFromAddrDesc p addrDesc)) (\<lambda>(addresses, _).
          Inr (addrDesc, case addresses of [a] \<Rightarrow> a | _ \<Rightarrow> address)))"

record unconfirmed =
  unconfirmedTxs_u :: int
  uBalSat :: int
  txids_u :: "string list"
  txs_u :: "TxA list"

text \<open>One transaction of the mempool: one that cannot be read, or that is confirmed already, is skipped.\<close>

definition addUnconfirmed ::
    "('s, 'c) api_env \<Rightarrow> AddressDescriptor \<Rightarrow> int \<Rightarrow> AccountDetails \<Rightarrow> string \<Rightarrow> unconfirmed \<Rightarrow> (('s, 'c) Worker, unconfirmed) action" where
  "addUnconfirmed A addrDesc page option txid u =
     abind (attempt (GetTransaction_w A txid False True)) (\<lambda>r.
     case r of
       Inl _ \<Rightarrow> ret u
     | Inr tx \<Rightarrow>
         if Confirmations_a tx = 0 then
           let u = u\<lparr> unconfirmedTxs_u := unconfirmedTxs_u u + 1,
                     uBalSat := uBalSat u + getAddrVoutValue addrDesc tx - getAddrVinValue addrDesc tx \<rparr> in
           ret (if page = 0 then
                  if option = AccountDetailsTxidHistory then u\<lparr> txids_u := txids_u u @ [Txid_a tx] \<rparr>
                  else if option \<ge> AccountDetailsTxHistoryLight then u\<lparr> txs_u := txs_u u @ [tx] \<rparr>
                  else u
                else u)
         else ret u)"

definition zeroPaging :: Paging where
  "zeroPaging = \<lparr> Page = 0, TotalPages = 0, ItemsOnPage = 0 \<rparr>"

text \<open>The confirmed history: the txids or the transactions of the requested page.\<close>

definition addressHistory ::
    "('s, 'c) api_env \<Rightarrow> AddressDescriptor \<Rightarrow> int \<Rightarrow> int \<Rightarrow> AccountDetails \<Rightarrow> AddressFilter \<Rightarrow> int \<Rightarrow>
     (('s, 'c) Worker, Paging \<times> string list \<times> TxA list) action" where
  "addressHistory A addrDesc page txsOnPage option f totalResults =
     (if option \<ge> AccountDetailsTxidHistory then
        abind (annotated ''getAddressTxids'' (getAddressTxids A addrDesc False f (wrap64 ((page + 1) * txsOnPage)))) (\<lambda>txc.
        abind (annotated ''GetBestBlock'' (queryDB (GetBestBlock (pk A)))) (\<lambda>(bestheight, _).
        abind (query (\<lambda>_. computePaging (int (length txc)) page txsOnPage)) (\<lambda>(pg, from, to, page).
        abind (if int (length txc) \<ge> txsOnPage then
                 if totalResults < 0 then ret (pg\<lparr> TotalPages := - 1 \<rparr>)
                 else query (\<lambda>_. rbind (computePaging totalResults page txsOnPage) (\<lambda>(pg, _). Inr pg))
               else ret pg) (\<lambda>pg.
        abind (query (\<lambda>_. pageOf txc from to)) (\<lambda>shown.
        if option = AccountDetailsTxidHistory then ret (pg, shown, [])
        else abind (amap (\<lambda>txid. txFromTxid A txid bestheight option None) shown) (\<lambda>txs. ret (pg, [], txs)))))))
      else ret (zeroPaging, [], []))"

definition GetAddress ::
    "('s, 'c) api_env \<Rightarrow> string \<Rightarrow> int \<Rightarrow> int \<Rightarrow> AccountDetails \<Rightarrow> AddressFilter \<Rightarrow> (('s, 'c) Worker, Address) action" where
  "GetAddress A address page txsOnPage option f w =
     (let p = chainParser_w w in
      abind (query (\<lambda>_. getAddrDescAndNormalizeAddress p address)) (\<lambda>(addrDesc, address).
      abind (if GetChainType p = ChainEthereumType then getEthereumTypeAddressBalances A addrDesc option f
             else
               abind (apiError ''Address not found'' (queryDB (GetAddrDescBalance (pk A) addrDesc AddressBalanceDetailNoUTXO))) (\<lambda>ba.
               ret \<lparr> ba_eb = ba, tokens_eb = [], ci_eb = None, nonce_eb = 0, nonContractTxs_eb = 0,
                 totalResults_eb = (case ba of None \<Rightarrow> 0 | Some ba \<Rightarrow>
                    if Vout_f f = AddressFilterVoutOff \<and> FromHeight f = 0 \<and> ToHeight f = 0 then uint (Txs_ab ba) else - 1),
                 filter_eb = f \<rparr>)) (\<lambda>eb.
      let f = filter_eb eb;
          page = (if ba_eb eb = None then 0 else pageIndex page);
          ba = (case ba_eb eb of Some ba \<Rightarrow> ba | None \<Rightarrow> newAddrBalance_api) in
      abind (if ToHeight f = 0 \<and> \<not> OnlyConfirmed f then
               abind (annotated ''getAddressTxids'' (getAddressTxids A addrDesc True f maxInt)) (\<lambda>txm.
               afold (addUnconfirmed A addrDesc page option) txm \<lparr> unconfirmedTxs_u = 0, uBalSat = 0, txids_u = [], txs_u = [] \<rparr>)
             else ret \<lparr> unconfirmedTxs_u = 0, uBalSat = 0, txids_u = [], txs_u = [] \<rparr>) (\<lambda>u.
      abind (addressHistory A addrDesc page txsOnPage option f (totalResults_eb eb)) (\<lambda>(pg, txids, txs).
      ret \<lparr> Paging_ad = pg, AddrStr = address, BalanceSat_ad = BalanceSat ba,
            TotalReceivedSat_ad = (if GetChainType p = ChainBitcoinType then Some (ReceivedSat ba) else None),
            TotalSentSat_ad = (if GetChainType p = ChainBitcoinType then Some (SentSat ba) else None),
            UnconfirmedBalanceSat = uBalSat u, UnconfirmedTxs = unconfirmedTxs_u u, Txs_ad = uint (Txs_ab ba),
            NonTokenTxs = nonContractTxs_eb eb, Transactions_ad = txs_u u @ txs, Txids_ad = txids_u u @ txids,
            Nonce_ad = (if GetChainType p = ChainEthereumType then BigInt_String (sint (nonce_eb eb)) else ''''),
            Tokens_ad = tokens_eb eb, Erc20Contract_ad = ci_eb eb \<rparr>)))) w)"

section \<open>Unspent outputs\<close>

definition spentKey :: "string \<Rightarrow> int \<Rightarrow> string" where
  "spentKey txid vout = txid @ BigInt_String vout"

definition spentBy :: "Tx \<Rightarrow> string list" where
  "spentBy tx = map (\<lambda>vin. spentKey (Txid_vin vin) (uint (Vout_vin vin))) (Vin_tx tx)"

text \<open>A mempool transaction that cannot be read is skipped.\<close>

definition mempoolTx :: "('s, 'c) api_env \<Rightarrow> string \<Rightarrow> (('s, 'c) Worker, Tx option) action" where
  "mempoolTx A txid =
     abind (attempt (cachedTx A txid)) (\<lambda>r. ret (case r of Inr (tx, _) \<Rightarrow> Some tx | Inl _ \<Rightarrow> None))"

definition mempoolUtxo :: "BlockChainParser \<Rightarrow> AddressDescriptor \<Rightarrow> string list \<Rightarrow> Tx \<Rightarrow> nat \<times> Vout \<Rightarrow> go_error + UtxoA list" where
  "mempoolUtxo p addrDesc spentInMempool tx = (\<lambda>(i, vout).
     case GetAddrDescFromVout p vout of
       Inl e \<Rightarrow> if is_panic e then Inl e else Inr []
     | Inr vad \<Rightarrow>
         Inr (if addrDesc = vad \<and> spentKey (Txid_tx tx) (int i) \<notin> set spentInMempool
           then [\<lparr> Txid_ua = Txid_tx tx, Vout_ua = of_nat i, AmountSat = Some (ValueSat_vout vout), Height_ua = 0, Confirmations_ua = 0,
                   Address_ua = '''', Path_ua = '''', Locktime_ua = LockTime tx \<rparr>]
           else []))"

definition mempoolUtxos ::
    "('s, 'c) api_env \<Rightarrow> BlockChainParser \<Rightarrow> AddressDescriptor \<Rightarrow> (('s, 'c) Worker, UtxoA list \<times> string list) action" where
  "mempoolUtxos A p addrDesc =
     abind (getAddressTxids A addrDesc True emptyFilter maxInt) (\<lambda>txm.
     abind (amap (mempoolTx A) txm) (\<lambda>mc.
     let txs = List.map_filter id mc;
         spentInMempool = concat (map spentBy txs) in
     abind (query (\<lambda>_. rmap (\<lambda>tx. rmap (mempoolUtxo p addrDesc spentInMempool tx) (enumerate 0 (Vout_tx tx))) txs)) (\<lambda>us.
     ret (concat (concat us), spentInMempool))))"

definition confirmedUtxo :: "BlockChainParser \<Rightarrow> string list \<Rightarrow> uint32 \<Rightarrow> Utxo \<Rightarrow> go_error + UtxoA list" where
  "confirmedUtxo p spentInMempool best u =
     rbind (UnpackTxid p (BtxID u)) (\<lambda>txid.
     Inr (if spentKey txid (sint (Vout_u u)) \<notin> set spentInMempool
       then [\<lparr> Txid_ua = txid, Vout_ua = Vout_u u, AmountSat = Some (ValueSat_u u), Height_ua = uint (Height_u u),
               Confirmations_ua = uint best - uint (Height_u u) + 1, Address_ua = '''', Path_ua = '''', Locktime_ua = 0 \<rparr>]
       else []))"

text \<open>From the newest to the oldest.\<close>

definition confirmedUtxos ::
    "('s, 'c) api_env \<Rightarrow> BlockChainParser \<Rightarrow> AddressDescriptor \<Rightarrow> AddrBalance option \<Rightarrow> string list \<Rightarrow> (('s, 'c) Worker, UtxoA list) action" where
  "confirmedUtxos A p addrDesc ba spentInMempool =
     abind (case ba of
         None \<Rightarrow> apiError ''Address not found'' (queryDB (GetAddrDescBalance (pk A) addrDesc AddressBalanceDetailUTXO))
       | Some ba \<Rightarrow> ret (Some ba)) (\<lambda>ba.
     case ba of
       None \<Rightarrow> ret []
     | Some ba \<Rightarrow>
         if Utxos ba = [] then ret []
         else
           abind (queryDB (GetBestBlock (pk A))) (\<lambda>(best, _).
           query (\<lambda>_. rbind (rmap (confirmedUtxo p spentInMempool best) (rev (Utxos ba))) (\<lambda>us. Inr (concat us)))))"

definition getAddrDescUtxo ::
    "('s, 'c) api_env \<Rightarrow> AddressDescriptor \<Rightarrow> AddrBalance option \<Rightarrow> bool \<Rightarrow> bool \<Rightarrow> (('s, 'c) Worker, UtxoA list) action" where
  "getAddrDescUtxo A addrDesc ba onlyConfirmed onlyMempool w =
     (let p = chainParser_w w in
      abind (if onlyConfirmed then ret ([], []) else mempoolUtxos A p addrDesc) (\<lambda>(r, spentInMempool).
      abind (if onlyMempool then ret [] else confirmedUtxos A p addrDesc ba spentInMempool) (\<lambda>r'.
      ret (r @ r'))) w)"

definition GetAddressUtxo :: "('s, 'c) api_env \<Rightarrow> string \<Rightarrow> bool \<Rightarrow> (('s, 'c) Worker, UtxoA list) action" where
  "GetAddressUtxo A address onlyConfirmed w =
     (let p = chainParser_w w in
      if GetChainType p \<noteq> ChainBitcoinType then throw (APIError ''Not supported'' True) w
      else
        abind (apiError ''Invalid address'' (query (\<lambda>_. GetAddrDescFromAddress p address))) (\<lambda>addrDesc.
        getAddrDescUtxo A addrDesc None onlyConfirmed False) w)"

section \<open>Blocks\<close>

record Blocks =
  Paging_bs :: Paging
  Blocks_bs :: "BlockInfo list"

text \<open>
  The loop over the positions of a page fills a slice of the length of the page. When a block is missing the slice is cut
  at the position \<open>i\<close>, which is counted from the best block and not from the start of the page.
\<close>

fun fillBlocks ::
    "('s, 'c) api_env \<Rightarrow> uint32 \<Rightarrow> int \<Rightarrow> int list \<Rightarrow> BlockInfo list \<Rightarrow> (('s, 'c) Worker, BlockInfo list) action" where
  "fillBlocks A best from [] blocks = ret blocks"
| "fillBlocks A best from (i # is) blocks =
     abind (queryDB (GetBlockInfo (pk A) (of_int (uint best - i)))) (\<lambda>bi.
     case bi of
       None \<Rightarrow>
         if 0 \<le> i \<and> i \<le> int (length blocks) then ret (take (nat i) blocks) else throw (Panic ''slice bounds out of range'')
     | Some bi \<Rightarrow>
         if nat (i - from) < length blocks then fillBlocks A best from is (blocks[nat (i - from) := bi])
         else throw (Panic ''index out of range''))"

definition GetBlocks :: "('s, 'c) api_env \<Rightarrow> int \<Rightarrow> int \<Rightarrow> (('s, 'c) Worker, Blocks) action" where
  "GetBlocks A page blocksOnPage =
     abind (annotated ''GetBestBlock'' (queryDB (GetBestBlock (pk A)))) (\<lambda>(best, _).
     abind (query (\<lambda>_. computePaging (uint best + 1) (pageIndex page) blocksOnPage)) (\<lambda>(pg, from, to, page).
     abind (query (\<lambda>_. makeLen (wrap64 (to - from)))) (\<lambda>n.
     abind (fillBlocks A best from [from..to - 1] (replicate n emptyBlockInfo)) (\<lambda>blocks.
     ret \<lparr> Paging_bs = pg, Blocks_bs = blocks \<rparr>))))"

record BlockA =
  Paging_ba :: Paging
  Hash_ba :: string
  Prev_ba :: string
  Next_ba :: string
  Height_ba :: uint32
  Confirmations_ba :: int
  Size_ba :: int
  Time_ba :: int64
  Version_ba :: string
  MerkleRoot_ba :: string
  Nonce_ba :: string
  Bits_ba :: string
  Difficulty_ba :: string
  Txids_ba :: "string list"
  SaplingRoot_ba :: string
  TxCount :: int
  Transactions_ba :: "TxA list"

text \<open>\<open>strconv.Atoi\<close>: a decimal number that fits into 64 bits.\<close>

definition Atoi :: "string \<Rightarrow> int option" where
  "Atoi s = (case SetString s of Some n \<Rightarrow> if - (2 ^ 63) \<le> n \<and> n < 2 ^ 63 then Some n else None | None \<Rightarrow> None)"

text \<open>A number below the greatest \<open>uint32\<close> is a height, anything else a hash.\<close>

definition blockHashOf :: "('s, 'c) api_env \<Rightarrow> string \<Rightarrow> (('s, 'c) Worker, string) action" where
  "blockHashOf A bid =
     (case Atoi bid of
        Some height \<Rightarrow>
          if height < uint maxUint32 then
            abind (attempt (queryDB (GetBlockHash (pk A) (of_int height)))) (\<lambda>r. ret (case r of Inr hash \<Rightarrow> hash | Inl _ \<Rightarrow> bid))
          else ret bid
      | None \<Rightarrow> ret bid)"

definition neighbourHash :: "('s, 'c) api_env \<Rightarrow> string \<Rightarrow> bool \<Rightarrow> uint32 \<Rightarrow> (('s, 'c) Worker, string) action" where
  "neighbourHash A hash present height =
     (if hash = '''' \<and> present
      then query (\<lambda>w. logged '''' (GetBlockHash (pk A) height (db_w w)))
      else ret hash)"

definition GetBlock_w :: "('s, 'c) api_env \<Rightarrow> string \<Rightarrow> int \<Rightarrow> int \<Rightarrow> (('s, 'c) Worker, BlockA) action" where
  "GetBlock_w A bid page txsOnPage =
     abind (blockHashOf A bid) (\<lambda>hash.
     if hash = '''' then throw (APIError ''Block not found'' True)
     else
       abind (apiError ''Block not found'' (callChain (GetBlockInfo_c A hash))) (\<lambda>bi.
       let dbi = emptyBlockInfo\<lparr> Hash_bi := Hash_bh bi, Height_bi := Height_bh bi, Time_bi := Time_bh bi \<rparr>;
           txCount = int (length (Txids_ri bi)) in
       abind (annotated ''GetBestBlock'' (queryDB (GetBestBlock (pk A)))) (\<lambda>(bestheight, _).
       abind (query (\<lambda>_. computePaging txCount (pageIndex page) txsOnPage)) (\<lambda>(pg, from, to, page).
       abind (query (\<lambda>_. makeLen (wrap64 (to - from)))) (\<lambda>_.
       abind (query (\<lambda>_. pageOf (Txids_ri bi) from to)) (\<lambda>txids.
       abind (amap (\<lambda>txid. txFromTxid A txid bestheight AccountDetailsTxHistory (Some dbi)) txids) (\<lambda>txs.
       abind (neighbourHash A (Prev_bh bi) (Height_bh bi \<noteq> 0) (Height_bh bi - 1)) (\<lambda>prev.
       abind (neighbourHash A (Next_bh bi) (Height_bh bi \<noteq> bestheight) (Height_bh bi + 1)) (\<lambda>nxt.
       ret \<lparr> Paging_ba = pg, Hash_ba = Hash_bh bi, Prev_ba = prev, Next_ba = nxt, Height_ba = Height_bh bi, Confirmations_ba = Confirmations_bh bi,
             Size_ba = Size_bh bi, Time_ba = Time_bh bi, Version_ba = Version_ri bi, MerkleRoot_ba = MerkleRoot_ri bi, Nonce_ba = Nonce_ri bi,
             Bits_ba = Bits_ri bi, Difficulty_ba = Difficulty_ri bi, Txids_ba = [], SaplingRoot_ba = SaplingRoot_ri bi, TxCount = txCount,
             Transactions_ba = txs \<rparr>)))))))))"

section \<open>The mempool\<close>

definition GetMempool :: "int \<Rightarrow> int \<Rightarrow> (('s, 'c) Worker, MempoolTxids) action" where
  "GetMempool page itemsOnPage = query (\<lambda>w.
     let entries = GetAllEntries (mempool_w w) in
     rbind (computePaging (int (length entries)) (pageIndex page) itemsOnPage) (\<lambda>(pg, from, to, _).
     rbind (makeLen (wrap64 (to - from))) (\<lambda>_.
     rbind (pageOf entries from to) (\<lambda>shown.
     Inr \<lparr> Paging_mt = pg, Mempool_mt = map (\<lambda>e. \<lparr> Time_mt = ucast (Time_me e), Txid_mt = Txid_me e \<rparr>) shown,
           MempoolSize = length entries \<rparr>))))"

section \<open>Properties of unspent outputs\<close>

lemma rmap_Inr_all: "(\<And>x. x \<in> set xs \<Longrightarrow> f x = Inr (g x)) \<Longrightarrow> rmap f xs = Inr (map g xs)"
  by (induction xs) auto

definition utxoData :: "UtxoA \<Rightarrow> string \<times> int32 \<times> int \<times> int" where
  "utxoData u = (Txid_ua u, Vout_ua u, AsBigInt (AmountSat u), Height_ua u)"

lemma confirmedUtxo_all:
  assumes "txid_parser p"
  shows "\<exists>us. rbind (rmap (confirmedUtxo p [] best) xs) (\<lambda>us. Inr (concat us)) = Inr us \<and>
    map utxoData us = map (\<lambda>u. (txid_of p (BtxID u), Vout_u u, ValueSat_u u, uint (Height_u u))) xs"
proof -
  let ?g = "\<lambda>u. [\<lparr> Txid_ua = txid_of p (BtxID u), Vout_ua = Vout_u u, AmountSat = Some (ValueSat_u u), Height_ua = uint (Height_u u),
    Confirmations_ua = uint best - uint (Height_u u) + 1, Address_ua = '''', Path_ua = '''', Locktime_ua = 0 \<rparr>]"
  have "rmap (confirmedUtxo p [] best) xs = Inr (map ?g xs)"
    by (rule rmap_Inr_all) (simp add: confirmedUtxo_def UnpackTxid_txid_of[OF assms])
  moreover have "map utxoData (concat (map ?g xs)) = map (\<lambda>u. (txid_of p (BtxID u), Vout_u u, ValueSat_u u, uint (Height_u u))) xs"
    by (induction xs) (simp_all add: utxoData_def AsBigInt_def)
  ultimately show ?thesis by simp
qed


definition utxoBalance :: AddrBalance where
  "utxoBalance = \<lparr> Txs_ab = 2, SentSat = 70000, BalanceSat = 500,
     Utxos = [\<lparr> BtxID = replicate 32 1, Vout_u = -1, Height_u = 7, ValueSat_u = 70000 \<rparr>,
              \<lparr> BtxID = replicate 32 2, Vout_u = 5, Height_u = 9, ValueSat_u = 300 \<rparr>,
              \<lparr> BtxID = replicate 32 3, Vout_u = 0, Height_u = 11, ValueSat_u = 200 \<rparr>], utxosMap = [] \<rparr>"

definition utxoDB :: "mem RocksDB" where
  "utxoDB = apiDB\<lparr> db := (\<lambda>c. if c = cfAddressBalance then [([1, 2], packAddrBalance base128 utxoBalance)] else []),
     chainParser := (chainParser apiDB)\<lparr> GetAddrDescFromAddress := (\<lambda>a. Inr [1, 2]) \<rparr> \<rparr>"

lemma utxoDB_simps [simp]:
  "GetChainType (chainParser utxoDB) = ChainBitcoinType" "PackedTxidLen (chainParser utxoDB) = 32"
  "UnpackTxid (chainParser utxoDB) = UnpackTxid_base" "GetAddrDescFromAddress (chainParser utxoDB) a = Inr [1, 2]"
  by (simp_all add: utxoDB_def apiDB_def)

lemma utxoDB_parser: "txid_parser (chainParser utxoDB)"
  using txid_parser_hexParser[of 300] by (simp add: txid_parser_def utxoDB_def apiDB_def)


lemma spentBy_iff: "vin \<in> set (Vin_tx tx) \<Longrightarrow> spentKey (Txid_vin vin) (uint (Vout_vin vin)) \<in> set (spentBy tx)"
  by (auto simp: spentBy_def)

lemma rmap_member: "rmap f xs = Inr ys \<Longrightarrow> y \<in> set ys \<Longrightarrow> \<exists>x \<in> set xs. f x = Inr y"
  by (induction xs arbitrary: ys) (auto simp: rbind_eq_Inr_iff)

text \<open>What is reported is not spent according to the keys of the mempool transactions.\<close>

lemma mempoolUtxos_unspent:
  assumes "mempoolUtxos A p ad w = (Inr (us, spent), w')"
    and "getAddressTxids A ad True emptyFilter maxInt w = (Inr txm, w)" and "amap (mempoolTx A) txm w = (Inr mc, v)"
  shows "set spent = (\<Union>tx \<in> {tx. Some tx \<in> set mc}. set (spentBy tx))"
    and "u \<in> set us \<Longrightarrow> \<exists>tx i. Some tx \<in> set mc \<and> i < length (Vout_tx tx) \<and> Vout_ua u = of_nat i \<and> spentKey (Txid_ua u) (int i) \<notin> set spent"
proof -
  let ?txs = "List.map_filter id mc"
  have m: "set ?txs = {tx. Some tx \<in> set mc}" by (force simp: map_filter_def)
  obtain uss where uss: "rmap (\<lambda>tx. rmap (mempoolUtxo p ad spent tx) (enumerate 0 (Vout_tx tx))) ?txs = Inr uss"
      "us = concat (concat uss)" and s: "spent = concat (map spentBy ?txs)"
    using assms by (auto simp: mempoolUtxos_def abind_eq_Inr_iff Let_def)
  show "set spent = (\<Union>tx \<in> {tx. Some tx \<in> set mc}. set (spentBy tx))" unfolding s using m by auto
  assume "u \<in> set us"
  then obtain uss1 us1 where "uss1 \<in> set uss" "us1 \<in> set uss1" "u \<in> set us1" using uss(2) by auto
  then obtain tx ivo where "tx \<in> set ?txs" "ivo \<in> set (enumerate 0 (Vout_tx tx))" "mempoolUtxo p ad spent tx ivo = Inr us1"
    using rmap_member[OF uss(1)] rmap_member by metis
  moreover from this obtain i where "i < length (Vout_tx tx)" "ivo = (i, Vout_tx tx ! i)" by (auto simp: in_set_enumerate_eq)
  moreover from calculation \<open>u \<in> set us1\<close> have "Vout_ua u = of_nat i \<and> spentKey (Txid_ua u) (int i) \<notin> set spent"
    by (auto simp: mempoolUtxo_def split: sum.splits if_splits)
  ultimately show "\<exists>tx i. Some tx \<in> set mc \<and> i < length (Vout_tx tx) \<and> Vout_ua u = of_nat i \<and> spentKey (Txid_ua u) (int i) \<notin> set spent"
    using m by blast
qed

lemma sint_of_nat_int32: "i < n \<Longrightarrow> n < 2 ^ 31 \<Longrightarrow> sint (of_nat i :: int32) = int i"
  by (simp add: sint_uint uint_nat unat_of_nat signed_take_bit_int_eq_self)

lemma confirmedUtxos_unspent:
  assumes "confirmedUtxos A p ad ba spent w = (Inr us, w')" and "u \<in> set us"
  shows "spentKey (Txid_ua u) (sint (Vout_ua u)) \<notin> set spent"
proof -
  obtain best xs uss where "rmap (confirmedUtxo p spent best) xs = Inr uss" "us = concat uss"
    using assms
    by (auto simp: confirmedUtxos_def abind_eq_Inr_iff rbind_eq_Inr_iff split: option.splits if_splits)
  then obtain x us1 where "confirmedUtxo p spent best x = Inr us1" "u \<in> set us1" using assms(2) rmap_member by force
  then show ?thesis by (auto simp: confirmedUtxo_def rbind_eq_Inr_iff split: if_splits)
qed

text \<open>An output that a mempool transaction of the address spends is not reported as unspent, whether it is confirmed or created by
  another mempool transaction.\<close>

theorem utxos_not_spent_in_mempool:
  assumes "GetAddressUtxo A address False w = (Inr us, w')" and "GetAddrDescFromAddress (chainParser_w w) address = Inr ad"
    and "getAddressTxids A ad True emptyFilter maxInt w = (Inr txm, w)" and "amap (mempoolTx A) txm w = (Inr mc, v)"
    and "u \<in> set us" and "Some tx \<in> set mc" and "vin \<in> set (Vin_tx tx)"
    and "\<forall>tx. Some tx \<in> set mc \<longrightarrow> length (Vout_tx tx) < 2 ^ 31"
  shows "\<not> (Txid_vin vin = Txid_ua u \<and> uint (Vout_vin vin) = sint (Vout_ua u))"
proof -
  let ?p = "chainParser_w w"
  from assms(1,2) obtain us1 spent w1 us2 where m: "mempoolUtxos A ?p ad w = (Inr (us1, spent), w1)"
      and c: "confirmedUtxos A ?p ad None spent w1 = (Inr us2, w')" and us: "us = us1 @ us2"
    by (auto simp: GetAddressUtxo_def getAddrDescUtxo_def Let_def abind_eq_Inr_iff apiError_def split: if_splits)
  note mm = mempoolUtxos_unspent[OF m assms(3,4)]
  have k: "spentKey (Txid_vin vin) (uint (Vout_vin vin)) \<in> set spent"
    using mm(1) assms(6) spentBy_iff[OF assms(7)] by auto
  have "spentKey (Txid_ua u) (sint (Vout_ua u)) \<notin> set spent"
  proof (cases "u \<in> set us1")
    case True
    then obtain tx' i where "Some tx' \<in> set mc" "i < length (Vout_tx tx')" "Vout_ua u = of_nat i" "spentKey (Txid_ua u) (int i) \<notin> set spent"
      using mm(2) by blast
    then show ?thesis using assms(8) by (simp add: sint_of_nat_int32)
  next
    case False
    then show ?thesis using confirmedUtxos_unspent[OF c] assms(5) us by auto
  qed
  then show ?thesis using k by auto
qed

end
