(* ===== verification/Btc_Parser.thy ===== *)
theory Btc_Parser
  imports Base_Parser Packing
begin

text \<open>
  The parser of bitcoin type coins (\<open>bchain/coins/btc/bitcoinparser.go\<close>): descriptors are output scripts, stored
  transactions are the raw bytes with the height and the block time in front, and descriptors are derived from
  extended public keys.

  The packages \<open>btcutil\<close>, \<open>txscript\<close>, \<open>wire\<close> and \<open>hdkeychain\<close> are not part of the repository; the functions the
  parser calls are the record \<open>bitcoin_packages\<close>, over a type of addresses and a type of extended keys. The network
  parameters that the code passes to them are fixed for a parser and belong to the functions. \<open>wire.MsgTx\<close> has the
  fields the parser reads. A parser is a record of its configuration and of the function that gives the addresses of a script, which
  coins replace.

  The theorems: a stored transaction is read back; the two ways to derive descriptors agree; what is
  shown for an \<open>OP_RETURN\<close> script, without panics.
\<close>

section \<open>Packages\<close>

datatype ScriptClass = PubKeyHashTy | WitnessV0PubKeyHashTy | ScriptHashTy | WitnessV0ScriptHashTy | OtherTy

record TxIn =
  PreviousHash :: string
  PreviousIndex :: uint32
  SignatureScript :: bytes
  Sequence_in :: uint32

record TxOut =
  Value_out :: int64
  PkScript :: bytes

record MsgTx =
  Version_mt :: int32
  TxIn_mt :: "TxIn list"
  TxOut_mt :: "TxOut list"
  LockTime_mt :: uint32

record MsgBlock =
  Timestamp :: int64
  Transactions :: "MsgTx list"

record ('a, 'k) bitcoin_packages =
  DecodeAddress :: "string \<Rightarrow> go_error + 'a"
  EncodeAddress :: "'a \<Rightarrow> string"
  PayToAddrScript :: "'a \<Rightarrow> go_error + bytes"
  ExtractPkScriptAddrs :: "bytes \<Rightarrow> go_error + (ScriptClass \<times> 'a list)"
  ConvertP2PKtoP2PKH :: "bytes \<Rightarrow> go_error + bytes"
  IsCoinBaseTx :: "MsgTx \<Rightarrow> bool"
  TxHash :: "MsgTx \<Rightarrow> string"
  DeserializeTx :: "bytes \<Rightarrow> go_error + MsgTx"
  DeserializeBlock :: "bytes \<Rightarrow> go_error + MsgBlock"
  Hash160 :: "bytes \<Rightarrow> bytes"
  NewAddressScriptHashFromHash :: "bytes \<Rightarrow> go_error + 'a"
  NewAddressWitnessPubKeyHash :: "bytes \<Rightarrow> go_error + 'a"
  NewKeyFromString :: "string \<Rightarrow> go_error + 'k"
  Child :: "'k \<Rightarrow> uint32 \<Rightarrow> go_error + 'k"
  KeyVersion :: "'k \<Rightarrow> uint32"
  PubKeyBytes :: "'k \<Rightarrow> bytes"
  KeyAddress :: "'k \<Rightarrow> go_error + 'a"
  ChildNum :: "'k \<Rightarrow> uint32"
  Depth :: "'k \<Rightarrow> uint32"

definition OP_RETURN :: byte where "OP_RETURN = 0x6a"
definition OP_PUSHDATA1 :: byte where "OP_PUSHDATA1 = 0x4c"

section \<open>The parser\<close>

type_synonym OutputScriptToAddressesFunc = "bytes \<Rightarrow> go_error + (string list \<times> bool)"

record BitcoinParser = BaseParser +
  XPubMagic :: uint32
  XPubMagicSegwitP2sh :: uint32
  XPubMagicSegwitNative :: uint32
  Slip44 :: uint32

record Configuration =
  BlockAddressesToKeep_c :: int
  XPubMagic_c :: uint32
  XPubMagicSegwitP2sh_c :: uint32
  XPubMagicSegwitNative_c :: uint32
  Slip44_c :: uint32

definition NewBitcoinParser :: "Configuration \<Rightarrow> BitcoinParser" where
  "NewBitcoinParser c = \<lparr> BlockAddressesToKeep = BlockAddressesToKeep_c c, AmountDecimalPoint = 8,
     XPubMagic = XPubMagic_c c, XPubMagicSegwitP2sh = XPubMagicSegwitP2sh_c c,
     XPubMagicSegwitNative = XPubMagicSegwitNative_c c, Slip44 = Slip44_c c \<rparr>"

definition GetAddrDescFromVout_btc :: "('a, 'k) bitcoin_packages \<Rightarrow> Vout \<Rightarrow> go_error + AddressDescriptor" where
  "GetAddrDescFromVout_btc B output =
     rbind (DecodeString (Hex_spk (ScriptPubKey_vout output))) (ConvertP2PKtoP2PKH B)"

definition addressToOutputScript :: "('a, 'k) bitcoin_packages \<Rightarrow> string \<Rightarrow> go_error + bytes" where
  "addressToOutputScript B address = rbind (DecodeAddress B address) (PayToAddrScript B)"

definition GetAddrDescFromAddress_btc :: "('a, 'k) bitcoin_packages \<Rightarrow> string \<Rightarrow> go_error + AddressDescriptor" where
  "GetAddrDescFromAddress_btc B address = addressToOutputScript B address"

definition GetScriptFromAddrDesc_btc :: "AddressDescriptor \<Rightarrow> go_error + bytes" where
  "GetScriptFromAddrDesc_btc addrDesc = Inr addrDesc"

definition IsAddrDescIndexable_btc :: "AddressDescriptor \<Rightarrow> bool" where
  "IsAddrDescIndexable_btc addrDesc = (\<not> (length addrDesc = 0 \<or> addrDesc ! 0 = OP_RETURN))"

section \<open>Scripts that carry data\<close>

definition omniCurrencyMap :: "(uint32, string) gomap" where
  "omniCurrencyMap = [(1, ''Omni''), (2, ''Test Omni''), (31, ''TetherUS'')]"

definition omniHeader :: bytes where
  "omniHeader = map (\<lambda>c. of_nat (of_char c)) ''omni'' @ [0, 0, 0, 0]"

text \<open>\<open>string(data)\<close>.\<close>

definition string_of :: "bytes \<Rightarrow> string" where
  "string_of data = map (\<lambda>c. char_of (unat c)) data"

definition tryParseOmni :: "int \<Rightarrow> bytes \<Rightarrow> go_error + string" where
  "tryParseOmni amountDecimalPoint data =
     (if length data \<noteq> 20 \<or> data ! 0 \<noteq> of_nat (of_char (CHR ''o'')) then Inr ''''
      else if take 8 data \<noteq> omniHeader then Inr ''''
      else
        rbind (unpackUint (take 4 (drop 8 data))) (\<lambda>currencyID.
        case map_of omniCurrencyMap currencyID of
          None \<Rightarrow> Inr ''''
        | Some currency \<Rightarrow>
            rbind (AmountToDecimalString (Some (BigInt_SetBytes (drop 12 data))) amountDecimalPoint) (\<lambda>amountStr.
            Inr (''OMNI Simple Send: '' @ amountStr @ '' '' @ currency @ '' (#'' @ BigInt_String (uint currencyID) @ '')''))))"

text \<open>The two readings of the data of the script: after \<open>OP_PUSHDATA1\<close> and directly.\<close>

definition opReturnData :: "bytes \<Rightarrow> nat \<times> bytes" where
  "opReturnData script =
     (if script ! 1 = OP_PUSHDATA1 \<and> length script > 2 \<and> unat (script ! 2) = length (drop 3 script)
      then (unat (script ! 2), drop 3 script)
      else (unat (script ! 1), drop 2 script))"

definition isASCII :: "bytes \<Rightarrow> bool" where
  "isASCII data = list_all (\<lambda>c. \<not> (c < 32 \<or> c > 127)) data"

definition TryParseOPReturn :: "int \<Rightarrow> bytes \<Rightarrow> go_error + string" where
  "TryParseOPReturn amountDecimalPoint script =
     (if length script > 1 \<and> script ! 0 = OP_RETURN then
        let (l, data) = opReturnData script in
        if l = length data then
          rbind (tryParseOmni amountDecimalPoint data) (\<lambda>ed.
          if ed \<noteq> '''' then Inr ed
          else Inr (''OP_RETURN '' @ (if isASCII data then ''('' @ string_of data @ '')'' else EncodeToString data)))
        else Inr ''''
      else Inr '''')"

definition outputScriptToAddresses_btc :: "('a, 'k) bitcoin_packages \<Rightarrow> int \<Rightarrow> OutputScriptToAddressesFunc" where
  "outputScriptToAddresses_btc B amountDecimalPoint script =
     rbind (ExtractPkScriptAddrs B script) (\<lambda>(sc, addresses).
     let rv = map (EncodeAddress B) addresses in
     if sc = PubKeyHashTy \<or> sc = WitnessV0PubKeyHashTy \<or> sc = ScriptHashTy \<or> sc = WitnessV0ScriptHashTy then Inr (rv, True)
     else if length rv = 0 then
       rbind (TryParseOPReturn amountDecimalPoint script) (\<lambda>or. Inr (if or \<noteq> '''' then [or] else rv, False))
     else Inr (rv, False))"

section \<open>Transactions and blocks\<close>

definition emptyVin :: Vin where
  "emptyVin = \<lparr> Coinbase = '''', Txid_vin = '''', Vout_vin = 0, ScriptSig_vin = \<lparr> Hex_ss = '''' \<rparr>, Sequence = 0, Addresses_vin = [] \<rparr>"

definition coinbaseVin :: "TxIn \<Rightarrow> Vin" where
  "coinbaseVin i = emptyVin\<lparr> Coinbase := EncodeToString (SignatureScript i), Sequence := Sequence_in i \<rparr>"

definition normalVin :: "TxIn \<Rightarrow> Vin" where
  "normalVin i = emptyVin\<lparr> Txid_vin := PreviousHash i, Vout_vin := PreviousIndex i, Sequence := Sequence_in i,
     ScriptSig_vin := \<lparr> Hex_ss = EncodeToString (SignatureScript i) \<rparr> \<rparr>"

text \<open>The loop stops at an input it takes for a coinbase; the inputs after it stay zero.\<close>

fun convertVins :: "(TxIn \<Rightarrow> bool) \<Rightarrow> TxIn list \<Rightarrow> Vin list" where
  "convertVins cb [] = []"
| "convertVins cb (i # is) = (if cb i then coinbaseVin i # replicate (length is) emptyVin else normalVin i # convertVins cb is)"

text \<open>Addresses that cannot be found are ignored with their error; a panic is not.\<close>

definition voutAddresses :: "OutputScriptToAddressesFunc \<Rightarrow> bool \<Rightarrow> bytes \<Rightarrow> go_error + string list" where
  "voutAddresses f parseAddresses script =
     (if parseAddresses then
        (case f script of Inl e \<Rightarrow> if is_panic e then Inl e else Inr [] | Inr (addrs, _) \<Rightarrow> Inr addrs)
      else Inr [])"

definition convertVout :: "OutputScriptToAddressesFunc \<Rightarrow> bool \<Rightarrow> nat \<times> TxOut \<Rightarrow> go_error + Vout" where
  "convertVout f parseAddresses = (\<lambda>(i, out).
     rbind (voutAddresses f parseAddresses (PkScript out)) (\<lambda>addrs.
     Inr \<lparr> ValueSat_vout = sint (Value_out out), JsonValue = '''', N_vout = of_nat i,
           ScriptPubKey_vout = \<lparr> Hex_spk = EncodeToString (PkScript out), Addresses_spk = addrs \<rparr> \<rparr>))"

definition txOf :: "string \<Rightarrow> MsgTx \<Rightarrow> Vin list \<Rightarrow> Vout list \<Rightarrow> Tx" where
  "txOf txid t vin vout = \<lparr> Hex_tx = '''', Txid_tx = txid, Version_tx = Version_mt t, LockTime = LockTime_mt t,
     Vin_tx = vin, Vout_tx = vout, Confirmations_tx = 0, Time_tx = 0, Blocktime = 0,
     VShieldIn_tx = [], VShieldOut_tx = [], ShieldValBal_tx = 0, CoinSpecificData = NoData \<rparr>"

definition TxFromMsgTx ::
    "('a, 'k) bitcoin_packages \<Rightarrow> OutputScriptToAddressesFunc \<Rightarrow> MsgTx \<Rightarrow> bool \<Rightarrow> go_error + Tx" where
  "TxFromMsgTx B f t parseAddresses =
     rbind (rmap (convertVout f parseAddresses) (enumerate 0 (TxOut_mt t))) (\<lambda>vout.
     Inr (txOf (TxHash B t) t (convertVins (\<lambda>_. IsCoinBaseTx B t) (TxIn_mt t)) vout))"

definition ParseTx_btc :: "('a, 'k) bitcoin_packages \<Rightarrow> OutputScriptToAddressesFunc \<Rightarrow> bytes \<Rightarrow> go_error + Tx" where
  "ParseTx_btc B f b =
     rbind (DeserializeTx B b) (\<lambda>t.
     rbind (TxFromMsgTx B f t True) (\<lambda>tx. Inr (tx\<lparr> Hex_tx := EncodeToString b \<rparr>)))"

definition ParseBlock_btc :: "('a, 'k) bitcoin_packages \<Rightarrow> OutputScriptToAddressesFunc \<Rightarrow> bytes \<Rightarrow> go_error + Block" where
  "ParseBlock_btc B f b =
     rbind (DeserializeBlock B b) (\<lambda>w.
     rbind (rmap (\<lambda>t. TxFromMsgTx B f t False) (Transactions w)) (\<lambda>txs.
     Inr \<lparr> Hash_bh = '''', Prev_bh = '''', Next_bh = '''', Height_bh = 0, Confirmations_bh = 0,
           Size_bh = int (length b), Time_bh = Timestamp w, Txs_blk = txs \<rparr>))"

text \<open>On an error of \<open>hex.Decode\<close> the caller ignores the bytes that are returned with it.\<close>

definition PackTx_btc :: "vlq \<Rightarrow> Tx \<Rightarrow> uint32 \<Rightarrow> int64 \<Rightarrow> go_error + bytes" where
  "PackTx_btc v tx height blockTime =
     rbind (DecodeString (Hex_tx tx)) (\<lambda>h. Inr (packUint height @ PutInt v blockTime @ h))"

definition UnpackTx_btc ::
    "vlq \<Rightarrow> (bytes \<Rightarrow> go_error + Tx) \<Rightarrow> bytes \<Rightarrow> go_error + (Tx \<times> uint32)" where
  "UnpackTx_btc v parseTx buf =
     rbind (unpackUint buf) (\<lambda>height.
     let (bt, l) = IntAt v (drop 4 buf) in
     rbind (slice_from buf (4 + l)) (\<lambda>raw.
     rbind (parseTx raw) (\<lambda>tx. Inr (tx\<lparr> Blocktime := bt \<rparr>, height))))"

section \<open>Extended keys\<close>

definition addrDescFromExtKey :: "('a, 'k) bitcoin_packages \<Rightarrow> BitcoinParser \<Rightarrow> 'k \<Rightarrow> go_error + AddressDescriptor" where
  "addrDescFromExtKey B p extKey =
     rbind
       (if KeyVersion B extKey = XPubMagicSegwitP2sh p then
          let pubKeyHash = Hash160 B (PubKeyBytes B extKey);
              redeemScript = [0, of_nat (length pubKeyHash)] @ pubKeyHash in
          NewAddressScriptHashFromHash B (Hash160 B redeemScript)
        else if KeyVersion B extKey = XPubMagicSegwitNative p then
          NewAddressWitnessPubKeyHash B (Hash160 B (PubKeyBytes B extKey))
        else KeyAddress B extKey) (PayToAddrScript B)"

definition deriveIndex :: "('a, 'k) bitcoin_packages \<Rightarrow> BitcoinParser \<Rightarrow> 'k \<Rightarrow> uint32 \<Rightarrow> go_error + AddressDescriptor" where
  "deriveIndex B p changeExtKey i = rbind (Child B changeExtKey i) (addrDescFromExtKey B p)"

definition DeriveAddressDescriptors_btc ::
    "('a, 'k) bitcoin_packages \<Rightarrow> BitcoinParser \<Rightarrow> string \<Rightarrow> uint32 \<Rightarrow> uint32 list \<Rightarrow> go_error + AddressDescriptor list" where
  "DeriveAddressDescriptors_btc B p xpub change indexes =
     rbind (NewKeyFromString B xpub) (\<lambda>extKey.
     rbind (Child B extKey change) (\<lambda>changeExtKey.
     rmap (deriveIndex B p changeExtKey) indexes))"

lemma unat_Suc_less: "i < j \<Longrightarrow> unat (i + 1 :: uint32) = Suc (unat i)"
proof -
  assume "i < j"
  then have "unat i + 1 < 2 ^ 32" using unsigned_less[of j, where 'a = nat] by (simp add: word_less_nat_alt)
  then show ?thesis by (simp add: unat_word_ariths)
qed

text \<open>The loop \<open>for index := fromIndex; index < toIndex; index++\<close>; it writes into the slice at \<open>index - fromIndex\<close>.\<close>

function deriveFrom ::
    "('a, 'k) bitcoin_packages \<Rightarrow> BitcoinParser \<Rightarrow> 'k \<Rightarrow> uint32 \<Rightarrow> uint32 \<Rightarrow> go_error + AddressDescriptor list" where
  "deriveFrom B p changeExtKey i toIndex =
     (if i < toIndex then
        rbind (deriveIndex B p changeExtKey i) (\<lambda>ad.
        rbind (deriveFrom B p changeExtKey (i + 1) toIndex) (\<lambda>ads. Inr (ad # ads)))
      else Inr [])"
  by pat_completeness auto

termination
  by (relation "measure (\<lambda>(B, p, k, i, toIndex). unat toIndex - unat i)")
    (auto simp: unat_Suc_less word_less_nat_alt)

definition DeriveAddressDescriptorsFromTo_btc ::
    "('a, 'k) bitcoin_packages \<Rightarrow> BitcoinParser \<Rightarrow> string \<Rightarrow> uint32 \<Rightarrow> uint32 \<Rightarrow> uint32 \<Rightarrow> go_error + AddressDescriptor list" where
  "DeriveAddressDescriptorsFromTo_btc B p xpub change fromIndex toIndex =
     (if toIndex \<le> fromIndex then Inl (Errorf ''toIndex<=fromIndex'')
      else
        rbind (NewKeyFromString B xpub) (\<lambda>extKey.
        rbind (Child B extKey change) (\<lambda>changeExtKey.
        deriveFrom B p changeExtKey fromIndex toIndex)))"

definition DerivationBasePath_btc :: "('a, 'k) bitcoin_packages \<Rightarrow> BitcoinParser \<Rightarrow> string \<Rightarrow> go_error + string" where
  "DerivationBasePath_btc B p xpub =
     rbind (NewKeyFromString B xpub) (\<lambda>extKey.
     let cn = ChildNum B extKey;
         c = (if cn \<ge> 0x80000000 then BigInt_String (uint (cn - 0x80000000)) @ [CHR 0x27] else BigInt_String (uint cn)) in
     if Depth B extKey \<noteq> 3 then Inr (''unknown/'' @ c)
     else
       let bip = (if KeyVersion B extKey = XPubMagicSegwitP2sh p then ''49''
                  else if KeyVersion B extKey = XPubMagicSegwitNative p then ''84'' else ''44'') in
       Inr (''m/'' @ bip @ [CHR 0x27] @ ''/'' @ BigInt_String (uint (Slip44 p)) @ [CHR 0x27] @ ''/'' @ c))"

section \<open>The methods of the parser\<close>

text \<open>A coin that embeds the bitcoin parser and replaces the function of addresses has the other methods from here.\<close>

definition bitcoinMethods ::
    "('a, 'k) bitcoin_packages \<Rightarrow> vlq \<Rightarrow> parser_packages \<Rightarrow> BitcoinParser \<Rightarrow> OutputScriptToAddressesFunc \<Rightarrow> BlockChainParser" where
  "bitcoinMethods B v P p f =
     (embedBaseParser P (BaseParser.truncate p) (GetAddrDescFromVout_btc B) (GetAddrDescFromAddress_btc B) f GetScriptFromAddrDesc_btc)
     \<lparr> IsAddrDescIndexable := IsAddrDescIndexable_btc, ParseTx := ParseTx_btc B f, ParseBlock := ParseBlock_btc B f,
       PackTx := PackTx_btc v, UnpackTx := UnpackTx_btc v (ParseTx_btc B f),
       DerivationBasePath := DerivationBasePath_btc B p, DeriveAddressDescriptors := DeriveAddressDescriptors_btc B p,
       DeriveAddressDescriptorsFromTo := DeriveAddressDescriptorsFromTo_btc B p \<rparr>"

definition bitcoinParser ::
    "('a, 'k) bitcoin_packages \<Rightarrow> vlq \<Rightarrow> parser_packages \<Rightarrow> Configuration \<Rightarrow> BlockChainParser" where
  "bitcoinParser B v P c =
     (let p = NewBitcoinParser c in bitcoinMethods B v P p (outputScriptToAddresses_btc B (AmountDecimalPoint p)))"

interpretation btc: txid_parser "bitcoinMethods B v P p f" for B v P p f
  by unfold_locales
    (auto simp: bitcoinMethods_def embedBaseParser_def PackedTxidLen_base_def UnpackTxid_base_def PackTxid_base_def
       UnpackBlockHash_base_def PackBlockHash_base_def)

section \<open>Properties\<close>

declare deriveFrom.simps [simp del]

text \<open>A transaction stored by the bitcoin parser is read back. The stored bytes hold the height, the block time and the raw
  transaction; reading them gives the height and the transaction that parsing the raw bytes gives, with the block time, and
  its raw form is the one that was stored.\<close>

theorem btc_tx_roundtrip:
  assumes "vlq_codec v" and "PackTx_btc v tx height blockTime = Inr buf" and "canonical_hex (Hex_tx tx)"
    and "\<And>raw. DecodeString (Hex_tx tx) = Inr raw \<Longrightarrow> ParseTx_btc B f raw = Inr tx'"
  shows "UnpackTx_btc v (ParseTx_btc B f) buf = Inr (tx'\<lparr> Blocktime := blockTime \<rparr>, height) \<and> Hex_tx tx' = Hex_tx tx"
proof -
  obtain raw where raw: "DecodeString (Hex_tx tx) = Inr raw" "EncodeToString raw = Hex_tx tx"
    and buf: "buf = packUint height @ PutInt v blockTime @ raw"
    using assms(2,3) by (auto simp: PackTx_btc_def rbind_eq_Inr_iff elim: canonical_hexE)
  have p: "ParseTx_btc B f raw = Inr tx'" using assms(4) raw(1) by blast
  have "IntAt v (PutInt v blockTime @ raw) = (blockTime, length (PutInt v blockTime))"
    using vlq_codec.IntAt_PutInt[OF assms(1)] by blast
  moreover have "slice_from buf (4 + length (PutInt v blockTime)) = Inr raw"
    using slice_from_append[of "packUint height @ PutInt v blockTime" raw] by (simp add: buf)
  ultimately have "UnpackTx_btc v (ParseTx_btc B f) buf = Inr (tx'\<lparr> Blocktime := blockTime \<rparr>, height)"
    by (simp add: UnpackTx_btc_def buf unpackUint_packUint_append p)
  moreover have "Hex_tx tx' = Hex_tx tx" using p raw(2) by (auto simp: ParseTx_btc_def rbind_eq_Inr_iff)
  ultimately show ?thesis by blast
qed

lemma rmap_deriveFrom:
  "rmap (deriveIndex B p k) (map of_nat [unat i..<unat j]) = deriveFrom B p k i j"
proof (induction B p k i j rule: deriveFrom.induct)
  case (1 B p k i j)
  show ?case
  proof (cases "i < j")
    case True
    then have "[unat i..<unat j] = unat i # [unat (i + 1)..<unat j]"
      by (simp add: unat_Suc_less upt_conv_Cons word_less_nat_alt)
    with True 1 show ?thesis by (subst deriveFrom.simps) (simp cong: rbind_cong)
  next
    case False
    then show ?thesis by (subst deriveFrom.simps) (simp add: word_less_nat_alt)
  qed
qed

text \<open>Deriving the descriptors of a range of indexes is deriving them for the list of these indexes: the same
  descriptors in the same order, or the same error. An empty range is refused.\<close>

theorem derive_range_eq_list:
  "DeriveAddressDescriptorsFromTo_btc B p xpub change fromIndex toIndex =
     (if fromIndex < toIndex
      then DeriveAddressDescriptors_btc B p xpub change (map of_nat [unat fromIndex..<unat toIndex])
      else Inl (Errorf ''toIndex<=fromIndex''))"
  by (simp add: DeriveAddressDescriptorsFromTo_btc_def DeriveAddressDescriptors_btc_def rmap_deriveFrom flip: not_less)

text \<open>The two forms of a data script that wallets write.\<close>

definition opReturnScript :: "bytes \<Rightarrow> bytes" where
  "opReturnScript data = (if length data < 76 then [OP_RETURN, of_nat (length data)] @ data
     else [OP_RETURN, OP_PUSHDATA1, of_nat (length data)] @ data)"

lemma AmountToDecimalString_returns: "0 \<le> d \<Longrightarrow> \<exists>s. AmountToDecimalString (Some a) d = Inr s"
  using AmountToDecimalString_padded[of d a] by (auto simp: Let_def)

lemma tryParseOmni_returns: "0 \<le> d \<Longrightarrow> \<exists>s. tryParseOmni d data = Inr s"
proof -
  assume d: "0 \<le> d"
  obtain s where s: "AmountToDecimalString (Some (BigInt_SetBytes (drop 12 data))) d = Inr s"
    using AmountToDecimalString_returns[OF d] by blast
  show ?thesis
  proof (cases "length data = 20")
    case True
    then have "\<exists>i. unpackUint (take 4 (drop 8 data)) = Inr i" by (simp add: unpackUint_def)
    with s show ?thesis by (auto simp: tryParseOmni_def split: option.splits)
  qed (simp add: tryParseOmni_def)
qed

text \<open>What is shown for a data script. Looking at any script returns without a panic. For a script that
  carries up to 255 bytes in one of the two usual forms and that is not a token transfer of the Omni layer, the text is the
  data itself when it is printable and its hexadecimal form otherwise; a script that does not start with
  \<open>OP_RETURN\<close> has no text.\<close>

theorem op_return_shown:
  assumes "0 \<le> d"
  shows "(\<exists>s. TryParseOPReturn d script = Inr s) \<and> (script = [] \<or> hd script \<noteq> OP_RETURN \<longrightarrow> TryParseOPReturn d script = Inr '''') \<and>
    (length data < 256 \<and> tryParseOmni d data = Inr '''' \<longrightarrow>
       TryParseOPReturn d (opReturnScript data) =
         Inr (''OP_RETURN '' @ (if isASCII data then ''('' @ string_of data @ '')'' else EncodeToString data)))"
proof (intro conjI impI)
  show "\<exists>s. TryParseOPReturn d script = Inr s"
    using tryParseOmni_returns[OF assms, of "snd (opReturnData script)"]
    by (auto simp: TryParseOPReturn_def split: prod.splits)
  show "TryParseOPReturn d script = Inr ''''" if "script = [] \<or> hd script \<noteq> OP_RETURN"
    using that by (cases script) (auto simp: TryParseOPReturn_def)
  assume a: "length data < 256 \<and> tryParseOmni d data = Inr ''''"
  have l: "unat (of_nat (length data) :: byte) = length data" using a by (simp add: unat_of_nat)
  have "opReturnData (opReturnScript data) = (length data, data)"
  proof (cases "length data < 76")
    case True
    then have "(of_nat (length data) :: byte) \<noteq> OP_PUSHDATA1" using l by (auto simp: OP_PUSHDATA1_def)
    then show ?thesis using True l by (simp add: opReturnScript_def opReturnData_def)
  next
    case False
    then show ?thesis using l by (simp add: opReturnScript_def opReturnData_def)
  qed
  then show "TryParseOPReturn d (opReturnScript data) =
      Inr (''OP_RETURN '' @ (if isASCII data then ''('' @ string_of data @ '')'' else EncodeToString data))"
    using a by (simp add: TryParseOPReturn_def opReturnScript_def)
qed

theorem op_return_shown_witness: "TryParseOPReturn 8 (opReturnScript [104, 105]) = Inr ''OP_RETURN (hi)''"
proof -
  have "tryParseOmni 8 [104, 105] = Inr ''''" by (simp add: tryParseOmni_def)
  moreover have "string_of [104, 105] = ''hi''" by code_simp
  ultimately show ?thesis using op_return_shown[of 8 "[]" "[104, 105]"] by (simp add: isASCII_def)
qed

text \<open>Packages that know only transactions without inputs and outputs, for the witness.\<close>

definition tinyPackages :: "(string, unit) bitcoin_packages" where
  "tinyPackages = \<lparr> DecodeAddress = Inr, EncodeAddress = id, PayToAddrScript = (\<lambda>_. Inr []), ExtractPkScriptAddrs = (\<lambda>_. Inr (OtherTy, [])),
     ConvertP2PKtoP2PKH = Inr, IsCoinBaseTx = (\<lambda>_. False), TxHash = (\<lambda>_. ''ab''),
     DeserializeTx = (\<lambda>b. Inr \<lparr> Version_mt = 1, TxIn_mt = [], TxOut_mt = [], LockTime_mt = 0 \<rparr>),
     DeserializeBlock = (\<lambda>_. Inl (Errorf ''no block'')), Hash160 = id, NewAddressScriptHashFromHash = (\<lambda>_. Inr ''''),
     NewAddressWitnessPubKeyHash = (\<lambda>_. Inr ''''), NewKeyFromString = (\<lambda>_. Inr ()), Child = (\<lambda>_ _. Inr ()), KeyVersion = (\<lambda>_. 0),
     PubKeyBytes = (\<lambda>_. []), KeyAddress = (\<lambda>_. Inr ''''), ChildNum = (\<lambda>_. 0), Depth = (\<lambda>_. 3) \<rparr>"

theorem btc_tx_roundtrip_witness:
  "\<exists>buf tx'. PackTx_btc base128 sampleTx 5 9 = Inr buf \<and> UnpackTx_btc base128 (ParseTx_btc tinyPackages (\<lambda>_. Inr ([], False))) buf = Inr (tx', 5) \<and>
     Hex_tx tx' = ''00ff''"
proof -
  let ?f = "\<lambda>_. Inr ([], False)"
  have h: "Hex_tx sampleTx = ''00ff''" by (simp add: sampleTx_def)
  have d: "DecodeString ''00ff'' = Inr [0, 255]" by code_simp
  have c: "canonical_hex (Hex_tx sampleTx)" unfolding h by code_simp
  obtain buf where buf: "PackTx_btc base128 sampleTx 5 9 = Inr buf"
    unfolding PackTx_btc_def h d by simp
  have "\<exists>tx'. ParseTx_btc tinyPackages ?f [0, 255] = Inr tx'" by (simp add: ParseTx_btc_def TxFromMsgTx_def tinyPackages_def)
  then obtain tx' where "ParseTx_btc tinyPackages ?f [0, 255] = Inr tx'" by blast
  with btc_tx_roundtrip[OF base128.vlq_codec_axioms buf c, of tinyPackages ?f tx'] h d buf show ?thesis by auto
qed

end
