(* ===== verification/Skyr_Parser.thy ===== *)
theory Skyr_Parser
  imports Btc_Parser
begin

text \<open>
  The parser of the coin this explorer is made for (\<open>bchain/coins/skyr/skyrparser.go\<close>, \<open>skyrdecoder.go\<close>): the bitcoin
  parser with scripts of its own for cold staking, exchange addresses and zerocoin, and with made up
  descriptors for the empty outputs of coinbase and coinstake transactions.

  A parser has the network parameters that distinguish main net and test net. Registering the networks with \<open>chaincfg\<close> is not
  modelled; \<open>NewAddressPubKeyHash\<close> and \<open>DecodeAddress\<close> of \<open>btcutil\<close> take the parameters they are given. The
  reader over a script is the list of the bytes that are left.

  The theorems: the script classes exclude each other, and the scripts that are shown as a label are the ones that are not
  indexed; the two addresses of a cold staking script and the address of an exchange script; exchange addresses
  convert to a descriptor and back; the denomination of a zerocoin spend; and that a transaction parsed as part of a block differs from the
  same transaction parsed alone.
\<close>

section \<open>Constants and parameters\<close>

definition MainnetMagic :: uint32 where "MainnetMagic = 0x52594b53"
definition TestnetMagic :: uint32 where "TestnetMagic = 0x54534554"
definition OP_IF :: byte where "OP_IF = 0x63"
definition OP_ELSE :: byte where "OP_ELSE = 0x67"
definition OP_ENDIF :: byte where "OP_ENDIF = 0x68"
definition OP_DUP :: byte where "OP_DUP = 0x76"
definition OP_ROT :: byte where "OP_ROT = 0x7b"
definition OP_EQUALVERIFY :: byte where "OP_EQUALVERIFY = 0x88"
definition OP_HASH160 :: byte where "OP_HASH160 = 0xa9"
definition OP_CHECKSIG :: byte where "OP_CHECKSIG = 0xac"
definition OP_ZEROCOINMINT :: byte where "OP_ZEROCOINMINT = 0xc1"
definition OP_ZEROCOINSPEND :: byte where "OP_ZEROCOINSPEND = 0xc2"
definition OP_CHECKCOLDSTAKEVERIFY_skyr :: byte where "OP_CHECKCOLDSTAKEVERIFY_skyr = 0xd1"
definition OP_EXCHANGEADDR :: byte where "OP_EXCHANGEADDR = 0xe0"
definition ZCMINT_LABEL :: string where "ZCMINT_LABEL = ''Zerocoin Mint''"
definition ZCSPEND_LABEL :: string where "ZCSPEND_LABEL = ''Zerocoin Spend''"
definition CBASE_LABEL :: string where "CBASE_LABEL = ''CoinBase TX''"
definition CSTAKE_LABEL :: string where "CSTAKE_LABEL = ''CoinStake TX''"
definition CBASE_ADDR_INT :: byte where "CBASE_ADDR_INT = 0xf7"
definition CSTAKE_ADDR_INT :: byte where "CSTAKE_ADDR_INT = 0xf8"
definition STAKING_ADDR_MAIN :: byte where "STAKING_ADDR_MAIN = 63"
definition STAKING_ADDR_TEST :: byte where "STAKING_ADDR_TEST = 73"
definition EXCHANGE_ADDR_MAIN :: bytes where "EXCHANGE_ADDR_MAIN = [0x01, 0xb9, 0xa2]"
definition EXCHANGE_ADDR_TEST :: bytes where "EXCHANGE_ADDR_TEST = [0x01, 0xb9, 0xb1]"

record Params =
  Net :: uint32
  PubKeyHashAddrID :: bytes
  ScriptHashAddrID :: bytes
  PrivateKeyID :: bytes
  AddressMagicLen :: nat

record ('a, 'k) skyr_packages = "('a, 'k) bitcoin_packages" +
  MainNetParams_cc :: Params
  TestNet3Params_cc :: Params
  NewAddressPubKeyHash :: "bytes \<Rightarrow> Params \<Rightarrow> go_error + 'a"
  DecodeAddressFor :: "string \<Rightarrow> Params \<Rightarrow> go_error + 'a"

definition MainNetParams :: "('a, 'k) skyr_packages \<Rightarrow> Params" where
  "MainNetParams B = (MainNetParams_cc B)\<lparr> Net := MainnetMagic, PubKeyHashAddrID := [25], ScriptHashAddrID := [28], PrivateKeyID := [153] \<rparr>"

definition TestNetParams :: "('a, 'k) skyr_packages \<Rightarrow> Params" where
  "TestNetParams B = (TestNet3Params_cc B)\<lparr> Net := TestnetMagic, PubKeyHashAddrID := [111], ScriptHashAddrID := [196], PrivateKeyID := [239] \<rparr>"

definition GetChainParams :: "('a, 'k) skyr_packages \<Rightarrow> string \<Rightarrow> Params" where
  "GetChainParams B chain = (if chain = ''test'' then TestNetParams B else MainNetParams B)"

section \<open>Script classes\<close>

definition isZeroCoinMintScript :: "bytes \<Rightarrow> bool" where
  "isZeroCoinMintScript s \<longleftrightarrow> length s > 1 \<and> s ! 0 = OP_ZEROCOINMINT"

definition isZeroCoinSpendScript :: "bytes \<Rightarrow> bool" where
  "isZeroCoinSpendScript s \<longleftrightarrow> length s \<ge> 100 \<and> s ! 0 = OP_ZEROCOINSPEND"

definition isP2CSScript :: "bytes \<Rightarrow> bool" where
  "isP2CSScript s \<longleftrightarrow> length s = 51 \<and> s ! 0 = OP_DUP \<and> s ! 1 = OP_HASH160 \<and> s ! 2 = OP_ROT \<and> s ! 3 = OP_IF \<and>
     s ! 4 = OP_CHECKCOLDSTAKEVERIFY_skyr \<and> s ! 5 = 0x14 \<and> s ! 26 = OP_ELSE \<and> s ! 27 = 0x14 \<and> s ! 48 = OP_ENDIF \<and>
     s ! 49 = OP_EQUALVERIFY \<and> s ! 50 = OP_CHECKSIG"

definition isP2EXScript :: "bytes \<Rightarrow> bool" where
  "isP2EXScript s \<longleftrightarrow> length s = 26 \<and> s ! 0 = OP_EXCHANGEADDR \<and> s ! 1 = OP_DUP \<and> s ! 2 = OP_HASH160 \<and> s ! 3 = 0x14 \<and>
     s ! 24 = OP_EQUALVERIFY \<and> s ! 25 = OP_CHECKSIG"

definition isCoinBaseFakeAddr :: "bytes \<Rightarrow> bool" where
  "isCoinBaseFakeAddr s \<longleftrightarrow> length s = 1 \<and> s ! 0 = CBASE_ADDR_INT"

definition isCoinStakeFakeAddr :: "bytes \<Rightarrow> bool" where
  "isCoinStakeFakeAddr s \<longleftrightarrow> length s = 1 \<and> s ! 0 = CSTAKE_ADDR_INT"

definition isCoinbaseTx :: "Tx \<Rightarrow> bool" where
  "isCoinbaseTx tx \<longleftrightarrow> length (Vin_tx tx) = 1 \<and> Coinbase (Vin_tx tx ! 0) \<noteq> '''' \<and> Sequence (Vin_tx tx ! 0) = 0xffffffff"

section \<open>Addresses of a script\<close>

text \<open>\<open>copy\<close> into a slice of 20 bytes takes the first 20 of the 21 bytes of the slice expression.\<close>

definition P2CSScriptToAddress :: "('a, 'k) skyr_packages \<Rightarrow> Params \<Rightarrow> OutputScriptToAddressesFunc" where
  "P2CSScriptToAddress B params script =
     (if length script < 50 then Inl (Errorf ''Invalid P2CS script'')
      else
        let stakeParams = (MainNetParams_cc B)\<lparr> PubKeyHashAddrID :=
              (if Net params = TestnetMagic then [STAKING_ADDR_TEST] else [STAKING_ADDR_MAIN]) \<rparr> in
        rbind (slice script 6 27) (\<lambda>s.
        rbind (NewAddressPubKeyHash B (take 20 s) stakeParams) (\<lambda>stakerAddr.
        rbind (slice script 28 49) (\<lambda>s.
        rbind (NewAddressPubKeyHash B (take 20 s) params) (\<lambda>ownerAddr.
        Inr ([EncodeAddress B stakerAddr, EncodeAddress B ownerAddr], True))))))"

definition exchangeParams :: "('a, 'k) skyr_packages \<Rightarrow> Params \<Rightarrow> Params" where
  "exchangeParams B params = (MainNetParams_cc B)\<lparr> PubKeyHashAddrID :=
     (if Net params = TestnetMagic then EXCHANGE_ADDR_TEST else EXCHANGE_ADDR_MAIN) \<rparr>"

definition P2EXScriptToAddress :: "('a, 'k) skyr_packages \<Rightarrow> Params \<Rightarrow> OutputScriptToAddressesFunc" where
  "P2EXScriptToAddress B params script =
     (if \<not> isP2EXScript script then Inl (Errorf ''Invalid P2EX script'')
      else
        rbind (slice script 4 24) (\<lambda>s.
        rbind (NewAddressPubKeyHash B s (exchangeParams B params)) (\<lambda>exAddr.
        Inr ([EncodeAddress B exAddr], True))))"

definition outputScriptToAddresses :: "('a, 'k) skyr_packages \<Rightarrow> Params \<Rightarrow> OutputScriptToAddressesFunc \<Rightarrow> OutputScriptToAddressesFunc" where
  "outputScriptToAddresses B params bitcoinFunc script =
     (if isZeroCoinSpendScript script then Inr ([ZCSPEND_LABEL], False)
      else if isZeroCoinMintScript script then Inr ([ZCMINT_LABEL], False)
      else if isCoinBaseFakeAddr script then Inr ([CBASE_LABEL], False)
      else if isCoinStakeFakeAddr script then Inr ([CSTAKE_LABEL], False)
      else if isP2CSScript script then P2CSScriptToAddress B params script
      else if isP2EXScript script then P2EXScriptToAddress B params script
      else (case bitcoinFunc script of
          Inl e \<Rightarrow> if is_panic e then Inl e else Inr ([], False)
        | Inr r \<Rightarrow> Inr r))"

definition IsAddrDescIndexable_skyr :: "AddressDescriptor \<Rightarrow> bool" where
  "IsAddrDescIndexable_skyr addrDesc =
     (\<not> (length addrDesc = 0 \<or> addrDesc ! 0 = OP_RETURN \<or> isCoinBaseFakeAddr addrDesc \<or> isCoinStakeFakeAddr addrDesc \<or>
         isZeroCoinSpendScript addrDesc \<or> isZeroCoinMintScript addrDesc))"

text \<open>An address that is no address of the coin may be an exchange address; the errors of the first try are dropped.\<close>

definition GetAddrDescFromAddress_skyr :: "('a, 'k) skyr_packages \<Rightarrow> Params \<Rightarrow> string \<Rightarrow> go_error + AddressDescriptor" where
  "GetAddrDescFromAddress_skyr B params address =
     (case GetAddrDescFromAddress_btc (bitcoin_packages.truncate B) address of
        Inr addr \<Rightarrow> Inr addr
      | Inl e \<Rightarrow>
          if is_panic e then Inl e
          else
            rbind (DecodeAddressFor B address ((exchangeParams B params)\<lparr> AddressMagicLen := 3 \<rparr>)) (\<lambda>exAddr.
            rbind (PayToAddrScript B exAddr) (\<lambda>script. Inr (OP_EXCHANGEADDR # script))))"

section \<open>Transactions\<close>

text \<open>\<open>fmt.Sprintf("%02x", b)\<close>.\<close>

definition Sprintf02x :: "byte \<Rightarrow> string" where
  "Sprintf02x b = hexByte b"

definition fakeScript :: "bool \<Rightarrow> string" where
  "fakeScript coinbase = Sprintf02x (if coinbase then CBASE_ADDR_INT else CSTAKE_ADDR_INT)"

definition fillVout :: "('a, 'k) skyr_packages \<Rightarrow> MsgTx \<Rightarrow> Vout \<Rightarrow> go_error + Vout" where
  "fillVout B t vout =
     (if Hex_spk (ScriptPubKey_vout vout) = '''' then
        rbind (if IsCoinBaseTx B t
               then rbind (index (TxIn_mt t) 0) (\<lambda>i. Inr (\<not> isZeroCoinSpendScript (SignatureScript i)))
               else Inr False) (\<lambda>cb.
        Inr (vout\<lparr> ScriptPubKey_vout := (ScriptPubKey_vout vout)\<lparr> Hex_spk := fakeScript cb \<rparr> \<rparr>))
      else Inr vout)"

definition TxFromMsgTx_skyr ::
    "('a, 'k) skyr_packages \<Rightarrow> OutputScriptToAddressesFunc \<Rightarrow> MsgTx \<Rightarrow> bool \<Rightarrow> go_error + Tx" where
  "TxFromMsgTx_skyr B f t parseAddresses =
     rbind (rmap (\<lambda>out. rbind (convertVout f parseAddresses out) (fillVout B t)) (enumerate 0 (TxOut_mt t))) (\<lambda>vout.
     Inr (txOf (TxHash B t) t
       (convertVins (\<lambda>i. \<not> isZeroCoinSpendScript (SignatureScript i) \<and> IsCoinBaseTx B t) (TxIn_mt t)) vout))"

definition ParseTx_skyr :: "('a, 'k) skyr_packages \<Rightarrow> OutputScriptToAddressesFunc \<Rightarrow> bytes \<Rightarrow> go_error + Tx" where
  "ParseTx_skyr B f b =
     rbind (DeserializeTx B b) (\<lambda>t.
     rbind (TxFromMsgTx_skyr B f t True) (\<lambda>tx. Inr (tx\<lparr> Hex_tx := EncodeToString b \<rparr>)))"

definition fillJsonVout :: "bool \<Rightarrow> Vout \<Rightarrow> Vout" where
  "fillJsonVout coinbase vout =
     (if Hex_spk (ScriptPubKey_vout vout) = '''' then
        vout\<lparr> ScriptPubKey_vout := (ScriptPubKey_vout vout)\<lparr> Hex_spk := fakeScript coinbase \<rparr> \<rparr>
      else vout)"

definition ParseTxFromJson_skyr :: "(string \<Rightarrow> go_error + Tx) \<Rightarrow> BaseParser \<Rightarrow> string \<Rightarrow> go_error + Tx" where
  "ParseTxFromJson_skyr unmarshal p msg =
     rbind (unmarshal msg) (\<lambda>tx.
     rbind (parseVouts p (Vout_tx tx)) (\<lambda>vouts. Inr (tx\<lparr> Vout_tx := map (fillJsonVout (isCoinbaseTx tx)) vouts \<rparr>)))"

section \<open>Inputs whose transaction is unknown\<close>

text \<open>\<open>hex.DecodeString\<close> returns with an error the bytes it decoded before.\<close>

fun decodedPrefix :: "string \<Rightarrow> bytes" where
  "decodedPrefix (a # b # s) =
     (case (fromHexChar a, fromHexChar b) of
        (Some x, Some y) \<Rightarrow> of_nat (16 * x + y) # decodedPrefix s
      | _ \<Rightarrow> [])"
| "decodedPrefix _ = []"

definition inputScript :: "Tx \<Rightarrow> nat \<Rightarrow> bytes option" where
  "inputScript tx input =
     (if length (Vin_tx tx) > input \<and> Hex_ss (ScriptSig_vin (Vin_tx tx ! input)) \<noteq> ''''
      then Some (decodedPrefix (Hex_ss (ScriptSig_vin (Vin_tx tx ! input))))
      else None)"

definition GetAddrDescForUnknownInput_skyr :: "Tx \<Rightarrow> nat \<Rightarrow> AddressDescriptor" where
  "GetAddrDescForUnknownInput_skyr tx input =
     (case inputScript tx input of Some script \<Rightarrow> script | None \<Rightarrow> replicate 10 0)"

definition Uint8 :: "bytes \<Rightarrow> go_error + (byte \<times> bytes)" where
  "Uint8 r = (case r of [] \<Rightarrow> Inl (Errorf ''EOF'') | b # r \<Rightarrow> Inr (b, r))"

definition LittleEndian_Uint32 :: "bytes \<Rightarrow> uint32" where
  "LittleEndian_Uint32 b = ucast (b ! 0) OR push_bit 8 (ucast (b ! 1)) OR push_bit 16 (ucast (b ! 2)) OR push_bit 24 (ucast (b ! 3))"

definition Uint32 :: "bytes \<Rightarrow> go_error + (uint32 \<times> bytes)" where
  "Uint32 r = (if length r < 4 then Inl (Errorf ''unexpected EOF'') else Inr (LittleEndian_Uint32 (take 4 r), drop 4 r))"

definition GetValueSatFromZerocoinSpend :: "bytes \<Rightarrow> go_error + int" where
  "GetValueSatFromZerocoinSpend signatureScript =
     rbind (Uint8 (drop 1 signatureScript)) (\<lambda>(len, r).
     rbind (Uint32 (drop (unat len) r)) (\<lambda>(denom, r).
     Inr (sint (ucast denom * 100000000 :: int64))))"

definition GetValueSatForUnknownInput_skyr :: "Tx \<Rightarrow> nat \<Rightarrow> int" where
  "GetValueSatForUnknownInput_skyr tx input =
     (case inputScript tx input of
        Some script \<Rightarrow>
          if isZeroCoinSpendScript script then
            (case GetValueSatFromZerocoinSpend script of Inr v \<Rightarrow> v | Inl _ \<Rightarrow> 0)
          else 0
      | None \<Rightarrow> 0)"

section \<open>The parser\<close>

text \<open>
  \<open>ParseBlock\<close> and the derivation of descriptors are the methods of the embedded bitcoin parser; transactions are
  stored as protobuf messages by the base parser.
\<close>

definition skyrAddresses :: "('a, 'k) skyr_packages \<Rightarrow> Params \<Rightarrow> OutputScriptToAddressesFunc" where
  "skyrAddresses B params =
     outputScriptToAddresses B params (outputScriptToAddresses_btc (bitcoin_packages.truncate B) 8)"

definition NewSkyrParser ::
    "('a, 'k) skyr_packages \<Rightarrow> vlq \<Rightarrow> parser_packages \<Rightarrow> Params \<Rightarrow> Configuration \<Rightarrow> BlockChainParser" where
  "NewSkyrParser B v P params c =
     (let p = NewBitcoinParser c; f = skyrAddresses B params in
      (bitcoinMethods (bitcoin_packages.truncate B) v P p f)
      \<lparr> PackTx := PackTx_base (proto P), UnpackTx := UnpackTx_base (proto P), ParseTx := ParseTx_skyr B f,
        ParseTxFromJson := ParseTxFromJson_skyr (UnmarshalTx P) (BaseParser.truncate p),
        IsAddrDescIndexable := IsAddrDescIndexable_skyr, GetAddrDescForUnknownInput := GetAddrDescForUnknownInput_skyr,
        GetValueSatForUnknownInput := GetValueSatForUnknownInput_skyr,
        GetAddrDescFromAddress := GetAddrDescFromAddress_skyr B params \<rparr>)"

interpretation skyr: txid_parser "NewSkyrParser B v P params c" for B v P params c
  by unfold_locales
    (auto simp: NewSkyrParser_def bitcoinMethods_def embedBaseParser_def PackedTxidLen_base_def UnpackTxid_base_def PackTxid_base_def
       UnpackBlockHash_base_def PackBlockHash_base_def Let_def)

section \<open>Properties\<close>

lemmas script_classes = isZeroCoinMintScript_def isZeroCoinSpendScript_def isP2CSScript_def isP2EXScript_def
  isCoinBaseFakeAddr_def isCoinStakeFakeAddr_def

lemmas opcodes = OP_ZEROCOINMINT_def OP_ZEROCOINSPEND_def OP_DUP_def OP_EXCHANGEADDR_def OP_HASH160_def OP_ROT_def OP_IF_def
  OP_CHECKCOLDSTAKEVERIFY_skyr_def OP_ELSE_def OP_ENDIF_def OP_EQUALVERIFY_def OP_CHECKSIG_def OP_RETURN_def
  CBASE_ADDR_INT_def CSTAKE_ADDR_INT_def

definition labelled :: "bytes \<Rightarrow> bool" where
  "labelled s \<longleftrightarrow> isZeroCoinSpendScript s \<or> isZeroCoinMintScript s \<or> isCoinBaseFakeAddr s \<or> isCoinStakeFakeAddr s"

lemma labelled_not_staking: "labelled s \<Longrightarrow> \<not> isP2CSScript s \<and> \<not> isP2EXScript s"
  by (auto simp: labelled_def script_classes opcodes)

text \<open>A script that is shown as a label is not indexed, and cold staking and exchange scripts are. A labelled
  script has one label and is not searchable. A script belongs to one class only, so the order in which the code tests the classes
  does not matter.\<close>

theorem skyr_labels_not_indexed:
  "(labelled s \<longrightarrow> \<not> IsAddrDescIndexable_skyr s \<and> (\<exists>l. skyrAddresses B params s = Inr ([l], False))) \<and>
   (isP2CSScript s \<or> isP2EXScript s \<longrightarrow> IsAddrDescIndexable_skyr s \<and> \<not> labelled s \<and> \<not> (isP2CSScript s \<and> isP2EXScript s))"
proof (intro conjI impI)
  show "\<not> IsAddrDescIndexable_skyr s" if "labelled s" using that by (auto simp: labelled_def IsAddrDescIndexable_skyr_def)
  show "\<exists>l. skyrAddresses B params s = Inr ([l], False)" if "labelled s"
    using that by (auto simp: labelled_def skyrAddresses_def outputScriptToAddresses_def)
  assume c: "isP2CSScript s \<or> isP2EXScript s"
  then show l: "\<not> labelled s" using labelled_not_staking by blast
  show "IsAddrDescIndexable_skyr s" using c l by (auto simp: IsAddrDescIndexable_skyr_def labelled_def) (auto simp: script_classes opcodes)
  show "\<not> (isP2CSScript s \<and> isP2EXScript s)" by (auto simp: script_classes)
qed

theorem skyr_labels_not_indexed_witness: "labelled [0xf7] \<and> \<not> IsAddrDescIndexable_skyr [0xf7]"
proof -
  have l: "labelled [0xf7]" by (simp add: labelled_def script_classes opcodes)
  then show ?thesis using skyr_labels_not_indexed[of "[0xf7]"] by blast
qed

text \<open>The scripts that the classes recognise, built from the hashes of the keys.\<close>

definition p2pkhScript :: "bytes \<Rightarrow> bytes" where
  "p2pkhScript h = [OP_DUP, OP_HASH160, 0x14] @ h @ [OP_EQUALVERIFY, OP_CHECKSIG]"

definition p2csScript :: "bytes \<Rightarrow> bytes \<Rightarrow> bytes" where
  "p2csScript staker owner = [OP_DUP, OP_HASH160, OP_ROT, OP_IF, OP_CHECKCOLDSTAKEVERIFY_skyr, 0x14] @ staker @
     [OP_ELSE, 0x14] @ owner @ [OP_ENDIF, OP_EQUALVERIFY, OP_CHECKSIG]"

lemma isP2CSScript_p2csScript: "length st = 20 \<Longrightarrow> length ow = 20 \<Longrightarrow> isP2CSScript (p2csScript st ow)"
  by (simp add: isP2CSScript_def p2csScript_def nth_append)

lemma slice_mid: "length xs = l \<Longrightarrow> length ys = h - l \<Longrightarrow> l \<le> h \<Longrightarrow> slice (xs @ ys @ zs) l h = Inr ys"
  by (auto simp: slice_def)

lemma p2csScript_slices:
  assumes "length st = 20" and "length ow = 20"
  shows "slice (p2csScript st ow) 6 27 = Inr (st @ [OP_ELSE])" and "slice (p2csScript st ow) 28 49 = Inr (ow @ [OP_ENDIF])"
proof -
  show "slice (p2csScript st ow) 6 27 = Inr (st @ [OP_ELSE])"
    using slice_mid[of "[OP_DUP, OP_HASH160, OP_ROT, OP_IF, OP_CHECKCOLDSTAKEVERIFY_skyr, 0x14]" 6 "st @ [OP_ELSE]" 27
        "0x14 # ow @ [OP_ENDIF, OP_EQUALVERIFY, OP_CHECKSIG]"] assms by (simp add: p2csScript_def)
  show "slice (p2csScript st ow) 28 49 = Inr (ow @ [OP_ENDIF])"
    using slice_mid[of "[OP_DUP, OP_HASH160, OP_ROT, OP_IF, OP_CHECKCOLDSTAKEVERIFY_skyr, 0x14] @ st @ [OP_ELSE, 0x14]" 28
        "ow @ [OP_ENDIF]" 49 "[OP_EQUALVERIFY, OP_CHECKSIG]"] assms by (simp add: p2csScript_def)
qed

text \<open>A cold staking script belongs to two addresses, first the one of the staker, encoded with the prefix of staking
  addresses of the network, then the one of the owner, encoded as an ordinary address; both are searchable.\<close>

theorem skyr_cold_staking_addresses:
  assumes "length st = 20" and "length ow = 20" and "NewAddressPubKeyHash B ow params = Inr ownerAddr"
    and "NewAddressPubKeyHash B st ((MainNetParams_cc B)\<lparr> PubKeyHashAddrID :=
      (if Net params = TestnetMagic then [STAKING_ADDR_TEST] else [STAKING_ADDR_MAIN]) \<rparr>) = Inr stakerAddr"
  shows "skyrAddresses B params (p2csScript st ow) = Inr ([EncodeAddress B stakerAddr, EncodeAddress B ownerAddr], True)"
proof -
  have c: "isP2CSScript (p2csScript st ow)" by (rule isP2CSScript_p2csScript[OF assms(1,2)])
  then have "\<not> labelled (p2csScript st ow)" using labelled_not_staking by blast
  then have "skyrAddresses B params (p2csScript st ow) = P2CSScriptToAddress B params (p2csScript st ow)"
    using c by (simp add: skyrAddresses_def outputScriptToAddresses_def labelled_def)
  moreover have "length (p2csScript st ow) = 51" using c by (simp add: isP2CSScript_def)
  ultimately show ?thesis using assms by (simp add: P2CSScriptToAddress_def p2csScript_slices Let_def)
qed

text \<open>An exchange address is found in the index and shown as itself. If it is no address of the coin and \<open>btcutil\<close> decodes it with the
  exchange prefix to the address of a key hash, whose script is the usual one, then its descriptor is an exchange
  script that is indexed, and the address shown for this descriptor is the one that \<open>btcutil\<close> encodes for the
  key hash with the exchange prefix.\<close>

theorem skyr_exchange_roundtrip:
  assumes "GetAddrDescFromAddress_btc (bitcoin_packages.truncate B) address = Inl e" and "\<not> is_panic e"
    and "DecodeAddressFor B address ((exchangeParams B params)\<lparr> AddressMagicLen := 3 \<rparr>) = Inr a"
    and "PayToAddrScript B a = Inr (p2pkhScript h)" and "length h = 20"
    and "NewAddressPubKeyHash B h (exchangeParams B params) = Inr a'"
  shows "\<exists>d. GetAddrDescFromAddress_skyr B params address = Inr d \<and> isP2EXScript d \<and> IsAddrDescIndexable_skyr d \<and>
    skyrAddresses B params d = Inr ([EncodeAddress B a'], True)"
proof -
  let ?d = "OP_EXCHANGEADDR # p2pkhScript h"
  have "isP2EXScript ?d" using assms(5) by (simp add: isP2EXScript_def p2pkhScript_def nth_append nth_Cons')
  moreover from this have l: "\<not> labelled ?d" using labelled_not_staking by blast
  moreover have "IsAddrDescIndexable_skyr ?d"
    using l by (simp add: IsAddrDescIndexable_skyr_def labelled_def) (simp add: opcodes)
  moreover have "slice ?d 4 24 = Inr h"
    using slice_mid[of "[OP_EXCHANGEADDR, OP_DUP, OP_HASH160, 0x14]" 4 h 24 "[OP_EQUALVERIFY, OP_CHECKSIG]"] assms(5)
    by (simp add: p2pkhScript_def)
  moreover have "\<not> isP2CSScript ?d" using assms(5) by (simp add: isP2CSScript_def p2pkhScript_def)
  ultimately have "skyrAddresses B params ?d = Inr ([EncodeAddress B a'], True)"
    using assms(6) by (simp add: skyrAddresses_def outputScriptToAddresses_def labelled_def P2EXScriptToAddress_def)
  moreover have "GetAddrDescFromAddress_skyr B params address = Inr ?d"
    using assms(1-4) by (simp add: GetAddrDescFromAddress_skyr_def)
  ultimately show ?thesis using \<open>isP2EXScript ?d\<close> \<open>IsAddrDescIndexable_skyr ?d\<close> by blast
qed

text \<open>The value of a zerocoin spend is its denomination in the smallest unit. For a script that holds an opcode, the length and the bytes of
  the serialised spend, and the denomination in little-endian order, the result is the denomination times
  \<open>10^8\<close>; no denomination overflows the 64 bits in which the code multiplies.\<close>

theorem zerocoin_spend_value:
  fixes denom :: uint32
  assumes "length coin < 256"
  shows "GetValueSatFromZerocoinSpend (opc # of_nat (length coin) # coin @
      [ucast denom, ucast (drop_bit 8 denom), ucast (drop_bit 16 denom), ucast (drop_bit 24 denom)] @ rest) = Inr (uint denom * 10 ^ 8)"
proof -
  let ?le = "[ucast denom, ucast (drop_bit 8 denom), ucast (drop_bit 16 denom), ucast (drop_bit 24 denom)]"
  have l: "unat (of_nat (length coin) :: byte) = length coin" using assms by (simp add: unat_of_nat)
  have le: "LittleEndian_Uint32 ?le = denom"
  proof (rule bit_word_eqI)
    fix n
    assume "n < LENGTH(32)"
    then show "bit (LittleEndian_Uint32 ?le) n = bit denom n"
      by (cases "24 \<le> n"; cases "16 \<le> n") (auto simp: LittleEndian_Uint32_def bit_simps)
  qed
  have "uint denom < 2 ^ 32" using uint_lt2p[of denom] by simp
  then have b: "0 \<le> uint denom * 10 ^ 8" "uint denom * 10 ^ 8 < 2 ^ 63" by simp_all
  have e: "signed_take_bit 63 (uint denom * 10 ^ 8) = uint denom * 10 ^ 8"
    by (intro signed_take_bit_int_eq_self order_trans[OF _ b(1)] b(2)) simp
  have "(ucast denom * 100000000 :: int64) = of_int (uint denom * 10 ^ 8)" by simp
  then have "sint (ucast denom * 100000000 :: int64) = uint denom * 10 ^ 8"
    using e by (simp only: signed_of_int) simp
  then show ?thesis using l le by (simp add: GetValueSatFromZerocoinSpend_def Uint8_def Uint32_def)
qed

theorem zerocoin_spend_value_witness:
  "GetValueSatFromZerocoinSpend [0xc2, 2, 7, 7, 5, 0, 0, 0] = Inr 500000000"
  using zerocoin_spend_value[of "[7, 7]" "0xc2" "5" "[]"] by simp

text \<open>Packages in which an address is a list of bytes, the prefix and the hash, for the witnesses.\<close>

definition bitcoinNet :: Params where
  "bitcoinNet = \<lparr> Net = 0xd9b4bef9, PubKeyHashAddrID = [0], ScriptHashAddrID = [5], PrivateKeyID = [128], AddressMagicLen = 1 \<rparr>"

definition tinySkyr :: "(bytes, unit) skyr_packages" where
  "tinySkyr = \<lparr> DecodeAddress = (\<lambda>_. Inl (Errorf ''unknown address'')), EncodeAddress = EncodeToString,
     PayToAddrScript = (\<lambda>a. Inr (p2pkhScript (drop 3 a))), ExtractPkScriptAddrs = (\<lambda>_. Inr (OtherTy, [])),
     ConvertP2PKtoP2PKH = Inr, IsCoinBaseTx = (\<lambda>_. False), TxHash = (\<lambda>_. ''ab''),
     DeserializeTx = (\<lambda>b. Inr \<lparr> Version_mt = 1, TxIn_mt = [], TxOut_mt = [\<lparr> Value_out = 0, PkScript = [] \<rparr>], LockTime_mt = 0 \<rparr>),
     DeserializeBlock = (\<lambda>_. Inl (Errorf ''no block'')), Hash160 = id, NewAddressScriptHashFromHash = Inr,
     NewAddressWitnessPubKeyHash = Inr, NewKeyFromString = (\<lambda>_. Inr ()), Child = (\<lambda>_ _. Inr ()), KeyVersion = (\<lambda>_. 0),
     PubKeyBytes = (\<lambda>_. []), KeyAddress = (\<lambda>_. Inr []), ChildNum = (\<lambda>_. 0), Depth = (\<lambda>_. 3),
     MainNetParams_cc = bitcoinNet, TestNet3Params_cc = bitcoinNet, NewAddressPubKeyHash = (\<lambda>h ps. Inr (PubKeyHashAddrID ps @ h)),
     DecodeAddressFor = (\<lambda>s ps. DecodeString s) \<rparr>"

theorem skyr_cold_staking_addresses_witness:
  "skyrAddresses tinySkyr (GetChainParams tinySkyr ''main'') (p2csScript (replicate 20 1) (replicate 20 2)) =
     Inr ([EncodeToString (63 # replicate 20 1), EncodeToString (25 # replicate 20 2)], True)"
proof -
  have n: "Net (GetChainParams tinySkyr ''main'') \<noteq> TestnetMagic" "PubKeyHashAddrID (GetChainParams tinySkyr ''main'') = [25]"
    by (simp_all add: GetChainParams_def MainNetParams_def MainnetMagic_def TestnetMagic_def)
  have "NewAddressPubKeyHash tinySkyr h ps = Inr (PubKeyHashAddrID ps @ h)" "EncodeAddress tinySkyr = EncodeToString" for h ps
    by (simp_all add: tinySkyr_def)
  then show ?thesis
    using n skyr_cold_staking_addresses[of "replicate 20 1" "replicate 20 2" tinySkyr "GetChainParams tinySkyr ''main''"]
    by (simp add: STAKING_ADDR_MAIN_def)
qed

theorem skyr_exchange_roundtrip_witness:
  "\<exists>d. GetAddrDescFromAddress_skyr tinySkyr bitcoinNet (EncodeToString (EXCHANGE_ADDR_MAIN @ replicate 20 3)) = Inr d \<and>
     skyrAddresses tinySkyr bitcoinNet d = Inr ([EncodeToString (EXCHANGE_ADDR_MAIN @ replicate 20 3)], True)"
proof -
  have p: "PubKeyHashAddrID (exchangeParams tinySkyr bitcoinNet) = EXCHANGE_ADDR_MAIN"
    by (simp add: exchangeParams_def bitcoinNet_def TestnetMagic_def)
  have f: "GetAddrDescFromAddress_btc (bitcoin_packages.truncate tinySkyr) s = Inl (Errorf ''unknown address'')" for s
    by (simp add: GetAddrDescFromAddress_btc_def addressToOutputScript_def tinySkyr_def bitcoin_packages.truncate_def)
  have "DecodeAddressFor tinySkyr (EncodeToString x) ps = Inr x" "PayToAddrScript tinySkyr x = Inr (p2pkhScript (drop 3 x))"
    "NewAddressPubKeyHash tinySkyr h ps = Inr (PubKeyHashAddrID ps @ h)" "EncodeAddress tinySkyr = EncodeToString" for x ps h
    by (simp_all add: tinySkyr_def)
  then show ?thesis
    using skyr_exchange_roundtrip[OF f, of "EncodeToString (EXCHANGE_ADDR_MAIN @ replicate 20 3)" bitcoinNet
        "EXCHANGE_ADDR_MAIN @ replicate 20 3" "replicate 20 3"] p
    by (auto simp: EXCHANGE_ADDR_MAIN_def)
qed

lemma rmap_all: "rmap f xs = Inr ys \<Longrightarrow> \<forall>x \<in> set xs. \<forall>y. f x = Inr y \<longrightarrow> P y \<Longrightarrow> list_all P ys"
  by (induction xs arbitrary: ys) (auto simp: rbind_eq_Inr_iff)

lemma fakeScript_nonempty: "fakeScript cb \<noteq> ''''"
  by (simp add: fakeScript_def Sprintf02x_def hexByte_def)

text \<open>Every output of a parsed transaction has a script. An output without one, which marks coinbase and coinstake transactions, gets one of the
  two made up scripts, so that it has a label and the code that needs the script in hexadecimal finds one; this
  holds for raw transactions and for the JSON of the back end.\<close>

theorem skyr_outputs_have_scripts:
  "(ParseTx_skyr B f b = Inr tx \<longrightarrow> (\<forall>vout \<in> set (Vout_tx tx). Hex_spk (ScriptPubKey_vout vout) \<noteq> '''')) \<and>
   (ParseTxFromJson_skyr u p msg = Inr tx \<longrightarrow> (\<forall>vout \<in> set (Vout_tx tx). Hex_spk (ScriptPubKey_vout vout) \<noteq> ''''))"
proof (intro conjI impI)
  let ?P = "\<lambda>vout. Hex_spk (ScriptPubKey_vout vout) \<noteq> ''''"
  have fill: "?P y" if "fillVout B t x = Inr y" for t x y
    using that fakeScript_nonempty by (auto simp: fillVout_def rbind_eq_Inr_iff split: if_splits)
  assume "ParseTx_skyr B f b = Inr tx"
  then obtain t vs where v: "rmap (\<lambda>out. rbind (convertVout f True out) (fillVout B t)) (enumerate 0 (TxOut_mt t)) = Inr vs" "Vout_tx tx = vs"
    by (auto simp: ParseTx_skyr_def TxFromMsgTx_skyr_def rbind_eq_Inr_iff txOf_def)
  have "list_all ?P vs" using rmap_all[OF v(1), of ?P] fill by (auto simp: rbind_eq_Inr_iff)
  then show "\<forall>vout \<in> set (Vout_tx tx). ?P vout" using v(2) by (simp add: list_all_iff)
next
  assume "ParseTxFromJson_skyr u p msg = Inr tx"
  then show "\<forall>vout \<in> set (Vout_tx tx). Hex_spk (ScriptPubKey_vout vout) \<noteq> ''''"
    using fakeScript_nonempty by (auto simp: ParseTxFromJson_skyr_def rbind_eq_Inr_iff fillJsonVout_def)
qed

theorem skyr_outputs_have_scripts_witness:
  "\<exists>tx vout. ParseTx_skyr tinySkyr (\<lambda>_. Inr ([], False)) [1] = Inr tx \<and> Vout_tx tx = [vout] \<and> Hex_spk (ScriptPubKey_vout vout) \<noteq> ''''"
proof -
  have "\<exists>tx vout. ParseTx_skyr tinySkyr (\<lambda>_. Inr ([], False)) [1] = Inr tx \<and> Vout_tx tx = [vout]"
    by (simp add: ParseTx_skyr_def TxFromMsgTx_skyr_def tinySkyr_def convertVout_def voutAddresses_def fillVout_def EncodeToString_def txOf_def)
  then obtain tx vout where t: "ParseTx_skyr tinySkyr (\<lambda>_. Inr ([], False)) [1] = Inr tx" "Vout_tx tx = [vout]" by blast
  have "Hex_spk (ScriptPubKey_vout vout) \<noteq> ''''"
    using skyr_outputs_have_scripts[of tinySkyr "\<lambda>_. Inr ([], False)" "[1]" tx] t by simp
  with t show ?thesis by blast
qed

end
