(* ===== verification/Xpub.thy ===== *)
theory Xpub
  imports Api_Address Skyr_Parser
begin

text \<open>
  Extended public keys (\<open>api/xpub.go\<close>): the addresses that are derived from a key until a gap of unused ones is found, their
  transactions, and the cache of this data.

  The cache is a global variable guarded by a mutex; here it is a part of the state of the operations. The slices of a cached entry share their
  memory with the data a request works on; the model copies them, so it is exact for requests that return, and after a request that ended with an error the
  code may already have refreshed some addresses of the cached entry. \<open>sort.Stable\<close> is called with \<open>Less\<close> methods that are not strict, for which the library
  promises no order of equal elements; it is a parameter here.
\<close>

section \<open>Data\<close>

definition xpubLen :: nat where "xpubLen = 111"
definition defaultAddressesGap :: int where "defaultAddressesGap = 20"
definition maxAddressesGap :: int where "maxAddressesGap = 10000"
definition txInput :: byte where "txInput = 1"
definition txOutput :: byte where "txOutput = 2"
definition xpubCacheSize :: nat where "xpubCacheSize = 512"
definition xpubCacheExpirationSeconds :: int where "xpubCacheExpirationSeconds = 7200"

record xpubTxid =
  txid_xt :: string
  height_xt :: uint32
  inputOutput :: byte

definition xpubTxids_Less :: "xpubTxid \<Rightarrow> xpubTxid \<Rightarrow> bool" where
  "xpubTxids_Less a b =
     (if height_xt a = height_xt b then inputOutput a AND txInput \<ge> inputOutput b AND txInput else height_xt a > height_xt b)"

record xpubAddress =
  addrDesc_xa :: AddressDescriptor
  balance_xa :: "AddrBalance option"
  txs_xa :: uint32
  maxHeight :: uint32
  complete :: bool
  txids_xa :: "xpubTxid list"

record xpubData =
  gap :: int
  accessed :: int
  basePath :: string
  dataHeight :: uint32
  dataHash :: string
  txCountEstimate :: uint32
  sentSat :: int
  balanceSat :: int
  addresses :: "xpubAddress list"
  changeAddresses :: "xpubAddress list"

definition newXpubAddress :: "AddressDescriptor \<Rightarrow> xpubAddress" where
  "newXpubAddress a = \<lparr> addrDesc_xa = a, balance_xa = None, txs_xa = 0, maxHeight = 0, complete = False, txids_xa = [] \<rparr>"

definition newXpubData :: "int \<Rightarrow> xpubData" where
  "newXpubData g = \<lparr> gap = g, accessed = 0, basePath = '''', dataHeight = 0, dataHash = '''', txCountEstimate = 0, sentSat = 0, balanceSat = 0,
     addresses = [], changeAddresses = [] \<rparr>"

section \<open>Transactions of one address\<close>

definition inputOutputOf :: "int32 \<Rightarrow> byte" where
  "inputOutputOf idx = (if sint idx < 0 then txInput else txOutput)"

text \<open>All transactions of the last found block are taken, even if they are more than asked for.\<close>

definition xpubCallback :: "int \<Rightarrow> (xpubTxid list \<times> bool) GetTransactionsCallback" where
  "xpubCallback maxResults txid height ixs = (\<lambda>(txs, compl).
     if int (length txs) \<ge> maxResults \<and> txs = [] then (Some (Panic ''index out of range''), (txs, compl))
     else if int (length txs) \<ge> maxResults \<and> height_xt (last txs) \<noteq> height then (Some StopIteration, (txs, False))
     else (None, (txs @ [\<lparr> txid_xt = txid, height_xt = height, inputOutput = fold (\<lambda>idx io. io OR inputOutputOf idx) ixs 0 \<rparr>], compl)))"

text \<open>
  One outpoint of the mempool. The position of a new transaction is stored as \<open>l - 1\<close>, where \<open>l\<close> is the length before it is appended.
\<close>

definition xpubMempoolTx ::
    "int \<Rightarrow> Outpoint \<Rightarrow> (xpubTxid list \<times> bool) \<times> (string, int) gomap \<Rightarrow> go_error + ((xpubTxid list \<times> bool) \<times> (string, int) gomap)" where
  "xpubMempoolTx maxResults m = (\<lambda>((txs, compl), uniqueTxs).
     case map_of uniqueTxs (Txid_op m) of
       None \<Rightarrow>
         (case xpubCallback maxResults (Txid_op m) 0 [Vout_op m] (txs, compl) of
            (Some (Panic e), _) \<Rightarrow> Inl (Panic e)
          | (_, (txs', compl')) \<Rightarrow>
              Inr ((txs', compl'), if length txs' > length txs then AList.update (Txid_op m) (int (length txs) - 1) uniqueTxs else uniqueTxs))
     | Some l \<Rightarrow>
         if 0 \<le> l \<and> l < int (length txs)
         then Inr ((txs[nat l := (txs ! nat l)\<lparr> inputOutput := inputOutput (txs ! nat l) OR inputOutputOf (Vout_op m) \<rparr>], compl), uniqueTxs)
         else Inl (Panic ''index out of range''))"

definition xpubGetAddressTxids ::
    "('s, 'c) api_env \<Rightarrow> AddressDescriptor \<Rightarrow> bool \<Rightarrow> uint32 \<Rightarrow> uint32 \<Rightarrow> int \<Rightarrow> ('s, 'c) Worker \<Rightarrow> go_error + (xpubTxid list \<times> bool)" where
  "xpubGetAddressTxids A addrDesc mempool fromHeight toHeight maxResults w =
     (if mempool then
        rbind (rfold (xpubMempoolTx maxResults) (GetAddrDescTransactions_m addrDesc (mempool_w w)) (([], True), [])) (\<lambda>(r, _). Inr r)
      else GetAddrDescTransactions (pk A) addrDesc fromHeight toHeight (xpubCallback maxResults) ([], True) (db_w w))"

definition xpubCheckAndLoadTxids ::
    "('s, 'c) api_env \<Rightarrow> uint32 \<Rightarrow> ('s, 'c) Worker \<Rightarrow> xpubAddress \<Rightarrow> go_error + xpubAddress" where
  "xpubCheckAndLoadTxids A best w ad =
     (case balance_xa ad of
        None \<Rightarrow> Inr ad
      | Some ba \<Rightarrow>
          if complete ad then
            if Txs_ab ba \<noteq> txs_xa ad then
              rbind (xpubGetAddressTxids A (addrDesc_xa ad) False (maxHeight ad + 1) best maxInt w) (\<lambda>(newTxids, _).
              let txids = newTxids @ txids_xa ad in
              Inr (ad\<lparr> txids_xa := txids, maxHeight := best, txs_xa := of_nat (length txids) \<rparr>))
            else Inr ad
          else
            rbind (xpubGetAddressTxids A (addrDesc_xa ad) False 0 best maxInt w) (\<lambda>(newTxids, compl).
            let ad = ad\<lparr> txids_xa := newTxids, complete := compl, maxHeight := best \<rparr> in
            Inr (if compl then ad\<lparr> txs_xa := of_nat (length newTxids) \<rparr> else ad)))"

section \<open>Scanning the addresses of a key\<close>

definition xpubDerivedAddressBalance ::
    "'s packages \<Rightarrow> 's RocksDB \<Rightarrow> xpubData \<Rightarrow> xpubAddress \<Rightarrow> go_error + (bool \<times> xpubData \<times> xpubAddress)" where
  "xpubDerivedAddressBalance E d data ad =
     rbind (GetAddrDescBalance E (addrDesc_xa ad) AddressBalanceDetailUTXO d) (\<lambda>ba.
     let ad = ad\<lparr> balance_xa := ba \<rparr> in
     case ba of
       None \<Rightarrow> Inr (False, data, ad)
     | Some ba \<Rightarrow>
         Inr (True, data\<lparr> txCountEstimate := txCountEstimate data + Txs_ab ba, sentSat := sentSat data + SentSat ba,
           balanceSat := balanceSat data + BalanceSat ba \<rparr>, ad))"

text \<open>The balances of a list of addresses that starts at position \<open>i\<close>; both loops of the scan do this.\<close>

fun scanBalances ::
    "'s packages \<Rightarrow> 's RocksDB \<Rightarrow> nat \<Rightarrow> nat \<Rightarrow> xpubData \<Rightarrow> xpubAddress list \<Rightarrow> go_error + (nat \<times> xpubData \<times> xpubAddress list)" where
  "scanBalances E d i lastUsed data [] = Inr (lastUsed, data, [])"
| "scanBalances E d i lastUsed data (ad # ads) =
     rbind (xpubDerivedAddressBalance E d data ad) (\<lambda>(used, data, ad).
     rbind (scanBalances E d (Suc i) (if used then i else lastUsed) data ads) (\<lambda>(lastUsed, data, ads).
     Inr (lastUsed, data, ad # ads)))"

definition resetAddress :: "xpubAddress \<Rightarrow> xpubAddress" where
  "resetAddress ad = ad\<lparr> txs_xa := 0, maxHeight := 0, complete := False, txids_xa := [] \<rparr>"

text \<open>The loop that derives new addresses may go on as long as all of them are used; the first argument bounds its rounds.\<close>

fun deriveMissing ::
    "nat \<Rightarrow> 's packages \<Rightarrow> 's RocksDB \<Rightarrow> string \<Rightarrow> int \<Rightarrow> int \<Rightarrow> int \<Rightarrow> nat \<Rightarrow> xpubData \<Rightarrow> xpubAddress list \<Rightarrow>
     go_error + (nat \<times> xpubData \<times> xpubAddress list)" where
  "deriveMissing 0 E d xpub g change minDerivedIndex lastUsed data ads = Inl (Hang ''xpubScanAddresses'')"
| "deriveMissing (Suc k) E d xpub g change minDerivedIndex lastUsed data ads =
     (let missing = int (length ads) - int lastUsed in
      if missing < g then
        let from = length ads;
            to = int from + g - missing;
            to = (if to < minDerivedIndex then minDerivedIndex else to) in
        rbind (DeriveAddressDescriptorsFromTo (chainParser d) xpub (of_int change) (of_nat from) (of_int to)) (\<lambda>descriptors.
        rbind (scanBalances E d from lastUsed data (map newXpubAddress descriptors)) (\<lambda>(lastUsed, data, new).
        deriveMissing k E d xpub g change minDerivedIndex lastUsed data (ads @ new)))
      else Inr (lastUsed, data, ads))"

definition xpubScanAddresses ::
    "nat \<Rightarrow> 's packages \<Rightarrow> 's RocksDB \<Rightarrow> string \<Rightarrow> xpubData \<Rightarrow> xpubAddress list \<Rightarrow> int \<Rightarrow> int \<Rightarrow> int \<Rightarrow> bool \<Rightarrow>
     go_error + (nat \<times> xpubData \<times> xpubAddress list)" where
  "xpubScanAddresses k E d xpub data ads g change minDerivedIndex fork =
     rbind (scanBalances E d 0 0 data (if fork then map resetAddress ads else ads)) (\<lambda>(lastUsed, data, ads).
     deriveMissing k E d xpub g change minDerivedIndex lastUsed data ads)"

definition tokenFromXpubAddress ::
    "BlockChainParser \<Rightarrow> xpubData \<Rightarrow> xpubAddress \<Rightarrow> int \<Rightarrow> int \<Rightarrow> AccountDetails \<Rightarrow> go_error + Token" where
  "tokenFromXpubAddress p data ad changeIndex idx option =
     rbind (logged ([], False) (GetAddressesFromAddrDesc p (addrDesc_xa ad))) (\<lambda>(a, _).
     let withBalance = (option \<ge> AccountDetailsTokenBalances) in
     Inr \<lparr> Type_tk = XPUBAddressTokenType, Name_tk = (case a of [] \<Rightarrow> '''' | x # _ \<Rightarrow> x),
           Path_tk = basePath data @ ''/'' @ BigInt_String changeIndex @ ''/'' @ BigInt_String idx, Contract_tk = '''',
           Transfers = (case balance_xa ad of None \<Rightarrow> 0 | Some ba \<Rightarrow> uint (Txs_ab ba)), Symbol_tk = '''', Decimals_tk = AmountDecimals p,
           BalanceSat_tk = (case balance_xa ad of Some ba \<Rightarrow> if withBalance then Some (BalanceSat ba) else None | None \<Rightarrow> None),
           TotalReceivedSat_tk = (case balance_xa ad of Some ba \<Rightarrow> if withBalance then Some (ReceivedSat ba) else None | None \<Rightarrow> None),
           TotalSentSat_tk = (case balance_xa ad of Some ba \<Rightarrow> if withBalance then Some (SentSat ba) else None | None \<Rightarrow> None),
           ContractIndex = '''' \<rparr>)"

section \<open>The cache\<close>

type_synonym cachedXpubs = "(string, xpubData) gomap"

text \<open>One entry of the loop over the cache; the state is the cache, the oldest key and its time. The loop ranges over the entries that
  were there when it started.\<close>

definition evictItem :: "int \<Rightarrow> string \<times> xpubData \<Rightarrow> cachedXpubs \<times> string \<times> int \<Rightarrow> cachedXpubs \<times> string \<times> int" where
  "evictItem now = (\<lambda>(k, v) (cache, oldestKey, oldest).
     let cache = (if accessed v + xpubCacheExpirationSeconds < now then AList.delete k cache else cache) in
     if accessed v < oldest then (cache, k, accessed v) else (cache, oldestKey, oldest))"

definition evictXpubCacheItems :: "int \<Rightarrow> cachedXpubs \<Rightarrow> cachedXpubs" where
  "evictXpubCacheItems now cache =
     (let (cache', oldestKey, oldest) = fold (evictItem now) cache (cache, '''', 2 ^ 63 - 1) in
      if oldestKey \<noteq> '''' \<and> oldest + xpubCacheExpirationSeconds \<ge> now then AList.delete oldestKey cache' else cache')"

definition storeXpub :: "int \<Rightarrow> string \<Rightarrow> xpubData \<Rightarrow> cachedXpubs \<Rightarrow> cachedXpubs" where
  "storeXpub now xpub data cache =
     AList.update xpub data (if length cache \<ge> xpubCacheSize then evictXpubCacheItems now cache else cache)"

section \<open>The data of a key\<close>

definition normGap :: "int \<Rightarrow> int" where
  "normGap g = (if g \<le> 0 then defaultAddressesGap else if g > maxAddressesGap then maxAddressesGap else g) + 1"

text \<open>The start of a round: new data when there is none for this gap, otherwise a check that the block of the data is still there.\<close>

definition startData :: "'s packages \<Rightarrow> 's RocksDB \<Rightarrow> string \<Rightarrow> int \<Rightarrow> bool \<Rightarrow> xpubData \<Rightarrow> go_error + (xpubData \<times> bool)" where
  "startData E d xpub g found data =
     (if \<not> found \<or> gap data \<noteq> g then
        rbind (logged ''unknown'' (DerivationBasePath (chainParser d) xpub)) (\<lambda>path.
        Inr ((newXpubData g)\<lparr> basePath := path \<rparr>, False))
      else
        rbind (GetBlockHash E (dataHeight data) d) (\<lambda>hash. Inr (data, hash \<noteq> dataHash data)))"

definition refreshData ::
    "nat \<Rightarrow> 's packages \<Rightarrow> 's RocksDB \<Rightarrow> string \<Rightarrow> int \<Rightarrow> uint32 \<Rightarrow> string \<Rightarrow> bool \<Rightarrow> xpubData \<Rightarrow> go_error + xpubData" where
  "refreshData k E d xpub g bestheight besthash fork data =
     (if dataHeight data < bestheight \<or> fork then
        let data = data\<lparr> dataHeight := bestheight, dataHash := besthash, balanceSat := 0, sentSat := 0, txCountEstimate := 0 \<rparr> in
        rbind (xpubScanAddresses k E d xpub data (addresses data) g 0 0 fork) (\<lambda>(lastUsedIndex, data, ads).
        let data = data\<lparr> addresses := ads \<rparr> in
        rbind (xpubScanAddresses k E d xpub data (changeAddresses data) g 1 (int lastUsedIndex) fork) (\<lambda>(_, data, ads).
        Inr (data\<lparr> changeAddresses := ads \<rparr>)))
      else Inr data)"

definition xpubRound ::
    "nat \<Rightarrow> ('s, 'c) api_env \<Rightarrow> string \<Rightarrow> AccountDetails \<Rightarrow> int \<Rightarrow> uint32 \<Rightarrow> string \<Rightarrow> bool \<Rightarrow> xpubData \<Rightarrow> ('s, 'c) Worker \<Rightarrow> go_error + xpubData" where
  "xpubRound k A xpub option g bestheight besthash found data w =
     rbind (startData (pk A) (db_w w) xpub g found data) (\<lambda>(data, fork).
     rbind (refreshData k (pk A) (db_w w) xpub g bestheight besthash fork data) (\<lambda>data.
     if option \<ge> AccountDetailsTxidHistory then
       rbind (rmap (xpubCheckAndLoadTxids A bestheight w) (addresses data)) (\<lambda>as.
       rbind (rmap (xpubCheckAndLoadTxids A bestheight w) (changeAddresses data)) (\<lambda>cs.
       Inr (data\<lparr> addresses := as, changeAddresses := cs \<rparr>)))
     else Inr data))"

text \<open>
  Loading takes time and a block may be connected meanwhile, so the code repeats the round until the best block is the one it has processed.
  The list holds what other goroutines do to the database before each check; the loop ends at the latest when nobody has changed it between two checks.
\<close>

fun xpubLoop ::
    "('s RocksDB \<Rightarrow> 's RocksDB) list \<Rightarrow> nat \<Rightarrow> ('s, 'c) api_env \<Rightarrow> string \<Rightarrow> AccountDetails \<Rightarrow> int \<Rightarrow> string \<Rightarrow> bool \<Rightarrow> xpubData \<Rightarrow>
     (('s, 'c) Worker, xpubData \<times> uint32) action" where
  "xpubLoop [] k A xpub option g processedHash found data = throw (Hang ''getXpubData'')"
| "xpubLoop (others # os) k A xpub option g processedHash found data = (\<lambda>w.
     let w = w\<lparr> txCache := (txCache w)\<lparr> db_tc := others (db_w w) \<rparr> \<rparr> in
     abind (annotated ''GetBestBlock'' (queryDB (GetBestBlock (pk A)))) (\<lambda>(bestheight, besthash).
     if besthash = processedHash then ret (data, bestheight)
     else
       abind (query (xpubRound k A xpub option g bestheight besthash found data)) (\<lambda>data.
       xpubLoop os k A xpub option g besthash found data)) w)"

definition getXpubData ::
    "('s RocksDB \<Rightarrow> 's RocksDB) list \<Rightarrow> nat \<Rightarrow> ('s, 'c) api_env \<Rightarrow> string \<Rightarrow> AccountDetails \<Rightarrow> int \<Rightarrow>
     (('s, 'c) Worker \<times> cachedXpubs, xpubData \<times> uint32) action" where
  "getXpubData os k A xpub option g = (\<lambda>(w, cache).
     if chainType_w w \<noteq> ChainBitcoinType \<or> length xpub \<noteq> xpubLen then (Inl ErrUnsupportedXpub, (w, cache))
     else
       let (found, data) = (case map_of cache xpub of Some data \<Rightarrow> (True, data) | None \<Rightarrow> (False, newXpubData 0)) in
       case xpubLoop os k A xpub option (normGap g) '''' found data w of
         (Inl e, w) \<Rightarrow> (Inl e, (w, cache))
       | (Inr (data, bestheight), w) \<Rightarrow>
           let data = data\<lparr> accessed := Now (pk A) \<rparr> in
           (Inr (data, bestheight), (w, storeXpub (Now (pk A)) xpub data cache)))"

section \<open>Answers\<close>

text \<open>\<open>GetXpubAddress\<close>: the filter, the transactions of the mempool, the confirmed ones, the tokens.\<close>

definition isFiltered :: "AddressFilter \<Rightarrow> bool" where
  "isFiltered f \<longleftrightarrow> \<not> (FromHeight f = 0 \<and> ToHeight f = 0 \<and> Vout_f f = AddressFilterVoutOff)"

definition txidFilter :: "AddressFilter \<Rightarrow> xpubTxid \<Rightarrow> bool" where
  "txidFilter f txid \<longleftrightarrow>
     (if isFiltered f then
        \<not> (height_xt txid < FromHeight f \<or> height_xt txid > (if ToHeight f \<noteq> 0 then ToHeight f else maxUint32)) \<and>
        \<not> (Vout_f f \<noteq> AddressFilterVoutOff \<and>
           (Vout_f f = AddressFilterVoutInputs \<and> inputOutput txid AND txInput = 0 \<or>
            Vout_f f = AddressFilterVoutOutputs \<and> inputOutput txid AND txOutput = 0))
      else True)"

record xpubMempool =
  txmMap :: "(string, TxA) gomap"
  unconfirmedTxs_xm :: int
  uBalSat_xm :: int
  mempoolEntries :: MempoolTxidEntries

definition addXpubMempoolTx ::
    "('s, 'c) api_env \<Rightarrow> AddressFilter \<Rightarrow> int \<Rightarrow> AddressDescriptor \<Rightarrow> xpubTxid \<Rightarrow> xpubMempool \<Rightarrow> (('s, 'c) Worker, xpubMempool) action" where
  "addXpubMempoolTx A f page addrDesc txid m =
     (let foundTx = (map_of (txmMap m) (txid_xt txid) \<noteq> None) in
      abind (case map_of (txmMap m) (txid_xt txid) of
          Some tx \<Rightarrow> ret (Some tx)
        | None \<Rightarrow>
            abind (attempt (GetTransaction_w A (txid_xt txid) False False)) (\<lambda>r.
            ret (case r of Inr tx \<Rightarrow> Some tx | Inl _ \<Rightarrow> None))) (\<lambda>tx.
      case tx of
        None \<Rightarrow> ret m
      | Some tx \<Rightarrow>
          let m = m\<lparr> txmMap := (if foundTx then txmMap m else AList.update (txid_xt txid) tx (txmMap m)) \<rparr> in
          ret (if Confirmations_a tx = 0 then
                 m\<lparr> unconfirmedTxs_xm := unconfirmedTxs_xm m + (if foundTx then 0 else 1),
                    uBalSat_xm := uBalSat_xm m + getAddrVoutValue addrDesc tx - getAddrVinValue addrDesc tx,
                    mempoolEntries := mempoolEntries m @
                      (if page = 0 \<and> \<not> foundTx \<and> txidFilter f txid
                       then [\<lparr> Txid_me = txid_xt txid, Time_me = ucast (Blocktime_a tx) \<rparr>] else []) \<rparr>
               else m)))"

definition addXpubMempool ::
    "('s, 'c) api_env \<Rightarrow> AddressFilter \<Rightarrow> int \<Rightarrow> xpubAddress \<Rightarrow> xpubMempool \<Rightarrow> (('s, 'c) Worker, xpubMempool) action" where
  "addXpubMempool A f page ad m =
     abind (query (xpubGetAddressTxids A (addrDesc_xa ad) True 0 0 maxInt)) (\<lambda>(newTxids, _).
     afold (addXpubMempoolTx A f page (addrDesc_xa ad)) newTxids m)"

text \<open>\<open>sort.Sort\<close> by the strict order of the mempool entries; entries that are equal in it are equal.\<close>

definition sortEntries :: "MempoolTxidEntries \<Rightarrow> MempoolTxidEntries" where
  "sortEntries es = rev (sort_key (\<lambda>e. (Time_me e, Txid_me e)) es)"

text \<open>The confirmed transactions, each once; a transaction that did not pass the filter for one address is tried again for the next.\<close>

definition addConfirmed :: "AddressFilter \<Rightarrow> xpubTxid \<Rightarrow> (string, bool) gomap \<times> xpubTxid list \<Rightarrow> (string, bool) gomap \<times> xpubTxid list" where
  "addConfirmed f txid = (\<lambda>(txcMap, txc).
     if map_of txcMap (txid_xt txid) = Some True then (txcMap, txc)
     else (AList.update (txid_xt txid) (txidFilter f txid) txcMap, if txidFilter f txid then txc @ [txid] else txc))"

definition xpubTokens ::
    "BlockChainParser \<Rightarrow> AddressFilter \<Rightarrow> AccountDetails \<Rightarrow> xpubData \<Rightarrow> nat \<times> xpubAddress list \<Rightarrow> go_error + (Token list \<times> string list)" where
  "xpubTokens p f option data = (\<lambda>(ci, da).
     if option > AccountDetailsBasic then
       rbind (rmap (\<lambda>(i, ad).
         rbind (tokenFromXpubAddress p data ad (int ci) (int i) option) (\<lambda>token.
         Inr (if TokensToReturn_f f = TokensToReturnDerived \<or>
                 TokensToReturn_f f = TokensToReturnUsed \<and> balance_xa ad \<noteq> None \<or>
                 TokensToReturn_f f = TokensToReturnNonzeroBalance \<and> (\<exists>ba \<in> set_option (balance_xa ad). \<not> IsZeroBigInt (BalanceSat ba))
              then [token] else [], Name_tk token))) (enumerate 0 da)) (\<lambda>r.
       Inr (concat (map fst r), map snd r))
     else Inr ([], []))"

record XpubAddress = Address +
  UsedTokens :: nat
  XPubAddresses :: "string set"

definition onWorker :: "(('s, 'c) Worker, 'a) action \<Rightarrow> (('s, 'c) Worker \<times> cachedXpubs, 'a) action" where
  "onWorker m = (\<lambda>(w, cache). case m w of (r, w) \<Rightarrow> (r, (w, cache)))"

definition xpubUnconfirmed ::
    "('s, 'c) api_env \<Rightarrow> AddressFilter \<Rightarrow> int \<Rightarrow> xpubData \<Rightarrow> (('s, 'c) Worker, xpubMempool) action" where
  "xpubUnconfirmed A f page data =
     (let m = \<lparr> txmMap = [], unconfirmedTxs_xm = 0, uBalSat_xm = 0, mempoolEntries = [] \<rparr> in
      if ToHeight f = 0 \<and> \<not> OnlyConfirmed f
      then abind (afold (addXpubMempool A f page) (addresses data @ changeAddresses data) m) (\<lambda>m.
           ret (m\<lparr> mempoolEntries := sortEntries (mempoolEntries m) \<rparr>))
      else ret m)"

text \<open>The confirmed part of the answer: the paging, the number of transactions, and the ids or transactions of the page.\<close>

definition xpubHistory ::
    "('s, 'c) api_env \<Rightarrow> (xpubTxid list \<Rightarrow> xpubTxid list) \<Rightarrow> AddressFilter \<Rightarrow> int \<Rightarrow> int \<Rightarrow> AccountDetails \<Rightarrow> xpubData \<Rightarrow> uint32 \<Rightarrow>
     (('s, 'c) Worker, Paging \<times> int \<times> string list \<times> TxA list) action" where
  "xpubHistory A srt f page txsOnPage option data bestheight =
     (if option \<ge> AccountDetailsTxidHistory then
        let (txcMap, txc) = fold (addConfirmed f) (concat (map txids_xa (addresses data @ changeAddresses data))) ([], []);
            txc = srt txc;
            txCount = int (length txcMap);
            totalResults = (if isFiltered f then - 1 else txCount) in
        abind (query (\<lambda>_. computePaging (int (length txc)) page txsOnPage)) (\<lambda>(pg, from, to, page).
        abind (if int (length txc) \<ge> txsOnPage then
                 if totalResults < 0 then ret (pg\<lparr> TotalPages := - 1 \<rparr>)
                 else query (\<lambda>_. rbind (computePaging totalResults page txsOnPage) (\<lambda>(pg, _). Inr pg))
               else ret pg) (\<lambda>pg.
        abind (query (\<lambda>_. pageOf txc from to)) (\<lambda>shown.
        if option = AccountDetailsTxidHistory then ret (pg, txCount, map txid_xt shown, [])
        else abind (amap (\<lambda>t. txFromTxid A (txid_xt t) bestheight option None) shown) (\<lambda>txs. ret (pg, txCount, [], txs)))))
      else ret (zeroPaging, uint (txCountEstimate data), [], []))"

definition GetXpubAddress ::
    "('s RocksDB \<Rightarrow> 's RocksDB) list \<Rightarrow> nat \<Rightarrow> ('s, 'c) api_env \<Rightarrow> (xpubTxid list \<Rightarrow> xpubTxid list) \<Rightarrow> string \<Rightarrow> int \<Rightarrow> int \<Rightarrow> AccountDetails \<Rightarrow>
     AddressFilter \<Rightarrow> int \<Rightarrow> (('s, 'c) Worker \<times> cachedXpubs, XpubAddress) action" where
  "GetXpubAddress os k A srt xpub page txsOnPage option f g =
     abind (getXpubData os k A xpub option g) (\<lambda>(data, bestheight).
     onWorker (\<lambda>w.
       let p = chainParser_w w; page = pageIndex page in
       abind (xpubUnconfirmed A f page data) (\<lambda>m.
       abind (xpubHistory A srt f page txsOnPage option data bestheight) (\<lambda>(pg, txCount, txids, txs).
       abind (query (\<lambda>_. rmap (xpubTokens p f option data) (enumerate 0 [addresses data, changeAddresses data]))) (\<lambda>tokens.
       ret \<lparr> Paging_ad = pg, AddrStr = xpub, BalanceSat_ad = balanceSat data, TotalReceivedSat_ad = Some (balanceSat data + sentSat data),
             TotalSentSat_ad = Some (sentSat data), UnconfirmedBalanceSat = uBalSat_xm m, UnconfirmedTxs = unconfirmedTxs_xm m, Txs_ad = txCount,
             NonTokenTxs = 0,
             Transactions_ad = (if option \<ge> AccountDetailsTxHistoryLight
               then List.map_filter (\<lambda>e. map_of (txmMap m) (Txid_me e)) (mempoolEntries m) else []) @ txs,
             Txids_ad = (if option = AccountDetailsTxidHistory then map Txid_me (mempoolEntries m) else []) @ txids,
             Nonce_ad = '''', Tokens_ad = concat (map fst tokens), Erc20Contract_ad = None,
             UsedTokens = length (filter (\<lambda>ad. balance_xa ad \<noteq> None) (addresses data @ changeAddresses data)),
             XPubAddresses = set (concat (map snd tokens)) \<rparr>))) w))"

text \<open>\<open>GetXpubUtxo\<close>. The outputs of an address carry its name and path.\<close>

definition xpubAddressUtxo ::
    "('s, 'c) api_env \<Rightarrow> xpubData \<Rightarrow> bool \<Rightarrow> nat \<Rightarrow> nat \<times> xpubAddress \<Rightarrow> (('s, 'c) Worker, UtxoA list) action" where
  "xpubAddressUtxo A data onlyConfirmed ci = (\<lambda>(i, ad).
     if balance_xa ad = None \<and> onlyConfirmed then ret []
     else
       abind (getAddrDescUtxo A (addrDesc_xa ad) (balance_xa ad) onlyConfirmed (balance_xa ad = None)) (\<lambda>utxos.
       if utxos = [] then ret []
       else
         abind (query (\<lambda>w. tokenFromXpubAddress (chainParser_w w) data ad (int ci) (int i) AccountDetailsTokens)) (\<lambda>t.
         ret (map (\<lambda>a. a\<lparr> Address_ua := Name_tk t, Path_ua := Path_tk t \<rparr>) utxos))))"

definition GetXpubUtxo ::
    "('s RocksDB \<Rightarrow> 's RocksDB) list \<Rightarrow> nat \<Rightarrow> ('s, 'c) api_env \<Rightarrow> (UtxoA list \<Rightarrow> UtxoA list) \<Rightarrow> string \<Rightarrow> bool \<Rightarrow> int \<Rightarrow>
     (('s, 'c) Worker \<times> cachedXpubs, UtxoA list) action" where
  "GetXpubUtxo os k A srt xpub onlyConfirmed g =
     abind (getXpubData os k A xpub AccountDetailsBasic g) (\<lambda>(data, _).
     onWorker (
       abind (amap (xpubAddressUtxo A data onlyConfirmed 0) (enumerate 0 (addresses data))) (\<lambda>us.
       abind (amap (xpubAddressUtxo A data onlyConfirmed 1) (enumerate 0 (changeAddresses data))) (\<lambda>cs.
       ret (srt (concat us @ concat cs))))))"

section \<open>What a scan finds\<close>

text \<open>
  What the scan relies on from a parser: the addresses of a range are the addresses of its indexes, one by one.
\<close>

locale xpub_parser =
  fixes p :: BlockChainParser and desc :: "string \<Rightarrow> uint32 \<Rightarrow> uint32 \<Rightarrow> AddressDescriptor"
  assumes DeriveFromTo: "DeriveAddressDescriptorsFromTo p xpub c f t = Inr ds \<Longrightarrow>
    f < t \<and> ds = map (\<lambda>i. desc xpub c (f + of_nat i)) [0..<unat t - unat f]"

text \<open>The bitcoin parser meets it, and with it the skyr parser, which has its derivation.\<close>

definition derivedDesc :: "('a, 'k) bitcoin_packages \<Rightarrow> BitcoinParser \<Rightarrow> string \<Rightarrow> uint32 \<Rightarrow> uint32 \<Rightarrow> AddressDescriptor" where
  "derivedDesc B p xpub c i = projr (rbind (NewKeyFromString B xpub) (\<lambda>k. rbind (Child B k c) (\<lambda>ck. deriveIndex B p ck i)))"

lemma deriveFrom_Inr:
  "deriveFrom B p ck f t = Inr ds \<Longrightarrow> f < t \<Longrightarrow>
   ds = map (\<lambda>i. projr (deriveIndex B p ck (f + of_nat i))) [0..<unat t - unat f]"
proof (induction B p ck f t arbitrary: ds rule: deriveFrom.induct)
  case (1 B p ck f t)
  from "1.prems" obtain ad ads where d: "deriveIndex B p ck f = Inr ad" "deriveFrom B p ck (f + 1) t = Inr ads" "ds = ad # ads"
    by (subst (asm) deriveFrom.simps) (auto simp: rbind_eq_Inr_iff)
  have u: "unat (f + 1) = Suc (unat f)" using "1.prems"(2) by (rule unat_Suc_less)
  have len: "unat t - unat f = Suc (unat t - unat (f + 1))" using "1.prems"(2) u by (simp add: word_less_nat_alt)
  have "ads = map (\<lambda>i. projr (deriveIndex B p ck (f + 1 + of_nat i))) [0..<unat t - unat (f + 1)]"
  proof (cases "f + 1 < t")
    case True
    then show ?thesis using "1.IH"[OF "1.prems"(2) d(1,2)] by simp
  next
    case False
    then have "unat t - unat (f + 1) = 0" by (simp add: word_less_nat_alt not_less)
    then show ?thesis using False d(2) by (subst (asm) deriveFrom.simps) simp
  qed
  then show ?case unfolding d(3) len by (simp add: d(1) map_upt_Suc ac_simps del: upt_Suc)
qed

interpretation btc_xpub: xpub_parser "bitcoinMethods B v P p f" "derivedDesc B p" for B v P p f
proof unfold_locales
  fix xpub c lo hi ds
  assume "DeriveAddressDescriptorsFromTo (bitcoinMethods B v P p f) xpub c lo hi = Inr ds"
  then obtain k ck where "\<not> hi \<le> lo" "NewKeyFromString B xpub = Inr k" "Child B k c = Inr ck" "deriveFrom B p ck lo hi = Inr ds"
    by (auto simp: bitcoinMethods_def DeriveAddressDescriptorsFromTo_btc_def rbind_eq_Inr_iff split: if_splits)
  then show "lo < hi \<and> ds = map (\<lambda>i. derivedDesc B p xpub c (lo + of_nat i)) [0..<unat hi - unat lo]"
    using deriveFrom_Inr[of B p ck lo hi ds] by (simp add: derivedDesc_def)
qed

interpretation skyr_xpub: xpub_parser "NewSkyrParser B v P params c" "derivedDesc (bitcoin_packages.truncate B) (NewBitcoinParser c)" for B v P params c
proof unfold_locales
  fix xpub ch lo hi ds
  let ?B = "bitcoin_packages.truncate B"
  assume "DeriveAddressDescriptorsFromTo (NewSkyrParser B v P params c) xpub ch lo hi = Inr ds"
  then have "DeriveAddressDescriptorsFromTo (bitcoinMethods ?B v P (NewBitcoinParser c) (skyrAddresses B params)) xpub ch lo hi = Inr ds"
    by (simp add: NewSkyrParser_def Let_def)
  then show "lo < hi \<and> ds = map (\<lambda>i. derivedDesc ?B (NewBitcoinParser c) xpub ch (lo + of_nat i)) [0..<unat hi - unat lo]"
    by (rule btc_xpub.DeriveFromTo)
qed

text \<open>An address is used when it has a balance record. \<open>scanned\<close>: the balances are the stored ones.\<close>

definition used :: "xpubAddress \<Rightarrow> bool" where
  "used ad \<longleftrightarrow> balance_xa ad \<noteq> None"

definition scanned :: "'s packages \<Rightarrow> 's RocksDB \<Rightarrow> xpubAddress list \<Rightarrow> bool" where
  "scanned E d ads \<longleftrightarrow>
     list_all (\<lambda>ad. GetAddrDescBalance E (addrDesc_xa ad) AddressBalanceDetailUTXO d = Inr (balance_xa ad)) ads"

definition balances :: "xpubAddress list \<Rightarrow> AddrBalance list" where
  "balances ads = List.map_filter balance_xa ads"

definition addTotals :: "xpubAddress list \<Rightarrow> xpubData \<Rightarrow> xpubData" where
  "addTotals ads data = data\<lparr> txCountEstimate := txCountEstimate data + sum_list (map Txs_ab (balances ads)),
     sentSat := sentSat data + sum_list (map SentSat (balances ads)), balanceSat := balanceSat data + sum_list (map BalanceSat (balances ads)) \<rparr>"

fun lastUsedFrom :: "nat \<Rightarrow> nat \<Rightarrow> xpubAddress list \<Rightarrow> nat" where
  "lastUsedFrom i l [] = l"
| "lastUsedFrom i l (ad # ads) = lastUsedFrom (Suc i) (if used ad then i else l) ads"

lemma lastUsedFrom_append [simp]: "lastUsedFrom i l (xs @ ys) = lastUsedFrom (i + length xs) (lastUsedFrom i l xs) ys"
  by (induction xs arbitrary: i l) simp_all

lemma lastUsedFrom_cases:
  obtains (none) "lastUsedFrom i l ads = l" "\<not> list_ex used ads"
  | (some) j where "j < length ads" "lastUsedFrom i l ads = i + j" "used (ads ! j)" "\<not> list_ex used (drop (Suc j) ads)"
proof (induction ads arbitrary: i l thesis)
  case (Cons ad ads)
  show ?case
    by (rule Cons.IH[of "Suc i" "if used ad then i else l"]) (use Cons.prems(1) Cons.prems(2)[of 0] Cons.prems(2)[of "Suc _"] in \<open>auto split: if_splits\<close>)
qed simp

lemma balances_simps [simp]:
  "balances [] = []"
  "balances (ad # ads) = (case balance_xa ad of None \<Rightarrow> balances ads | Some ba \<Rightarrow> ba # balances ads)"
  "balances (xs @ ys) = balances xs @ balances ys"
  by (simp_all add: balances_def map_filter_def split: option.splits)

lemma addTotals_simps [simp]:
  "addTotals [] data = data"
  "addTotals (xs @ ys) data = addTotals ys (addTotals xs data)"
  by (simp_all add: addTotals_def ac_simps split: option.splits)

lemma scanned_simps [simp]:
  "scanned E d []"
  "scanned E d (ad # ads) \<longleftrightarrow> GetAddrDescBalance E (addrDesc_xa ad) AddressBalanceDetailUTXO d = Inr (balance_xa ad) \<and> scanned E d ads"
  "scanned E d (xs @ ys) \<longleftrightarrow> scanned E d xs \<and> scanned E d ys"
  by (simp_all add: scanned_def)

lemma addTotals_Cons: "addTotals (ad # ads) data = addTotals ads (addTotals [ad] data)"
  using addTotals_simps(2)[of "[ad]" ads] by simp

lemma xpubDerivedAddressBalance_eq:
  "xpubDerivedAddressBalance E d data ad =
   rbind (GetAddrDescBalance E (addrDesc_xa ad) AddressBalanceDetailUTXO d) (\<lambda>ba.
   Inr (ba \<noteq> None, addTotals [ad\<lparr> balance_xa := ba \<rparr>] data, ad\<lparr> balance_xa := ba \<rparr>))"
  by (auto simp: xpubDerivedAddressBalance_def addTotals_def split: option.splits intro!: rbind_cong)

lemma scanBalances_Inr:
  "scanBalances E d i l data ads = Inr (l', data', ads') \<Longrightarrow>
   scanned E d ads' \<and> map addrDesc_xa ads' = map addrDesc_xa ads \<and> l' = lastUsedFrom i l ads' \<and> data' = addTotals ads' data"
proof (induction ads arbitrary: i l data l' data' ads')
  case (Cons ad ads)
  from Cons.prems obtain ba ads1 where
    ba: "GetAddrDescBalance E (addrDesc_xa ad) AddressBalanceDetailUTXO d = Inr ba" and
    rest: "scanBalances E d (Suc i) (if ba \<noteq> None then i else l) (addTotals [ad\<lparr> balance_xa := ba \<rparr>] data) ads = Inr (l', data', ads1)" and
    eq: "ads' = ad\<lparr> balance_xa := ba \<rparr> # ads1"
    by (auto simp: rbind_eq_Inr_iff xpubDerivedAddressBalance_eq if_distrib cong: if_cong)
  show ?case using Cons.IH[OF rest] ba by (auto simp: eq used_def addTotals_Cons[of _ ads1])
qed simp

text \<open>The addresses are those with the first indexes.\<close>

definition derivedBy :: "(uint32 \<Rightarrow> AddressDescriptor) \<Rightarrow> xpubAddress list \<Rightarrow> bool" where
  "derivedBy desc ads \<longleftrightarrow> map addrDesc_xa ads = map (\<lambda>i. desc (of_nat i)) [0..<length ads]"

lemma derivedBy_append:
  assumes "derivedBy desc ads" "map addrDesc_xa new = map (\<lambda>i. desc (of_nat (length ads) + of_nat i)) [0..<n]"
  shows "derivedBy desc (ads @ new)"
proof -
  have n: "length new = n" using arg_cong[OF assms(2), of length] by simp
  have "map (\<lambda>i. desc (of_nat (length ads) + of_nat i)) [0..<n] = map (\<lambda>i. desc (of_nat i)) [length ads..<length ads + n]"
    by (rule nth_equalityI) (simp_all add: add.commute)
  then show ?thesis using assms unfolding derivedBy_def by (simp add: n upt_add_eq_append[of 0 "length ads" n])
qed

context xpub_parser
begin

lemma deriveMissing_Inr:
  "deriveMissing k E d xpub g c mn l data ads = Inr (l', data', ads') \<Longrightarrow> chainParser d = p \<Longrightarrow>
   scanned E d ads \<Longrightarrow> derivedBy (desc xpub (of_int c)) ads \<Longrightarrow> l = lastUsedFrom 0 0 ads \<Longrightarrow>
   scanned E d ads' \<and> derivedBy (desc xpub (of_int c)) ads' \<and> l' = lastUsedFrom 0 0 ads' \<and> int l' + g \<le> int (length ads') \<and>
   take (length ads) ads' = ads \<and> data' = addTotals (drop (length ads) ads') data"
proof (induction k arbitrary: l data ads)
  case (Suc k)
  show ?case
  proof (cases "int (length ads) - int l < g")
    case False
    then show ?thesis using Suc.prems by (auto simp: Let_def)
  next
    case True
    then obtain hi ds l1 data1 new where
      ds: "DeriveAddressDescriptorsFromTo p xpub (of_int c) (of_nat (length ads)) hi = Inr ds" and
      sc: "scanBalances E d (length ads) l data (map newXpubAddress ds) = Inr (l1, data1, new)" and
      rest: "deriveMissing k E d xpub g c mn l1 data1 (ads @ new) = Inr (l', data', ads')"
      using Suc.prems(1,2) by (auto simp: Let_def rbind_eq_Inr_iff)
    note new = scanBalances_Inr[OF sc]
    have "map addrDesc_xa new = map (\<lambda>i. desc xpub (of_int c) (of_nat (length ads) + of_nat i)) [0..<unat hi - unat (of_nat (length ads) :: uint32)]"
      using new DeriveFromTo[OF ds] by (simp add: newXpubAddress_def comp_def)
    then have "derivedBy (desc xpub (of_int c)) (ads @ new)" by (rule derivedBy_append[OF Suc.prems(4)])
    note IH = Suc.IH[OF rest Suc.prems(2) _ this]
    then have r: "take (length (ads @ new)) ads' = ads @ new" "data' = addTotals (drop (length (ads @ new)) ads') data1"
      using new Suc.prems(3,5) by auto
    from r(1) obtain ys where ys: "ads' = ads @ new @ ys" by (metis append.assoc append_take_drop_id)
    show ?thesis using IH new Suc.prems(3,5) r(2) by (auto simp: ys)
  qed
qed simp

lemma xpubScanAddresses_Inr:
  assumes "xpubScanAddresses k E d xpub data ads g c mn fork = Inr (l, data', ads')" "chainParser d = p"
    and "derivedBy (desc xpub (of_int c)) ads"
  shows "scanned E d ads' \<and> derivedBy (desc xpub (of_int c)) ads' \<and> l = lastUsedFrom 0 0 ads' \<and> int l + g \<le> int (length ads') \<and>
    data' = addTotals ads' data"
proof -
  from assms(1) obtain l1 data1 ads1 where
    sc: "scanBalances E d 0 0 data (if fork then map resetAddress ads else ads) = Inr (l1, data1, ads1)" and
    dm: "deriveMissing k E d xpub g c mn l1 data1 ads1 = Inr (l, data', ads')"
    by (auto simp: xpubScanAddresses_def rbind_eq_Inr_iff)
  note s = scanBalances_Inr[OF sc]
  then have "map addrDesc_xa ads1 = map addrDesc_xa ads" by (simp add: resetAddress_def comp_def)
  moreover from this have "length ads1 = length ads" by (metis length_map)
  ultimately have der: "derivedBy (desc xpub (of_int c)) ads1" using assms(3) by (simp add: derivedBy_def)
  note r = deriveMissing_Inr[OF dm assms(2) _ der]
  then obtain ys where "ads' = ads1 @ ys" using s by (metis append_take_drop_id)
  then show ?thesis using r s by auto
qed

end

text \<open>C33: 
  The result of a scan for a bitcoin parser, whatever the cached addresses were refreshed from: the addresses are those of the first indexes with their stored balances,
  the returned index is the last used one, at least \<open>gap - 1\<close> unused addresses follow it, and the totals of the key have grown by exactly the balances of its addresses.
\<close>

theorem xpub_scan_finds_gap:
  assumes "xpubScanAddresses k E d xpub data ads g c mn fork = Inr (l, data', ads')"
    and "chainParser d = bitcoinMethods B v P p f" and "derivedBy (derivedDesc B p xpub (of_int c)) ads"
  shows "derivedBy (derivedDesc B p xpub (of_int c)) ads' \<and> scanned E d ads' \<and>
    (l = 0 \<or> used (ads' ! l)) \<and> (\<forall>i < length ads'. i > l \<longrightarrow> \<not> used (ads' ! i)) \<and> int l + g \<le> int (length ads') \<and>
    balanceSat data' = balanceSat data + sum_list (map BalanceSat (balances ads')) \<and>
    sentSat data' = sentSat data + sum_list (map SentSat (balances ads')) \<and>
    txCountEstimate data' = txCountEstimate data + sum_list (map Txs_ab (balances ads'))"
proof -
  note r = btc_xpub.xpubScanAddresses_Inr[OF assms]
  have "(l = 0 \<or> used (ads' ! l)) \<and> (\<forall>i < length ads'. i > l \<longrightarrow> \<not> used (ads' ! i))"
  proof (cases rule: lastUsedFrom_cases[of 0 0 ads'])
    case none
    then show ?thesis using r by (auto simp: list_ex_length)
  next
    case (some j)
    have "\<not> used (ads' ! i)" if "i < length ads'" "j < i" for i
      using some(4) that nth_drop[of "Suc j" ads' "i - Suc j"] by (auto simp: list_ex_length dest: spec[of _ "i - Suc j"])
    then show ?thesis using some r by auto
  qed
  with r show ?thesis by (simp add: addTotals_def)
qed

section \<open>A scan ends\<close>

text \<open>
  A key whose addresses are unused from index \<open>N\<close> on. The parser derives every range, and every balance can be read.
\<close>

definition derivesAll :: "BlockChainParser \<Rightarrow> string \<Rightarrow> uint32 \<Rightarrow> (uint32 \<Rightarrow> AddressDescriptor) \<Rightarrow> bool" where
  "derivesAll p xpub c desc \<longleftrightarrow> (\<forall>lo hi. lo < hi \<longrightarrow>
     DeriveAddressDescriptorsFromTo p xpub c lo hi = Inr (map (\<lambda>i. desc (lo + of_nat i)) [0..<unat hi - unat lo]))"

definition usedBelow :: "nat \<Rightarrow> 's packages \<Rightarrow> 's RocksDB \<Rightarrow> (uint32 \<Rightarrow> AddressDescriptor) \<Rightarrow> bool" where
  "usedBelow N E d desc \<longleftrightarrow> (\<forall>i. \<exists>r. GetAddrDescBalance E (desc i) AddressBalanceDetailUTXO d = Inr r \<and> (r \<noteq> None \<longrightarrow> unat i < N))"

lemma scanBalances_returns:
  "(\<And>ad. ad \<in> set ads \<Longrightarrow> \<exists>r. GetAddrDescBalance E (addrDesc_xa ad) AddressBalanceDetailUTXO d = Inr r) \<Longrightarrow>
   \<exists>l' data' ads'. scanBalances E d i l data ads = Inr (l', data', ads')"
proof (induction ads arbitrary: i l data)
  case (Cons ad ads)
  then obtain r where "GetAddrDescBalance E (addrDesc_xa ad) AddressBalanceDetailUTXO d = Inr r" by fastforce
  moreover obtain l' data' ads' where "scanBalances E d (Suc i) (if r \<noteq> None then i else l) (addTotals [ad\<lparr> balance_xa := r \<rparr>] data) ads = Inr (l', data', ads')"
    using Cons by fastforce
  ultimately show ?case by (simp add: xpubDerivedAddressBalance_eq)
qed simp

lemma usedBelow_readable: "usedBelow N E d desc \<Longrightarrow> \<exists>r. GetAddrDescBalance E (desc i) AddressBalanceDetailUTXO d = Inr r"
  unfolding usedBelow_def by blast

lemma derivedBy_readable:
  "usedBelow N E d desc \<Longrightarrow> derivedBy desc ads \<Longrightarrow> ad \<in> set ads \<Longrightarrow>
   \<exists>r. GetAddrDescBalance E (addrDesc_xa ad) AddressBalanceDetailUTXO d = Inr r"
  unfolding usedBelow_def derivedBy_def by (metis (no_types, lifting) ex_map_conv image_eqI image_set)

lemma lastUsed_below:
  assumes "scanned E d ads" "derivedBy desc ads" "usedBelow N E d desc" "length ads < 2 ^ 32"
  shows "lastUsedFrom 0 0 ads = 0 \<or> lastUsedFrom 0 0 ads < min N (length ads)"
proof (cases rule: lastUsedFrom_cases[of 0 0 ads])
  case (some j)
  have "addrDesc_xa (ads ! j) = desc (of_nat j)"
    using arg_cong[OF assms(2)[unfolded derivedBy_def], of "\<lambda>xs. xs ! j"] some(1) by simp
  moreover have "GetAddrDescBalance E (addrDesc_xa (ads ! j)) AddressBalanceDetailUTXO d = Inr (balance_xa (ads ! j))"
    using assms(1) some(1) by (simp add: scanned_def list_all_length)
  moreover have "unat (of_nat j :: uint32) = j" using some(1) assms(4) by (simp add: unat_of_nat)
  ultimately have "j < N" using assms(3) some(3) unfolding usedBelow_def used_def by (metis Inr_inject)
  then show ?thesis using some by simp
qed simp

lemma deriveMissing_step:
  assumes "int (length ads) - int l < g"
  shows "deriveMissing (Suc k) E d xpub g c mn l data ads =
    rbind (DeriveAddressDescriptorsFromTo (chainParser d) xpub (of_int c) (of_nat (length ads)) (of_int (max (int l + g) mn))) (\<lambda>ds.
    rbind (scanBalances E d (length ads) l data (map newXpubAddress ds)) (\<lambda>(l, data, new).
    deriveMissing k E d xpub g c mn l data (ads @ new)))"
proof -
  have "int (length ads) + g - (int (length ads) - int l) = int l + g" by simp
  moreover have "(if int l + g < mn then mn else int l + g) = max (int l + g) mn" by simp
  ultimately show ?thesis using assms by (simp only: deriveMissing.simps Let_def if_True simp_thms)
qed

lemma deriveMissing_returns:
  assumes "derivesAll (chainParser d) xpub (of_int c) desc" "usedBelow N E d desc" "int N + g < 2 ^ 32" "0 < g" "g < 2 ^ 32" "mn < 2 ^ 32"
  shows "scanned E d ads \<Longrightarrow> derivedBy desc ads \<Longrightarrow> l = lastUsedFrom 0 0 ads \<Longrightarrow> length ads < 2 ^ 32 \<Longrightarrow>
    g \<le> int (length ads) - int l \<and> 0 < k \<or> N - l + 2 \<le> k \<Longrightarrow> \<exists>r. deriveMissing k E d xpub g c mn l data ads = Inr r"
proof (induction k arbitrary: l data ads)
  case (Suc k)
  define t where "t = max (int l + g) mn"
  show ?case
  proof (cases "int (length ads) - int l < g")
    case True
    have l: "l = 0 \<or> l < min N (length ads)" using lastUsed_below[OF Suc.prems(1,2) assms(2) Suc.prems(4)] Suc.prems(3) by simp
    then have t: "int (length ads) < t" "t < 2 ^ 32" "0 \<le> t" using True assms by (auto simp: t_def)
    have unats: "unat (of_nat (length ads) :: uint32) = length ads" "unat (of_int t :: uint32) = nat t"
      using Suc.prems(4) t by (simp_all add: unat_of_nat unsigned_of_int take_bit_int_eq_self)
    then have ds: "DeriveAddressDescriptorsFromTo (chainParser d) xpub (of_int c) (of_nat (length ads)) (of_int t) =
        Inr (map (\<lambda>i. desc (of_nat (length ads) + of_nat i)) [0..<nat t - length ads])"
      using assms(1) t unfolding derivesAll_def by (simp add: word_less_nat_alt)
    let ?new = "map newXpubAddress (map (\<lambda>i. desc (of_nat (length ads) + of_nat i)) [0..<nat t - length ads])"
    have "\<exists>r. GetAddrDescBalance E (addrDesc_xa ad) AddressBalanceDetailUTXO d = Inr r" if "ad \<in> set ?new" for ad
      using that usedBelow_readable[OF assms(2)] by (auto simp: newXpubAddress_def)
    then obtain l1 data1 new where sc: "scanBalances E d (length ads) l data ?new = Inr (l1, data1, new)"
      using scanBalances_returns[of ?new E d "length ads" l data] by blast
    note new = scanBalances_Inr[OF sc]
    have len: "length new = nat t - length ads" using new by (metis length_map length_upt minus_nat.diff_0)
    have "map addrDesc_xa new = map (\<lambda>i. desc (of_nat (length ads) + of_nat i)) [0..<nat t - length ads]"
      using new by (simp add: newXpubAddress_def comp_def)
    then have der: "derivedBy desc (ads @ new)" by (rule derivedBy_append[OF Suc.prems(2)])
    have small: "length (ads @ new) < 2 ^ 32" and long: "int l + g \<le> int (length (ads @ new))" using len t by (auto simp: t_def)
    have l1: "l1 = lastUsedFrom 0 0 (ads @ new)" using new Suc.prems(3) by simp
    have below: "l1 = 0 \<or> l1 < N" using lastUsed_below[OF _ der assms(2) small] new Suc.prems(1) l1 by auto
    have "l1 = l \<or> l < l1" using l new by (cases rule: lastUsedFrom_cases[of "length ads" l new]) auto
    then have "g \<le> int (length (ads @ new)) - int l1 \<and> 0 < k \<or> N - l1 + 2 \<le> k"
      using long below True Suc.prems(5) by auto
    note fuel = this
    have "scanned E d (ads @ new)" using new Suc.prems(1) by simp
    then obtain r where "deriveMissing k E d xpub g c mn l1 data1 (ads @ new) = Inr r"
      using Suc.IH[OF _ der l1 small fuel] by blast
    then show ?thesis using deriveMissing_step[OF True, of k E d xpub c mn data, folded t_def] ds sc by (simp del: map_map deriveMissing.simps split_paired_Ex)
  qed (simp add: Let_def)
qed simp

lemma xpubScanAddresses_returns:
  assumes "derivesAll (chainParser d) xpub (of_int c) desc" "usedBelow N E d desc" "derivedBy desc ads" "length ads < 2 ^ 32"
    and "int N + g < 2 ^ 32" "0 < g" "g < 2 ^ 32" "mn < 2 ^ 32"
  shows "\<exists>l data' ads'. xpubScanAddresses (N + 2) E d xpub data ads g c mn fork = Inr (l, data', ads')"
proof -
  let ?ads = "if fork then map resetAddress ads else ads"
  have a: "map addrDesc_xa ?ads = map addrDesc_xa ads" "length ?ads = length ads" by (simp_all add: resetAddress_def comp_def)
  then have der: "derivedBy desc ?ads" using assms(3) by (simp add: derivedBy_def)
  obtain l data1 ads1 where sc: "scanBalances E d 0 0 data ?ads = Inr (l, data1, ads1)"
    using scanBalances_returns[of ?ads E d 0 0 data] derivedBy_readable[OF assms(2) der] by blast
  note s = scanBalances_Inr[OF sc]
  then have len: "length ads1 = length ads" using a by (metis length_map)
  then have "derivedBy desc ads1" using s a assms(3) unfolding derivedBy_def by simp
  then obtain r where "deriveMissing (N + 2) E d xpub g c mn l data1 ads1 = Inr r"
    using deriveMissing_returns[OF assms(1,2,5-8), of ads1 l "N + 2" data1] s len assms(4) by auto
  then show ?thesis using sc by (cases r) (simp add: xpubScanAddresses_def)
qed

text \<open>
  Scanning a key returns when only its first \<open>N\<close> addresses can be used and the parser and the database answer: \<open>N + 2\<close> rounds of the loop are enough.
\<close>

theorem xpub_scan_returns:
  assumes "derivesAll (chainParser d) xpub (of_int c) desc" "usedBelow N E d desc" "derivedBy desc ads" "length ads < 2 ^ 32"
    and "int N + g < 2 ^ 32" "0 < g" "g < 2 ^ 32" "mn < 2 ^ 32"
  shows "\<exists>l data' ads'. xpubScanAddresses (N + 2) E d xpub data ads g c mn fork = Inr (l, data', ads')"
  by (rule xpubScanAddresses_returns[OF assms])

text \<open>A key is the path of its indexes, and its address is this path; the second address of the external chain has a balance.\<close>

definition pathPackages :: "(bytes, uint32 list) bitcoin_packages" where
  "pathPackages = \<lparr> DecodeAddress = DecodeString, EncodeAddress = EncodeToString, PayToAddrScript = Inr, ExtractPkScriptAddrs = (\<lambda>s. Inr (OtherTy, [s])),
     ConvertP2PKtoP2PKH = Inr, IsCoinBaseTx = (\<lambda>_. False), TxHash = (\<lambda>_. ''ab''), DeserializeTx = (\<lambda>_. Inl (Errorf ''no transaction'')),
     DeserializeBlock = (\<lambda>_. Inl (Errorf ''no block'')), Hash160 = id, NewAddressScriptHashFromHash = Inr,
     NewAddressWitnessPubKeyHash = Inr, NewKeyFromString = (\<lambda>_. Inr []), Child = (\<lambda>k i. Inr (k @ [i])), KeyVersion = (\<lambda>_. 0),
     PubKeyBytes = (\<lambda>k. concat (map packUint k)), KeyAddress = (\<lambda>k. Inr (concat (map packUint k))), ChildNum = (\<lambda>_. 0), Depth = (\<lambda>_. 3) \<rparr>"

definition keyParser :: BitcoinParser where
  "keyParser = NewBitcoinParser \<lparr> BlockAddressesToKeep_c = 300, XPubMagic_c = 1, XPubMagicSegwitP2sh_c = 2, XPubMagicSegwitNative_c = 3, Slip44_c = 0 \<rparr>"

abbreviation keyMethods :: BlockChainParser where
  "keyMethods \<equiv> bitcoinMethods pathPackages base128
     \<lparr> parser_packages.UnmarshalTx = (\<lambda>_. notSupported), proto = \<lparr> Marshal = (\<lambda>_. notSupported), Unmarshal = (\<lambda>_. notSupported) \<rparr> \<rparr> keyParser (\<lambda>ad. Inr ([EncodeToString ad], True))"

definition keyBalance :: AddrBalance where
  "keyBalance = \<lparr> Txs_ab = 2, SentSat = 7, BalanceSat = 500,
     Utxos = [\<lparr> BtxID = replicate 32 2, Vout_u = 5, Height_u = 9, ValueSat_u = 500 \<rparr>], utxosMap = [] \<rparr>"

definition keyDB :: "mem RocksDB" where
  "keyDB = sampleDB\<lparr> db := (\<lambda>c. if c = cfAddressBalance then [(packUint 0 @ packUint 1, packAddrBalance base128 keyBalance)] else []), chainParser := keyMethods \<rparr>"

lemma deriveIndex_path: "deriveIndex pathPackages keyParser k i = Inr (concat (map packUint k) @ packUint i)"
  by (simp add: deriveIndex_def pathPackages_def addrDescFromExtKey_def keyParser_def NewBitcoinParser_def)

lemma derivedDesc_path: "derivedDesc pathPackages keyParser xpub c i = packUint c @ packUint i"
  by (simp add: derivedDesc_def pathPackages_def) (simp add: pathPackages_def[symmetric] deriveIndex_path)

lemma keyDB_derives: "derivesAll (chainParser keyDB) xpub c (\<lambda>i. packUint c @ packUint i)"
  unfolding derivesAll_def
proof (intro allI impI)
  fix lo hi :: uint32
  assume lt: "lo < hi"
  have "rmap (deriveIndex pathPackages keyParser [c]) (map of_nat [unat lo..<unat hi]) =
      Inr (map (\<lambda>i. packUint c @ packUint (lo + of_nat i)) [0..<unat hi - unat lo])"
  proof -
    have "map of_nat [unat lo..<unat hi] = map (\<lambda>i. lo + of_nat i) [0..<unat hi - unat lo]"
      by (rule nth_equalityI) simp_all
    moreover have "deriveIndex pathPackages keyParser [c] = (\<lambda>i. Inr (packUint c @ packUint i))" by (rule ext) (simp add: deriveIndex_path)
    ultimately show ?thesis by (simp add: comp_def)
  qed
  then have "deriveFrom pathPackages keyParser [c] lo hi = Inr (map (\<lambda>i. packUint c @ packUint (lo + of_nat i)) [0..<unat hi - unat lo])"
    by (simp only: rmap_deriveFrom)
  moreover have "NewKeyFromString pathPackages xpub = Inr []" "Child pathPackages [] c = Inr [c]" by (simp_all add: pathPackages_def)
  ultimately show "DeriveAddressDescriptorsFromTo (chainParser keyDB) xpub c lo hi =
      Inr (map (\<lambda>i. packUint c @ packUint (lo + of_nat i)) [0..<unat hi - unat lo])"
    using lt by (simp add: keyDB_def bitcoinMethods_def DeriveAddressDescriptorsFromTo_btc_def)
qed

lemma keyDB_balance:
  "GetAddrDescBalance memPackages (packUint 0 @ packUint i) AddressBalanceDetailUTXO keyDB = Inr (if i = 1 then Some keyBalance else None)"
proof (cases "i = 1")
  case True
  have "addrbalance_ok 32 keyBalance" by (simp add: addrbalance_ok_def utxo_ok_def amount_ok_64 keyBalance_def)
  from vlq_codec.unpackAddrBalance_packAddrBalance[OF base128.vlq_codec_axioms this] length_packAddrBalance[OF base128.vlq_codec_axioms, of keyBalance]
  have "GetAddrDescBalance memPackages (packUint 0 @ packUint 1) AddressBalanceDetailUTXO keyDB = Inr (Some keyBalance)"
    by (simp add: GetAddrDescBalance_def getData_def keyDB_def memdb_def not_less bitcoinMethods_def embedBaseParser_def PackedTxidLen_base_def
        unspent_def keyBalance_def)
  then show ?thesis using True by simp
next
  case False
  then have "packUint i \<noteq> packUint 1" by (metis Inr_inject append_Nil2 unpackUint_packUint_append)
  then show ?thesis using False by (simp add: GetAddrDescBalance_def getData_def keyDB_def memdb_def)
qed

lemma keyDB_usedBelow: "usedBelow 2 memPackages keyDB (\<lambda>i. packUint 0 @ packUint i)"
  unfolding usedBelow_def keyDB_balance by (auto simp: unat_arith_simps)

theorem xpub_scan_returns_witness:
  "\<exists>l data' ads'. xpubScanAddresses 4 memPackages keyDB ''xpub'' (newXpubData 3) [] 3 0 0 False = Inr (l, data', ads')"
  using xpub_scan_returns[of keyDB "''xpub''" 0 "\<lambda>i. packUint 0 @ packUint i" 2 memPackages "[]" 3 0 "newXpubData 3" False]
    keyDB_derives[of "''xpub''" 0] keyDB_usedBelow
  by (simp add: derivedBy_def)

theorem xpub_scan_finds_gap_witness:
  "\<exists>l data' ads'. xpubScanAddresses 4 memPackages keyDB ''xpub'' (newXpubData 3) [] 3 0 0 False = Inr (l, data', ads') \<and>
     1 \<le> l \<and> l + 3 \<le> length ads' \<and> used (ads' ! 1) \<and> \<not> used (ads' ! (l + 1)) \<and> \<not> used (ads' ! (l + 2))"
proof -
  obtain l data' ads' where r: "xpubScanAddresses 4 memPackages keyDB ''xpub'' (newXpubData 3) [] 3 0 0 False = Inr (l, data', ads')"
    using xpubScanAddresses_returns[of keyDB "''xpub''" 0 "\<lambda>i. packUint 0 @ packUint i" 2 memPackages "[]" 3 0 "newXpubData 3" False]
      keyDB_derives[of "''xpub''" 0] keyDB_usedBelow by (auto simp: derivedBy_def)
  have "chainParser keyDB = keyMethods" by (simp add: keyDB_def)
  note gap = xpub_scan_finds_gap[OF r this, unfolded derivedBy_def, simplified]
  have "balance_xa (ads' ! i) = (if of_nat i = (1 :: uint32) then Some keyBalance else None)" if i: "i < length ads'" for i
  proof -
    have "addrDesc_xa (ads' ! i) = packUint 0 @ packUint (of_nat i)"
      using gap i nth_map[of i ads' addrDesc_xa] by (simp add: derivedDesc_path)
    moreover have "GetAddrDescBalance memPackages (addrDesc_xa (ads' ! i)) AddressBalanceDetailUTXO keyDB = Inr (balance_xa (ads' ! i))"
      using gap i by (simp add: scanned_def list_all_length)
    ultimately show ?thesis by (simp add: keyDB_balance)
  qed
  note b = this
  have len: "l + 3 \<le> length ads'" using gap by simp
  then have "used (ads' ! 1)" using b[of 1] by (simp add: used_def)
  moreover from this have "1 \<le> l" using gap len by (metis One_nat_def add_leD2 less_Suc0 linorder_not_less numeral_3_eq_3 Suc_le_lessD Suc_leD)
  ultimately show ?thesis using r gap len by auto
qed

section \<open>The cache stays small\<close>

definition cacheOk :: "cachedXpubs \<Rightarrow> bool" where
  "cacheOk cache \<longleftrightarrow> length cache \<le> xpubCacheSize \<and> distinct (map fst cache) \<and>
     list_all (\<lambda>(k, v). k \<noteq> '''' \<and> accessed v < 2 ^ 63 - 1) cache"

abbreviation expired :: "int \<Rightarrow> xpubData \<Rightarrow> bool" where
  "expired now v \<equiv> accessed v + xpubCacheExpirationSeconds < now"

lemma fold_evictItem:
  "fold (evictItem now) xs (c, ok, old) = (c', ok', old') \<Longrightarrow>
   c' = filter (\<lambda>(k, _). k \<notin> fst ` set (filter (\<lambda>(_, v). expired now v) xs)) c \<and>
   (ok' = ok \<and> old' = old \<and> (\<forall>(k, v) \<in> set xs. old \<le> accessed v) \<or> (\<exists>v. (ok', v) \<in> set xs \<and> old' = accessed v))"
proof (induction xs arbitrary: c ok old)
  case Nil
  then show ?case by auto
next
  case (Cons x xs)
  obtain k v where x: "x = (k, v)" by force
  define c1 where "c1 = (if expired now v then AList.delete k c else c)"
  have c1: "c1 = filter (\<lambda>(k', _). \<not> (expired now v \<and> k' = k)) c"
    unfolding c1_def AList.delete_eq by (simp add: eq_commute)
  have "fold (evictItem now) xs (if accessed v < old then (c1, k, accessed v) else (c1, ok, old)) = (c', ok', old')"
    using Cons.prems by (simp add: x evictItem_def c1_def Let_def cong: if_cong)
  then have r: "fold (evictItem now) xs (c1, if accessed v < old then k else ok, if accessed v < old then accessed v else old) = (c', ok', old')"
    by (simp split: if_splits)
  from Cons.IH[OF r] show ?case
    unfolding c1 by (auto simp: x split: if_splits intro!: filter_cong)
qed

lemma length_evictXpubCacheItems:
  assumes "cacheOk cache" "cache \<noteq> []"
  shows "length (evictXpubCacheItems now cache) < length cache"
proof -
  obtain c' ok' old' where f: "fold (evictItem now) cache (cache, '''', 2 ^ 63 - 1) = (c', ok', old')" by (metis prod_cases3)
  note r = fold_evictItem[OF f]
  have le: "length c' \<le> length cache" using r by simp
  show ?thesis
  proof (cases "\<exists>(k, v) \<in> set cache. expired now v")
    case True
    then obtain k v where kv: "(k, v) \<in> set cache" "expired now v" by blast
    then have "k \<in> fst ` set (filter (\<lambda>(_, v). expired now v) cache)" by force
    then have "length c' < length cache" using r kv(1) by (auto intro!: length_filter_less)
    then show ?thesis using f by (simp add: evictXpubCacheItems_def AList.delete_eq le_less_trans[OF length_filter_le])
  next
    case False
    then have c': "c' = cache" using r by (auto simp: filter_id_conv)
    obtain k0 v0 where h: "(k0, v0) \<in> set cache" using assms(2) by (metis list.set_intros(1) neq_Nil_conv surj_pair)
    have "\<forall>(k, v) \<in> set cache. k \<noteq> '''' \<and> accessed v < 2 ^ 63 - 1" using assms(1) by (simp add: cacheOk_def list_all_iff)
    then obtain v where v: "(ok', v) \<in> set cache" "old' = accessed v" "ok' \<noteq> ''''" using r h by fastforce
    then have "old' + xpubCacheExpirationSeconds \<ge> now" using False by fastforce
    moreover have "length (AList.delete ok' cache) < length cache" unfolding AList.delete_eq using v(1) by (rule length_filter_less) simp
    ultimately show ?thesis using f v(3) by (simp add: evictXpubCacheItems_def c')
  qed
qed

lemma evictXpubCacheItems_filter: "\<exists>P. evictXpubCacheItems now cache = filter P cache"
proof -
  obtain c' ok' old' where f: "fold (evictItem now) cache (cache, '''', 2 ^ 63 - 1) = (c', ok', old')" by (metis prod_cases3)
  from fold_evictItem[OF f] obtain P where "c' = filter P cache" by blast
  then show ?thesis using f by (auto simp: evictXpubCacheItems_def AList.delete_eq)
qed

lemma cacheOk_filter: "cacheOk cache \<Longrightarrow> cacheOk (filter P cache)"
  unfolding cacheOk_def by (auto simp: distinct_map_filter list_all_iff intro: order_trans[OF length_filter_le])

lemma cacheOk_storeXpub:
  assumes "cacheOk cache" "xpub \<noteq> ''''" "accessed data < 2 ^ 63 - 1"
  shows "cacheOk (storeXpub now xpub data cache)"
proof -
  define c where "c = (if length cache \<ge> xpubCacheSize then evictXpubCacheItems now cache else cache)"
  have ok: "cacheOk c" using assms(1) evictXpubCacheItems_filter[of now cache] by (auto simp: c_def intro: cacheOk_filter)
  have "length c < xpubCacheSize"
    using assms(1) length_evictXpubCacheItems[OF assms(1), of now] by (cases cache) (auto simp: c_def cacheOk_def xpubCacheSize_def)
  moreover have "length (AList.update xpub data c) \<le> Suc (length c)" by (induction c) auto
  moreover have "set (AList.update xpub data c) \<subseteq> insert (xpub, data) (set c)" by (induction c) auto
  ultimately show ?thesis using ok assms(2,3) unfolding storeXpub_def c_def[symmetric]
    by (auto simp: cacheOk_def distinct_update list_all_iff)
qed

text \<open>
  The cache of extended keys never has more than 512 entries, and a key is there, with the data that was returned, after each successful request; a failed request
  leaves the cache as it was.
\<close>

theorem xpub_cache_bounded:
  assumes "cacheOk cache" "Now (pk A) < 2 ^ 63 - 1" "getXpubData os k A xpub option g (w, cache) = (r, w', cache')"
  shows "cacheOk cache' \<and> (case r of Inl _ \<Rightarrow> cache' = cache | Inr (data, _) \<Rightarrow> map_of cache' xpub = Some data)"
proof (cases "chainType_w w \<noteq> ChainBitcoinType \<or> length xpub \<noteq> xpubLen")
  case True
  then show ?thesis using assms by (auto simp: getXpubData_def)
next
  case False
  then have "xpub \<noteq> ''''" by (auto simp: xpubLen_def)
  then show ?thesis using False assms cacheOk_storeXpub[OF assms(1)]
    by (auto simp: getXpubData_def Let_def storeXpub_def[of _ _ _ cache] update_Some_unfold split: sum.splits prod.splits)
qed

theorem xpub_cache_bounded_witness:
  "cacheOk (snd (snd (getXpubData [id, id] 5 (plainEnv (\<lambda>_. zeroTx)) (replicate 111 CHR ''x'') AccountDetailsBasic 3
     (sampleW keyDB, [(''other'', newXpubData 21)]))))"
proof -
  let ?c = "[(''other'', newXpubData 21)]" and ?A = "plainEnv (\<lambda>_. zeroTx)" and ?x = "replicate 111 CHR ''x''"
  obtain r w' cache' where r: "getXpubData [id, id] 5 ?A ?x AccountDetailsBasic 3 (sampleW keyDB, ?c) = (r, w', cache')" by (metis prod_cases3)
  have "cacheOk ?c" by (simp add: cacheOk_def xpubCacheSize_def newXpubData_def)
  moreover have "Now (pk ?A) < 2 ^ 63 - 1" by (simp add: plainEnv_def)
  ultimately show ?thesis using xpub_cache_bounded[OF _ _ r] by (simp add: r)
qed

section \<open>Two outpoints of one mempool transaction\<close>

text \<open>
  The position that is remembered for a transaction of the mempool is the one before it, so a second outpoint of the first transaction
  of an address is looked up at position \<open>-1\<close>: the request panics.
\<close>

theorem xpub_mempool_panics:
  assumes "GetAddrDescTransactions_m addrDesc (mempool_w w) = a # b # ms" "Txid_op a = Txid_op b" "0 < maxResults"
  shows "xpubGetAddressTxids A addrDesc True fromHeight toHeight maxResults w = Inl (Panic ''index out of range'')"
  using assms by (simp add: xpubGetAddressTxids_def xpubMempoolTx_def xpubCallback_def)

theorem xpub_mempool_panics_witness:
  "xpubGetAddressTxids (plainEnv (\<lambda>_. zeroTx)) [1, 2] True 0 0 maxInt
     ((sampleW keyDB)\<lparr> mempool_w := newMempool\<lparr> addrDescToTx := [([1, 2], [\<lparr> Txid_op = ''ab'', Vout_op = 1 \<rparr>, \<lparr> Txid_op = ''ab'', Vout_op = 0 \<rparr>])] \<rparr> \<rparr>) =
   Inl (Panic ''index out of range'')"
  by (rule xpub_mempool_panics[where a = "\<lparr> Txid_op = ''ab'', Vout_op = 0 \<rparr>" and b = "\<lparr> Txid_op = ''ab'', Vout_op = 1 \<rparr>" and ms = "[]"])
    (simp_all add: GetAddrDescTransactions_m_def outpointsOf_def newMempool_def maxInt_def)

end
