(* ===== verification/Websocket.thy ===== *)
theory Websocket
  imports Xpub Complex_Main
begin

text \<open>
  The websocket server (\<open>server/websocket.go\<close>): channels, requests, subscriptions and broadcasts.

  A channel is identified by its position in the list of all channels that were opened; \<open>out\<close> is its buffered Go channel. Each operation is one step
  here; what happens when the goroutines of two operations interleave is the subject of \<open>Websocket_Locks\<close>. The calls of the back end and the decoding of JSON
  are parameters, the rest of a request is the code of the API worker. A result that Go holds as \<open>interface{}\<close> is a value of \<open>wsData\<close>; an error
  answer holds the error whose text is sent.

  The theorems: every request is answered exactly once on its channel and on no other; a closed channel gets
  nothing and has no subscriptions; subscribing to addresses replaces the former subscriptions; a new block is sent to exactly the subscribers that are alive.
\<close>

section \<open>Data\<close>

definition outChannelSize :: nat where "outChannelSize = 500"
definition txsOnPage_ws :: int where "txsOnPage_ws = 25"

record websocketReq =
  ID_req :: string
  Method_req :: string
  Params_req :: string

record estimateFeeRes =
  FeePerTx :: string
  FeePerUnit :: string
  FeeLimit :: string

record wsInfo =
  Name_i :: string
  Shortcut_i :: string
  Decimals_i :: int
  Version_i :: string
  BestHeight_i :: uint32
  BestHash_i :: string
  Block0Hash_i :: string
  Testnet_i :: bool

datatype wsData = AccountData XpubAddress | UtxoData "UtxoA list" | TxData TxA | SpecificData string | InfoData wsInfo | BlockHashData string
  | BlockData BlockA | FeeData "estimateFeeRes list" | SendData string | SubscriptionResponse bool
  | NewBlockData uint32 string | NewTxData string TxA | ErrorData go_error

record websocketRes =
  ID_res :: string
  Data_res :: wsData

record websocketChannel =
  id_ch :: uint64
  out_ch :: "websocketRes list"
  closed_ch :: bool
  alive_ch :: bool

type_synonym chan = nat

record ('s, 'c) WebsocketServer =
  api_ws :: "('s, 'c) Worker \<times> cachedXpubs"
  block0hash :: string
  connectionCounter :: uint64
  channels :: "websocketChannel list"
  newBlockSubscriptions :: "(chan, string) gomap"
  addressSubscriptions :: "(bytes, (chan, string) gomap) gomap"

record accountInfoReq =
  Descriptor :: string
  Details :: string
  Tokens_r :: string
  PageSize :: int
  Page_r :: int
  FromHeight_r :: int
  ToHeight_r :: int
  ContractFilter :: string

datatype json_value = JBool bool | JNumber rat | JOther

record estimateFeeReq =
  Blocks_r :: "int list"
  Specific :: "(string, json_value) gomap"

text \<open>The parameters: the API worker's environment, the rounds, interferences and sorting of requests for extended keys, the back end, and JSON.\<close>

record ('s, 'c) ws_env =
  api_env_ws :: "('s, 'c) api_env"
  interferences :: "('s RocksDB \<Rightarrow> 's RocksDB) list"
  rounds :: nat
  StableTxids :: "xpubTxid list \<Rightarrow> xpubTxid list"
  StableUtxos :: "UtxoA list \<Rightarrow> UtxoA list"
  EstimateSmartFee :: "int \<Rightarrow> bool \<Rightarrow> ('c, int) action"
  EthereumTypeEstimateGas :: "(string, json_value) gomap \<Rightarrow> ('c, uint64) action"
  SendRawTransaction :: "string \<Rightarrow> ('c, string) action"
  IsTestnet :: bool
  VersionInfo :: string
  UnmarshalAccountInfo :: "string \<Rightarrow> go_error + accountInfoReq"
  UnmarshalInt :: "string \<Rightarrow> string \<Rightarrow> go_error + int"
  UnmarshalString :: "string \<Rightarrow> string \<Rightarrow> go_error + string"
  UnmarshalAddresses :: "string \<Rightarrow> go_error + string list"
  UnmarshalEstimateFee :: "string \<Rightarrow> go_error + estimateFeeReq"
  UnmarshalReq :: "string \<Rightarrow> go_error + websocketReq"

type_synonym ('s, 'c, 'a) ws_action = "(('s, 'c) WebsocketServer, 'a) action"

definition onApi :: "(('s, 'c) Worker \<times> cachedXpubs, 'a) action \<Rightarrow> ('s, 'c, 'a) ws_action" where
  "onApi m s = (case m (api_ws s) of (r, a) \<Rightarrow> (r, s\<lparr> api_ws := a \<rparr>))"

abbreviation worker_ws :: "('s, 'c) WebsocketServer \<Rightarrow> ('s, 'c) Worker" where
  "worker_ws s \<equiv> fst (api_ws s)"

section \<open>Subscriptions\<close>

definition subscribeNewBlock :: "chan \<Rightarrow> websocketReq \<Rightarrow> ('s, 'c, wsData) ws_action" where
  "subscribeNewBlock c req s =
     (Inr (SubscriptionResponse True), s\<lparr> newBlockSubscriptions := AList.update c (ID_req req) (newBlockSubscriptions s) \<rparr>)"

definition unsubscribeNewBlock :: "chan \<Rightarrow> ('s, 'c, wsData) ws_action" where
  "unsubscribeNewBlock c s =
     (Inr (SubscriptionResponse False), s\<lparr> newBlockSubscriptions := AList.delete c (newBlockSubscriptions s) \<rparr>)"

definition unmarshalAddresses :: "('s, 'c) ws_env \<Rightarrow> string \<Rightarrow> ('s, 'c, AddressDescriptor list) ws_action" where
  "unmarshalAddresses V params = query (\<lambda>s.
     rbind (UnmarshalAddresses V params) (\<lambda>as. rmap (GetAddrDescFromAddress (chainParser_w (worker_ws s))) as))"

definition unsubscribeAddresses :: "chan \<Rightarrow> ('s, 'c, wsData) ws_action" where
  "unsubscribeAddresses c s =
     (Inr (SubscriptionResponse False), s\<lparr> addressSubscriptions := map (\<lambda>(ads, sa). (ads, AList.delete c sa)) (addressSubscriptions s) \<rparr>)"

definition addSubscription :: "chan \<Rightarrow> string \<Rightarrow> AddressDescriptor \<Rightarrow> (bytes, (chan, string) gomap) gomap \<Rightarrow> (bytes, (chan, string) gomap) gomap" where
  "addSubscription c i ads m =
     AList.update ads (AList.update c i (case map_of m ads of Some as \<Rightarrow> as | None \<Rightarrow> [])) m"

definition subscribeAddresses :: "chan \<Rightarrow> AddressDescriptor list \<Rightarrow> websocketReq \<Rightarrow> ('s, 'c, wsData) ws_action" where
  "subscribeAddresses c addrDesc req =
     abind (unsubscribeAddresses c) (\<lambda>_ s.
     (Inr (SubscriptionResponse True), s\<lparr> addressSubscriptions := fold (addSubscription c (ID_req req)) addrDesc (addressSubscriptions s) \<rparr>))"

section \<open>Channels\<close>

text \<open>\<open>c.out <- r\<close>: a send on a closed channel panics, and one on a full channel waits.\<close>

definition send :: "chan \<Rightarrow> websocketRes \<Rightarrow> ('s, 'c, unit) ws_action" where
  "send c r s =
     (let ch = channels s ! c in
      if closed_ch ch then (Inl (Panic ''send on closed channel''), s)
      else if length (out_ch ch) \<ge> outChannelSize then (Inl (Hang ''send''), s)
      else (Inr (), s\<lparr> channels := (channels s)[c := ch\<lparr> out_ch := out_ch ch @ [r] \<rparr>] \<rparr>))"

definition IsAlive :: "chan \<Rightarrow> ('s, 'c) WebsocketServer \<Rightarrow> bool" where
  "IsAlive c s = alive_ch (channels s ! c)"

text \<open>\<open>ServeHTTP\<close>, after the upgrade of the connection.\<close>

definition openChannel :: "('s, 'c, chan) ws_action" where
  "openChannel s =
     (let n = connectionCounter s + 1 in
      (Inr (length (channels s)), s\<lparr> connectionCounter := n,
         channels := channels s @ [\<lparr> id_ch = n, out_ch = [], closed_ch = False, alive_ch = True \<rparr>] \<rparr>))"

definition onDisconnect :: "chan \<Rightarrow> ('s, 'c, unit) ws_action" where
  "onDisconnect c = abind (unsubscribeNewBlock c) (\<lambda>_. abind (unsubscribeAddresses c) (\<lambda>_. ret ()))"

definition closeChannel :: "chan \<Rightarrow> ('s, 'c, unit) ws_action" where
  "closeChannel c s =
     (if IsAlive c s then
        onDisconnect c (s\<lparr> channels := (channels s)[c := (channels s ! c)\<lparr> alive_ch := False, closed_ch := True, out_ch := [] \<rparr>] \<rparr>)
      else (Inr (), s))"

text \<open>One message of \<open>inputLoop\<close>: the result is the request to start, or that the loop ends. The connection answers pings itself.\<close>

datatype message = TextMessage string | BinaryMessage | PingMessage | CloseMessage | PongMessage | ReadError

datatype input = Request websocketReq | Continue | Return

definition inputMessage :: "('s, 'c) ws_env \<Rightarrow> chan \<Rightarrow> message \<Rightarrow> ('s, 'c, input) ws_action" where
  "inputMessage V c m =
     (case m of
        ReadError \<Rightarrow> abind (closeChannel c) (\<lambda>_. ret Return)
      | TextMessage d \<Rightarrow>
          (case UnmarshalReq V d of
             Inl _ \<Rightarrow> abind (closeChannel c) (\<lambda>_. ret Return)
           | Inr req \<Rightarrow> ret (Request req))
      | BinaryMessage \<Rightarrow> abind (closeChannel c) (\<lambda>_. ret Return)
      | PingMessage \<Rightarrow> ret Continue
      | CloseMessage \<Rightarrow> abind (closeChannel c) (\<lambda>_. ret Return)
      | PongMessage \<Rightarrow> ret Continue)"

text \<open>One round of \<open>outputLoop\<close>; \<open>write\<close> tells whether the connection took the message.\<close>

definition outputMessage :: "(websocketRes \<Rightarrow> bool) \<Rightarrow> chan \<Rightarrow> ('s, 'c, websocketRes option) ws_action" where
  "outputMessage write c s =
     (case out_ch (channels s ! c) of
        [] \<Rightarrow> (Inr None, s)
      | m # ms \<Rightarrow>
          let s = s\<lparr> channels := (channels s)[c := (channels s ! c)\<lparr> out_ch := ms \<rparr>] \<rparr> in
          if write m then (Inr (Some m), s) else abind (closeChannel c) (\<lambda>_. ret (Some m)) s)"

section \<open>Requests\<close>

definition accountDetails_ws :: "string \<Rightarrow> AccountDetails" where
  "accountDetails_ws details =
     (if details = ''tokens'' then AccountDetailsTokens
      else if details = ''tokenBalances'' then AccountDetailsTokenBalances
      else if details = ''txids'' then AccountDetailsTxidHistory
      else if details = ''txs'' then AccountDetailsTxHistory
      else AccountDetailsBasic)"

definition tokensToReturn_ws :: "string \<Rightarrow> TokensToReturn" where
  "tokensToReturn_ws tokens =
     (if tokens = ''used'' then TokensToReturnUsed
      else if tokens = ''nonzero'' then TokensToReturnNonzeroBalance
      else TokensToReturnDerived)"

definition getAccountInfo :: "('s, 'c) ws_env \<Rightarrow> accountInfoReq \<Rightarrow> ('s, 'c, wsData) ws_action" where
  "getAccountInfo V req =
     (let A = api_env_ws V;
          opt = accountDetails_ws (Details req);
          f = \<lparr> Vout_f = AddressFilterVoutOff, Contract_f = ContractFilter req, FromHeight = of_int (FromHeight_r req), ToHeight = of_int (ToHeight_r req),
                TokensToReturn_f = tokensToReturn_ws (Tokens_r req), OnlyConfirmed = False \<rparr>;
          pageSize = (if PageSize req = 0 then txsOnPage_ws else PageSize req) in
      onApi (abind (attempt (GetXpubAddress (interferences V) (rounds V) A (StableTxids V) (Descriptor req) (Page_r req) pageSize opt f 0)) (\<lambda>a.
        case a of
          Inl _ \<Rightarrow>
            abind (onWorker (GetAddress A (Descriptor req) (Page_r req) pageSize opt f)) (\<lambda>a.
            ret (AccountData (Address.extend a \<lparr> UsedTokens = 0, XPubAddresses = {} \<rparr>)))
        | Inr a \<Rightarrow> ret (AccountData a))))"

definition getAccountUtxo :: "('s, 'c) ws_env \<Rightarrow> string \<Rightarrow> ('s, 'c, wsData) ws_action" where
  "getAccountUtxo V descriptor =
     onApi (abind (attempt (GetXpubUtxo (interferences V) (rounds V) (api_env_ws V) (StableUtxos V) descriptor False 0)) (\<lambda>utxo.
       case utxo of
         Inl _ \<Rightarrow> abind (onWorker (GetAddressUtxo (api_env_ws V) descriptor False)) (\<lambda>u. ret (UtxoData u))
       | Inr u \<Rightarrow> ret (UtxoData u)))"

definition getTransaction_ws :: "('s, 'c) ws_env \<Rightarrow> string \<Rightarrow> ('s, 'c, wsData) ws_action" where
  "getTransaction_ws V txid = onApi (onWorker (abind (GetTransaction_w (api_env_ws V) txid False False) (\<lambda>tx. ret (TxData tx))))"

definition getTransactionSpecific :: "('s, 'c) ws_env \<Rightarrow> string \<Rightarrow> ('s, 'c, wsData) ws_action" where
  "getTransactionSpecific V txid =
     onApi (onWorker (abind (callChain (GetTransactionSpecific (api_env_ws V) (zeroTx\<lparr> Txid_tx := txid \<rparr>))) (\<lambda>j. ret (SpecificData j))))"

definition getInfo :: "('s, 'c) ws_env \<Rightarrow> ('s, 'c, wsData) ws_action" where
  "getInfo V = query (\<lambda>s.
     let d = db_w (worker_ws s) in
     rbind (GetBestBlock (pk (api_env_ws V)) d) (\<lambda>(height, hash).
     case is_d d of
       None \<Rightarrow> Inl (Panic ''nil pointer dereference'')
     | Some st \<Rightarrow>
         Inr (InfoData \<lparr> Name_i = Coin st, Shortcut_i = CoinShortcut st, Decimals_i = AmountDecimals (chainParser d), Version_i = VersionInfo V,
           BestHeight_i = height, BestHash_i = hash, Block0Hash_i = block0hash s, Testnet_i = IsTestnet V \<rparr>)))"

definition getBlockHash_ws :: "('s, 'c) ws_env \<Rightarrow> int \<Rightarrow> ('s, 'c, wsData) ws_action" where
  "getBlockHash_ws V height = query (\<lambda>s.
     rbind (GetBlockHash (pk (api_env_ws V)) (of_int height) (db_w (worker_ws s))) (\<lambda>h. Inr (BlockHashData h)))"

definition getBlock_ws :: "('s, 'c) ws_env \<Rightarrow> string \<Rightarrow> ('s, 'c, wsData) ws_action" where
  "getBlock_ws V bid = onApi (onWorker (abind (GetBlock_w (api_env_ws V) bid 0 100000) (\<lambda>b. ret (BlockData b))))"

text \<open>\<open>int(f)\<close> of a number that fits into an \<open>int\<close>.\<close>

definition truncate_rat :: "rat \<Rightarrow> int" where
  "truncate_rat f = (if f \<ge> 0 then \<lfloor>f\<rfloor> else \<lceil>f\<rceil>)"

definition feeOfBlock_eth :: "('s, 'c) ws_env \<Rightarrow> uint64 \<Rightarrow> int \<Rightarrow> (('s, 'c) Worker, estimateFeeRes) action" where
  "feeOfBlock_eth V gas b =
     abind (callChain (EstimateSmartFee V b True)) (\<lambda>fee.
     ret \<lparr> FeePerTx = BigInt_String (fee * uint gas), FeePerUnit = BigInt_String fee, FeeLimit = BigInt_String (uint gas) \<rparr>)"

definition feeOfBlock :: "('s, 'c) ws_env \<Rightarrow> bool \<Rightarrow> int \<Rightarrow> int \<Rightarrow> (('s, 'c) Worker, estimateFeeRes) action" where
  "feeOfBlock V conservative txSize b =
     abind (callChain (EstimateSmartFee V b conservative)) (\<lambda>fee.
     ret \<lparr> FeePerTx = (if txSize > 0 then BigInt_String ((fee * txSize + 500) div 1000) else ''''), FeePerUnit = BigInt_String fee, FeeLimit = '''' \<rparr>)"

definition estimateFee :: "('s, 'c) ws_env \<Rightarrow> string \<Rightarrow> ('s, 'c, wsData) ws_action" where
  "estimateFee V params s =
     abind (query (\<lambda>_. UnmarshalEstimateFee V params)) (\<lambda>r.
     abind (onApi (onWorker (
       if GetChainType (chainParser_w (worker_ws s)) = ChainEthereumType then
         abind (callChain (EthereumTypeEstimateGas V (Specific r))) (\<lambda>gas. amap (feeOfBlock_eth V gas) (Blocks_r r))
       else
         let conservative = (case map_of (Specific r) ''conservative'' of Some (JBool b) \<Rightarrow> b | _ \<Rightarrow> True);
             txSize = (case map_of (Specific r) ''txsize'' of Some (JNumber f) \<Rightarrow> truncate_rat f | _ \<Rightarrow> 0) in
         amap (feeOfBlock V conservative txSize) (Blocks_r r)))) (\<lambda>res.
     ret (FeeData res))) s"

definition sendTransaction :: "('s, 'c) ws_env \<Rightarrow> string \<Rightarrow> ('s, 'c, wsData) ws_action" where
  "sendTransaction V tx = onApi (onWorker (abind (callChain (SendRawTransaction V tx)) (\<lambda>txid. ret (SendData txid))))"

definition requestHandler :: "('s, 'c) ws_env \<Rightarrow> chan \<Rightarrow> websocketReq \<Rightarrow> ('s, 'c, wsData) ws_action" where
  "requestHandler V c req =
     (let m = Method_req req; ps = Params_req req in
      if m = ''getAccountInfo'' then abind (query (\<lambda>_. UnmarshalAccountInfo V ps)) (getAccountInfo V)
      else if m = ''getInfo'' then getInfo V
      else if m = ''getBlockHash'' then abind (query (\<lambda>_. UnmarshalInt V ''height'' ps)) (getBlockHash_ws V)
      else if m = ''getBlock'' then abind (query (\<lambda>_. UnmarshalString V ''id'' ps)) (getBlock_ws V)
      else if m = ''getAccountUtxo'' then abind (query (\<lambda>_. UnmarshalString V ''descriptor'' ps)) (getAccountUtxo V)
      else if m = ''getTransaction'' then abind (query (\<lambda>_. UnmarshalString V ''txid'' ps)) (getTransaction_ws V)
      else if m = ''getTransactionSpecific'' then abind (query (\<lambda>_. UnmarshalString V ''txid'' ps)) (getTransactionSpecific V)
      else if m = ''estimateFee'' then estimateFee V ps
      else if m = ''sendTransaction'' then abind (query (\<lambda>_. UnmarshalString V ''hex'' ps)) (sendTransaction V)
      else if m = ''subscribeNewBlock'' then subscribeNewBlock c req
      else if m = ''unsubscribeNewBlock'' then unsubscribeNewBlock c
      else if m = ''subscribeAddresses'' then abind (unmarshalAddresses V ps) (\<lambda>ad. subscribeAddresses c ad req)
      else if m = ''unsubscribeAddresses'' then unsubscribeAddresses c
      else throw (Errorf ''unknown method''))"

definition sendResponse :: "chan \<Rightarrow> websocketReq \<Rightarrow> wsData \<Rightarrow> ('s, 'c, unit) ws_action" where
  "sendResponse c req d s =
     (case send c \<lparr> ID_res = ID_req req, Data_res = d \<rparr> s of
        (Inl (Panic _), s) \<Rightarrow> (Inr (), s)
      | r \<Rightarrow> r)"

text \<open>\<open>onRequest\<close>: an error and a recovered panic are answered too; only a call that never returns leaves no answer.\<close>

definition onRequest :: "('s, 'c) ws_env \<Rightarrow> chan \<Rightarrow> websocketReq \<Rightarrow> ('s, 'c, unit) ws_action" where
  "onRequest V c req s =
     (case requestHandler V c req s of
        (Inr d, s) \<Rightarrow> sendResponse c req d s
      | (Inl (Hang e), s) \<Rightarrow> (Inl (Hang e), s)
      | (Inl (Panic _), s) \<Rightarrow> sendResponse c req (ErrorData (Errorf ''Internal error'')) s
      | (Inl e, s) \<Rightarrow> sendResponse c req (ErrorData e) s)"

section \<open>Broadcasts\<close>

definition broadcast :: "wsData \<Rightarrow> (chan, string) gomap \<Rightarrow> ('s, 'c, unit) ws_action" where
  "broadcast d subs = abind (amap (\<lambda>(c, i) s. if IsAlive c s then send c \<lparr> ID_res = i, Data_res = d \<rparr> s else (Inr (), s)) subs) (\<lambda>_. ret ())"

definition OnNewBlock :: "string \<Rightarrow> uint32 \<Rightarrow> ('s, 'c, unit) ws_action" where
  "OnNewBlock hash height s = broadcast (NewBlockData height hash) (newBlockSubscriptions s) s"

definition subscribersOf :: "AddressDescriptor \<Rightarrow> ('s, 'c) WebsocketServer \<Rightarrow> (chan, string) gomap" where
  "subscribersOf addrDesc s = (case map_of (addressSubscriptions s) addrDesc of Some as \<Rightarrow> as | None \<Rightarrow> [])"

definition OnNewTxAddr :: "('s, 'c) ws_env \<Rightarrow> Tx \<Rightarrow> AddressDescriptor \<Rightarrow> ('s, 'c, unit) ws_action" where
  "OnNewTxAddr V tx addrDesc s =
     (if subscribersOf addrDesc s = [] then (Inr (), s)
      else
        (case GetAddressesFromAddrDesc (chainParser_w (worker_ws s)) addrDesc of
           Inl e \<Rightarrow> (if is_panic e then Inl e else Inr (), s)
         | Inr ([a], _) \<Rightarrow>
             abind (attempt (onApi (onWorker (GetTransactionFromBchainTx (api_env_ws V) tx 0 False False)))) (\<lambda>r s.
             case r of
               Inl _ \<Rightarrow> (Inr (), s)
             | Inr atx \<Rightarrow> broadcast (NewTxData a atx) (subscribersOf addrDesc s) s) s
         | Inr _ \<Rightarrow> (Inr (), s)))"

section \<open>Answers\<close>

text \<open>What the handlers of requests leave alone: the channels.\<close>

abbreviation keepsChannels :: "('s, 'c, 'a) ws_action \<Rightarrow> bool" where
  "keepsChannels m \<equiv> \<forall>chs. keeps (\<lambda>s. channels s = chs) m"

lemma keepsChannels_onApi [simp]: "keepsChannels (onApi m)"
  by (simp add: keeps_def onApi_def split_beta)

lemma keepsChannels_subscriptions [simp]:
  "keepsChannels (subscribeNewBlock c req)" "keepsChannels (unsubscribeNewBlock c)" "keepsChannels (unsubscribeAddresses c)"
  by (simp_all add: keeps_def subscribeNewBlock_def unsubscribeNewBlock_def unsubscribeAddresses_def)

lemma keepsChannels_subscribeAddresses [simp]: "keepsChannels (subscribeAddresses c ad req)"
  by (simp add: keeps_def subscribeAddresses_def abind_def unsubscribeAddresses_def)

lemma keepsChannels_estimateFee [simp]: "keepsChannels (estimateFee V params)"
proof
  fix chs
  have "channels (snd (estimateFee V params s)) = channels s" for s
    by (simp add: estimateFee_def abind_def onApi_def split_beta split: sum.splits)
  then show "keeps (\<lambda>s. channels s = chs) (estimateFee V params)" by (simp add: keeps_def)
qed

lemma keepsChannels_requestHandler: "keepsChannels (requestHandler V c req)"
  unfolding requestHandler_def Let_def getAccountInfo_def getAccountUtxo_def getTransaction_ws_def getTransactionSpecific_def
    getInfo_def getBlockHash_ws_def getBlock_ws_def sendTransaction_def unmarshalAddresses_def
  by (intro allI keeps_if keeps_abind) simp_all

lemma requestHandler_channels: "requestHandler V c req s = (r, s') \<Longrightarrow> channels s' = channels s"
  using keepsChannels_requestHandler[of V c req] unfolding keeps_def by (metis snd_conv)

lemma send_open:
  assumes "\<not> closed_ch (channels s ! c)" "length (out_ch (channels s ! c)) < outChannelSize"
  shows "send c r s = (Inr (), s\<lparr> channels := (channels s)[c := (channels s ! c)\<lparr> out_ch := out_ch (channels s ! c) @ [r] \<rparr>] \<rparr>)"
  using assms by (simp add: send_def Let_def)

lemma onRequest_cases:
  assumes "\<And>e. fst (requestHandler V c req s) \<noteq> Inl (Hang e)"
  shows "\<exists>d. onRequest V c req s = sendResponse c req d (snd (requestHandler V c req s))"
proof -
  obtain r s' where r: "requestHandler V c req s = (r, s')" by force
  show ?thesis
  proof (cases r)
    case (Inl e)
    then show ?thesis using assms r by (cases e) (auto simp: onRequest_def)
  next
    case (Inr d)
    then show ?thesis using r by (auto simp: onRequest_def)
  qed
qed


text \<open>A request that ends after its channel was closed does not fail, and no channel gets a message.\<close>

theorem request_on_closed_channel:
  assumes "closed_ch (channels s ! c)" "\<And>e. fst (requestHandler V c req s) \<noteq> Inl (Hang e)"
  shows "\<exists>s'. onRequest V c req s = (Inr (), s') \<and> channels s' = channels s"
proof -
  obtain d where d: "onRequest V c req s = sendResponse c req d (snd (requestHandler V c req s))" using onRequest_cases[OF assms(2)] by blast
  have ch: "channels (snd (requestHandler V c req s)) = channels s" by (metis prod.collapse requestHandler_channels)
  show ?thesis unfolding d sendResponse_def using assms(1) by (simp add: send_def ch)
qed

section \<open>The invariant of the server\<close>

text \<open>A channel is closed exactly when it is not alive, and then nothing waits in it; the maps are maps, over channels that exist.\<close>

definition channelOk :: "websocketChannel \<Rightarrow> bool" where
  "channelOk ch \<longleftrightarrow> (closed_ch ch \<longleftrightarrow> \<not> alive_ch ch) \<and> (closed_ch ch \<longrightarrow> out_ch ch = []) \<and> length (out_ch ch) \<le> outChannelSize"

definition subsOk :: "nat \<Rightarrow> (chan, string) gomap \<Rightarrow> bool" where
  "subsOk n m \<longleftrightarrow> wf_map m \<and> list_all (\<lambda>(c, _). c < n) m"

definition serverOk :: "('s, 'c) WebsocketServer \<Rightarrow> bool" where
  "serverOk s \<longleftrightarrow> list_all channelOk (channels s) \<and> subsOk (length (channels s)) (newBlockSubscriptions s) \<and>
     wf_map (addressSubscriptions s) \<and> list_all (\<lambda>(_, sa). subsOk (length (channels s)) sa) (addressSubscriptions s)"

lemma subsOk_simps [simp]:
  "subsOk n []"
  "subsOk n m \<Longrightarrow> c < n \<Longrightarrow> subsOk n (AList.update c i m)"
  "subsOk n m \<Longrightarrow> subsOk n (AList.delete c m)"
  "subsOk n m \<Longrightarrow> n \<le> k \<Longrightarrow> subsOk k m"
proof -
  have "set (AList.update c i m) \<subseteq> insert (c, i) (set m)" by (induction m) auto
  then show "subsOk n m \<Longrightarrow> c < n \<Longrightarrow> subsOk n (AList.update c i m)" by (auto simp: subsOk_def list_all_iff)
  show "subsOk n m \<Longrightarrow> subsOk n (AList.delete c m)" by (auto simp: subsOk_def list_all_iff AList.delete_eq wf_map_def distinct_map_filter)
qed (auto simp: subsOk_def list_all_iff)

lemma subsOk_addSubscription:
  assumes "wf_map m" "list_all (\<lambda>(_, sa). subsOk n sa) m" "c < n"
  shows "wf_map (addSubscription c i ads m) \<and> list_all (\<lambda>(_, sa). subsOk n sa) (addSubscription c i ads m)"
proof -
  have "subsOk n (case map_of m ads of Some as \<Rightarrow> as | None \<Rightarrow> [])"
    using assms(2) by (auto simp: list_all_iff split: option.splits dest!: map_of_SomeD)
  moreover have "set (AList.update ads v m) \<subseteq> insert (ads, v) (set m)" for v by (induction m) auto
  ultimately show ?thesis using assms by (fastforce simp: addSubscription_def list_all_iff)
qed

lemma subsOk_fold_addSubscription:
  "wf_map m \<Longrightarrow> list_all (\<lambda>(_, sa). subsOk n sa) m \<Longrightarrow> c < n \<Longrightarrow>
   wf_map (fold (addSubscription c i) ads m) \<and> list_all (\<lambda>(_, sa). subsOk n sa) (fold (addSubscription c i) ads m)"
  by (induction ads arbitrary: m) (simp_all add: subsOk_addSubscription)

lemma list_all_update: "list_all P xs \<Longrightarrow> (c < length xs \<Longrightarrow> P x) \<Longrightarrow> list_all P (xs[c := x])"
  by (cases "c < length xs") (auto simp: list_all_length nth_list_update)

lemma serverOk_onApi [simp]: "keeps serverOk (onApi m)"
  by (simp add: keeps_def onApi_def split_beta serverOk_def)

text \<open>With a channel that exists, \<open>keeps\<close> carries the invariant through the operations.\<close>

definition okWith :: "chan \<Rightarrow> ('s, 'c) WebsocketServer \<Rightarrow> bool" where
  "okWith c s \<longleftrightarrow> serverOk s \<and> c < length (channels s)"

lemma okWith_onApi [simp]: "keeps (okWith c) (onApi m)"
  by (simp add: keeps_def onApi_def split_beta serverOk_def okWith_def)

lemma okWith_subscriptions [simp]:
  "keeps (okWith c) (subscribeNewBlock c req)" "keeps (okWith c) (unsubscribeNewBlock c)" "keeps (okWith c) (unsubscribeAddresses c)"
proof -
  have "wf_map (map (\<lambda>(ads, sa). (ads, AList.delete c sa)) m) = wf_map m" for m :: "(bytes, (chan, string) gomap) gomap"
    by (simp add: wf_map_def comp_def split_beta)
  then show "keeps (okWith c) (unsubscribeAddresses c)"
    by (auto simp: keeps_def okWith_def serverOk_def unsubscribeAddresses_def list_all_iff)
qed (simp_all add: keeps_def okWith_def serverOk_def subscribeNewBlock_def unsubscribeNewBlock_def)

lemma okWith_subscribeAddresses [simp]: "keeps (okWith c) (subscribeAddresses c ads req)"
  unfolding subscribeAddresses_def
proof (rule keeps_abind)
  fix x
  show "keeps (okWith c) (\<lambda>s. (Inr (SubscriptionResponse True),
      s\<lparr> addressSubscriptions := fold (addSubscription c (ID_req req)) ads (addressSubscriptions s) \<rparr>))"
    using subsOk_fold_addSubscription by (auto simp: keeps_def okWith_def serverOk_def)
qed simp

lemma length_send [simp]: "length (channels (snd (send c r s))) = length (channels s)"
  by (simp add: send_def Let_def)

lemma serverOk_send:
  assumes ok: "serverOk s"
  shows "serverOk (snd (send c r s))"
proof (cases "closed_ch (channels s ! c) \<or> length (out_ch (channels s ! c)) \<ge> outChannelSize")
  case False
  then have "list_all channelOk ((channels s)[c := (channels s ! c)\<lparr> out_ch := out_ch (channels s ! c) @ [r] \<rparr>])"
    using ok by (intro list_all_update) (auto simp: serverOk_def channelOk_def list_all_length)
  then show ?thesis using ok False by (simp add: send_def Let_def serverOk_def)
qed (use ok in \<open>auto simp: send_def Let_def\<close>)

lemma okWith_send [simp]: "keeps (okWith c) (send c' r)"
  by (simp add: keeps_def okWith_def serverOk_send)

lemma okWith_requestHandler: "keeps (okWith c) (requestHandler V c req)"
proof -
  have fee: "keeps (okWith c) (estimateFee V params)" for params
  proof -
    have "channels (snd (estimateFee V params s)) = channels s \<and> newBlockSubscriptions (snd (estimateFee V params s)) = newBlockSubscriptions s \<and>
        addressSubscriptions (snd (estimateFee V params s)) = addressSubscriptions s" for s
      by (simp add: estimateFee_def abind_def onApi_def split_beta split: sum.splits)
    then show ?thesis by (simp add: keeps_def okWith_def serverOk_def)
  qed
  show ?thesis
    unfolding requestHandler_def Let_def getAccountInfo_def getAccountUtxo_def getTransaction_ws_def getTransactionSpecific_def
      getInfo_def getBlockHash_ws_def getBlock_ws_def sendTransaction_def unmarshalAddresses_def
    by (intro keeps_if keeps_abind fee) simp_all
qed

lemma okWith_onRequest: "keeps (okWith c) (onRequest V c req)"
proof -
  have "okWith c (snd (sendResponse c req d s))" if "okWith c s" for d s
  proof -
    have "snd (sendResponse c req d s) = snd (send c \<lparr> ID_res = ID_req req, Data_res = d \<rparr> s)"
      by (simp add: sendResponse_def split: prod.splits sum.splits go_error.splits)
    then show ?thesis using that okWith_send unfolding keeps_def by metis
  qed
  moreover have "okWith c (snd (requestHandler V c req s))" if "okWith c s" for s
    using that okWith_requestHandler unfolding keeps_def by blast
  ultimately have "okWith c (snd (onRequest V c req s))" if "okWith c s" for s
    using that unfolding onRequest_def by (fastforce split: prod.splits sum.splits go_error.splits)
  then show ?thesis by (simp add: keeps_def)
qed

lemma okWith_closed:
  "okWith c s \<Longrightarrow> okWith c (s\<lparr> channels := (channels s)[c := (channels s ! c)\<lparr> alive_ch := False, closed_ch := True, out_ch := [] \<rparr>] \<rparr>)"
  by (auto simp: okWith_def serverOk_def channelOk_def intro!: list_all_update)

lemma okWith_onDisconnect: "keeps (okWith c) (onDisconnect c)"
  unfolding onDisconnect_def by (intro keeps_abind) simp_all

lemma okWith_closeChannel [simp]: "keeps (okWith c) (closeChannel c)"
  using okWith_onDisconnect okWith_closed by (auto simp: keeps_def closeChannel_def)

lemma okWith_inputMessage: "keeps (okWith c) (inputMessage V c m)"
  unfolding inputMessage_def by (cases m) (auto intro!: keeps_abind split: sum.splits)

lemma okWith_taken:
  assumes "okWith c s" "out_ch (channels s ! c) = m # ms"
  shows "okWith c (s\<lparr> channels := (channels s)[c := (channels s ! c)\<lparr> out_ch := ms \<rparr>] \<rparr>)"
proof -
  have "channelOk (channels s ! c)" using assms(1) by (simp add: okWith_def serverOk_def list_all_length)
  then have "channelOk ((channels s ! c)\<lparr> out_ch := ms \<rparr>)" using assms(2) by (auto simp: channelOk_def)
  then show ?thesis using assms(1) by (simp add: okWith_def serverOk_def list_all_update)
qed

lemma okWith_close_ret: "keeps (okWith c) (abind (closeChannel c) (\<lambda>_. ret r))"
  by (intro keeps_abind) simp_all

lemma okWith_outputMessage:
  assumes ok: "okWith c s"
  shows "okWith c (snd (outputMessage wr c s))"
proof (cases "out_ch (channels s ! c)")
  case (Cons m ms)
  then show ?thesis using okWith_taken[OF ok Cons] okWith_close_ret[of c "Some m"] by (auto simp: outputMessage_def Let_def keeps_def)
qed (simp add: outputMessage_def ok)

lemma serverOk_broadcast:
  fixes s :: "('s, 'c) WebsocketServer"
  assumes "serverOk s"
  shows "serverOk (snd (broadcast d subs s)) \<and> length (channels (snd (broadcast d subs s))) = length (channels s)"
proof -
  have "keeps (\<lambda>s' :: ('s, 'c) WebsocketServer. serverOk s' \<and> length (channels s') = length (channels s)) (broadcast d subs)"
    unfolding broadcast_def
    by (intro keeps_abind keeps_amap) (auto simp: keeps_def serverOk_send split: prod.splits)
  then show ?thesis using assms by (simp add: keeps_def)
qed

lemma serverOk_OnNewBlock: "serverOk s \<Longrightarrow> serverOk (snd (OnNewBlock hash height s))"
  by (simp add: OnNewBlock_def serverOk_broadcast)

lemma serverOk_OnNewTxAddr: "serverOk s \<Longrightarrow> serverOk (snd (OnNewTxAddr V tx ad s))"
proof -
  assume ok: "serverOk s"
  have "keeps serverOk (abind (attempt (onApi m)) (\<lambda>r s. case r of Inl _ \<Rightarrow> (Inr (), s) | Inr atx \<Rightarrow> broadcast (NewTxData a atx) (subscribersOf ad s) s))"
    for m :: "(('a, 'b) Worker \<times> cachedXpubs, TxA) action" and a
    by (intro keeps_abind keeps_attempt) (auto simp: keeps_def serverOk_broadcast serverOk_onApi[unfolded keeps_def] split: sum.splits)
  then show ?thesis using ok by (auto simp: OnNewTxAddr_def keeps_def split: sum.splits prod.splits list.splits)
qed

lemma serverOk_openChannel: "serverOk s \<Longrightarrow> serverOk (snd (openChannel s))"
  by (auto simp: openChannel_def Let_def serverOk_def channelOk_def list_all_iff outChannelSize_def intro: subsOk_simps(4))

section \<open>The server as a state machine\<close>

text \<open>
  The goroutines of the server at the level of whole operations, in any order. The last rule is the work of the rest of the program on the worker.
\<close>

inductive ws_step :: "('s, 'c) ws_env \<Rightarrow> ('s, 'c) WebsocketServer \<Rightarrow> ('s, 'c) WebsocketServer \<Rightarrow> bool" for V where
  connect: "ws_step V s (snd (openChannel s))"
| message: "c < length (channels s) \<Longrightarrow> ws_step V s (snd (inputMessage V c m s))"
| request: "c < length (channels s) \<Longrightarrow> ws_step V s (snd (onRequest V c req s))"
| write_out: "c < length (channels s) \<Longrightarrow> ws_step V s (snd (outputMessage wr c s))"
| new_block: "ws_step V s (snd (OnNewBlock hash height s))"
| new_tx: "ws_step V s (snd (OnNewTxAddr V tx ad s))"
| worker: "ws_step V s (s\<lparr> api_ws := a \<rparr>)"

definition NewWebsocketServer :: "('s, 'c) ws_env \<Rightarrow> ('s, 'c) Worker \<Rightarrow> cachedXpubs \<Rightarrow> go_error + ('s, 'c) WebsocketServer" where
  "NewWebsocketServer V w cache =
     rbind (GetBlockHash (pk (api_env_ws V)) 0 (db_w w)) (\<lambda>b0.
     Inr \<lparr> api_ws = (w, cache), block0hash = b0, connectionCounter = 0, channels = [], newBlockSubscriptions = [], addressSubscriptions = [] \<rparr>)"

inductive ws_reachable :: "('s, 'c) ws_env \<Rightarrow> ('s, 'c) WebsocketServer \<Rightarrow> bool" for V where
  start: "NewWebsocketServer V w cache = Inr s \<Longrightarrow> ws_reachable V s"
| step: "ws_reachable V s \<Longrightarrow> ws_step V s s' \<Longrightarrow> ws_reachable V s'"

lemma serverOk_ws_step: "ws_step V s s' \<Longrightarrow> serverOk s \<Longrightarrow> serverOk s'"
proof (induction rule: ws_step.induct)
  case (message c s m)
  then show ?case using okWith_inputMessage[of c V m] by (auto simp: keeps_def okWith_def)
next
  case (request c s req)
  then show ?case using okWith_onRequest[of c V req] by (auto simp: keeps_def okWith_def)
next
  case (write_out c s wr)
  then show ?case using okWith_outputMessage[of c s wr] by (auto simp: okWith_def)
next
  case (worker s a)
  then show ?case by (simp add: serverOk_def)
qed (simp_all add: serverOk_openChannel serverOk_OnNewBlock serverOk_OnNewTxAddr)

lemma ws_reachable_serverOk: "ws_reachable V s \<Longrightarrow> serverOk s"
proof (induction rule: ws_reachable.induct)
  case (start w cache s)
  then show ?case by (auto simp: NewWebsocketServer_def rbind_eq_Inr_iff serverOk_def)
qed (rule serverOk_ws_step)


section \<open>Broadcasts\<close>

definition push :: "websocketRes \<Rightarrow> websocketChannel \<Rightarrow> websocketChannel" where
  "push r ch = ch\<lparr> out_ch := out_ch ch @ [r] \<rparr>"

lemma broadcast_delivers:
  assumes "serverOk s" "subsOk (length (channels s)) subs"
    and "\<And>c. map_of subs c \<noteq> None \<Longrightarrow> IsAlive c s \<Longrightarrow> length (out_ch (channels s ! c)) < outChannelSize"
  shows "\<exists>chs. broadcast d subs s = (Inr (), s\<lparr> channels := chs \<rparr>) \<and> length chs = length (channels s) \<and>
    (\<forall>c < length (channels s). chs ! c = (case map_of subs c of
       Some i \<Rightarrow> if IsAlive c s then push \<lparr> ID_res = i, Data_res = d \<rparr> (channels s ! c) else channels s ! c
     | None \<Rightarrow> channels s ! c))"
proof -
  let ?f = "\<lambda>(c, i) s. if IsAlive c s then send c \<lparr> ID_res = i, Data_res = d \<rparr> s else (Inr (), s)"
  have "\<exists>chs us. amap ?f subs s = (Inr us, s\<lparr> channels := chs \<rparr>) \<and> length chs = length (channels s) \<and>
    (\<forall>c < length (channels s). chs ! c = (case map_of subs c of
       Some i \<Rightarrow> if IsAlive c s then push \<lparr> ID_res = i, Data_res = d \<rparr> (channels s ! c) else channels s ! c
     | None \<Rightarrow> channels s ! c))"
    using assms
  proof (induction subs arbitrary: s)
    case Nil
    then show ?case by (intro exI[of _ "channels s"]) simp
  next
    case (Cons x subs)
    obtain c i where x: "x = (c, i)" by force
    have c: "c < length (channels s)" and sub: "subsOk (length (channels s)) subs" and new: "map_of subs c = None"
      using Cons.prems(2) by (auto simp: x subsOk_def wf_map_def map_of_eq_None_iff)
    define s1 where "s1 = snd (?f (c, i) s)"
    have ch: "channelOk (channels s ! c)" using Cons.prems(1) c by (simp add: serverOk_def list_all_length)
    have s1: "?f (c, i) s = (Inr (), s1)" "s1 = s\<lparr> channels := (channels s)[c := if IsAlive c s then push \<lparr> ID_res = i, Data_res = d \<rparr> (channels s ! c) else channels s ! c] \<rparr>"
      using Cons.prems(3)[of c] ch unfolding s1_def by (auto simp: x send_open channelOk_def IsAlive_def push_def)
    have len: "length (channels s1) = length (channels s)" and ok: "serverOk s1"
      using Cons.prems(1) by (simp_all add: s1_def serverOk_send)
    have same: "channels s1 ! c' = channels s ! c'" "IsAlive c' s1 = IsAlive c' s" if "c' \<noteq> c" for c' using that by (simp_all add: s1(2) IsAlive_def)
    have room: "length (out_ch (channels s1 ! c')) < outChannelSize" if "map_of subs c' \<noteq> None" "IsAlive c' s1" for c'
    proof -
      have "c' \<noteq> c" using that(1) new by auto
      then show ?thesis using Cons.prems(3)[of c'] that same[of c'] by (auto simp: x)
    qed
    from Cons.IH[OF ok, unfolded len, OF sub room] obtain chs us where
      r: "amap ?f subs s1 = (Inr us, s1\<lparr> channels := chs \<rparr>)" "length chs = length (channels s)" and
      n: "\<And>c'. c' < length (channels s) \<Longrightarrow> chs ! c' = (case map_of subs c' of
         Some i \<Rightarrow> if IsAlive c' s1 then push \<lparr> ID_res = i, Data_res = d \<rparr> (channels s1 ! c') else channels s1 ! c'
       | None \<Rightarrow> channels s1 ! c')"
      by blast
    have "amap ?f (x # subs) s = (Inr (() # us), s\<lparr> channels := chs \<rparr>)" using s1 r(1) by (simp add: x abind_def)
    moreover have "chs ! c' = (case map_of (x # subs) c' of
         Some i \<Rightarrow> if IsAlive c' s then push \<lparr> ID_res = i, Data_res = d \<rparr> (channels s ! c') else channels s ! c'
       | None \<Rightarrow> channels s ! c')" if "c' < length (channels s)" for c'
      using n[OF that] new same[of c'] s1(2) that by (auto simp: x split: option.splits)
    ultimately show ?case using r(2) by blast
  qed
  then show ?thesis by (auto simp: broadcast_def abind_def)
qed

text \<open>
  A new block is broadcast to exactly the subscribers that are alive, each gets one message with the id of its own subscription, and it is the last in its queue;
  nothing else changes. This needs room in the buffers of the subscribers; otherwise the server waits.
\<close>

theorem new_block_broadcast:
  assumes "ws_reachable V s" "\<And>c. c < length (channels s) \<Longrightarrow> IsAlive c s \<Longrightarrow> length (out_ch (channels s ! c)) < outChannelSize"
  shows "\<exists>s'. OnNewBlock hash height s = (Inr (), s') \<and> s'\<lparr> channels := channels s \<rparr> = s \<and> (\<forall>c < length (channels s).
    out_ch (channels s' ! c) = out_ch (channels s ! c) @ (case map_of (newBlockSubscriptions s) c of
      Some i \<Rightarrow> if IsAlive c s then [\<lparr> ID_res = i, Data_res = NewBlockData height hash \<rparr>] else []
    | None \<Rightarrow> []))"
proof -
  have ok: "serverOk s" by (rule ws_reachable_serverOk[OF assms(1)])
  then have subs: "subsOk (length (channels s)) (newBlockSubscriptions s)" by (simp add: serverOk_def)
  then have "c < length (channels s)" if "map_of (newBlockSubscriptions s) c \<noteq> None" for c
    using that by (auto simp: subsOk_def list_all_iff dest!: map_of_SomeD)
  with broadcast_delivers[OF ok subs, of "NewBlockData height hash"] assms(2) show ?thesis
    by (force simp: OnNewBlock_def push_def split: option.splits)
qed

section \<open>Subscriptions\<close>

lemma map_of_deleted: "map_of (map (\<lambda>(ads, sa). (ads, AList.delete c sa)) m) ad = map_option (AList.delete c) (map_of m ad)"
  by (induction m) auto

lemma subscribersOf_unsubscribe [simp]:
  "subscribersOf ad (snd (unsubscribeAddresses c s)) = AList.delete c (subscribersOf ad s)"
  by (simp add: subscribersOf_def unsubscribeAddresses_def map_of_deleted split: option.splits)

lemma subscribersOf_addSubscription:
  "map_of (case map_of (addSubscription c i ads m) ad of Some as \<Rightarrow> as | None \<Rightarrow> []) c' =
   (if ad = ads \<and> c' = c then Some i else map_of (case map_of m ad of Some as \<Rightarrow> as | None \<Rightarrow> []) c')"
  by (simp add: addSubscription_def split: option.splits)

lemma subscribersOf_fold:
  "map_of (case map_of (fold (addSubscription c i) ads m) ad of Some as \<Rightarrow> as | None \<Rightarrow> []) c' =
   (if ad \<in> set ads \<and> c' = c then Some i else map_of (case map_of m ad of Some as \<Rightarrow> as | None \<Rightarrow> []) c')"
  by (induction ads arbitrary: m) (auto simp: subscribersOf_addSubscription)

text \<open>
  Subscribing to addresses replaces all former address subscriptions of the channel, with the id of the new request,
  and leaves those of the other channels.
\<close>

theorem subscribe_replaces:
  "\<exists>s'. subscribeAddresses c ads req s = (Inr (SubscriptionResponse True), s') \<and>
     (\<forall>ad c'. map_of (subscribersOf ad s') c' =
        (if c' = c then (if ad \<in> set ads then Some (ID_req req) else None) else map_of (subscribersOf ad s) c'))"
proof -
  define s1 where "s1 = snd (unsubscribeAddresses c s)"
  let ?s' = "s1\<lparr> addressSubscriptions := fold (addSubscription c (ID_req req)) ads (addressSubscriptions s1) \<rparr>"
  have "subscribeAddresses c ads req s = (Inr (SubscriptionResponse True), ?s')"
    by (simp add: subscribeAddresses_def abind_def s1_def unsubscribeAddresses_def)
  moreover have "map_of (subscribersOf ad ?s') c' =
      (if ad \<in> set ads \<and> c' = c then Some (ID_req req) else map_of (subscribersOf ad s1) c')" for ad c'
    unfolding subscribersOf_def by (simp add: subscribersOf_fold)
  then have "\<forall>ad c'. map_of (subscribersOf ad ?s') c' =
      (if c' = c then (if ad \<in> set ads then Some (ID_req req) else None) else map_of (subscribersOf ad s) c')"
    unfolding s1_def by simp
  ultimately show ?thesis by blast
qed

text \<open>
  A channel that is closed has no subscriptions left, and the other channels keep theirs.
\<close>

theorem close_unsubscribes:
  assumes "IsAlive c s" "c < length (channels s)"
  shows "\<exists>s'. closeChannel c s = (Inr (), s') \<and> \<not> IsAlive c s' \<and>
    (\<forall>c'. map_of (newBlockSubscriptions s') c' = (if c' = c then None else map_of (newBlockSubscriptions s) c')) \<and>
    (\<forall>ad c'. map_of (subscribersOf ad s') c' = (if c' = c then None else map_of (subscribersOf ad s) c'))"
  using assms
  by (auto simp: closeChannel_def onDisconnect_def abind_def unsubscribeNewBlock_def unsubscribeAddresses_def IsAlive_def subscribersOf_def map_of_deleted
      split: option.splits)

text \<open>
  A request that is still running when its channel is closed can subscribe the closed channel. Nothing removes this subscription: closing
  the channel again does nothing.
\<close>

theorem late_subscription_stays:
  assumes "ws_reachable V s" "c < length (channels s)" "\<not> IsAlive c s" "Method_req req = ''subscribeNewBlock''"
  shows "\<exists>s'. onRequest V c req s = (Inr (), s') \<and> map_of (newBlockSubscriptions s') c = Some (ID_req req) \<and> closeChannel c s' = (Inr (), s')"
proof -
  have "closed_ch (channels s ! c)"
    using ws_reachable_serverOk[OF assms(1)] assms(2,3) by (simp add: serverOk_def list_all_length channelOk_def IsAlive_def)
  then show ?thesis using assms(3,4)
    by (simp add: onRequest_def requestHandler_def subscribeNewBlock_def sendResponse_def send_def IsAlive_def closeChannel_def)
qed

section \<open>A server with one client\<close>

definition plainWs :: "(mem, Block list) ws_env" where
  "plainWs = \<lparr> api_env_ws = plainEnv (\<lambda>_. zeroTx), interferences = [id, id], rounds = 2, StableTxids = id, StableUtxos = id,
     EstimateSmartFee = (\<lambda>_ _. ret 1000), EthereumTypeEstimateGas = (\<lambda>_. ret 21000), SendRawTransaction = ret, IsTestnet = False, VersionInfo = [],
     UnmarshalAccountInfo = (\<lambda>_. Inl (Errorf ''json'')), UnmarshalInt = (\<lambda>_ _. Inr 0), UnmarshalString = (\<lambda>_. Inr), UnmarshalAddresses = (\<lambda>p. Inr [p]),
     UnmarshalEstimateFee = (\<lambda>_. Inr \<lparr> Blocks_r = [2], Specific = [(''txsize'', JNumber 250)] \<rparr>), UnmarshalReq = (\<lambda>_. Inl (Errorf ''json'')) \<rparr>"

definition startServer :: "(mem, Block list) WebsocketServer" where
  "startServer = \<lparr> api_ws = (sampleW sampleDB, []), block0hash = [], connectionCounter = 0, channels = [], newBlockSubscriptions = [], addressSubscriptions = [] \<rparr>"

definition subReq :: websocketReq where
  "subReq = \<lparr> ID_req = ''7'', Method_req = ''subscribeNewBlock'', Params_req = [] \<rparr>"

definition oneClient :: "(mem, Block list) WebsocketServer" where
  "oneClient = snd (openChannel startServer)"

definition oneSubscriber :: "(mem, Block list) WebsocketServer" where
  "oneSubscriber = snd (onRequest plainWs 0 subReq oneClient)"

definition oneClosed :: "(mem, Block list) WebsocketServer" where
  "oneClosed = snd (inputMessage plainWs 0 CloseMessage oneClient)"

lemma one_simps [simp]:
  "channels oneClient = [\<lparr> id_ch = 1, out_ch = [], closed_ch = False, alive_ch = True \<rparr>]"
  "channels oneSubscriber = [\<lparr> id_ch = 1, out_ch = [\<lparr> ID_res = ''7'', Data_res = SubscriptionResponse True \<rparr>], closed_ch = False, alive_ch = True \<rparr>]"
  "newBlockSubscriptions oneSubscriber = [(0, ''7'')]"
  "channels oneClosed = [\<lparr> id_ch = 1, out_ch = [], closed_ch = True, alive_ch = False \<rparr>]"
  by (simp_all add: oneClient_def oneSubscriber_def oneClosed_def startServer_def openChannel_def onRequest_def requestHandler_def subReq_def
      subscribeNewBlock_def sendResponse_def send_def outChannelSize_def inputMessage_def closeChannel_def IsAlive_def onDisconnect_def abind_def
      unsubscribeNewBlock_def unsubscribeAddresses_def)

lemma one_reachable: "ws_reachable plainWs oneClient" "ws_reachable plainWs oneSubscriber" "ws_reachable plainWs oneClosed"
proof -
  have "NewWebsocketServer plainWs (sampleW sampleDB) [] = Inr startServer"
    by (simp add: NewWebsocketServer_def startServer_def plainWs_def plainEnv_def GetBlockHash_def GetBlockInfo_def getData_def sampleDB_def memdb_def unpackBlockInfo_def)
  then have "ws_reachable plainWs startServer" by (rule ws_reachable.start)
  then show c: "ws_reachable plainWs oneClient" unfolding oneClient_def by (rule ws_reachable.step) (rule ws_step.connect)
  show "ws_reachable plainWs oneSubscriber" unfolding oneSubscriber_def by (rule ws_reachable.step[OF c]) (rule ws_step.request, simp)
  show "ws_reachable plainWs oneClosed" unfolding oneClosed_def by (rule ws_reachable.step[OF c]) (rule ws_step.message, simp)
qed


theorem request_on_closed_channel_witness:
  "\<exists>s'. onRequest plainWs 0 subReq oneClosed = (Inr (), s') \<and> channels s' = channels oneClosed"
proof -
  have "fst (requestHandler plainWs 0 subReq oneClosed) \<noteq> Inl (Hang e)" for e by (simp add: requestHandler_def subReq_def subscribeNewBlock_def)
  with request_on_closed_channel[of oneClosed 0 plainWs subReq] show ?thesis by simp
qed


theorem new_block_broadcast_witness:
  "\<exists>s'. OnNewBlock ''00ab'' 5 oneSubscriber = (Inr (), s') \<and>
     last (out_ch (channels s' ! 0)) = \<lparr> ID_res = ''7'', Data_res = NewBlockData 5 ''00ab'' \<rparr>"
  using new_block_broadcast[OF one_reachable(2), of "''00ab''" 5] by (auto simp: outChannelSize_def IsAlive_def)

theorem close_unsubscribes_witness: "\<exists>s'. closeChannel 0 oneSubscriber = (Inr (), s') \<and> map_of (newBlockSubscriptions s') 0 = None"
  using close_unsubscribes[of 0 oneSubscriber] by (auto simp: IsAlive_def)

theorem late_subscription_stays_witness:
  "\<exists>s'. onRequest plainWs 0 subReq oneClosed = (Inr (), s') \<and> map_of (newBlockSubscriptions s') 0 = Some ''7'' \<and> closeChannel 0 s' = (Inr (), s')"
  using late_subscription_stays[OF one_reachable(3), of 0 subReq] by (simp add: IsAlive_def subReq_def)

end
