(* ===== verification/Api_V1.thy ===== *)
theory Api_V1
  imports Api_Address
begin

text \<open>
  The answers of the first version of the API (\<open>api/typesv1.go\<close>), which the worker makes from those of the second one. An amount is given
  twice, as a number and as a decimal string. \<open>Asm\<close>, \<open>Type\<close> and \<open>Size\<close> are never set in the answers that are converted, so they are
  not in the records.

  The theorem: the conversion returns, and every decimal string is the amount it stands for.
\<close>

section \<open>Data\<close>

record VinV1 =
  Txid_v1 :: string
  Vout_v1 :: uint32
  Sequence_v1 :: int64
  N_v1 :: nat
  ScriptSigHex_v1 :: string
  AddrDesc_v1 :: AddressDescriptor
  Addresses_v1 :: "string list"
  Searchable_v1 :: bool
  Value_v1 :: string
  ValueSat_v1 :: int

record ScriptPubKeyV1 =
  Hex_s1 :: string
  AddrDesc_s1 :: AddressDescriptor
  Addresses_s1 :: "string list"
  Searchable_s1 :: bool

record VoutV1 =
  Value_o1 :: string
  ValueSat_o1 :: int
  N_o1 :: nat
  ScriptPubKey_o1 :: ScriptPubKeyV1
  Spent_o1 :: bool
  SpentTxID_o1 :: string
  SpentIndex_o1 :: int
  SpentHeight_o1 :: int

record TxV1 =
  Txid_t1 :: string
  Version_t1 :: int32
  Locktime_t1 :: uint32
  Vin_t1 :: "VinV1 list"
  Vout_t1 :: "VoutV1 list"
  Blockhash_t1 :: string
  Blockheight_t1 :: uint32
  Confirmations_t1 :: uint32
  Time_t1 :: int64
  Blocktime_t1 :: int64
  ValueOut_t1 :: string
  ValueOutSat_t1 :: int
  ValueIn_t1 :: string
  ValueInSat_t1 :: int
  Fees_t1 :: string
  FeesSat_t1 :: int
  Hex_t1 :: string

record AddressV1 =
  Paging_a1 :: Paging
  AddrStr_a1 :: string
  Balance_a1 :: string
  TotalReceived_a1 :: string
  TotalSent_a1 :: string
  UnconfirmedBalance_a1 :: string
  UnconfirmedTxApperances :: int
  TxApperances :: int
  Transactions_a1 :: "TxV1 list"
  Txids_a1 :: "string list"

record AddressUtxoV1 =
  Txid_u1 :: string
  Vout_u1 :: uint32
  Amount_u1 :: string
  AmountSat_u1 :: int
  Height_u1 :: int
  Confirmations_u1 :: int

text \<open>The information about the block is taken over as it is; the record holds the block without its transactions.\<close>

record BlockV1 =
  Block_b1 :: BlockA
  Transactions_b1 :: "TxV1 list"

section \<open>Conversions\<close>

definition VinToV1 :: "int \<Rightarrow> VinA \<Rightarrow> go_error + VinV1" where
  "VinToV1 d v =
     rbind (Amount_DecimalString (ValueSat_va v) d) (\<lambda>value.
     Inr \<lparr> Txid_v1 = Txid_va v, Vout_v1 = Vout_va v, Sequence_v1 = Sequence_va v, N_v1 = N_va v, ScriptSigHex_v1 = Hex_va v,
           AddrDesc_v1 = AddrDesc_va v, Addresses_v1 = Addresses_va v, Searchable_v1 = Searchable_va v, Value_v1 = value,
           ValueSat_v1 = AsBigInt (ValueSat_va v) \<rparr>)"

definition VoutToV1 :: "int \<Rightarrow> VoutA \<Rightarrow> go_error + VoutV1" where
  "VoutToV1 d v =
     rbind (Amount_DecimalString (ValueSat_oa v) d) (\<lambda>value.
     Inr \<lparr> Value_o1 = value, ValueSat_o1 = AsBigInt (ValueSat_oa v), N_o1 = N_oa v,
           ScriptPubKey_o1 = \<lparr> Hex_s1 = Hex_oa v, AddrDesc_s1 = AddrDesc_oa v, Addresses_s1 = Addresses_oa v, Searchable_s1 = Searchable_oa v \<rparr>,
           Spent_o1 = Spent_oa v, SpentTxID_o1 = SpentTxID v, SpentIndex_o1 = SpentIndex v, SpentHeight_o1 = SpentHeight v \<rparr>)"

definition TxToV1 :: "BlockChainParser \<Rightarrow> TxA \<Rightarrow> go_error + TxV1" where
  "TxToV1 p tx =
     (let d = AmountDecimals p in
      rbind (rmap (VinToV1 d) (Vin_a tx)) (\<lambda>vinV1.
      rbind (rmap (VoutToV1 d) (Vout_a tx)) (\<lambda>voutV1.
      rbind (Amount_DecimalString (FeesSat tx) d) (\<lambda>fees.
      rbind (Amount_DecimalString (ValueInSat tx) d) (\<lambda>valueIn.
      rbind (Amount_DecimalString (ValueOutSat tx) d) (\<lambda>valueOut.
      Inr \<lparr> Txid_t1 = Txid_a tx, Version_t1 = Version_a tx, Locktime_t1 = Locktime_a tx, Vin_t1 = vinV1, Vout_t1 = voutV1,
            Blockhash_t1 = Blockhash_a tx, Blockheight_t1 = Blockheight tx, Confirmations_t1 = Confirmations_a tx,
            Time_t1 = Blocktime_a tx, Blocktime_t1 = Blocktime_a tx, ValueOut_t1 = valueOut, ValueOutSat_t1 = AsBigInt (ValueOutSat tx),
            ValueIn_t1 = valueIn, ValueInSat_t1 = AsBigInt (ValueInSat tx), Fees_t1 = fees, FeesSat_t1 = AsBigInt (FeesSat tx),
            Hex_t1 = Hex_a tx \<rparr>))))))"

definition transactionsToV1 :: "BlockChainParser \<Rightarrow> TxA list \<Rightarrow> go_error + TxV1 list" where
  "transactionsToV1 p txs = rmap (TxToV1 p) txs"

definition AddressToV1 :: "BlockChainParser \<Rightarrow> Address \<Rightarrow> go_error + AddressV1" where
  "AddressToV1 p a =
     (let d = AmountDecimals p in
      rbind (Amount_DecimalString (Some (BalanceSat_ad a)) d) (\<lambda>balance.
      rbind (Amount_DecimalString (TotalReceivedSat_ad a) d) (\<lambda>totalReceived.
      rbind (Amount_DecimalString (TotalSentSat_ad a) d) (\<lambda>totalSent.
      rbind (transactionsToV1 p (Transactions_ad a)) (\<lambda>txs.
      rbind (Amount_DecimalString (Some (UnconfirmedBalanceSat a)) d) (\<lambda>unconfirmed.
      Inr \<lparr> Paging_a1 = Paging_ad a, AddrStr_a1 = AddrStr a, Balance_a1 = balance, TotalReceived_a1 = totalReceived, TotalSent_a1 = totalSent,
            UnconfirmedBalance_a1 = unconfirmed, UnconfirmedTxApperances = UnconfirmedTxs a, TxApperances = Txs_ad a, Transactions_a1 = txs,
            Txids_a1 = Txids_ad a \<rparr>))))))"

definition UtxoToV1 :: "int \<Rightarrow> UtxoA \<Rightarrow> go_error + AddressUtxoV1" where
  "UtxoToV1 d utxo =
     rbind (Amount_DecimalString (AmountSat utxo) d) (\<lambda>amount.
     Inr \<lparr> Txid_u1 = Txid_ua utxo, Vout_u1 = ucast (Vout_ua utxo), Amount_u1 = amount, AmountSat_u1 = AsBigInt (AmountSat utxo),
           Height_u1 = Height_ua utxo, Confirmations_u1 = Confirmations_ua utxo \<rparr>)"

definition AddressUtxoToV1 :: "BlockChainParser \<Rightarrow> UtxoA list \<Rightarrow> go_error + AddressUtxoV1 list" where
  "AddressUtxoToV1 p au = rmap (UtxoToV1 (AmountDecimals p)) au"

definition BlockToV1 :: "BlockChainParser \<Rightarrow> BlockA \<Rightarrow> go_error + BlockV1" where
  "BlockToV1 p b =
     rbind (transactionsToV1 p (Transactions_ba b)) (\<lambda>txs. Inr \<lparr> Block_b1 = b\<lparr> Transactions_ba := [] \<rparr>, Transactions_b1 = txs \<rparr>)"

section \<open>The decimal strings are the amounts\<close>

text \<open>What a decimal string \<open>s\<close> has to say about an amount: empty for nil, otherwise it is read as this amount.\<close>

definition reads :: "BaseParser \<Rightarrow> string \<Rightarrow> int option \<Rightarrow> bool" where
  "reads b s a = (case a of None \<Rightarrow> s = '''' | Some n \<Rightarrow> AmountToBigInt b s = Inr n)"

lemma Amount_DecimalString_reads:
  assumes "0 \<le> AmountDecimalPoint b"
  shows "\<exists>s. Amount_DecimalString a (AmountDecimalPoint b) = Inr s \<and> reads b s a"
proof (cases a)
  case None
  then show ?thesis by (simp add: Amount_DecimalString_def AmountToDecimalString_def reads_def)
next
  case (Some n)
  then show ?thesis using AmountToBigInt_AmountToDecimalString[OF assms, of n]
    by (auto simp: Amount_DecimalString_def reads_def rbind_eq_Inr_iff)
qed

lemma rmap_all2:
  "(\<And>x. x \<in> set xs \<Longrightarrow> \<exists>y. f x = Inr y \<and> P x y) \<Longrightarrow> \<exists>ys. rmap f xs = Inr ys \<and> list_all2 P xs ys"
proof (induction xs)
  case (Cons x xs)
  then obtain ys where "rmap f xs = Inr ys" "list_all2 P xs ys" by fastforce
  moreover obtain y where "f x = Inr y" "P x y" using Cons.prems[of x] by auto
  ultimately show ?case by auto
qed simp

definition vinAgrees :: "BaseParser \<Rightarrow> VinA \<Rightarrow> VinV1 \<Rightarrow> bool" where
  "vinAgrees b v v1 \<longleftrightarrow> reads b (Value_v1 v1) (ValueSat_va v) \<and> ValueSat_v1 v1 = AsBigInt (ValueSat_va v) \<and> Txid_v1 v1 = Txid_va v \<and> Vout_v1 v1 = Vout_va v"

definition voutAgrees :: "BaseParser \<Rightarrow> VoutA \<Rightarrow> VoutV1 \<Rightarrow> bool" where
  "voutAgrees b v v1 \<longleftrightarrow> reads b (Value_o1 v1) (ValueSat_oa v) \<and> ValueSat_o1 v1 = AsBigInt (ValueSat_oa v) \<and> SpentTxID_o1 v1 = SpentTxID v"

definition txAgrees :: "BaseParser \<Rightarrow> TxA \<Rightarrow> TxV1 \<Rightarrow> bool" where
  "txAgrees b tx v1 \<longleftrightarrow> list_all2 (vinAgrees b) (Vin_a tx) (Vin_t1 v1) \<and> list_all2 (voutAgrees b) (Vout_a tx) (Vout_t1 v1) \<and>
     reads b (Fees_t1 v1) (FeesSat tx) \<and> reads b (ValueIn_t1 v1) (ValueInSat tx) \<and> reads b (ValueOut_t1 v1) (ValueOutSat tx) \<and> Txid_t1 v1 = Txid_a tx"

lemma TxToV1_agrees:
  assumes "0 \<le> AmountDecimalPoint b" "AmountDecimals p = AmountDecimalPoint b"
  shows "\<exists>v1. TxToV1 p tx = Inr v1 \<and> txAgrees b tx v1"
proof -
  note printed = Amount_DecimalString_reads[OF assms(1)]
  have "\<exists>y. VinToV1 (AmountDecimalPoint b) v = Inr y \<and> vinAgrees b v y" for v
    using printed[of "ValueSat_va v"] by (auto simp: VinToV1_def vinAgrees_def)
  then obtain vins where vins: "rmap (VinToV1 (AmountDecimalPoint b)) (Vin_a tx) = Inr vins" "list_all2 (vinAgrees b) (Vin_a tx) vins"
    using rmap_all2[of "Vin_a tx" "VinToV1 (AmountDecimalPoint b)" "vinAgrees b"] by blast
  have "\<exists>y. VoutToV1 (AmountDecimalPoint b) v = Inr y \<and> voutAgrees b v y" for v
    using printed[of "ValueSat_oa v"] by (auto simp: VoutToV1_def voutAgrees_def)
  then obtain vouts where vouts: "rmap (VoutToV1 (AmountDecimalPoint b)) (Vout_a tx) = Inr vouts" "list_all2 (voutAgrees b) (Vout_a tx) vouts"
    using rmap_all2[of "Vout_a tx" "VoutToV1 (AmountDecimalPoint b)" "voutAgrees b"] by blast
  obtain f i o' where "Amount_DecimalString (FeesSat tx) (AmountDecimalPoint b) = Inr f \<and> reads b f (FeesSat tx)"
      "Amount_DecimalString (ValueInSat tx) (AmountDecimalPoint b) = Inr i \<and> reads b i (ValueInSat tx)"
      "Amount_DecimalString (ValueOutSat tx) (AmountDecimalPoint b) = Inr o' \<and> reads b o' (ValueOutSat tx)"
    using printed by blast
  then show ?thesis using vins vouts assms(2) by (simp add: TxToV1_def txAgrees_def)
qed

text \<open>
  Converting the answer for an address to the first version of the API always returns, and each decimal string of it, those of
  its transactions, inputs and outputs included, is read back as the amount of the original answer.
\<close>

theorem v1_address_amounts:
  assumes "0 \<le> AmountDecimalPoint b" "AmountDecimals p = AmountDecimalPoint b"
  shows "\<exists>v1. AddressToV1 p a = Inr v1 \<and> reads b (Balance_a1 v1) (Some (BalanceSat_ad a)) \<and>
    reads b (TotalReceived_a1 v1) (TotalReceivedSat_ad a) \<and> reads b (TotalSent_a1 v1) (TotalSentSat_ad a) \<and>
    reads b (UnconfirmedBalance_a1 v1) (Some (UnconfirmedBalanceSat a)) \<and> list_all2 (txAgrees b) (Transactions_ad a) (Transactions_a1 v1)"
proof -
  note printed = Amount_DecimalString_reads[OF assms(1)]
  obtain txs where "transactionsToV1 p (Transactions_ad a) = Inr txs" "list_all2 (txAgrees b) (Transactions_ad a) txs"
    using rmap_all2[of "Transactions_ad a" "TxToV1 p" "txAgrees b"] TxToV1_agrees[OF assms] by (auto simp: transactionsToV1_def)
  moreover obtain x y z u where "Amount_DecimalString (Some (BalanceSat_ad a)) (AmountDecimalPoint b) = Inr x \<and> reads b x (Some (BalanceSat_ad a))"
      "Amount_DecimalString (TotalReceivedSat_ad a) (AmountDecimalPoint b) = Inr y \<and> reads b y (TotalReceivedSat_ad a)"
      "Amount_DecimalString (TotalSentSat_ad a) (AmountDecimalPoint b) = Inr z \<and> reads b z (TotalSentSat_ad a)"
      "Amount_DecimalString (Some (UnconfirmedBalanceSat a)) (AmountDecimalPoint b) = Inr u \<and> reads b u (Some (UnconfirmedBalanceSat a))"
    using printed[of "Some (BalanceSat_ad a)"] printed[of "TotalReceivedSat_ad a"] printed[of "TotalSentSat_ad a"] printed[of "Some (UnconfirmedBalanceSat a)"] by metis
  ultimately show ?thesis using assms(2) by (simp add: AddressToV1_def)
qed

definition sampleAddress :: Address where
  "sampleAddress = \<lparr> Paging_ad = zeroPaging, AddrStr = ''S1'', BalanceSat_ad = 1230000, TotalReceivedSat_ad = None, TotalSentSat_ad = Some 5,
     UnconfirmedBalanceSat = - 1, UnconfirmedTxs = 0, Txs_ad = 1, NonTokenTxs = 0, Transactions_ad = [], Txids_ad = [], Nonce_ad = [], Tokens_ad = [],
     Erc20Contract_ad = None \<rparr>"

theorem v1_address_amounts_witness:
  "\<exists>v1. AddressToV1 (hexParser 300) sampleAddress = Inr v1 \<and> AmountToBigInt sampleBase (UnconfirmedBalance_a1 v1) = Inr (- 1)"
  using v1_address_amounts[of sampleBase "hexParser 300" sampleAddress]
  by (auto simp: hexParser_def embedBaseParser_def sampleBase_def sampleAddress_def reads_def)

end
