(* ===== verification/Node_RPC.thy ===== *)
theory Node_RPC
  imports Tx_Cache Skyr_Parser Complex_Main
begin

text \<open>
  The clients of the node: \<open>coins/btc/bitcoinrpc.go\<close> and \<open>coins/skyr/skyrrpc.go\<close>, which replaces some of its methods.

  The node is a parameter: each command of its RPC interface is an action on a state of its own, which gives an error of the transport or the decoded
  answer, an error of the node or a result. The sending of a request and the decoding of JSON (\<open>Call\<close>) are part of these actions. Settings of the HTTP client, the message queue and the
  alternative fee estimates are left out.

  The theorems: a block that the Skyr client assembles from the ids of its transactions is the block of the chain; with it the client meets the contract that synchronisation
  relies on, so an index follows a node that serves a chain; the two ways to read a block of a bitcoin node agree; the recursion between the fee estimates ends;
  a transaction that cannot be decoded makes the client panic.
\<close>

section \<open>Answers of the node\<close>

record RPCError =
  Code :: int
  Message :: string

text \<open>\<open>RPCError.Error()\<close>.\<close>

definition rpcError :: "RPCError \<Rightarrow> go_error" where
  "rpcError e = Errorf (BigInt_String (Code e) @ '': '' @ Message e)"

type_synonym 'r rpc = "RPCError option \<times> 'r"

record BlockThin = BlockHeader +
  Txids_bt :: "string list"

record ResGetBlockChainInfo =
  Chain_ci :: string
  Blocks_ci :: int
  Headers_ci :: int
  Bestblockhash_ci :: string
  Difficulty_ci :: string
  SizeOnDisk_ci :: int64
  Warnings_ci :: string

record ResGetNetworkInfo =
  Version_ni :: string
  Subversion_ni :: string
  ProtocolVersion_ni :: string
  Timeoffset_ni :: rat
  Warnings_ni :: string

record MempoolEntry =
  Size_en :: uint32
  FeeSat_en :: int
  Fee_en :: string
  ModifiedFeeSat_en :: int
  ModifiedFee_en :: string
  Time_en :: uint64
  Height_en :: uint32
  DescendantCount_en :: uint32
  DescendantSize_en :: uint32
  DescendantFees_en :: uint32
  AncestorCount_en :: uint32
  AncestorSize_en :: uint32
  AncestorFees_en :: uint32
  Depends_en :: "string list"

record ResGetInfo =
  TransparentSupply_gi :: string
  ShieldSupply_gi :: string
  MoneySupply_gi :: string

record RPCMasternode =
  Rank :: int
  Network_mn :: string
  Txhash :: string
  Outidx :: int
  Pubkey :: string
  Status_mn :: string
  Addr_mn :: string
  Ip :: string
  Version_mn :: int
  Lastseen :: int64
  Activetime :: int64
  Lastpaid :: int64
  Lastblock :: int

text \<open>The fields of a peer that the program reads or writes, and the rest as it came.\<close>

record RPCPeer =
  Addr_pe :: string
  Services_pe :: string
  Subver_pe :: string
  Location_pe :: string
  Rest_pe :: string

record 'n node =
  getbestblockhash :: "('n, string rpc) action"
  getblockcount :: "('n, uint32 rpc) action"
  getblockchaininfo :: "('n, ResGetBlockChainInfo rpc) action"
  getnetworkinfo :: "('n, ResGetNetworkInfo rpc) action"
  getblockhash :: "uint32 \<Rightarrow> ('n, string rpc) action"
  getblockheader :: "string \<Rightarrow> ('n, BlockHeader rpc) action"
  getblock_raw :: "string \<Rightarrow> ('n, string rpc) action"
  getblock_thin :: "string \<Rightarrow> ('n, BlockThin rpc) action"
  getblock_full :: "string \<Rightarrow> ('n, Block rpc) action"
  getrawmempool :: "('n, string list rpc) action"
  getrawtransaction :: "string \<Rightarrow> ('n, string rpc) action"
  getrawtransaction_hex :: "string \<Rightarrow> ('n, string rpc) action"
  estimatesmartfee :: "int \<Rightarrow> string \<Rightarrow> ('n, string rpc) action"
  estimatefee :: "int \<Rightarrow> ('n, string rpc) action"
  sendrawtransaction :: "string \<Rightarrow> ('n, string rpc) action"
  getmempoolentry :: "string \<Rightarrow> ('n, MempoolEntry option rpc) action"
  getinfo :: "('n, ResGetInfo rpc) action"
  getmasternodecount :: "('n, int rpc) action"
  getconnectioncount :: "('n, int rpc) action"
  listmasternodes :: "('n, RPCMasternode list option rpc) action"
  getnodeblockcount :: "string \<Rightarrow> ('n, int rpc) action"
  getpeerinfo :: "('n, RPCPeer list option rpc) action"
  findserial :: "string \<Rightarrow> ('n, (bool \<times> string) rpc) action"
  localAddr :: "('n, string option) action"
  geoLocation :: "string \<Rightarrow> ('n, string option option) action"

text \<open>The result of a command, when an error of the node becomes \<open>f\<close> of it.\<close>

definition resultOf :: "(RPCError \<Rightarrow> go_error) \<Rightarrow> ('n, 'r rpc) action \<Rightarrow> ('n, 'r) action" where
  "resultOf f m = abind m (\<lambda>(e, r). case e of Some e \<Rightarrow> throw (f e) | None \<Rightarrow> ret r)"

definition annotatedCall :: "string \<Rightarrow> ('n, 'a) action \<Rightarrow> ('n, 'a) action" where
  "annotatedCall msg m w = (case m w of (r, w) \<Rightarrow> (Annotatef msg r, w))"

section \<open>The bitcoin client\<close>

record RPCConfiguration = Configuration +
  Parse :: bool
  MempoolWorkers :: int
  MempoolSubWorkers :: int
  SupportsEstimateFee :: bool
  SupportsEstimateSmartFee :: bool
  Geolocation_url :: string

record BitcoinRPC =
  Parser :: BlockChainParser
  ParseBlocks :: bool
  Testnet :: bool
  Network :: string
  ChainConfig :: RPCConfiguration

definition checkConfiguration :: "RPCConfiguration \<Rightarrow> RPCConfiguration" where
  "checkConfiguration c = c\<lparr> BlockAddressesToKeep_c := max 100 (BlockAddressesToKeep_c c),
     MempoolWorkers := max 1 (MempoolWorkers c), MempoolSubWorkers := max 1 (MempoolSubWorkers c),
     SupportsEstimateFee := True, SupportsEstimateSmartFee := True \<rparr>"

definition IsErrBlockNotFound :: "RPCError \<Rightarrow> bool" where
  "IsErrBlockNotFound e \<longleftrightarrow> Message e = ''Block not found'' \<or> Message e = ''Block height out of range''"

definition IsMissingTx :: "RPCError \<Rightarrow> bool" where
  "IsMissingTx e \<longleftrightarrow> Code e = - 5"

definition blockError :: "string \<Rightarrow> RPCError \<Rightarrow> go_error" where
  "blockError msg e = (if IsErrBlockNotFound e then ErrBlockNotFound else Errorf msg)"

definition txError :: "string \<Rightarrow> RPCError \<Rightarrow> go_error" where
  "txError msg e = (if IsMissingTx e then ErrTxNotFound else Errorf msg)"

definition GetBestBlockHash_rpc :: "'n node \<Rightarrow> ('n, string) action" where
  "GetBestBlockHash_rpc N = resultOf rpcError (getbestblockhash N)"

definition GetBestBlockHeight_rpc :: "'n node \<Rightarrow> ('n, uint32) action" where
  "GetBestBlockHeight_rpc N = resultOf rpcError (getblockcount N)"

record ChainInfo =
  Chain_in :: string
  Blocks_in :: int
  Headers_in :: int
  Bestblockhash_in :: string
  Difficulty_in :: string
  SizeOnDisk_in :: int64
  Version_in :: string
  Subversion_in :: string
  ProtocolVersion_in :: string
  Timeoffset_in :: rat
  Warnings_in :: string
  TransparentSupply :: string
  ShieldSupply :: string
  MoneySupply :: string
  MasternodeCount :: int
  ConnectionCount :: int
  NextSuperBlock :: int

definition GetChainInfo_btc :: "'n node \<Rightarrow> ('n, ChainInfo) action" where
  "GetChainInfo_btc N =
     abind (resultOf rpcError (getblockchaininfo N)) (\<lambda>ci.
     abind (resultOf rpcError (getnetworkinfo N)) (\<lambda>ni.
     ret \<lparr> Chain_in = Chain_ci ci, Blocks_in = Blocks_ci ci, Headers_in = Headers_ci ci, Bestblockhash_in = Bestblockhash_ci ci,
           Difficulty_in = Difficulty_ci ci, SizeOnDisk_in = SizeOnDisk_ci ci, Version_in = Version_ni ni, Subversion_in = Subversion_ni ni,
           ProtocolVersion_in = ProtocolVersion_ni ni, Timeoffset_in = Timeoffset_ni ni,
           Warnings_in = (if Warnings_ci ci \<noteq> '''' then Warnings_ci ci @ '' '' else '''') @ (if Warnings_ci ci \<noteq> Warnings_ni ni then Warnings_ni ni else ''''),
           TransparentSupply = '''', ShieldSupply = '''', MoneySupply = '''', MasternodeCount = 0, ConnectionCount = 0, NextSuperBlock = 0 \<rparr>))"

definition GetBlockHash_rpc :: "'n node \<Rightarrow> uint32 \<Rightarrow> ('n, string) action" where
  "GetBlockHash_rpc N height = resultOf (blockError ''height'') (annotatedCall ''height'' (getblockhash N height))"

definition GetBlockHeader_rpc :: "'n node \<Rightarrow> string \<Rightarrow> ('n, BlockHeader) action" where
  "GetBlockHeader_rpc N hash = resultOf (blockError ''hash'') (annotatedCall ''hash'' (getblockheader N hash))"

definition GetBlockRaw :: "'n node \<Rightarrow> string \<Rightarrow> ('n, bytes) action" where
  "GetBlockRaw N hash =
     abind (resultOf (blockError ''hash'') (annotatedCall ''hash'' (getblock_raw N hash))) (\<lambda>s. query (\<lambda>_. DecodeString s))"

definition GetBlockWithoutHeader :: "BitcoinRPC \<Rightarrow> 'n node \<Rightarrow> string \<Rightarrow> uint32 \<Rightarrow> ('n, Block) action" where
  "GetBlockWithoutHeader b N hash height =
     abind (GetBlockRaw N hash) (\<lambda>data.
     abind (query (\<lambda>_. Annotatef ''height hash'' (ParseBlock (Parser b) data))) (\<lambda>block.
     ret (block\<lparr> Hash_bh := hash, Height_bh := height \<rparr>)))"

definition fullVout :: "BlockChainParser \<Rightarrow> Vout \<Rightarrow> go_error + Vout" where
  "fullVout p vout = rbind (AmountToBigInt_p p (JsonValue vout)) (\<lambda>v. Inr (vout\<lparr> ValueSat_vout := v, JsonValue := '''' \<rparr>))"

definition fullTx :: "BlockChainParser \<Rightarrow> Tx \<Rightarrow> go_error + Tx" where
  "fullTx p tx = rbind (rmap (fullVout p) (Vout_tx tx)) (\<lambda>vouts. Inr (tx\<lparr> Vout_tx := vouts \<rparr>))"

definition GetBlockFull :: "BitcoinRPC \<Rightarrow> 'n node \<Rightarrow> string \<Rightarrow> ('n, Block) action" where
  "GetBlockFull b N hash =
     abind (resultOf (blockError ''hash'') (annotatedCall ''hash'' (getblock_full N hash))) (\<lambda>block.
     abind (query (\<lambda>_. rmap (fullTx (Parser b)) (Txs_blk block))) (\<lambda>txs.
     ret (block\<lparr> Txs_blk := txs \<rparr>)))"

definition withHeader :: "BlockHeader \<Rightarrow> Block \<Rightarrow> Block" where
  "withHeader h block = BlockHeader.extend h \<lparr> Txs_blk = Txs_blk block \<rparr>"

definition GetBlock_btc :: "BitcoinRPC \<Rightarrow> 'n node \<Rightarrow> string \<Rightarrow> uint32 \<Rightarrow> ('n, Block) action" where
  "GetBlock_btc b N hash height =
     abind (if hash = '''' then GetBlockHash_rpc N height else ret hash) (\<lambda>hash.
     if \<not> ParseBlocks b then GetBlockFull b N hash
     else if height > 0 then GetBlockWithoutHeader b N hash height
     else
       abind (GetBlockHeader_rpc N hash) (\<lambda>header.
       abind (GetBlockRaw N hash) (\<lambda>data.
       abind (query (\<lambda>_. Annotatef ''hash'' (ParseBlock (Parser b) data))) (\<lambda>block.
       ret (withHeader header block)))))"

definition GetMempoolTransactions_rpc :: "'n node \<Rightarrow> ('n, string list) action" where
  "GetMempoolTransactions_rpc N = resultOf rpcError (getrawmempool N)"

definition GetTransactionForMempool_rpc :: "BitcoinRPC \<Rightarrow> 'n node \<Rightarrow> string \<Rightarrow> ('n, Tx) action" where
  "GetTransactionForMempool_rpc b N txid =
     abind (resultOf (txError ''txid'') (annotatedCall ''txid'' (getrawtransaction_hex N txid))) (\<lambda>s.
     query (\<lambda>_. rbind (Annotatef ''txid'' (DecodeString s)) (\<lambda>data. Annotatef ''txid'' (ParseTx (Parser b) data))))"

definition getRawTransaction :: "'n node \<Rightarrow> string \<Rightarrow> ('n, string) action" where
  "getRawTransaction N txid = resultOf (txError ''txid'') (annotatedCall ''txid'' (getrawtransaction N txid))"

text \<open>\<open>ParseTxFromJson\<close> returns no transaction with an error, and the client writes to the transaction before it looks at the error.\<close>

definition GetTransaction_rpc :: "BitcoinRPC \<Rightarrow> 'n node \<Rightarrow> string \<Rightarrow> ('n, Tx) action" where
  "GetTransaction_rpc b N txid =
     abind (getRawTransaction N txid) (\<lambda>r.
     case ParseTxFromJson (Parser b) r of
       Inl e \<Rightarrow> throw (if is_panic e then e else Panic ''nil pointer dereference'')
     | Inr tx \<Rightarrow> ret (tx\<lparr> CoinSpecificData := RawMessage r \<rparr>))"

definition GetTransactionSpecific_rpc :: "'n node \<Rightarrow> Tx \<Rightarrow> ('n, string) action" where
  "GetTransactionSpecific_rpc N tx = (case CoinSpecificData tx of RawMessage csd \<Rightarrow> ret csd | _ \<Rightarrow> getRawTransaction N (Txid_tx tx))"

text \<open>\<open>EstimateSmartFee\<close> and \<open>EstimateFee\<close> call each other when the node does not support one of them; the first argument bounds the calls.\<close>

fun estimate :: "nat \<Rightarrow> BitcoinRPC \<Rightarrow> 'n node \<Rightarrow> bool \<Rightarrow> int \<Rightarrow> bool \<Rightarrow> ('n, int) action" where
  "estimate 0 b N smart blocks conservative = throw (Hang ''EstimateFee'')"
| "estimate (Suc n) b N smart blocks conservative =
     (if smart then
        if \<not> SupportsEstimateSmartFee (ChainConfig b) \<and> SupportsEstimateFee (ChainConfig b) then estimate n b N False blocks conservative
        else
          abind (resultOf rpcError (estimatesmartfee N blocks (if conservative then ''CONSERVATIVE'' else ''ECONOMICAL''))) (\<lambda>r.
          query (\<lambda>_. AmountToBigInt_p (Parser b) r))
      else
        if \<not> SupportsEstimateFee (ChainConfig b) \<and> SupportsEstimateSmartFee (ChainConfig b) then estimate n b N True blocks True
        else abind (resultOf rpcError (estimatefee N blocks)) (\<lambda>r. query (\<lambda>_. AmountToBigInt_p (Parser b) r)))"

definition EstimateSmartFee_rpc :: "BitcoinRPC \<Rightarrow> 'n node \<Rightarrow> int \<Rightarrow> bool \<Rightarrow> ('n, int) action" where
  "EstimateSmartFee_rpc b N blocks conservative = estimate 2 b N True blocks conservative"

definition EstimateFee_rpc :: "BitcoinRPC \<Rightarrow> 'n node \<Rightarrow> int \<Rightarrow> ('n, int) action" where
  "EstimateFee_rpc b N blocks = estimate 2 b N False blocks True"

definition SendRawTransaction_rpc :: "'n node \<Rightarrow> string \<Rightarrow> ('n, string) action" where
  "SendRawTransaction_rpc N tx = resultOf rpcError (sendrawtransaction N tx)"

definition GetMempoolEntry_rpc :: "BitcoinRPC \<Rightarrow> 'n node \<Rightarrow> string \<Rightarrow> ('n, MempoolEntry) action" where
  "GetMempoolEntry_rpc b N txid =
     abind (resultOf rpcError (getmempoolentry N txid)) (\<lambda>r.
     case r of
       None \<Rightarrow> throw (Panic ''nil pointer dereference'')
     | Some e \<Rightarrow>
         query (\<lambda>_.
           rbind (AmountToBigInt_p (Parser b) (Fee_en e)) (\<lambda>fee.
           rbind (AmountToBigInt_p (Parser b) (ModifiedFee_en e)) (\<lambda>mfee.
           Inr (e\<lparr> FeeSat_en := fee, ModifiedFeeSat_en := mfee \<rparr>)))))"

section \<open>The Skyr client\<close>

definition skyrConfiguration :: "RPCConfiguration \<Rightarrow> RPCConfiguration" where
  "skyrConfiguration c = (checkConfiguration c)\<lparr> SupportsEstimateFee := True, SupportsEstimateSmartFee := False \<rparr>"

text \<open>Transactions that the node does not know are left out of the block.\<close>

fun blockTransactions :: "BitcoinRPC \<Rightarrow> 'n node \<Rightarrow> string list \<Rightarrow> ('n, Tx list) action" where
  "blockTransactions z N [] = ret []"
| "blockTransactions z N (txid # txids) =
     abind (attempt (GetTransaction_rpc z N txid)) (\<lambda>r.
     case r of
       Inl e \<Rightarrow> if e = ErrTxNotFound then blockTransactions z N txids else throw e
     | Inr tx \<Rightarrow> abind (blockTransactions z N txids) (\<lambda>txs. ret (tx # txs)))"

definition GetBlock_skyr :: "BitcoinRPC \<Rightarrow> 'n node \<Rightarrow> string \<Rightarrow> uint32 \<Rightarrow> ('n, Block) action" where
  "GetBlock_skyr z N hash height =
     abind (if hash = '''' \<and> height > 0 then GetBlockHash_rpc N height else ret hash) (\<lambda>hash.
     abind (resultOf (\<lambda>_. Errorf ''hash'') (annotatedCall ''hash'' (getblock_thin N hash))) (\<lambda>res.
     abind (blockTransactions z N (Txids_bt res)) (\<lambda>txs.
     ret (BlockHeader.extend (BlockHeader.truncate res) \<lparr> Txs_blk = txs \<rparr>))))"

definition GetNodeBlockCount :: "'n node \<Rightarrow> string \<Rightarrow> ('n, int) action" where
  "GetNodeBlockCount N addr = resultOf rpcError (getnodeblockcount N addr)"

text \<open>Go's \<open>%\<close> truncates towards zero.\<close>

definition GetNextSuperBlock :: "BitcoinRPC \<Rightarrow> int \<Rightarrow> int" where
  "GetNextSuperBlock b nHeight =
     (let nBlocksPerPeriod = (if Testnet b then 144 else 43200) in
      nHeight - sgn nHeight * (\<bar>nHeight\<bar> mod nBlocksPerPeriod) + nBlocksPerPeriod)"

text \<open>The part of an address before the colon, \<open>strings.Split(s, ":")[0]\<close>.\<close>

definition hostOf :: "string \<Rightarrow> string" where
  "hostOf s = takeWhile (\<lambda>ch. ch \<noteq> CHR '':'') s"

definition fillMasternode :: "'n node \<Rightarrow> int \<Rightarrow> string \<Rightarrow> RPCMasternode \<Rightarrow> ('n, RPCMasternode) action" where
  "fillMasternode N bestHeight localip mn =
     (if hostOf localip = hostOf (Ip mn) then ret (mn\<lparr> Lastblock := bestHeight \<rparr>)
      else
        abind (attempt (GetNodeBlockCount N (hostOf (Ip mn)))) (\<lambda>r.
        ret (mn\<lparr> Lastblock := (case r of Inr blockcnt \<Rightarrow> blockcnt | Inl _ \<Rightarrow> 0) \<rparr>)))"

definition GetMasternodesInfo :: "'n node \<Rightarrow> ('n, RPCMasternode list option) action" where
  "GetMasternodesInfo N =
     abind (GetChainInfo_btc N) (\<lambda>rv.
     abind (resultOf rpcError (listmasternodes N)) (\<lambda>mns.
     abind (localAddr N) (\<lambda>conn.
     case conn of
       None \<Rightarrow> ret mns
     | Some localip \<Rightarrow>
         (case mns of
            None \<Rightarrow> throw (Panic ''nil pointer dereference'')
          | Some ms \<Rightarrow> abind (amap (fillMasternode N (Blocks_in rv) localip) ms) (\<lambda>ms. ret (Some ms))))))"

text \<open>\<open>geoLocation\<close> gives nothing when the request failed, and no name when its answer could not be read; \<open>resp\<close> is nil then, and its body is closed.\<close>

definition fillPeer :: "'n node \<Rightarrow> RPCPeer \<Rightarrow> ('n, RPCPeer) action" where
  "fillPeer N peer =
     abind (geoLocation N (hostOf (Addr_pe peer))) (\<lambda>r.
     case r of
       None \<Rightarrow> throw (Panic ''nil pointer dereference'')
     | Some None \<Rightarrow> ret peer
     | Some (Some loc) \<Rightarrow> ret (peer\<lparr> Location_pe := loc \<rparr>))"

definition GetPeersInfo :: "BitcoinRPC \<Rightarrow> 'n node \<Rightarrow> ('n, RPCPeer list option) action" where
  "GetPeersInfo b N =
     abind (resultOf rpcError (getpeerinfo N)) (\<lambda>peers.
     if Geolocation_url (ChainConfig b) = '''' then ret peers
     else
       case peers of
         None \<Rightarrow> throw (Panic ''nil pointer dereference'')
       | Some ps \<Rightarrow> abind (amap (fillPeer N) ps) (\<lambda>ps. ret (Some ps)))"

definition GetChainInfo_skyr :: "BitcoinRPC \<Rightarrow> 'n node \<Rightarrow> ('n, ChainInfo) action" where
  "GetChainInfo_skyr b N =
     abind (GetChainInfo_btc N) (\<lambda>rv.
     abind (resultOf rpcError (getinfo N)) (\<lambda>gi.
     abind (resultOf rpcError (getmasternodecount N)) (\<lambda>en.
     abind (resultOf rpcError (getconnectioncount N)) (\<lambda>cc.
     ret (rv\<lparr> TransparentSupply := TransparentSupply_gi gi, ShieldSupply := ShieldSupply_gi gi, MoneySupply := MoneySupply_gi gi,
        MasternodeCount := en, ConnectionCount := cc, NextSuperBlock := GetNextSuperBlock b (Headers_in rv) \<rparr>)))))"

definition Findzcserial :: "'n node \<Rightarrow> string \<Rightarrow> ('n, string) action" where
  "Findzcserial N serialHex =
     abind (resultOf rpcError (findserial N serialHex)) (\<lambda>(success, txid).
     ret (if success then txid else ''Serial not found in blockchain''))"

text \<open>The client as the back end of the index. \<open>signal\<close> stands for the signals of the operating system.\<close>

definition skyrChain :: "BitcoinRPC \<Rightarrow> 'n node \<Rightarrow> ('n \<Rightarrow> bool \<times> 'n) \<Rightarrow> 'n BlockChain" where
  "skyrChain z N signal = \<lparr> GetBestBlockHash = GetBestBlockHash_rpc N, GetBestBlockHeight = GetBestBlockHeight_rpc N, GetBlockHash_c = GetBlockHash_rpc N,
     GetBlock = GetBlock_skyr z N, GetTransaction_c = GetTransaction_rpc z N, Signal = signal \<rparr>"

section \<open>A node that serves a chain\<close>

lemma resultOf_Inr [simp]: "m n = (Inr (None, r), n') \<Longrightarrow> resultOf f m n = (Inr r, n')"
  by (simp add: resultOf_def)

lemma resultOf_error [simp]: "m n = (Inr (Some e, r), n') \<Longrightarrow> resultOf f m n = (Inl (f e), n')"
  by (simp add: resultOf_def)

lemma annotatedCall_Inr [simp]: "m n = (Inr r, n') \<Longrightarrow> annotatedCall msg m n = (Inr r, n')"
  by (simp add: annotatedCall_def)

definition thinOf :: "Block \<Rightarrow> BlockThin" where
  "thinOf b = BlockHeader.extend (BlockHeader.truncate b) \<lparr> Txids_bt = map Txid_tx (Txs_blk b) \<rparr>"

text \<open>
  What a node of the coin documents for its commands: it answers from the blocks \<open>blk 0, \<dots>, blk top_c\<close>, a block with the ids of its transactions and each transaction with the
  JSON text that the parser of the coin reads as this transaction; a height above the chain is out of range.
\<close>

locale chain_node =
  fixes z :: BitcoinRPC and N :: "'n node" and blk :: "uint32 \<Rightarrow> Block" and top_c :: uint32 and n :: 'n
  assumes node_best: "getbestblockhash N n = (Inr (None, Hash_bh (blk top_c)), n)"
    and node_hash: "h \<le> top_c \<Longrightarrow> getblockhash N h n = (Inr (None, Hash_bh (blk h)), n)"
    and node_range: "top_c < h \<Longrightarrow> getblockhash N h n = (Inr (Some \<lparr> Code = - 8, Message = ''Block height out of range'' \<rparr>, ''''), n)"
    and node_block: "h \<le> top_c \<Longrightarrow> getblock_thin N (Hash_bh (blk h)) n = (Inr (None, thinOf (blk h)), n)"
    and node_tx: "h \<le> top_c \<Longrightarrow> tx \<in> set (Txs_blk (blk h)) \<Longrightarrow>
      \<exists>raw tx'. getrawtransaction N (Txid_tx tx) n = (Inr (None, raw), n) \<and> ParseTxFromJson (Parser z) raw = Inr tx' \<and>
        tx = tx'\<lparr> CoinSpecificData := RawMessage raw \<rparr>"
    and node_next: "h < top_c \<Longrightarrow> Next_bh (blk h) = Hash_bh (blk (h + 1))"
    and node_last: "Next_bh (blk top_c) = ''''"
    and node_height: "h \<le> top_c \<Longrightarrow> Height_bh (blk h) = h"
    and node_inj: "h \<le> top_c \<Longrightarrow> h' \<le> top_c \<Longrightarrow> Hash_bh (blk h) = Hash_bh (blk h') \<Longrightarrow> h = h'"
    and node_nonempty: "h \<le> top_c \<Longrightarrow> Hash_bh (blk h) \<noteq> ''''"
    and node_top: "top_c \<noteq> -1"
begin

lemma GetTransaction_rpc_tx:
  assumes "h \<le> top_c" "tx \<in> set (Txs_blk (blk h))"
  shows "GetTransaction_rpc z N (Txid_tx tx) n = (Inr tx, n)"
proof -
  obtain raw tx' where "getrawtransaction N (Txid_tx tx) n = (Inr (None, raw), n)" "ParseTxFromJson (Parser z) raw = Inr tx'"
      "tx = tx'\<lparr> CoinSpecificData := RawMessage raw \<rparr>"
    using node_tx[OF assms] by blast
  then show ?thesis by (simp add: GetTransaction_rpc_def getRawTransaction_def)
qed

lemma blockTransactions_txs:
  assumes "h \<le> top_c"
  shows "set txs \<subseteq> set (Txs_blk (blk h)) \<Longrightarrow> blockTransactions z N (map Txid_tx txs) n = (Inr txs, n)"
  by (induction txs) (simp_all add: attempt_def GetTransaction_rpc_tx[OF assms])

lemma GetBlock_skyr_block:
  assumes "h \<le> top_c"
  shows "GetBlock_skyr z N (Hash_bh (blk h)) k n = (Inr (blk h), n)"
proof -
  have "blockTransactions z N (Txids_bt (thinOf (blk h))) n = (Inr (Txs_blk (blk h)), n)"
    using blockTransactions_txs[OF assms] by (simp add: thinOf_def BlockHeader.defs)
  then show ?thesis using node_block[OF assms] node_nonempty[OF assms]
    by (cases "blk h") (simp add: GetBlock_skyr_def thinOf_def BlockHeader.defs)
qed

lemma GetBlockHash_rpc_chain:
  "GetBlockHash_rpc N h n = (if h \<le> top_c then Inr (Hash_bh (blk h)) else Inl ErrBlockNotFound, n)"
  by (simp add: GetBlockHash_rpc_def node_hash node_range blockError_def IsErrBlockNotFound_def)

end

text \<open>The client of such a node meets the contract of a back end, when no signal arrives.\<close>

sublocale chain_node \<subseteq> backend: chain_backend "skyrChain z N (Pair False)" blk top_c n
proof unfold_locales
  show "GetBlock (skyrChain z N (Pair False)) '''' h n = (Inl ErrBlockNotFound, n)" if "top_c < h" for h
  proof -
    have "h > 0" using that by (metis word_gt_0 word_not_simps(1))
    then show ?thesis using that by (simp add: skyrChain_def GetBlock_skyr_def abind_def GetBlockHash_rpc_chain not_le[symmetric])
  qed
qed (simp_all add: skyrChain_def GetBestBlockHash_rpc_def GetBlock_skyr_block GetBlockHash_rpc_chain node_best node_next node_last node_height node_inj
    node_nonempty node_top)

context chain_node
begin

lemmas index_follows = backend.resync_behind

end

text \<open>
  An index that is synchronised through the Skyr client follows the node: when the node serves a chain that does not change during the call and the first \<open>k\<close> blocks of it are indexed, \<open>resyncIndex\<close>
  returns, the height column then holds exactly the blocks of the chain of the node, and the callback was called for each new block in order.
\<close>

theorem skyr_index_follows_node:
  assumes "chain_node z N blk tp nd" and "reliable_store (rocks E) contents" and "vlq_codec (vlq E)" and "connectable E blk tp I"
    and "k \<le> tp" and "chain w = nd" and "I (db_sw w)" and "indexed E contents (chainUpTo blk (unat k)) (db_sw w)"
    and "k = 0 \<longrightarrow> startHeight w = 0" and "\<not> (1 < syncWorkers w \<and> initial)" and "unat tp + 2 - unat k < m"
  shows "\<exists>w'. resyncIndex m E (skyrChain z N (Pair False)) onNew initial w = Inr (False, w') \<and>
    indexed E contents (chainUpTo blk (Suc (unat tp))) (db_sw w') \<and>
    newBlocks w' = newBlocks w @ (if onNew then map (\<lambda>h. (Hash_bh (blk h), h)) (heights k tp) else [])"
  using chain_node.index_follows[OF assms, of onNew] by blast

text \<open>A node with a list of blocks without transactions.\<close>

definition noCall :: "('n, 'a) action" where
  "noCall = throw (Errorf ''not supported'')"

definition listNode :: "Block list node" where
  "listNode =
     \<lparr> getbestblockhash = (\<lambda>bs. (Inr (None, Hash_bh (last bs)), bs)), getblockcount = (\<lambda>bs. (Inr (None, of_nat (length bs - 1)), bs)),
        getblockchaininfo = noCall, getnetworkinfo = noCall,
        getblockhash = (\<lambda>h bs. (Inr (if unat h < length bs then (None, Hash_bh (bs ! unat h))
          else (Some \<lparr> Code = - 8, Message = ''Block height out of range'' \<rparr>, '''')), bs)),
        getblockheader = (\<lambda>_. noCall), getblock_raw = (\<lambda>_. noCall),
        getblock_thin = (\<lambda>hash bs. (case find (\<lambda>b. Hash_bh b = hash) bs of Some b \<Rightarrow> Inr (None, thinOf b) | None \<Rightarrow> Inl (Errorf ''no block''), bs)),
        getblock_full = (\<lambda>_. noCall), getrawmempool = noCall, getrawtransaction = (\<lambda>_. noCall), getrawtransaction_hex = (\<lambda>_. noCall),
        estimatesmartfee = (\<lambda>_ _. noCall), estimatefee = (\<lambda>_. noCall), sendrawtransaction = (\<lambda>_. noCall), getmempoolentry = (\<lambda>_. noCall), getinfo = noCall,
        getmasternodecount = noCall, getconnectioncount = noCall, listmasternodes = noCall, getnodeblockcount = (\<lambda>_. noCall), getpeerinfo = noCall, findserial = (\<lambda>_. noCall),
        localAddr = noCall, geoLocation = (\<lambda>_. noCall) \<rparr>"

definition plainRPC :: BitcoinRPC where
  "plainRPC = \<lparr> Parser = hexParser 300, ParseBlocks = False, Testnet = False, Network = ''livenet'',
     ChainConfig = \<lparr> BlockAddressesToKeep_c = 300, XPubMagic_c = 0, XPubMagicSegwitP2sh_c = 0, XPubMagicSegwitNative_c = 0, Slip44_c = 0, Parse = False,
       MempoolWorkers = 1, MempoolSubWorkers = 1, SupportsEstimateFee = True, SupportsEstimateSmartFee = False, Geolocation_url = '''' \<rparr> \<rparr>"

interpretation sampleNode: chain_node plainRPC listNode sampleBlk 2 emptyBlocks
proof unfold_locales
  have len: "unat h < length emptyBlocks \<longleftrightarrow> h \<le> 2" for h :: uint32
    by (auto simp: emptyBlocks_def word_le_nat_alt)
  show "getbestblockhash listNode emptyBlocks = (Inr (None, Hash_bh (sampleBlk 2)), emptyBlocks)"
    by (simp add: listNode_def emptyBlocks_def)
  show "getblockhash listNode h emptyBlocks = (Inr (None, Hash_bh (sampleBlk h)), emptyBlocks)" if "h \<le> 2" for h
    using that by (simp add: listNode_def len)
  show "getblockhash listNode h emptyBlocks = (Inr (Some \<lparr> Code = - 8, Message = ''Block height out of range'' \<rparr>, ''''), emptyBlocks)" if "2 < h" for h
  proof -
    have "\<not> unat h < length emptyBlocks" unfolding len using that by simp
    then show ?thesis by (simp add: listNode_def)
  qed
  show "getblock_thin listNode (Hash_bh (sampleBlk h)) emptyBlocks = (Inr (None, thinOf (sampleBlk h)), emptyBlocks)" if "h \<le> 2" for h
    using le_2_cases[OF that] by (auto simp: listNode_def emptyBlocks_def emptyBlock_def)
  show "\<exists>raw tx'. getrawtransaction listNode (Txid_tx tx) emptyBlocks = (Inr (None, raw), emptyBlocks) \<and> ParseTxFromJson (Parser plainRPC) raw = Inr tx' \<and>
      tx = tx'\<lparr> CoinSpecificData := RawMessage raw \<rparr>" if "h \<le> 2" "tx \<in> set (Txs_blk (sampleBlk h))" for h tx
    using le_2_cases[OF that(1)] that(2) by (auto simp: emptyBlocks_def emptyBlock_def)
qed (rule sampleBackend.next_hash sampleBackend.no_next sampleBackend.height_at sampleBackend.hash_inj sampleBackend.hash_nonempty sampleBackend.top_less; assumption)+

theorem skyr_index_follows_node_witness:
  "\<exists>w'. resyncIndex 10 memPackages (skyrChain plainRPC listNode (Pair False)) True False (sampleWorker sampleDB) = Inr (False, w') \<and>
     indexed memPackages mem_contents (chainUpTo sampleBlk 3) (db_sw w') \<and>
     newBlocks w' = [(sampleTxid 10, 0), (sampleTxid 11, 1), (sampleTxid 12, 2)]"
proof -
  have "indexed memPackages mem_contents (chainUpTo sampleBlk (unat (0 :: uint32))) sampleDB"
    by (simp add: indexed_def represents_heights_def chainUpTo_def sampleDB_def mem_contents_def)
  moreover have "openDB sampleDB" by (simp add: openDB_def sampleDB_def)
  moreover have "map (\<lambda>h. (Hash_bh (sampleBlk h), h)) (heights 0 2) = [(sampleTxid 10, 0), (sampleTxid 11, 1), (sampleTxid 12, 2)]"
    by (simp add: heights_def upt_rec emptyBlocks_def emptyBlock_def)
  ultimately show ?thesis
    using skyr_index_follows_node[OF sampleNode.chain_node_axioms mem_reliable sampleBlk_connectable, of 0 "sampleWorker sampleDB" False 10 True]
    by simp
qed

section \<open>Other calls\<close>

text \<open>The estimates of the fee call each other at most once: more than two calls change nothing.\<close>

theorem fee_estimates_end:
  assumes "2 \<le> m"
  shows "estimate m b N smart blocks conservative = estimate 2 b N smart blocks conservative"
proof -
  obtain k where m: "m = Suc (Suc k)" using assms by (metis add_2_eq_Suc le_Suc_ex)
  show ?thesis unfolding m numeral_2_eq_2 by (cases smart) auto
qed

theorem fee_estimates_end_witness: "estimate 7 plainRPC listNode True 2 False = estimate 2 plainRPC listNode True 2 False"
  using fee_estimates_end[of 7] by simp

text \<open>A transaction whose JSON text the parser refuses makes the client panic, and with it the whole block.\<close>

theorem undecodable_tx_panics:
  assumes "getRawTransaction N txid nd = (Inr raw, nd')" "ParseTxFromJson (Parser b) raw = Inl e" "\<not> is_panic e"
  shows "GetTransaction_rpc b N txid nd = (Inl (Panic ''nil pointer dereference''), nd') \<and>
    blockTransactions b N (txid # txids) nd = (Inl (Panic ''nil pointer dereference''), nd')"
proof -
  have "GetTransaction_rpc b N txid nd = (Inl (Panic ''nil pointer dereference''), nd')" using assms by (simp add: GetTransaction_rpc_def)
  then show ?thesis by (simp add: attempt_def)
qed

theorem undecodable_tx_panics_witness:
  "GetTransaction_rpc plainRPC (listNode\<lparr> getrawtransaction := (\<lambda>_. ret (None, ''{'')) \<rparr>) ''ab'' [] = (Inl (Panic ''nil pointer dereference''), [])"
  using undecodable_tx_panics[of "listNode\<lparr> getrawtransaction := (\<lambda>_. ret (None, ''{'')) \<rparr>" "''ab''" "[]" "''{''" "[]" plainRPC "Errorf ''Not supported''" "[]"]
  by (simp add: getRawTransaction_def plainRPC_def hexParser_def embedBaseParser_def ParseTxFromJson_base_def notSupported_def)

lemma Annotatef_eq_Inr [simp]: "Annotatef msg r = Inr x \<longleftrightarrow> r = Inr x"
  by (simp add: Annotatef_def split: sum.splits)

text \<open>
  A block that is read without its header has the transactions of the block that is read with it, and the hash and the height that were asked for.
\<close>

theorem block_reads_agree:
  assumes "ParseBlocks b" "hash \<noteq> ''''" "0 < height" "getblockheader N hash nd = (Inr (None, header), nd)"
    and "GetBlock_btc b N hash height nd = (Inr block, nd')"
  shows "Hash_bh block = hash \<and> Height_bh block = height \<and>
    GetBlock_btc b N hash 0 nd = (Inr (withHeader header block), nd')"
proof -
  obtain data v blk where d: "GetBlockRaw N hash nd = (Inr data, v)" "ParseBlock (Parser b) data = Inr blk"
      "block = blk\<lparr> Hash_bh := hash, Height_bh := height \<rparr>" "nd' = v"
    using assms(1-3,5) by (auto simp: GetBlock_btc_def GetBlockWithoutHeader_def abind_eq_Inr_iff split: if_splits)
  then show ?thesis using assms(1-4) by (simp add: GetBlock_btc_def GetBlockHeader_rpc_def withHeader_def)
qed

theorem block_reads_agree_witness:
  "\<exists>block. GetBlock_btc (plainRPC\<lparr> ParseBlocks := True, Parser := (hexParser 300)\<lparr> ParseBlock := (\<lambda>_. Inr (emptyBlock 1 '''')) \<rparr> \<rparr>)
     (listNode\<lparr> getblock_raw := (\<lambda>_. ret (None, '''')), getblockheader := (\<lambda>_. ret (None, BlockHeader.truncate (emptyBlock 1 ''''))) \<rparr>) ''0b'' 0 [] = (Inr block, [])"
proof -
  let ?b = "plainRPC\<lparr> ParseBlocks := True, Parser := (hexParser 300)\<lparr> ParseBlock := (\<lambda>_. Inr (emptyBlock 1 '''')) \<rparr> \<rparr>"
  let ?N = "listNode\<lparr> getblock_raw := (\<lambda>_. ret (None, '''')), getblockheader := (\<lambda>_. ret (None, BlockHeader.truncate (emptyBlock 1 ''''))) \<rparr>"
  have "GetBlock_btc ?b ?N ''0b'' 1 [] = (Inr ((emptyBlock 1 '''')\<lparr> Hash_bh := ''0b'', Height_bh := 1 \<rparr>), [])"
    by (simp add: GetBlock_btc_def GetBlockWithoutHeader_def GetBlockRaw_def)
  from block_reads_agree[OF _ _ _ _ this] show ?thesis by simp
qed

end
