(* ===== verification/System_Info.thy ===== *)
theory System_Info
  imports Api_Tx Node_RPC
begin

text \<open>
  What the API worker tells about the program and its node (\<open>GetSystemInfo\<close>, \<open>GetMasternodesInfo\<close>, \<open>GetPeersInfo\<close> and \<open>GetCnts\<close> of
  \<open>api/worker.go\<close>). The back end is an interface of Go, so its methods are parameters; the client of \<open>Node_RPC\<close> is one instance. The versions that the
  linker sets and the size of the directory of the database are parameters too. Times are those of \<open>Internal_State\<close>.

  The theorem: the versions and services of the peers are counted right.
\<close>

record VersionInfo_t =
  Version_vi :: string
  GitCommit_vi :: string
  BuildTime_vi :: string

record ('s, 'c) info_env =
  GetChainInfo_n :: "('c, ChainInfo) action"
  GetMasternodesInfo_n :: "('c, RPCMasternode list option) action"
  GetPeersInfo_n :: "('c, RPCPeer list option) action"
  dirSize :: "'s RocksDB \<Rightarrow> go_error + int64"
  GetVersionInfo :: VersionInfo_t
  BlockbookAbout :: string

record BlockbookInfo =
  Coin_bb :: string
  Host_bb :: string
  Version_bb :: string
  GitCommit_bb :: string
  BuildTime_bb :: string
  SyncMode_bb :: bool
  InitialSync_bb :: bool
  InSync_bb :: bool
  BestHeight_bb :: uint32
  LastBlockTime_bb :: int
  InSyncMempool_bb :: bool
  LastMempoolTime_bb :: int
  MempoolSize_bb :: int
  Decimals_bb :: int
  DbSize_bb :: int64
  DbSizeFromColumns_bb :: int64
  DbColumns_bb :: "InternalStateColumn list"
  About_bb :: string

text \<open>\<open>BackendInfo\<close> has the fields of \<open>ChainInfo\<close>.\<close>

record SystemInfo =
  Blockbook :: BlockbookInfo
  Backend :: ChainInfo

definition DatabaseSizeOnDisk :: "('s, 'c) info_env \<Rightarrow> 's RocksDB \<Rightarrow> int64" where
  "DatabaseSizeOnDisk I d = (case dirSize I d of Inl _ \<Rightarrow> 0 | Inr n \<Rightarrow> n)"

definition GetSystemInfo :: "('s, 'c) info_env \<Rightarrow> bool \<Rightarrow> (('s, 'c) Worker, SystemInfo) action" where
  "GetSystemInfo I internal =
     abind (annotated ''GetChainInfo'' (callChain (GetChainInfo_n I))) (\<lambda>ci.
     query (\<lambda>w.
       case is_d (db_w w) of
         None \<Rightarrow> Inl (Panic ''nil pointer dereference'')
       | Some st \<Rightarrow>
           let vi = GetVersionInfo I;
               (inSync, bestHeight, lastBlockTime) = GetSyncState st;
               (inSyncMempool, lastMempoolTime, mempoolSize) = GetMempoolSyncState st in
           Inr \<lparr> Blockbook = \<lparr> Coin_bb = Coin st, Host_bb = Host st, Version_bb = Version_vi vi, GitCommit_bb = GitCommit_vi vi, BuildTime_bb = BuildTime_vi vi,
                   SyncMode_bb = SyncMode st, InitialSync_bb = InitialSync st, InSync_bb = inSync, BestHeight_bb = bestHeight, LastBlockTime_bb = lastBlockTime,
                   InSyncMempool_bb = inSyncMempool, LastMempoolTime_bb = lastMempoolTime, MempoolSize_bb = mempoolSize, Decimals_bb = AmountDecimals (chainParser_w w),
                   DbSize_bb = DatabaseSizeOnDisk I (db_w w), DbSizeFromColumns_bb = (if internal then DBSizeTotal st else 0),
                   DbColumns_bb = (if internal then GetAllDBColumnStats st else []), About_bb = BlockbookAbout I \<rparr>,
                 Backend = ci \<rparr>))"

definition GetMasternodesInfo_w :: "('s, 'c) info_env \<Rightarrow> (('s, 'c) Worker, RPCMasternode list option) action" where
  "GetMasternodesInfo_w I = annotated ''GetMasternodesInfo'' (callChain (GetMasternodesInfo_n I))"

text \<open>
  The page of the internal server (\<open>index\<close> of \<open>server/internal.go\<close>): the whole system information, or the status 500 without a text. \<open>marshal\<close> is \<open>json.MarshalIndent\<close>. A panic
  is left to \<open>net/http\<close>, which closes the connection.
\<close>

definition internalIndex :: "('s, 'c) info_env \<Rightarrow> (SystemInfo \<Rightarrow> go_error + string) \<Rightarrow> (('s, 'c) Worker, int \<times> string) action" where
  "internalIndex I marshal =
     abind (attempt (abind (GetSystemInfo I True) (\<lambda>si. query (\<lambda>_. marshal si)))) (\<lambda>r.
     ret (case r of Inl e \<Rightarrow> (500, '''') | Inr buf \<Rightarrow> (200, buf)))"

section \<open>Peers\<close>

definition countUp :: "string \<Rightarrow> (string, int) gomap \<Rightarrow> (string, int) gomap" where
  "countUp v m = AList.update v ((case map_of m v of Some n \<Rightarrow> n | None \<Rightarrow> 0) + 1) m"

text \<open>The versions and the services of the peers with their numbers, in some order, as Go goes through a map.\<close>

definition GetCnts :: "RPCPeer list option \<Rightarrow> go_error + ((string, int) gomap \<times> (string, int) gomap)" where
  "GetCnts s =
     (case s of
        None \<Rightarrow> Inl (Panic ''nil pointer dereference'')
      | Some prs \<Rightarrow> Inr (fold countUp (map Subver_pe prs) [], fold countUp (map Services_pe prs) []))"

record PeersInfo =
  Peers_pi :: "RPCPeer list option"
  Version_pi :: "(string, int) gomap"
  Services_pi :: "(string, int) gomap"

definition GetPeersInfo_w :: "('s, 'c) info_env \<Rightarrow> (('s, 'c) Worker, PeersInfo) action" where
  "GetPeersInfo_w I =
     abind (annotated ''GetPeersInfo'' (callChain (GetPeersInfo_n I))) (\<lambda>prs.
     query (\<lambda>_. rbind (GetCnts prs) (\<lambda>(resv, ress).
     Inr \<lparr> Peers_pi = prs, Version_pi = resv, Services_pi = ress \<rparr>)))"

section \<open>The counts\<close>

lemma map_of_countUp:
  "map_of (countUp v m) x = (if x = v then Some ((case map_of m v of Some n \<Rightarrow> n | None \<Rightarrow> 0) + 1) else map_of m x)"
  by (simp add: countUp_def update_conv')

lemma map_of_counts:
  "map_of (fold countUp vs m) x =
     (if x \<in> set vs then Some ((case map_of m x of Some n \<Rightarrow> n | None \<Rightarrow> 0) + int (count_list vs x)) else map_of m x)"
  by (induction vs arbitrary: m) (auto simp: map_of_countUp split: option.splits)

lemma distinct_counts: "distinct (map fst m) \<Longrightarrow> distinct (map fst (fold countUp vs m))"
  by (induction vs arbitrary: m) (auto simp: countUp_def distinct_update)

lemma sum_update: "distinct (map fst m) \<Longrightarrow>
    sum_list (map snd (AList.update v n m)) = sum_list (map snd m) + n - (case map_of m v of Some k \<Rightarrow> k | None \<Rightarrow> (0 :: int))"
  by (induction m) (auto split: option.splits dest: map_of_SomeD intro!: rev_image_eqI)

lemma sum_counts: "distinct (map fst m) \<Longrightarrow> sum_list (map snd (fold countUp vs m)) = sum_list (map snd m) + int (length vs)"
  by (induction vs arbitrary: m) (auto simp: countUp_def sum_update distinct_update)

lemma count_map: "count_list (map f xs) v = length (filter (\<lambda>x. f x = v) xs)"
  by (induction xs) auto

text \<open>Every version is listed once with the number of peers that have it, every service with the number of those that offer it, and the numbers add up to the
  number of peers.\<close>

theorem peers_counted:
  "\<exists>resv ress. GetCnts (Some prs) = Inr (resv, ress) \<and> wf_map resv \<and> wf_map ress \<and>
     map_of resv = (\<lambda>v. if v \<in> Subver_pe ` set prs then Some (int (length (filter (\<lambda>p. Subver_pe p = v) prs))) else None) \<and>
     map_of ress = (\<lambda>v. if v \<in> Services_pe ` set prs then Some (int (length (filter (\<lambda>p. Services_pe p = v) prs))) else None) \<and>
     sum_list (map snd resv) = int (length prs) \<and> sum_list (map snd ress) = int (length prs)"
  unfolding GetCnts_def option.case
  by (rule exI, rule exI, rule conjI, rule refl)
    (simp add: wf_map_def distinct_counts sum_counts fun_eq_iff map_of_counts count_map)

end
