(* ===== verification/Supply_Format.thy ===== *)
theory Supply_Format
  imports Api_Types Complex_Main
begin

text \<open>
  \<open>formatSupply\<close> of \<open>server/public.go\<close>, which the explorer's pages use to show the money supply with spaces between the thousands.

  The theorem: the loop that fills a slice from the right puts the spaces where they belong and keeps the digits; a number with one decimal makes it panic.
\<close>

text \<open>\<open>strings.Split\<close> at one character.\<close>

fun Split :: "char \<Rightarrow> string \<Rightarrow> string list" where
  "Split c [] = [[]]"
| "Split c (x # xs) = (if x = c then [] # Split c xs else (x # hd (Split c xs)) # tl (Split c xs))"

text \<open>
  \<open>formatSupply\<close>: \<open>x\<close> is the number and \<open>t\<close> the text that \<open>strconv.FormatFloat(x, 'f', -1, 64)\<close> gives. The loop writes from the right into a slice whose length was
  computed before.
\<close>

fun supplyLoop :: "string \<Rightarrow> nat \<Rightarrow> int \<Rightarrow> nat \<Rightarrow> string \<Rightarrow> go_error + string" where
  "supplyLoop s i j k out =
     (if j < 0 \<or> j \<ge> int (length out) then Inl (Panic ''index out of range'')
      else
        let out = out[nat j := s ! i] in
        case i of
          0 \<Rightarrow> Inr out
        | Suc i \<Rightarrow>
            if k + 1 = 3 then
              if j - 1 < 0 then Inl (Panic ''index out of range'')
              else supplyLoop s i (j - 2) 0 (out[nat (j - 1) := CHR '' ''])
            else supplyLoop s i (j - 1) (k + 1) out)"

definition formatSupply :: "rat \<Rightarrow> string \<Rightarrow> go_error + string" where
  "formatSupply x t =
     (if x = 0 then Inr ''0.00''
      else
        let parts = Split (CHR ''.'') t in
        rbind (if length parts > 1 then slice (parts ! 1) 0 2 else Inr '''') (\<lambda>decimals.
        let s = parts ! 0;
            numOfDigits = int (length s) - (if x < 0 then 1 else 0);
            numOfSpaces = goDiv (numOfDigits - 1) 3 in
        rbind (makeLen (int (length s) + numOfSpaces)) (\<lambda>n.
        let out = replicate n (CHR 0x00) in
        rbind (if x < 0 then (if s = '''' \<or> out = [] then Inl (Panic ''index out of range'') else Inr (tl s, out[0 := CHR ''-''])) else Inr (s, out)) (\<lambda>(s, out).
        rbind (if s = '''' then Inl (Panic ''index out of range'') else supplyLoop s (length s - 1) (int (length out) - 1) 0 out) (\<lambda>out.
        Inr (if decimals = '''' then out else out @ ''.'' @ decimals))))))"

section \<open>The supply\<close>

text \<open>The digits from the right with a space after each third, except after the last.\<close>

fun grouped :: "nat \<Rightarrow> string \<Rightarrow> string" where
  "grouped k (c # d # cs) = (if k = 2 then c # CHR '' '' # grouped 0 (d # cs) else c # grouped (k + 1) (d # cs))"
| "grouped k ds = ds"

lemma length_grouped: "ds \<noteq> [] \<Longrightarrow> k \<le> 2 \<Longrightarrow> length (grouped k ds) = length ds + (length ds - 1 + k) div 3"
  by (induction k ds rule: grouped.induct) (auto, presburger?)

lemma grouped_digits: "CHR '' '' \<notin> set ds \<Longrightarrow> filter (\<lambda>c. c \<noteq> CHR '' '') (grouped k ds) = ds"
  by (induction k ds rule: grouped.induct) (auto intro: filter_True)

lemma grouped_spaces:
  "CHR '' '' \<notin> set ds \<Longrightarrow> k \<le> 2 \<Longrightarrow> p < length (grouped k ds) \<Longrightarrow> grouped k ds ! p = CHR '' '' \<longleftrightarrow> (p + k) mod 4 = 3"
proof (induction k ds arbitrary: p rule: grouped.induct)
  case (1 k c d cs)
  consider "p = 0" | p' where "p = Suc p'" "k \<noteq> 2" | "p = 1" "k = 2" | p' where "p = Suc (Suc p')" "k = 2"
    by (cases p; cases "k = 2"; cases "p - 1") auto
  then show ?case
  proof cases
    case 4
    then show ?thesis using 1 by simp
  qed (use 1 in auto)
qed auto

lemma drop_two_updates: "Suc n < length xs \<Longrightarrow> drop n (xs[Suc n := a, n := b]) = b # a # drop (Suc (Suc n)) xs"
  by (simp add: drop_update_swap Cons_nth_drop_Suc[symmetric])

lemma drop_one_update: "n < length xs \<Longrightarrow> drop n (xs[n := a]) = a # drop (Suc n) xs"
  by (simp add: drop_update_swap Cons_nth_drop_Suc[symmetric])

declare supplyLoop.simps [simp del]

lemma supplyLoop_grouped:
  assumes "i < length s" "k \<le> 2" "j < length out" "length (grouped k (rev (take (Suc i) s))) \<le> Suc j"
  shows "supplyLoop s i (int j) k out = Inr (let g = rev (grouped k (rev (take (Suc i) s))) in take (Suc j - length g) out @ g @ drop (Suc j) out)"
  using assms
proof (induction i arbitrary: j k out)
  case 0
  then have "rev (take (Suc 0) s) = [s ! 0]" by (cases s) auto
  then show ?case using 0 by (simp add: supplyLoop.simps[of s 0] Let_def upd_conv_take_nth_drop)
next
  case (Suc i)
  obtain d ds where d: "rev (take (Suc i) s) = d # ds" using Suc.prems(1) by (cases "rev (take (Suc i) s)") auto
  have r: "rev (take (Suc (Suc i)) s) = s ! Suc i # d # ds"
    using Suc.prems(1) d by (simp add: take_Suc_conv_app_nth)
  have i: "i < length s" using Suc.prems(1) by simp
  show ?case
  proof (cases "k = 2")
    case True
    let ?g = "grouped 0 (d # ds)"
    have l: "length ?g \<le> j - 1" "2 \<le> j"
      using Suc.prems(4) r True length_grouped[of "d # ds" 0] by auto
    have "supplyLoop s i (int (j - 2)) 0 (out[j := s ! Suc i, j - 1 := CHR '' '']) =
        Inr (take (Suc (j - 2) - length ?g) out @ rev ?g @ CHR '' '' # s ! Suc i # drop (Suc j) out)"
      using Suc.IH[OF i, of 0 "j - 2" "out[j := s ! Suc i, j - 1 := CHR '' '']"] l Suc.prems(3) drop_two_updates[of "j - 1" out "s ! Suc i" "CHR '' ''"]
      by (simp add: d Let_def Suc_diff_Suc numeral_2_eq_2)
    then show ?thesis
      using Suc.prems(3) l True by (simp add: supplyLoop.simps[of s "Suc i"] r Let_def nat_diff_distrib of_nat_diff numeral_2_eq_2 Suc_diff_Suc)
  next
    case False
    let ?g = "grouped (k + 1) (d # ds)"
    have l: "length ?g \<le> j" "1 \<le> j" "k + 1 \<le> 2"
      using Suc.prems(2,4) r False length_grouped[of "d # ds" "k + 1"] by auto
    have "supplyLoop s i (int (j - 1)) (k + 1) (out[j := s ! Suc i]) = Inr (take (Suc (j - 1) - length ?g) out @ rev ?g @ s ! Suc i # drop (Suc j) out)"
      using Suc.IH[OF i l(3), of "j - 1" "out[j := s ! Suc i]"] l Suc.prems(3) drop_one_update[of j out "s ! Suc i"]
      by (simp add: d Let_def)
    then show ?thesis
      using Suc.prems(3) l False by (simp add: supplyLoop.simps[of s "Suc i"] r Let_def of_nat_diff)
  qed
qed

lemma Split_none: "c \<notin> set a \<Longrightarrow> Split c a = [a]"
  by (induction a) auto

lemma Split_first: "c \<notin> set a \<Longrightarrow> Split c (a @ c # b) = a # Split c b"
  by (induction a) auto

lemma grouped_all:
  assumes "ds \<noteq> []"
  shows "supplyLoop ds (length ds - 1) (int (length pre + length (grouped 0 (rev ds))) - 1) 0 (pre @ replicate (length (grouped 0 (rev ds))) z) =
     Inr (pre @ rev (grouped 0 (rev ds)))"
proof -
  let ?n = "length (grouped 0 (rev ds))"
  have n: "?n > 0" using assms length_grouped[of "rev ds" 0] by simp
  then have j: "int (length pre + ?n) - 1 = int (length pre + ?n - 1)" by linarith
  have t: "take (Suc (length ds - 1)) ds = ds" using assms by simp
  have S: "Suc (length pre + ?n - 1) = length pre + ?n" using n by simp
  show ?thesis
    using supplyLoop_grouped[of "length ds - 1" ds 0 "length pre + ?n - 1" "pre @ replicate ?n z"] assms n
    unfolding t S by (simp add: Let_def j[symmetric] del: of_nat_add)
qed

text \<open>
  The text of a number is shown with a space before every third digit from the right of the integral part and nowhere else, with all its digits and its sign, and with two decimals or none;
  but when it has exactly one decimal, as 12.5 has, the function panics.
\<close>

theorem supply_formatted:
  assumes "x \<noteq> 0" "ds \<noteq> []" "CHR ''.'' \<notin> set ds" "CHR '' '' \<notin> set ds" "CHR ''.'' \<notin> set fr"
    and sign: "sign = (if x < 0 then ''-'' else '''')" and t: "t = sign @ ds @ (if fr = '''' then '''' else ''.'' @ fr)"
  shows "(length fr = 1 \<longrightarrow> formatSupply x t = Inl (Panic ''slice bounds out of range'')) \<and>
     (length fr \<noteq> 1 \<longrightarrow> (\<exists>g. formatSupply x t = Inr (sign @ g @ (if fr = '''' then '''' else ''.'' @ take 2 fr)) \<and>
        filter (\<lambda>c. c \<noteq> CHR '' '') g = ds \<and> (\<forall>p. p < length g \<longrightarrow> (g ! (length g - 1 - p) = CHR '' '' \<longleftrightarrow> p mod 4 = 3))))"
proof -
  let ?g = "grouped 0 (rev ds)"
  have parts: "Split (CHR ''.'') t = (if fr = '''' then [sign @ ds] else [sign @ ds, fr])"
    using assms(3,5) Split_first[of "CHR ''.''" "sign @ ds" fr] by (auto simp: t sign Split_none)
  have n: "goDiv (int (length ds) - 1) 3 = int ((length ds - 1) div 3)"
    using assms(2) by (simp add: goDiv_def of_nat_diff zdiv_int Suc_leI)
  have m: "makeLen (int (length (sign @ ds)) + goDiv (int (length ds) - 1) 3) = Inr (length sign + length ?g)"
    unfolding n makeLen_def using length_grouped[of "rev ds" 0] assms(2) by simp
  have loop: "supplyLoop ds (length ds - 1) (int (length sign + length ?g) - 1) 0 (sign @ replicate (length ?g) CHR 0x00) = Inr (sign @ rev ?g)"
    by (rule grouped_all[OF assms(2)])
  have p0: "Split (CHR ''.'') t ! 0 = sign @ ds" by (simp add: parts)
  have digits: "int (length (sign @ ds)) - (if x < 0 then 1 else 0) = int (length ds)" by (simp add: sign)
  have start: "(if x < 0 then if sign @ ds = '''' \<or> replicate (length sign + length ?g) CHR 0x00 = [] then Inl (Panic ''index out of range'')
      else Inr (tl (sign @ ds), (replicate (length sign + length ?g) CHR 0x00)[0 := CHR ''-''])
      else Inr (sign @ ds, replicate (length sign + length ?g) CHR 0x00)) = Inr (ds, sign @ replicate (length ?g) CHR 0x00)"
    by (simp add: sign)
  have dec: "(if length (Split (CHR ''.'') t) > 1 then slice (Split (CHR ''.'') t ! 1) 0 2 else Inr '''') = Inr (take 2 fr)" if "length fr \<noteq> 1"
    using that by (cases fr) (auto simp: parts slice_def neq_Nil_conv)
  have "formatSupply x t = Inr (sign @ rev ?g @ (if fr = '''' then '''' else ''.'' @ take 2 fr))" if fr: "length fr \<noteq> 1"
    unfolding formatSupply_def Let_def dec[OF fr] rbind_simps p0 digits m start prod.case
    using loop assms(1,2) by (cases fr) simp_all
  moreover have "length fr = 1 \<Longrightarrow> formatSupply x t = Inl (Panic ''slice bounds out of range'')"
    using assms(1) unfolding formatSupply_def parts by (auto simp: slice_def Let_def)
  moreover have "filter (\<lambda>c. c \<noteq> CHR '' '') (rev ?g) = ds"
    using grouped_digits[of "rev ds" 0] assms(4) by (simp add: rev_filter[symmetric])
  moreover have "\<forall>p. p < length (rev ?g) \<longrightarrow> (rev ?g ! (length (rev ?g) - 1 - p) = CHR '' '' \<longleftrightarrow> p mod 4 = 3)"
    using grouped_spaces[of "rev ds" 0] assms(4) by (auto simp: rev_nth)
  ultimately show ?thesis by blast
qed

theorem supply_formatted_witness:
  "formatSupply 1234567 ''1234567'' = Inr ''1 234 567'' \<and> formatSupply (- (25 / 2)) ''-12.5'' = Inl (Panic ''slice bounds out of range'')"
proof
  have "\<exists>g. formatSupply 1234567 ''1234567'' = Inr g \<and> filter (\<lambda>c. c \<noteq> CHR '' '') g = ''1234567''"
    using supply_formatted[of 1234567 "''1234567''" "''''" "''''" "''1234567''"] by auto
  moreover have "formatSupply 1234567 ''1234567'' = Inr ''1 234 567''"
    by (simp add: formatSupply_def goDiv_def makeLen_def supplyLoop.simps numeral_eq_Suc)
  ultimately show "formatSupply 1234567 ''1234567'' = Inr ''1 234 567''" by blast
  show "formatSupply (- (25 / 2)) ''-12.5'' = Inl (Panic ''slice bounds out of range'')"
    using supply_formatted[of "- (25 / 2)" "''12''" "''5''" "''-''" "''-12.5''"] by simp
qed

end
