(* ===== verification/Public_Server.thy ===== *)
theory Public_Server
  imports Websocket Api_V1 System_Info Supply_Format "HOL-Library.Sublist"
begin

text \<open>
  The public HTTP server (\<open>server/public.go\<close>): the routes, the handlers of the API and of the explorer's pages, and what they answer.

  A request holds its path, the values of its query and its body; a page is the template and the data it is executed with, a JSON answer the value that is
  encoded. The handlers run on the state of the API worker. As in Go a handler returns a value and an error, and a nil pointer in an interface is not the nil
  interface; a panic is the error \<open>Panic\<close> of the action. Templates, JSON, files and the back end are parameters. The texts of errors that are put together from
  parts are abbreviated to their first part, as in the other theories.

  The theorems: the page numbers that a page offers; the status and text of every JSON answer, and that a panic is answered; the bounds of the parameters of an address; a
  redirect makes the handler panic; the formatted supply; every request for a transaction, address or block reaches its handler.
\<close>

section \<open>Data\<close>

definition txsOnPage :: int where "txsOnPage = 25"
definition blocksOnPage :: int where "blocksOnPage = 50"
definition mempoolTxsOnPage :: int where "mempoolTxsOnPage = 50"
definition txsInAPI :: int where "txsInAPI = 1000"

datatype apiVersion = apiV1 | apiV2

record http_request =
  Method_h :: string
  Path_h :: string
  Query_h :: "string \<Rightarrow> string"
  Body_h :: "go_error + string"
  Form_h :: "go_error + (string \<Rightarrow> string)"

text \<open>The values that the API encodes. A pointer or slice may be nil.\<close>

datatype apiData = SystemJ "SystemInfo option" | BlockIndexJ string | TxJ "TxA option" | TxV1J TxV1 | SpecificJ "string option"
  | AddressJ "XpubAddress option" | AddressV1J AddressV1 | UtxoJ "UtxoA list option" | UtxoV1J "AddressUtxoV1 list"
  | BlockJ "BlockA option" | BlockV1J BlockV1 | SendTransactionJ string | EstimateFeeJ string | SerialJ string

text \<open>\<open>Filter_t\<close> is the field \<open>Filter\<close> of the address.\<close>

record TemplateData =
  CoinName :: string
  CoinShortcut_t :: string
  CoinLabel_t :: string
  InternalExplorer :: bool
  ChainType_t :: ChainType
  Address_t :: "XpubAddress option"
  Filter_t :: string
  AddrStr_t :: string
  Tx_t :: "TxA option"
  Error_t :: "(string \<times> bool) option"
  Blocks_t :: "Blocks option"
  Block_t :: "BlockA option"
  Info_t :: "SystemInfo option"
  MempoolTxids_t :: "MempoolTxids option"
  Page_t :: int
  PrevPage :: int
  NextPage :: int
  PagingRange :: "int list"
  PageParams :: string
  Hostname :: string
  RelativeURL :: string
  TOSLink_t :: string
  SendTxHex :: string
  Masternodes_t :: "RPCMasternode list option"
  Peers_t :: "PeersInfo option"
  Status_t :: string
  NonZeroBalanceTokens :: bool
  IsCharts :: bool
  ChartData :: string

record ('s, 'c) public_env =
  ws_p :: "('s, 'c) ws_env"
  info_p :: "('s, 'c) info_env"
  EstimateFee_n :: "int \<Rightarrow> ('c, int) action"
  Findzcserial_n :: "string \<Rightarrow> ('c, string) action"
  ReadFile :: "string \<Rightarrow> go_error + string"
  explorerURL :: string
  debug :: bool
  TOSLink :: string
  errText :: "go_error \<Rightarrow> string"
  dataText :: "apiData \<Rightarrow> string"
  pageText :: "TemplateData option \<Rightarrow> string"

type_synonym ('s, 'c, 'a) api_action = "(('s, 'c) Worker \<times> cachedXpubs, 'a) action"

abbreviation api_p :: "('s, 'c) public_env \<Rightarrow> ('s, 'c) api_env" where
  "api_p P \<equiv> api_env_ws (ws_p P)"

definition internalExplorer :: "('s, 'c) public_env \<Rightarrow> bool" where
  "internalExplorer P = (explorerURL P = '''')"

definition GetXpubAddress_p ::
    "('s, 'c) public_env \<Rightarrow> string \<Rightarrow> int \<Rightarrow> int \<Rightarrow> AccountDetails \<Rightarrow> AddressFilter \<Rightarrow> int \<Rightarrow> ('s, 'c, XpubAddress) api_action" where
  "GetXpubAddress_p P = GetXpubAddress (interferences (ws_p P)) (rounds (ws_p P)) (api_p P) (StableTxids (ws_p P))"

definition GetAddress_p ::
    "('s, 'c) public_env \<Rightarrow> string \<Rightarrow> int \<Rightarrow> int \<Rightarrow> AccountDetails \<Rightarrow> AddressFilter \<Rightarrow> ('s, 'c, XpubAddress) api_action" where
  "GetAddress_p P address page n details f =
     abind (onWorker (GetAddress (api_p P) address page n details f)) (\<lambda>a. ret (Address.extend a \<lparr> UsedTokens = 0, XPubAddresses = {} \<rparr>))"

section \<open>Texts\<close>

text \<open>\<open>strings.LastIndexByte\<close>, and the last part of a path.\<close>

definition splitBinding :: "string \<Rightarrow> string \<times> string" where
  "splitBinding binding =
     (let i = length (takeWhile (\<lambda>c. c \<noteq> CHR ''/'') binding) in
      if i < length binding then (take i binding, drop i binding) else (binding, ''/''))"

definition joinURL :: "string \<Rightarrow> string \<Rightarrow> string" where
  "joinURL base part =
     (if base \<noteq> '''' then
        if last base = CHR ''/'' \<and> part \<noteq> '''' \<and> hd part = CHR ''/'' then base @ tl part else base @ part
      else part)"

definition LastIndexByte :: "string \<Rightarrow> char \<Rightarrow> int" where
  "LastIndexByte s c = int (length s) - 1 - int (length (takeWhile (\<lambda>x. x \<noteq> c) (rev s)))"

definition lastPart :: "http_request \<Rightarrow> string option" where
  "lastPart r = (let i = LastIndexByte (Path_h r) CHR ''/'' in if i > 0 then Some (drop (nat (i + 1)) (Path_h r)) else None)"

definition isSpace :: "char \<Rightarrow> bool" where
  "isSpace c = (c = CHR '' '' \<or> (9 \<le> (of_char c :: nat) \<and> (of_char c :: nat) \<le> 13))"

definition TrimSpace :: "string \<Rightarrow> string" where
  "TrimSpace s = rev (dropWhile isSpace (rev (dropWhile isSpace s)))"

definition ParseBool :: "string \<Rightarrow> bool option" where
  "ParseBool s =
     (if s \<in> set [''1'', ''t'', ''T'', ''TRUE'', ''true'', ''True''] then Some True
      else if s \<in> set [''0'', ''f'', ''F'', ''FALSE'', ''false'', ''False''] then Some False
      else None)"

text \<open>\<open>strconv.Atoi\<close> where an error means 0.\<close>

definition AtoiOr0 :: "string \<Rightarrow> int" where
  "AtoiOr0 s = (case Atoi s of Some n \<Rightarrow> n | None \<Rightarrow> 0)"

section \<open>Parameters of an address\<close>

definition voutFilterOf :: "string \<Rightarrow> int" where
  "voutFilterOf filterParam =
     (if filterParam = '''' then AddressFilterVoutOff
      else if filterParam = ''inputs'' then AddressFilterVoutInputs
      else if filterParam = ''outputs'' then AddressFilterVoutOutputs
      else case Atoi filterParam of Some n \<Rightarrow> if n < 0 then AddressFilterVoutOff else n | None \<Rightarrow> AddressFilterVoutOff)"

definition accountDetailsOf :: "AccountDetails \<Rightarrow> string \<Rightarrow> AccountDetails" where
  "accountDetailsOf accountDetails details =
     (if details = ''basic'' then AccountDetailsBasic
      else if details = ''tokens'' then AccountDetailsTokens
      else if details = ''tokenBalances'' then AccountDetailsTokenBalances
      else if details = ''txids'' then AccountDetailsTxidHistory
      else if details = ''txs'' then AccountDetailsTxHistory
      else accountDetails)"

definition tokensToReturnOf :: "string \<Rightarrow> TokensToReturn" where
  "tokensToReturnOf tokens =
     (if tokens = ''derived'' then TokensToReturnDerived
      else if tokens = ''used'' then TokensToReturnUsed
      else TokensToReturnNonzeroBalance)"

definition getAddressQueryParams ::
    "http_request \<Rightarrow> AccountDetails \<Rightarrow> int \<Rightarrow> int \<times> int \<times> AccountDetails \<times> AddressFilter \<times> string \<times> int" where
  "getAddressQueryParams r accountDetails maxPageSize =
     (let q = Query_h r;
          page = AtoiOr0 (q ''page'');
          pageSize = (case Atoi (q ''pageSize'') of Some n \<Rightarrow> if n > maxPageSize then maxPageSize else n | None \<Rightarrow> maxPageSize);
          filterParam = q ''filter'' in
      (page, pageSize, accountDetailsOf accountDetails (q ''details''),
       \<lparr> Vout_f = voutFilterOf filterParam, Contract_f = '''', FromHeight = of_int (AtoiOr0 (q ''from'')), ToHeight = of_int (AtoiOr0 (q ''to'')),
         TokensToReturn_f = tokensToReturnOf (q ''tokens''), OnlyConfirmed = False \<rparr>,
       filterParam, AtoiOr0 (q ''gap'')))"

section \<open>The API\<close>

text \<open>What a handler returns: a value, nil or not, and an error.\<close>

type_synonym api_result = "apiData option \<times> go_error option"

definition returned :: "('a option \<Rightarrow> apiData) \<Rightarrow> ('w, 'a) action \<Rightarrow> ('w, api_result) action" where
  "returned f m = abind (attempt m) (\<lambda>r. ret (case r of Inl e \<Rightarrow> (Some (f None), Some e) | Inr x \<Rightarrow> (Some (f (Some x)), None)))"

definition returnedV1 :: "apiVersion \<Rightarrow> ('a option \<Rightarrow> apiData) \<Rightarrow> (BlockChainParser \<Rightarrow> 'a \<Rightarrow> go_error + apiData) \<Rightarrow>
    ('s, 'c, 'a) api_action \<Rightarrow> ('s, 'c, api_result) api_action" where
  "returnedV1 v f toV1 m =
     abind (attempt m) (\<lambda>r.
     case r of
       Inr x \<Rightarrow> if v = apiV1 then abind (query (\<lambda>(w, _). toV1 (chainParser_w w) x)) (\<lambda>d. ret (Some d, None)) else ret (Some (f (Some x)), None)
     | Inl e \<Rightarrow> ret (Some (f None), Some e))"

definition failed :: "string \<Rightarrow> ('w, api_result) action" where
  "failed text = ret (None, Some (APIError text True))"

type_synonym ('s, 'c) api_handler = "http_request \<Rightarrow> apiVersion \<Rightarrow> ('s, 'c, api_result) api_action"

definition apiIndex :: "('s, 'c) public_env \<Rightarrow> ('s, 'c) api_handler" where
  "apiIndex P r v = returned SystemJ (onWorker (GetSystemInfo (info_p P) False))"

definition apiBlockIndex :: "('s, 'c) public_env \<Rightarrow> ('s, 'c) api_handler" where
  "apiBlockIndex P r v =
     (let height = (case lastPart r of Some t \<Rightarrow> (case Atoi t of Some h \<Rightarrow> h | None \<Rightarrow> - 1) | None \<Rightarrow> - 1) in
      abind (attempt (onWorker (
        if height \<ge> 0 then queryDB (GetBlockHash (pk (api_p P)) (of_int height))
        else abind (queryDB (GetBestBlock (pk (api_p P)))) (\<lambda>(_, hash). ret hash)))) (\<lambda>hash.
      ret (case hash of Inl e \<Rightarrow> (None, Some e) | Inr h \<Rightarrow> (Some (BlockIndexJ h), None))))"

definition apiTx :: "('s, 'c) public_env \<Rightarrow> ('s, 'c) api_handler" where
  "apiTx P r v =
     (case lastPart r of
        None \<Rightarrow> failed ''Missing txid''
      | Some txid \<Rightarrow>
          if txid = '''' then failed ''Missing txid''
          else
            let p = Query_h r ''spending'' in
            case (if p \<noteq> '''' then ParseBool p else Some False) of
              None \<Rightarrow> failed ''Parameter 'spending' cannot be converted to boolean''
            | Some spendingTxs \<Rightarrow>
                returnedV1 v TxJ (\<lambda>p tx. rbind (TxToV1 p tx) (\<lambda>t. Inr (TxV1J t))) (onWorker (GetTransaction_w (api_p P) txid spendingTxs False)))"

definition apiTxSpecific :: "('s, 'c) public_env \<Rightarrow> ('s, 'c) api_handler" where
  "apiTxSpecific P r v =
     (case lastPart r of
        None \<Rightarrow> failed ''Missing txid''
      | Some txid \<Rightarrow>
          if txid = '''' then failed ''Missing txid''
          else returned SpecificJ (onWorker (callChain (GetTransactionSpecific (api_p P) (zeroTx\<lparr> Txid_tx := txid \<rparr>)))))"

definition addressV1 :: "BlockChainParser \<Rightarrow> XpubAddress \<Rightarrow> go_error + apiData" where
  "addressV1 p a = rbind (AddressToV1 p (Address.truncate a)) (\<lambda>a. Inr (AddressV1J a))"

definition apiAddress :: "('s, 'c) public_env \<Rightarrow> ('s, 'c) api_handler" where
  "apiAddress P r v =
     (case lastPart r of
        None \<Rightarrow> failed ''Missing address''
      | Some addressParam \<Rightarrow>
          if addressParam = '''' then failed ''Missing address''
          else
            let (page, pageSize, details, f, _, _) = getAddressQueryParams r AccountDetailsTxidHistory txsInAPI in
            returnedV1 v AddressJ addressV1 (GetAddress_p P addressParam page pageSize details f))"

definition apiXpub :: "('s, 'c) public_env \<Rightarrow> ('s, 'c) api_handler" where
  "apiXpub P r v =
     (case lastPart r of
        None \<Rightarrow> failed ''Missing xpub''
      | Some xpub \<Rightarrow>
          if xpub = '''' then failed ''Missing xpub''
          else
            let (page, pageSize, details, f, _, gap) = getAddressQueryParams r AccountDetailsTxidHistory txsInAPI in
            returnedV1 v AddressJ addressV1 (GetXpubAddress_p P xpub page pageSize details f gap))"

definition apiUtxo :: "('s, 'c) public_env \<Rightarrow> ('s, 'c) api_handler" where
  "apiUtxo P r v =
     (case lastPart r of
        None \<Rightarrow> ret (Some (UtxoJ None), None)
      | Some descriptor \<Rightarrow>
          let c = Query_h r ''confirmed'' in
          case (if c \<noteq> '''' then ParseBool c else Some False) of
            None \<Rightarrow> failed ''Parameter 'confirmed' cannot be converted to boolean''
          | Some onlyConfirmed \<Rightarrow>
              returnedV1 v UtxoJ (\<lambda>p u. rbind (AddressUtxoToV1 p u) (\<lambda>u. Inr (UtxoV1J u)))
                (abind (attempt (GetXpubUtxo (interferences (ws_p P)) (rounds (ws_p P)) (api_p P) (StableUtxos (ws_p P)) descriptor onlyConfirmed
                          (AtoiOr0 (Query_h r ''gap'')))) (\<lambda>utxo.
                 case utxo of
                   Inr u \<Rightarrow> ret u
                 | Inl _ \<Rightarrow> onWorker (GetAddressUtxo (api_p P) descriptor onlyConfirmed))))"

definition apiBlock :: "('s, 'c) public_env \<Rightarrow> ('s, 'c) api_handler" where
  "apiBlock P r v =
     (case lastPart r of
        None \<Rightarrow> ret (Some (BlockJ None), None)
      | Some bid \<Rightarrow>
          returnedV1 v BlockJ (\<lambda>p b. rbind (BlockToV1 p b) (\<lambda>b. Inr (BlockV1J b)))
            (onWorker (GetBlock_w (api_p P) bid (AtoiOr0 (Query_h r ''page'')) txsInAPI)))"

definition apiSendTx :: "('s, 'c) public_env \<Rightarrow> ('s, 'c) api_handler" where
  "apiSendTx P r v =
     (case (if Method_h r = ''POST'' then Body_h r else Inr (case lastPart r of Some t \<Rightarrow> t | None \<Rightarrow> '''')) of
        Inl _ \<Rightarrow> failed ''Missing tx blob''
      | Inr hex \<Rightarrow>
          if hex = '''' then failed ''Missing tx blob''
          else
            abind (attempt (onWorker (callChain (SendRawTransaction (ws_p P) hex)))) (\<lambda>res.
            ret (case res of Inl e \<Rightarrow> (None, Some (APIError (errText P e) True)) | Inr t \<Rightarrow> (Some (SendTransactionJ t), None))))"

definition apiEstimateFee :: "('s, 'c) public_env \<Rightarrow> ('s, 'c) api_handler" where
  "apiEstimateFee P r v =
     (case lastPart r of
        None \<Rightarrow> failed (''Missing parameter 'number of blocks'' @ [CHR 0x27])
      | Some b \<Rightarrow>
          if b = '''' then failed (''Missing parameter 'number of blocks'' @ [CHR 0x27])
          else
            case Atoi b of
              None \<Rightarrow> failed ''Parameter 'number of blocks' is not a number''
            | Some blocks \<Rightarrow>
                let c = Query_h r ''conservative'' in
                case (if c \<noteq> '''' then ParseBool c else Some True) of
                  None \<Rightarrow> failed ''Parameter 'conservative' cannot be converted to boolean''
                | Some conservative \<Rightarrow>
                    abind (attempt (onWorker (
                      abind (attempt (callChain (EstimateSmartFee (ws_p P) blocks conservative))) (\<lambda>fee.
                      case fee of
                        Inr fee \<Rightarrow> ret fee
                      | Inl _ \<Rightarrow> callChain (EstimateFee_n P blocks))))) (\<lambda>fee.
                    case fee of
                      Inl e \<Rightarrow> ret (None, Some e)
                    | Inr fee \<Rightarrow>
                        abind (query (\<lambda>(w, _). AmountToDecimalString_p (chainParser_w w) (Some fee))) (\<lambda>t. ret (Some (EstimateFeeJ t), None))))"

definition apiFindzcserial :: "('s, 'c) public_env \<Rightarrow> ('s, 'c) api_handler" where
  "apiFindzcserial P r v =
     (case lastPart r of
        None \<Rightarrow> failed (''Missing parameter 'serialHex'' @ [CHR 0x27])
      | Some serialHex \<Rightarrow>
          abind (attempt (onWorker (callChain (Findzcserial_n P serialHex)))) (\<lambda>txid.
          ret (case txid of Inl e \<Rightarrow> (None, Some e) | Inr t \<Rightarrow> (Some (SerialJ t), None))))"

section \<open>JSON answers\<close>

datatype jsonBody = DataJ apiData | ErrorJ string

record json_response =
  Status_j :: int
  Body_j :: jsonBody

definition jsonError :: "string \<Rightarrow> int \<Rightarrow> json_response" where
  "jsonError text status = \<lparr> Status_j = status, Body_j = ErrorJ text \<rparr>"

definition errValueText :: "('s, 'c) public_env \<Rightarrow> go_error option \<Rightarrow> string" where
  "errValueText P err = (case err of Some e \<Rightarrow> errText P e | None \<Rightarrow> ''<nil>'')"

definition jsonAnswer :: "('s, 'c) public_env \<Rightarrow> api_result \<Rightarrow> json_response" where
  "jsonAnswer P = (\<lambda>(d, err).
     if err \<noteq> None \<or> d = None then
       (case err of
          Some (APIError text public) \<Rightarrow> if public then jsonError text 400 else jsonError text 500
        | _ \<Rightarrow>
            if debug P then
              (case d of
                 Some d \<Rightarrow> jsonError (''Internal server error: '' @ errValueText P err @ '', data '' @ dataText P d) 500
               | None \<Rightarrow> jsonError (''Internal server error: '' @ errValueText P err) 500)
            else jsonError ''Internal server error'' 500)
     else \<lparr> Status_j = 200, Body_j = DataJ (the d) \<rparr>)"

definition jsonHandler :: "('s, 'c) public_env \<Rightarrow> ('s, 'c) api_handler \<Rightarrow> apiVersion \<Rightarrow> http_request \<Rightarrow> ('s, 'c, json_response) api_action" where
  "jsonHandler P handler v r w =
     (case handler r v w of
        (Inr res, w) \<Rightarrow> (Inr (jsonAnswer P res), w)
      | (Inl (Hang e), w) \<Rightarrow> (Inl (Hang e), w)
      | (Inl e, w) \<Rightarrow>
          (Inr (jsonError (if debug P then ''Internal server error: recovered from panic '' @ errText P e else ''Internal server error'') 500), w))"

section \<open>Pages\<close>

datatype tpl = noTpl | errorTpl | errorInternalTpl | indexTpl | mnTpl | peersTpl | topTpl | apiinfoTpl | statusTpl | txTpl | shieldTxTpl
  | addressTpl | xpubTpl | blocksTpl | blockTpl | sendTransactionTpl | mempoolTpl | chartsSupplyTpl | chartsNetworkTpl | chartsGithubTpl

definition newTemplateData :: "('s, 'c) public_env \<Rightarrow> ('s, 'c, TemplateData) api_action" where
  "newTemplateData P = query (\<lambda>(w, _).
     case is_d (db_w w) of
       None \<Rightarrow> Inl (Panic ''nil pointer dereference'')
     | Some st \<Rightarrow>
         Inr \<lparr> CoinName = Coin st, CoinShortcut_t = CoinShortcut st, CoinLabel_t = CoinLabel st,
               InternalExplorer = (internalExplorer P \<and> \<not> InitialSync st), ChainType_t = GetChainType (chainParser_w w),
               Address_t = None, Filter_t = '''', AddrStr_t = '''', Tx_t = None, Error_t = None, Blocks_t = None, Block_t = None, Info_t = None,
               MempoolTxids_t = None, Page_t = 0, PrevPage = 0, NextPage = 0, PagingRange = [], PageParams = '''', Hostname = Host st,
               RelativeURL = '''', TOSLink_t = TOSLink P, SendTxHex = '''', Masternodes_t = None, Peers_t = None, Status_t = '''',
               NonZeroBalanceTokens = False, IsCharts = False, ChartData = '''' \<rparr>)"

definition newTemplateDataWithError :: "('s, 'c) public_env \<Rightarrow> string \<Rightarrow> ('s, 'c, TemplateData) api_action" where
  "newTemplateDataWithError P text = abind (newTemplateData P) (\<lambda>td. ret (td\<lparr> Error_t := Some (text, False) \<rparr>))"

text \<open>What a handler of a page returns: the address of the redirect it answered with, the template, the data and an error.\<close>

record page_result =
  Redirect :: "string option"
  Tpl :: tpl
  Data_r :: "TemplateData option"
  Err_r :: "go_error option"

type_synonym ('s, 'c) page_handler = "http_request \<Rightarrow> ('s, 'c, page_result) api_action"

definition pageOk :: "tpl \<Rightarrow> TemplateData \<Rightarrow> ('s, 'c, page_result) api_action" where
  "pageOk t d = ret \<lparr> Redirect = None, Tpl = t, Data_r = Some d, Err_r = None \<rparr>"

definition pageError :: "go_error \<Rightarrow> ('s, 'c, page_result) api_action" where
  "pageError e = ret \<lparr> Redirect = None, Tpl = errorTpl, Data_r = None, Err_r = Some e \<rparr>"

definition redirectTo :: "string \<Rightarrow> ('s, 'c, page_result) api_action" where
  "redirectTo url = ret \<lparr> Redirect = Some url, Tpl = noTpl, Data_r = None, Err_r = None \<rparr>"

text \<open>\<open>if err != nil { return errorTpl, nil, err }\<close>.\<close>

definition orError :: "('s, 'c, 'a) api_action \<Rightarrow> ('a \<Rightarrow> ('s, 'c, page_result) api_action) \<Rightarrow> ('s, 'c, page_result) api_action" where
  "orError m f = abind (attempt m) (\<lambda>r. case r of Inl e \<Rightarrow> pageError e | Inr x \<Rightarrow> f x)"

text \<open>
  The answer: the statuses in the order they were written, of which the first is sent (200 when there is none), the location of a redirect, and the templates that were executed.
\<close>

record html_response =
  Statuses :: "int list"
  Location_h :: "string option"
  Executed :: "(tpl \<times> TemplateData) list"

definition startResponse :: "string option \<Rightarrow> html_response" where
  "startResponse redirect = \<lparr> Statuses = (if redirect = None then [] else [302]), Location_h = redirect, Executed = [] \<rparr>"

definition render :: "tpl \<Rightarrow> TemplateData \<Rightarrow> html_response \<Rightarrow> html_response" where
  "render t d res =
     (if t \<noteq> noTpl then
        res\<lparr> Statuses := Statuses res @ (if t = errorInternalTpl then [500] else []), Executed := Executed res @ [(t, d)] \<rparr>
      else res)"

definition recovered :: "('s, 'c) public_env \<Rightarrow> go_error \<Rightarrow> html_response \<Rightarrow> ('s, 'c, html_response) api_action" where
  "recovered P e res =
     abind (newTemplateDataWithError P (if debug P then ''Internal server error: recovered from panic '' @ errText P e else ''Internal server error'')) (\<lambda>d.
     ret (render errorInternalTpl d res))"

definition errorPage :: "('s, 'c) public_env \<Rightarrow> page_result \<Rightarrow> ('s, 'c, tpl \<times> TemplateData option) api_action" where
  "errorPage P pr =
     (if Err_r pr \<noteq> None \<or> (Data_r pr = None \<and> Tpl pr \<noteq> noTpl) then
        (case Err_r pr of
           Some (APIError text public) \<Rightarrow>
             abind (newTemplateData P) (\<lambda>d. ret (if public then errorTpl else errorInternalTpl, Some (d\<lparr> Error_t := Some (text, public) \<rparr>)))
         | err \<Rightarrow>
             abind (newTemplateDataWithError P
               (if debug P then ''Internal server error: '' @ errValueText P err @ '', data '' @ pageText P (Data_r pr) else ''Internal server error'')) (\<lambda>d.
             ret (errorInternalTpl, Some d)))
      else ret (Tpl pr, Data_r pr))"

text \<open>
  The assignment to \<open>data.RelativeURL\<close> comes after the handler, also when it returned \<open>noTpl\<close> and no data. A panic here is recovered as one of the handler is.
\<close>

definition finishPage :: "('s, 'c) public_env \<Rightarrow> http_request \<Rightarrow> html_response \<Rightarrow> tpl \<times> TemplateData option \<Rightarrow> ('s, 'c, html_response) api_action" where
  "finishPage P r res = (\<lambda>(t, data).
     case data of
       None \<Rightarrow> recovered P (Panic ''nil pointer dereference'') res
     | Some d \<Rightarrow> ret (render t (d\<lparr> RelativeURL := (if Path_h r = ''/'' then '''' else Path_h r) \<rparr>) res))"

definition htmlTemplateHandler :: "('s, 'c) public_env \<Rightarrow> ('s, 'c) page_handler \<Rightarrow> http_request \<Rightarrow> ('s, 'c, html_response) api_action" where
  "htmlTemplateHandler P handler r w =
     (case handler r w of
        (Inl (Hang e), w) \<Rightarrow> (Inl (Hang e), w)
      | (Inl e, w) \<Rightarrow> recovered P e (startResponse None) w
      | (Inr pr, w) \<Rightarrow>
          (case errorPage P pr w of
             (Inl e, w) \<Rightarrow> recovered P e (startResponse (Redirect pr)) w
           | (Inr td, w) \<Rightarrow> finishPage P r (startResponse (Redirect pr)) td w))"

section \<open>Page numbers\<close>

text \<open>Zeros stand for the gaps.\<close>

definition getPagingRange :: "int \<Rightarrow> int \<Rightarrow> int list \<times> int \<times> int" where
  "getPagingRange page tot =
     (if tot \<ge> 0 \<and> tot < 2 then ([], 0, 0)
      else
        let pp = (if wrap64 (page - 1) < 1 then 1 else wrap64 (page - 1)); np = wrap64 (page + 1) in
        if tot > 0 then
          let np = (if np > tot then tot else np);
              r = (if tot < 6 then [1..tot]
                   else [1] @ (if page > 3 then [0] else []) @
                     (if pp = 1 then
                        if page = 1 then [np, np + 1, np + 2] else [page, np, np + 1]
                      else if np = tot then
                        if page = tot then [pp - 2, pp - 1, pp] else [pp - 1, pp, page]
                      else [pp, page, np]) @
                     (if page \<le> tot - 3 then [0] else []) @ [tot])
          in (r, pp, np)
        else ([], pp, np))"

definition withPaging :: "Paging \<Rightarrow> TemplateData \<Rightarrow> TemplateData" where
  "withPaging pg d =
     (let (r, pp, np) = getPagingRange (Page pg) (TotalPages pg) in
      d\<lparr> Page_t := Page pg, PagingRange := r, PrevPage := pp, NextPage := np \<rparr>)"
section \<open>The explorer\<close>

text \<open>Returns true if a transaction is shielded; a nil transaction panics.\<close>

definition IsShield :: "TxA option \<Rightarrow> go_error + bool" where
  "IsShield tx =
     (case tx of
        None \<Rightarrow> Inl (Panic ''nil pointer dereference'')
      | Some tx \<Rightarrow>
          if ShieldIns_a tx > 0 \<or> ShieldOuts_a tx > 0 then Inr True
          else Inr (case ShieldValBal_a tx of None \<Rightarrow> False | Some b \<Rightarrow> \<not> IsZeroBigInt b))"

definition explorerTx :: "('s, 'c) public_env \<Rightarrow> ('s, 'c) page_handler" where
  "explorerTx P r =
     orError (case lastPart r of
                Some txid \<Rightarrow> abind (onWorker (GetTransaction_w (api_p P) txid False True)) (\<lambda>tx. ret (Some tx))
              | None \<Rightarrow> ret None) (\<lambda>tx.
     abind (newTemplateData P) (\<lambda>data.
     abind (query (\<lambda>_. IsShield tx)) (\<lambda>shield.
     pageOk (if shield then shieldTxTpl else txTpl) (data\<lparr> Tx_t := tx \<rparr>))))"

definition explorerSpendingTx :: "('s, 'c) public_env \<Rightarrow> ('s, 'c) page_handler" where
  "explorerSpendingTx P r =
     (let parts = Split (CHR ''/'') (Path_h r);
          notFound = pageError (APIError ''Transaction not found'' True) in
      if length parts > 2 then
        (case Atoi (last parts) of
           None \<Rightarrow> notFound
         | Some n \<Rightarrow>
             abind (attempt (onWorker (GetSpendingTxid (api_p P) (parts ! (length parts - 2)) n))) (\<lambda>spendingTx.
             case spendingTx of
               Inl _ \<Rightarrow> notFound
             | Inr t \<Rightarrow> if t \<noteq> '''' then redirectTo (joinURL ''/tx/'' t) else notFound))
      else notFound)"

definition withAddress :: "string \<Rightarrow> XpubAddress \<Rightarrow> TemplateData \<Rightarrow> TemplateData" where
  "withAddress filterParam address data =
     (let d = withPaging (Paging_ad address) (data\<lparr> AddrStr_t := AddrStr address, Address_t := Some address \<rparr>) in
      if filterParam \<noteq> '''' then d\<lparr> PageParams := ''&filter='' @ filterParam, Filter_t := filterParam \<rparr> else d)"

definition explorerAddress :: "('s, 'c) public_env \<Rightarrow> ('s, 'c) page_handler" where
  "explorerAddress P r =
     (let addressParam = (case lastPart r of Some a \<Rightarrow> a | None \<Rightarrow> '''') in
      if addressParam = '''' then pageError (APIError ''Missing address'' True)
      else
        let (page, _, _, f, filterParam, _) = getAddressQueryParams r AccountDetailsTxHistory txsOnPage in
        orError (GetAddress_p P addressParam page txsOnPage AccountDetailsTxHistory f) (\<lambda>address.
        abind (newTemplateData P) (\<lambda>data.
        pageOk addressTpl (withAddress filterParam address data))))"

definition explorerXpub :: "('s, 'c) public_env \<Rightarrow> ('s, 'c) page_handler" where
  "explorerXpub P r =
     (let xpub = (case lastPart r of Some a \<Rightarrow> a | None \<Rightarrow> '''') in
      if xpub = '''' then pageError (APIError ''Missing xpub'' True)
      else
        let (page, _, _, f, filterParam, gap) = getAddressQueryParams r AccountDetailsTxHistoryLight txsOnPage in
        orError (GetXpubAddress_p P xpub page txsOnPage AccountDetailsTxHistoryLight f gap) (\<lambda>address.
        abind (newTemplateData P) (\<lambda>data.
        pageOk xpubTpl ((withAddress filterParam address data)\<lparr> NonZeroBalanceTokens := (TokensToReturn_f f = TokensToReturnNonzeroBalance) \<rparr>))))"

definition explorerBlocks :: "('s, 'c) public_env \<Rightarrow> ('s, 'c) page_handler" where
  "explorerBlocks P r =
     orError (onWorker (GetBlocks (api_p P) (AtoiOr0 (Query_h r ''page'')) blocksOnPage)) (\<lambda>blocks.
     abind (newTemplateData P) (\<lambda>data.
     pageOk blocksTpl (withPaging (Paging_bs blocks) (data\<lparr> Blocks_t := Some blocks \<rparr>))))"

definition explorerBlock :: "('s, 'c) public_env \<Rightarrow> ('s, 'c) page_handler" where
  "explorerBlock P r =
     orError (case lastPart r of
                Some bid \<Rightarrow> abind (onWorker (GetBlock_w (api_p P) bid (AtoiOr0 (Query_h r ''page'')) txsOnPage)) (\<lambda>b. ret (Some b))
              | None \<Rightarrow> ret None) (\<lambda>block.
     abind (newTemplateData P) (\<lambda>data.
     case block of
       None \<Rightarrow> throw (Panic ''nil pointer dereference'')
     | Some b \<Rightarrow> pageOk blockTpl (withPaging (Paging_ba b) (data\<lparr> Block_t := Some b \<rparr>))))"

definition explorerIndex :: "('s, 'c) public_env \<Rightarrow> ('s, 'c) page_handler" where
  "explorerIndex P r =
     orError (onWorker (GetSystemInfo (info_p P) False)) (\<lambda>si.
     orError (onWorker (GetBlocks (api_p P) 0 5)) (\<lambda>blocks.
     abind (newTemplateData P) (\<lambda>data.
     pageOk indexTpl (data\<lparr> Info_t := Some si, Blocks_t := Some blocks \<rparr>))))"

definition explorerApiInfo :: "('s, 'c) public_env \<Rightarrow> ('s, 'c) page_handler" where
  "explorerApiInfo P r = abind (newTemplateData P) (\<lambda>data. pageOk apiinfoTpl data)"

definition explorerMasternodes :: "('s, 'c) public_env \<Rightarrow> ('s, 'c) page_handler" where
  "explorerMasternodes P r =
     orError (onWorker (GetSystemInfo (info_p P) False)) (\<lambda>si.
     orError (onWorker (GetMasternodesInfo_w (info_p P))) (\<lambda>mni.
     abind (newTemplateData P) (\<lambda>data.
     pageOk mnTpl (data\<lparr> Info_t := Some si, Masternodes_t := mni \<rparr>))))"

definition explorerPeers :: "('s, 'c) public_env \<Rightarrow> ('s, 'c) page_handler" where
  "explorerPeers P r =
     orError (onWorker (GetSystemInfo (info_p P) False)) (\<lambda>si.
     orError (onWorker (GetPeersInfo_w (info_p P))) (\<lambda>prs.
     abind (newTemplateData P) (\<lambda>data.
     pageOk peersTpl (data\<lparr> Info_t := Some si, Peers_t := Some prs \<rparr>))))"

definition explorerStatus :: "('s, 'c) public_env \<Rightarrow> ('s, 'c) page_handler" where
  "explorerStatus P r =
     orError (onWorker (GetSystemInfo (info_p P) False)) (\<lambda>si.
     abind (newTemplateData P) (\<lambda>data.
     pageOk statusTpl (data\<lparr> Info_t := Some si \<rparr>)))"

definition searchFilter :: AddressFilter where
  "searchFilter = \<lparr> Vout_f = AddressFilterVoutOff, Contract_f = '''', FromHeight = 0, ToHeight = 0,
     TokensToReturn_f = TokensToReturnNonzeroBalance, OnlyConfirmed = False \<rparr>"

text \<open>A text is looked up as an extended key, a block, a transaction and an address, in this order.\<close>

definition orElse :: "('s, 'c, 'a) api_action \<Rightarrow> ('a \<Rightarrow> string) \<Rightarrow> ('s, 'c, page_result) api_action \<Rightarrow> ('s, 'c, page_result) api_action" where
  "orElse m url n = abind (attempt m) (\<lambda>r. case r of Inr x \<Rightarrow> redirectTo (url x) | Inl _ \<Rightarrow> n)"

definition explorerSearch :: "('s, 'c) public_env \<Rightarrow> ('s, 'c) page_handler" where
  "explorerSearch P r =
     (let q = TrimSpace (Query_h r ''q'');
          notFound = pageError (APIError (''No matching records found for '' @ [CHR 0x27] @ q @ [CHR 0x27]) True) in
      if q \<noteq> '''' then
        orElse (GetXpubAddress_p P q 0 1 AccountDetailsBasic searchFilter 0) (\<lambda>a. joinURL ''/xpub/'' (AddrStr a))
        (orElse (onWorker (GetBlock_w (api_p P) q 0 1)) (\<lambda>b. joinURL ''/block/'' (Hash_ba b))
        (orElse (onWorker (GetTransaction_w (api_p P) q False False)) (\<lambda>t. joinURL ''/tx/'' (Txid_a t))
        (orElse (GetAddress_p P q 0 1 AccountDetailsBasic searchFilter) (\<lambda>a. joinURL ''/address/'' (AddrStr a))
        notFound)))
      else notFound)"

definition explorerSendTx :: "('s, 'c) public_env \<Rightarrow> ('s, 'c) page_handler" where
  "explorerSendTx P r =
     abind (newTemplateData P) (\<lambda>data.
     if Method_h r = ''POST'' then
       (case Form_h r of
          Inl e \<Rightarrow> ret \<lparr> Redirect = None, Tpl = sendTransactionTpl, Data_r = Some data, Err_r = Some e \<rparr>
        | Inr form \<Rightarrow>
            let hex = form ''hex'' in
            if hex \<noteq> '''' then
              abind (attempt (onWorker (callChain (SendRawTransaction (ws_p P) hex)))) (\<lambda>res.
              case res of
                Inl e \<Rightarrow> pageOk sendTransactionTpl (data\<lparr> SendTxHex := hex, Error_t := Some (errText P e, True) \<rparr>)
              | Inr t \<Rightarrow> pageOk sendTransactionTpl (data\<lparr> Status_t := ''Transaction sent, result '' @ t \<rparr>))
            else pageOk sendTransactionTpl data)
     else pageOk sendTransactionTpl data)"

definition explorerMempool :: "('s, 'c) public_env \<Rightarrow> ('s, 'c) page_handler" where
  "explorerMempool P r =
     orError (onWorker (GetMempool (AtoiOr0 (Query_h r ''page'')) mempoolTxsOnPage)) (\<lambda>mempoolTxids.
     abind (newTemplateData P) (\<lambda>data.
     pageOk mempoolTpl (withPaging (Paging_mt mempoolTxids) (data\<lparr> MempoolTxids_t := Some mempoolTxids \<rparr>))))"

definition chartPage :: "tpl \<Rightarrow> string \<Rightarrow> ('s, 'c) public_env \<Rightarrow> ('s, 'c) page_handler" where
  "chartPage t file P r =
     abind (newTemplateData P) (\<lambda>data.
     orError (query (\<lambda>_. ReadFile P file)) (\<lambda>json.
     pageOk t (data\<lparr> IsCharts := True, ChartData := json \<rparr>)))"

definition explorerChartsSupply :: "('s, 'c) public_env \<Rightarrow> ('s, 'c) page_handler" where
  "explorerChartsSupply = chartPage chartsSupplyTpl ''../plot_data/supply_data.json''"

definition explorerChartsNetwork :: "('s, 'c) public_env \<Rightarrow> ('s, 'c) page_handler" where
  "explorerChartsNetwork = chartPage chartsNetworkTpl ''../plot_data/network_data.json''"

definition explorerChartsGithub :: "('s, 'c) public_env \<Rightarrow> ('s, 'c) page_handler" where
  "explorerChartsGithub = chartPage chartsGithubTpl ''../plot_data/github_data.json''"

section \<open>Functions of the templates\<close>

definition formatAmount :: "BlockChainParser \<Rightarrow> int option \<Rightarrow> go_error + string" where
  "formatAmount p a = AmountToDecimalString_p p a"

definition formatAmountWithDecimals :: "int option \<Rightarrow> int \<Rightarrow> go_error + string" where
  "formatAmountWithDecimals a d = (case a of None \<Rightarrow> Inr ''0'' | Some _ \<Rightarrow> Amount_DecimalString a d)"

definition formatAbsAmount :: "BlockChainParser \<Rightarrow> int option \<Rightarrow> go_error + string" where
  "formatAbsAmount p a = (case a of None \<Rightarrow> Inr '''' | Some x \<Rightarrow> formatAmount p (Some \<bar>x\<bar>))"

definition formatNegatedAmount :: "BlockChainParser \<Rightarrow> int option \<Rightarrow> go_error + string" where
  "formatNegatedAmount p a = (case a of None \<Rightarrow> Inr '''' | Some x \<Rightarrow> formatAmount p (Some (- x)))"

definition IsPositive :: "int option \<Rightarrow> bool" where
  "IsPositive a = (case a of None \<Rightarrow> True | Some x \<Rightarrow> x \<ge> 0)"

definition setTxToTemplateData :: "TemplateData \<Rightarrow> TxA option \<Rightarrow> TemplateData" where
  "setTxToTemplateData td tx = td\<lparr> Tx_t := tx \<rparr>"

definition isOwnAddress :: "TemplateData \<Rightarrow> string \<Rightarrow> bool" where
  "isOwnAddress td a = (a = AddrStr_t td \<or> (case Address_t td of Some d \<Rightarrow> a \<in> XPubAddresses d | None \<Rightarrow> False))"

definition isOwnAddresses :: "TemplateData \<Rightarrow> string list \<Rightarrow> bool" where
  "isOwnAddresses td as = (if length as = 1 then isOwnAddress td (as ! 0) else False)"

definition isP2CS :: "string list \<Rightarrow> bool" where
  "isP2CS addrs = (length addrs = 2 \<and> addrs ! 0 \<noteq> '''' \<and> (hd (addrs ! 0) = CHR ''S'' \<or> hd (addrs ! 0) = CHR ''W''))"

section \<open>Routes\<close>

datatype endpoint = IndexE | BlockIndexE | TxSpecificE | TxE | AddressE | XpubE | UtxoE | BlockE | SendTxE | EstimateFeeE | FindzcserialE

datatype explorerPage = IndexP | MasternodesP | PeersP | TopP | ApiInfoP | StatusP | TxP | AddressP | XpubP | SearchP | BlocksP | BlockP | SpendingTxP
  | SendTxP | MempoolP | ChartsSupplyP | ChartsNetworkP | ChartsGithubP

datatype route = FilesR | PageR explorerPage | TxRedirectR | AddressRedirectR | ApiR endpoint apiVersion | SocketIoR | WebsocketR

text \<open>The routes that \<open>NewPublicServer\<close> registers, and those that \<open>ConnectFullPublicInterface\<close> adds once the index is open.\<close>

definition basicRoutes :: "(string \<times> route) list" where
  "basicRoutes = [(''favicon.ico'', FilesR), (''static/'', FilesR), ('''', PageR IndexP), (''api/'', ApiR IndexE apiV2)]"

definition explorerRoutes :: "bool \<Rightarrow> (string \<times> route) list" where
  "explorerRoutes intern =
     [(''masternodes'', PageR MasternodesP), (''peers'', PageR PeersP), (''top'', PageR TopP), (''apiinfo'', PageR ApiInfoP),
      (''status'', PageR StatusP), (''test-socketio.html'', FilesR), (''test-websocket.html'', FilesR)] @
     (if intern then
       [(''tx/'', PageR TxP), (''address/'', PageR AddressP), (''xpub/'', PageR XpubP), (''search/'', PageR SearchP), (''blocks'', PageR BlocksP),
        (''block/'', PageR BlockP), (''spending/'', PageR SpendingTxP), (''sendtx'', PageR SendTxP), (''mempool'', PageR MempoolP),
        (''charts/supply'', PageR ChartsSupplyP), (''charts/network'', PageR ChartsNetworkP), (''charts/github'', PageR ChartsGithubP)]
      else [(''tx/'', TxRedirectR), (''address/'', AddressRedirectR)])"

definition v1Routes :: "(string \<times> route) list" where
  "v1Routes =
     [(''api/v1/block-index/'', ApiR BlockIndexE apiV1), (''api/v1/tx-specific/'', ApiR TxSpecificE apiV1), (''api/v1/tx/'', ApiR TxE apiV1),
      (''api/v1/address/'', ApiR AddressE apiV1), (''api/v1/utxo/'', ApiR UtxoE apiV1), (''api/v1/block/'', ApiR BlockE apiV1),
      (''api/v1/sendtx/'', ApiR SendTxE apiV1), (''api/v1/estimatefee/'', ApiR EstimateFeeE apiV1), (''api/v1/findzcserial/'', ApiR FindzcserialE apiV1)]"

definition defaultRoutes :: "apiVersion \<Rightarrow> (string \<times> route) list" where
  "defaultRoutes apiDefault =
     [(''api/block-index/'', ApiR BlockIndexE apiDefault), (''api/tx-specific/'', ApiR TxSpecificE apiDefault), (''api/tx/'', ApiR TxE apiDefault),
      (''api/address/'', ApiR AddressE apiDefault), (''api/xpub/'', ApiR XpubE apiDefault), (''api/utxo/'', ApiR UtxoE apiDefault),
      (''api/block/'', ApiR BlockE apiDefault), (''api/sendtx/'', ApiR SendTxE apiDefault), (''api/estimatefee/'', ApiR EstimateFeeE apiDefault),
      (''api/findzcserial/'', ApiR FindzcserialE apiDefault)]"

definition v2Routes :: "(string \<times> route) list" where
  "v2Routes =
     [(''api/v2/block-index/'', ApiR BlockIndexE apiV2), (''api/v2/tx-specific/'', ApiR TxSpecificE apiV2), (''api/v2/tx/'', ApiR TxE apiV2),
      (''api/v2/address/'', ApiR AddressE apiV2), (''api/v2/xpub/'', ApiR XpubE apiV2), (''api/v2/utxo/'', ApiR UtxoE apiV2),
      (''api/v2/block/'', ApiR BlockE apiV2), (''api/v2/sendtx/'', ApiR SendTxE apiV2), (''api/v2/estimatefee/'', ApiR EstimateFeeE apiV2),
      (''api/v2/findzcserial/'', ApiR FindzcserialE apiV2)]"

definition fullRoutes :: "bool \<Rightarrow> ChainType \<Rightarrow> (string \<times> route) list" where
  "fullRoutes intern chainType =
     explorerRoutes intern @
     (if chainType = ChainEthereumType then defaultRoutes apiV2 else v1Routes @ defaultRoutes apiV1) @
     v2Routes @ [(''socket.io/'', SocketIoR), (''websocket'', WebsocketR)]"

definition routesOf :: "('s, 'c) public_env \<Rightarrow> ChainType \<Rightarrow> string \<Rightarrow> (string \<times> route) list" where
  "routesOf P chainType binding =
     map (\<lambda>(q, r). (snd (splitBinding binding) @ q, r)) (basicRoutes @ fullRoutes (internalExplorer P) chainType)"

text \<open>\<open>http.ServeMux\<close>: a pattern equal to the path, or else the longest one that ends with a slash and begins the path.\<close>

definition muxMatch :: "(string \<times> route) list \<Rightarrow> string \<Rightarrow> route option" where
  "muxMatch rs p =
     (case map_of rs p of
        Some r \<Rightarrow> Some r
      | None \<Rightarrow>
          (case sort_key (\<lambda>(q, _). - int (length q)) (filter (\<lambda>(q, _). q \<noteq> [] \<and> last q = CHR ''/'' \<and> prefix q p) rs) of
             [] \<Rightarrow> None
           | (_, r) # _ \<Rightarrow> Some r))"

fun apiHandlerOf :: "('s, 'c) public_env \<Rightarrow> endpoint \<Rightarrow> ('s, 'c) api_handler" where
  "apiHandlerOf P IndexE = apiIndex P"
| "apiHandlerOf P BlockIndexE = apiBlockIndex P"
| "apiHandlerOf P TxSpecificE = apiTxSpecific P"
| "apiHandlerOf P TxE = apiTx P"
| "apiHandlerOf P AddressE = apiAddress P"
| "apiHandlerOf P XpubE = apiXpub P"
| "apiHandlerOf P UtxoE = apiUtxo P"
| "apiHandlerOf P BlockE = apiBlock P"
| "apiHandlerOf P SendTxE = apiSendTx P"
| "apiHandlerOf P EstimateFeeE = apiEstimateFee P"
| "apiHandlerOf P FindzcserialE = apiFindzcserial P"

text \<open>What the server answers to a request of the API; nothing when the path belongs to something else.\<close>

definition serveApi :: "('s, 'c) public_env \<Rightarrow> ChainType \<Rightarrow> string \<Rightarrow> http_request \<Rightarrow> ('s, 'c, json_response) api_action option" where
  "serveApi P chainType binding r =
     (case muxMatch (routesOf P chainType binding) (Path_h r) of
        Some (ApiR e v) \<Rightarrow> Some (jsonHandler P (apiHandlerOf P e) v r)
      | _ \<Rightarrow> None)"

section \<open>Page numbers, properties\<close>

text \<open>A list of pages offers each page after the one before; a 0 stands for pages that are left out.\<close>

fun offersPages :: "int list \<Rightarrow> bool" where
  "offersPages (a # b # r) = (if b = 0 then (case r of [] \<Rightarrow> False | c # _ \<Rightarrow> a + 1 < c \<and> offersPages r) else b = a + 1 \<and> offersPages (b # r))"
| "offersPages _ = True"

lemma upto_small: "2 \<le> (t :: int) \<Longrightarrow> t < 6 \<Longrightarrow> t = 2 \<or> t = 3 \<or> t = 4 \<or> t = 5"
  by linarith

lemma paging_many:
  assumes "6 \<le> t" "t < 2 ^ 63 - 1" "1 \<le> p" "p \<le> t"
  shows "case getPagingRange p t of (r, pp, np) \<Rightarrow>
     hd r = 1 \<and> last r = t \<and> p \<in> set r \<and> offersPages r \<and> pp = max 1 (p - 1) \<and> np = min t (p + 1) \<and> pp \<in> set r \<and> np \<in> set r \<and> length r \<le> 7"
proof -
  have w: "wrap64 (p - 1) = p - 1" "wrap64 (p + 1) = p + 1" using assms by (simp_all add: wrap64_id)
  show ?thesis
    using assms by (auto simp: getPagingRange_def w Let_def)
qed

lemma paging_few:
  assumes "2 \<le> t" "t < 6" "1 \<le> p" "p \<le> t"
  shows "case getPagingRange p t of (r, pp, np) \<Rightarrow>
     hd r = 1 \<and> last r = t \<and> p \<in> set r \<and> offersPages r \<and> pp = max 1 (p - 1) \<and> np = min t (p + 1) \<and> pp \<in> set r \<and> np \<in> set r \<and> length r \<le> 7"
proof -
  have w: "wrap64 (p - 1) = p - 1" "wrap64 (p + 1) = p + 1" using assms by (simp_all add: wrap64_id)
  show ?thesis
    using upto_small[OF assms(1,2)] assms(3,4)
    by (elim disjE) (auto simp: getPagingRange_def wrap64_id Let_def upto.simps)
qed

text \<open>
  The page numbers of a list of several pages begin with the first and end with the last page; they contain the current page, the one before and the one after, at most seven entries
  in all; and every number follows the one before it, or a 0 between them stands for at least one page that is left out.
\<close>

theorem paging_range_offers:
  assumes "2 \<le> tot" "tot < 2 ^ 63 - 1" "1 \<le> p" "p \<le> tot"
  shows "case getPagingRange p tot of (r, pp, np) \<Rightarrow>
     hd r = 1 \<and> last r = tot \<and> p \<in> set r \<and> offersPages r \<and> pp = max 1 (p - 1) \<and> np = min tot (p + 1) \<and> pp \<in> set r \<and> np \<in> set r \<and> length r \<le> 7"
  using paging_few[OF assms(1) _ assms(3,4)] paging_many[OF _ assms(2-4)] by (cases "tot < 6") simp_all

theorem paging_range_offers_witness:
  "getPagingRange 7 20 = ([1, 0, 6, 7, 8, 0, 20], 6, 8) \<and> offersPages [1, 0, 6, 7, 8, 0, 20]"
  using paging_range_offers[of 20 7] by (simp add: getPagingRange_def wrap64_id)

section \<open>Routes, properties\<close>

definition endpointName :: "endpoint \<Rightarrow> string" where
  "endpointName e = (case e of IndexE \<Rightarrow> '''' | BlockIndexE \<Rightarrow> ''block-index/'' | TxSpecificE \<Rightarrow> ''tx-specific/'' | TxE \<Rightarrow> ''tx/'' | AddressE \<Rightarrow> ''address/''
     | XpubE \<Rightarrow> ''xpub/'' | UtxoE \<Rightarrow> ''utxo/'' | BlockE \<Rightarrow> ''block/'' | SendTxE \<Rightarrow> ''sendtx/'' | EstimateFeeE \<Rightarrow> ''estimatefee/'' | FindzcserialE \<Rightarrow> ''findzcserial/'')"

lemma map_of_below: "map_of (map (\<lambda>(q, r). (path @ q, r)) rs) (path @ p) = map_of rs p"
  by (induction rs) auto

text \<open>The route of the longest pattern, when every other pattern that begins the path is shorter.\<close>

lemma muxMatch_longest:
  assumes "(q, r) \<in> set rs" "distinct (map fst rs)" "q \<noteq> []" "last q = CHR ''/''" "prefix q p"
    and longest: "\<And>q' r'. (q', r') \<in> set rs \<Longrightarrow> prefix q' p \<Longrightarrow> q' = q \<or> length q' < length q"
  shows "muxMatch (map (\<lambda>(q, r). (path @ q, r)) rs) (path @ p) = Some r"
proof (cases "map_of rs p")
  case (Some r')
  then have "p = q" using longest[of p r'] prefix_length_le[OF assms(5)] by (auto dest: map_of_SomeD)
  moreover have "map_of rs q = Some r" using assms(1,2) by simp
  ultimately show ?thesis by (simp add: muxMatch_def map_of_below)
next
  case None
  let ?f = "\<lambda>(q, _). - int (length q)"
  define F where "F = filter (\<lambda>(q, _). q \<noteq> [] \<and> last q = CHR ''/'' \<and> prefix q (path @ p)) (map (\<lambda>(q, r). (path @ q, r)) rs)"
  have inF: "(path @ q, r) \<in> set F" using assms(1,3-5) by (auto simp: F_def intro!: rev_image_eqI[of "(q, r)"])
  obtain q' r' xs where s: "sort_key ?f F = (q', r') # xs"
    using inF by (cases "sort_key ?f F") (auto dest: arg_cong[of _ _ set])
  have "(q', r') \<in> set F" by (metis s list.set_intros(1) set_sort)
  then obtain q'' where q'': "q' = path @ q''" "(q'', r') \<in> set rs" "prefix q'' p" by (auto simp: F_def)
  have "sorted (map ?f (sort_key ?f F))" by simp
  then have "?f (q', r') \<le> ?f (path @ q, r)"
    using inF s by (metis (no_types, lifting) set_sort list.simps(9) order_refl set_ConsD sorted_simps(2) in_set_conv_decomp list.set_map image_eqI)
  then have "q'' = q" using longest[OF q''(2,3)] q''(1) by auto
  then have "r' = r" using q''(2) assms(1,2) by (metis map_of_is_SomeI option.inject)
  then show ?thesis using None s by (simp add: muxMatch_def map_of_below F_def[symmetric])
qed

lemma routes_distinct: "distinct (map fst (basicRoutes @ fullRoutes i c))"
  by (cases i; cases "c = ChainEthereumType")
    (simp_all add: basicRoutes_def fullRoutes_def explorerRoutes_def v1Routes_def v2Routes_def defaultRoutes_def)

lemma other_routes_short:
  "(q, r) \<in> set (basicRoutes @ explorerRoutes i @ v1Routes @ defaultRoutes v @ [(''socket.io/'', SocketIoR), (''websocket'', WebsocketR)]) \<Longrightarrow>
   prefix q (''api/v2/'' @ t) \<Longrightarrow> length q < 5"
  by (cases i) (auto simp: basicRoutes_def explorerRoutes_def v1Routes_def defaultRoutes_def)

lemma v2Routes_eq:
  "v2Routes = map (\<lambda>e. (''api/v2/'' @ endpointName e, ApiR e apiV2))
     [BlockIndexE, TxSpecificE, TxE, AddressE, XpubE, UtxoE, BlockE, SendTxE, EstimateFeeE, FindzcserialE]"
  by (simp add: v2Routes_def endpointName_def)

lemma endpointName_prefix: "prefix (endpointName e') (endpointName e @ t) \<Longrightarrow> e \<noteq> IndexE \<Longrightarrow> e' \<noteq> IndexE \<Longrightarrow> e' = e"
  by (cases e; cases e'; simp add: endpointName_def)

lemma v2_routes:
  assumes "(q, r) \<in> set v2Routes" "prefix q (''api/v2/'' @ endpointName e @ t)" "e \<noteq> IndexE"
  shows "q = ''api/v2/'' @ endpointName e"
proof -
  obtain e' where e': "q = ''api/v2/'' @ endpointName e'" "e' \<noteq> IndexE" using assms(1) by (auto simp: v2Routes_eq)
  then have "prefix (endpointName e') (endpointName e @ t)" using assms(2) by simp
  then show ?thesis using endpointName_prefix e' assms(3) by blast
qed

lemma v2_registered: "e \<noteq> IndexE \<Longrightarrow> (''api/v2/'' @ endpointName e, ApiR e apiV2) \<in> set v2Routes"
  unfolding v2Routes_eq set_map by (rule image_eqI[OF refl]) (cases e; simp)

lemma endpointName_slash: "e \<noteq> IndexE \<Longrightarrow> endpointName e \<noteq> [] \<and> last (endpointName e) = CHR ''/''"
  by (cases e) (simp_all add: endpointName_def)

lemma routes_cases:
  "(q, r) \<in> set (basicRoutes @ fullRoutes i c) \<Longrightarrow>
   (q, r) \<in> set v2Routes \<or> (\<exists>v. (q, r) \<in> set (basicRoutes @ explorerRoutes i @ v1Routes @ defaultRoutes v @ [(''socket.io/'', SocketIoR), (''websocket'', WebsocketR)]))"
  by (auto simp: fullRoutes_def split: if_splits)

lemma muxMatch_v2:
  assumes "e \<noteq> IndexE"
  shows "muxMatch (routesOf P c binding) (snd (splitBinding binding) @ ''api/v2/'' @ endpointName e @ t) = Some (ApiR e apiV2)"
  unfolding routesOf_def
proof (rule muxMatch_longest)
  show "(''api/v2/'' @ endpointName e, ApiR e apiV2) \<in> set (basicRoutes @ fullRoutes (internalExplorer P) c)"
    using v2_registered[OF assms] by (simp add: fullRoutes_def)
  show "last (''api/v2/'' @ endpointName e) = CHR ''/''" using endpointName_slash[OF assms] by simp
  fix q r
  assume "(q, r) \<in> set (basicRoutes @ fullRoutes (internalExplorer P) c)" and p: "prefix q (''api/v2/'' @ endpointName e @ t)"
  then consider "(q, r) \<in> set v2Routes" | "length q < 5"
    using routes_cases other_routes_short by blast
  then show "q = ''api/v2/'' @ endpointName e \<or> length q < length (''api/v2/'' @ endpointName e)"
    using v2_routes[OF _ p assms] by cases auto
qed (use routes_distinct in simp_all)

lemma lastPart_of_path:
  assumes "CHR ''/'' \<notin> set t" "p \<noteq> []"
  shows "LastIndexByte (p @ ''/'' @ t) CHR ''/'' = int (length p)"
  using assms takeWhile_append2[of "rev t" "\<lambda>x. x \<noteq> CHR ''/''" "CHR ''/'' # rev p"] by (fastforce simp: LastIndexByte_def)

lemma lastPart_append: "Path_h r = p @ ''/'' @ t \<Longrightarrow> CHR ''/'' \<notin> set t \<Longrightarrow> p \<noteq> [] \<Longrightarrow> lastPart r = Some t"
  using lastPart_of_path[of t p] by (simp add: lastPart_def nat_add_distrib)

lemma endpointName_Cons: "e \<noteq> IndexE \<Longrightarrow> \<exists>h n. endpointName e = h # n \<and> h \<noteq> CHR ''v''"
  by (cases e) (simp_all add: endpointName_def)

lemma defaultRoutes_eq:
  "defaultRoutes v = map (\<lambda>e. (''api/'' @ endpointName e, ApiR e v))
     [BlockIndexE, TxSpecificE, TxE, AddressE, XpubE, UtxoE, BlockE, SendTxE, EstimateFeeE, FindzcserialE]"
  by (simp add: defaultRoutes_def endpointName_def)

lemma default_routes:
  assumes "(q, r) \<in> set (defaultRoutes v)" "prefix q (''api/'' @ endpointName e @ t)" "e \<noteq> IndexE"
  shows "q = ''api/'' @ endpointName e"
proof -
  obtain e' where e': "q = ''api/'' @ endpointName e'" "e' \<noteq> IndexE" using assms(1) by (auto simp: defaultRoutes_eq)
  then have "prefix (endpointName e') (endpointName e @ t)" using assms(2) by simp
  then show ?thesis using endpointName_prefix e' assms(3) by blast
qed

lemma default_registered: "e \<noteq> IndexE \<Longrightarrow> (''api/'' @ endpointName e, ApiR e v) \<in> set (defaultRoutes v)"
  unfolding defaultRoutes_eq set_map by (rule image_eqI[OF refl]) (cases e; simp)

lemma other_routes_short_default:
  assumes "(q, r) \<in> set (basicRoutes @ explorerRoutes i @ v1Routes @ v2Routes @ [(''socket.io/'', SocketIoR), (''websocket'', WebsocketR)])"
    and "prefix q (''api/'' @ endpointName e @ t)" "e \<noteq> IndexE"
  shows "length q \<le> 4"
proof -
  obtain h n where "endpointName e = h # n" "h \<noteq> CHR ''v''" using endpointName_Cons[OF assms(3)] by blast
  then show ?thesis
    using assms(1,2) by (cases i) (auto simp: basicRoutes_def explorerRoutes_def v1Routes_def v2Routes_def)
qed

lemma muxMatch_default:
  assumes "e \<noteq> IndexE"
  shows "muxMatch (routesOf P c binding) (snd (splitBinding binding) @ ''api/'' @ endpointName e @ t) =
     Some (ApiR e (if c = ChainEthereumType then apiV2 else apiV1))"
  unfolding routesOf_def
proof (rule muxMatch_longest)
  show "(''api/'' @ endpointName e, ApiR e (if c = ChainEthereumType then apiV2 else apiV1)) \<in> set (basicRoutes @ fullRoutes (internalExplorer P) c)"
    using default_registered[OF assms] by (simp add: fullRoutes_def)
  show "last (''api/'' @ endpointName e) = CHR ''/''" using endpointName_slash[OF assms] by simp
  fix q r
  assume "(q, r) \<in> set (basicRoutes @ fullRoutes (internalExplorer P) c)" and p: "prefix q (''api/'' @ endpointName e @ t)"
  then consider v where "(q, r) \<in> set (defaultRoutes v)"
    | "(q, r) \<in> set (basicRoutes @ explorerRoutes (internalExplorer P) @ v1Routes @ v2Routes @ [(''socket.io/'', SocketIoR), (''websocket'', WebsocketR)])"
    by (auto simp: fullRoutes_def split: if_splits)
  then show "q = ''api/'' @ endpointName e \<or> length q < length (''api/'' @ endpointName e)"
  proof cases
    case 1
    then show ?thesis using default_routes[OF _ p assms] by blast
  next
    case 2
    then have "length q \<le> 4" by (rule other_routes_short_default[OF _ p assms])
    then show ?thesis using endpointName_slash[OF assms] by (cases "endpointName e") simp_all
  qed
qed (use routes_distinct in simp_all)

text \<open>
  A request whose path is that of an endpoint followed by a text without slashes is answered by the handler of the endpoint, which takes the text as its parameter: in the format of version 2
  when the path says so; without a version in the path in the format of version 1, on Ethereum type chains in that of version 2. No longer pattern takes the request away, whatever the text.
\<close>

theorem api_request_served:
  assumes "e \<noteq> IndexE" "CHR ''/'' \<notin> set t" "versioned \<or> c = ChainEthereumType \<longleftrightarrow> v = apiV2"
    and "Path_h r = snd (splitBinding binding) @ ''api/'' @ (if versioned then ''v2/'' else '''') @ endpointName e @ t"
  shows "serveApi P c binding r = Some (jsonHandler P (apiHandlerOf P e) v r) \<and> lastPart r = Some t"
proof
  have v: "v = (if versioned then apiV2 else if c = ChainEthereumType then apiV2 else apiV1)"
    using assms(3) by (cases v) (auto split: if_splits)
  show "serveApi P c binding r = Some (jsonHandler P (apiHandlerOf P e) v r)"
    using assms(4) muxMatch_v2[OF assms(1), of P c binding t] muxMatch_default[OF assms(1), of P c binding t]
    by (simp add: serveApi_def v)
  obtain n where n: "endpointName e = n @ ''/''"
    using endpointName_slash[OF assms(1)] by (metis append_butlast_last_id)
  let ?p = "snd (splitBinding binding) @ ''api/'' @ (if versioned then ''v2/'' else '''') @ n"
  have p: "Path_h r = ?p @ ''/'' @ t" using assms(4) n by simp
  show "lastPart r = Some t"
    by (rule lastPart_append[OF p assms(2)]) simp
qed

theorem api_request_served_witness:
  "\<forall>P :: (mem, Block list) public_env.
     let r = \<lparr> Method_h = ''GET'', Path_h = ''/api/v2/tx/abc'', Query_h = (\<lambda>_. ''''), Body_h = Inr '''', Form_h = Inr (\<lambda>_. '''') \<rparr> in
     serveApi P ChainBitcoinType '':9130'' r = Some (jsonHandler P (apiTx P) apiV2 r) \<and> lastPart r = Some ''abc''"
proof
  fix P :: "(mem, Block list) public_env"
  define r where "r = \<lparr> Method_h = ''GET'', Path_h = ''/api/v2/tx/abc'', Query_h = (\<lambda>_. ''''), Body_h = Inr '''', Form_h = Inr (\<lambda>_. '''') \<rparr>"
  have "serveApi P ChainBitcoinType '':9130'' r = Some (jsonHandler P (apiHandlerOf P TxE) apiV2 r) \<and> lastPart r = Some ''abc''"
    by (rule api_request_served[where versioned = True]) (simp_all add: r_def splitBinding_def endpointName_def)
  then show "let r = \<lparr> Method_h = ''GET'', Path_h = ''/api/v2/tx/abc'', Query_h = (\<lambda>_. ''''), Body_h = Inr '''', Form_h = Inr (\<lambda>_. '''') \<rparr> in
     serveApi P ChainBitcoinType '':9130'' r = Some (jsonHandler P (apiTx P) apiV2 r) \<and> lastPart r = Some ''abc''"
    by (simp add: r_def Let_def)
qed

section \<open>Page sizes\<close>

lemma computePaging_zero [simp]: "computePaging n page 0 = Inl (Panic ''integer divide by zero'')"
  by (simp add: computePaging_def)

lemma addressHistory_zero: "option \<ge> AccountDetailsTxidHistory \<Longrightarrow> addressHistory A addrDesc page 0 option f tot w \<noteq> (Inr x, w')"
  by (auto simp: addressHistory_def abind_eq_Inr_iff)

lemma GetAddress_zero: "option \<ge> AccountDetailsTxidHistory \<Longrightarrow> GetAddress A address page 0 option f w \<noteq> (Inr x, w')"
  unfolding GetAddress_def Let_def by (auto simp: abind_eq_Inr_iff addressHistory_zero)

lemma xpubHistory_zero: "option \<ge> AccountDetailsTxidHistory \<Longrightarrow> xpubHistory A srt f page 0 option data bestheight w \<noteq> (Inr x, w')"
  unfolding xpubHistory_def by (simp add: Let_def split_beta abind_eq_Inr_iff)

lemma GetXpubAddress_zero: "option \<ge> AccountDetailsTxidHistory \<Longrightarrow> GetXpubAddress os k A srt xpub page 0 option f g w \<noteq> (Inr x, w')"
  unfolding GetXpubAddress_def Let_def
  by (auto simp: abind_eq_Inr_iff xpubHistory_zero onWorker_def split: prod.splits)

lemma jsonHandler_200:
  assumes "jsonHandler P h v r w = (Inr a, w')" "Status_j a = 200"
  shows "\<exists>d. h r v w = (Inr (Some d, None), w')"
  using assms
  by (auto simp: jsonHandler_def jsonAnswer_def jsonError_def split: prod.splits sum.splits go_error.splits if_splits option.splits)

lemma returnedV1_value: "returnedV1 v f toV1 m w = (Inr (Some d, None), w') \<Longrightarrow> \<exists>x w1. m w = (Inr x, w1)"
  by (auto simp: returnedV1_def abind_eq_Inr_iff attempt_eq_Inr_iff)

lemma detail_history:
  assumes "details \<notin> {''basic'', ''tokens'', ''tokenBalances''}"
  shows "accountDetailsOf AccountDetailsTxidHistory details \<ge> AccountDetailsTxidHistory"
  using assms by (simp add: accountDetailsOf_def less_eq_AccountDetails_def)

text \<open>
  A request for the history of an address or extended key with a page size of 0 never gets it: the server bounds the size of a page only from above, the division by it panics, and the answer is an error.
\<close>

theorem zero_page_size_refused:
  assumes "Atoi (Query_h r ''pageSize'') = Some 0" and "Query_h r ''details'' \<notin> {''basic'', ''tokens'', ''tokenBalances''}"
    and "h = apiAddress P \<or> h = apiXpub P" and "jsonHandler P h v r w = (Inr a, w')"
  shows "Status_j a \<noteq> 200"
proof
  assume "Status_j a = 200"
  then obtain d where d: "h r v w = (Inr (Some d, None), w')" using jsonHandler_200[OF assms(4)] by blast
  obtain page gap f filterParam where q: "getAddressQueryParams r AccountDetailsTxidHistory txsInAPI =
      (page, 0, accountDetailsOf AccountDetailsTxidHistory (Query_h r ''details''), f, filterParam, gap)"
    using assms(1) by (simp add: getAddressQueryParams_def txsInAPI_def Let_def)
  note none = GetAddress_zero[OF detail_history[OF assms(2)]] GetXpubAddress_zero[OF detail_history[OF assms(2)]]
  show False
    using assms(3) d
    by (auto simp: none apiAddress_def apiXpub_def q failed_def GetAddress_p_def GetXpubAddress_p_def onWorker_def abind_eq_Inr_iff
        dest!: returnedV1_value split: option.splits if_splits prod.splits)
qed

section \<open>A server\<close>

definition plainInfo :: "(mem, Block list) info_env" where
  "plainInfo = \<lparr> GetChainInfo_n = throw (Errorf ''not connected''), GetMasternodesInfo_n = ret None, GetPeersInfo_n = ret None, dirSize = (\<lambda>_. Inr 0),
     GetVersionInfo = \<lparr> Version_vi = '''', GitCommit_vi = '''', BuildTime_vi = '''' \<rparr>, BlockbookAbout = '''' \<rparr>"

definition plainPublic :: "(mem, Block list) public_env" where
  "plainPublic = \<lparr> ws_p = plainWs, info_p = plainInfo, EstimateFee_n = (\<lambda>_. ret 1000), Findzcserial_n = ret, ReadFile = Inr, explorerURL = '''', debug = False,
     TOSLink = '''', errText = (\<lambda>_. ''error''), dataText = (\<lambda>_. ''''), pageText = (\<lambda>_. '''') \<rparr>"

definition getRequest :: "string \<Rightarrow> (string \<times> string) list \<Rightarrow> http_request" where
  "getRequest path q = \<lparr> Method_h = ''GET'', Path_h = path, Query_h = (\<lambda>k. case map_of q k of Some v \<Rightarrow> v | None \<Rightarrow> ''''),
     Body_h = Inr '''', Form_h = Inr (\<lambda>_. '''') \<rparr>"

definition pageDB :: "mem RocksDB" where
  "pageDB = apiDB\<lparr> chainParser := (chainParser apiDB)\<lparr> GetAddrDescFromAddress := (\<lambda>a. Inr [1, 2]) \<rparr> \<rparr>"

lemma zero_request:
  "lastPart (getRequest ''/api/v2/address/SkyrAddress'' [(''pageSize'', ''0'')]) = Some ''SkyrAddress''"
  "getAddressQueryParams (getRequest ''/api/v2/address/SkyrAddress'' [(''pageSize'', ''0'')]) AccountDetailsTxidHistory txsInAPI =
     (0, 0, AccountDetailsTxidHistory, searchFilter, '''', 0)"
  by (simp_all add: getRequest_def lastPart_def LastIndexByte_def getAddressQueryParams_def Atoi_def SetString_def digit_val_def AtoiOr0_def accountDetailsOf_def
      txsInAPI_def voutFilterOf_def tokensToReturnOf_def searchFilter_def)

lemma zero_address:
  "fst (GetAddress (api_p plainPublic) ''SkyrAddress'' 0 0 AccountDetailsTxidHistory searchFilter (sampleW pageDB)) = Inl (Panic ''integer divide by zero'')"
  by code_simp

theorem zero_page_size_refused_witness:
  "\<exists>a w'. jsonHandler plainPublic (apiAddress plainPublic) apiV2 (getRequest ''/api/v2/address/SkyrAddress'' [(''pageSize'', ''0'')]) (sampleW pageDB, []) = (Inr a, w') \<and>
     Status_j a = 500"
proof -
  let ?r = "getRequest ''/api/v2/address/SkyrAddress'' [(''pageSize'', ''0'')]"
  obtain w1 where "GetAddress (api_p plainPublic) ''SkyrAddress'' 0 0 AccountDetailsTxidHistory searchFilter (sampleW pageDB) = (Inl (Panic ''integer divide by zero''), w1)"
    using zero_address by (metis prod.collapse)
  then have a: "jsonHandler plainPublic (apiAddress plainPublic) apiV2 ?r (sampleW pageDB, []) = (Inr (jsonError ''Internal server error'' 500), (w1, []))"
    by (simp add: jsonHandler_def apiAddress_def zero_request returnedV1_def GetAddress_p_def onWorker_def attempt_def abind_def plainPublic_def)
  have "Status_j (jsonError ''Internal server error'' 500) \<noteq> 200"
    by (rule zero_page_size_refused[OF _ _ _ a]) (simp_all add: getRequest_def Atoi_def SetString_def digit_val_def)
  with a show ?thesis by (simp add: jsonError_def)
qed

section \<open>Redirects\<close>

lemma orElse_redirect:
  assumes "orElse m url n w = (Inr pr, w')" "Redirect pr = Some u"
    and "\<And>w. n w = (Inr pr, w') \<Longrightarrow> Tpl pr = noTpl \<and> Data_r pr = None \<and> Err_r pr = None"
  shows "Tpl pr = noTpl \<and> Data_r pr = None \<and> Err_r pr = None"
proof -
  from assms(1) obtain x v where x: "attempt m w = (Inr x, v)" "(case x of Inr x \<Rightarrow> redirectTo (url x) | Inl _ \<Rightarrow> n) v = (Inr pr, w')"
    by (auto simp: orElse_def abind_eq_Inr_iff)
  then show ?thesis using assms(2,3) by (cases x) (auto simp: redirectTo_def)
qed

lemma pageError_no_redirect: "pageError e w = (Inr pr, w') \<Longrightarrow> Redirect pr = None"
  by (auto simp: pageError_def)

lemma search_redirect:
  assumes "explorerSearch P r w = (Inr pr, w')" "Redirect pr = Some u"
  shows "Tpl pr = noTpl \<and> Data_r pr = None \<and> Err_r pr = None"
proof (cases "TrimSpace (Query_h r ''q'') = ''''")
  case True
  then show ?thesis using assms pageError_no_redirect by (fastforce simp: explorerSearch_def Let_def)
next
  case False
  show ?thesis
    using assms(1) unfolding explorerSearch_def Let_def if_P[OF False]
    apply (rule orElse_redirect[OF _ assms(2)])
    apply (erule orElse_redirect[OF _ assms(2)])
    apply (erule orElse_redirect[OF _ assms(2)])
    apply (erule orElse_redirect[OF _ assms(2)])
    apply (drule pageError_no_redirect)
    using assms(2) by simp
qed

lemma found_redirect:
  assumes "(case x of Inl _ \<Rightarrow> pageError e | Inr t \<Rightarrow> if t \<noteq> '''' then redirectTo (url t) else pageError e) v = (Inr pr, w')" "Redirect pr = Some u"
  shows "Tpl pr = noTpl" "Data_r pr = None" "Err_r pr = None"
  using assms by (cases x; auto simp: redirectTo_def pageError_def split: if_split_asm)+

lemma spending_redirect:
  assumes "explorerSpendingTx P r w = (Inr pr, w')" "Redirect pr = Some u"
  shows "Tpl pr = noTpl \<and> Data_r pr = None \<and> Err_r pr = None"
  using assms
  by (auto simp: explorerSpendingTx_def Let_def abind_eq_Inr_iff dest: pageError_no_redirect found_redirect split: if_split_asm option.split_asm)

text \<open>
  When a search finds something, or the transaction that spends an output is found, the redirect is written and then the handler panics: it stores the path into the data of
  the page, and a redirect has none. The panic is recovered, a second status is written, and the error page follows the redirect.
\<close>

theorem redirect_panics:
  assumes "h = explorerSearch P \<or> h = explorerSpendingTx P" and "h r w = (Inr pr, w')" and "Redirect pr = Some url" and "is_d (db_w (fst w')) \<noteq> None"
  shows "\<exists>d. htmlTemplateHandler P h r w = (Inr \<lparr> Statuses = [302, 500], Location_h = Some url, Executed = [(errorInternalTpl, d)] \<rparr>, w') \<and> Error_t d \<noteq> None"
proof -
  have "Tpl pr = noTpl \<and> Data_r pr = None \<and> Err_r pr = None"
    using assms(1-3) search_redirect spending_redirect by blast
  moreover obtain d where "newTemplateData P w' = (Inr d, w')"
    using assms(4) by (cases w') (auto simp: newTemplateData_def)
  ultimately have "htmlTemplateHandler P h r w = (Inr \<lparr> Statuses = [302, 500], Location_h = Some url,
      Executed = [(errorInternalTpl, d\<lparr> Error_t := Some (if debug P then ''Internal server error: recovered from panic '' @ errText P (Panic ''nil pointer dereference'')
        else ''Internal server error'', False) \<rparr>)] \<rparr>, w')"
    using assms(2,3)
    by (simp add: htmlTemplateHandler_def errorPage_def finishPage_def recovered_def newTemplateDataWithError_def startResponse_def render_def)
  then show ?thesis by fastforce
qed

definition searchEnv :: "(mem, Block list) public_env" where
  "searchEnv = plainPublic\<lparr> ws_p := plainWs\<lparr> api_env_ws := (plainEnv (\<lambda>_. zeroTx))\<lparr> GetBlockInfo_c := (\<lambda>hash. ret
     \<lparr> Hash_bh = hash, Prev_bh = '''', Next_bh = '''', Height_bh = 0, Confirmations_bh = 1, Size_bh = 100, Time_bh = 5, Version_ri = '''', MerkleRoot_ri = '''', Nonce_ri = '''',
        Bits_ri = '''', Difficulty_ri = '''', Txids_ri = [], SaplingRoot_ri = '''' \<rparr>) \<rparr> \<rparr> \<rparr>"

lemma search_finds_block:
  "case explorerSearch searchEnv (getRequest ''/search/'' [(''q'', ''00ab'')]) (sampleW pageDB, []) of
     (Inr pr, w') \<Rightarrow> Redirect pr = Some ''/block/00ab'' \<and> is_d (db_w (fst w')) \<noteq> None
   | _ \<Rightarrow> False"
  by code_simp

theorem redirect_panics_witness:
  "\<exists>res w'. htmlTemplateHandler searchEnv (explorerSearch searchEnv) (getRequest ''/search/'' [(''q'', ''00ab'')]) (sampleW pageDB, []) = (Inr res, w') \<and>
     Location_h res = Some ''/block/00ab'' \<and> Statuses res = [302, 500] \<and> map fst (Executed res) = [errorInternalTpl]"
proof -
  let ?r = "getRequest ''/search/'' [(''q'', ''00ab'')]" and ?w = "(sampleW pageDB, [])"
  obtain pr w' where "explorerSearch searchEnv ?r ?w = (Inr pr, w')" "Redirect pr = Some ''/block/00ab''" "is_d (db_w (fst w')) \<noteq> None"
    using search_finds_block by (cases "explorerSearch searchEnv ?r ?w") (auto split: sum.splits)
  from redirect_panics[of "explorerSearch searchEnv" searchEnv, OF _ this] show ?thesis by auto
qed

end
