(* ===== verification/Socket_IO.thy ===== *)
theory Socket_IO
  imports Websocket Node_RPC
begin

text \<open>
  The socket.io server (\<open>server/socketio.go\<close>), the older interface to the same API worker: requests, the history of addresses, and subscriptions.

  The package \<open>golang-socketio\<close> is a parameter: its state knows which channel joined which room, and a broadcast to a room gives a message to its members; the locale \<open>socketio_rooms\<close> says so.
  The decoding of JSON, floating-point numbers from text and the calls of the back end are parameters. Conversions of JSON numbers to integers are those of numbers that fit.

  The theorems: what an item of the history says about a transaction; a subscription is all or nothing, and subscribers get the transactions of their addresses and nobody else does; a history that starts
  before its first item panics and is answered.
\<close>

section \<open>Data\<close>

record addrOpts =
  Start_o :: int
  End_o :: int
  QueryMempoolOnly :: bool
  From_o :: int
  To_o :: int

datatype json_arg = ABool bool | ANumber rat | AString string | AOther

record addressHistoryIndexes =
  InputIndexes :: "int list"
  OutputIndexes :: "int list"

record txInputs =
  Txid_ti :: string
  OutputIndex_ti :: int
  Script_ti :: string
  Sequence_ti :: int64
  Address_ti :: "string option"
  Satoshis_ti :: int64

record txOutputs =
  Satoshis_to :: int64
  Script_to :: string
  Address_to :: "string option"

record resTx =
  Hex_rt :: string
  Height_rt :: int
  BlockTimestamp :: int64
  Version_rt :: int
  Hash_rt :: string
  Locktime_rt :: int
  Inputs_rt :: "txInputs list"
  InputSatoshis :: int64
  Outputs_rt :: "txOutputs list"
  OutputSatoshis :: int64
  FeeSatoshis :: int64

record addressHistoryItem =
  Addresses_hi :: "(string, addressHistoryIndexes) gomap"
  Satoshis_hi :: int64
  Confirmations_hi :: int
  Tx_hi :: resTx

text \<open>The fields of \<open>resultGetBlockHeader\<close> and \<open>resultGetInfo\<close> that are set.\<close>

record blockHeaderRes =
  Hash_bhr :: string
  Confirmations_bhr :: int
  Height_bhr :: int
  NextHash_bhr :: string

record infoRes =
  Blocks_ir :: int
  Testnet_ir :: bool
  Network_ir :: string
  Subversion_ir :: string
  CoinName_ir :: string
  About_ir :: string

datatype sioResult = AddressTxids "string list" | AddressHistory nat "addressHistoryItem list" | BlockHeaderR blockHeaderRes | Fee rat | InfoR infoRes
  | DetailedTransaction resTx | SendResult string | MempoolEntryR MempoolEntry | ResultError string

datatype sioData = HashData string | AddressTxid string string

record 'g gosocketio =
  Join :: "chan \<Rightarrow> string \<Rightarrow> 'g \<Rightarrow> 'g"
  BroadcastTo :: "string \<Rightarrow> string \<Rightarrow> sioData \<Rightarrow> 'g \<Rightarrow> nat \<times> 'g"

record ('s, 'c, 'g) sio_env =
  api_s :: "('s, 'c) api_env"
  mempool_s :: mempool_env
  EstimateSmartFee_s :: "int \<Rightarrow> bool \<Rightarrow> ('c, int) action"
  EstimateFee_s :: "int \<Rightarrow> ('c, int) action"
  SendRawTransaction_s :: "string \<Rightarrow> ('c, string) action"
  GetBlockHeader_s :: "string \<Rightarrow> ('c, BlockHeader) action"
  GetMempoolEntry_s :: "string \<Rightarrow> ('c, MempoolEntry) action"
  IsTestnet_s :: bool
  GetNetworkName :: string
  GetSubversion :: string
  GetCoinName :: string
  About_s :: string
  ParseFloat :: "string \<Rightarrow> go_error + rat"
  UnmarshalArgs :: "string \<Rightarrow> go_error + json_arg list"
  UnmarshalRaw :: "string \<Rightarrow> go_error + string list"
  UnmarshalStrings :: "string \<Rightarrow> go_error + string list"
  UnmarshalText :: "string \<Rightarrow> go_error + string"
  UnmarshalOpts :: "string \<Rightarrow> go_error + addrOpts"
  errText_s :: "go_error \<Rightarrow> string"
  rooms_s :: "'g gosocketio"

record ('s, 'c, 'g) SocketIoServer =
  worker_s :: "('s, 'c) Worker"
  server_s :: 'g

type_synonym ('s, 'c, 'a) worker_action = "(('s, 'c) Worker, 'a) action"

section \<open>Parameters of requests\<close>

definition unmarshalGetAddressRequest :: "('s, 'c, 'g) sio_env \<Rightarrow> string \<Rightarrow> go_error + (string list \<times> addrOpts)" where
  "unmarshalGetAddressRequest S params =
     rbind (UnmarshalRaw S params) (\<lambda>p.
     if length p \<noteq> 2 then Inl (Errorf ''incorrect number of parameters'')
     else rbind (UnmarshalStrings S (p ! 0)) (\<lambda>addr. rbind (UnmarshalOpts S (p ! 1)) (\<lambda>opts. Inr (addr, opts))))"

definition unmarshalArray :: "('s, 'c, 'g) sio_env \<Rightarrow> string \<Rightarrow> nat \<Rightarrow> go_error + json_arg list" where
  "unmarshalArray S params np =
     rbind (UnmarshalArgs S params) (\<lambda>p. if length p \<noteq> np then Inl (Errorf ''incorrect number of parameters'') else Inr p)"

definition unmarshalGetBlockHeader :: "('s, 'c, 'g) sio_env \<Rightarrow> string \<Rightarrow> go_error + (uint32 \<times> string)" where
  "unmarshalGetBlockHeader S params =
     rbind (unmarshalArray S params 1) (\<lambda>p.
     case p ! 0 of ANumber f \<Rightarrow> Inr (of_int (truncate_rat f), '''') | AString hash \<Rightarrow> Inr (0, hash) | _ \<Rightarrow> Inl (Errorf ''incorrect parameter''))"

definition unmarshalEstimateSmartFee :: "('s, 'c, 'g) sio_env \<Rightarrow> string \<Rightarrow> go_error + (int \<times> bool)" where
  "unmarshalEstimateSmartFee S params =
     rbind (unmarshalArray S params 2) (\<lambda>p.
     case p ! 0 of
       ANumber f \<Rightarrow> (case p ! 1 of ABool b \<Rightarrow> Inr (truncate_rat f, b) | _ \<Rightarrow> Inl (Errorf ''Invalid parameter conservative''))
     | _ \<Rightarrow> Inl (Errorf ''Invalid parameter blocks''))"

definition unmarshalEstimateFee :: "('s, 'c, 'g) sio_env \<Rightarrow> string \<Rightarrow> go_error + int" where
  "unmarshalEstimateFee S params =
     rbind (unmarshalArray S params 1) (\<lambda>p. case p ! 0 of ANumber f \<Rightarrow> Inr (truncate_rat f) | _ \<Rightarrow> Inl (Errorf ''Invalid parameter nblocks''))"

definition unmarshalStringParameter :: "('s, 'c, 'g) sio_env \<Rightarrow> string \<Rightarrow> go_error + string" where
  "unmarshalStringParameter S params =
     rbind (unmarshalArray S params 1) (\<lambda>p. case p ! 0 of AString t \<Rightarrow> Inr t | _ \<Rightarrow> Inl (Errorf ''incorrect parameter''))"

definition unmarshalGetDetailedTransaction :: "('s, 'c, 'g) sio_env \<Rightarrow> string \<Rightarrow> go_error + string" where
  "unmarshalGetDetailedTransaction S params =
     rbind (UnmarshalRaw S params) (\<lambda>p. if length p \<noteq> 1 then Inl (Errorf ''incorrect number of parameters'') else UnmarshalText S (p ! 0))"

section \<open>Requests\<close>

definition addressTxids_sio :: "('s, 'c, 'g) sio_env \<Rightarrow> addrOpts \<Rightarrow> ('s, 'c) Worker \<Rightarrow> string \<Rightarrow> string list \<Rightarrow> go_error + string list" where
  "addressTxids_sio S opts w address txids =
     (if \<not> QueryMempoolOnly opts then
        GetTransactions (pk (api_s S)) address (of_int (End_o opts)) (of_int (Start_o opts)) (\<lambda>txid height indexes txids. (None, txids @ [txid])) txids (db_w w)
      else rbind (GetTransactions_m (mempool_s S) address (mempool_w w)) (\<lambda>os. Inr (txids @ map Txid_op os)))"

definition getAddressTxids_sio :: "('s, 'c, 'g) sio_env \<Rightarrow> string list \<Rightarrow> addrOpts \<Rightarrow> ('s, 'c, string list) worker_action" where
  "getAddressTxids_sio S addr opts = query (\<lambda>w.
     rbind (rfold (addressTxids_sio S opts w) addr []) (\<lambda>txids. Inr (GetUniqueTxids txids)))"

definition txToResTx :: "TxA \<Rightarrow> resTx" where
  "txToResTx tx =
     \<lparr> Hex_rt = Hex_a tx, Height_rt = (if Confirmations_a tx = 0 then - 1 else uint (Blockheight tx)),
       BlockTimestamp = (if Confirmations_a tx = 0 then 0 else Blocktime_a tx), Version_rt = sint (Version_a tx), Hash_rt = Txid_a tx,
       Locktime_rt = uint (Locktime_a tx),
       Inputs_rt = map (\<lambda>vin. \<lparr> Txid_ti = Txid_va vin, OutputIndex_ti = uint (Vout_va vin), Script_ti = Hex_va vin, Sequence_ti = Sequence_va vin,
         Address_ti = (case Addresses_va vin of a # _ \<Rightarrow> Some a | [] \<Rightarrow> None), Satoshis_ti = AsInt64 (ValueSat_va vin) \<rparr>) (Vin_a tx),
       InputSatoshis = AsInt64 (ValueInSat tx),
       Outputs_rt = map (\<lambda>vout. \<lparr> Satoshis_to = AsInt64 (ValueSat_oa vout), Script_to = Hex_oa vout,
         Address_to = (case Addresses_oa vout of a # _ \<Rightarrow> Some a | [] \<Rightarrow> None) \<rparr>) (Vout_a tx),
       OutputSatoshis = AsInt64 (ValueOutSat tx), FeeSatoshis = AsInt64 (FeesSat tx) \<rparr>"

definition addressInSlice :: "string list \<Rightarrow> string list \<Rightarrow> string" where
  "addressInSlice s t = (case filter (\<lambda>sa. sa \<in> set t) s of [] \<Rightarrow> '''' | sa # _ \<Rightarrow> sa)"

definition indexesOf :: "(string, addressHistoryIndexes) gomap \<Rightarrow> string \<Rightarrow> addressHistoryIndexes" where
  "indexesOf ads a = (case map_of ads a of Some hi \<Rightarrow> hi | None \<Rightarrow> \<lparr> InputIndexes = [], OutputIndexes = [] \<rparr>)"

definition historyInput :: "string list \<Rightarrow> VinA \<Rightarrow> (string, addressHistoryIndexes) gomap \<times> int \<Rightarrow> (string, addressHistoryIndexes) gomap \<times> int" where
  "historyInput addr vin = (\<lambda>(ads, totalSat).
     let a = addressInSlice (Addresses_va vin) addr in
     if a \<noteq> '''' then
       let hi = indexesOf ads a in
       (AList.update a (hi\<lparr> InputIndexes := InputIndexes hi @ [int (N_va vin)] \<rparr>) ads,
        case ValueSat_va vin of None \<Rightarrow> totalSat | Some v \<Rightarrow> totalSat - v)
     else (ads, totalSat))"

definition historyOutput :: "string list \<Rightarrow> VoutA \<Rightarrow> (string, addressHistoryIndexes) gomap \<times> int \<Rightarrow> (string, addressHistoryIndexes) gomap \<times> int" where
  "historyOutput addr vout = (\<lambda>(ads, totalSat).
     let a = addressInSlice (Addresses_oa vout) addr in
     if a \<noteq> '''' then
       let hi = indexesOf ads a in
       (AList.update a (hi\<lparr> OutputIndexes := OutputIndexes hi @ [int (N_oa vout)] \<rparr>) ads,
        case ValueSat_oa vout of None \<Rightarrow> totalSat | Some v \<Rightarrow> totalSat + v)
     else (ads, totalSat))"

definition historyItem :: "string list \<Rightarrow> TxA \<Rightarrow> addressHistoryItem" where
  "historyItem addr tx =
     (let (ads, totalSat) = fold (historyOutput addr) (Vout_a tx) (fold (historyInput addr) (Vin_a tx) ([], 0)) in
      \<lparr> Addresses_hi = ads, Satoshis_hi = of_int totalSat, Confirmations_hi = uint (Confirmations_a tx), Tx_hi = txToResTx tx \<rparr>)"

definition getAddressHistory :: "('s, 'c, 'g) sio_env \<Rightarrow> string list \<Rightarrow> addrOpts \<Rightarrow> ('s, 'c, nat \<times> addressHistoryItem list) worker_action" where
  "getAddressHistory S addr opts =
     abind (getAddressTxids_sio S addr opts) (\<lambda>txids.
     let to = (if int (length txids) > To_o opts then To_o opts else int (length txids)) in
     abind (amap (\<lambda>txi.
       if txi < 0 then throw (Panic ''index out of range'')
       else abind (GetTransaction_w (api_s S) (txids ! nat txi) False False) (\<lambda>tx. ret (historyItem addr tx))) [From_o opts..to - 1]) (\<lambda>items.
     ret (length txids, items)))"

definition getBlockHeader_sio :: "('s, 'c, 'g) sio_env \<Rightarrow> uint32 \<Rightarrow> string \<Rightarrow> ('s, 'c, blockHeaderRes) worker_action" where
  "getBlockHeader_sio S height hash =
     (if hash = '''' then
        abind (queryDB (GetBlockHash (pk (api_s S)) height)) (\<lambda>hash.
        ret \<lparr> Hash_bhr = hash, Confirmations_bhr = 0, Height_bhr = 0, NextHash_bhr = '''' \<rparr>)
      else
        abind (callChain (GetBlockHeader_s S hash)) (\<lambda>bh.
        ret \<lparr> Hash_bhr = Hash_bh bh, Confirmations_bhr = Confirmations_bh bh, Height_bhr = uint (Height_bh bh), NextHash_bhr = Next_bh bh \<rparr>))"

definition feeResult :: "('s, 'c, 'g) sio_env \<Rightarrow> int \<Rightarrow> ('s, 'c, rat) worker_action" where
  "feeResult S fee = query (\<lambda>w. rbind (AmountToDecimalString_p (chainParser_w w) (Some fee)) (ParseFloat S))"

definition estimateSmartFee_sio :: "('s, 'c, 'g) sio_env \<Rightarrow> int \<Rightarrow> bool \<Rightarrow> ('s, 'c, rat) worker_action" where
  "estimateSmartFee_sio S blocks conservative = abind (callChain (EstimateSmartFee_s S blocks conservative)) (feeResult S)"

definition estimateFee_sio :: "('s, 'c, 'g) sio_env \<Rightarrow> int \<Rightarrow> ('s, 'c, rat) worker_action" where
  "estimateFee_sio S blocks = abind (callChain (EstimateFee_s S blocks)) (feeResult S)"

definition getInfo_sio :: "('s, 'c, 'g) sio_env \<Rightarrow> ('s, 'c, infoRes) worker_action" where
  "getInfo_sio S = query (\<lambda>w.
     case is_d (db_w w) of
       None \<Rightarrow> Inl (Panic ''nil pointer dereference'')
     | Some st \<Rightarrow>
         let (_, height, _) = GetSyncState st in
         Inr \<lparr> Blocks_ir = uint height, Testnet_ir = IsTestnet_s S, Network_ir = GetNetworkName S, Subversion_ir = GetSubversion S,
               CoinName_ir = GetCoinName S, About_ir = About_s S \<rparr>)"

definition onMessageHandlers :: "('s, 'c, 'g) sio_env \<Rightarrow> string \<Rightarrow> string \<Rightarrow> ('s, 'c, sioResult) worker_action" where
  "onMessageHandlers S method params =
     (if method = ''getAddressTxids'' then
        abind (query (\<lambda>_. unmarshalGetAddressRequest S params)) (\<lambda>(addr, opts).
        abind (getAddressTxids_sio S addr opts) (\<lambda>r. ret (AddressTxids r)))
      else if method = ''getAddressHistory'' then
        abind (query (\<lambda>_. unmarshalGetAddressRequest S params)) (\<lambda>(addr, opts).
        abind (getAddressHistory S addr opts) (\<lambda>(n, items). ret (AddressHistory n items)))
      else if method = ''getBlockHeader'' then
        abind (query (\<lambda>_. unmarshalGetBlockHeader S params)) (\<lambda>(height, hash).
        abind (getBlockHeader_sio S height hash) (\<lambda>r. ret (BlockHeaderR r)))
      else if method = ''estimateSmartFee'' then
        abind (query (\<lambda>_. unmarshalEstimateSmartFee S params)) (\<lambda>(blocks, conservative).
        abind (estimateSmartFee_sio S blocks conservative) (\<lambda>r. ret (Fee r)))
      else if method = ''estimateFee'' then
        abind (query (\<lambda>_. unmarshalEstimateFee S params)) (\<lambda>blocks.
        abind (estimateFee_sio S blocks) (\<lambda>r. ret (Fee r)))
      else if method = ''getInfo'' then abind (getInfo_sio S) (\<lambda>r. ret (InfoR r))
      else if method = ''getDetailedTransaction'' then
        abind (query (\<lambda>_. unmarshalGetDetailedTransaction S params)) (\<lambda>txid.
        abind (GetTransaction_w (api_s S) txid False False) (\<lambda>tx. ret (DetailedTransaction (txToResTx tx))))
      else if method = ''sendTransaction'' then
        abind (query (\<lambda>_. unmarshalStringParameter S params)) (\<lambda>tx.
        abind (callChain (SendRawTransaction_s S tx)) (\<lambda>txid. ret (SendResult txid)))
      else if method = ''getMempoolEntry'' then
        abind (query (\<lambda>_. unmarshalStringParameter S params)) (\<lambda>txid.
        abind (callChain (GetMempoolEntry_s S txid)) (\<lambda>e. ret (MempoolEntryR e)))
      else throw (Errorf ''unknown method''))"

text \<open>\<open>strings.Trim(s, "\"")\<close>: without the quotes at both ends.\<close>

definition trimQuotes :: "string \<Rightarrow> string" where
  "trimQuotes s = rev (dropWhile (\<lambda>c. c = CHR 0x22) (rev (dropWhile (\<lambda>c. c = CHR 0x22) s)))"

definition onMessage :: "('s, 'c, 'g) sio_env \<Rightarrow> (string \<Rightarrow> string) \<Rightarrow> ('s, 'c, sioResult) worker_action" where
  "onMessage S req w =
     (case onMessageHandlers S (trimQuotes (req ''method'')) (req ''params'') w of
        (Inr rv, w) \<Rightarrow> (Inr rv, w)
      | (Inl (Hang e), w) \<Rightarrow> (Inl (Hang e), w)
      | (Inl (Panic _), w) \<Rightarrow> (Inr (ResultError ''Internal error''), w)
      | (Inl e, w) \<Rightarrow> (Inr (ResultError (errText_s S e)), w))"

section \<open>Subscriptions\<close>

text \<open>\<open>strings.Index\<close> of a text, or nothing.\<close>

fun strIndex :: "string \<Rightarrow> string \<Rightarrow> nat option" where
  "strIndex [] sub = (if sub = [] then Some 0 else None)"
| "strIndex (c # s) sub = (if take (length sub) (c # s) = sub then Some 0 else map_option Suc (strIndex s sub))"

definition roomOf :: "AddressDescriptor \<Rightarrow> string" where
  "roomOf d = ''bitcoind/addresstxid-'' @ map (\<lambda>b. char_of (unat b)) d"

definition subscribedRooms :: "('s, 'c, 'g) sio_env \<Rightarrow> BlockChainParser \<Rightarrow> string \<Rightarrow> go_error + string list" where
  "subscribedRooms S p r =
     (case strIndex r [CHR 0x22, CHR '','', CHR ''[''] of
        Some (Suc i) \<Rightarrow>
          if take i (drop 1 r) \<noteq> ''bitcoind/addresstxid'' then Inr []
          else
            (case UnmarshalStrings S (drop (Suc i + 2) r) of
               Inl e \<Rightarrow> Inr []
             | Inr addrs \<Rightarrow>
                 (case rmap (GetAddrDescFromAddress p) addrs of
                    Inl e \<Rightarrow> if is_panic e then Inl e else Inr []
                  | Inr descs \<Rightarrow> Inr (map roomOf descs)))
      | _ \<Rightarrow>
          if length r < 2 then Inl (Panic ''slice bounds out of range'')
          else if take (length r - 2) (drop 1 r) \<noteq> ''bitcoind/hashblock'' then Inr []
          else Inr [''bitcoind/hashblock''])"

text \<open>A panic is recovered before any room was joined.\<close>

definition onSubscribe :: "('s, 'c, 'g) sio_env \<Rightarrow> chan \<Rightarrow> string \<Rightarrow> ('s, 'c, 'g) SocketIoServer \<Rightarrow> ('s, 'c, 'g) SocketIoServer" where
  "onSubscribe S c r s =
     (case subscribedRooms S (chainParser_w (worker_s s)) r of
        Inl _ \<Rightarrow> s
      | Inr rooms \<Rightarrow> s\<lparr> server_s := fold (Join (rooms_s S) c) rooms (server_s s) \<rparr>)"

definition OnNewBlockHash :: "('s, 'c, 'g) sio_env \<Rightarrow> string \<Rightarrow> ('s, 'c, 'g) SocketIoServer \<Rightarrow> ('s, 'c, 'g) SocketIoServer" where
  "OnNewBlockHash S hash s = s\<lparr> server_s := snd (BroadcastTo (rooms_s S) ''bitcoind/hashblock'' ''bitcoind/hashblock'' (HashData hash) (server_s s)) \<rparr>"

definition OnNewTxAddr_sio :: "('s, 'c, 'g) sio_env \<Rightarrow> string \<Rightarrow> AddressDescriptor \<Rightarrow> ('s, 'c, 'g) SocketIoServer \<Rightarrow> go_error + ('s, 'c, 'g) SocketIoServer" where
  "OnNewTxAddr_sio S txid desc s =
     (case GetAddressesFromAddrDesc (chainParser_w (worker_s s)) desc of
        Inl e \<Rightarrow> if is_panic e then Inl e else Inr s
      | Inr (addr, searchable) \<Rightarrow>
          if searchable \<and> length addr = 1
          then Inr (s\<lparr> server_s := snd (BroadcastTo (rooms_s S) (roomOf desc) ''bitcoind/addresstxid'' (AddressTxid (addr ! 0) txid) (server_s s)) \<rparr>)
          else Inr s)"

section \<open>Items of the history\<close>

lemma addressInSlice_own: "addressInSlice s t = a \<Longrightarrow> a \<noteq> '''' \<Longrightarrow> a \<in> set s \<and> a \<in> set t"
  by (auto simp: addressInSlice_def filter_eq_Cons_iff split: list.splits)

lemma indexesOf_update: "indexesOf (AList.update a hi ads) b = (if b = a then hi else indexesOf ads b)"
  by (simp add: indexesOf_def update_conv')

text \<open>The amount that the inputs or outputs of the given addresses carry, and the positions of those of one address.\<close>

definition ownSum :: "string list \<Rightarrow> (string list \<times> int option \<times> nat) list \<Rightarrow> int" where
  "ownSum addr vs = sum_list (map (\<lambda>(as, v, _). if addressInSlice as addr \<noteq> '''' then AsBigInt v else 0) vs)"

definition ownIndexes :: "string list \<Rightarrow> string \<Rightarrow> (string list \<times> int option \<times> nat) list \<Rightarrow> int list" where
  "ownIndexes addr a vs = map (\<lambda>v. int (snd (snd v))) (filter (\<lambda>v. a \<noteq> '''' \<and> addressInSlice (fst v) addr = a) vs)"

definition vinData :: "VinA \<Rightarrow> string list \<times> int option \<times> nat" where
  "vinData vin = (Addresses_va vin, ValueSat_va vin, N_va vin)"

definition voutData :: "VoutA \<Rightarrow> string list \<times> int option \<times> nat" where
  "voutData vout = (Addresses_oa vout, ValueSat_oa vout, N_oa vout)"

lemma own_simps [simp]:
  "ownSum addr [] = 0" "ownSum addr ((as, v, n) # vs) = (if addressInSlice as addr \<noteq> '''' then AsBigInt v else 0) + ownSum addr vs"
  "ownIndexes addr a [] = []"
  "ownIndexes addr a ((as, v, n) # vs) = (if a \<noteq> '''' \<and> addressInSlice as addr = a then int n # ownIndexes addr a vs else ownIndexes addr a vs)"
  by (simp_all add: ownSum_def ownIndexes_def)

lemma fold_historyInput:
  "fold (historyInput addr) vins (ads, t) = (ads', t') \<Longrightarrow>
     t' = t - ownSum addr (map vinData vins) \<and>
     (\<forall>a. indexesOf ads' a = (indexesOf ads a)\<lparr> InputIndexes := InputIndexes (indexesOf ads a) @ ownIndexes addr a (map vinData vins) \<rparr>)"
proof (induction vins arbitrary: ads t)
  case (Cons vin vins)
  obtain ads1 t1 where s: "historyInput addr vin (ads, t) = (ads1, t1)" by fastforce
  from Cons.IH[of ads1 t1] Cons.prems s
  have ih: "t' = t1 - ownSum addr (map vinData vins)"
     "\<And>a. indexesOf ads' a = (indexesOf ads1 a)\<lparr> InputIndexes := InputIndexes (indexesOf ads1 a) @ ownIndexes addr a (map vinData vins) \<rparr>" by auto
  from s show ?case
    unfolding ih by (auto simp: historyInput_def Let_def indexesOf_update vinData_def[of vin] AsBigInt_def split: if_splits option.splits)
qed simp

lemma fold_historyOutput:
  "fold (historyOutput addr) vouts (ads, t) = (ads', t') \<Longrightarrow>
     t' = t + ownSum addr (map voutData vouts) \<and>
     (\<forall>a. indexesOf ads' a = (indexesOf ads a)\<lparr> OutputIndexes := OutputIndexes (indexesOf ads a) @ ownIndexes addr a (map voutData vouts) \<rparr>)"
proof (induction vouts arbitrary: ads t)
  case (Cons vout vouts)
  obtain ads1 t1 where s: "historyOutput addr vout (ads, t) = (ads1, t1)" by fastforce
  from Cons.IH[of ads1 t1] Cons.prems s
  have ih: "t' = t1 + ownSum addr (map voutData vouts)"
     "\<And>a. indexesOf ads' a = (indexesOf ads1 a)\<lparr> OutputIndexes := OutputIndexes (indexesOf ads1 a) @ ownIndexes addr a (map voutData vouts) \<rparr>" by auto
  from s show ?case
    unfolding ih by (auto simp: historyOutput_def Let_def indexesOf_update voutData_def[of vout] AsBigInt_def split: if_splits option.splits)
qed simp

text \<open>
  An item of the history of some addresses says by how much the transaction changes what they own together: what it pays to them minus what it takes from them, as a 64-bit number; and for each of the
  addresses which inputs and outputs of the transaction are its own.
\<close>

theorem history_item_balance:
  "Satoshis_hi (historyItem addr tx) = of_int (ownSum addr (map voutData (Vout_a tx)) - ownSum addr (map vinData (Vin_a tx))) \<and>
   (\<forall>a. indexesOf (Addresses_hi (historyItem addr tx)) a =
      \<lparr> InputIndexes = ownIndexes addr a (map vinData (Vin_a tx)), OutputIndexes = ownIndexes addr a (map voutData (Vout_a tx)) \<rparr>)"
proof -
  obtain ads t where i: "fold (historyInput addr) (Vin_a tx) ([], 0) = (ads, t)" by fastforce
  obtain ads' t' where o: "fold (historyOutput addr) (Vout_a tx) (ads, t) = (ads', t')" by fastforce
  have "indexesOf [] a = \<lparr> InputIndexes = [], OutputIndexes = [] \<rparr>" for a by (simp add: indexesOf_def)
  moreover have "Satoshis_hi (historyItem addr tx) = of_int t'" "Addresses_hi (historyItem addr tx) = ads'"
    by (simp_all add: historyItem_def i o)
  ultimately show ?thesis using fold_historyInput[OF i] fold_historyOutput[OF o] by simp
qed

section \<open>Rooms\<close>

text \<open>What the server relies on: a channel is a member of the rooms that it joined, and a broadcast reaches exactly the members of a room.\<close>

locale socketio_rooms =
  fixes G :: "'g gosocketio" and member :: "'g \<Rightarrow> string \<Rightarrow> chan \<Rightarrow> bool" and inbox :: "'g \<Rightarrow> chan \<Rightarrow> (string \<times> sioData) list"
  assumes member_Join: "member (Join G c r g) r' c' \<longleftrightarrow> member g r' c' \<or> (r' = r \<and> c' = c)"
    and inbox_Join: "inbox (Join G c r g) = inbox g"
    and member_Broadcast: "member (snd (BroadcastTo G r ev d g)) = member g"
    and inbox_Broadcast: "inbox (snd (BroadcastTo G r ev d g)) c = inbox g c @ (if member g r c then [(ev, d)] else [])"
begin

lemma member_fold_Join: "member (fold (Join G c) rs g) r c' \<longleftrightarrow> member g r c' \<or> (r \<in> set rs \<and> c' = c)"
  by (induction rs arbitrary: g) (auto simp: member_Join)

lemma inbox_fold_Join: "inbox (fold (Join G c) rs g) = inbox g"
  by (induction rs arbitrary: g) (simp_all add: inbox_Join)

end

lemma roomOf_eq_iff [simp]: "roomOf d = roomOf d' \<longleftrightarrow> d = d'"
proof
  assume "roomOf d = roomOf d'"
  then have "map (of_char \<circ> (\<lambda>b. char_of (unat b))) d = (map (of_char \<circ> (\<lambda>b. char_of (unat b))) d' :: nat list)"
    by (simp add: roomOf_def flip: map_map)
  moreover have "of_char (char_of (unat (b :: byte)) :: char) = unat b" for b
    using unsigned_less[of b, where ?'a = nat] by simp
  ultimately have "map unat d = map unat d'" by (simp add: comp_def)
  moreover have "inj (unat :: byte \<Rightarrow> nat)" by (rule injI) (simp add: word_unat_eq_iff)
  ultimately show "d = d'" by (rule map_injective)
qed simp

text \<open>An instance of the package: the members of the rooms and the messages of the channels as lists.\<close>

definition listRooms :: "((string \<times> chan) list \<times> (chan \<times> string \<times> sioData) list) gosocketio" where
  "listRooms = \<lparr> Join = (\<lambda>c r (ms, out). ((r, c) # ms, out)),
     BroadcastTo = (\<lambda>r ev d (ms, out). let cs = remdups (map snd (filter (\<lambda>m. fst m = r) ms)) in (length cs, (ms, out @ map (\<lambda>c. (c, ev, d)) cs))) \<rparr>"

definition listMember :: "(string \<times> chan) list \<times> (chan \<times> string \<times> sioData) list \<Rightarrow> string \<Rightarrow> chan \<Rightarrow> bool" where
  "listMember g r c \<longleftrightarrow> (r, c) \<in> set (fst g)"

definition listInbox :: "(string \<times> chan) list \<times> (chan \<times> string \<times> sioData) list \<Rightarrow> chan \<Rightarrow> (string \<times> sioData) list" where
  "listInbox g c = map snd (filter (\<lambda>m. fst m = c) (snd g))"

lemma filter_distinct: "distinct xs \<Longrightarrow> filter (\<lambda>x. x = c) xs = (if c \<in> set xs then [c] else [])"
  by (induction xs) auto

interpretation listRooms: socketio_rooms listRooms listMember listInbox
proof
  fix c r ev d and g :: "(string \<times> chan) list \<times> (chan \<times> string \<times> sioData) list"
  show "listInbox (snd (BroadcastTo listRooms r ev d g)) c = listInbox g c @ (if listMember g r c then [(ev, d)] else [])"
    by (cases g) (auto simp: listRooms_def listInbox_def listMember_def Let_def filter_map comp_def filter_distinct image_iff)
qed (auto simp: listRooms_def listMember_def listInbox_def Let_def fun_eq_iff split: prod.splits)

section \<open>Subscribers are told\<close>

definition addressRequest :: "string \<Rightarrow> string" where
  "addressRequest rest = CHR 0x22 # ''bitcoind/addresstxid'' @ [CHR 0x22, CHR '','', CHR ''[''] @ rest"

lemma subscribedRooms_addresses:
  assumes "UnmarshalStrings S (CHR ''['' # rest) = Inr addrs"
  shows "subscribedRooms S p (addressRequest rest) =
    (case rmap (GetAddrDescFromAddress p) addrs of Inl e \<Rightarrow> if is_panic e then Inl e else Inr [] | Inr descs \<Rightarrow> Inr (map roomOf descs))"
  using assms by (simp add: subscribedRooms_def addressRequest_def)

text \<open>A subscription to several addresses is all or nothing.\<close>

lemma subscription_all_or_nothing:
  assumes "UnmarshalStrings S (CHR ''['' # rest) = Inr addrs" "rmap (GetAddrDescFromAddress (chainParser_w (worker_s s))) addrs = Inl e"
  shows "onSubscribe S c (addressRequest rest) s = s"
  using assms by (simp add: onSubscribe_def subscribedRooms_addresses)

text \<open>
  When a channel has subscribed to addresses and a transaction of one of them arrives, the channel gets its id once, with the name of the address, and so do exactly the channels that subscribed to the address before; a
  transaction of another address changes nothing for the channel, however similar the descriptors are.
\<close>

theorem subscriber_notified:
  assumes "socketio_rooms (rooms_s S) member inbox"
    and "UnmarshalStrings S (CHR ''['' # rest) = Inr addrs" and "rmap (GetAddrDescFromAddress (chainParser_w (worker_s s))) addrs = Inr ds"
    and "GetAddressesFromAddrDesc (chainParser_w (worker_s s)) d = Inr ([a], True)"
  shows "\<exists>s'. OnNewTxAddr_sio S txid d (onSubscribe S c (addressRequest rest) s) = Inr s' \<and>
    (\<forall>c'. inbox (server_s s') c' = inbox (server_s s) c' @
       (if member (server_s s) (roomOf d) c' \<or> (c' = c \<and> d \<in> set ds) then [(''bitcoind/addresstxid'', AddressTxid a txid)] else []))"
proof -
  let ?g = "fold (Join (rooms_s S) c) (map roomOf ds) (server_s s)"
  have s: "onSubscribe S c (addressRequest rest) s = s\<lparr> server_s := ?g \<rparr>"
    using assms(2,3) by (simp add: onSubscribe_def subscribedRooms_addresses)
  have m: "member ?g (roomOf d) c' \<longleftrightarrow> member (server_s s) (roomOf d) c' \<or> (c' = c \<and> d \<in> set ds)" for c'
    by (auto simp: socketio_rooms.member_fold_Join[OF assms(1)])
  show ?thesis
    unfolding s OnNewTxAddr_sio_def using assms(4)
    by (simp add: socketio_rooms.inbox_Broadcast[OF assms(1)] socketio_rooms.inbox_fold_Join[OF assms(1)] m)
qed

definition plainMempool :: mempool_env where
  "plainMempool = \<lparr> GetMempoolTransactions = Inr [], GetTransactionForMempool = (\<lambda>_. Inl ErrTxNotFound), parser_m = chainParser apiDB, AddrDescForOutpoint_m = None,
     mempool_env.OnNewTxAddr = False \<rparr>"

definition plainSio :: "(mem, Block list, (string \<times> chan) list \<times> (chan \<times> string \<times> sioData) list) sio_env" where
  "plainSio = \<lparr> api_s = plainEnv (\<lambda>_. zeroTx), mempool_s = plainMempool, EstimateSmartFee_s = (\<lambda>_ _. ret 1000), EstimateFee_s = (\<lambda>_. ret 1000),
     SendRawTransaction_s = ret, GetBlockHeader_s = (\<lambda>_. throw ErrBlockNotFound), GetMempoolEntry_s = (\<lambda>_. throw ErrTxNotFound), IsTestnet_s = False,
     GetNetworkName = '''', GetSubversion = '''', GetCoinName = ''Skyr'', About_s = '''', ParseFloat = (\<lambda>_. Inr 0), UnmarshalArgs = (\<lambda>_. Inr []),
     UnmarshalRaw = (\<lambda>_. Inr []), UnmarshalStrings = (\<lambda>t. Inr [t]), UnmarshalText = Inr, UnmarshalOpts = (\<lambda>_. Inl (Errorf ''json'')),
     errText_s = (\<lambda>_. ''error''), rooms_s = listRooms \<rparr>"

definition sioDB :: "mem RocksDB" where
  "sioDB = apiDB\<lparr> chainParser := (chainParser apiDB)\<lparr> GetAddrDescFromAddress := (\<lambda>a. Inr [1, 2]) \<rparr> \<rparr>"

theorem subscriber_notified_witness:
  "\<exists>s'. OnNewTxAddr_sio plainSio ''00ab'' [1, 2] (onSubscribe plainSio 7 (addressRequest '']'') \<lparr> worker_s = sampleW sioDB, server_s = ([], []) \<rparr>) = Inr s' \<and>
     listInbox (server_s s') 7 = [(''bitcoind/addresstxid'', AddressTxid ''0102'' ''00ab'')] \<and> listInbox (server_s s') 8 = []"
proof -
  let ?s = "\<lparr> worker_s = sampleW sioDB, server_s = ([], []) \<rparr>"
  have R: "socketio_rooms (rooms_s plainSio) listMember listInbox" using listRooms.socketio_rooms_axioms by (simp add: plainSio_def)
  have "GetAddressesFromAddrDesc (chainParser_w (worker_s ?s)) [1, 2] = Inr ([''0102''], True)"
    by (simp add: sioDB_def apiDB_def) code_simp
  moreover have "UnmarshalStrings plainSio (CHR ''['' # '']'') = Inr [''[]'']" by (simp add: plainSio_def)
  moreover have "rmap (GetAddrDescFromAddress (chainParser_w (worker_s ?s))) [''[]''] = Inr [[1, 2]]" by (simp add: sioDB_def)
  ultimately obtain s' where s': "OnNewTxAddr_sio plainSio ''00ab'' [1, 2] (onSubscribe plainSio 7 (addressRequest '']'') ?s) = Inr s'"
      "\<And>c'. listInbox (server_s s') c' = listInbox (server_s ?s) c' @
        (if listMember (server_s ?s) (roomOf [1, 2]) c' \<or> (c' = 7 \<and> [1, 2] \<in> set [[1, 2 :: byte]]) then [(''bitcoind/addresstxid'', AddressTxid ''0102'' ''00ab'')] else [])"
    using subscriber_notified[OF R] by blast
  moreover have "listInbox (server_s ?s) c' = []" "\<not> listMember (server_s ?s) r c'" for r c' by (simp_all add: listInbox_def listMember_def)
  ultimately show ?thesis by auto
qed

section \<open>Histories that begin too early\<close>

text \<open>A request for a history from a negative position panics when it has any item to show; the client is told of an internal error.\<close>

lemma history_from_negative:
  assumes "getAddressTxids_sio S addr opts w = (Inr txids, w)" "From_o opts < 0" "From_o opts < To_o opts"
  shows "getAddressHistory S addr opts w = (Inl (Panic ''index out of range''), w)"
proof -
  let ?to = "if int (length txids) > To_o opts then To_o opts else int (length txids)"
  have "[From_o opts..?to - 1] = From_o opts # [From_o opts + 1..?to - 1]"
    using assms(2,3) by (intro upto_rec1) auto
  then show ?thesis using assms(1,2) by (simp add: getAddressHistory_def Let_def)
qed

section \<open>Notifications of the public server\<close>

text \<open>\<open>OnNewBlock\<close> and \<open>OnNewTxAddr\<close> of \<open>server/public.go\<close>, which the synchronisation and the mempool call: both servers are told, socket.io first.\<close>

definition OnNewBlock_ps ::
    "('s, 'c, 'g) sio_env \<Rightarrow> string \<Rightarrow> uint32 \<Rightarrow> (('s, 'c, 'g) SocketIoServer \<times> ('s, 'c) WebsocketServer, unit) action" where
  "OnNewBlock_ps S hash height = (\<lambda>(s, w). case OnNewBlock hash height w of (r, w) \<Rightarrow> (r, OnNewBlockHash S hash s, w))"

definition OnNewTxAddr_ps ::
    "('s, 'c, 'g) sio_env \<Rightarrow> ('s, 'c) ws_env \<Rightarrow> Tx \<Rightarrow> AddressDescriptor \<Rightarrow> (('s, 'c, 'g) SocketIoServer \<times> ('s, 'c) WebsocketServer, unit) action" where
  "OnNewTxAddr_ps S V tx desc = (\<lambda>(s, w).
     case OnNewTxAddr_sio S (Txid_tx tx) desc s of
       Inl e \<Rightarrow> (Inl e, s, w)
     | Inr s \<Rightarrow> (case OnNewTxAddr V tx desc w of (r, w) \<Rightarrow> (r, s, w)))"

end
