(* ===== verification/Go_Json.thy ===== *)
theory Go_Json
  imports Node_RPC Mempool Api_Tx
begin

text \<open>
  JSON values, and how \<open>encoding/json\<close> reads them into the structures of the program: null and a missing key leave the zero value, the names of keys are compared without case (as ASCII text), and a value of another type is an
  error. A number is an integer literal or, with a fraction or an exponent, its text (\<open>JFraction\<close>), which is no integer for the package, whatever its value.
\<close>

datatype json = JNull | JBool bool | JNumber int | JFraction string | JString string | JArray "json list" | JObject "(string \<times> json) list"

definition typeError :: go_error where "typeError = Errorf ''json: cannot unmarshal''"

definition membersOf :: "json \<Rightarrow> go_error + (string \<times> json) list" where
  "membersOf j = (case j of JObject kvs \<Rightarrow> Inr kvs | JNull \<Rightarrow> Inr [] | _ \<Rightarrow> Inl typeError)"

definition valuesFor :: "string \<Rightarrow> (string \<times> json) list \<Rightarrow> json list" where
  "valuesFor k kvs = filter (\<lambda>v. v \<noteq> JNull) (map snd (filter (\<lambda>(k', _). ToLower k' = ToLower k) kvs))"

text \<open>A member of a structure: the values for its key are read one after the other.\<close>

definition jsonMember :: "(json \<Rightarrow> go_error + 'a) \<Rightarrow> 'a \<Rightarrow> string \<Rightarrow> (string \<times> json) list \<Rightarrow> go_error + 'a" where
  "jsonMember f z k kvs = rfold (\<lambda>v _. f v) (valuesFor k kvs) z"

definition readString :: "json \<Rightarrow> go_error + string" where
  "readString j = (case j of JString s \<Rightarrow> Inr s | JNull \<Rightarrow> Inr '''' | _ \<Rightarrow> Inl typeError)"

definition readInt :: "json \<Rightarrow> go_error + int" where
  "readInt j = (case j of JNumber n \<Rightarrow> if - (2 ^ 63) \<le> n \<and> n < 2 ^ 63 then Inr n else Inl typeError | JNull \<Rightarrow> Inr 0 | _ \<Rightarrow> Inl typeError)"

definition readList :: "(json \<Rightarrow> go_error + 'a) \<Rightarrow> json \<Rightarrow> go_error + 'a list" where
  "readList f j = (case j of JArray js \<Rightarrow> rmap f js | JNull \<Rightarrow> Inr [] | _ \<Rightarrow> Inl typeError)"

text \<open>A floating point number; only whether there is one is modelled, where the program does not use its value.\<close>

definition readFloat :: "json \<Rightarrow> go_error + unit" where
  "readFloat j = (case j of JNumber _ \<Rightarrow> Inr () | JFraction _ \<Rightarrow> Inr () | JNull \<Rightarrow> Inr () | _ \<Rightarrow> Inl typeError)"

definition readBool :: "json \<Rightarrow> go_error + bool" where
  "readBool j = (case j of JBool b \<Rightarrow> Inr b | JNull \<Rightarrow> Inr False | _ \<Rightarrow> Inl typeError)"

text \<open>An integer of a given type; a number outside its range is an error.\<close>

definition readBounded :: "int \<Rightarrow> int \<Rightarrow> json \<Rightarrow> go_error + int" where
  "readBounded l h j = (case j of JNumber n \<Rightarrow> if l \<le> n \<and> n < h then Inr n else Inl typeError | JNull \<Rightarrow> Inr 0 | _ \<Rightarrow> Inl typeError)"

definition readUint32 :: "json \<Rightarrow> go_error + uint32" where
  "readUint32 j = rbind (readBounded 0 (2 ^ 32) j) (\<lambda>n. Inr (of_int n))"

definition readInt32 :: "json \<Rightarrow> go_error + int32" where
  "readInt32 j = rbind (readBounded (- (2 ^ 31)) (2 ^ 31) j) (\<lambda>n. Inr (of_int n))"

definition readInt64 :: "json \<Rightarrow> go_error + int64" where
  "readInt64 j = rbind (readBounded (- (2 ^ 63)) (2 ^ 63) j) (\<lambda>n. Inr (of_int n))"

definition readUint64 :: "json \<Rightarrow> go_error + uint64" where
  "readUint64 j = rbind (readBounded 0 (2 ^ 64) j) (\<lambda>n. Inr (of_int n))"

abbreviation stringMember :: "string \<Rightarrow> (string \<times> json) list \<Rightarrow> go_error + string" where
  "stringMember \<equiv> jsonMember readString ''''"

lemmas read_defs = membersOf_def jsonMember_def valuesFor_def readString_def readList_def ToLower_def toLowerChar_def

end
