(* ===== verification/Eth_RPC.thy ===== *)
theory Eth_RPC
  imports Go_Json
begin

text \<open>
  The client of an ethereum node: \<open>bchain/coins/eth/ethrpc.go\<close>.

  The packages of go-ethereum (\<open>ethclient\<close>, \<open>rpc\<close>, \<open>common\<close>) are a parameter, the record \<open>ethclient\<close>: the calls are
  actions on a state of the node, and \<open>CallContext\<close> takes the name and the arguments of a method and gives the answer as a JSON value; read into a raw message (\<open>CallContext_raw\<close>) the answer may be empty, which is \<open>None\<close>. The reading of an answer into the structures of \<open>ethparser.go\<close> is modelled
  (\<open>Go_Json\<close>); a null in a list of logs is read as an empty log. Timeouts and logging are left out; \<open>time.Now\<close> is an action of the environment in nanoseconds.

  The client keeps the last header that it was told of, and the mempool of the coin, into which it puts new transactions and from which it removes the transactions of the blocks that it
  reads. The goroutines that handle notifications are operations of the client.
\<close>

section \<open>Answers of the node\<close>

record rpcHeader =
  Hash_rh :: string
  ParentHash :: string
  Difficulty_rh :: string
  Number_rh :: string
  Time_rh :: string
  Size_rh :: string
  Nonce_rh :: string

record rpcLogWithTxHash = rpcLog +
  Hash_lt :: string

record rpcEtcReceipt =
  GasUsed_er :: string
  Status_er :: int
  Logs_er :: "rpcLog list"

definition readHeader :: "json \<Rightarrow> go_error + rpcHeader" where
  "readHeader j =
     rbind (membersOf j) (\<lambda>o'.
     rbind (stringMember ''hash'' o') (\<lambda>h. rbind (stringMember ''parentHash'' o') (\<lambda>p.
     rbind (stringMember ''difficulty'' o') (\<lambda>d. rbind (stringMember ''number'' o') (\<lambda>n.
     rbind (stringMember ''timestamp'' o') (\<lambda>t. rbind (stringMember ''size'' o') (\<lambda>s.
     rbind (stringMember ''nonce'' o') (\<lambda>nc.
     Inr \<lparr> Hash_rh = h, ParentHash = p, Difficulty_rh = d, Number_rh = n, Time_rh = t, Size_rh = s, Nonce_rh = nc \<rparr>))))))))"

definition readTransaction :: "json \<Rightarrow> go_error + rpcTransaction" where
  "readTransaction j =
     rbind (membersOf j) (\<lambda>o'.
     rbind (stringMember ''nonce'' o') (\<lambda>nc. rbind (stringMember ''gasPrice'' o') (\<lambda>gp. rbind (stringMember ''gas'' o') (\<lambda>gl.
     rbind (stringMember ''to'' o') (\<lambda>t. rbind (stringMember ''value'' o') (\<lambda>v. rbind (stringMember ''input'' o') (\<lambda>i.
     rbind (stringMember ''hash'' o') (\<lambda>h. rbind (stringMember ''blockNumber'' o') (\<lambda>bn. rbind (stringMember ''blockHash'' o') (\<lambda>bh.
     rbind (stringMember ''from'' o') (\<lambda>fr. rbind (stringMember ''transactionIndex'' o') (\<lambda>ti.
     Inr \<lparr> AccountNonce = nc, GasPrice = gp, GasLimit = gl, To_rt = t, Value_rt = v, Payload = i, Hash_rt = h, BlockNumber = bn,
           BlockHash = bh, From_rt = fr, TransactionIndex = ti \<rparr>))))))))))))"

definition readLog :: "json \<Rightarrow> go_error + rpcLog" where
  "readLog j =
     rbind (membersOf j) (\<lambda>o'.
     rbind (stringMember ''address'' o') (\<lambda>a. rbind (jsonMember (readList readString) [] ''topics'' o') (\<lambda>t. rbind (stringMember ''data'' o') (\<lambda>d.
     Inr \<lparr> Address_rl = a, Topics = t, Data_rl = d \<rparr>))))"

definition readLogWithTxHash :: "json \<Rightarrow> go_error + rpcLogWithTxHash" where
  "readLogWithTxHash j =
     rbind (readLog j) (\<lambda>l. rbind (membersOf j) (\<lambda>o'. rbind (stringMember ''transactionHash'' o') (\<lambda>h.
     Inr (rpcLog.extend l \<lparr> Hash_lt = h \<rparr>))))"

definition readReceipt :: "json \<Rightarrow> go_error + rpcReceipt" where
  "readReceipt j =
     rbind (membersOf j) (\<lambda>o'.
     rbind (stringMember ''gasUsed'' o') (\<lambda>g. rbind (stringMember ''status'' o') (\<lambda>s. rbind (jsonMember (readList readLog) [] ''logs'' o') (\<lambda>l.
     Inr \<lparr> GasUsed = g, Status_rr = s, Logs = l \<rparr>))))"

definition readEtcReceipt :: "json \<Rightarrow> go_error + rpcEtcReceipt" where
  "readEtcReceipt j =
     rbind (membersOf j) (\<lambda>o'.
     rbind (stringMember ''gasUsed'' o') (\<lambda>g. rbind (jsonMember readInt 0 ''status'' o') (\<lambda>s. rbind (jsonMember (readList readLog) [] ''logs'' o') (\<lambda>l.
     Inr \<lparr> GasUsed_er = g, Status_er = s, Logs_er = l \<rparr>))))"

definition readBlockTransactions :: "json \<Rightarrow> go_error + rpcTransaction list" where
  "readBlockTransactions j = rbind (membersOf j) (jsonMember (readList readTransaction) [] ''transactions'')"

definition readBlockTxids :: "json \<Rightarrow> go_error + string list" where
  "readBlockTxids j = rbind (membersOf j) (jsonMember (readList readString) [] ''transactions'')"

text \<open>\<open>json.Marshal\<close> of a complete transaction. A nil slice of logs is written as null, an empty one as an empty array; both are \<open>[]\<close> here, written as an array.\<close>

definition writeTransaction :: "rpcTransaction \<Rightarrow> json" where
  "writeTransaction t = JObject ([(''nonce'', JString (AccountNonce t)), (''gasPrice'', JString (GasPrice t)), (''gas'', JString (GasLimit t)),
     (''to'', JString (To_rt t)), (''value'', JString (Value_rt t)), (''input'', JString (Payload t)), (''hash'', JString (Hash_rt t)),
     (''blockNumber'', JString (BlockNumber t))] @ (if BlockHash t = '''' then [] else [(''blockHash'', JString (BlockHash t))]) @
     [(''from'', JString (From_rt t)), (''transactionIndex'', JString (TransactionIndex t))])"

definition writeLog :: "rpcLog \<Rightarrow> json" where
  "writeLog l = JObject [(''address'', JString (Address_rl l)), (''topics'', JArray (map JString (Topics l))), (''data'', JString (Data_rl l))]"

definition writeReceipt :: "rpcReceipt \<Rightarrow> json" where
  "writeReceipt r = JObject [(''gasUsed'', JString (GasUsed r)), (''status'', JString (Status_rr r)), (''logs'', JArray (map writeLog (Logs r)))]"

definition writeCompleteTransaction :: "completeTransaction \<Rightarrow> json" where
  "writeCompleteTransaction c = JObject ((''tx'', writeTransaction (Tx_ct c)) #
     (case Receipt_ct c of Some r \<Rightarrow> [(''receipt'', writeReceipt r)] | None \<Rightarrow> []))"

section \<open>The client\<close>

text \<open>\<open>Header\<close>: the fields of a header of go-ethereum that the client reads; \<open>Hash\<close> is its hash as a string.\<close>

record Header =
  Number_hd :: int
  Hash_hd :: string
  Difficulty_hd :: int

record CallMsg =
  From_cm :: bytes
  To_cm :: "bytes option"
  Data_cm :: bytes

record 'n ethclient =
  NetworkID :: "('n, int) action"
  HeaderByNumber :: "int option \<Rightarrow> ('n, Header) action"
  NotFound :: go_error
  CallContext :: "string \<Rightarrow> json list \<Rightarrow> ('n, json) action"
  CallContext_raw :: "string \<Rightarrow> json list \<Rightarrow> ('n, json option) action"
  EthSubscribe :: "string \<Rightarrow> ('n, unit) action"
  SuggestGasPrice :: "('n, int option) action"
  EstimateGas :: "CallMsg \<Rightarrow> ('n, uint64) action"
  BalanceAt :: "bytes \<Rightarrow> ('n, int option) action"
  NonceAt :: "bytes \<Rightarrow> ('n, uint64) action"
  HexToHash :: "string \<Rightarrow> string"
  HexToAddress :: "string \<Rightarrow> bytes"
  FromHex :: "string \<Rightarrow> bytes"
  BytesToAddress :: "bytes \<Rightarrow> bytes"
  hexutil_e :: hexutil
  Now :: "'n \<Rightarrow> int \<times> 'n"

record Configuration_eth =
  CoinName :: string
  CoinShortcut_e :: string
  RPCURL :: string
  RPCTimeout :: int
  BlockAddressesToKeep_e :: int
  MempoolTxTimeoutHours :: int
  QueryBackendOnMempoolResync :: bool

datatype NotificationType = NotificationUnknown | NotificationNewBlock | NotificationNewTx

text \<open>\<open>pushed\<close>: the calls of the push handler. \<open>onNewTxAddr_e\<close>: whether \<open>Mempool.OnNewTxAddr\<close> is set. A subscription is \<open>True\<close> when it is not nil.\<close>

record 'n EthereumRPC =
  node_e :: 'n
  Parser_e :: BlockChainParser
  Mempool_e :: "MempoolEthereumType option"
  mempoolInitialized :: bool
  bestHeader :: "Header option"
  bestHeaderTime :: int
  newBlockSubscription :: bool
  newTxSubscription :: bool
  ChainConfig_e :: Configuration_eth
  isETC :: bool
  Testnet_e :: bool
  Network_e :: string
  onNewTxAddr_e :: bool
  pushed :: "NotificationType list"
  closed_e :: bool

text \<open>The zero \<open>time.Time\<close>, the first of January of year 1.\<close>

definition zeroTime :: int where "zeroTime = - 62135596800 * 10 ^ 9"

definition NewEthereumRPC ::
    "parser_packages \<Rightarrow> hexutil \<Rightarrow> eth_protobuf \<Rightarrow> go_error + Configuration_eth \<Rightarrow> (string \<Rightarrow> go_error + 'n) \<Rightarrow> go_error + 'n EthereumRPC" where
  "NewEthereumRPC P H pb config dial =
     rbind (Annotatef ''Invalid configuration file'' config) (\<lambda>c.
     let c = (if BlockAddressesToKeep_e c < 100 then c\<lparr> BlockAddressesToKeep_e := 100 \<rparr> else c) in
     rbind (dial (RPCURL c)) (\<lambda>rc.
     Inr \<lparr> node_e = rc, Parser_e = NewEthereumParser P H pb (BlockAddressesToKeep_e c), Mempool_e = None, mempoolInitialized = False,
           bestHeader = None, bestHeaderTime = zeroTime, newBlockSubscription = False, newTxSubscription = False, ChainConfig_e = c,
           isETC = (CoinName c = ''Ethereum Classic''), Testnet_e = False, Network_e = '''', onNewTxAddr_e = False, pushed = [],
           closed_e = False \<rparr>))"

definition onNode :: "('n, 'a) action \<Rightarrow> ('n EthereumRPC, 'a) action" where
  "onNode f b = (case f (node_e b) of (r, n) \<Rightarrow> (r, b\<lparr> node_e := n \<rparr>))"

definition now_e :: "'n ethclient \<Rightarrow> ('n EthereumRPC, int) action" where
  "now_e E = onNode (\<lambda>n. case Now E n of (t, n) \<Rightarrow> (Inr t, n))"

definition change :: "('w \<Rightarrow> 'w) \<Rightarrow> ('w, unit) action" where
  "change f w = (Inr (), f w)"

definition Initialize :: "'n ethclient \<Rightarrow> ('n EthereumRPC, unit) action" where
  "Initialize E =
     abind (onNode (NetworkID E)) (\<lambda>id.
     let net = (ucast (BigInt_Uint64 id) :: uint32) in
     if net = 1 then change (\<lambda>b. b\<lparr> Testnet_e := False, Network_e := ''livenet'' \<rparr>)
     else if net = 3 then change (\<lambda>b. b\<lparr> Testnet_e := True, Network_e := ''testnet'' \<rparr>)
     else throw (Errorf ''Unknown network id''))"

section \<open>Blocks\<close>

definition expireHeader :: "'n ethclient \<Rightarrow> ('n EthereumRPC, unit) action" where
  "expireHeader E b =
     (if isETC b then
        abind (now_e E) (\<lambda>t. change (\<lambda>b. if bestHeaderTime b + 10 ^ 9 < t then b\<lparr> bestHeader := None \<rparr> else b)) b
      else ret () b)"

definition cachedHeader :: "'n ethclient \<Rightarrow> ('n EthereumRPC, Header) action" where
  "cachedHeader E b =
     (case bestHeader b of
        Some h \<Rightarrow> ret h b
      | None \<Rightarrow>
          abind (onNode (HeaderByNumber E None)) (\<lambda>h.
          abind (now_e E) (\<lambda>t.
          abind (change (\<lambda>b. b\<lparr> bestHeader := Some h, bestHeaderTime := t \<rparr>)) (\<lambda>_.
          ret h))) b)"

definition getBestHeader :: "'n ethclient \<Rightarrow> ('n EthereumRPC, Header) action" where
  "getBestHeader E = abind (expireHeader E) (\<lambda>_. cachedHeader E)"

definition GetBestBlockHash_eth :: "'n ethclient \<Rightarrow> ('n EthereumRPC, string) action" where
  "GetBestBlockHash_eth E = abind (getBestHeader E) (\<lambda>h. ret (Hash_hd h))"

definition GetBestBlockHeight_eth :: "'n ethclient \<Rightarrow> ('n EthereumRPC, uint32) action" where
  "GetBestBlockHeight_eth E = abind (getBestHeader E) (\<lambda>h. ret (ucast (BigInt_Uint64 (Number_hd h))))"

definition GetBlockHash_eth :: "'n ethclient \<Rightarrow> uint32 \<Rightarrow> ('n EthereumRPC, string) action" where
  "GetBlockHash_eth E height b =
     (case onNode (HeaderByNumber E (Some (uint height))) b of
        (Inl e, b) \<Rightarrow> (if e = NotFound E then Inl ErrBlockNotFound else Annotatef ''height'' (Inl e), b)
      | (Inr h, b) \<Rightarrow> (Inr (Hash_hd h), b))"

definition computeConfirmations :: "'n ethclient \<Rightarrow> uint64 \<Rightarrow> ('n EthereumRPC, uint32) action" where
  "computeConfirmations E n =
     abind (getBestHeader E) (\<lambda>bh.
     let bn = BigInt_Uint64 (Number_hd bh) in
     ret (ucast (bn - n + 1)))"

definition ethHeaderToBlockHeader :: "'n ethclient \<Rightarrow> rpcHeader \<Rightarrow> ('n EthereumRPC, BlockHeader) action" where
  "ethHeaderToBlockHeader E h =
     abind (query (\<lambda>_. ethNumber (Number_rh h))) (\<lambda>height.
     abind (computeConfirmations E (ucast height)) (\<lambda>c.
     abind (query (\<lambda>_. ethNumber (Time_rh h))) (\<lambda>time.
     abind (query (\<lambda>_. ethNumber (Size_rh h))) (\<lambda>sz.
     ret \<lparr> Hash_bh = Hash_rh h, Prev_bh = ParentHash h, Next_bh = '''', Height_bh = ucast height, Confirmations_bh = uint c,
           Size_bh = sint sz, Time_bh = time \<rparr>))))"

definition getBlockRaw_eth :: "'n ethclient \<Rightarrow> string \<Rightarrow> uint32 \<Rightarrow> bool \<Rightarrow> ('n EthereumRPC, json) action" where
  "getBlockRaw_eth E hash height fullTxs =
     abind (annotated ''hash, height'' (onNode
       (if hash \<noteq> '''' then
          if hash = ''pending'' then CallContext_raw E ''eth_getBlockByNumber'' [JString hash, JBool fullTxs]
          else CallContext_raw E ''eth_getBlockByHash'' [JString (HexToHash E hash), JBool fullTxs]
        else CallContext_raw E ''eth_getBlockByNumber'' [JString (''0x'' @ hex_digits (unat height)), JBool fullTxs]))) (\<lambda>raw.
     case raw of None \<Rightarrow> throw ErrBlockNotFound | Some j \<Rightarrow> ret j)"

definition GetBlockHeader_eth :: "'n ethclient \<Rightarrow> string \<Rightarrow> ('n EthereumRPC, BlockHeader) action" where
  "GetBlockHeader_eth E hash =
     abind (getBlockRaw_eth E hash 0 False) (\<lambda>raw.
     abind (query (\<lambda>_. Annotatef ''hash'' (readHeader raw))) (ethHeaderToBlockHeader E))"

definition getERC20EventsForBlock :: "'n ethclient \<Rightarrow> string \<Rightarrow> ('n EthereumRPC, (string, rpcLog list) gomap) action" where
  "getERC20EventsForBlock E blockNumber =
     abind (annotated ''blockNumber'' (abind (onNode (CallContext E ''eth_getLogs'' [JObject [(''fromBlock'', JString blockNumber),
         (''toBlock'', JString blockNumber), (''topics'', JArray [JString erc20TransferEventSignature])]]))
       (\<lambda>j. query (\<lambda>_. readList readLogWithTxHash j)))) (\<lambda>logs.
     ret (fold (\<lambda>l r. AList.update (Hash_lt l)
       ((case map_of r (Hash_lt l) of Some ls \<Rightarrow> ls | None \<Rightarrow> []) @ [rpcLog.truncate l]) r) logs []))"

definition removeFromMempool :: "string \<Rightarrow> ('n EthereumRPC, unit) action" where
  "removeFromMempool txid b =
     (if mempoolInitialized b then
        (case Mempool_e b of
           Some m \<Rightarrow> (Inr (), b\<lparr> Mempool_e := Some (RemoveTransactionFromMempool txid m) \<rparr>)
         | None \<Rightarrow> (Inl (Panic ''nil pointer dereference''), b))
      else (Inr (), b))"

definition blockTx :: "'n ethclient \<Rightarrow> (string, rpcLog list) gomap \<Rightarrow> BlockHeader \<Rightarrow> rpcTransaction \<Rightarrow> ('n EthereumRPC, Tx) action" where
  "blockTx E logs bbh tx =
     abind (query (\<lambda>_. Annotatef ''hash, height, txid'' (ethTxToTx (hexutil_e E) tx
       (Some \<lparr> GasUsed = '''', Status_rr = '''', Logs = (case map_of logs (Hash_rt tx) of Some ls \<Rightarrow> ls | None \<Rightarrow> []) \<rparr>)
       (Time_bh bbh) (of_int (Confirmations_bh bbh))))) (\<lambda>btx.
     abind (removeFromMempool (Hash_rt tx)) (\<lambda>_. ret btx))"

definition GetBlock_eth :: "'n ethclient \<Rightarrow> string \<Rightarrow> uint32 \<Rightarrow> ('n EthereumRPC, Block) action" where
  "GetBlock_eth E hash height =
     abind (getBlockRaw_eth E hash height True) (\<lambda>raw.
     abind (query (\<lambda>_. Annotatef ''hash, height'' (readHeader raw))) (\<lambda>head.
     abind (query (\<lambda>_. Annotatef ''hash, height'' (readBlockTransactions raw))) (\<lambda>body.
     abind (annotated ''hash, height'' (ethHeaderToBlockHeader E head)) (\<lambda>bbh.
     abind (getERC20EventsForBlock E (Number_rh head)) (\<lambda>logs.
     abind (amap (blockTx E logs bbh) body) (\<lambda>btxs.
     ret (BlockHeader.extend bbh \<lparr> Txs_blk = btxs \<rparr>)))))))"

definition GetBlockInfo_eth :: "'n ethclient \<Rightarrow> string \<Rightarrow> ('n EthereumRPC, BlockInfo_rpc) action" where
  "GetBlockInfo_eth E hash =
     abind (getBlockRaw_eth E hash 0 False) (\<lambda>raw.
     abind (query (\<lambda>_. Annotatef ''hash'' (readHeader raw))) (\<lambda>head.
     abind (query (\<lambda>_. readBlockTxids raw)) (\<lambda>txs.
     abind (ethHeaderToBlockHeader E head) (\<lambda>bch.
     ret (BlockHeader.extend bch \<lparr> Version_ri = '''', MerkleRoot_ri = '''', Nonce_ri = Nonce_rh head, Bits_ri = '''',
       Difficulty_ri = Difficulty_rh head, Txids_ri = txs, SaplingRoot_ri = '''' \<rparr>)))))"

definition GetChainInfo_eth :: "'n ethclient \<Rightarrow> ('n EthereumRPC, ChainInfo) action" where
  "GetChainInfo_eth E =
     abind (onNode (NetworkID E)) (\<lambda>id.
     abind (getBestHeader E) (\<lambda>h.
     abind (abind (onNode (CallContext E ''web3_clientVersion'' [])) (\<lambda>j. query (\<lambda>_. readString j))) (\<lambda>ver.
     abind (abind (onNode (CallContext E ''eth_protocolVersion'' [])) (\<lambda>j. query (\<lambda>_. readString j))) (\<lambda>protocol.
     let idi = sint (BigInt_Uint64 id) in
     ret \<lparr> Chain_in = (if idi = 1 then ''mainnet'' else ''testnet '' @ BigInt_String idi), Blocks_in = sint (of_int (Number_hd h) :: int64),
           Headers_in = 0, Bestblockhash_in = Hash_hd h, Difficulty_in = BigInt_String (Difficulty_hd h), SizeOnDisk_in = 0, Version_in = ver,
           Subversion_in = '''', ProtocolVersion_in = protocol, Timeoffset_in = 0, Warnings_in = '''', TransparentSupply = '''',
           ShieldSupply = '''', MoneySupply = '''', MasternodeCount = 0, ConnectionCount = 0, NextSuperBlock = 0 \<rparr>))))"

section \<open>Transactions\<close>

text \<open>The receipt of a mined transaction; the node of Ethereum Classic may send the status as a number.\<close>

definition etcReceiptOf :: "'n ethclient \<Rightarrow> string \<Rightarrow> ('n EthereumRPC, rpcReceipt) action" where
  "etcReceiptOf E hash =
     abind (annotated ''txid'' (onNode (CallContext_raw E ''eth_getTransactionReceipt'' [JString hash]))) (\<lambda>raw.
     case raw of
       None \<Rightarrow> throw (Errorf ''unmarshal receipt'')
     | Some j \<Rightarrow>
         (case readEtcReceipt j of
            Inr r \<Rightarrow> ret \<lparr> GasUsed = GasUsed_er r, Status_rr = (if Status_er r = 0 then ''0x0'' else ''0x1''), Logs = Logs_er r \<rparr>
          | Inl _ \<Rightarrow> query (\<lambda>_. Annotatef ''unmarshal receipt'' (readReceipt j))))"

definition receiptOf :: "'n ethclient \<Rightarrow> string \<Rightarrow> ('n EthereumRPC, rpcReceipt) action" where
  "receiptOf E hash b =
     (if isETC b then etcReceiptOf E hash b
      else annotated ''txid'' (abind (onNode (CallContext E ''eth_getTransactionReceipt'' [JString hash])) (\<lambda>j. query (\<lambda>_. readReceipt j))) b)"

definition blockTimeOf :: "json \<Rightarrow> go_error + int64" where
  "blockTimeOf raw = rbind (Annotatef ''hash'' (rbind (membersOf raw) (stringMember ''timestamp''))) (\<lambda>t. Annotatef ''txid'' (ethNumber t))"

definition minedTx :: "'n ethclient \<Rightarrow> string \<Rightarrow> string \<Rightarrow> rpcTransaction \<Rightarrow> ('n EthereumRPC, Tx) action" where
  "minedTx E hash txid tx =
     abind (getBlockRaw_eth E (BlockHash tx) 0 False) (\<lambda>raw.
     abind (query (\<lambda>_. blockTimeOf raw)) (\<lambda>time.
     abind (receiptOf E hash) (\<lambda>receipt.
     abind (query (\<lambda>_. Annotatef ''txid'' (ethNumber (BlockNumber tx)))) (\<lambda>n.
     abind (annotated ''txid'' (computeConfirmations E (ucast n))) (\<lambda>confirmations.
     abind (query (\<lambda>_. Annotatef ''txid'' (ethTxToTx (hexutil_e E) tx (Some receipt) time confirmations))) (\<lambda>btx.
     abind (removeFromMempool txid) (\<lambda>_. ret btx)))))))"

definition GetTransaction_eth :: "'n ethclient \<Rightarrow> string \<Rightarrow> ('n EthereumRPC, Tx) action" where
  "GetTransaction_eth E txid =
     (let hash = HexToHash E txid in
      abind (onNode (CallContext E ''eth_getTransactionByHash'' [JString hash])) (\<lambda>j.
      if j = JNull then abind (removeFromMempool txid) (\<lambda>_. throw ErrTxNotFound)
      else
        abind (query (\<lambda>_. readTransaction j)) (\<lambda>tx.
        if BlockNumber tx = '''' then query (\<lambda>_. Annotatef ''txid'' (ethTxToTx (hexutil_e E) tx None 0 0))
        else minedTx E hash txid tx)))"

definition GetTransactionForMempool_eth :: "'n ethclient \<Rightarrow> string \<Rightarrow> ('n EthereumRPC, Tx) action" where
  "GetTransactionForMempool_eth E txid = GetTransaction_eth E txid"

definition GetTransactionSpecific_eth :: "'n ethclient \<Rightarrow> Tx \<Rightarrow> ('n EthereumRPC, json) action" where
  "GetTransactionSpecific_eth E tx =
     (case CoinSpecificData tx of
        CompleteTransaction csd \<Rightarrow> ret (writeCompleteTransaction csd)
      | _ \<Rightarrow>
          abind (GetTransaction_eth E (Txid_tx tx)) (\<lambda>ntx.
          case CoinSpecificData ntx of
            CompleteTransaction csd \<Rightarrow> ret (writeCompleteTransaction csd)
          | _ \<Rightarrow> throw (Errorf ''Cannot get CoinSpecificData'')))"

definition SendRawTransaction_eth :: "'n ethclient \<Rightarrow> string \<Rightarrow> ('n EthereumRPC, string) action" where
  "SendRawTransaction_eth E hex =
     abind (onNode (CallContext_raw E ''eth_sendRawTransaction'' [JString hex])) (\<lambda>raw.
     case raw of
       None \<Rightarrow> throw (Errorf ''SendRawTransaction: failed'')
     | Some j \<Rightarrow>
         abind (query (\<lambda>_. Annotatef ''raw result'' (readString j))) (\<lambda>result.
         if result = '''' then throw (Errorf ''SendRawTransaction: failed, empty result'') else ret result))"

section \<open>Fees, balances and gas\<close>

definition EstimateSmartFee_eth :: "'n ethclient \<Rightarrow> int \<Rightarrow> bool \<Rightarrow> ('n EthereumRPC, int) action" where
  "EstimateSmartFee_eth E blocks conservative =
     abind (onNode (SuggestGasPrice E)) (\<lambda>gp. case gp of Some g \<Rightarrow> ret g | None \<Rightarrow> throw (Panic ''nil pointer dereference''))"

definition EstimateFee_eth :: "'n ethclient \<Rightarrow> int \<Rightarrow> ('n EthereumRPC, int) action" where
  "EstimateFee_eth E blocks = EstimateSmartFee_eth E blocks True"

definition getStringFromMap :: "string \<Rightarrow> (string, json) gomap \<Rightarrow> string \<times> bool" where
  "getStringFromMap p params = (case map_of params p of Some (JString s) \<Rightarrow> (s, True) | _ \<Rightarrow> ('''', False))"

definition EthereumTypeEstimateGas_eth :: "'n ethclient \<Rightarrow> (string, json) gomap \<Rightarrow> ('n EthereumRPC, uint64) action" where
  "EthereumTypeEstimateGas_eth E params =
     (let msg = \<lparr> From_cm = replicate 20 0, To_cm = None, Data_cm = [] \<rparr>;
          msg = (case getStringFromMap ''from'' params of (s, ok) \<Rightarrow> if ok \<and> length s > 0 then msg\<lparr> From_cm := HexToAddress E s \<rparr> else msg);
          msg = (case getStringFromMap ''to'' params of (s, ok) \<Rightarrow> if ok \<and> length s > 0 then msg\<lparr> To_cm := Some (HexToAddress E s) \<rparr> else msg);
          msg = (case getStringFromMap ''data'' params of (s, ok) \<Rightarrow> if ok \<and> length s > 0 then msg\<lparr> Data_cm := FromHex E s \<rparr> else msg) in
      onNode (EstimateGas E msg))"

definition EthereumTypeGetBalance_eth :: "'n ethclient \<Rightarrow> AddressDescriptor \<Rightarrow> ('n EthereumRPC, int option) action" where
  "EthereumTypeGetBalance_eth E addrDesc = onNode (BalanceAt E (BytesToAddress E addrDesc))"

definition EthereumTypeGetNonce_eth :: "'n ethclient \<Rightarrow> AddressDescriptor \<Rightarrow> ('n EthereumRPC, uint64) action" where
  "EthereumTypeGetNonce_eth E addrDesc = onNode (NonceAt E (BytesToAddress E addrDesc))"

section \<open>Mempool and notifications\<close>

definition GetMempoolTransactions_eth :: "'n ethclient \<Rightarrow> ('n EthereumRPC, string list) action" where
  "GetMempoolTransactions_eth E =
     abind (getBlockRaw_eth E ''pending'' 0 False) (\<lambda>raw. query (\<lambda>_. readBlockTxids raw))"

definition CreateMempool :: "'n ethclient \<Rightarrow> ('n EthereumRPC, unit) action" where
  "CreateMempool E b =
     (if Mempool_e b = None then
        abind (now_e E) (\<lambda>t. change (\<lambda>b. b\<lparr> Mempool_e := Some (NewMempoolEthereumType t
          (MempoolTxTimeoutHours (ChainConfig_e b)) (QueryBackendOnMempoolResync (ChainConfig_e b))) \<rparr>)) b
      else ret () b)"

text \<open>
  \<open>Mempool.AddTransactionToMempool\<close> as the client calls it: the mempool asks the client for a transaction that it does not have. The environment of the mempool answers with what
  the client returned.
\<close>

definition mempoolEnv :: "BlockChainParser \<Rightarrow> bool \<Rightarrow> go_error + Tx \<Rightarrow> mempool_env" where
  "mempoolEnv p onNew r = \<lparr> GetMempoolTransactions = Inr [], GetTransactionForMempool = (\<lambda>_. r), parser_m = p, AddrDescForOutpoint_m = None,
     OnNewTxAddr = onNew \<rparr>"

definition fillMempool :: "int \<Rightarrow> string \<Rightarrow> go_error + Tx \<Rightarrow> ('n EthereumRPC, unit) action" where
  "fillMempool t txid r b =
     (case Mempool_e b of
        None \<Rightarrow> (Inl (Panic ''nil pointer dereference''), b)
      | Some m \<Rightarrow>
          (case AddTransactionToMempool (mempoolEnv (Parser_e b) (onNewTxAddr_e b) r) t txid m of
             Inl e \<Rightarrow> (Inl e, b)
           | Inr m \<Rightarrow> (Inr (), b\<lparr> Mempool_e := Some m \<rparr>)))"

definition addTransaction :: "'n ethclient \<Rightarrow> string \<Rightarrow> ('n EthereumRPC, unit) action" where
  "addTransaction E txid b =
     (case Mempool_e b of
        None \<Rightarrow> throw (Panic ''nil pointer dereference'')
      | Some m \<Rightarrow>
          if map_of (txEntries m) txid \<noteq> None then ret ()
          else abind (now_e E) (\<lambda>t. abind (attempt (GetTransactionForMempool_eth E txid)) (fillMempool t txid))) b"

text \<open>The handlers of the two channels.\<close>

definition onNewBlock :: "'n ethclient \<Rightarrow> Header \<Rightarrow> ('n EthereumRPC, unit) action" where
  "onNewBlock E h = abind (now_e E) (\<lambda>t.
     change (\<lambda>b. b\<lparr> bestHeader := Some h, bestHeaderTime := t, pushed := pushed b @ [NotificationNewBlock] \<rparr>))"

definition onNewTx :: "'n ethclient \<Rightarrow> string \<Rightarrow> ('n EthereumRPC, unit) action" where
  "onNewTx E hex = abind (addTransaction E hex) (\<lambda>_. change (\<lambda>b. b\<lparr> pushed := pushed b @ [NotificationNewTx] \<rparr>))"

text \<open>The functions that \<open>InitializeMempool\<close> gives to \<open>subscribe\<close>.\<close>

definition subscribeNewHeads :: "'n ethclient \<Rightarrow> ('n EthereumRPC, unit) action" where
  "subscribeNewHeads E =
     abind (change (\<lambda>b. b\<lparr> newBlockSubscription := False \<rparr>)) (\<lambda>_.
     abind (annotated ''EthSubscribe newHeads'' (onNode (EthSubscribe E ''newHeads''))) (\<lambda>_.
     change (\<lambda>b. b\<lparr> newBlockSubscription := True \<rparr>)))"

definition subscribeNewTxs :: "'n ethclient \<Rightarrow> ('n EthereumRPC, unit) action" where
  "subscribeNewTxs E =
     abind (change (\<lambda>b. b\<lparr> newTxSubscription := False \<rparr>)) (\<lambda>_.
     abind (annotated ''EthSubscribe newPendingTransactions'' (onNode (EthSubscribe E ''newPendingTransactions''))) (\<lambda>_.
     change (\<lambda>b. b\<lparr> newTxSubscription := True \<rparr>)))"

definition InitializeMempool :: "'n ethclient \<Rightarrow> bool \<Rightarrow> ('n EthereumRPC, unit) action" where
  "InitializeMempool E onNewTxAddr b =
     (if Mempool_e b = None then throw (Errorf ''Mempool not created'')
      else
        abind (GetMempoolTransactions_eth E) (\<lambda>txs.
        abind (amap (addTransaction E) txs) (\<lambda>_.
        abind (change (\<lambda>b. b\<lparr> onNewTxAddr_e := onNewTxAddr \<rparr>)) (\<lambda>_.
        abind (if isETC b then ret () else subscribeNewHeads E) (\<lambda>_.
        abind (subscribeNewTxs E) (\<lambda>_.
        change (\<lambda>b. b\<lparr> mempoolInitialized := True \<rparr>))))))) b"

text \<open>
  The goroutine of \<open>subscribe\<close>: it waits for an error of the subscription, then tries to subscribe again whenever the timer fires; a nil error ends it. Its events are an error of
  the subscription, \<open>None\<close> for nil, and the timer.
\<close>

datatype subscriber = Waiting | Retrying | Ended

datatype sub_event = SubError "go_error option" | TimerFired

definition subscribeLoop :: "('w, unit) action \<Rightarrow> sub_event \<Rightarrow> subscriber \<times> 'w \<Rightarrow> subscriber \<times> 'w" where
  "subscribeLoop f ev = (\<lambda>(s, w).
     case s of
       Waiting \<Rightarrow> (case ev of SubError None \<Rightarrow> (Ended, w) | SubError (Some _) \<Rightarrow> (Retrying, w) | TimerFired \<Rightarrow> (Waiting, w))
     | Retrying \<Rightarrow>
         (case ev of
            SubError None \<Rightarrow> (Ended, w)
          | SubError (Some _) \<Rightarrow> (Retrying, w)
          | TimerFired \<Rightarrow> (case f w of (Inl _, w) \<Rightarrow> (Retrying, w) | (Inr _, w) \<Rightarrow> (Waiting, w)))
     | Ended \<Rightarrow> (Ended, w))"

text \<open>
  \<open>Shutdown\<close>: the result has the subscriptions that get a nil error.
\<close>

definition Shutdown_eth :: "'n EthereumRPC \<Rightarrow> string list \<times> 'n EthereumRPC" where
  "Shutdown_eth b = ((if newBlockSubscription b then [''newHeads''] else []) @ (if newTxSubscription b then [''newPendingTransactions''] else []),
     b\<lparr> closed_e := True \<rparr>)"

definition GetCoinName_eth :: "'n EthereumRPC \<Rightarrow> string" where
  "GetCoinName_eth b = CoinName (ChainConfig_e b)"

definition GetSubversion_eth :: "'n EthereumRPC \<Rightarrow> string" where
  "GetSubversion_eth b = ''''"

definition GetChainParser_eth :: "'n EthereumRPC \<Rightarrow> BlockChainParser" where
  "GetChainParser_eth b = Parser_e b"


section \<open>Best header and confirmations\<close>

lemma onNode_eq: "onNode f b = (r, b') \<longleftrightarrow> (\<exists>n. f (node_e b) = (r, n) \<and> b' = b\<lparr> node_e := n \<rparr>)"
  by (auto simp: onNode_def split: prod.splits)

lemma now_e_eq: "now_e E b = (r, b') \<longleftrightarrow> (\<exists>t n. Now E (node_e b) = (t, n) \<and> r = Inr t \<and> b' = b\<lparr> node_e := n \<rparr>)"
  by (auto simp: now_e_def onNode_eq split: prod.splits)

lemma change_apply [simp]: "change f w = (Inr (), f w)"
  by (simp add: change_def)

lemma cachedHeader_cached: "cachedHeader E b = (Inr h, b') \<Longrightarrow> bestHeader b' = Some h"
  by (cases "bestHeader b") (auto simp: cachedHeader_def abind_eq_Inr_iff)

lemma getBestHeader_cached: "getBestHeader E b = (Inr h, b') \<Longrightarrow> bestHeader b' = Some h"
  by (auto simp: getBestHeader_def abind_eq_Inr_iff cachedHeader_cached)

text \<open>After a notification the header is served without asking the node, unless the coin is Ethereum Classic.\<close>

lemma notified_header_served:
  "\<not> isETC b \<Longrightarrow> onNewBlock E h b = (r, b') \<Longrightarrow> getBestHeader E b' = (Inr h, b')"
  by (auto simp: onNewBlock_def getBestHeader_def expireHeader_def cachedHeader_def abind_def now_e_def onNode_def split: prod.splits)

text \<open>For Ethereum Classic a header that is more than a second old is read again.\<close>

lemma etc_header_renewed:
  assumes "isETC b" and "Now E (node_e b) = (t, n)" and "bestHeaderTime b + 10 ^ 9 < t" and "getBestHeader E b = (Inr h, b')"
  shows "fst (HeaderByNumber E None n) = Inr h"
proof -
  have "expireHeader E b = (Inr (), b\<lparr> node_e := n, bestHeader := None \<rparr>)"
    using assms(1-3) by (simp add: expireHeader_def now_e_def onNode_def abind_def)
  with assms(4) have "cachedHeader E (b\<lparr> node_e := n, bestHeader := None \<rparr>) = (Inr h, b')" by (simp add: getBestHeader_def)
  then obtain v where "onNode (HeaderByNumber E None) (b\<lparr> node_e := n, bestHeader := None \<rparr>) = (Inr h, v)"
    by (auto simp: cachedHeader_def abind_eq_Inr_iff)
  then show ?thesis by (auto simp: onNode_eq)
qed

lemma confirmations_word:
  fixes bn n :: uint64
  shows "uint (ucast (bn - n + 1) :: uint32) = (uint bn - uint n + 1) mod 2 ^ 32"
proof -
  have "uint (ucast (bn - n + 1) :: uint32) = uint (bn - n + 1) mod 2 ^ 32" by (simp add: unsigned_ucast_eq take_bit_eq_mod)
  also have "uint (bn - n + 1) = (uint bn - uint n + 1) mod 2 ^ 64" by (simp add: uint_word_ariths mod_simps)
  also have "(uint bn - uint n + 1) mod 2 ^ 64 mod 2 ^ 32 = (uint bn - uint n + 1) mod (2 ^ 32 :: int)"
    by (rule mod_mod_cancel) simp
  finally show ?thesis .
qed

text \<open>C23: The number of confirmations is 1 plus the distance to the best header that the client has, as long as the block is not above that header and the distance fits;
  a block that is one above it gets 0, and a block higher still gets a number just below \<open>2\<^sup>3\<^sup>2\<close>.\<close>

theorem confirmations_bounds:
  assumes "computeConfirmations E n b = (Inr c, b')"
  shows "\<exists>h. bestHeader b' = Some h \<and> (let best = uint (BigInt_Uint64 (Number_hd h)) in
    (uint n \<le> best \<and> best - uint n < 2 ^ 32 - 1 \<longrightarrow> 1 \<le> c \<and> uint c = best - uint n + 1) \<and>
    (uint n = best + 1 \<longrightarrow> c = 0) \<and>
    (best + 1 < uint n \<and> uint n \<le> best + 2 ^ 31 \<longrightarrow> 2 ^ 31 < c \<and> uint c = 2 ^ 32 + 1 - (uint n - best)))"
proof -
  from assms obtain h where h: "getBestHeader E b = (Inr h, b')" and c: "c = ucast (BigInt_Uint64 (Number_hd h) - n + 1)"
    by (auto simp: computeConfirmations_def abind_eq_Inr_iff Let_def)
  let ?best = "uint (BigInt_Uint64 (Number_hd h))"
  have u: "uint c = (?best - uint n + 1) mod 2 ^ 32" unfolding c by (rule confirmations_word)
  have 1: "1 \<le> c \<and> uint c = ?best - uint n + 1" if "uint n \<le> ?best" "?best - uint n < 2 ^ 32 - 1"
    using u that by (simp add: word_le_def)
  have 2: "c = 0" if "uint n = ?best + 1"
    using u that by (simp add: uint_0_iff)
  have 3: "2 ^ 31 < c \<and> uint c = 2 ^ 32 + 1 - (uint n - ?best)" if "?best + 1 < uint n" "uint n \<le> ?best + 2 ^ 31"
  proof -
    have "(?best - uint n + 1) mod 2 ^ 32 = (?best - uint n + 1 + 2 ^ 32) mod 2 ^ 32" by (simp only: mod_add_self2)
    also have "\<dots> = ?best - uint n + 1 + 2 ^ 32" by (rule mod_pos_pos_trivial) (use that in auto)
    finally have "uint c = 2 ^ 32 + 1 - (uint n - ?best)" using u by simp
    then show ?thesis using that by (simp add: word_less_def)
  qed
  show ?thesis using getBestHeader_cached[OF h] 1 2 3 by (auto simp: Let_def)
qed


section \<open>What the operations keep\<close>

text \<open>
  Two contracts for a predicate on the state of the client. \<open>client_frame\<close>: it does not depend on the state of the node and on the best header; every operation that only
  asks the node keeps it. \<open>mempool_client\<close>: it also survives the two changes of the mempool; then reading blocks and transactions keep it, and the handling of new transactions.
\<close>

lemma keeps_annotated [intro]: "keeps P m \<Longrightarrow> keeps P (annotated s m)"
  by (fastforce simp: keeps_def annotated_def split: prod.splits)

lemma keeps_change: "(\<And>w. P w \<Longrightarrow> P (f w)) \<Longrightarrow> keeps P (change f)"
  by (simp add: keeps_def)

lemma keeps_Pair [simp]: "keeps P (Pair r)"
  by (simp add: keeps_def)

lemma keepsD: "keeps P m \<Longrightarrow> P w \<Longrightarrow> m w = (r, w') \<Longrightarrow> P w'"
  by (metis keeps_def snd_conv)

lemma keeps_at: "(\<And>w. P w \<Longrightarrow> \<exists>n. keeps P n \<and> m w = n w) \<Longrightarrow> keeps P m"
  by (metis keeps_def)

lemma keeps_cond: "(\<And>w. f w = (if c w then m w else n w)) \<Longrightarrow> keeps P m \<Longrightarrow> keeps P n \<Longrightarrow> keeps P f"
  by (simp add: keeps_def)

locale client_frame =
  fixes P :: "'n EthereumRPC \<Rightarrow> bool"
  assumes node_free: "P b \<Longrightarrow> P (b\<lparr> node_e := n \<rparr>)"
    and header_free: "P b \<Longrightarrow> P (b\<lparr> bestHeader := h \<rparr>)"
    and time_free: "P b \<Longrightarrow> P (b\<lparr> bestHeaderTime := t \<rparr>)"
begin

lemma keeps_onNode [intro, simp]: "keeps P (onNode f)"
  by (auto simp: keeps_def onNode_def node_free split: prod.splits)

lemma keeps_now_e [intro, simp]: "keeps P (now_e E)"
  by (simp add: now_e_def)

lemma keeps_expireHeader: "keeps P (expireHeader E)"
  by (rule keeps_cond[OF expireHeader_def]) (auto intro!: keeps_abind keeps_change header_free)

lemma keeps_cachedHeader: "keeps P (cachedHeader E)"
proof (rule keeps_at)
  fix b
  show "\<exists>m. keeps P m \<and> cachedHeader E b = m b"
  proof (cases "bestHeader b")
    case None
    have "P (b\<lparr> bestHeader := Some h, bestHeaderTime := t \<rparr>)" if "P b" for b h t
      using time_free[OF header_free[OF that]] by simp
    then have "keeps P (abind (onNode (HeaderByNumber E None)) (\<lambda>h. abind (now_e E) (\<lambda>t.
        abind (change (\<lambda>b. b\<lparr> bestHeader := Some h, bestHeaderTime := t \<rparr>)) (\<lambda>_. ret h))))"
      by (intro keeps_abind keeps_onNode keeps_now_e keeps_change keeps_basic) auto
    with None show ?thesis by (auto simp: cachedHeader_def)
  next
    case (Some h)
    then show ?thesis by (auto simp: cachedHeader_def intro: exI[of _ "ret h"])
  qed
qed

lemma keeps_getBestHeader [intro, simp]: "keeps P (getBestHeader E)"
  unfolding getBestHeader_def by (intro keeps_abind keeps_expireHeader keeps_cachedHeader)

lemma keeps_computeConfirmations [intro, simp]: "keeps P (computeConfirmations E n)"
  unfolding computeConfirmations_def Let_def by (intro keeps_abind keeps_getBestHeader keeps_basic)

lemma keeps_ethHeaderToBlockHeader [intro, simp]: "keeps P (ethHeaderToBlockHeader E h)"
  unfolding ethHeaderToBlockHeader_def by (intro keeps_abind keeps_computeConfirmations keeps_basic)

lemma keeps_getBlockRaw [intro, simp]: "keeps P (getBlockRaw_eth E hash height full)"
  unfolding getBlockRaw_eth_def by (intro keeps_abind keeps_annotated keeps_onNode) (simp split: option.splits)

lemma keeps_events [intro, simp]: "keeps P (getERC20EventsForBlock E n)"
  unfolding getERC20EventsForBlock_def by (intro keeps_abind keeps_annotated keeps_onNode keeps_basic)

lemma keeps_receiptOf [intro, simp]: "keeps P (receiptOf E hash)"
  by (rule keeps_cond[OF receiptOf_def]) (auto simp: etcReceiptOf_def intro!: keeps_abind keeps_annotated split: option.splits sum.splits)

lemma keeps_GetMempoolTransactions [intro, simp]: "keeps P (GetMempoolTransactions_eth E)"
  unfolding GetMempoolTransactions_eth_def by (intro keeps_abind keeps_getBlockRaw keeps_basic)

end

locale mempool_client = client_frame +
  assumes removed: "P b \<Longrightarrow> Mempool_e b = Some m \<Longrightarrow> P (b\<lparr> Mempool_e := Some (RemoveTransactionFromMempool txid m) \<rparr>)"
    and added: "P b \<Longrightarrow> Mempool_e b = Some m \<Longrightarrow> AddTransactionToMempool env t txid m = Inr m' \<Longrightarrow> P (b\<lparr> Mempool_e := Some m' \<rparr>)"
begin

lemma keeps_removeFromMempool [intro, simp]: "keeps P (removeFromMempool txid)"
  by (auto simp: keeps_def removeFromMempool_def removed split: option.splits)

lemma keeps_GetBlock: "keeps P (GetBlock_eth E hash height)"
  unfolding GetBlock_eth_def blockTx_def
  by (intro keeps_abind keeps_amap keeps_annotated keeps_getBlockRaw keeps_ethHeaderToBlockHeader keeps_events keeps_removeFromMempool keeps_basic)

lemma keeps_minedTx: "keeps P (minedTx E hash txid tx)"
  unfolding minedTx_def
  by (intro keeps_abind keeps_annotated keeps_getBlockRaw keeps_receiptOf keeps_computeConfirmations keeps_removeFromMempool keeps_basic)

lemma keeps_GetTransaction: "keeps P (GetTransaction_eth E txid)"
  unfolding GetTransaction_eth_def Let_def
  by (intro keeps_abind keeps_if keeps_onNode keeps_removeFromMempool keeps_minedTx keeps_basic)

lemma keeps_fillMempool: "keeps P (fillMempool t txid r)"
  by (auto simp: keeps_def fillMempool_def added split: option.splits sum.splits)

lemma keeps_addTransaction: "keeps P (addTransaction E txid)"
proof (rule keeps_at)
  fix b
  have "keeps P (abind (now_e E) (\<lambda>t. abind (attempt (GetTransactionForMempool_eth E txid)) (fillMempool t txid)))"
    unfolding GetTransactionForMempool_eth_def
    by (intro keeps_abind keeps_attempt keeps_now_e keeps_GetTransaction keeps_fillMempool)
  then show "\<exists>m. keeps P m \<and> addTransaction E txid b = m b"
    by (auto simp: addTransaction_def split: option.splits)
qed

end


section \<open>The invariant of the client\<close>

definition client_inv :: "'n EthereumRPC \<Rightarrow> bool" where
  "client_inv b \<longleftrightarrow> (mempoolInitialized b \<longrightarrow> Mempool_e b \<noteq> None) \<and> (\<forall>m. Mempool_e b = Some m \<longrightarrow> mempool_ok (baseOf m)) \<and>
     (isETC b \<longrightarrow> \<not> newBlockSubscription b) \<and> isETC b = (CoinName (ChainConfig_e b) = ''Ethereum Classic'') \<and>
     100 \<le> BlockAddressesToKeep_e (ChainConfig_e b)"

lemma RemoveTransactionFromMempool_ok: "mempool_ok (baseOf m) \<Longrightarrow> mempool_ok (baseOf (RemoveTransactionFromMempool txid m))"
  using mempool_ok_remove[of "baseOf m" txid] by (auto simp: RemoveTransactionFromMempool_def split: option.splits)

interpretation inv: mempool_client client_inv
proof unfold_locales
  fix b :: "'a EthereumRPC" and m env t txid m'
  assume "client_inv b" "Mempool_e b = Some m" "AddTransactionToMempool env t txid m = Inr m'"
  then show "client_inv (b\<lparr> Mempool_e := Some m' \<rparr>)" using AddTransactionToMempool_ok by (auto simp: client_inv_def)
qed (auto simp: client_inv_def RemoveTransactionFromMempool_ok)

interpretation frame: client_frame "\<lambda>b. Mempool_e b = m \<and> mempoolInitialized b = i" for m i
  by unfold_locales simp_all

text \<open>The operations of the client, the handlers of its channels and the goroutines that subscribe again, in any order.\<close>

inductive eth_step :: "'n ethclient \<Rightarrow> 'n EthereumRPC \<Rightarrow> 'n EthereumRPC \<Rightarrow> bool" for E where
  step_initialize: "Initialize E b = (r, b') \<Longrightarrow> eth_step E b b'"
| step_create: "CreateMempool E b = (r, b') \<Longrightarrow> eth_step E b b'"
| step_mempool: "InitializeMempool E onNew b = (r, b') \<Longrightarrow> eth_step E b b'"
| step_head: "onNewBlock E h b = (r, b') \<Longrightarrow> eth_step E b b'"
| step_tx: "onNewTx E hex b = (r, b') \<Longrightarrow> eth_step E b b'"
| step_heads_again: "\<not> isETC b \<Longrightarrow> subscribeLoop (subscribeNewHeads E) ev (s, b) = (s', b') \<Longrightarrow> eth_step E b b'"
| step_txs_again: "subscribeLoop (subscribeNewTxs E) ev (s, b) = (s', b') \<Longrightarrow> eth_step E b b'"
| step_best: "getBestHeader E b = (r, b') \<Longrightarrow> eth_step E b b'"
| step_block: "GetBlock_eth E hash height b = (r, b') \<Longrightarrow> eth_step E b b'"
| step_transaction: "GetTransaction_eth E txid b = (r, b') \<Longrightarrow> eth_step E b b'"
| step_shutdown: "Shutdown_eth b = (subs, b') \<Longrightarrow> eth_step E b b'"

lemma mempool_ok_NewMempoolEthereumType: "mempool_ok (baseOf (NewMempoolEthereumType t h q))"
  using mempool_ok_new by (simp add: baseOf_def NewMempoolEthereumType_def newMempool_def BaseMempool.truncate_def)

lemma keeps_Initialize: "keeps client_inv (Initialize E)"
  unfolding Initialize_def Let_def by (intro keeps_abind keeps_if inv.keeps_onNode keeps_change keeps_basic) (auto simp: client_inv_def)

lemma keeps_CreateMempool: "keeps client_inv (CreateMempool E)"
  by (rule keeps_cond[OF CreateMempool_def])
    (auto intro!: keeps_abind inv.keeps_now_e keeps_change simp: client_inv_def mempool_ok_NewMempoolEthereumType split: option.splits)

lemma keeps_subscribeNewTxs: "keeps client_inv (subscribeNewTxs E)"
  unfolding subscribeNewTxs_def by (intro keeps_abind keeps_change keeps_annotated inv.keeps_onNode) (auto simp: client_inv_def)

lemma subscribeNewHeads_inv: "\<not> isETC b \<Longrightarrow> client_inv b \<Longrightarrow> client_inv (snd (subscribeNewHeads E b))"
  by (auto simp: subscribeNewHeads_def abind_def annotated_def onNode_def client_inv_def split: prod.splits sum.splits)

lemma subscribeLoop_inv:
  assumes "subscribeLoop f ev (s, b) = (s', b')" and "P b" and "P (snd (f b))"
  shows "P b'"
  using assms by (auto simp: subscribeLoop_def split: subscriber.splits sub_event.splits option.splits prod.splits sum.splits)

text \<open>The states after the mempool was created.\<close>

definition created_inv :: "bool \<Rightarrow> 'n EthereumRPC \<Rightarrow> bool" where
  "created_inv etc b \<longleftrightarrow> client_inv b \<and> Mempool_e b \<noteq> None \<and> isETC b = etc"

interpretation created: mempool_client "created_inv etc" for etc
  by unfold_locales (auto simp: created_inv_def intro: inv.node_free inv.header_free inv.time_free inv.removed inv.added)

lemma keeps_subscriptions:
  "keeps (created_inv etc) (if etc then ret () else subscribeNewHeads E)"
  "keeps (created_inv etc) (subscribeNewTxs E)"
proof -
  have "keeps (created_inv False) (subscribeNewHeads E)"
    unfolding subscribeNewHeads_def
    by (intro keeps_abind keeps_change keeps_annotated created.keeps_onNode) (auto simp: created_inv_def client_inv_def)
  then show "keeps (created_inv etc) (if etc then ret () else subscribeNewHeads E)" by (cases etc) auto
  show "keeps (created_inv etc) (subscribeNewTxs E)"
    unfolding subscribeNewTxs_def
    by (intro keeps_abind keeps_change keeps_annotated created.keeps_onNode) (auto simp: created_inv_def client_inv_def)
qed

lemma keeps_InitializeMempool: "keeps client_inv (InitializeMempool E onNew)"
proof (rule keeps_at)
  fix b :: "'a EthereumRPC"
  assume b: "client_inv b"
  let ?m = "abind (GetMempoolTransactions_eth E) (\<lambda>txs. abind (amap (addTransaction E) txs) (\<lambda>_.
        abind (change (\<lambda>b. b\<lparr> onNewTxAddr_e := onNew \<rparr>)) (\<lambda>_. abind (if isETC b then ret () else subscribeNewHeads E) (\<lambda>_.
        abind (subscribeNewTxs E) (\<lambda>_. change (\<lambda>b. b\<lparr> mempoolInitialized := True \<rparr>))))))"
  show "\<exists>m. keeps client_inv m \<and> InitializeMempool E onNew b = m b"
  proof (cases "Mempool_e b = None")
    case True
    then show ?thesis by (auto simp: InitializeMempool_def intro: exI[of _ "throw _"])
  next
    case False
    have "keeps (created_inv (isETC b)) ?m"
      by (intro keeps_abind keeps_amap created.keeps_GetMempoolTransactions created.keeps_addTransaction keeps_subscriptions keeps_change)
        (auto simp: created_inv_def client_inv_def)
    moreover have "created_inv (isETC b) b" using b False by (simp add: created_inv_def)
    ultimately have "client_inv (snd (?m b))" by (auto simp: keeps_def created_inv_def)
    moreover have "InitializeMempool E onNew b = ?m b" unfolding InitializeMempool_def by (simp only: False if_False)
    ultimately show ?thesis by (intro exI[of _ "\<lambda>_. ?m b"]) (simp add: keeps_def)
  qed
qed



section \<open>Blocks\<close>

text \<open>The events of a block, grouped by transaction: the list of a transaction has its events in the order of the node.\<close>

definition eventsOf :: "string \<Rightarrow> rpcLogWithTxHash list \<Rightarrow> rpcLog list" where
  "eventsOf txid logs = map rpcLog.truncate (filter (\<lambda>l. Hash_lt l = txid) logs)"

definition logsRequest :: "string \<Rightarrow> json" where
  "logsRequest blockNumber = JObject [(''fromBlock'', JString blockNumber), (''toBlock'', JString blockNumber),
     (''topics'', JArray [JString erc20TransferEventSignature])]"

lemma fold_events:
  "(case map_of (fold (\<lambda>l r. AList.update (Hash_lt l)
       ((case map_of r (Hash_lt l) of Some ls \<Rightarrow> ls | None \<Rightarrow> []) @ [rpcLog.truncate l]) r) logs r) txid of Some ls \<Rightarrow> ls | None \<Rightarrow> []) =
   (case map_of r txid of Some ls \<Rightarrow> ls | None \<Rightarrow> []) @ eventsOf txid logs"
  by (induction logs arbitrary: r) (auto simp: eventsOf_def)

lemma annotated_Inr: "annotated s m w = (Inr x, w') \<longleftrightarrow> m w = (Inr x, w')"
  by (auto simp: annotated_def Annotatef_def split: prod.splits sum.splits)

lemma events_grouped:
  assumes "getERC20EventsForBlock E n b = (Inr evs, b')"
  obtains j nd logs where "fst (CallContext E ''eth_getLogs'' [logsRequest n] nd) = Inr j" and "readList readLogWithTxHash j = Inr logs"
    and "\<And>txid. (case map_of evs txid of Some ls \<Rightarrow> ls | None \<Rightarrow> []) = eventsOf txid logs"
proof -
  from assms obtain j v logs where j: "onNode (CallContext E ''eth_getLogs'' [logsRequest n]) b = (Inr j, v)"
    and l: "readList readLogWithTxHash j = Inr logs"
    and e: "evs = fold (\<lambda>l r. AList.update (Hash_lt l)
       ((case map_of r (Hash_lt l) of Some ls \<Rightarrow> ls | None \<Rightarrow> []) @ [rpcLog.truncate l]) r) logs []"
    by (auto simp: getERC20EventsForBlock_def abind_eq_Inr_iff annotated_Inr logsRequest_def)
  have "fst (CallContext E ''eth_getLogs'' [logsRequest n] (node_e b)) = Inr j" using j by (auto simp: onNode_eq)
  moreover have "(case map_of evs txid of Some ls \<Rightarrow> ls | None \<Rightarrow> []) = eventsOf txid logs" for txid
    unfolding e using fold_events[of logs "[]"] by simp
  ultimately show thesis using l that by blast
qed

lemma RemoveTransactionFromMempool_entries:
  "map_of (txEntries (RemoveTransactionFromMempool txid m)) t = (if t = txid then None else map_of (txEntries m) t)"
  by (auto simp: RemoveTransactionFromMempool_def withBase_def Let_def removeEntryFromMempool_def split: option.splits)

definition receiptWith :: "rpcLog list \<Rightarrow> rpcReceipt" where
  "receiptWith ls = \<lparr> GasUsed = '''', Status_rr = '''', Logs = ls \<rparr>"

lemma blockTx_Inr:
  "Mempool_e b = Some m \<Longrightarrow> mempoolInitialized b \<Longrightarrow> blockTx E logs bbh tx b = (Inr btx, b') \<longleftrightarrow>
     ethTxToTx (hexutil_e E) tx (Some (receiptWith (case map_of logs (Hash_rt tx) of Some ls \<Rightarrow> ls | None \<Rightarrow> [])))
       (Time_bh bbh) (of_int (Confirmations_bh bbh)) = Inr btx \<and>
     b' = b\<lparr> Mempool_e := Some (RemoveTransactionFromMempool (Hash_rt tx) m) \<rparr>"
  by (auto simp: blockTx_def abind_eq_Inr_iff removeFromMempool_def receiptWith_def)

lemma blockTxs_spec:
  assumes "amap (blockTx E logs bbh) txs b = (Inr btxs, b')" and "Mempool_e b = Some m" and "mempoolInitialized b"
  shows "list_all2 (\<lambda>tx btx. ethTxToTx (hexutil_e E) tx (Some (receiptWith (case map_of logs (Hash_rt tx) of Some ls \<Rightarrow> ls | None \<Rightarrow> [])))
      (Time_bh bbh) (of_int (Confirmations_bh bbh)) = Inr btx) txs btxs \<and>
    (\<exists>m'. Mempool_e b' = Some m' \<and> (mempool_ok (baseOf m) \<longrightarrow> mempool_ok (baseOf m')) \<and>
      (\<forall>t. map_of (txEntries m') t = (if t \<in> Hash_rt ` set txs then None else map_of (txEntries m) t)))"
  using assms
proof (induction txs arbitrary: b btxs m)
  case (Cons tx txs)
  then obtain btx btxs' where e: "ethTxToTx (hexutil_e E) tx (Some (receiptWith (case map_of logs (Hash_rt tx) of Some ls \<Rightarrow> ls | None \<Rightarrow> [])))
      (Time_bh bbh) (of_int (Confirmations_bh bbh)) = Inr btx" "btxs = btx # btxs'"
    and a: "amap (blockTx E logs bbh) txs (b\<lparr> Mempool_e := Some (RemoveTransactionFromMempool (Hash_rt tx) m) \<rparr>) = (Inr btxs', b')"
    by (auto simp: abind_eq_Inr_iff blockTx_Inr)
  from Cons.IH[OF a] Cons.prems(3) obtain m' where
    l: "list_all2 (\<lambda>tx btx. ethTxToTx (hexutil_e E) tx (Some (receiptWith (case map_of logs (Hash_rt tx) of Some ls \<Rightarrow> ls | None \<Rightarrow> [])))
      (Time_bh bbh) (of_int (Confirmations_bh bbh)) = Inr btx) txs btxs'"
    and m': "Mempool_e b' = Some m'" "mempool_ok (baseOf (RemoveTransactionFromMempool (Hash_rt tx) m)) \<longrightarrow> mempool_ok (baseOf m')"
      "\<forall>t. map_of (txEntries m') t = (if t \<in> Hash_rt ` set txs then None else map_of (txEntries (RemoveTransactionFromMempool (Hash_rt tx) m)) t)"
    by auto
  then show ?case using e by (auto simp: RemoveTransactionFromMempool_ok RemoveTransactionFromMempool_entries)
qed simp

lemma ethTxToTx_Txid: "ethTxToTx H tx r t c = Inr btx \<Longrightarrow> Txid_tx btx = Hash_rt tx"
  by (auto simp: ethTxToTx_def Let_def rbind_eq_Inr_iff)

text \<open>C22: A block that the client returns is the one that the node sent: it has the hash, the parent and the height of the header, and for each transaction of the body, in their order, the
  transaction with the token events that the node lists for it, in the order of the list. Its transactions have left the mempool, the others are still there with their entries, and the maps of the
  mempool agree.\<close>

theorem eth_block_assembled:
  assumes "GetBlock_eth E hash height b = (Inr block, b')" and "Mempool_e b = Some m" and "mempoolInitialized b" and "mempool_ok (baseOf m)"
  shows "\<exists>raw head txs n nd j logs m'. fst (getBlockRaw_eth E hash height True b) = Inr raw \<and> readHeader raw = Inr head \<and> readBlockTransactions raw = Inr txs \<and>
    Hash_bh block = Hash_rh head \<and> Prev_bh block = ParentHash head \<and> ethNumber (Number_rh head) = Inr n \<and> Height_bh block = ucast n \<and>
    fst (CallContext E ''eth_getLogs'' [logsRequest (Number_rh head)] nd) = Inr j \<and> readList readLogWithTxHash j = Inr logs \<and>
    list_all2 (\<lambda>tx btx. ethTxToTx (hexutil_e E) tx (Some (receiptWith (eventsOf (Hash_rt tx) logs))) (Time_bh block) (of_int (Confirmations_bh block)) = Inr btx)
      txs (Txs_blk block) \<and>
    Mempool_e b' = Some m' \<and> mempool_ok (baseOf m') \<and>
    (\<forall>t. map_of (txEntries m') t = (if t \<in> Txid_tx ` set (Txs_blk block) then None else map_of (txEntries m) t))"
proof -
  from assms(1) obtain raw b1 head txs bbh b2 evs b3 btxs where
    1: "getBlockRaw_eth E hash height True b = (Inr raw, b1)" "readHeader raw = Inr head" "readBlockTransactions raw = Inr txs"
    and 2: "ethHeaderToBlockHeader E head b1 = (Inr bbh, b2)" and 3: "getERC20EventsForBlock E (Number_rh head) b2 = (Inr evs, b3)"
    and 4: "amap (blockTx E evs bbh) txs b3 = (Inr btxs, b')" and blk: "block = BlockHeader.extend bbh \<lparr> Txs_blk = btxs \<rparr>"
    by (auto simp: GetBlock_eth_def abind_eq_Inr_iff annotated_Inr)
  have "Mempool_e b1 = Some m \<and> mempoolInitialized b1 = True"
    by (rule keepsD[OF frame.keeps_getBlockRaw _ 1(1)]) (use assms in simp)
  then have "Mempool_e b2 = Some m \<and> mempoolInitialized b2 = True" by (rule keepsD[OF frame.keeps_ethHeaderToBlockHeader _ 2])
  then have b3: "Mempool_e b3 = Some m \<and> mempoolInitialized b3 = True" by (rule keepsD[OF frame.keeps_events _ 3])
  obtain j nd logs where l: "fst (CallContext E ''eth_getLogs'' [logsRequest (Number_rh head)] nd) = Inr j" "readList readLogWithTxHash j = Inr logs"
    "\<And>txid. (case map_of evs txid of Some ls \<Rightarrow> ls | None \<Rightarrow> []) = eventsOf txid logs"
    using events_grouped[OF 3] by metis
  obtain n where h: "Hash_bh bbh = Hash_rh head" "Prev_bh bbh = ParentHash head" "ethNumber (Number_rh head) = Inr n" "Height_bh bbh = ucast n"
    using 2 by (auto simp: ethHeaderToBlockHeader_def abind_eq_Inr_iff)
  have ext: "Hash_bh block = Hash_bh bbh" "Prev_bh block = Prev_bh bbh" "Height_bh block = Height_bh bbh" "Time_bh block = Time_bh bbh"
    "Confirmations_bh block = Confirmations_bh bbh" "Txs_blk block = btxs"
    by (simp_all add: blk BlockHeader.extend_def)
  from blockTxs_spec[OF 4] b3 assms(4) obtain m' where
    t: "list_all2 (\<lambda>tx btx. ethTxToTx (hexutil_e E) tx (Some (receiptWith (eventsOf (Hash_rt tx) logs)))
      (Time_bh bbh) (of_int (Confirmations_bh bbh)) = Inr btx) txs btxs"
    and m': "Mempool_e b' = Some m'" "mempool_ok (baseOf m')"
      "\<forall>t. map_of (txEntries m') t = (if t \<in> Hash_rt ` set txs then None else map_of (txEntries m) t)"
    unfolding l(3) by auto
  have "map Txid_tx btxs = map Hash_rt txs"
    using t by (induction rule: list_all2_induct) (auto dest: ethTxToTx_Txid)
  then have "Txid_tx ` set btxs = Hash_rt ` set txs" by (metis list.set_map)
  then show ?thesis using 1 h l(1,2) t m' ext by (intro exI[of _ raw] exI[of _ head] exI[of _ txs] exI[of _ n] exI[of _ nd] exI[of _ j] exI[of _ logs] exI[of _ m']) simp
qed

section \<open>A node with one block\<close>

definition sampleLogJson :: "string \<Rightarrow> string \<Rightarrow> json" where
  "sampleLogJson txid d = JObject [(''address'', JString ''0xc''), (''topics'', JArray []), (''data'', JString d), (''transactionHash'', JString txid)]"

definition sampleTxJson :: json where
  "sampleTxJson = JObject [(''hash'', JString ''0x7''), (''value'', JString ''0x1''), (''blockNumber'', JString ''0x64''), (''blockHash'', JString ''0xb'')]"

definition sampleBlockJson :: json where
  "sampleBlockJson = JObject [(''hash'', JString ''0xb''), (''parentHash'', JString ''0xa''), (''number'', JString ''0x64''), (''timestamp'', JString ''0x5''),
     (''size'', JString ''0x10''), (''transactions'', JArray [sampleTxJson])]"

definition sampleHeader :: Header where
  "sampleHeader = \<lparr> Number_hd = 100, Hash_hd = ''0xb'', Difficulty_hd = 7 \<rparr>"

definition sampleClient :: "unit ethclient" where
  "sampleClient = \<lparr> NetworkID = ret 1, HeaderByNumber = (\<lambda>_. ret sampleHeader), NotFound = Errorf ''not found'',
     CallContext = (\<lambda>m _. if m = ''eth_getLogs'' then ret (JArray [sampleLogJson ''0x7'' ''0x1'', sampleLogJson ''0x8'' ''0x2'', sampleLogJson ''0x7'' ''0x3''])
       else ret sampleTxJson),
     CallContext_raw = (\<lambda>_ _. ret (Some sampleBlockJson)), EthSubscribe = (\<lambda>_. ret ()), SuggestGasPrice = ret (Some 5), EstimateGas = (\<lambda>_. ret 21000),
     BalanceAt = (\<lambda>_. ret (Some 0)), NonceAt = (\<lambda>_. ret 0), HexToHash = id, HexToAddress = (\<lambda>_. replicate 20 0), FromHex = (\<lambda>_. []),
     BytesToAddress = id, hexutil_e = plainHexutil, Now = Pair 0 \<rparr>"

definition sampleConfig :: Configuration_eth where
  "sampleConfig = \<lparr> CoinName = ''Ethereum'', CoinShortcut_e = ''ETH'', RPCURL = '''', RPCTimeout = 25, BlockAddressesToKeep_e = 0, MempoolTxTimeoutHours = 12,
     QueryBackendOnMempoolResync = False \<rparr>"

definition samplePool :: MempoolEthereumType where
  "samplePool = withBase (\<lambda>_. addEntry ''0x7'' \<lparr> addrIndexes = [], time_te = 10 \<rparr> sampleMempool) (NewMempoolEthereumType 0 12 False)"

definition sampleRPC :: "unit EthereumRPC" where
  "sampleRPC = \<lparr> node_e = (), Parser_e = hexParser 300, Mempool_e = Some samplePool, mempoolInitialized = True, bestHeader = None, bestHeaderTime = zeroTime,
     newBlockSubscription = True, newTxSubscription = True, ChainConfig_e = sampleConfig\<lparr> BlockAddressesToKeep_e := 100 \<rparr>, isETC = False, Testnet_e = False,
     Network_e = ''livenet'', onNewTxAddr_e = True, pushed = [], closed_e = False \<rparr>"

lemma sampleBlock_read:
  "readHeader sampleBlockJson = Inr \<lparr> Hash_rh = ''0xb'', ParentHash = ''0xa'', Difficulty_rh = '''', Number_rh = ''0x64'', Time_rh = ''0x5'', Size_rh = ''0x10'', Nonce_rh = '''' \<rparr>"
  "readBlockTransactions sampleBlockJson = Inr [\<lparr> AccountNonce = '''', GasPrice = '''', GasLimit = '''', To_rt = '''', Value_rt = ''0x1'', Payload = '''', Hash_rt = ''0x7'',
     BlockNumber = ''0x64'', BlockHash = ''0xb'', From_rt = '''', TransactionIndex = '''' \<rparr>]"
  "ethNumber ''0x64'' = Inr 100" "ethNumber ''0x5'' = Inr 5" "ethNumber ''0x10'' = Inr 16" "DecodeBig plainHexutil ''0x1'' = Inr 1"
  by code_simp+

lemma sampleLogs_read:
  "\<exists>logs. readList readLogWithTxHash (JArray [sampleLogJson ''0x7'' ''0x1'', sampleLogJson ''0x8'' ''0x2'', sampleLogJson ''0x7'' ''0x3'']) = Inr logs"
proof -
  have "readLogWithTxHash (sampleLogJson t d) = Inr \<lparr> Address_rl = ''0xc'', Topics = [], Data_rl = d, Hash_lt = t \<rparr>" for t d
    by (simp add: sampleLogJson_def readLogWithTxHash_def readLog_def membersOf_def jsonMember_def valuesFor_def readString_def readList_def ToLower_def toLowerChar_def
        rpcLog.extend_def)
  then show ?thesis by (simp add: readList_def)
qed

lemma samplePool_ok: "mempool_ok (baseOf samplePool)" "map_of (txEntries samplePool) ''0x7'' \<noteq> None"
proof -
  have "mempool_ok (addEntry ''0x7'' \<lparr> addrIndexes = [], time_te = 10 \<rparr> sampleMempool)"
    by (rule mempool_ok_addEntry[OF sampleMempool_ok]) (simp add: sampleMempool_def addEntry_def newMempool_def)
  then show "mempool_ok (baseOf samplePool)" by (simp add: samplePool_def)
  show "map_of (txEntries samplePool) ''0x7'' \<noteq> None" by (simp add: samplePool_def withBase_def Let_def addEntry_def)
qed

lemma sample_header: "getBestHeader sampleClient sampleRPC = (Inr sampleHeader, sampleRPC\<lparr> bestHeader := Some sampleHeader, bestHeaderTime := 0 \<rparr>)"
  by (simp add: getBestHeader_def expireHeader_def cachedHeader_def abind_def now_e_def onNode_def sampleClient_def sampleRPC_def)

theorem confirmations_bounds_witness:
  "\<exists>c b'. computeConfirmations sampleClient 97 sampleRPC = (Inr c, b') \<and> uint c = 4"
proof -
  obtain c where r: "computeConfirmations sampleClient 97 sampleRPC = (Inr c, sampleRPC\<lparr> bestHeader := Some sampleHeader, bestHeaderTime := 0 \<rparr>)"
    by (simp add: computeConfirmations_def sample_header Let_def)
  show ?thesis using confirmations_bounds[OF r] r by (simp add: sampleHeader_def BigInt_Uint64_def Let_def)
qed


definition sampleTx_e :: rpcTransaction where
  "sampleTx_e = \<lparr> AccountNonce = '''', GasPrice = '''', GasLimit = '''', To_rt = '''', Value_rt = ''0x1'', Payload = '''', Hash_rt = ''0x7'',
     BlockNumber = ''0x64'', BlockHash = ''0xb'', From_rt = '''', TransactionIndex = '''' \<rparr>"

lemma sample_raw: "getBlockRaw_eth sampleClient '''' 100 True sampleRPC = (Inr sampleBlockJson, sampleRPC)"
  by (simp add: getBlockRaw_eth_def abind_def annotated_def onNode_def sampleClient_def sampleRPC_def)

lemma sample_events: "\<exists>evs. getERC20EventsForBlock sampleClient n b = (Inr evs, b)"
  using sampleLogs_read by (auto simp: getERC20EventsForBlock_def abind_def annotated_def onNode_def sampleClient_def)

lemma sample_blockTx:
  assumes "Mempool_e b = Some m" and "mempoolInitialized b"
  shows "\<exists>btx. blockTx sampleClient evs bbh sampleTx_e b = (Inr btx, b\<lparr> Mempool_e := Some (RemoveTransactionFromMempool ''0x7'' m) \<rparr>)"
  by (simp add: blockTx_Inr[OF assms] ethTxToTx_def sampleTx_e_def sampleBlock_read sampleClient_def Let_def)

lemma sample_block: "\<exists>block b'. GetBlock_eth sampleClient '''' 100 sampleRPC = (Inr block, b')"
proof -
  let ?b = "sampleRPC\<lparr> bestHeader := Some sampleHeader, bestHeaderTime := 0 \<rparr>"
  obtain bbh where h: "ethHeaderToBlockHeader sampleClient \<lparr> Hash_rh = ''0xb'', ParentHash = ''0xa'', Difficulty_rh = '''', Number_rh = ''0x64'', Time_rh = ''0x5'',
      Size_rh = ''0x10'', Nonce_rh = '''' \<rparr> sampleRPC = (Inr bbh, ?b)"
    by (simp add: ethHeaderToBlockHeader_def abind_query sampleBlock_read computeConfirmations_def sample_header Let_def)
  obtain evs where e: "getERC20EventsForBlock sampleClient ''0x64'' ?b = (Inr evs, ?b)" using sample_events by blast
  obtain btx where t: "blockTx sampleClient evs bbh sampleTx_e ?b = (Inr btx, ?b\<lparr> Mempool_e := Some (RemoveTransactionFromMempool ''0x7'' samplePool) \<rparr>)"
    using sample_blockTx[of ?b samplePool] by (auto simp: sampleRPC_def)
  show ?thesis using t e by (simp add: GetBlock_eth_def sample_raw abind_query sampleBlock_read h annotated_Inr flip: sampleTx_e_def)
qed

theorem eth_block_assembled_witness:
  "\<exists>block b' m'. GetBlock_eth sampleClient '''' 100 sampleRPC = (Inr block, b') \<and> Hash_bh block = ''0xb'' \<and> Height_bh block = 100 \<and>
     Mempool_e b' = Some m' \<and> mempool_ok (baseOf m') \<and> map_of (txEntries samplePool) ''0x7'' \<noteq> None \<and> map_of (txEntries m') ''0x7'' = None"
proof -
  obtain block b' where r: "GetBlock_eth sampleClient '''' 100 sampleRPC = (Inr block, b')" using sample_block by blast
  have "Mempool_e sampleRPC = Some samplePool" "mempoolInitialized sampleRPC" by (simp_all add: sampleRPC_def)
  from eth_block_assembled[OF r this samplePool_ok(1)] obtain logs m' where b: "Hash_bh block = ''0xb''" "Height_bh block = ucast (100 :: int64)"
    "list_all2 (\<lambda>tx btx. ethTxToTx (hexutil_e sampleClient) tx (Some (receiptWith (eventsOf (Hash_rt tx) logs))) (Time_bh block) (of_int (Confirmations_bh block)) = Inr btx)
      [sampleTx_e] (Txs_blk block)" "Mempool_e b' = Some m'" "mempool_ok (baseOf m')"
    "\<forall>t. map_of (txEntries m') t = (if t \<in> Txid_tx ` set (Txs_blk block) then None else map_of (txEntries samplePool) t)"
    by (auto simp: sample_raw sampleBlock_read sampleTx_e_def)
  then have "''0x7'' \<in> Txid_tx ` set (Txs_blk block)" by (auto simp: list_all2_Cons1 sampleTx_e_def dest!: ethTxToTx_Txid)
  with b r samplePool_ok(2) show ?thesis by auto
qed


section \<open>JSON of a transaction\<close>

lemma readTransaction_write: "readTransaction (writeTransaction t) = Inr t"
  by (cases "BlockHash t = ''''") (simp_all add: readTransaction_def writeTransaction_def read_defs)

lemma readLog_write: "readLog (writeLog l) = Inr l"
proof -
  have "rmap readString (map JString ts) = Inr ts" for ts by (induction ts) (simp_all add: readString_def)
  then show ?thesis by (simp add: readLog_def writeLog_def read_defs)
qed

text \<open>The JSON text that \<open>GetTransactionSpecific\<close> gives holds the transaction and the receipt.\<close>

lemma readReceipt_write: "readReceipt (writeReceipt r) = Inr r"
proof -
  have "rmap readLog (map writeLog ls) = Inr ls" for ls by (induction ls) (simp_all add: readLog_write)
  then show ?thesis by (simp add: readReceipt_def writeReceipt_def read_defs)
qed

section \<open>Notifications\<close>

text \<open>A transaction that the node returns is put into the mempool without a look at its confirmations: one that was mined before the client asked for it enters, and no later block
  removes it.\<close>

lemma fillMempool_adds:
  assumes "fillMempool t txid (Inr tx) b = (Inr (), b')"
  shows "\<exists>m'. Mempool_e b' = Some m' \<and> map_of (txEntries m') txid \<noteq> None"
proof -
  obtain m m' where m: "Mempool_e b = Some m" "AddTransactionToMempool (mempoolEnv (Parser_e b) (onNewTxAddr_e b) (Inr tx)) t txid m = Inr m'"
    "Mempool_e b' = Some m'"
    using assms by (auto simp: fillMempool_def split: option.splits sum.splits)
  have "\<exists>entry ns. x = Some (entry, ns)" if "createTxEntry (mempoolEnv p o' (Inr tx)) txid tm = Inr x" for p o' tm x
    using that by (auto simp: createTxEntry_def mempoolEnv_def rbind_eq_Inr_iff Let_def)
  then obtain entry ns where "map_of (txEntries m) txid = None \<Longrightarrow>
      createTxEntry (mempoolEnv (Parser_e b) (onNewTxAddr_e b) (Inr tx)) txid (of_int (t div 10 ^ 9)) = Inr (Some (entry, ns))"
    using m(2) unfolding AddTransactionToMempool_def by (cases "map_of (txEntries m) txid") (force simp: rbind_eq_Inr_iff)+
  then have "map_of (txEntries m') txid \<noteq> None" if "map_of (txEntries m) txid = None"
    using m(2) that by (auto simp: AddTransactionToMempool_def withBase_def addEntry_def Let_def)
  moreover have "m' = m" if "map_of (txEntries m) txid \<noteq> None"
    using m(2) that by (simp add: AddTransactionToMempool_def)
  ultimately show ?thesis using m(3) by blast
qed

text \<open>When a subscription could not be renewed, \<open>Shutdown\<close> does not end the goroutine that renews it; as long as the node refuses, it tries forever.\<close>

lemma failed_renewal_not_ended:
  "fst (EthSubscribe E ''newHeads'' (node_e b)) = Inl e \<Longrightarrow> subscribeNewHeads E b = (r, b') \<Longrightarrow> ''newHeads'' \<notin> set (fst (Shutdown_eth b'))"
  by (auto simp: subscribeNewHeads_def Shutdown_eth_def abind_def annotated_def Annotatef_def onNode_def split: prod.splits sum.splits)

lemma renewal_goes_on:
  assumes "\<And>w. isl (fst (f w))"
  shows "fst (fold (subscribeLoop f) (replicate k TimerFired) (Retrying, w)) = Retrying"
proof (induction k arbitrary: w)
  case (Suc k)
  obtain e w' where "f w = (Inl e, w')" using assms[of w] by (cases "f w") (auto simp: isl_def)
  then show ?case using Suc.IH[of w'] by (simp add: subscribeLoop_def)
qed simp

end
