(* ===== verification/Main_Program.thy ===== *)
theory Main_Program
  imports Eth_RPC System_Info
begin

text \<open>
  The program (\<open>blockbook.go\<close>) and the message queue (\<open>bchain/mq.go\<close>): the rollback, the loop that debounces requests, the actions of the three loops, the handling of notifications and the
  shutdown.

  The loops, the handler of notifications and the main function run as goroutines. \<open>tickAndDebounce\<close> is a step relation with a clock: time passes until the timer is due, and the
  loop takes a request or the timer. The shutdown is a step relation of the three goroutines. Channels are unbuffered. Logging and metrics are left out.
\<close>

section \<open>Rollback\<close>

text \<open>The loop over heights is on unsigned numbers; \<open>None\<close> means that it does not end.\<close>

partial_function (option) rollbackHashes ::
    "'s packages \<Rightarrow> 's RocksDB \<Rightarrow> uint32 \<Rightarrow> uint32 \<Rightarrow> string list \<Rightarrow> (go_error + string list) option" where
  "rollbackHashes E d limit height hashes =
     (if limit \<le> height then
        (case Rocks_DB.GetBlockHash E height d of
           Inl e \<Rightarrow> Some (Inl e)
         | Inr hash \<Rightarrow> rollbackHashes E d limit (height - 1) (hashes @ [hash]))
      else Some (Inr hashes))"

definition performRollback :: "'s packages \<Rightarrow> int \<Rightarrow> ('s, 'c) SyncWorker \<Rightarrow> (go_error + ('s, 'c) SyncWorker) option" where
  "performRollback E rollbackHeight w =
     (case GetBestBlock E (db_sw w) of
        Inl e \<Rightarrow> Some (Inl e)
      | Inr (bestHeight, bestHash) \<Rightarrow>
          if bestHeight < of_int rollbackHeight then Some (Inr w)
          else
            (case rollbackHashes E (db_sw w) (of_int rollbackHeight) (bestHeight - 1) [bestHash] of
               None \<Rightarrow> None
             | Some (Inl e) \<Rightarrow> Some (Inl e)
             | Some (Inr hashes) \<Rightarrow> Some (DisconnectBlocks E (of_int rollbackHeight) bestHeight w)))"

section \<open>Debounced loop\<close>

text \<open>\<open>runs\<close>: the calls of the action, each with the times of its start and its end. \<open>timer\<close>: the time at which the timer is due.\<close>

record debouncer =
  clock :: int
  timer :: int
  firstDebounce :: "int option"
  runs :: "(int \<times> int) list"
  stopped :: bool

definition startDebounce :: "int \<Rightarrow> int \<Rightarrow> debouncer" where
  "startDebounce tickTime t = \<lparr> clock = t, timer = t + tickTime, firstDebounce = None, runs = [], stopped = False \<rparr>"

definition onRequest_db :: "int \<Rightarrow> debouncer \<Rightarrow> debouncer" where
  "onRequest_db debounceTime s =
     (let t = clock s; f = (case firstDebounce s of Some f \<Rightarrow> f | None \<Rightarrow> t) in
      s\<lparr> firstDebounce := Some f, timer := (if t < f + debounceTime then t + debounceTime else t) \<rparr>)"

definition onTimer_db :: "int \<Rightarrow> bool \<Rightarrow> int \<Rightarrow> debouncer \<Rightarrow> debouncer" where
  "onTimer_db tickTime inShutdown t' s =
     (if inShutdown then s\<lparr> timer := clock s + tickTime, firstDebounce := None \<rparr>
      else s\<lparr> runs := runs s @ [(clock s, t')], clock := t', timer := t' + tickTime, firstDebounce := None \<rparr>)"

text \<open>An action that starts when the timer is due may take any time; meanwhile the senders of requests wait.\<close>

inductive debounce_step :: "int \<Rightarrow> int \<Rightarrow> debouncer \<Rightarrow> debouncer \<Rightarrow> bool" for tickTime debounceTime where
  time_passes: "\<not> stopped s \<Longrightarrow> clock s \<le> t \<Longrightarrow> t \<le> timer s \<Longrightarrow> debounce_step tickTime debounceTime s (s\<lparr> clock := t \<rparr>)"
| request: "\<not> stopped s \<Longrightarrow> debounce_step tickTime debounceTime s (onRequest_db debounceTime s)"
| timer_due: "\<not> stopped s \<Longrightarrow> clock s = timer s \<Longrightarrow> clock s \<le> t' \<Longrightarrow> debounce_step tickTime debounceTime s (onTimer_db tickTime inShutdown t' s)"
| input_closed: "\<not> stopped s \<Longrightarrow> debounce_step tickTime debounceTime s (s\<lparr> stopped := True \<rparr>)"

definition lastEnd :: "int \<Rightarrow> debouncer \<Rightarrow> int" where
  "lastEnd t0 s = (if runs s = [] then t0 else snd (last (runs s)))"

definition debounce_inv :: "int \<Rightarrow> int \<Rightarrow> int \<Rightarrow> debouncer \<Rightarrow> bool" where
  "debounce_inv t0 tickTime debounceTime s \<longleftrightarrow> clock s \<le> timer s \<and> lastEnd t0 s \<le> clock s \<and>
     lastEnd t0 s + min tickTime debounceTime \<le> timer s \<and> (\<forall>f. firstDebounce s = Some f \<longrightarrow> lastEnd t0 s \<le> f \<and> f \<le> clock s \<and> timer s < f + 2 * debounceTime) \<and>
     sorted_wrt (\<lambda>a b. snd a + min tickTime debounceTime \<le> fst b) (runs s) \<and> (\<forall>r \<in> set (runs s). fst r \<le> snd r)"

section \<open>Properties of the rollback\<close>

lemma rollbackHashes_returns:
  assumes "0 < limit" and "\<And>h. \<exists>s. Rocks_DB.GetBlockHash E h d = Inr s"
  shows "\<exists>hs. rollbackHashes E d limit height hashes = Some (Inr hs)"
proof (induction "unat height" arbitrary: height hashes rule: less_induct)
  case less
  obtain hash where h: "Rocks_DB.GetBlockHash E height d = Inr hash" using assms(2) by blast
  show ?case
  proof (cases "limit \<le> height")
    case True
    then have "0 < height" using assms(1) by (meson order_less_le_trans)
    then have "unat (height - 1) < unat height" by (simp add: unat_minus_one word_neq_0_conv unat_gt_0)
    from less[OF this, of "hashes @ [hash]"] show ?thesis
      by (subst rollbackHashes.simps) (simp add: True h)
  next
    case False
    then show ?thesis by (subst rollbackHashes.simps) simp
  qed
qed

lemma rollbackHashes_Some:
  "rollbackHashes E d limit height hashes = Some r \<Longrightarrow> limit = 0 \<longrightarrow> (\<exists>h. isl (Rocks_DB.GetBlockHash E h d))"
  by (erule rollbackHashes.raw_induct[where P = "\<lambda>E d limit height hashes r. limit = 0 \<longrightarrow> (\<exists>h. isl (Rocks_DB.GetBlockHash E h d))", rotated])
    (auto simp: isl_def split: sum.split_asm)

lemma rollbackHashes_to_zero:
  assumes "\<And>h. \<exists>s. Rocks_DB.GetBlockHash E h d = Inr s"
  shows "rollbackHashes E d 0 height hashes = None"
  using rollbackHashes_Some[of E d 0 height hashes] assms by (cases "rollbackHashes E d 0 height hashes") (auto simp: isl_def, metis sum.distinct(1))

text \<open>C17: What a rollback does to an index that holds a chain up to its best block. To a height above the best block: nothing. To a height from 1 to the best block: it disconnects
  the blocks from this height on, and returns what that returns; when it succeeds, exactly the blocks below the height remain. To height 0: it never returns.\<close>

theorem rollback_result:
  assumes "reliable_store (rocks E) contents" and "vlq_codec (vlq E)" and "indexed E contents (localChain info best) (db_sw w)"
    and "GetChainType (chainParser (db_sw w)) = ChainBitcoinType" and "limit = of_int rollbackHeight"
  shows "(best < limit \<longrightarrow> performRollback E rollbackHeight w = Some (Inr w)) \<and>
    (0 < limit \<and> limit \<le> best \<longrightarrow> performRollback E rollbackHeight w = Some (DisconnectBlocks E limit best w) \<and>
      (\<forall>w'. performRollback E rollbackHeight w = Some (Inr w') \<longrightarrow> indexed E contents (localChain info (limit - 1)) (db_sw w'))) \<and>
    (limit = 0 \<longrightarrow> performRollback E rollbackHeight w = None)"
proof -
  note R = reliable_store.axioms(1)[OF assms(1)]
  have best: "GetBestBlock E (db_sw w) = Inr (best, Hash_bi (info best))" by (rule best_of_localChain[OF R assms(2,3)])
  have hash: "\<exists>s. Rocks_DB.GetBlockHash E h (db_sw w) = Inr s" for h
    using GetBlockHash_represents[OF assms(1,2) assms(3)[unfolded indexed_def]] by blast
  have 1: "performRollback E rollbackHeight w = Some (DisconnectBlocks E limit best w)" if "0 < limit" "limit \<le> best"
    using rollbackHashes_returns[OF that(1) hash, of "best - 1" "[Hash_bi (info best)]"] that assms(5) best by (auto simp: performRollback_def not_less)
  have 2: "indexed E contents (localChain info (limit - 1)) (db_sw w')"
    if "0 < limit" "limit \<le> best" "performRollback E rollbackHeight w = Some (Inr w')" for w'
  proof -
    have "DisconnectBlocks E limit best w = Inr w'" using 1[OF that(1,2)] that(3) by simp
    then have "indexed E contents (\<lambda>h. if h \<in> {limit..best} then None else localChain info best h) (db_sw w')"
      using DisconnectBlocks_indexed[OF R assms(4,3)] by blast
    moreover have "(\<lambda>h. if h \<in> {limit..best} then None else localChain info best h) = localChain info (limit - 1)"
    proof
      fix h
      have "limit \<noteq> 0" "0 < unat limit" using that(1) by (auto simp: word_less_nat_alt)
      then have "h \<le> limit - 1 \<longleftrightarrow> h < limit" by (auto simp: word_le_nat_alt word_less_nat_alt unat_minus_one)
      then show "(if h \<in> {limit..best} then None else localChain info best h) = localChain info (limit - 1) h"
        using that(2) by (auto simp: localChain_def)
    qed
    ultimately show ?thesis by simp
  qed
  have 3: "performRollback E rollbackHeight w = None" if "limit = 0"
    using rollbackHashes_to_zero[OF hash] that assms(5) best by (simp add: performRollback_def)
  have 4: "performRollback E rollbackHeight w = Some (Inr w)" if "best < limit"
    using that assms(5) best by (simp add: performRollback_def)
  show ?thesis using 1 2 3 4 by blast
qed

theorem rollback_result_witness:
  "performRollback memPackages 0 (sampleWorker forkedDB) = None \<and> performRollback memPackages 2 (sampleWorker forkedDB) = Some (Inr (sampleWorker forkedDB)) \<and>
   performRollback memPackages 1 (sampleWorker forkedDB) = Some (DisconnectBlocks memPackages 1 1 (sampleWorker forkedDB))"
proof -
  have i: "indexed memPackages mem_contents (localChain forkedInfo 1) (db_sw (sampleWorker forkedDB))"
    and c: "GetChainType (chainParser (db_sw (sampleWorker forkedDB))) = ChainBitcoinType"
    using forkedDB_indexed by (simp, simp add: forkedDB_def sampleDB_def)
  note r = rollback_result[OF mem_reliable i c refl]
  show ?thesis using r[of 0] r[of 1] r[of 2] by simp
qed

section \<open>Properties of the debounced loop\<close>

lemma debounce_inv_start: "0 \<le> tickTime \<Longrightarrow> 0 < debounceTime \<Longrightarrow> debounce_inv t0 tickTime debounceTime (startDebounce tickTime t0)"
  by (simp add: debounce_inv_def startDebounce_def lastEnd_def)

lemma debounce_inv_step:
  assumes "0 \<le> tickTime" and "0 < debounceTime" and "debounce_step tickTime debounceTime s s'" and "debounce_inv t0 tickTime debounceTime s"
  shows "debounce_inv t0 tickTime debounceTime s'"
  using assms(3)
proof cases
  case (time_passes t)
  then show ?thesis using assms(4) by (fastforce simp: debounce_inv_def lastEnd_def)
next
  case request
  then show ?thesis using assms(1,2,4) by (cases "firstDebounce s") (auto simp: debounce_inv_def lastEnd_def onRequest_db_def Let_def)
next
  case (timer_due t' inShutdown)
  show ?thesis
  proof (cases inShutdown)
    case True
    then show ?thesis using timer_due assms by (auto simp: debounce_inv_def lastEnd_def onTimer_db_def)
  next
    case False
    have "snd r + min tickTime debounceTime \<le> clock s" if r: "r \<in> set (runs s)" for r
    proof -
      from r have "runs s \<noteq> []" by auto
      then obtain rs l where rs: "runs s = rs @ [l]" by (metis append_butlast_last_id)
      then have l: "snd l + min tickTime debounceTime \<le> clock s" "fst l \<le> snd l" "\<forall>q \<in> set rs. snd q + min tickTime debounceTime \<le> fst l"
        using timer_due(3) assms(4) by (auto simp: debounce_inv_def lastEnd_def sorted_wrt_append)
      then show ?thesis using r rs assms(1,2) by fastforce
    qed
    then show ?thesis using False timer_due assms by (auto simp: debounce_inv_def lastEnd_def onTimer_db_def sorted_wrt_append)
  qed
next
  case input_closed
  then show ?thesis using assms(4) by (auto simp: debounce_inv_def lastEnd_def)
qed




section \<open>Start\<close>

text \<open>\<open>f\<close> is \<open>coins.NewBlockChain\<close> for the configured coin, \<open>sig\<close> whether a signal comes within the second before the next attempt; the first argument is the number of attempts that
  may still follow.\<close>

fun retryBlockChain :: "nat \<Rightarrow> ('c, 'a) action \<Rightarrow> ('c \<Rightarrow> bool \<times> 'c) \<Rightarrow> ('c, 'a) action" where
  "retryBlockChain 0 f sig c = f c"
| "retryBlockChain (Suc n) f sig c =
     (case f c of
        (Inr x, c) \<Rightarrow> (Inr x, c)
      | (Inl e, c) \<Rightarrow>
          if is_panic e then (Inl e, c)
          else (case sig c of (True, c) \<Rightarrow> (Inl (Errorf ''Interrupted''), c) | (False, c) \<Rightarrow> retryBlockChain n f sig c))"

definition getBlockChainWithRetry :: "int \<Rightarrow> ('c, 'a) action \<Rightarrow> ('c \<Rightarrow> bool \<times> 'c) \<Rightarrow> ('c, 'a) action" where
  "getBlockChainWithRetry seconds f sig = retryBlockChain (nat seconds) f sig"

text \<open>\<open>hostname\<close> is \<open>os.Hostname()\<close>, whose error is only logged.\<close>

definition newInternalState_b :: "'s packages \<Rightarrow> string \<Rightarrow> string \<Rightarrow> string \<Rightarrow> go_error + string \<Rightarrow> 's RocksDB \<Rightarrow> go_error + InternalState" where
  "newInternalState_b E coin coinShortcut coinLabel hostname d =
     rbind (LoadInternalState E coin d) (\<lambda>st.
     Inr (st\<lparr> CoinShortcut := coinShortcut, CoinLabel := (if coinLabel = '''' then coin else coinLabel),
             Host := (case hostname of Inl _ \<Rightarrow> Host st | Inr n \<Rightarrow> n) \<rparr>))"

definition exitCodeOK :: int where "exitCodeOK = 0"

definition exitCodeFatal :: int where "exitCodeFatal = 255"

text \<open>The part of \<open>mainWithExitCode\<close> that takes the database into use: the program exits with a code or goes on with the open index. The flags that only compute statistics are left out.\<close>

datatype 'a start = Exit int | Go 'a

definition markOpen :: "'s packages \<Rightarrow> InternalState \<Rightarrow> 's RocksDB \<Rightarrow> go_error + 's RocksDB start" where
  "markOpen E st d =
     (case StoreInternalState E (st\<lparr> DbState := DbStateOpen \<rparr>) d of
        Inl e \<Rightarrow> if is_panic e then Inl e else Inr (Exit exitCodeFatal)
      | Inr (st, d) \<Rightarrow> Inr (Go (SetInternalState st d)))"

definition openIndex ::
    "'s packages \<Rightarrow> string \<Rightarrow> string \<Rightarrow> string \<Rightarrow> go_error + string \<Rightarrow> 's RocksDB \<Rightarrow> go_error + 's RocksDB start" where
  "openIndex E coin coinShortcut coinLabel hostname d =
     (case newInternalState_b E coin coinShortcut coinLabel hostname d of
        Inl e \<Rightarrow> if is_panic e then Inl e else Inr (Exit exitCodeFatal)
      | Inr st \<Rightarrow>
          if DbState st \<noteq> DbStateClosed \<and> DbState st = DbStateInconsistent then Inr (Exit exitCodeFatal)
          else markOpen E st d)"

section \<open>Actions of the loops\<close>

definition syncIndexAction :: "('w, unit) action \<Rightarrow> 'w \<Rightarrow> 'w" where
  "syncIndexAction resync w = (case resync w of (Inl _, w) \<Rightarrow> snd (resync w) | (Inr _, w) \<Rightarrow> w)"

definition syncMempoolAction :: "int \<Rightarrow> ('m, nat) action \<Rightarrow> InternalState \<times> 'm \<Rightarrow> InternalState \<times> 'm" where
  "syncMempoolAction now resync = (\<lambda>(st, m).
     let st = StartedMempoolSync st in
     case resync m of
       (Inl _, m) \<Rightarrow> (st, m)
     | (Inr n, m) \<Rightarrow> (FinishedMempoolSync now (int n) st, m))"

definition onNewBlockHash :: "(string \<Rightarrow> uint32 \<Rightarrow> 'w \<Rightarrow> 'w) list \<Rightarrow> string \<Rightarrow> uint32 \<Rightarrow> 'w \<Rightarrow> 'w" where
  "onNewBlockHash callbacks hash height w = fold (\<lambda>c. c hash height) callbacks w"

definition onNewTxAddr_b :: "(Tx \<Rightarrow> AddressDescriptor \<Rightarrow> 'w \<Rightarrow> 'w) list \<Rightarrow> Tx \<Rightarrow> AddressDescriptor \<Rightarrow> 'w \<Rightarrow> 'w" where
  "onNewTxAddr_b callbacks tx desc w = fold (\<lambda>c. c tx desc) callbacks w"

text \<open>The variables of \<open>storeInternalStateLoop\<close>, times in nanoseconds. The action starts the computation of column statistics, stores the state and reports the application. The
  result says whether the computation starts and whether the application is reported.\<close>

record store_loop =
  computeRunning :: bool
  lastCompute :: int
  lastAppInfo :: int

definition storeAction :: "int \<Rightarrow> int \<Rightarrow> int \<Rightarrow> store_loop \<Rightarrow> bool \<times> bool \<times> store_loop" where
  "storeAction dbStatsPeriodHours computePeriod now s =
     (let compute = dbStatsPeriodHours > 0 \<and> \<not> computeRunning s \<and> lastCompute s + computePeriod < now;
          app = lastAppInfo s + 15 * 60 * 10 ^ 9 < now in
      (compute, app, s\<lparr> computeRunning := computeRunning s \<or> compute, lastAppInfo := (if app then now else lastAppInfo s) \<rparr>))"

definition computeDone :: "int \<Rightarrow> store_loop \<Rightarrow> store_loop" where
  "computeDone now s = s\<lparr> lastCompute := now, computeRunning := False \<rparr>"

section \<open>Notifications and shutdown\<close>

text \<open>The notification for a message of the queue, if there is one.\<close>

definition mqNotification :: "string list \<Rightarrow> NotificationType option" where
  "mqNotification msg =
     (if length msg \<ge> 3 then
        Some (if msg ! 0 = ''hashblock'' then NotificationNewBlock else if msg ! 0 = ''hashtx'' then NotificationNewTx else NotificationUnknown)
      else None)"

datatype sync_chan = ChanSyncIndex | ChanSyncMempool

definition pushSynchronizationHandler :: "bool \<Rightarrow> NotificationType \<Rightarrow> sync_chan option" where
  "pushSynchronizationHandler inShutdown nt =
     (if inShutdown then None
      else if nt = NotificationNewBlock then Some ChanSyncIndex
      else if nt = NotificationNewTx then Some ChanSyncMempool
      else None)"

text \<open>
  The goroutines at the end of the program: the one that calls the handler of notifications, one of the two synchronisation loops, and the main function in
  \<open>waitForSignalAndShutdown\<close> and after it. \<open>recovers\<close>: whether the first recovers from a panic, as the loop of the message queue does; the goroutines of the ethereum client
  do not. A send on a closed channel panics.
\<close>

datatype notifier = Listening | SendingRequest | NotifierEnded

datatype loop_state = Selecting | Running | LoopDone

datatype main_state = WaitSignal | ShuttingDown | WaitLoops | MainExited

record shutdown_state =
  notifier_s :: notifier
  loop_s :: loop_state
  main_s :: main_state
  inShutdown_s :: bool
  chanClosed :: bool
  crashed :: bool

definition startShutdown :: shutdown_state where
  "startShutdown = \<lparr> notifier_s = Listening, loop_s = Selecting, main_s = WaitSignal, inShutdown_s = False, chanClosed = False, crashed = False \<rparr>"

inductive shutdown_step :: "bool \<Rightarrow> shutdown_state \<Rightarrow> shutdown_state \<Rightarrow> bool" for recovers where
  notification: "\<not> crashed s \<Longrightarrow> notifier_s s = Listening \<Longrightarrow> pushSynchronizationHandler (inShutdown_s s) nt = Some c \<Longrightarrow>
    shutdown_step recovers s (s\<lparr> notifier_s := SendingRequest \<rparr>)"
| delivered: "\<not> crashed s \<Longrightarrow> notifier_s s = SendingRequest \<Longrightarrow> \<not> chanClosed s \<Longrightarrow> loop_s s = Selecting \<Longrightarrow>
    shutdown_step recovers s (s\<lparr> notifier_s := Listening \<rparr>)"
| send_on_closed: "\<not> crashed s \<Longrightarrow> notifier_s s = SendingRequest \<Longrightarrow> chanClosed s \<Longrightarrow>
    shutdown_step recovers s (s\<lparr> notifier_s := NotifierEnded, crashed := \<not> recovers \<rparr>)"
| action_starts: "\<not> crashed s \<Longrightarrow> loop_s s = Selecting \<Longrightarrow> \<not> inShutdown_s s \<Longrightarrow> shutdown_step recovers s (s\<lparr> loop_s := Running \<rparr>)"
| action_ends: "\<not> crashed s \<Longrightarrow> loop_s s = Running \<Longrightarrow> shutdown_step recovers s (s\<lparr> loop_s := Selecting \<rparr>)"
| loop_ends: "\<not> crashed s \<Longrightarrow> loop_s s = Selecting \<Longrightarrow> chanClosed s \<Longrightarrow> shutdown_step recovers s (s\<lparr> loop_s := LoopDone \<rparr>)"
| signal: "\<not> crashed s \<Longrightarrow> main_s s = WaitSignal \<Longrightarrow> shutdown_step recovers s (s\<lparr> main_s := ShuttingDown, inShutdown_s := True \<rparr>)"
| close_channel: "\<not> crashed s \<Longrightarrow> main_s s = ShuttingDown \<Longrightarrow> shutdown_step recovers s (s\<lparr> main_s := WaitLoops, chanClosed := True \<rparr>)"
| main_exits: "\<not> crashed s \<Longrightarrow> main_s s = WaitLoops \<Longrightarrow> loop_s s = LoopDone \<Longrightarrow> shutdown_step recovers s (s\<lparr> main_s := MainExited \<rparr>)"

definition normalizeName :: "string \<Rightarrow> string" where
  "normalizeName s = map (\<lambda>c. if c = CHR '' '' then CHR ''-'' else c) (ToLower s)"

section \<open>Properties of the shutdown\<close>

definition shutdown_inv :: "bool \<Rightarrow> shutdown_state \<Rightarrow> bool" where
  "shutdown_inv recovers s \<longleftrightarrow> inShutdown_s s = (main_s s \<noteq> WaitSignal) \<and> chanClosed s = (main_s s = WaitLoops \<or> main_s s = MainExited) \<and>
     (loop_s s = LoopDone \<longrightarrow> chanClosed s) \<and> (main_s s = MainExited \<longrightarrow> loop_s s = LoopDone) \<and> (recovers \<longrightarrow> \<not> crashed s)"

lemma shutdown_inv_start: "shutdown_inv recovers startShutdown"
  by (simp add: shutdown_inv_def startShutdown_def)

lemma shutdown_inv_step: "shutdown_step recovers s s' \<Longrightarrow> shutdown_inv recovers s \<Longrightarrow> shutdown_inv recovers s'"
  by (induction rule: shutdown_step.induct) (auto simp: shutdown_inv_def)

lemma shutdown_inv_reachable: "(shutdown_step recovers)\<^sup>*\<^sup>* startShutdown s \<Longrightarrow> shutdown_inv recovers s"
  by (induction rule: rtranclp_induct) (auto intro: shutdown_inv_start shutdown_inv_step)

definition shutdownWeight :: "shutdown_state \<Rightarrow> nat" where
  "shutdownWeight s = (case main_s s of WaitSignal \<Rightarrow> 3 | ShuttingDown \<Rightarrow> 2 | WaitLoops \<Rightarrow> 1 | MainExited \<Rightarrow> 0) +
     (case loop_s s of Running \<Rightarrow> 2 | Selecting \<Rightarrow> 1 | LoopDone \<Rightarrow> 0) + (if notifier_s s = SendingRequest then 1 else 0)"

lemma shutdown_step_weight: "shutdown_step recovers s s' \<Longrightarrow> inShutdown_s s \<Longrightarrow> inShutdown_s s' \<and> shutdownWeight s' < shutdownWeight s"
  by (induction rule: shutdown_step.induct) (auto simp: shutdownWeight_def pushSynchronizationHandler_def)

lemma shutdown_goes_on:
  assumes "shutdown_inv recovers s" and "inShutdown_s s" and "\<not> crashed s" and "main_s s \<noteq> MainExited"
  shows "\<exists>s'. shutdown_step recovers s s'"
proof (cases "main_s s")
  case ShuttingDown
  then show ?thesis using close_channel assms(3) by blast
next
  case WaitLoops
  then have c: "chanClosed s" using assms(1) by (simp add: shutdown_inv_def)
  show ?thesis
    by (cases "loop_s s") (use WaitLoops c assms(3) loop_ends action_ends main_exits in blast)+
qed (use assms in \<open>auto simp: shutdown_inv_def\<close>)


text \<open>A notification that was accepted before the signal and waits for a loop that is busy is a send on a closed channel when the main function stops waiting: without a recover
  the program crashes before the database is closed.\<close>

theorem shutdown_can_crash: "\<exists>s. (shutdown_step False)\<^sup>*\<^sup>* startShutdown s \<and> crashed s \<and> main_s s \<noteq> MainExited"
proof -
  let ?s = "\<lambda>n l m i c x. \<lparr> notifier_s = n, loop_s = l, main_s = m, inShutdown_s = i, chanClosed = c, crashed = x \<rparr>"
  let ?R = "shutdown_step False"
  have "?R startShutdown (?s Listening Running WaitSignal False False False)"
    using action_starts[of startShutdown False] by (simp add: startShutdown_def)
  moreover have "?R (?s Listening Running WaitSignal False False False) (?s SendingRequest Running WaitSignal False False False)"
    using notification[of "?s Listening Running WaitSignal False False False" NotificationNewBlock ChanSyncIndex False] by (simp add: pushSynchronizationHandler_def)
  moreover have "?R (?s SendingRequest Running WaitSignal False False False) (?s SendingRequest Running ShuttingDown True False False)"
    using signal[of "?s SendingRequest Running WaitSignal False False False" False] by simp
  moreover have "?R (?s SendingRequest Running ShuttingDown True False False) (?s SendingRequest Running WaitLoops True True False)"
    using close_channel[of "?s SendingRequest Running ShuttingDown True False False" False] by simp
  moreover have "?R (?s SendingRequest Running WaitLoops True True False) (?s NotifierEnded Running WaitLoops True True True)"
    using send_on_closed[of "?s SendingRequest Running WaitLoops True True False" False] by simp
  ultimately have "?R\<^sup>*\<^sup>* startShutdown (?s NotifierEnded Running WaitLoops True True True)"
    by (meson converse_rtranclp_into_rtranclp rtranclp.rtrancl_refl)
  then show ?thesis by (intro exI[of _ "?s NotifierEnded Running WaitLoops True True True"]) simp
qed


section \<open>Taking the database into use\<close>

text \<open>What the program relies on from the JSON form of the internal state: the state of the database and the coin are read back.\<close>

locale state_json =
  fixes E :: "'s packages"
  assumes read_back: "MarshalState E st = Inr buf \<Longrightarrow> buf \<noteq> [] \<and> (\<exists>st'. UnmarshalState E buf = Inr st' \<and> DbState st' = DbState st \<and> Coin st' = Coin st)"
begin

lemma loadColumns_error: "loadColumns nms sc = Inl e \<Longrightarrow> \<not> is_panic e"
proof (induction nms)
  case (Cons nm nms)
  have "loadColumn nm sc = Inl e' \<Longrightarrow> \<not> is_panic e'" for e' by (induction nm sc rule: loadColumn.induct) (auto split: if_splits)
  then show ?case using Cons by (auto simp: rbind_def split: sum.splits)
qed simp

lemma load_stored:
  assumes R: "reliable_store (rocks E) contents" and m: "MarshalState E st = Inr buf"
    and c: "contents (db d) cfDefault internalStateKey = Some buf" and "GetChainType (chainParser d) \<in> {ChainBitcoinType, ChainEthereumType}"
  shows "(\<exists>e. LoadInternalState E coin d = Inl e \<and> \<not> is_panic e) \<or> (\<exists>st'. LoadInternalState E coin d = Inr st' \<and> DbState st' = DbState st)"
proof -
  obtain st' where st': "buf \<noteq> []" "UnmarshalState E buf = Inr st'" "DbState st' = DbState st" using read_back[OF m] by blast
  obtain names where n: "cfNames (GetChainType (chainParser d)) = Inr names" using assms(4) by (auto simp: cfNames_def)
  have "getData E d cfDefault internalStateKey = Inr buf" using c reliable_store.GetCF_eq[OF R] by (simp add: getData_def)
  with st' n show ?thesis
    by (cases "loadColumns names (DbColumns st')") (auto simp: LoadInternalState_def loadColumns_error)
qed

lemma inconsistent_refused:
  assumes R: "reliable_store (rocks E) contents" and s: "SetInconsistentState E True d = Inr d1"
    and same: "contents (db d2) cfDefault internalStateKey = contents (db d1) cfDefault internalStateKey"
    and ct: "GetChainType (chainParser d2) \<in> {ChainBitcoinType, ChainEthereumType}"
  shows "openIndex E coin sc lb host d2 = Inr (Exit exitCodeFatal)"
proof -
  obtain st s1 buf where m: "MarshalState E (st\<lparr> DbState := DbStateInconsistent, LastStore := packages.Now E \<rparr>) = Inr buf"
    and p: "PutCF (rocks E) (db d) cfDefault internalStateKey buf = Inr s1" "db d1 = s1"
    using s by (auto simp: SetInconsistentState_def storeState_def Let_def rbind_eq_Inr_iff split: option.splits)
  have "contents (db d1) cfDefault internalStateKey = Some buf"
    using rocks_store.PutCF_contents[OF reliable_store.axioms(1)[OF R] p(1)] p(2) by simp
  with load_stored[OF R m, of d2 coin] same ct
  have "(\<exists>e. LoadInternalState E coin d2 = Inl e \<and> \<not> is_panic e) \<or> (\<exists>st'. LoadInternalState E coin d2 = Inr st' \<and> DbState st' = DbStateInconsistent)" by simp
  then show ?thesis by (auto simp: openIndex_def newInternalState_b_def DbStateInconsistent_def DbStateClosed_def)
qed

end

text \<open>A packing of the two fields, as an instance of the contract.\<close>

definition statePackages :: "mem packages" where
  "statePackages = memPackages\<lparr>
     MarshalState := (\<lambda>st. Inr (packUint (DbState st) @ map (\<lambda>c. of_nat (of_char c)) (Coin st))),
     UnmarshalState := (\<lambda>buf. rbind (unpackUint (take 4 buf)) (\<lambda>n. Inr ((newInternalState (map (\<lambda>b. char_of (unat b)) (drop 4 buf)))\<lparr> DbState := n \<rparr>))) \<rparr>"

lemma bytes_string: "map (\<lambda>b. char_of (unat b)) (map (\<lambda>c. of_nat (of_char c) :: byte) s) = s"
  by (induction s) (simp_all add: unat_of_nat take_bit_eq_mod)

interpretation sjson: state_json statePackages
proof
  fix st buf
  assume "MarshalState statePackages st = Inr buf"
  then have b: "buf = packUint (DbState st) @ map (\<lambda>c. of_nat (of_char c)) (Coin st)" by (simp add: statePackages_def)
  then have "UnmarshalState statePackages buf = Inr ((newInternalState (Coin st))\<lparr> DbState := DbState st \<rparr>)"
    using bytes_string[of "Coin st"] by (simp add: statePackages_def)
  moreover have "buf \<noteq> []" unfolding b by (metis append_is_Nil_conv length_packUint list.size(3) zero_neq_numeral)
  ultimately show "buf \<noteq> [] \<and> (\<exists>st'. UnmarshalState statePackages buf = Inr st' \<and> DbState st' = DbState st \<and> Coin st' = Coin st)"
    by (simp add: newInternalState_def)
qed

text \<open>C16: A database that a crash left in the middle of a bulk import is refused. When the bulk mode began and the record of the internal state is as it was then, the next start exits with the
  fatal code.\<close>

theorem crashed_bulk_import_refused:
  assumes "reliable_store (rocks E) contents" and "state_json E" and "InitBulkConnect E d = Inr b"
    and "contents (db d2) cfDefault internalStateKey = contents (db (d_bc b)) cfDefault internalStateKey"
    and "GetChainType (chainParser d2) \<in> {ChainBitcoinType, ChainEthereumType}"
  shows "openIndex E coin coinShortcut coinLabel hostname d2 = Inr (Exit exitCodeFatal)"
proof -
  obtain d1 where "SetInconsistentState E True d = Inr d1" "d_bc b = d1" using assms(3) by (auto simp: InitBulkConnect_def rbind_eq_Inr_iff)
  then show ?thesis using state_json.inconsistent_refused[OF assms(2,1)] assms(4,5) by blast
qed

theorem crashed_bulk_import_refused_witness:
  "\<exists>b. InitBulkConnect statePackages sampleDB = Inr b \<and> openIndex statePackages ''SKYR'' ''SKYR'' '''' (Inr ''host'') (d_bc b) = Inr (Exit 255)"
proof -
  obtain b where b: "InitBulkConnect statePackages sampleDB = Inr b" and p: "chainParser (d_bc b) = hexParser 300"
    by (simp add: InitBulkConnect_def SetInconsistentState_def storeState_def statePackages_def sampleDB_def memdb_def Let_def)
  have "reliable_store (rocks statePackages) mem_contents" using mem_reliable(1) by (simp add: statePackages_def)
  from crashed_bulk_import_refused[OF this sjson.state_json_axioms b refl] p b show ?thesis
    by (auto simp: exitCodeFatal_def)
qed

end
