(* ===== verification/Column_Stats.thy ===== *)
theory Column_Stats
  imports Rocks_DB
begin

text \<open>
  The statistics of the columns (\<open>computeColumnSize\<close> and \<open>ComputeInternalStateColumnStats\<close> of \<open>db/rocksdb.go\<close>). A column is read through an iterator that is opened anew after
  \<open>refreshIterator\<close> rows, at the last key that was read. \<open>stop\<close> says whether a signal is there when the code looks for one, before the row of the given number. The counters have 64 bits.

  The theorem: the loop returns the number of rows and the sums of the lengths of all keys and values, as one pass over the column would.
\<close>

definition refreshIterator :: nat where "refreshIterator = 5000000"

type_synonym column_size = "int64 \<times> int64 \<times> int64"

definition countRow :: "(int64 \<Rightarrow> bool) \<Rightarrow> bytes \<times> bytes \<Rightarrow> column_size \<Rightarrow> go_error + column_size" where
  "countRow stop = (\<lambda>(key, val) (rows, keysSum, valuesSum).
     if stop rows then Inl (Errorf ''Interrupted'')
     else Inr (rows + 1, keysSum + of_nat (length key), valuesSum + of_nat (length val)))"

text \<open>\<open>it\<close> is the column in the order of its keys. \<open>Seek\<close> goes to the first entry that is not below the key.\<close>

definition cursor :: "(bytes \<times> bytes) list \<Rightarrow> int64 \<Rightarrow> bytes \<Rightarrow> (bytes \<times> bytes) list" where
  "cursor it rows seekKey = (if rows = 0 then it else tl (dropWhile (\<lambda>(k, _). k < seekKey) it))"

partial_function (option) columnSizeLoop ::
    "(int64 \<Rightarrow> bool) \<Rightarrow> (bytes \<times> bytes) list \<Rightarrow> column_size \<Rightarrow> bytes \<Rightarrow> (go_error + column_size) option" where
  "columnSizeLoop stop it sums seekKey =
     (let cur = cursor it (fst sums) seekKey; chunk = take refreshIterator cur in
      case rfold (countRow stop) chunk sums of
        Inl e \<Rightarrow> Some (Inl e)
      | Inr sums \<Rightarrow>
          if refreshIterator < length cur then columnSizeLoop stop it sums (if chunk = [] then [] else fst (last chunk))
          else Some (Inr sums))"

definition computeColumnSize :: "'s packages \<Rightarrow> cf \<Rightarrow> (int64 \<Rightarrow> bool) \<Rightarrow> 's RocksDB \<Rightarrow> (go_error + column_size) option" where
  "computeColumnSize E c stop d = columnSizeLoop stop (IteratorCF (rocks E) (db d) c) (0, 0, 0) []"

text \<open>The columns in the order of \<open>cfNames\<close>.\<close>

definition columnsOf :: "ChainType \<Rightarrow> cf list" where
  "columnsOf ct = [cfDefault, cfHeight, cfAddresses, cfBlockTxs, cfTransactions] @
     (if ct = ChainBitcoinType then [cfAddressBalance, cfTxAddresses] else [cfAddressContracts])"

fun computeColumns :: "'s packages \<Rightarrow> (nat \<Rightarrow> int64 \<Rightarrow> bool) \<Rightarrow> (nat \<times> cf) list \<Rightarrow> 's RocksDB \<Rightarrow> (go_error + 's RocksDB) option" where
  "computeColumns E stop [] d = Some (Inr d)"
| "computeColumns E stop ((i, c) # cs) d =
     (case computeColumnSize E c (stop i) d of
        None \<Rightarrow> None
      | Some (Inl e) \<Rightarrow> Some (Inl e)
      | Some (Inr (rows, keysSum, valuesSum)) \<Rightarrow>
          (case is_d d of
             None \<Rightarrow> Some (Inl (Panic ''nil pointer dereference''))
           | Some st \<Rightarrow>
               (case SetDBColumnStats (Now E) i rows keysSum valuesSum st of
                  Inl e \<Rightarrow> Some (Inl e)
                | Inr st \<Rightarrow> computeColumns E stop cs (d\<lparr> is_d := Some st \<rparr>))))"

definition ComputeInternalStateColumnStats :: "'s packages \<Rightarrow> (nat \<Rightarrow> int64 \<Rightarrow> bool) \<Rightarrow> 's RocksDB \<Rightarrow> (go_error + 's RocksDB) option" where
  "ComputeInternalStateColumnStats E stop d = computeColumns E stop (enumerate 0 (columnsOf (GetChainType (chainParser d)))) d"

section \<open>One pass over the column\<close>

definition columnSize :: "(bytes \<times> bytes) list \<Rightarrow> column_size" where
  "columnSize it = (of_nat (length it), of_nat (sum_list (map (length \<circ> fst) it)), of_nat (sum_list (map (length \<circ> snd) it)))"

lemma rfold_countRow:
  assumes "\<And>r. \<not> stop r"
  shows "rfold (countRow stop) xs (columnSize pre) = Inr (columnSize (pre @ xs))"
proof (induction xs arbitrary: pre)
  case (Cons x xs)
  have "countRow stop x (columnSize pre) = Inr (columnSize (pre @ [x]))"
    using assms by (simp add: countRow_def columnSize_def case_prod_unfold add.commute)
  then show ?case using Cons[of "pre @ [x]"] by simp
qed simp

lemma cursor_resume:
  assumes "sorted_wrt (<) (map fst (pre @ suf))" and "length (pre @ suf) < 2 ^ 64" and "pre \<noteq> [] \<Longrightarrow> seekKey = fst (last pre)"
  shows "cursor (pre @ suf) (of_nat (length pre)) seekKey = suf"
proof (cases pre rule: rev_cases)
  case (snoc ps l)
  then have "\<forall>p \<in> set ps. fst p < seekKey" and k: "seekKey = fst l"
    using assms(1,3) by (auto simp: sorted_wrt_append)
  then have "dropWhile (\<lambda>(k, _). k < seekKey) (pre @ suf) = l # suf"
    unfolding snoc by (simp add: dropWhile_append2 case_prod_unfold)
  moreover have "of_nat (length pre) \<noteq> (0 :: int64)"
  proof
    assume "of_nat (length pre) = (0 :: int64)"
    then have "2 ^ 64 dvd length pre" by (simp add: of_nat_eq_0_iff word_of_nat_eq_0_iff)
    moreover have "0 < length pre" "length pre < 2 ^ 64" using snoc assms(2) by auto
    ultimately show False using nat_dvd_not_less by blast
  qed
  ultimately show ?thesis by (simp add: cursor_def)
qed (simp add: cursor_def)

lemma columnSizeLoop_returns:
  assumes "sorted_wrt (<) (map fst (pre @ suf))" and "length (pre @ suf) < 2 ^ 64" and "pre \<noteq> [] \<Longrightarrow> seekKey = fst (last pre)" and "\<And>r. \<not> stop r"
  shows "columnSizeLoop stop (pre @ suf) (columnSize pre) seekKey = Some (Inr (columnSize (pre @ suf)))"
  using assms
proof (induction "length suf" arbitrary: pre suf seekKey rule: less_induct)
  case less
  let ?chunk = "take refreshIterator suf"
  have cur: "cursor (pre @ suf) (fst (columnSize pre)) seekKey = suf"
    using cursor_resume[OF less.prems(1-3)] by (simp add: columnSize_def)
  have chunk: "rfold (countRow stop) ?chunk (columnSize pre) = Inr (columnSize (pre @ ?chunk))" by (rule rfold_countRow[OF less.prems(4)])
  show ?case
  proof (cases "refreshIterator < length suf")
    case True
    have split: "(pre @ ?chunk) @ drop refreshIterator suf = pre @ suf" by simp
    have ne: "?chunk \<noteq> []" using True by (auto simp: refreshIterator_def)
    have "columnSizeLoop stop ((pre @ ?chunk) @ drop refreshIterator suf) (columnSize (pre @ ?chunk)) (fst (last ?chunk)) =
        Some (Inr (columnSize ((pre @ ?chunk) @ drop refreshIterator suf)))"
    proof (rule less.hyps)
      show "length (drop refreshIterator suf) < length suf" using True by (simp add: refreshIterator_def)
    qed (use less.prems ne in \<open>simp_all only: split last_append refl if_False not_False_eq_True\<close>)
    then show ?thesis using True ne by (subst columnSizeLoop.simps) (simp add: cur chunk Let_def)
  next
    case False
    then have "?chunk = suf" by simp
    then show ?thesis using False chunk by (subst columnSizeLoop.simps) (simp add: cur Let_def)
  qed
qed

text \<open>The statistics of a column are exact. Without an interrupt the loop over the reopened iterators returns, and its result is the number of the keys of the column and the sums of the lengths of
  its keys and of its values, when the column has fewer than \<open>2\<^sup>6\<^sup>4\<close> entries.\<close>

theorem column_stats_exact:
  assumes "rocks_store (rocks E) contents" and "length (IteratorCF (rocks E) (db d) c) < 2 ^ 64" and "\<And>r. \<not> stop r"
  shows "\<exists>rows keysSum valuesSum. computeColumnSize E c stop d = Some (Inr (rows, keysSum, valuesSum)) \<and>
    rows = of_nat (card (dom (contents (db d) c))) \<and> keysSum = of_nat (\<Sum>k \<in> dom (contents (db d) c). length k) \<and>
    valuesSum = of_nat (\<Sum>k \<in> dom (contents (db d) c). length (the (contents (db d) c k)))"
proof -
  let ?it = "IteratorCF (rocks E) (db d) c"
  have dist: "distinct (map fst ?it)" and it: "map_of ?it = contents (db d) c"
    using rocks_store.IteratorCF_distinct[OF assms(1)] rocks_store.IteratorCF_contents[OF assms(1)] by blast+
  have dm: "dom (contents (db d) c) = set (map fst ?it)" by (simp add: it[symmetric] dom_map_of_conv_image_fst)
  have sums: "(\<Sum>k \<in> dom (contents (db d) c). f k) = sum_list (map (f \<circ> fst) ?it)" for f :: "bytes \<Rightarrow> nat"
    unfolding dm using sum_list_distinct_conv_sum_set[OF dist, of f] by (simp add: comp_def)
  have "(\<Sum>k \<in> dom (contents (db d) c). length (the (contents (db d) c k))) = sum_list (map (length \<circ> snd) ?it)"
    unfolding sums using dist by (intro arg_cong[of _ _ sum_list]) (auto simp: it[symmetric])
  moreover have "computeColumnSize E c stop d = Some (Inr (columnSize ?it))"
    using columnSizeLoop_returns[of "[]" ?it "[]" stop] rocks_store.IteratorCF_sorted[OF assms(1)] assms(2,3)
    by (simp add: computeColumnSize_def columnSize_def)
  moreover have "card (dom (contents (db d) c)) = length ?it" unfolding dm using distinct_card[OF dist] by simp
  ultimately show ?thesis using sums[of length] by (simp add: columnSize_def)
qed

text \<open>The height column of a database with one block.\<close>

theorem column_stats_exact_witness:
  "\<exists>keysSum valuesSum. computeColumnSize memPackages cfHeight (\<lambda>_. False) sampleInfoDB = Some (Inr (1, keysSum, valuesSum)) \<and> keysSum = 4"
proof -
  let ?c = "mem_contents (db sampleInfoDB) cfHeight"
  have dm: "dom ?c = {packUint 5}" by (auto simp: mem_contents_def sampleInfoDB_def dom_map_of_conv_image_fst)
  have "length (IteratorCF (rocks memPackages) (db sampleInfoDB) cfHeight) < 2 ^ 64"
    by (simp add: memdb_def sampleInfoDB_def)
  moreover have "rocks_store (rocks memPackages) mem_contents" using memdb.rocks_store_axioms by simp
  ultimately show ?thesis using column_stats_exact[of memPackages mem_contents sampleInfoDB cfHeight "\<lambda>_. False"] by (simp add: dm)
qed

end
