(* ===== verification/Top_Holders.thy ===== *)
theory Top_Holders
  imports Rocks_DB Api_Types Complex_Main "HOL-Library.Multiset"
begin

text \<open>
  The richest addresses: \<open>GetTop\<close> of \<open>db/rocksdb.go\<close>, and \<open>TopSum\<close> and the distribution of wealth that \<open>explorerTop\<close> of \<open>server/public.go\<close> computes.

  Floating point numbers are rational numbers here, without rounding; their formatting is a parameter. \<open>sort.Slice\<close> is not stable; the order of equal balances here is one that it may give. A
  slice expression may go beyond the length of a slice up to its capacity. The slice of addresses grows by \<open>append\<close>, which doubles the capacity of a small slice, and the elements beyond
  the length are zero values.

  The theorems: with at least 100 addresses the result has the 100 richest in order; with fewer it panics or is filled with empty entries; the four parts of the distribution add up.
\<close>

record Top =
  Num_t :: int32
  Address_t :: string
  BalanceNum_t :: rat
  Balance_t :: string
  Percentage_t :: string

definition zeroTop :: Top where
  "zeroTop = \<lparr> Num_t = 0, Address_t = '''', BalanceNum_t = 0, Balance_t = '''', Percentage_t = '''' \<rparr>"

record WealthDist =
  Dip :: string
  Amount_wd :: string
  Percentage_wd :: string

text \<open>The entry for an address, unless it is skipped. \<open>fmt8\<close> formats with eight decimals.\<close>

definition topEntry :: "'s packages \<Rightarrow> BlockChainParser \<Rightarrow> (rat \<Rightarrow> string) \<Rightarrow> bytes \<times> bytes \<Rightarrow> go_error + Top option" where
  "topEntry E p fmt8 = (\<lambda>(key, buf).
     case GetAddressesFromAddrDesc p key of
       Inl e \<Rightarrow> if is_panic e then Inl e else Inr None
     | Inr (addr, _) \<Rightarrow>
         rbind (index addr 0) (\<lambda>a.
         rbind (slice a 0 1) (\<lambda>first.
         if first = ''S'' \<or> first = ''W'' then Inr None
         else
           (case unpackAddrBalance (vlq E) buf (PackedTxidLen p) AddressBalanceDetailNoUTXO of
              Inl e \<Rightarrow> if is_panic e then Inl e else Inr None
            | Inr bal \<Rightarrow>
                let b = BalanceSat bal in
                if - (2 ^ 63) \<le> b \<and> b < 2 ^ 63 then
                  let r = of_int b / 100000000 in
                  Inr (Some \<lparr> Num_t = 0, Address_t = a, BalanceNum_t = r, Balance_t = fmt8 r, Percentage_t = '''' \<rparr>)
                else Inr None))))"

definition collectTops :: "'s packages \<Rightarrow> (rat \<Rightarrow> string) \<Rightarrow> 's RocksDB \<Rightarrow> go_error + Top list" where
  "collectTops E fmt8 d =
     rfold (\<lambda>kv tops. rbind (topEntry E (chainParser d) fmt8 kv) (\<lambda>t. Inr (case t of None \<Rightarrow> tops | Some t \<Rightarrow> tops @ [t])))
       (IteratorCF (rocks E) (db d) cfAddressBalance) []"

text \<open>The capacity of a slice of \<open>n\<close> elements that were appended one by one, for \<open>n\<close> up to 1024.\<close>

fun appendCap :: "nat \<Rightarrow> nat" where
  "appendCap 0 = 0"
| "appendCap (Suc n) = (let c = appendCap n in if n < c then c else if c = 0 then 1 else 2 * c)"

definition numberTops :: "Top list \<Rightarrow> Top list" where
  "numberTops ts = map (\<lambda>(i, t). t\<lparr> Num_t := of_nat (i + 1) \<rparr>) (enumerate 0 ts)"

definition sortTops :: "Top list \<Rightarrow> Top list" where
  "sortTops ts = sort_key (\<lambda>t. - BalanceNum_t t) ts"

definition GetTop :: "'s packages \<Rightarrow> (rat \<Rightarrow> string) \<Rightarrow> 's RocksDB \<Rightarrow> go_error + Top list" where
  "GetTop E fmt8 d =
     rbind (collectTops E fmt8 d) (\<lambda>tops.
     if tops = [] then Inr []
     else if length tops < 100 \<and> appendCap (length tops) < 100 then Inl (Panic ''slice bounds out of range'')
     else Inr (numberTops (take 100 (sortTops tops @ replicate (100 - length tops) zeroTop))))"

definition TopSum :: "nat \<Rightarrow> nat \<Rightarrow> Top list \<Rightarrow> go_error + rat" where
  "TopSum start stop tops =
     (if tops = [] then Inr 0
      else rfold (\<lambda>i s. rbind (index tops i) (\<lambda>t. Inr (s + BalanceNum_t t))) [start..<stop] 0)"

text \<open>The rows of the table of \<open>explorerTop\<close>: \<open>fmt\<close> formats an amount, \<open>pct\<close> a part of a total as a percentage.\<close>

definition wealthRow :: "(rat \<Rightarrow> string) \<Rightarrow> (rat \<Rightarrow> rat \<Rightarrow> string) \<Rightarrow> rat \<Rightarrow> string \<Rightarrow> rat \<Rightarrow> WealthDist" where
  "wealthRow fmt pct all d amount = \<lparr> Dip = d, Amount_wd = fmt amount, Percentage_wd = pct amount all \<rparr>"

definition topPercentages :: "(rat \<Rightarrow> rat \<Rightarrow> string) \<Rightarrow> rat \<Rightarrow> Top list \<Rightarrow> Top list" where
  "topPercentages pct all ts = map (\<lambda>t. t\<lparr> Percentage_t := pct (BalanceNum_t t) all \<rparr>) ts"

definition wealthDists :: "(rat \<Rightarrow> string) \<Rightarrow> (rat \<Rightarrow> rat \<Rightarrow> string) \<Rightarrow> rat \<Rightarrow> Top list \<Rightarrow> go_error + WealthDist list" where
  "wealthDists fmt pct all t =
     (let s = sum_list (map BalanceNum_t t) in
      rbind (rmap (\<lambda>i. rbind (TopSum (i * 25) ((i + 1) * 25) t) (\<lambda>a.
        Inr (wealthRow fmt pct all (''Top '' @ BigInt_String (int (i * 25 + 1)) @ ''-'' @ BigInt_String (int ((i + 1) * 25))) a))) [0..<4]) (\<lambda>rows.
      Inr (rows @ [wealthRow fmt pct all ''Top 1-100 Total'' s, wealthRow fmt pct all ''101+'' (if s > 0 then all - s else 0)])))"

section \<open>The richest addresses\<close>

lemma appendCap_power: "n \<le> 2 ^ k \<Longrightarrow> 2 ^ k < 2 * n \<Longrightarrow> appendCap n = 2 ^ k"
proof (induction n arbitrary: k)
  case (Suc n)
  show ?case
  proof (cases k)
    case 0
    then show ?thesis using Suc.prems by simp
  next
    case (Suc j)
    show ?thesis
    proof (cases "2 ^ k < 2 * n")
      case True
      then have "appendCap n = 2 ^ k" using Suc.IH Suc.prems by simp
      then show ?thesis using Suc.prems by (simp add: Let_def)
    next
      case False
      then have n: "n = 2 ^ j" using Suc.prems \<open>k = Suc j\<close> by simp
      then have "appendCap n = n" using Suc.IH[of j] by simp
      then show ?thesis using n \<open>k = Suc j\<close> by (simp add: Let_def)
    qed
  qed
qed simp

lemma appendCap_less_100:
  assumes "0 < n" and "n < 100"
  shows "appendCap n < 100 \<longleftrightarrow> n \<le> 64"
proof -
  consider "n = 1" | "n = 2" | "2 < n" "n \<le> 4" | "4 < n" "n \<le> 8" | "8 < n" "n \<le> 16" | "16 < n" "n \<le> 32" | "32 < n" "n \<le> 64" | "64 < n" "n \<le> 128"
    using assms by linarith
  then show ?thesis
    by cases (use appendCap_power[of n 0] appendCap_power[of n 1] appendCap_power[of n 2] appendCap_power[of n 3] appendCap_power[of n 4] appendCap_power[of n 5]
        appendCap_power[of n 6] appendCap_power[of n 7] in simp_all)
qed

lemma sortTops_sorted: "sorted_wrt (\<lambda>a b. BalanceNum_t b \<le> BalanceNum_t a) (sortTops ts)"
proof -
  have "sorted (map (\<lambda>t. - BalanceNum_t t) (sortTops ts))" by (simp add: sortTops_def)
  then show ?thesis by (simp add: sorted_wrt_map)
qed

text \<open>With at least 100 addresses \<open>GetTop\<close> returns the 100 richest, numbered from 1: they are in descending order of their balances, they are 100 of the
  collected entries, and no entry that is left out has more than one of them. With 1 to 64 addresses it panics. With 65 to 99 it returns 100 entries, the last of them empty.\<close>

theorem top_list_result:
  assumes "collectTops E fmt8 d = Inr tops"
  shows "(100 \<le> length tops \<longrightarrow> (\<exists>top rest. GetTop E fmt8 d = Inr (numberTops top) \<and> length top = 100 \<and> mset tops = mset (top @ rest) \<and>
      sorted_wrt (\<lambda>a b. BalanceNum_t b \<le> BalanceNum_t a) top \<and> (\<forall>t \<in> set top. \<forall>r \<in> set rest. BalanceNum_t r \<le> BalanceNum_t t))) \<and>
    (0 < length tops \<and> length tops \<le> 64 \<longrightarrow> GetTop E fmt8 d = Inl (Panic ''slice bounds out of range'')) \<and>
    (64 < length tops \<and> length tops < 100 \<longrightarrow> (\<exists>ts. GetTop E fmt8 d = Inr (numberTops (ts @ [zeroTop])) \<and> length ts = 99))"
proof (intro conjI impI)
  let ?s = "sortTops tops"
  have len: "length ?s = length tops" by (simp add: sortTops_def)
  assume n: "100 \<le> length tops"
  have "GetTop E fmt8 d = Inr (numberTops (take 100 ?s))" using assms n len by (auto simp: GetTop_def)
  moreover have "length (take 100 ?s) = 100" using n len by simp
  moreover have "mset tops = mset (take 100 ?s @ drop 100 ?s)" by (simp only: append_take_drop_id sortTops_def mset_sort)
  moreover have "sorted_wrt (\<lambda>a b. BalanceNum_t b \<le> BalanceNum_t a) (take 100 ?s @ drop 100 ?s)" using sortTops_sorted by simp
  ultimately show "\<exists>top rest. GetTop E fmt8 d = Inr (numberTops top) \<and> length top = 100 \<and> mset tops = mset (top @ rest) \<and>
      sorted_wrt (\<lambda>a b. BalanceNum_t b \<le> BalanceNum_t a) top \<and> (\<forall>t \<in> set top. \<forall>r \<in> set rest. BalanceNum_t r \<le> BalanceNum_t t)"
    unfolding sorted_wrt_append by blast
next
  assume "0 < length tops \<and> length tops \<le> 64"
  then show "GetTop E fmt8 d = Inl (Panic ''slice bounds out of range'')" using assms appendCap_less_100[of "length tops"] by (auto simp: GetTop_def)
next
  let ?s = "sortTops tops"
  have len: "length ?s = length tops" by (simp add: sortTops_def)
  assume n: "64 < length tops \<and> length tops < 100"
  then have "GetTop E fmt8 d = Inr (numberTops (?s @ replicate (100 - length tops) zeroTop))"
    using assms appendCap_less_100[of "length tops"] len by (auto simp: GetTop_def)
  moreover have "replicate (100 - length tops) zeroTop = replicate (99 - length tops) zeroTop @ [zeroTop]"
  proof -
    have "100 - length tops = Suc (99 - length tops)" using n by linarith
    then show ?thesis by (simp only: replicate_Suc replicate_append_same)
  qed
  ultimately show "\<exists>ts. GetTop E fmt8 d = Inr (numberTops (ts @ [zeroTop])) \<and> length ts = 99"
    using n len by (intro exI[of _ "?s @ replicate (99 - length tops) zeroTop"]) simp
qed

section \<open>The distribution of wealth\<close>

lemma rfold_index:
  "rfold (\<lambda>i s. rbind (index ts i) (\<lambda>t. Inr (s + f t))) is (s :: rat) =
     (if \<forall>i \<in> set is. i < length ts then Inr (s + sum_list (map (\<lambda>i. f (ts ! i)) is)) else Inl (Panic ''index out of range''))"
  by (induction "is" arbitrary: s) (auto simp: index_def)

text \<open>The sum over a range of places; a range that is not in a non-empty list panics.\<close>

lemma TopSum_eq:
  "ts \<noteq> [] \<Longrightarrow> start \<le> stop \<Longrightarrow> TopSum start stop ts =
     (if stop \<le> length ts \<or> start = stop then Inr (sum_list (map BalanceNum_t (take (stop - start) (drop start ts)))) else Inl (Panic ''index out of range''))"
proof (cases "start < stop")
  case True
  assume a: "ts \<noteq> []" "start \<le> stop"
  have "(\<forall>i \<in> set [start..<stop]. i < length ts) \<longleftrightarrow> stop \<le> length ts"
  proof
    assume "\<forall>i \<in> set [start..<stop]. i < length ts"
    then have "stop - 1 < length ts" using True by simp
    then show "stop \<le> length ts" using True by linarith
  qed auto
  moreover have "map (\<lambda>i. BalanceNum_t (ts ! i)) [start..<stop] = map BalanceNum_t (take (stop - start) (drop start ts))" if "stop \<le> length ts"
    using that a(2) by (intro nth_equalityI) auto
  ultimately show ?thesis using a True by (simp add: TopSum_def rfold_index)
qed (simp add: TopSum_def)

text \<open>For a list of 100 entries the page shows four groups of 25, whose amounts add up to the total of the list, and below it the rest of the supply.\<close>

theorem wealth_adds_up:
  assumes "length ts = 100"
  shows "\<exists>amounts. length amounts = 4 \<and> sum_list amounts = sum_list (map BalanceNum_t ts) \<and>
    (\<forall>i < 4. TopSum (i * 25) ((i + 1) * 25) ts = Inr (amounts ! i)) \<and>
    (\<exists>rows. wealthDists fmt pct all ts = Inr rows \<and> map Amount_wd rows =
      map fmt (amounts @ [sum_list amounts, if sum_list amounts > 0 then all - sum_list amounts else 0]))"
proof -
  let ?b = "map BalanceNum_t ts"
  let ?a = "map (\<lambda>i. sum_list (take 25 (drop (i * 25) ?b))) [0..<4]"
  have t: "TopSum (i * 25) ((i + 1) * 25) ts = Inr (?a ! i)" if "i < 4" for i
  proof -
    have "ts \<noteq> []" using assms by auto
    then show ?thesis using that assms TopSum_eq[of ts "i * 25" "(i + 1) * 25"] by (simp add: take_map drop_map)
  qed
  have split: "?b = take 25 ?b @ take 25 (drop 25 ?b) @ take 25 (drop 50 ?b) @ take 25 (drop 75 ?b)"
  proof -
    have "drop 75 ?b = take 25 (drop 75 ?b)" using assms by simp
    moreover have "?b = take 25 ?b @ drop 25 ?b" "drop 25 ?b = take 25 (drop 25 ?b) @ drop 50 ?b" "drop 50 ?b = take 25 (drop 50 ?b) @ drop 75 ?b"
      using append_take_drop_id[of 25 ?b] append_take_drop_id[of 25 "drop 25 ?b"] append_take_drop_id[of 25 "drop 50 ?b"] by (simp_all add: drop_drop)
    ultimately show ?thesis by metis
  qed
  have s: "sum_list ?a = sum_list ?b" by (subst split) (simp add: upt_rec numeral_eq_Suc)
  have "wealthDists fmt pct all ts = Inr (map (\<lambda>i. wealthRow fmt pct all (''Top '' @ BigInt_String (int (i * 25 + 1)) @ ''-'' @ BigInt_String (int ((i + 1) * 25))) (?a ! i)) [0..<4] @
      [wealthRow fmt pct all ''Top 1-100 Total'' (sum_list ?b), wealthRow fmt pct all ''101+'' (if sum_list ?b > 0 then all - sum_list ?b else 0)])"
    using t[of 0] t[of 1] t[of 2] t[of 3] by (simp add: wealthDists_def Let_def upt_rec)
  then show ?thesis using t s by (intro exI[of _ ?a]) (simp add: wealthRow_def upt_rec)
qed

text \<open>A database with one address, which makes the page panic, and a list of 100 equal balances.\<close>

definition holderParser :: BlockChainParser where
  "holderParser = (hexParser 300)\<lparr> GetAddressesFromAddrDesc := (\<lambda>_. Inr ([''K1''], True)) \<rparr>"

definition oneHolderDB :: "mem RocksDB" where
  "oneHolderDB = \<lparr> db = (\<lambda>c. if c = cfAddressBalance then [([1], [1, 0, 1, 5])] else []), chainParser = holderParser, is_d = None, cbs = newConnectBlockStats \<rparr>"

lemma oneHolder_balance: "\<exists>ab. unpackAddrBalance base128 [1, 0, 1, 5] 32 AddressBalanceDetailNoUTXO = Inr ab \<and> BalanceSat ab = 5"
proof -
  have "map_sum id BalanceSat (unpackAddrBalance base128 [1, 0, 1, 5] 32 AddressBalanceDetailNoUTXO) = Inr 5" by code_simp
  then show ?thesis by (cases "unpackAddrBalance base128 [1, 0, 1, 5] 32 AddressBalanceDetailNoUTXO") auto
qed

theorem top_list_result_witness: "GetTop memPackages (\<lambda>_. '''') oneHolderDB = Inl (Panic ''slice bounds out of range'')"
proof -
  have "\<exists>t. topEntry memPackages holderParser (\<lambda>_. '''') ([1], [1, 0, 1, 5]) = Inr (Some t)"
    using oneHolder_balance by (auto simp: topEntry_def holderParser_def index_def slice_def Let_def)
  then obtain t where "collectTops memPackages (\<lambda>_. '''') oneHolderDB = Inr [t]"
    by (auto simp: collectTops_def oneHolderDB_def memdb_def)
  from top_list_result[OF this] show ?thesis by simp
qed

theorem wealth_adds_up_witness:
  "\<exists>amounts. sum_list amounts = 100 \<and> (\<forall>i < 4. TopSum (i * 25) ((i + 1) * 25) (replicate 100 (zeroTop\<lparr> BalanceNum_t := 1 \<rparr>)) = Inr (amounts ! i))"
  using wealth_adds_up[of "replicate 100 (zeroTop\<lparr> BalanceNum_t := 1 \<rparr>)" "\<lambda>_. ''''" "\<lambda>_ _. ''''" 0] by (auto simp: sum_list_replicate)

end
