(* ===== verification/Chain_Metrics.thy ===== *)
theory Chain_Metrics
  imports Eth_RPC
begin

text \<open>
  The interface of a coin and its wrapper: \<open>bchain/coins/blockchain.go\<close> and \<open>bchain/basechain.go\<close>.

  The interfaces \<open>BlockChain\<close> and \<open>Mempool\<close> of \<open>bchain/types.go\<close> are records of actions on the state of a client. The program never calls a client directly: \<open>NewBlockChain\<close> looks up the constructor of the
  configured coin, initialises the client and wraps it and its mempool, so that every request is timed. The wrappers are clients on a state with the metrics. A metric is the list of its samples; \<open>time.Now\<close> and the
  text of an error are parameters. The samples of \<open>RPCLatency\<close> have the labels \<open>method\<close> and \<open>error\<close>, and the time in milliseconds.

  The theorems: the wrapped client is the client, up to the samples, and each request adds one sample; a call that panics is recorded as a success; what \<open>NewBlockChain\<close> calls and returns; synchronisation through the wrapper
  gives what it gives through the client, whatever the client does, so that an index follows the node of the coin also as the program runs it.
\<close>

section \<open>Interfaces\<close>

record 'w mempool_i =
  Resync_i :: "('w, int) action"
  GetTransactions_i :: "string \<Rightarrow> ('w, Outpoint list) action"
  GetAddrDescTransactions_i :: "AddressDescriptor \<Rightarrow> ('w, Outpoint list) action"
  GetAllEntries_i :: "('w, MempoolTxidEntries) action"
  GetTransactionTime_i :: "string \<Rightarrow> ('w, uint32) action"

text \<open>The argument of \<open>CreateMempool\<close> is the client itself; the callbacks of \<open>InitializeMempool\<close> are part of the state of the client.\<close>

record 'w chain_i =
  Initialize_i :: "('w, unit) action"
  CreateMempool_i :: "('w, 'w mempool_i) action"
  InitializeMempool_i :: "('w, unit) action"
  Shutdown_i :: "('w, unit) action"
  IsTestnet_i :: "('w, bool) action"
  GetNetworkName_i :: "('w, string) action"
  GetSubversion_i :: "('w, string) action"
  GetCoinName_i :: "('w, string) action"
  GetChainInfo_i :: "('w, ChainInfo) action"
  GetBestBlockHash_i :: "('w, string) action"
  GetBestBlockHeight_i :: "('w, uint32) action"
  GetBlockHash_i :: "uint32 \<Rightarrow> ('w, string) action"
  GetBlockHeader_i :: "string \<Rightarrow> ('w, BlockHeader) action"
  GetBlock_i :: "string \<Rightarrow> uint32 \<Rightarrow> ('w, Block) action"
  GetBlockInfo_i :: "string \<Rightarrow> ('w, BlockInfo_rpc) action"
  GetMempoolTransactions_i :: "('w, string list) action"
  GetTransaction_i :: "string \<Rightarrow> ('w, Tx) action"
  GetTransactionForMempool_i :: "string \<Rightarrow> ('w, Tx) action"
  GetTransactionSpecific_i :: "Tx \<Rightarrow> ('w, string) action"
  EstimateSmartFee_i :: "int \<Rightarrow> bool \<Rightarrow> ('w, int) action"
  EstimateFee_i :: "int \<Rightarrow> ('w, int) action"
  SendRawTransaction_i :: "string \<Rightarrow> ('w, string) action"
  GetMempoolEntry_i :: "string \<Rightarrow> ('w, MempoolEntry) action"
  GetChainParser_i :: "('w, BlockChainParser) action"
  EthereumTypeGetBalance_i :: "AddressDescriptor \<Rightarrow> ('w, int) action"
  EthereumTypeGetNonce_i :: "AddressDescriptor \<Rightarrow> ('w, uint64) action"
  EthereumTypeEstimateGas_i :: "(string, json) gomap \<Rightarrow> ('w, uint64) action"
  EthereumTypeGetErc20ContractInfo_i :: "AddressDescriptor \<Rightarrow> ('w, Erc20Contract option) action"
  EthereumTypeGetErc20ContractBalance_i :: "AddressDescriptor \<Rightarrow> AddressDescriptor \<Rightarrow> ('w, int) action"
  Findzcserial_i :: "string \<Rightarrow> ('w, string) action"
  GetMasternodesInfo_i :: "('w, RPCMasternode list option) action"
  GetPeersInfo_i :: "('w, RPCPeer list option) action"
  GetNodeBlockCount_i :: "string \<Rightarrow> ('w, int) action"

section \<open>The base of a client\<close>

record BaseChain =
  Parser_b :: BlockChainParser
  Testnet_b :: bool
  Network_b :: string

definition unsupported :: "string \<Rightarrow> ('w, 'a) action" where
  "unsupported msg = throw (Errorf msg)"

text \<open>A client that embeds \<open>BaseChain\<close> and does not define these methods itself has them from there.\<close>

definition embedBaseChain :: "BaseChain \<Rightarrow> 'w chain_i \<Rightarrow> 'w chain_i" where
  "embedBaseChain b C = C
     \<lparr> GetChainParser_i := ret (Parser_b b), IsTestnet_i := ret (Testnet_b b), GetNetworkName_i := ret (Network_b b),
       GetMempoolEntry_i := (\<lambda>_. unsupported ''GetMempoolEntry: not supported''),
       EthereumTypeGetBalance_i := (\<lambda>_. unsupported ''Not supported''), EthereumTypeGetNonce_i := (\<lambda>_. unsupported ''Not supported''),
       EthereumTypeEstimateGas_i := (\<lambda>_. unsupported ''Not supported''), EthereumTypeGetErc20ContractInfo_i := (\<lambda>_. unsupported ''Not supported''),
       EthereumTypeGetErc20ContractBalance_i := (\<lambda>_ _. unsupported ''Not supported''), Findzcserial_i := (\<lambda>_. unsupported ''Findserial not supported''),
       GetMasternodesInfo_i := unsupported ''GetMasternodesInfo not supported'', GetPeersInfo_i := unsupported ''GetPeersInfo not supported'',
       GetNodeBlockCount_i := (\<lambda>_. unsupported ''GetNodeBlockCount not supported'') \<rparr>"

section \<open>Metrics\<close>

record Metrics =
  RPCLatency :: "((string \<times> string) \<times> rat) list"
  MempoolSize :: "int option"

record 'w metrics_env =
  errText_m :: "go_error \<Rightarrow> string"
  now_m :: "'w \<Rightarrow> int"

definition observeRPCLatency :: "'w metrics_env \<Rightarrow> string \<Rightarrow> int \<Rightarrow> int \<Rightarrow> go_error option \<Rightarrow> Metrics \<Rightarrow> Metrics" where
  "observeRPCLatency V method start finish err m =
     (let e = (case err of Some err \<Rightarrow> errText_m V err | None \<Rightarrow> '''') in
      m\<lparr> RPCLatency := RPCLatency m @ [((method, e), of_int (finish - start) / 10 ^ 6)] \<rparr>)"

text \<open>The named result \<open>err\<close> when the deferred function runs: a panic leaves it nil.\<close>

definition errOf :: "go_error + 'a \<Rightarrow> go_error option" where
  "errOf r = (case r of Inl e \<Rightarrow> if is_panic e then None else Some e | Inr _ \<Rightarrow> None)"

definition quiet :: "('w, 'a) action \<Rightarrow> ('w \<times> Metrics, 'a) action" where
  "quiet f = (\<lambda>(w, m). case f w of (r, w') \<Rightarrow> (r, (w', m)))"

definition timed :: "'w metrics_env \<Rightarrow> string \<Rightarrow> ('w, 'a) action \<Rightarrow> ('w \<times> Metrics, 'a) action" where
  "timed V method f = (\<lambda>(w, m). case f w of (r, w') \<Rightarrow> (r, (w', observeRPCLatency V method (now_m V w) (now_m V w') (errOf r) m)))"

text \<open>\<open>mempoolWithMetrics.Resync\<close>: the gauge is set before the deferred sample is taken.\<close>

definition setMempoolSize :: "go_error + int \<Rightarrow> Metrics \<Rightarrow> Metrics" where
  "setMempoolSize r m = (case r of Inr n \<Rightarrow> m\<lparr> MempoolSize := Some n \<rparr> | Inl _ \<Rightarrow> m)"

definition Resync_metrics :: "'w metrics_env \<Rightarrow> 'w mempool_i \<Rightarrow> ('w \<times> Metrics, int) action" where
  "Resync_metrics V p = (\<lambda>(w, m). case Resync_i p w of (r, w') \<Rightarrow>
     (r, (w', observeRPCLatency V ''ResyncMempool'' (now_m V w) (now_m V w') (errOf r) (setMempoolSize r m))))"

definition mempoolWithMetrics :: "'w metrics_env \<Rightarrow> 'w mempool_i \<Rightarrow> ('w \<times> Metrics) mempool_i" where
  "mempoolWithMetrics V p =
     \<lparr> Resync_i = Resync_metrics V p,
       GetTransactions_i = (\<lambda>address. timed V ''GetMempoolTransactions'' (GetTransactions_i p address)),
       GetAddrDescTransactions_i = (\<lambda>addrDesc. timed V ''GetMempoolTransactionsForAddrDesc'' (GetAddrDescTransactions_i p addrDesc)),
       GetAllEntries_i = timed V ''GetAllEntries'' (GetAllEntries_i p),
       GetTransactionTime_i = (\<lambda>txid. quiet (GetTransactionTime_i p txid)) \<rparr>"

text \<open>A mempool seen as one on the state with the metrics, not timed.\<close>

definition quietMempool :: "'w mempool_i \<Rightarrow> ('w \<times> Metrics) mempool_i" where
  "quietMempool p =
     \<lparr> Resync_i = quiet (Resync_i p), GetTransactions_i = (\<lambda>a. quiet (GetTransactions_i p a)),
       GetAddrDescTransactions_i = (\<lambda>d. quiet (GetAddrDescTransactions_i p d)), GetAllEntries_i = quiet (GetAllEntries_i p),
       GetTransactionTime_i = (\<lambda>t. quiet (GetTransactionTime_i p t)) \<rparr>"

definition blockChainWithMetrics :: "'w metrics_env \<Rightarrow> 'w chain_i \<Rightarrow> ('w \<times> Metrics) chain_i" where
  "blockChainWithMetrics V b =
     \<lparr> Initialize_i = quiet (Initialize_i b),
       CreateMempool_i = abind (quiet (CreateMempool_i b)) (\<lambda>p. ret (quietMempool p)),
       InitializeMempool_i = quiet (InitializeMempool_i b),
       Shutdown_i = quiet (Shutdown_i b),
       IsTestnet_i = quiet (IsTestnet_i b),
       GetNetworkName_i = quiet (GetNetworkName_i b),
       GetSubversion_i = quiet (GetSubversion_i b),
       GetCoinName_i = quiet (GetCoinName_i b),
       GetChainInfo_i = timed V ''GetChainInfo'' (GetChainInfo_i b),
       GetBestBlockHash_i = timed V ''GetBestBlockHash'' (GetBestBlockHash_i b),
       GetBestBlockHeight_i = timed V ''GetBestBlockHeight'' (GetBestBlockHeight_i b),
       GetBlockHash_i = (\<lambda>height. timed V ''GetBlockHash'' (GetBlockHash_i b height)),
       GetBlockHeader_i = (\<lambda>hash. timed V ''GetBlockHeader'' (GetBlockHeader_i b hash)),
       GetBlock_i = (\<lambda>hash height. timed V ''GetBlock'' (GetBlock_i b hash height)),
       GetBlockInfo_i = (\<lambda>hash. timed V ''GetBlockInfo'' (GetBlockInfo_i b hash)),
       GetMempoolTransactions_i = timed V ''GetMempoolTransactions'' (GetMempoolTransactions_i b),
       GetTransaction_i = (\<lambda>txid. timed V ''GetTransaction'' (GetTransaction_i b txid)),
       GetTransactionForMempool_i = (\<lambda>txid. timed V ''GetTransactionForMempool'' (GetTransactionForMempool_i b txid)),
       GetTransactionSpecific_i = (\<lambda>tx. timed V ''GetTransactionSpecific'' (GetTransactionSpecific_i b tx)),
       EstimateSmartFee_i = (\<lambda>blocks conservative. timed V ''EstimateSmartFee'' (EstimateSmartFee_i b blocks conservative)),
       EstimateFee_i = (\<lambda>blocks. timed V ''EstimateFee'' (EstimateFee_i b blocks)),
       SendRawTransaction_i = (\<lambda>tx. timed V ''SendRawTransaction'' (SendRawTransaction_i b tx)),
       GetMempoolEntry_i = (\<lambda>txid. timed V ''GetMempoolEntry'' (GetMempoolEntry_i b txid)),
       GetChainParser_i = quiet (GetChainParser_i b),
       EthereumTypeGetBalance_i = (\<lambda>d. timed V ''EthereumTypeGetBalance'' (EthereumTypeGetBalance_i b d)),
       EthereumTypeGetNonce_i = (\<lambda>d. timed V ''EthereumTypeGetNonce'' (EthereumTypeGetNonce_i b d)),
       EthereumTypeEstimateGas_i = (\<lambda>params. timed V ''EthereumTypeEstimateGas'' (EthereumTypeEstimateGas_i b params)),
       EthereumTypeGetErc20ContractInfo_i = (\<lambda>d. timed V ''EthereumTypeGetErc20ContractInfo'' (EthereumTypeGetErc20ContractInfo_i b d)),
       EthereumTypeGetErc20ContractBalance_i = (\<lambda>d c. timed V ''EthereumTypeGetErc20ContractInfo'' (EthereumTypeGetErc20ContractBalance_i b d c)),
       Findzcserial_i = (\<lambda>serialHex. timed V ''Findzcserial'' (Findzcserial_i b serialHex)),
       GetMasternodesInfo_i = timed V ''GetMasternodesInfo'' (GetMasternodesInfo_i b),
       GetPeersInfo_i = timed V ''GetPeersInfo'' (GetPeersInfo_i b),
       GetNodeBlockCount_i = (\<lambda>addr. timed V ''GetNodeBlockCount'' (GetNodeBlockCount_i b addr)) \<rparr>"

section \<open>The coins\<close>

datatype blockChainFactory =
    btc_NewBitcoinRPC | zec_NewZCashRPC | eth_NewEthereumRPC | bch_NewBCashRPC | btg_NewBGoldRPC | dash_NewDashRPC | gamecredits_NewGameCreditsRPC | koto_NewKotoRPC
  | litecoin_NewLitecoinRPC | dogecoin_NewDogecoinRPC | vertcoin_NewVertcoinRPC | namecoin_NewNamecoinRPC | monacoin_NewMonacoinRPC | monetaryunit_NewMonetaryUnitRPC
  | digibyte_NewDigiByteRPC | myriad_NewMyriadRPC | liquid_NewLiquidRPC | grs_NewGroestlcoinRPC | pivx_NewPivXRPC | skyr_NewSkyrRPC | polis_NewPolisRPC | xzc_NewZcoinRPC
  | fujicoin_NewFujicoinRPC | flo_NewFloRPC | bellcoin_NewBellcoinRPC | qtum_NewQtumRPC | viacoin_NewViacoinRPC | nuls_NewNulsRPC | vipstarcoin_NewVIPSTARCOINRPC
  | ravencoin_NewRavencoinRPC

definition BlockChainFactories :: "(string, blockChainFactory) gomap" where
  "BlockChainFactories =
    [(''Bitcoin'', btc_NewBitcoinRPC), (''Testnet'', btc_NewBitcoinRPC), (''Zcash'', zec_NewZCashRPC), (''Zcash Testnet'', zec_NewZCashRPC),
     (''Ethereum'', eth_NewEthereumRPC), (''Ethereum Classic'', eth_NewEthereumRPC), (''Ethereum Testnet Ropsten'', eth_NewEthereumRPC),
     (''Bcash'', bch_NewBCashRPC), (''Bcash Testnet'', bch_NewBCashRPC), (''Bgold'', btg_NewBGoldRPC), (''Dash'', dash_NewDashRPC),
     (''Dash Testnet'', dash_NewDashRPC), (''GameCredits'', gamecredits_NewGameCreditsRPC), (''Koto'', koto_NewKotoRPC), (''Koto Testnet'', koto_NewKotoRPC),
     (''Litecoin'', litecoin_NewLitecoinRPC), (''Litecoin Testnet'', litecoin_NewLitecoinRPC), (''Dogecoin'', dogecoin_NewDogecoinRPC),
     (''Vertcoin'', vertcoin_NewVertcoinRPC), (''Vertcoin Testnet'', vertcoin_NewVertcoinRPC), (''Namecoin'', namecoin_NewNamecoinRPC),
     (''Monacoin'', monacoin_NewMonacoinRPC), (''Monacoin Testnet'', monacoin_NewMonacoinRPC), (''MonetaryUnit'', monetaryunit_NewMonetaryUnitRPC),
     (''DigiByte'', digibyte_NewDigiByteRPC), (''Myriad'', myriad_NewMyriadRPC), (''Liquid'', liquid_NewLiquidRPC), (''Groestlcoin'', grs_NewGroestlcoinRPC),
     (''Groestlcoin Testnet'', grs_NewGroestlcoinRPC), (''PIVX'', pivx_NewPivXRPC), (''PIVX Testnet'', pivx_NewPivXRPC), (''SKYR'', skyr_NewSkyrRPC),
     (''SKYR Testnet'', skyr_NewSkyrRPC), (''Polis'', polis_NewPolisRPC), (''Zcoin'', xzc_NewZcoinRPC), (''Fujicoin'', fujicoin_NewFujicoinRPC),
     (''Flo'', flo_NewFloRPC), (''Bellcoin'', bellcoin_NewBellcoinRPC), (''Qtum'', qtum_NewQtumRPC), (''Viacoin'', viacoin_NewViacoinRPC),
     (''Qtum Testnet'', qtum_NewQtumRPC), (''NULS'', nuls_NewNulsRPC), (''VIPSTARCOIN'', vipstarcoin_NewVIPSTARCOINRPC), (''ZelCash'', zec_NewZCashRPC),
     (''Ravencoin'', ravencoin_NewRavencoinRPC)]"

text \<open>\<open>files\<close> is \<open>ioutil.ReadFile\<close>, \<open>parse\<close> the syntax check of \<open>json.Unmarshal\<close>.\<close>

definition readConfig :: "(string \<Rightarrow> go_error + string) \<Rightarrow> (string \<Rightarrow> go_error + json) \<Rightarrow> string \<Rightarrow> go_error + json" where
  "readConfig files parse configfile =
     rbind (Annotatef ''Error reading file'' (files configfile)) (\<lambda>data. Annotatef ''Error parsing file'' (parse data))"

definition GetCoinNameFromConfig :: "(string \<Rightarrow> go_error + string) \<Rightarrow> (string \<Rightarrow> go_error + json) \<Rightarrow> string \<Rightarrow> go_error + string \<times> string \<times> string" where
  "GetCoinNameFromConfig files parse configfile =
     rbind (readConfig files parse configfile) (\<lambda>j.
     Annotatef ''Error parsing file'' (
       rbind (membersOf j) (\<lambda>o'.
       rbind (stringMember ''coin_name'' o') (\<lambda>n. rbind (stringMember ''coin_shortcut'' o') (\<lambda>s. rbind (stringMember ''coin_label'' o') (\<lambda>l.
       Inr (n, s, l)))))))"

text \<open>\<open>factory\<close> are the constructors of the coins.\<close>

definition NewBlockChain ::
    "(string \<Rightarrow> go_error + string) \<Rightarrow> (string \<Rightarrow> go_error + json) \<Rightarrow> (blockChainFactory \<Rightarrow> json \<Rightarrow> ('w, 'w chain_i) action) \<Rightarrow> 'w metrics_env \<Rightarrow>
     string \<Rightarrow> string \<Rightarrow> ('w, ('w \<times> Metrics) chain_i \<times> ('w \<times> Metrics) mempool_i) action" where
  "NewBlockChain files parse factory V coin configfile =
     abind (query (\<lambda>_. readConfig files parse configfile)) (\<lambda>config.
     case map_of BlockChainFactories coin of
       None \<Rightarrow> throw (Errorf ''Unsupported coin'')
     | Some bcf \<Rightarrow>
         abind (factory bcf config) (\<lambda>bc.
         abind (Initialize_i bc) (\<lambda>_.
         abind (CreateMempool_i bc) (\<lambda>mempool.
         ret (blockChainWithMetrics V bc, mempoolWithMetrics V mempool)))))"

section \<open>The wrapper is transparent\<close>

text \<open>A client on the state with the metrics, used as a client on the state without them.\<close>

definition forget :: "Metrics \<Rightarrow> ('w \<times> Metrics, 'a) action \<Rightarrow> ('w, 'a) action" where
  "forget m f w = (case f (w, m) of (r, (w', _)) \<Rightarrow> (r, w'))"

definition unmeterMempool :: "Metrics \<Rightarrow> ('w \<times> Metrics) mempool_i \<Rightarrow> 'w mempool_i" where
  "unmeterMempool m p =
     \<lparr> Resync_i = forget m (Resync_i p), GetTransactions_i = (\<lambda>a. forget m (GetTransactions_i p a)),
       GetAddrDescTransactions_i = (\<lambda>d. forget m (GetAddrDescTransactions_i p d)), GetAllEntries_i = forget m (GetAllEntries_i p),
       GetTransactionTime_i = (\<lambda>t. forget m (GetTransactionTime_i p t)) \<rparr>"

definition unmeter :: "Metrics \<Rightarrow> ('w \<times> Metrics) chain_i \<Rightarrow> 'w chain_i" where
  "unmeter m C =
     \<lparr> Initialize_i = forget m (Initialize_i C), CreateMempool_i = abind (forget m (CreateMempool_i C)) (\<lambda>p. ret (unmeterMempool m p)),
       InitializeMempool_i = forget m (InitializeMempool_i C), Shutdown_i = forget m (Shutdown_i C), IsTestnet_i = forget m (IsTestnet_i C),
       GetNetworkName_i = forget m (GetNetworkName_i C), GetSubversion_i = forget m (GetSubversion_i C), GetCoinName_i = forget m (GetCoinName_i C),
       GetChainInfo_i = forget m (GetChainInfo_i C), GetBestBlockHash_i = forget m (GetBestBlockHash_i C), GetBestBlockHeight_i = forget m (GetBestBlockHeight_i C),
       GetBlockHash_i = (\<lambda>h. forget m (GetBlockHash_i C h)), GetBlockHeader_i = (\<lambda>h. forget m (GetBlockHeader_i C h)),
       GetBlock_i = (\<lambda>h k. forget m (GetBlock_i C h k)), GetBlockInfo_i = (\<lambda>h. forget m (GetBlockInfo_i C h)),
       GetMempoolTransactions_i = forget m (GetMempoolTransactions_i C), GetTransaction_i = (\<lambda>t. forget m (GetTransaction_i C t)),
       GetTransactionForMempool_i = (\<lambda>t. forget m (GetTransactionForMempool_i C t)),
       GetTransactionSpecific_i = (\<lambda>t. forget m (GetTransactionSpecific_i C t)), EstimateSmartFee_i = (\<lambda>n c. forget m (EstimateSmartFee_i C n c)),
       EstimateFee_i = (\<lambda>n. forget m (EstimateFee_i C n)), SendRawTransaction_i = (\<lambda>t. forget m (SendRawTransaction_i C t)),
       GetMempoolEntry_i = (\<lambda>t. forget m (GetMempoolEntry_i C t)), GetChainParser_i = forget m (GetChainParser_i C),
       EthereumTypeGetBalance_i = (\<lambda>d. forget m (EthereumTypeGetBalance_i C d)), EthereumTypeGetNonce_i = (\<lambda>d. forget m (EthereumTypeGetNonce_i C d)),
       EthereumTypeEstimateGas_i = (\<lambda>p. forget m (EthereumTypeEstimateGas_i C p)),
       EthereumTypeGetErc20ContractInfo_i = (\<lambda>d. forget m (EthereumTypeGetErc20ContractInfo_i C d)),
       EthereumTypeGetErc20ContractBalance_i = (\<lambda>d c. forget m (EthereumTypeGetErc20ContractBalance_i C d c)),
       Findzcserial_i = (\<lambda>s. forget m (Findzcserial_i C s)), GetMasternodesInfo_i = forget m (GetMasternodesInfo_i C),
       GetPeersInfo_i = forget m (GetPeersInfo_i C), GetNodeBlockCount_i = (\<lambda>a. forget m (GetNodeBlockCount_i C a)) \<rparr>"

lemma forget_timed [simp]: "forget m (timed V method f) = f"
  by (rule ext) (simp add: forget_def timed_def split: prod.splits)

lemma forget_quiet [simp]: "forget m (quiet f) = f"
  by (rule ext) (simp add: forget_def quiet_def split: prod.splits)

lemma forget_Resync [simp]: "forget m (Resync_metrics V p) = Resync_i p"
  by (rule ext) (simp add: forget_def Resync_metrics_def split: prod.splits)

lemma forget_map [simp]: "forget m (abind (quiet f) (\<lambda>x. ret (g x))) = abind f (\<lambda>x. ret (g x))"
  by (rule ext) (auto simp: forget_def quiet_def abind_def ret_def split: prod.splits sum.splits)

lemma unmeterMempool_quietMempool [simp]: "unmeterMempool m (quietMempool p) = p"
  by (simp add: unmeterMempool_def quietMempool_def)

lemma abind_map_ret [simp]: "abind (abind f (\<lambda>x. ret (g x))) (\<lambda>y. ret (h y)) = abind f (\<lambda>x. ret (h (g x)))"
  by (rule ext) (auto simp: abind_def ret_def split: prod.splits sum.splits)

lemma abind_ret_id [simp]: "abind f ret = f"
  by (rule ext) (auto simp: abind_def ret_def split: prod.splits sum.splits)

lemma unmeter_wrapped: "unmeter m (blockChainWithMetrics V b) = b"
  by (simp add: unmeter_def blockChainWithMetrics_def)

lemma unmeterMempool_wrapped: "unmeterMempool m (mempoolWithMetrics V p) = p"
  by (simp add: unmeterMempool_def mempoolWithMetrics_def)

text \<open>
  The wrapped client and the wrapped mempool answer every call as the client and the mempool do, with the same effect on their state: without the metrics they are the client and the mempool.
\<close>

theorem metrics_transparent:
  "unmeter m (blockChainWithMetrics V b) = b \<and> unmeterMempool m (mempoolWithMetrics V p) = p"
  by (simp add: unmeter_wrapped unmeterMempool_wrapped)

section \<open>Samples\<close>

text \<open>The sample for a call with result \<open>r\<close> that took the state of the client from \<open>w\<close> to \<open>w'\<close>: a panic has the label of a success.\<close>

definition sample :: "'w metrics_env \<Rightarrow> string \<Rightarrow> go_error + 'a \<Rightarrow> 'w \<Rightarrow> 'w \<Rightarrow> (string \<times> string) \<times> rat" where
  "sample V method r w w' =
     ((method, case r of Inl e \<Rightarrow> if is_panic e then '''' else errText_m V e | Inr _ \<Rightarrow> ''''), of_int (now_m V w' - now_m V w) / 10 ^ 6)"

lemma timed_sample:
  "timed V method f (w, m) = (r, (w', m')) \<longleftrightarrow> f w = (r, w') \<and> m' = m\<lparr> RPCLatency := RPCLatency m @ [sample V method r w w'] \<rparr>"
  by (auto simp: timed_def observeRPCLatency_def sample_def errOf_def Let_def split: prod.splits sum.splits)

text \<open>
  Each request adds one sample, with the name of its method; a request that panics is counted like one that succeeded. The balance of a token contract is counted under the name of another method.
\<close>

theorem metrics_samples:
  "(GetBlock_i (blockChainWithMetrics V b) hash height (w, m) = (r, (w', m')) \<longleftrightarrow>
     GetBlock_i b hash height w = (r, w') \<and> m' = m\<lparr> RPCLatency := RPCLatency m @ [sample V ''GetBlock'' r w w'] \<rparr>) \<and>
   (EthereumTypeGetErc20ContractBalance_i (blockChainWithMetrics V b) d c (w, m) = (r2, (w', m')) \<longleftrightarrow>
     EthereumTypeGetErc20ContractBalance_i b d c w = (r2, w') \<and>
     m' = m\<lparr> RPCLatency := RPCLatency m @ [sample V ''EthereumTypeGetErc20ContractInfo'' r2 w w'] \<rparr>)"
  by (simp add: blockChainWithMetrics_def timed_sample)

section \<open>Synchronisation through the wrapper\<close>

text \<open>
  A client that another client implements on a larger state: \<open>view\<close> gives the part of the state that the first one has. Everything the synchronisation does with the larger client it does with the smaller one.
\<close>

definition seen :: "('d \<Rightarrow> 'c) \<Rightarrow> ('s, 'd) SyncWorker \<Rightarrow> ('s, 'c) SyncWorker" where
  "seen view w = \<lparr> db_sw = db_sw w, chain = view (chain w), syncWorkers = syncWorkers w, syncChunk = syncChunk w, dryRun = dryRun w,
     startHeight = startHeight w, startHash = startHash w, newBlocks = newBlocks w \<rparr>"

lemma seen_simps [simp]:
  "db_sw (seen view w) = db_sw w" "chain (seen view w) = view (chain w)" "syncWorkers (seen view w) = syncWorkers w" "syncChunk (seen view w) = syncChunk w"
  "dryRun (seen view w) = dryRun w" "startHeight (seen view w) = startHeight w" "startHash (seen view w) = startHash w" "newBlocks (seen view w) = newBlocks w"
  by (simp_all add: seen_def)

lemma seen_updates [simp]:
  "seen view (w\<lparr> chain := c \<rparr>) = (seen view w)\<lparr> chain := view c \<rparr>" "seen view (w\<lparr> db_sw := d \<rparr>) = (seen view w)\<lparr> db_sw := d \<rparr>"
  "seen view (w\<lparr> newBlocks := bs \<rparr>) = (seen view w)\<lparr> newBlocks := bs \<rparr>" "seen view (w\<lparr> startHeight := h \<rparr>) = (seen view w)\<lparr> startHeight := h \<rparr>"
  "seen view (w\<lparr> startHash := s \<rparr>) = (seen view w)\<lparr> startHash := s \<rparr>"
  by (simp_all add: seen_def)

definition rmapped :: "('a \<Rightarrow> 'b) \<Rightarrow> go_error + 'a \<Rightarrow> go_error + 'b" where
  "rmapped f r = rbind r (\<lambda>x. Inr (f x))"

lemma rmapped_simps [simp]: "rmapped f (Inl e) = Inl e" "rmapped f (Inr x) = Inr (f x)"
  by (simp_all add: rmapped_def)

lemma rmapped_rbind: "rmapped f (rbind r g) = rbind r (\<lambda>x. rmapped f (g x))"
  by (cases r) simp_all

lemma rbind_rmapped: "rbind (rmapped f r) g = rbind r (\<lambda>x. g (f x))"
  by (cases r) simp_all

lemma rmapped_if: "rmapped f (if b then r else r') = (if b then rmapped f r else rmapped f r')"
  by simp

lemma rmapped_case: "rmapped f (case r of Inl e \<Rightarrow> g e | Inr x \<Rightarrow> h x) = (case r of Inl e \<Rightarrow> rmapped f (g e) | Inr x \<Rightarrow> rmapped f (h x))"
  by (cases r) simp_all

lemmas rmapped_push = rmapped_rbind rbind_rmapped rmapped_if rmapped_case

locale chain_view =
  fixes ch' :: "'d BlockChain" and ch :: "'c BlockChain" and view :: "'d \<Rightarrow> 'c"
  assumes view_best: "GetBestBlockHash ch (view x) = apsnd view (GetBestBlockHash ch' x)"
    and view_height: "GetBestBlockHeight ch (view x) = apsnd view (GetBestBlockHeight ch' x)"
    and view_hash: "GetBlockHash_c ch h (view x) = apsnd view (GetBlockHash_c ch' h x)"
    and view_block: "GetBlock ch s h (view x) = apsnd view (GetBlock ch' s h x)"
    and view_signal: "Signal ch (view x) = apsnd view (Signal ch' x)"
begin

lemma ask_seen:
  "(\<And>x. f (view x) = apsnd view (f' x)) \<Longrightarrow> ask f (seen view w) = rmapped (apsnd (seen view)) (ask f' w)"
  by (simp add: ask_def split: prod.splits sum.splits)

lemma askHash_seen: "askHash ch h (seen view w) = rmapped (apsnd (seen view)) (askHash ch' h w)"
  by (simp add: askHash_def view_hash split: prod.splits sum.splits)

lemma connect_seen: "connect E onNew block (seen view w) = rmapped (seen view) (connect E onNew block w)"
  by (simp add: connect_def rmapped_rbind)

lemma connectLoop_seen:
  "connectLoop n E ch onNew initial first hash height (seen view w) = rmapped (seen view) (connectLoop n E ch' onNew initial first hash height w)"
proof (induction n arbitrary: first hash height w)
  case (Suc n)
  obtain i c where sig: "(if initial then Signal ch' (chain w) else (False, chain w)) = (i, c)" by fastforce
  then have sig': "(if initial then Signal ch (view (chain w)) else (False, view (chain w))) = (i, view c)"
    by (auto simp: view_signal split: if_splits)
  obtain r c' where blk: "GetBlock ch' hash height c = (r, c')" by fastforce
  have step: "connect E onNew b ((seen view w)\<lparr> chain := view c' \<rparr>) = rmapped (seen view) (connect E onNew b (w\<lparr> chain := c' \<rparr>))" for b
    using connect_seen[of E onNew b "w\<lparr> chain := c' \<rparr>"] by simp
  show ?case
    unfolding connectLoop.simps seen_simps sig sig' Let_def prod.case
    by (cases r) (simp_all add: blk view_block step rmapped_push Suc.IH cong: rbind_cong)
qed simp

lemma connectBlocks_seen: "connectBlocks n E ch onNew initial (seen view w) = rmapped (seen view) (connectBlocks n E ch' onNew initial w)"
  by (simp add: connectBlocks_def connectLoop_seen)

lemma retry_view:
  "(\<And>x. f (view x) = apsnd view (f' x)) \<Longrightarrow> retry n f (view c) = rmapped (apsnd view) (retry n f' c)"
  by (induction n arbitrary: c) (simp_all split: prod.splits sum.splits)

lemma connectParallelLoop_view:
  "connectParallelLoop n E ch dry higher hs (view c, b) = rmapped (apfst view) (connectParallelLoop n E ch' dry higher hs (c, b))"
proof (induction hs arbitrary: c b)
  case (Cons h hs)
  obtain i c' where sig: "Signal ch' c = (i, c')" by fastforce
  show ?case
    using Cons.IH by (cases dry) (simp_all add: sig view_signal retry_view[of "GetBlockHash_c ch h" "GetBlockHash_c ch' h", OF view_hash]
        retry_view[of "GetBlock ch _ h" "GetBlock ch' _ h", OF view_block] rmapped_push case_prod_beta
        cong: rbind_cong sum.case_cong if_cong)
qed simp

lemma ConnectBlocksParallel_seen:
  "ConnectBlocksParallel n E ch lower higher (seen view w) = rmapped (seen view) (ConnectBlocksParallel n E ch' lower higher w)"
  by (simp add: ConnectBlocksParallel_def connectParallelLoop_view rmapped_push case_prod_beta cong: rbind_cong sum.case_cong if_cong)

lemma DisconnectBlocks_seen: "DisconnectBlocks E lower higher (seen view w) = rmapped (seen view) (DisconnectBlocks E lower higher w)"
  by (simp add: DisconnectBlocks_def Let_def rmapped_rbind)

lemma findFork_seen: "findFork n E ch h (seen view w) = rmapped (apsnd (seen view)) (findFork n E ch' h w)"
  by (induction n arbitrary: h w) (simp_all add: askHash_seen rmapped_push case_prod_beta cong: rbind_cong if_cong)

end

context chain_view
begin

lemmas asks = ask_seen[of "GetBestBlockHash ch" "GetBestBlockHash ch'", OF view_best] ask_seen[of "GetBestBlockHeight ch" "GetBestBlockHeight ch'", OF view_height]
  ask_seen[of "GetBlockHash_c ch h" "GetBlockHash_c ch' h" for h, OF view_hash]

lemma rbind_seen: "r' = rmapped f r \<Longrightarrow> (\<And>x. r = Inr x \<Longrightarrow> g' (f x) = rmapped f' (g x)) \<Longrightarrow> rbind r' g' = rmapped f' (rbind r g)"
  by (cases r) simp_all

lemma rbind_same: "(\<And>x. r = Inr x \<Longrightarrow> g' x = rmapped f (g x)) \<Longrightarrow> rbind r g' = rmapped f (rbind r g)"
  by (cases r) simp_all

lemma if_same: "a' = rmapped f a \<Longrightarrow> c' = rmapped f c \<Longrightarrow> (if b then a' else c') = rmapped f (if b then a else c)"
  by simp

lemma forked_seen:
  "(if localHash \<noteq> '''' then
      rbind (askHash ch h (seen view w)) (\<lambda>(remoteHash, w). if remoteHash \<noteq> localHash then Inr (True, w) else Inr (False, w\<lparr> startHeight := h + 1 \<rparr>))
    else Inr (False, seen view w)) =
   rmapped (apsnd (seen view)) (if localHash \<noteq> '''' then
      rbind (askHash ch' h w) (\<lambda>(remoteHash, w). if remoteHash \<noteq> localHash then Inr (True, w) else Inr (False, w\<lparr> startHeight := h + 1 \<rparr>))
    else Inr (False, w))"
  by (simp add: askHash_seen rmapped_push case_prod_beta cong: rbind_cong if_cong)

lemma connectOnly_seen:
  "rbind (connectBlocks n E ch onNew initial (seen view w)) (\<lambda>w. Inr (False, w)) =
   rmapped (apsnd (seen view)) (rbind (connectBlocks n E ch' onNew initial w) (\<lambda>w. Inr (False, w)))"
  by (simp add: connectBlocks_seen rmapped_push)

lemma resyncIndex_seen:
  "resyncIndex n E ch onNew initial (seen view w) = rmapped (apsnd (seen view)) (resyncIndex n E ch' onNew initial w)"
proof (induction n arbitrary: w)
  case (Suc n)
  have sync: "rbind (ask (GetBestBlockHeight ch) (seen view w)) (\<lambda>(remoteBestHeight, w).
        if remoteBestHeight < startHeight w then Inl (Errorf ''resync: remote best height error'')
        else if of_int (syncChunk w) < remoteBestHeight - startHeight w then
          rbind (ConnectBlocksParallel n E ch (startHeight w) remoteBestHeight w) (resyncIndex n E ch onNew initial)
        else rbind (connectBlocks n E ch onNew initial w) (\<lambda>w. Inr (False, w))) =
      rmapped (apsnd (seen view)) (rbind (ask (GetBestBlockHeight ch') w) (\<lambda>(remoteBestHeight, w).
        if remoteBestHeight < startHeight w then Inl (Errorf ''resync: remote best height error'')
        else if of_int (syncChunk w) < remoteBestHeight - startHeight w then
          rbind (ConnectBlocksParallel n E ch' (startHeight w) remoteBestHeight w) (resyncIndex n E ch' onNew initial)
        else rbind (connectBlocks n E ch' onNew initial w) (\<lambda>w. Inr (False, w))))" for w :: "('a, 'd) SyncWorker"
    by (rule rbind_seen[OF asks(2)]) (auto simp: ConnectBlocksParallel_seen connectOnly_seen rbind_rmapped rmapped_rbind Suc.IH split: prod.splits)
  have connect: "rbind (ask (GetBlockHash_c ch (startHeight w)) (seen view w)) (\<lambda>(hash, w).
        let w = w\<lparr> startHash := hash \<rparr> in
        if syncWorkers w > 1 \<and> initial then f w else rbind (connectBlocks n E ch onNew initial w) (\<lambda>w. Inr (False, w))) =
      rmapped (apsnd (seen view)) (rbind (ask (GetBlockHash_c ch' (startHeight w)) w) (\<lambda>(hash, w).
        let w = w\<lparr> startHash := hash \<rparr> in
        if syncWorkers w > 1 \<and> initial then f' w else rbind (connectBlocks n E ch' onNew initial w) (\<lambda>w. Inr (False, w))))"
    if f: "\<And>w. f (seen view w) = rmapped (apsnd (seen view)) (f' w)" for f f' and w :: "('a, 'd) SyncWorker"
    by (rule rbind_seen[OF asks(3)])
      (use f connectOnly_seen in \<open>auto simp: Let_def simp flip: seen_updates split: prod.splits\<close>)
  have fork: "rbind (findFork n E ch h (seen view w)) (\<lambda>(height, w). rbind (DisconnectBlocks E (height + 1) l w) (resyncIndex n E ch onNew initial)) =
      rmapped (apsnd (seen view)) (rbind (findFork n E ch' h w) (\<lambda>(height, w). rbind (DisconnectBlocks E (height + 1) l w) (resyncIndex n E ch' onNew initial)))"
    for h l and w :: "('a, 'd) SyncWorker"
    by (rule rbind_seen[OF findFork_seen]) (auto simp: DisconnectBlocks_seen rbind_rmapped rmapped_rbind Suc.IH split: prod.splits)
  show ?case unfolding resyncIndex.simps
    by (rule rbind_seen[OF asks(1)], simp only: split_paired_all apsnd_conv prod.case seen_simps, rule rbind_same,
        simp only: split_paired_all prod.case, rule if_same, simp, rule rbind_seen[OF forked_seen],
        simp only: split_paired_all apsnd_conv prod.case seen_simps, rule if_same, rule fork, rule connect, rule sync)
qed simp

end

text \<open>The part of a client that the synchronisation uses. Signals do not go through the client.\<close>

definition syncChain :: "('w \<Rightarrow> bool \<times> 'w) \<Rightarrow> 'w chain_i \<Rightarrow> 'w BlockChain" where
  "syncChain signal C = \<lparr> GetBestBlockHash = GetBestBlockHash_i C, GetBestBlockHeight = GetBestBlockHeight_i C, GetBlockHash_c = GetBlockHash_i C,
     GetBlock = GetBlock_i C, GetTransaction_c = GetTransaction_i C, Signal = signal \<rparr>"

definition quietSignal :: "('w \<Rightarrow> bool \<times> 'w) \<Rightarrow> 'w \<times> Metrics \<Rightarrow> bool \<times> 'w \<times> Metrics" where
  "quietSignal signal = (\<lambda>(w, m). case signal w of (i, w') \<Rightarrow> (i, (w', m)))"

lemma timed_view: "f (fst x) = apsnd fst (timed V method f x)"
  by (cases x) (simp add: timed_def split: prod.splits)

interpretation metered: chain_view "syncChain (quietSignal signal) (blockChainWithMetrics V b)" "syncChain signal b" fst for signal V b
proof unfold_locales
  show "Signal (syncChain signal b) (fst x) = apsnd fst (Signal (syncChain (quietSignal signal) (blockChainWithMetrics V b)) x)" for x
    by (cases x) (simp add: syncChain_def quietSignal_def split: prod.splits)
qed (simp_all add: syncChain_def blockChainWithMetrics_def timed_view[symmetric])

text \<open>C14: 
  Synchronisation through the wrapper is synchronisation with the client: with the metrics left out, \<open>resyncIndex\<close> gives the same result, the same database and the same notifications, for every client and all its errors.
\<close>

theorem metered_resync_same:
  "rbind (resyncIndex n E (syncChain (quietSignal signal) (blockChainWithMetrics V b)) onNew initial w) (\<lambda>(synced, w'). Inr (synced, seen fst w')) =
   resyncIndex n E (syncChain signal b) onNew initial (seen fst w)"
  unfolding metered.resyncIndex_seen[where V = V] rmapped_def by (rule rbind_cong) auto

section \<open>The client of the coin\<close>

text \<open>\<open>SkyrRPC\<close> embeds \<open>BitcoinRPC\<close>, which embeds \<open>BaseChain\<close>; \<open>C\<close> has the methods that start and stop the client.\<close>

definition bitcoinRPCMethods :: "BitcoinRPC \<Rightarrow> 'n node \<Rightarrow> 'n chain_i \<Rightarrow> 'n chain_i" where
  "bitcoinRPCMethods b N C =
     (embedBaseChain \<lparr> Parser_b = Parser b, Testnet_b = Testnet b, Network_b = Network b \<rparr> C)
     \<lparr> GetChainInfo_i := GetChainInfo_btc N, GetBestBlockHash_i := GetBestBlockHash_rpc N, GetBestBlockHeight_i := GetBestBlockHeight_rpc N,
       GetBlockHash_i := GetBlockHash_rpc N, GetBlockHeader_i := GetBlockHeader_rpc N, GetBlock_i := GetBlock_btc b N,
       GetMempoolTransactions_i := GetMempoolTransactions_rpc N, GetTransaction_i := GetTransaction_rpc b N,
       GetTransactionForMempool_i := GetTransactionForMempool_rpc b N, GetTransactionSpecific_i := GetTransactionSpecific_rpc N,
       EstimateSmartFee_i := EstimateSmartFee_rpc b N, EstimateFee_i := EstimateFee_rpc b N, SendRawTransaction_i := SendRawTransaction_rpc N,
       GetMempoolEntry_i := GetMempoolEntry_rpc b N \<rparr>"

definition skyrRPCMethods :: "BitcoinRPC \<Rightarrow> 'n node \<Rightarrow> 'n chain_i \<Rightarrow> 'n chain_i" where
  "skyrRPCMethods z N C = (bitcoinRPCMethods z N C)
     \<lparr> GetBlock_i := GetBlock_skyr z N, GetChainInfo_i := GetChainInfo_skyr z N, GetMasternodesInfo_i := GetMasternodesInfo N,
       GetPeersInfo_i := GetPeersInfo z N, GetNodeBlockCount_i := GetNodeBlockCount N, Findzcserial_i := Findzcserial N \<rparr>"

lemma syncChain_skyr: "syncChain signal (skyrRPCMethods z N C) = skyrChain z N signal"
  by (simp add: syncChain_def skyrRPCMethods_def bitcoinRPCMethods_def embedBaseChain_def skyrChain_def)


text \<open>The sample node of \<open>Node_RPC\<close>, seen through the wrapper.\<close>

definition noMetrics :: Metrics where
  "noMetrics = \<lparr> RPCLatency = [], MempoolSize = None \<rparr>"

definition plainMetrics :: "'w metrics_env" where
  "plainMetrics = \<lparr> errText_m = (\<lambda>_. ''error''), now_m = (\<lambda>_. 0) \<rparr>"

definition meteredWorker :: "('s, 'c) SyncWorker \<Rightarrow> ('s, 'c \<times> Metrics) SyncWorker" where
  "meteredWorker w = \<lparr> db_sw = db_sw w, chain = (chain w, noMetrics), syncWorkers = syncWorkers w, syncChunk = syncChunk w, dryRun = dryRun w,
     startHeight = startHeight w, startHash = startHash w, newBlocks = newBlocks w \<rparr>"

definition idleClient :: "'w chain_i" where
  "idleClient =
     \<lparr> Initialize_i = noCall, CreateMempool_i = noCall, InitializeMempool_i = noCall, Shutdown_i = noCall, IsTestnet_i = noCall, GetNetworkName_i = noCall,
       GetSubversion_i = noCall, GetCoinName_i = noCall, GetChainInfo_i = noCall, GetBestBlockHash_i = noCall, GetBestBlockHeight_i = noCall,
       GetBlockHash_i = (\<lambda>_. noCall), GetBlockHeader_i = (\<lambda>_. noCall), GetBlock_i = (\<lambda>_ _. noCall), GetBlockInfo_i = (\<lambda>_. noCall),
       GetMempoolTransactions_i = noCall, GetTransaction_i = (\<lambda>_. noCall), GetTransactionForMempool_i = (\<lambda>_. noCall),
       GetTransactionSpecific_i = (\<lambda>_. noCall), EstimateSmartFee_i = (\<lambda>_ _. noCall), EstimateFee_i = (\<lambda>_. noCall),
       SendRawTransaction_i = (\<lambda>_. noCall), GetMempoolEntry_i = (\<lambda>_. noCall), GetChainParser_i = noCall,
       EthereumTypeGetBalance_i = (\<lambda>_. noCall), EthereumTypeGetNonce_i = (\<lambda>_. noCall), EthereumTypeEstimateGas_i = (\<lambda>_. noCall),
       EthereumTypeGetErc20ContractInfo_i = (\<lambda>_. noCall), EthereumTypeGetErc20ContractBalance_i = (\<lambda>_ _. noCall),
       Findzcserial_i = (\<lambda>_. noCall), GetMasternodesInfo_i = noCall, GetPeersInfo_i = noCall, GetNodeBlockCount_i = (\<lambda>_. noCall) \<rparr>"


section \<open>Starting a coin\<close>

text \<open>
  \<open>NewBlockChain\<close> returns interfaces exactly when the configuration can be read, the coin is in the table and each step of the start succeeds; a coin that is not in the table is refused before any call.
\<close>

theorem new_block_chain_result:
  "(NewBlockChain files parse factory V coin configfile w = (Inr (c, p), w') \<longleftrightarrow>
     (\<exists>config bcf bc mp w1 w2. readConfig files parse configfile = Inr config \<and> map_of BlockChainFactories coin = Some bcf \<and> factory bcf config w = (Inr bc, w1) \<and>
       Initialize_i bc w1 = (Inr (), w2) \<and> CreateMempool_i bc w2 = (Inr mp, w') \<and> unmeter noMetrics c = bc \<and> unmeterMempool noMetrics p = mp \<and>
       c = blockChainWithMetrics V bc \<and> p = mempoolWithMetrics V mp)) \<and>
   (map_of BlockChainFactories coin = None \<longrightarrow> (\<exists>e. NewBlockChain files parse factory V coin configfile w = (Inl e, w)))"
  by (auto simp: NewBlockChain_def abind_query abind_eq_Inr_iff unmeter_wrapped unmeterMempool_wrapped split: option.splits sum.splits)

end
