(* ===== verification/Tx_Json.thy ===== *)
theory Tx_Json
  imports Go_Json
begin

text \<open>
  The JSON form of the structures of \<open>bchain/types.go\<close>: what \<open>encoding/json\<close> reads into and writes from transactions, and what it reads into headers, blocks and mempool entries, by the tags of their fields.

  \<open>json.Number\<close> keeps the text of a number; its empty value is written as 0. \<open>big.Int\<close> reads and writes an integer. A raw message keeps the text of a value, which is a parameter (\<open>rawText\<close>). Nil and empty slices are both \<open>[]\<close>;
  strings are ASCII.

  The theorem: a transaction that was written is read back, except for its coin specific data and for an empty \<open>json.Number\<close>, which becomes the text 0.
\<close>

section \<open>Numbers\<close>

definition isDigit :: "char \<Rightarrow> bool" where
  "isDigit c \<longleftrightarrow> digit_val c \<noteq> None"

text \<open>\<open>isValidNumber\<close> of the package: a sign, an integer without leading zeros, a fraction, an exponent.\<close>

definition validExponent :: "string \<Rightarrow> bool" where
  "validExponent s =
     (s = [] \<or> (hd s = CHR ''e'' \<or> hd s = CHR ''E'') \<and>
       (let r = tl s; r = (if r \<noteq> [] \<and> (hd r = CHR ''+'' \<or> hd r = CHR ''-'') then tl r else r) in r \<noteq> [] \<and> list_all isDigit r))"

definition validFraction :: "string \<Rightarrow> bool" where
  "validFraction s =
     (if s \<noteq> [] \<and> hd s = CHR ''.'' then takeWhile isDigit (tl s) \<noteq> [] \<and> validExponent (dropWhile isDigit (tl s)) else validExponent s)"

definition isValidNumber :: "string \<Rightarrow> bool" where
  "isValidNumber s =
     (let s = (if s \<noteq> [] \<and> hd s = CHR ''-'' then tl s else s) in
      if s = [] then False
      else if hd s = CHR ''0'' then validFraction (tl s)
      else isDigit (hd s) \<and> validFraction (dropWhile isDigit s))"

definition readNumber :: "json \<Rightarrow> go_error + string" where
  "readNumber j =
     (case j of
        JNumber n \<Rightarrow> Inr (BigInt_String n)
      | JFraction s \<Rightarrow> Inr s
      | JString s \<Rightarrow> if isValidNumber s then Inr s else Inl typeError
      | JNull \<Rightarrow> Inr ''''
      | _ \<Rightarrow> Inl typeError)"

definition writeNumber :: "string \<Rightarrow> go_error + json" where
  "writeNumber s =
     (if s = '''' then Inr (JNumber 0)
      else
        case SetString s of
          Some n \<Rightarrow> if BigInt_String n = s then Inr (JNumber n) else if isValidNumber s then Inr (JFraction s) else Inl (Errorf ''json: invalid number literal'')
        | None \<Rightarrow> if isValidNumber s then Inr (JFraction s) else Inl (Errorf ''json: invalid number literal''))"

definition readBigInt :: "json \<Rightarrow> go_error + int" where
  "readBigInt j = (case j of JNumber n \<Rightarrow> Inr n | JNull \<Rightarrow> Inr 0 | _ \<Rightarrow> Inl (Errorf ''math/big: cannot unmarshal''))"

text \<open>A member of type \<open>json.RawMessage\<close>: the text of the last value for its key, also of a null.\<close>

definition rawMember :: "(json \<Rightarrow> string) \<Rightarrow> string \<Rightarrow> (string \<times> json) list \<Rightarrow> string" where
  "rawMember rawText k kvs = (case filter (\<lambda>(k', _). ToLower k' = ToLower k) kvs of [] \<Rightarrow> '''' | vs \<Rightarrow> rawText (snd (last vs)))"

section \<open>Transactions\<close>

definition readScriptSig :: "json \<Rightarrow> go_error + ScriptSig" where
  "readScriptSig j = rbind (membersOf j) (\<lambda>o'. rbind (stringMember ''hex'' o') (\<lambda>h. Inr \<lparr> Hex_ss = h \<rparr>))"

definition readVin :: "json \<Rightarrow> go_error + Vin" where
  "readVin j =
     rbind (membersOf j) (\<lambda>o'.
     rbind (stringMember ''coinbase'' o') (\<lambda>c. rbind (stringMember ''txid'' o') (\<lambda>t. rbind (jsonMember readUint32 0 ''vout'' o') (\<lambda>v.
     rbind (jsonMember readScriptSig \<lparr> Hex_ss = '''' \<rparr> ''scriptSig'' o') (\<lambda>s. rbind (jsonMember readUint32 0 ''sequence'' o') (\<lambda>q.
     rbind (jsonMember (readList readString) [] ''addresses'' o') (\<lambda>a.
     Inr \<lparr> Coinbase = c, Txid_vin = t, Vout_vin = v, ScriptSig_vin = s, Sequence = q, Addresses_vin = a \<rparr>)))))))"

definition readScriptPubKey :: "json \<Rightarrow> go_error + ScriptPubKey" where
  "readScriptPubKey j =
     rbind (membersOf j) (\<lambda>o'. rbind (stringMember ''hex'' o') (\<lambda>h. rbind (jsonMember (readList readString) [] ''addresses'' o') (\<lambda>a.
     Inr \<lparr> Hex_spk = h, Addresses_spk = a \<rparr>)))"

definition readVout :: "json \<Rightarrow> go_error + Vout" where
  "readVout j =
     rbind (membersOf j) (\<lambda>o'.
     rbind (jsonMember readBigInt 0 ''ValueSat'' o') (\<lambda>s. rbind (jsonMember readNumber '''' ''value'' o') (\<lambda>v. rbind (jsonMember readUint32 0 ''n'' o') (\<lambda>n.
     rbind (jsonMember readScriptPubKey \<lparr> Hex_spk = '''', Addresses_spk = [] \<rparr> ''scriptPubKey'' o') (\<lambda>k.
     Inr \<lparr> ValueSat_vout = s, JsonValue = v, N_vout = n, ScriptPubKey_vout = k \<rparr>)))))"

definition readVShieldIn :: "(json \<Rightarrow> string) \<Rightarrow> json \<Rightarrow> go_error + VShieldIn" where
  "readVShieldIn rawText j = rbind (membersOf j) (\<lambda>o'. Inr \<lparr> Data_vsi = rawMember rawText ''Data'' o' \<rparr>)"

definition readVShieldOut :: "(json \<Rightarrow> string) \<Rightarrow> json \<Rightarrow> go_error + VShieldOut" where
  "readVShieldOut rawText j = rbind (membersOf j) (\<lambda>o'. Inr \<lparr> Data_vso = rawMember rawText ''Data'' o' \<rparr>)"

definition readTx :: "(json \<Rightarrow> string) \<Rightarrow> json \<Rightarrow> go_error + Tx" where
  "readTx rawText j =
     rbind (membersOf j) (\<lambda>o'.
     rbind (stringMember ''hex'' o') (\<lambda>h. rbind (stringMember ''txid'' o') (\<lambda>t. rbind (jsonMember readInt32 0 ''version'' o') (\<lambda>v.
     rbind (jsonMember readUint32 0 ''locktime'' o') (\<lambda>l. rbind (jsonMember (readList readVin) [] ''vin'' o') (\<lambda>vin.
     rbind (jsonMember (readList readVout) [] ''vout'' o') (\<lambda>vout. rbind (jsonMember readUint32 0 ''confirmations'' o') (\<lambda>c.
     rbind (jsonMember readInt64 0 ''time'' o') (\<lambda>tm. rbind (jsonMember readInt64 0 ''blocktime'' o') (\<lambda>bt.
     rbind (jsonMember (readList (readVShieldIn rawText)) [] ''vShieldSpend'' o') (\<lambda>si.
     rbind (jsonMember (readList (readVShieldOut rawText)) [] ''vShieldOutput'' o') (\<lambda>so. rbind (jsonMember readBigInt 0 ''valueBalanceSat'' o') (\<lambda>b.
     Inr \<lparr> Hex_tx = h, Txid_tx = t, Version_tx = v, LockTime = l, Vin_tx = vin, Vout_tx = vout, Confirmations_tx = c, Time_tx = tm, Blocktime = bt,
           VShieldIn_tx = si, VShieldOut_tx = so, ShieldValBal_tx = b, CoinSpecificData = NoData \<rparr>)))))))))))))"

definition writeVin :: "Vin \<Rightarrow> json" where
  "writeVin i = JObject [(''coinbase'', JString (Coinbase i)), (''txid'', JString (Txid_vin i)), (''vout'', JNumber (uint (Vout_vin i))),
     (''scriptSig'', JObject [(''hex'', JString (Hex_ss (ScriptSig_vin i)))]), (''sequence'', JNumber (uint (Sequence i))),
     (''addresses'', JArray (map JString (Addresses_vin i)))]"

definition writeVout :: "Vout \<Rightarrow> go_error + json" where
  "writeVout v =
     rbind (writeNumber (JsonValue v)) (\<lambda>j.
     Inr (JObject [(''ValueSat'', JNumber (ValueSat_vout v)), (''value'', j), (''n'', JNumber (uint (N_vout v))),
       (''scriptPubKey'', JObject ((if Hex_spk (ScriptPubKey_vout v) = '''' then [] else [(''hex'', JString (Hex_spk (ScriptPubKey_vout v)))]) @
          [(''addresses'', JArray (map JString (Addresses_spk (ScriptPubKey_vout v))))]))]))"

text \<open>\<open>parse\<close> is the syntax check of \<open>json.Unmarshal\<close>. A member with \<open>omitempty\<close> is left out when it is zero.\<close>

definition rawJson :: "(string \<Rightarrow> go_error + json) \<Rightarrow> string \<Rightarrow> go_error + json" where
  "rawJson parse s = (if s = '''' then Inr JNull else parse s)"

definition omitempty :: "bool \<Rightarrow> string \<Rightarrow> json \<Rightarrow> (string \<times> json) list" where
  "omitempty zero k j = (if zero then [] else [(k, j)])"

definition writeTx :: "(string \<Rightarrow> go_error + json) \<Rightarrow> Tx \<Rightarrow> go_error + json" where
  "writeTx parse tx =
     rbind (rmap writeVout (Vout_tx tx)) (\<lambda>vouts.
     rbind (rmap (\<lambda>i. rbind (rawJson parse (Data_vsi i)) (\<lambda>j. Inr (JObject [(''Data'', j)]))) (VShieldIn_tx tx)) (\<lambda>si.
     rbind (rmap (\<lambda>i. rbind (rawJson parse (Data_vso i)) (\<lambda>j. Inr (JObject [(''Data'', j)]))) (VShieldOut_tx tx)) (\<lambda>so.
     Inr (JObject ([(''hex'', JString (Hex_tx tx)), (''txid'', JString (Txid_tx tx)), (''version'', JNumber (sint (Version_tx tx))),
        (''locktime'', JNumber (uint (LockTime tx))), (''vin'', JArray (map writeVin (Vin_tx tx))), (''vout'', JArray vouts)] @
       omitempty (Confirmations_tx tx = 0) ''confirmations'' (JNumber (uint (Confirmations_tx tx))) @
       omitempty (Time_tx tx = 0) ''time'' (JNumber (sint (Time_tx tx))) @ omitempty (Blocktime tx = 0) ''blocktime'' (JNumber (sint (Blocktime tx))) @
       omitempty (si = []) ''vShieldSpend'' (JArray si) @ omitempty (so = []) ''vShieldOutput'' (JArray so) @
       [(''valueBalanceSat'', JNumber (ShieldValBal_tx tx))])))))"

section \<open>Headers, blocks and entries of the mempool\<close>

definition readBlockHeader :: "json \<Rightarrow> go_error + BlockHeader" where
  "readBlockHeader j =
     rbind (membersOf j) (\<lambda>o'.
     rbind (stringMember ''hash'' o') (\<lambda>h. rbind (stringMember ''previousblockhash'' o') (\<lambda>p. rbind (stringMember ''nextblockhash'' o') (\<lambda>n.
     rbind (jsonMember readUint32 0 ''height'' o') (\<lambda>ht. rbind (jsonMember readInt 0 ''confirmations'' o') (\<lambda>c. rbind (jsonMember readInt 0 ''size'' o') (\<lambda>s.
     rbind (jsonMember readInt64 0 ''time'' o') (\<lambda>t.
     Inr \<lparr> Hash_bh = h, Prev_bh = p, Next_bh = n, Height_bh = ht, Confirmations_bh = c, Size_bh = s, Time_bh = t \<rparr>))))))))"

definition readFullBlock :: "(json \<Rightarrow> string) \<Rightarrow> json \<Rightarrow> go_error + Block" where
  "readFullBlock rawText j =
     rbind (readBlockHeader j) (\<lambda>h. rbind (membersOf j) (\<lambda>o'. rbind (jsonMember (readList (readTx rawText)) [] ''tx'' o') (\<lambda>txs.
     Inr (BlockHeader.extend h \<lparr> Txs_blk = txs \<rparr>))))"

definition readBlockThin :: "json \<Rightarrow> go_error + BlockThin" where
  "readBlockThin j =
     rbind (readBlockHeader j) (\<lambda>h. rbind (membersOf j) (\<lambda>o'. rbind (jsonMember (readList readString) [] ''tx'' o') (\<lambda>txids.
     Inr (BlockHeader.extend h \<lparr> Txids_bt = txids \<rparr>))))"

definition readBlockInfo :: "json \<Rightarrow> go_error + BlockInfo_rpc" where
  "readBlockInfo j =
     rbind (readBlockHeader j) (\<lambda>h. rbind (membersOf j) (\<lambda>o'.
     rbind (jsonMember readNumber '''' ''version'' o') (\<lambda>v. rbind (stringMember ''merkleroot'' o') (\<lambda>m. rbind (jsonMember readNumber '''' ''nonce'' o') (\<lambda>n.
     rbind (stringMember ''bits'' o') (\<lambda>b. rbind (jsonMember readNumber '''' ''difficulty'' o') (\<lambda>d. rbind (jsonMember (readList readString) [] ''tx'' o') (\<lambda>txids.
     rbind (stringMember ''finalsaplingroot'' o') (\<lambda>s.
     Inr (BlockHeader.extend h \<lparr> Version_ri = v, MerkleRoot_ri = m, Nonce_ri = n, Bits_ri = b, Difficulty_ri = d, Txids_ri = txids, SaplingRoot_ri = s \<rparr>))))))))))"

definition readMempoolEntry :: "json \<Rightarrow> go_error + MempoolEntry" where
  "readMempoolEntry j =
     rbind (membersOf j) (\<lambda>o'.
     rbind (jsonMember readUint32 0 ''size'' o') (\<lambda>s. rbind (jsonMember readBigInt 0 ''FeeSat'' o') (\<lambda>fs. rbind (jsonMember readNumber '''' ''fee'' o') (\<lambda>f.
     rbind (jsonMember readBigInt 0 ''ModifiedFeeSat'' o') (\<lambda>ms. rbind (jsonMember readNumber '''' ''modifiedfee'' o') (\<lambda>m. rbind (jsonMember readUint64 0 ''time'' o') (\<lambda>t.
     rbind (jsonMember readUint32 0 ''height'' o') (\<lambda>h. rbind (jsonMember readUint32 0 ''descendantcount'' o') (\<lambda>dc.
     rbind (jsonMember readUint32 0 ''descendantsize'' o') (\<lambda>ds. rbind (jsonMember readUint32 0 ''descendantfees'' o') (\<lambda>df.
     rbind (jsonMember readUint32 0 ''ancestorcount'' o') (\<lambda>ac. rbind (jsonMember readUint32 0 ''ancestorsize'' o') (\<lambda>as.
     rbind (jsonMember readUint32 0 ''ancestorfees'' o') (\<lambda>af. rbind (jsonMember (readList readString) [] ''depends'' o') (\<lambda>d.
     Inr \<lparr> Size_en = s, FeeSat_en = fs, Fee_en = f, ModifiedFeeSat_en = ms, ModifiedFee_en = m, Time_en = t, Height_en = h, DescendantCount_en = dc,
           DescendantSize_en = ds, DescendantFees_en = df, AncestorCount_en = ac, AncestorSize_en = as, AncestorFees_en = af, Depends_en = d \<rparr>)))))))))))))))"

section \<open>Round trip\<close>



lemma readUint32_JNumber [simp]: "readUint32 (JNumber (uint x)) = Inr x"
  using uint_bounded[of x] by (simp add: readUint32_def readBounded_def)

lemma readInt32_JNumber [simp]: "readInt32 (JNumber (sint x)) = Inr x"
  using sint_ge[of x] sint_lt[of x] by (simp add: readInt32_def readBounded_def)

lemma readInt64_JNumber [simp]: "readInt64 (JNumber (sint x)) = Inr x"
  using sint_ge[of x] sint_lt[of x] by (simp add: readInt64_def readBounded_def)

lemma readStrings [simp]: "readList readString (JArray (map JString xs)) = Inr xs"
  unfolding readList_def json.case by (induction xs) (simp_all add: readString_def)

lemma readList_map: "(\<And>x. x \<in> set xs \<Longrightarrow> f (g x) = Inr (h x)) \<Longrightarrow> readList f (JArray (map g xs)) = Inr (map h xs)"
  unfolding readList_def json.case by (induction xs) simp_all

text \<open>The text 0 replaces an empty number.\<close>

definition zeroNumber :: "Vout \<Rightarrow> Vout" where
  "zeroNumber v = (if JsonValue v = '''' then v\<lparr> JsonValue := ''0'' \<rparr> else v)"

lemma BigInt_String_0: "BigInt_String 0 = ''0''"
  by code_simp

lemma readNumber_write: "writeNumber s = Inr j \<Longrightarrow> readNumber j = Inr (if s = '''' then ''0'' else s)"
  by (auto simp: writeNumber_def readNumber_def BigInt_String_0 split: if_splits option.splits)

lemma writeNumber_not_null: "writeNumber s = Inr j \<Longrightarrow> j \<noteq> JNull"
  by (auto simp: writeNumber_def split: if_splits option.splits)

lemma readVin_write: "readVin (writeVin i) = Inr i"
  by (simp add: readVin_def writeVin_def readScriptSig_def membersOf_def jsonMember_def valuesFor_def ToLower_def toLowerChar_def readString_def)

lemma readVout_write: "writeVout v = Inr j \<Longrightarrow> readVout j = Inr (zeroNumber v)"
  using readNumber_write[of "JsonValue v"] writeNumber_not_null[of "JsonValue v"]
  by (cases "Hex_spk (ScriptPubKey_vout v) = ''''")
    (auto simp: writeVout_def readVout_def readScriptPubKey_def readBigInt_def membersOf_def jsonMember_def valuesFor_def ToLower_def toLowerChar_def readString_def
      zeroNumber_def rbind_eq_Inr_iff)

lemma valuesFor_simps:
  "valuesFor k [] = []"
  "valuesFor k ((k', v) # kvs) = (if ToLower k' = ToLower k \<and> v \<noteq> JNull then v # valuesFor k kvs else valuesFor k kvs)"
  "valuesFor k (xs @ ys) = valuesFor k xs @ valuesFor k ys"
  "valuesFor k (omitempty zero k' v) = (if \<not> zero \<and> ToLower k' = ToLower k \<and> v \<noteq> JNull then [v] else [])"
  by (simp_all add: valuesFor_def omitempty_def)

lemma member_omitempty:
  "rfold (\<lambda>v _. f v) (if \<not> zero then [j] else []) z = (if zero then Inr z else f j)"
  by (cases "f j") simp_all

lemma readVouts_write: "rmap writeVout vs = Inr js \<Longrightarrow> rmap readVout js = Inr (map zeroNumber vs)"
  by (induction vs arbitrary: js) (auto simp: rbind_eq_Inr_iff readVout_write)

lemma readTx_written:
  assumes "VShieldIn_tx tx = []" "VShieldOut_tx tx = []" "writeTx parse tx = Inr j"
  shows "readTx rawText j = Inr (tx\<lparr> Vout_tx := map zeroNumber (Vout_tx tx), CoinSpecificData := NoData \<rparr>)"
proof -
  from assms obtain vs where vs: "rmap writeVout (Vout_tx tx) = Inr vs"
    and j: "j = JObject ([(''hex'', JString (Hex_tx tx)), (''txid'', JString (Txid_tx tx)), (''version'', JNumber (sint (Version_tx tx))),
        (''locktime'', JNumber (uint (LockTime tx))), (''vin'', JArray (map writeVin (Vin_tx tx))), (''vout'', JArray vs)] @
       omitempty (Confirmations_tx tx = 0) ''confirmations'' (JNumber (uint (Confirmations_tx tx))) @
       omitempty (Time_tx tx = 0) ''time'' (JNumber (sint (Time_tx tx))) @ omitempty (Blocktime tx = 0) ''blocktime'' (JNumber (sint (Blocktime tx))) @
       [(''valueBalanceSat'', JNumber (ShieldValBal_tx tx))])"
    by (auto simp: writeTx_def rbind_eq_Inr_iff omitempty_def[of True])
  have vins: "readList readVin (JArray (map writeVin (Vin_tx tx))) = Inr (Vin_tx tx)"
    using readList_map[of "Vin_tx tx" readVin writeVin id] readVin_write by simp
  have vouts: "readList readVout (JArray vs) = Inr (map zeroNumber (Vout_tx tx))"
    by (simp add: readList_def readVouts_write[OF vs])
  show ?thesis
    unfolding j readTx_def membersOf_def json.case rbind_simps
    by (simp add: jsonMember_def valuesFor_simps ToLower_def toLowerChar_def readString_def vins vouts readBigInt_def member_omitempty assms(1,2))
qed

text \<open>C24: 
  A transaction without shielded parts that is written as JSON is read back. Its coin specific data are not written, and an empty \<open>json.Number\<close> of an output is read back as the text 0.
\<close>

theorem tx_json_roundtrip:
  assumes "VShieldIn_tx tx = []" "VShieldOut_tx tx = []" "writeTx parse tx = Inr j"
  shows "readTx rawText j = Inr (tx\<lparr> Vout_tx := map zeroNumber (Vout_tx tx), CoinSpecificData := NoData \<rparr>)"
  by (rule readTx_written[OF assms])

definition sampleJsonTx :: Tx where
  "sampleJsonTx = \<lparr> Hex_tx = '''', Txid_tx = ''00'', Version_tx = 1, LockTime = 0,
     Vin_tx = [\<lparr> Coinbase = '''', Txid_vin = ''0a'', Vout_vin = 1, ScriptSig_vin = \<lparr> Hex_ss = '''' \<rparr>, Sequence = 5, Addresses_vin = [''Ns''] \<rparr>],
     Vout_tx = [\<lparr> ValueSat_vout = 70, JsonValue = '''', N_vout = 0, ScriptPubKey_vout = \<lparr> Hex_spk = ''Ns'', Addresses_spk = [''Ns''] \<rparr> \<rparr>],
     Confirmations_tx = 3, Time_tx = 9, Blocktime = 0, VShieldIn_tx = [], VShieldOut_tx = [], ShieldValBal_tx = 0, CoinSpecificData = RawMessage ''{}'' \<rparr>"

theorem tx_json_roundtrip_witness:
  "\<exists>j tx. writeTx (\<lambda>_. Inl typeError) sampleJsonTx = Inr j \<and> readTx (\<lambda>_. '''') j = Inr tx \<and> Txid_tx tx = ''00'' \<and> map JsonValue (Vout_tx tx) = [''0''] \<and>
     map ValueSat_vout (Vout_tx tx) = [70]"
proof -
  obtain j where j: "writeTx (\<lambda>_. Inl typeError) sampleJsonTx = Inr j"
    by (simp add: writeTx_def writeVout_def writeNumber_def sampleJsonTx_def)
  from tx_json_roundtrip[OF _ _ j, of "\<lambda>_. ''''"] j show ?thesis by (simp add: sampleJsonTx_def zeroNumber_def)
qed

end
