(* ===== verification/Node_Transport.thy ===== *)
theory Node_Transport
  imports Tx_Json
begin

text \<open>
  The requests of the clients of a bitcoin type node: the types of the commands and of their answers (\<open>coins/btc/bitcoinrpc.go\<close>, \<open>coins/skyr/skyrrpc.go\<close>), the two encodings of a command (\<open>coins/btc/codec.go\<close>), and
  \<open>Call\<close> with \<open>safeDecodeResponse\<close>. They implement the commands that \<open>Node_RPC\<close> takes as a parameter (\<open>rpcNode\<close>).

  A command has the method that the client always sends with it. The HTTP client is a parameter: \<open>http.NewRequest\<close> and \<open>client.Do\<close> together are one action, which gives an error or a reply; the body of the reply is its text or an error of
  reading it. The syntax of JSON is a parameter too (\<open>parse\<close>, \<open>rawText\<close>), the decoding of its values is in \<open>Tx_Json\<close>.

  The theorems: which commands the two encodings tell apart; what a call returns for a reply with any status.
\<close>

section \<open>Commands\<close>

datatype cmd =
    CmdGetBestBlockHash
  | CmdGetBlockCount
  | CmdGetBlockChainInfo
  | CmdGetNetworkInfo
  | CmdGetMempool
  | CmdGetBlockHash uint32
  | CmdGetBlockHeader string bool
  | CmdGetBlock string int
  | CmdGetRawTransaction string bool
  | CmdEstimateSmartFee int string
  | CmdEstimateFee int
  | CmdSendRawTransaction "string list"
  | CmdGetMempoolEntry "string list"
  | CmdGetInfo
  | CmdGetMasternodeCount
  | CmdGetConnectionCount
  | CmdListMasternodes
  | CmdGetPeerInfo
  | CmdGetNodeBlockCount string
  | CmdFindSerial "string list"

definition cmdMethod :: "cmd \<Rightarrow> string" where
  "cmdMethod c =
     (case c of
        CmdGetBestBlockHash \<Rightarrow> ''getbestblockhash''
      | CmdGetBlockCount \<Rightarrow> ''getblockcount''
      | CmdGetBlockChainInfo \<Rightarrow> ''getblockchaininfo''
      | CmdGetNetworkInfo \<Rightarrow> ''getnetworkinfo''
      | CmdGetMempool \<Rightarrow> ''getrawmempool''
      | CmdGetBlockHash _ \<Rightarrow> ''getblockhash''
      | CmdGetBlockHeader _ _ \<Rightarrow> ''getblockheader''
      | CmdGetBlock _ _ \<Rightarrow> ''getblock''
      | CmdGetRawTransaction _ _ \<Rightarrow> ''getrawtransaction''
      | CmdEstimateSmartFee _ _ \<Rightarrow> ''estimatesmartfee''
      | CmdEstimateFee _ \<Rightarrow> ''estimatefee''
      | CmdSendRawTransaction _ \<Rightarrow> ''sendrawtransaction''
      | CmdGetMempoolEntry _ \<Rightarrow> ''getmempoolentry''
      | CmdGetInfo \<Rightarrow> ''getinfo''
      | CmdGetMasternodeCount \<Rightarrow> ''getmasternodecount''
      | CmdGetConnectionCount \<Rightarrow> ''getconnectioncount''
      | CmdListMasternodes \<Rightarrow> ''listmasternodes''
      | CmdGetPeerInfo \<Rightarrow> ''getpeerinfo''
      | CmdGetNodeBlockCount _ \<Rightarrow> ''getnodeblockcount''
      | CmdFindSerial _ \<Rightarrow> ''findserial'')"

text \<open>The field \<open>Params\<close>: missing, a structure with the names of its fields, or a slice.\<close>

datatype rpc_params = NoParams | StructParams "(string \<times> json) list" | SliceParams "json list"

definition cmdParams :: "cmd \<Rightarrow> rpc_params" where
  "cmdParams c =
     (case c of
        CmdGetBlockHash height \<Rightarrow> StructParams [(''height'', JNumber (uint height))]
      | CmdGetBlockHeader hash verbose \<Rightarrow> StructParams [(''blockhash'', JString hash), (''verbose'', JBool verbose)]
      | CmdGetBlock hash verbosity \<Rightarrow> StructParams [(''blockhash'', JString hash), (''verbosity'', JNumber verbosity)]
      | CmdGetRawTransaction txid verbose \<Rightarrow> StructParams [(''txid'', JString txid), (''verbose'', JBool verbose)]
      | CmdEstimateSmartFee blocks mode \<Rightarrow> StructParams [(''conf_target'', JNumber blocks), (''estimate_mode'', JString mode)]
      | CmdEstimateFee blocks \<Rightarrow> StructParams [(''nblocks'', JNumber blocks)]
      | CmdSendRawTransaction ps \<Rightarrow> SliceParams (map JString ps)
      | CmdGetMempoolEntry ps \<Rightarrow> SliceParams (map JString ps)
      | CmdGetNodeBlockCount addr \<Rightarrow> StructParams [(''nodeaddr'', JString addr)]
      | CmdFindSerial ps \<Rightarrow> SliceParams (map JString ps)
      | _ \<Rightarrow> NoParams)"

section \<open>Encodings\<close>

datatype RPCMarshaler = JSONMarshalerV1 | JSONMarshalerV2

definition marshalV2 :: "cmd \<Rightarrow> json" where
  "marshalV2 c = JObject ((''method'', JString (cmdMethod c)) #
     (case cmdParams c of NoParams \<Rightarrow> [] | StructParams kvs \<Rightarrow> [(''params'', JObject kvs)] | SliceParams js \<Rightarrow> [(''params'', JArray js)]))"

definition untypedParams :: "cmd \<Rightarrow> json list" where
  "untypedParams c =
     (case c of
        CmdGetBlock hash verbosity \<Rightarrow> [JString hash, JBool (verbosity > 0)]
      | CmdGetRawTransaction txid verbose \<Rightarrow> [JString txid, JNumber (if verbose then 1 else 0)]
      | _ \<Rightarrow> (case cmdParams c of NoParams \<Rightarrow> [] | StructParams kvs \<Rightarrow> map snd kvs | SliceParams js \<Rightarrow> js))"

definition marshalV1 :: "cmd \<Rightarrow> json" where
  "marshalV1 c = JObject ((''method'', JString (cmdMethod c)) # omitempty (untypedParams c = []) ''params'' (JArray (untypedParams c)))"

definition MarshalCmd :: "RPCMarshaler \<Rightarrow> cmd \<Rightarrow> json" where
  "MarshalCmd r c = (case r of JSONMarshalerV1 \<Rightarrow> marshalV1 c | JSONMarshalerV2 \<Rightarrow> marshalV2 c)"

section \<open>Calls\<close>

record http_call =
  Method_hc :: string
  URL_hc :: string
  User_hc :: string
  Password_hc :: string
  Json_hc :: bool
  Body_hc :: "json option"

record http_reply =
  StatusCode :: int
  Status_hr :: string
  Body_hr :: "go_error + string"

record 'n http_env =
  Do :: "http_call \<Rightarrow> ('n, http_reply) action"
  parseJson :: "string \<Rightarrow> go_error + json"
  rawText :: "json \<Rightarrow> string"
  errText_h :: "go_error \<Rightarrow> string"
  ParseFloat :: "string \<Rightarrow> go_error + rat"

record rpc_conn =
  rpcURL :: string
  user :: string
  password :: string
  marshaler :: RPCMarshaler

text \<open>A panic while the answer is decoded becomes an error; it shows an answer of less than 2048 bytes.\<close>

definition safeDecodeResponse :: "'n http_env \<Rightarrow> (json \<Rightarrow> go_error + 'r) \<Rightarrow> go_error + string \<Rightarrow> go_error + 'r" where
  "safeDecodeResponse H rd body =
     rbind body (\<lambda>data.
     case rbind (parseJson H data) rd of
       Inl e \<Rightarrow> Inl (if is_panic e then if data \<noteq> [] \<and> length data < 2048 then Errorf (''Error: '' @ data) else Errorf ''Internal error'' else e)
     | Inr r \<Rightarrow> Inr r)"

definition decodeReply :: "'n http_env \<Rightarrow> (json \<Rightarrow> go_error + 'r) \<Rightarrow> http_reply \<Rightarrow> go_error + 'r" where
  "decodeReply H rd reply =
     (if StatusCode reply \<noteq> 200 then
        (case safeDecodeResponse H rd (Body_hr reply) of
           Inl err \<Rightarrow> Inl (Errorf (Status_hr reply @ '' '' @ errText_h H err))
         | Inr r \<Rightarrow> Inr r)
      else safeDecodeResponse H rd (Body_hr reply))"

definition Call_rpc :: "'n http_env \<Rightarrow> rpc_conn \<Rightarrow> (json \<Rightarrow> go_error + 'r) \<Rightarrow> cmd \<Rightarrow> ('n, 'r) action" where
  "Call_rpc H b rd c =
     abind (Do H \<lparr> Method_hc = ''POST'', URL_hc = rpcURL b, User_hc = user b, Password_hc = password b, Json_hc = False,
       Body_hc = Some (MarshalCmd (marshaler b) c) \<rparr>) (\<lambda>reply. query (\<lambda>_. decodeReply H rd reply))"

section \<open>Answers\<close>

definition readPointer :: "(json \<Rightarrow> go_error + 'a) \<Rightarrow> json \<Rightarrow> go_error + 'a option" where
  "readPointer f j = (if j = JNull then Inr None else rbind (f j) (\<lambda>x. Inr (Some x)))"

definition readRPCError :: "json \<Rightarrow> go_error + RPCError" where
  "readRPCError j =
     rbind (membersOf j) (\<lambda>o'. rbind (jsonMember readInt 0 ''code'' o') (\<lambda>c. rbind (stringMember ''message'' o') (\<lambda>m. Inr \<lparr> Code = c, Message = m \<rparr>)))"

definition readResult :: "(json \<Rightarrow> go_error + 'a) \<Rightarrow> 'a \<Rightarrow> json \<Rightarrow> go_error + 'a rpc" where
  "readResult f z j =
     rbind (membersOf j) (\<lambda>o'. rbind (jsonMember (readPointer readRPCError) None ''error'' o') (\<lambda>e. rbind (jsonMember f z ''result'' o') (\<lambda>r. Inr (e, r))))"

definition readRawResult :: "(json \<Rightarrow> string) \<Rightarrow> json \<Rightarrow> go_error + string rpc" where
  "readRawResult text j =
     rbind (membersOf j) (\<lambda>o'. rbind (jsonMember (readPointer readRPCError) None ''error'' o') (\<lambda>e. Inr (e, rawMember text ''result'' o')))"

definition readBlockChainInfo :: "json \<Rightarrow> go_error + ResGetBlockChainInfo" where
  "readBlockChainInfo j =
     rbind (membersOf j) (\<lambda>o'.
     rbind (stringMember ''chain'' o') (\<lambda>c. rbind (jsonMember readInt 0 ''blocks'' o') (\<lambda>b. rbind (jsonMember readInt 0 ''headers'' o') (\<lambda>h.
     rbind (stringMember ''bestblockhash'' o') (\<lambda>bb. rbind (jsonMember readNumber '''' ''difficulty'' o') (\<lambda>d. rbind (jsonMember readInt64 0 ''size_on_disk'' o') (\<lambda>s.
     rbind (stringMember ''warnings'' o') (\<lambda>w.
     Inr \<lparr> Chain_ci = c, Blocks_ci = b, Headers_ci = h, Bestblockhash_ci = bb, Difficulty_ci = d, SizeOnDisk_ci = s, Warnings_ci = w \<rparr>))))))))"

text \<open>A number of type \<open>float64\<close>.\<close>

definition readFloat64 :: "(string \<Rightarrow> go_error + rat) \<Rightarrow> json \<Rightarrow> go_error + rat" where
  "readFloat64 pf j = (case j of JNumber n \<Rightarrow> pf (BigInt_String n) | JFraction s \<Rightarrow> pf s | JNull \<Rightarrow> Inr 0 | _ \<Rightarrow> Inl typeError)"

definition readNetworkInfo :: "(string \<Rightarrow> go_error + rat) \<Rightarrow> json \<Rightarrow> go_error + ResGetNetworkInfo" where
  "readNetworkInfo pf j =
     rbind (membersOf j) (\<lambda>o'.
     rbind (jsonMember readNumber '''' ''version'' o') (\<lambda>v. rbind (stringMember ''subversion'' o') (\<lambda>s. rbind (jsonMember readNumber '''' ''protocolversion'' o') (\<lambda>p.
     rbind (jsonMember (readFloat64 pf) 0 ''timeoffset'' o') (\<lambda>t. rbind (stringMember ''warnings'' o') (\<lambda>w.
     Inr \<lparr> Version_ni = v, Subversion_ni = s, ProtocolVersion_ni = p, Timeoffset_ni = t, Warnings_ni = w \<rparr>))))))"

definition readFeerate :: "json \<Rightarrow> go_error + string" where
  "readFeerate j =
     rbind (membersOf j) (\<lambda>o'. rbind (jsonMember readNumber '''' ''feerate'' o') (\<lambda>f. rbind (jsonMember readInt 0 ''blocks'' o') (\<lambda>_. Inr f)))"

definition readGetInfo :: "json \<Rightarrow> go_error + ResGetInfo" where
  "readGetInfo j =
     rbind (membersOf j) (\<lambda>o'. rbind (jsonMember readNumber '''' ''transparentsupply'' o') (\<lambda>t. rbind (jsonMember readNumber '''' ''shieldsupply'' o') (\<lambda>s.
     rbind (jsonMember readNumber '''' ''moneysupply'' o') (\<lambda>m. Inr \<lparr> TransparentSupply_gi = t, ShieldSupply_gi = s, MoneySupply_gi = m \<rparr>))))"

definition readMasternodeCount :: "json \<Rightarrow> go_error + int" where
  "readMasternodeCount j =
     rbind (membersOf j) (\<lambda>o'. rbind (jsonMember readInt 0 ''total'' o') (\<lambda>_. rbind (jsonMember readInt 0 ''stable'' o') (\<lambda>_.
     rbind (jsonMember readInt 0 ''enabled'' o') (\<lambda>e. rbind (jsonMember readInt 0 ''inqueue'' o') (\<lambda>_. Inr e)))))"

definition readMasternode :: "json \<Rightarrow> go_error + RPCMasternode" where
  "readMasternode j =
     rbind (membersOf j) (\<lambda>o'.
     rbind (jsonMember readInt 0 ''rank'' o') (\<lambda>r. rbind (stringMember ''network'' o') (\<lambda>n. rbind (stringMember ''txhash'' o') (\<lambda>t.
     rbind (jsonMember readInt 0 ''outindex'' o') (\<lambda>i. rbind (stringMember ''pubkey'' o') (\<lambda>p. rbind (stringMember ''status'' o') (\<lambda>s. rbind (stringMember ''addr'' o') (\<lambda>a.
     rbind (stringMember ''ip'' o') (\<lambda>ip. rbind (jsonMember readInt 0 ''version'' o') (\<lambda>v. rbind (jsonMember readInt64 0 ''lastseen'' o') (\<lambda>ls.
     rbind (jsonMember readInt64 0 ''activetime'' o') (\<lambda>act. rbind (jsonMember readInt64 0 ''lastpaid'' o') (\<lambda>lp. rbind (jsonMember readInt 0 ''Lastblock'' o') (\<lambda>lb.
     Inr \<lparr> Rank = r, Network_mn = n, Txhash = t, Outidx = i, Pubkey = p, Status_mn = s, Addr_mn = a, Ip = ip, Version_mn = v, Lastseen = ls, Activetime = act,
           Lastpaid = lp, Lastblock = lb \<rparr>))))))))))))))"

definition readFindSerial :: "json \<Rightarrow> go_error + bool \<times> string" where
  "readFindSerial j = rbind (membersOf j) (\<lambda>o'. rbind (jsonMember readBool False ''success'' o') (\<lambda>s. rbind (stringMember ''txid'' o') (\<lambda>t. Inr (s, t))))"

section \<open>The node\<close>

text \<open>\<open>N\<close> gives the list of peers, whose entries are modelled in part, and the calls to other services.\<close>

definition zeroHeader :: BlockHeader where
  "zeroHeader = \<lparr> Hash_bh = '''', Prev_bh = '''', Next_bh = '''', Height_bh = 0, Confirmations_bh = 0, Size_bh = 0, Time_bh = 0 \<rparr>"

definition rpcNode :: "'n http_env \<Rightarrow> rpc_conn \<Rightarrow> 'n node \<Rightarrow> 'n node" where
  "rpcNode H b N = N
     \<lparr> getbestblockhash := Call_rpc H b (readResult readString '''') CmdGetBestBlockHash,
       getblockcount := Call_rpc H b (readResult readUint32 0) CmdGetBlockCount,
       getblockchaininfo := Call_rpc H b (readResult readBlockChainInfo \<lparr> Chain_ci = '''', Blocks_ci = 0, Headers_ci = 0, Bestblockhash_ci = '''', Difficulty_ci = '''',
         SizeOnDisk_ci = 0, Warnings_ci = '''' \<rparr>) CmdGetBlockChainInfo,
       getnetworkinfo := Call_rpc H b (readResult (readNetworkInfo (ParseFloat H)) \<lparr> Version_ni = '''', Subversion_ni = '''', ProtocolVersion_ni = '''',
         Timeoffset_ni = 0, Warnings_ni = '''' \<rparr>) CmdGetNetworkInfo,
       getblockhash := (\<lambda>height. Call_rpc H b (readResult readString '''') (CmdGetBlockHash height)),
       getblockheader := (\<lambda>hash. Call_rpc H b (readResult readBlockHeader zeroHeader) (CmdGetBlockHeader hash True)),
       getblock_raw := (\<lambda>hash. Call_rpc H b (readResult readString '''') (CmdGetBlock hash 0)),
       getblock_thin := (\<lambda>hash. Call_rpc H b (readResult readBlockThin (BlockHeader.extend zeroHeader \<lparr> Txids_bt = [] \<rparr>)) (CmdGetBlock hash 1)),
       getblock_full := (\<lambda>hash. Call_rpc H b (readResult (readFullBlock (rawText H)) (BlockHeader.extend zeroHeader \<lparr> Txs_blk = [] \<rparr>)) (CmdGetBlock hash 2)),
       getrawmempool := Call_rpc H b (readResult (readList readString) []) CmdGetMempool,
       getrawtransaction := (\<lambda>txid. Call_rpc H b (readRawResult (rawText H)) (CmdGetRawTransaction txid True)),
       getrawtransaction_hex := (\<lambda>txid. Call_rpc H b (readResult readString '''') (CmdGetRawTransaction txid False)),
       estimatesmartfee := (\<lambda>blocks mode. Call_rpc H b (readResult readFeerate '''') (CmdEstimateSmartFee blocks mode)),
       estimatefee := (\<lambda>blocks. Call_rpc H b (readResult readNumber '''') (CmdEstimateFee blocks)),
       sendrawtransaction := (\<lambda>tx. Call_rpc H b (readResult readString '''') (CmdSendRawTransaction [tx])),
       getmempoolentry := (\<lambda>txid. Call_rpc H b (readResult (readPointer readMempoolEntry) None) (CmdGetMempoolEntry [txid])),
       getinfo := Call_rpc H b (readResult readGetInfo \<lparr> TransparentSupply_gi = '''', ShieldSupply_gi = '''', MoneySupply_gi = '''' \<rparr>) CmdGetInfo,
       getmasternodecount := Call_rpc H b (readResult readMasternodeCount 0) CmdGetMasternodeCount,
       getconnectioncount := Call_rpc H b (readResult readInt 0) CmdGetConnectionCount,
       listmasternodes := Call_rpc H b (readResult (readPointer (readList readMasternode)) None) CmdListMasternodes,
       getnodeblockcount := (\<lambda>addr. Call_rpc H b (readResult readInt 0) (CmdGetNodeBlockCount addr)),
       findserial := (\<lambda>serial. Call_rpc H b (readResult readFindSerial (False, '''')) (CmdFindSerial [serial])) \<rparr>"

text \<open>\<open>GetBlockInfo\<close> reads the same answer as the list of the ids of a block.\<close>

definition GetBlockInfo_rpc :: "'n http_env \<Rightarrow> rpc_conn \<Rightarrow> string \<Rightarrow> ('n, BlockInfo_rpc) action" where
  "GetBlockInfo_rpc H b hash =
     resultOf (blockError ''hash'') (annotatedCall ''hash'' (Call_rpc H b (readResult readBlockInfo
       (BlockHeader.extend zeroHeader \<lparr> Version_ri = '''', MerkleRoot_ri = '''', Nonce_ri = '''', Bits_ri = '''', Difficulty_ri = '''', Txids_ri = [], SaplingRoot_ri = '''' \<rparr>))
       (CmdGetBlock hash 1)))"

section \<open>Properties\<close>

lemma map_JString_eq [simp]: "map JString xs = map JString ys \<longleftrightarrow> xs = ys"
  by (rule inj_map_eq_map) (simp add: inj_def)

lemma uint_JNumber [simp]: "uint (x :: uint32) = uint y \<longleftrightarrow> x = y"
  by (rule word_uint_eq_iff[symmetric])

lemma marshal_method:
  "marshalV2 c = marshalV2 c' \<Longrightarrow> cmdMethod c = cmdMethod c'" "marshalV1 c = marshalV1 c' \<Longrightarrow> cmdMethod c = cmdMethod c'"
  by (simp_all add: marshalV2_def marshalV1_def)

text \<open>The commands that can share a method.\<close>

definition sameCommand :: "cmd \<Rightarrow> cmd \<Rightarrow> bool" where
  "sameCommand c c' = (case (c, c') of
       (CmdGetBlockHash _, CmdGetBlockHash _) \<Rightarrow> True | (CmdGetBlockHeader _ _, CmdGetBlockHeader _ _) \<Rightarrow> True | (CmdGetBlock _ _, CmdGetBlock _ _) \<Rightarrow> True
     | (CmdGetRawTransaction _ _, CmdGetRawTransaction _ _) \<Rightarrow> True | (CmdEstimateSmartFee _ _, CmdEstimateSmartFee _ _) \<Rightarrow> True | (CmdEstimateFee _, CmdEstimateFee _) \<Rightarrow> True
     | (CmdSendRawTransaction _, CmdSendRawTransaction _) \<Rightarrow> True | (CmdGetMempoolEntry _, CmdGetMempoolEntry _) \<Rightarrow> True
     | (CmdGetNodeBlockCount _, CmdGetNodeBlockCount _) \<Rightarrow> True | (CmdFindSerial _, CmdFindSerial _) \<Rightarrow> True | _ \<Rightarrow> c = c')"

lemma cmdMethod_sameCommand: "cmdMethod c = cmdMethod c' \<Longrightarrow> sameCommand c c'"
  by (cases c; cases c'; simp add: cmdMethod_def sameCommand_def)

text \<open>C25: 
  The newer encoding tells all commands apart. The legacy encoding sends the verbosity of \<open>getblock\<close> as a boolean, so that it tells all commands apart except the reading of a block with its ids and the reading of a
  block with its transactions.
\<close>

theorem codec_distinguishes:
  "(MarshalCmd JSONMarshalerV2 c = MarshalCmd JSONMarshalerV2 c' \<longleftrightarrow> c = c') \<and>
   (MarshalCmd JSONMarshalerV1 c = MarshalCmd JSONMarshalerV1 c' \<longleftrightarrow>
      c = c' \<or> (\<exists>h v v'. c = CmdGetBlock h v \<and> c' = CmdGetBlock h v' \<and> (0 < v \<longleftrightarrow> 0 < v')))"
proof (cases "cmdMethod c = cmdMethod c'")
  case True
  then have "sameCommand c c'" by (rule cmdMethod_sameCommand)
  then show ?thesis
    by (cases c; cases c') (auto simp: MarshalCmd_def sameCommand_def marshalV2_def marshalV1_def cmdMethod_def cmdParams_def untypedParams_def omitempty_def)
next
  case False
  then have "c \<noteq> c'" and "\<not> (\<exists>h v v'. c = CmdGetBlock h v \<and> c' = CmdGetBlock h v')" by (auto simp: cmdMethod_def)
  then show ?thesis using False marshal_method[of c c'] by (auto simp: MarshalCmd_def)
qed

lemma decodeReply_text:
  assumes "Body_hr reply = Inr data"
  shows "decodeReply H rd reply = Inr r \<longleftrightarrow> rbind (parseJson H data) rd = Inr r" and "decodeReply H rd reply = Inl e \<Longrightarrow> \<not> is_panic e"
proof -
  show "decodeReply H rd reply = Inr r \<longleftrightarrow> rbind (parseJson H data) rd = Inr r"
    unfolding decodeReply_def safeDecodeResponse_def assms rbind_simps by (cases "rbind (parseJson H data) rd") auto
  show "\<not> is_panic e" if "decodeReply H rd reply = Inl e"
    using that unfolding decodeReply_def safeDecodeResponse_def assms rbind_simps by (cases "rbind (parseJson H data) rd") (auto split: if_splits)
qed

text \<open>
  What a call returns. A reply whose text is a JSON answer gives that answer, whatever the status of the reply; otherwise the call fails, and never with a panic of the decoder.
\<close>

theorem rpc_call_result:
  assumes "Do H \<lparr> Method_hc = ''POST'', URL_hc = rpcURL b, User_hc = user b, Password_hc = password b, Json_hc = False,
      Body_hc = Some (MarshalCmd (marshaler b) c) \<rparr> w = (Inr reply, w')"
    and "Body_hr reply = Inr data"
  shows "(\<forall>r. Call_rpc H b rd c w = (Inr r, w') \<longleftrightarrow> (\<exists>j. parseJson H data = Inr j \<and> rd j = Inr r)) \<and>
    (\<forall>e w''. Call_rpc H b rd c w = (Inl e, w'') \<longrightarrow> \<not> is_panic e \<and> w'' = w')"
proof -
  have c: "Call_rpc H b rd c w = (decodeReply H rd reply, w')" using assms(1) by (simp add: Call_rpc_def)
  show ?thesis using decodeReply_text[OF assms(2), of H rd] unfolding c by (auto simp: rbind_eq_Inr_iff)
qed

text \<open>A server that knows one block hash and answers with an error status otherwise.\<close>

definition sampleHttp :: "unit http_env" where
  "sampleHttp =
     \<lparr> Do = (\<lambda>q. if Body_hc q = Some (JObject [(''method'', JString ''getblockhash''), (''params'', JArray [JNumber 7])])
         then ret \<lparr> StatusCode = 200, Status_hr = ''200 OK'', Body_hr = Inr ''A'' \<rparr> else ret \<lparr> StatusCode = 500, Status_hr = ''500'', Body_hr = Inr ''B'' \<rparr>),
       parseJson = (\<lambda>s. Inr (if s = ''A'' then JObject [(''result'', JString ''0a''), (''error'', JNull)]
         else JObject [(''error'', JObject [(''code'', JNumber (- 8)), (''message'', JString ''Block height out of range'')])])),
       rawText = (\<lambda>_. ''''), errText_h = (\<lambda>_. ''error''), ParseFloat = (\<lambda>_. Inr 0) \<rparr>"

definition sampleConn :: rpc_conn where
  "sampleConn = \<lparr> rpcURL = ''http'', user = ''u'', password = ''p'', marshaler = JSONMarshalerV1 \<rparr>"

theorem rpc_call_result_witness:
  "Call_rpc sampleHttp sampleConn (readResult readString '''') (CmdGetBlockHash 7) () = (Inr (None, ''0a''), ()) \<and>
   Call_rpc sampleHttp sampleConn (readResult readString '''') (CmdGetBlockHash 8) () = (Inr (Some \<lparr> Code = - 8, Message = ''Block height out of range'' \<rparr>, ''''), ())"
proof -
  let ?q = "\<lambda>c. \<lparr> Method_hc = ''POST'', URL_hc = rpcURL sampleConn, User_hc = user sampleConn, Password_hc = password sampleConn, Json_hc = False,
      Body_hc = Some (MarshalCmd (marshaler sampleConn) c) \<rparr>"
  have 1: "Do sampleHttp (?q (CmdGetBlockHash 7)) () = (Inr \<lparr> StatusCode = 200, Status_hr = ''200 OK'', Body_hr = Inr ''A'' \<rparr>, ())"
    by (simp add: sampleHttp_def sampleConn_def MarshalCmd_def marshalV1_def cmdMethod_def untypedParams_def cmdParams_def omitempty_def)
  have 2: "Do sampleHttp (?q (CmdGetBlockHash 8)) () = (Inr \<lparr> StatusCode = 500, Status_hr = ''500'', Body_hr = Inr ''B'' \<rparr>, ())"
    by (simp add: sampleHttp_def sampleConn_def MarshalCmd_def marshalV1_def cmdMethod_def untypedParams_def cmdParams_def omitempty_def)
  note rd = readResult_def readRPCError_def readPointer_def membersOf_def jsonMember_def valuesFor_def readString_def readInt_def ToLower_def toLowerChar_def
  have 3: "\<exists>j. parseJson sampleHttp ''A'' = Inr j \<and> readResult readString '''' j = Inr (None, ''0a'')"
    by (simp add: sampleHttp_def rd)
  have 4: "\<exists>j. parseJson sampleHttp ''B'' = Inr j \<and> readResult readString '''' j = Inr (Some \<lparr> Code = - 8, Message = ''Block height out of range'' \<rparr>, '''')"
    by (simp add: sampleHttp_def rd)
  show ?thesis
    using rpc_call_result[OF 1, of "''A''" "readResult readString ''''"] rpc_call_result[OF 2, of "''B''" "readResult readString ''''"] 3 4 by (auto simp del: readString_def)
qed

end
