(* ===== verification/Node_Start.thy ===== *)
theory Node_Start
  imports Node_Transport
begin

text \<open>
  The start of the clients of bitcoin type nodes: the configuration, \<open>NewBitcoinRPC\<close>, \<open>NewSkyrRPC\<close> and their \<open>Initialize\<close> (\<open>coins/btc/bitcoinrpc.go\<close>, \<open>coins/skyr/skyrrpc.go\<close>), and the alternative fee estimates
  (\<open>coins/btc/whatthefee.go\<close>).

  The parser of a bitcoin network and whether its parameters are those of the main net are parameters (\<open>chaincfg\<close> of btcutil). Timeouts are left out. The download of the fee estimates is a parameter; \<open>expFee\<close> stands for the floating point function
  \<open>int(1000 * math.Exp(float64(l)/100))\<close>.

  The theorems: which commands the fee estimates of a started client use; the network and the parser that a started client has; the table of the alternative estimates.
\<close>

section \<open>Configuration\<close>

record ClientConfiguration = RPCConfiguration +
  CoinName_cc :: string
  CoinShortcut_cc :: string
  RPCURL :: string
  RPCUser :: string
  RPCPass :: string
  RPCTimeout :: int
  MessageQueueBinding :: string
  Subversion_cc :: string
  AddressFormat :: string
  AlternativeEstimateFee :: string
  AlternativeEstimateFeeParams :: string

definition readConfiguration :: "json \<Rightarrow> go_error + ClientConfiguration" where
  "readConfiguration j =
     rbind (membersOf j) (\<lambda>o'.
     rbind (stringMember ''coin_name'' o') (\<lambda>cn. rbind (stringMember ''coin_shortcut'' o') (\<lambda>cs. rbind (stringMember ''rpc_url'' o') (\<lambda>url.
     rbind (stringMember ''rpc_user'' o') (\<lambda>usr. rbind (stringMember ''rpc_pass'' o') (\<lambda>pw. rbind (jsonMember readInt 0 ''rpc_timeout'' o') (\<lambda>tmo.
     rbind (jsonMember readBool False ''parse'' o') (\<lambda>prs. rbind (stringMember ''message_queue_binding'' o') (\<lambda>mq. rbind (stringMember ''subversion'' o') (\<lambda>sv.
     rbind (jsonMember readInt 0 ''block_addresses_to_keep'' o') (\<lambda>keep. rbind (jsonMember readInt 0 ''mempool_workers'' o') (\<lambda>mw.
     rbind (jsonMember readInt 0 ''mempool_sub_workers'' o') (\<lambda>msw. rbind (stringMember ''address_format'' o') (\<lambda>af.
     rbind (jsonMember readBool False ''supports_estimate_fee'' o') (\<lambda>ef. rbind (jsonMember readBool False ''supports_estimate_smart_fee'' o') (\<lambda>esf.
     rbind (jsonMember readUint32 0 ''xpub_magic'' o') (\<lambda>x. rbind (jsonMember readUint32 0 ''xpub_magic_segwit_p2sh'' o') (\<lambda>xp.
     rbind (jsonMember readUint32 0 ''xpub_magic_segwit_native'' o') (\<lambda>xn. rbind (jsonMember readUint32 0 ''slip44'' o') (\<lambda>sl.
     rbind (stringMember ''alternativeEstimateFee'' o') (\<lambda>alt. rbind (stringMember ''alternativeEstimateFeeParams'' o') (\<lambda>altp.
     rbind (stringMember ''geolocation_url'' o') (\<lambda>geo.
     Inr \<lparr> BlockAddressesToKeep_c = keep, XPubMagic_c = x, XPubMagicSegwitP2sh_c = xp, XPubMagicSegwitNative_c = xn, Slip44_c = sl, Parse = prs, MempoolWorkers = mw,
           MempoolSubWorkers = msw, SupportsEstimateFee = ef, SupportsEstimateSmartFee = esf, Geolocation_url = geo, CoinName_cc = cn, CoinShortcut_cc = cs, RPCURL = url,
           RPCUser = usr, RPCPass = pw, RPCTimeout = tmo, MessageQueueBinding = mq, Subversion_cc = sv, AddressFormat = af, AlternativeEstimateFee = alt,
           AlternativeEstimateFeeParams = altp \<rparr>)))))))))))))))))))))))"

section \<open>Alternative fee estimates\<close>

record whatTheFeeServiceResult =
  Index_wf :: "int list"
  Columns :: "string list"
  Data_wf :: "int list list"

record whatTheFeeFee =
  blocks_wf :: int
  feesPerKB :: "int list"

record whatTheFeeData =
  probabilities :: "string list"
  fees :: "whatTheFeeFee list"
  lastSync :: "int option"

definition readWhatTheFeeParams :: "json \<Rightarrow> go_error + string \<times> int" where
  "readWhatTheFeeParams j = rbind (membersOf j) (\<lambda>o'. rbind (stringMember ''url'' o') (\<lambda>u. rbind (jsonMember readInt 0 ''PeriodSeconds'' o') (\<lambda>p. Inr (u, p))))"

definition InitWhatTheFee :: "(string \<Rightarrow> go_error + json) \<Rightarrow> string \<Rightarrow> go_error + string \<times> int" where
  "InitWhatTheFee parse params =
     rbind (parse params) (\<lambda>j. rbind (readWhatTheFeeParams j) (\<lambda>(url, period).
     if url = '''' \<or> period = 0 then Inl (Errorf ''Missing parameters'') else Inr (url, period)))"

text \<open>The loop over the rows of the table stops at a row with a wrong number of columns, when the table is already replaced.\<close>

fun processRows :: "(int \<Rightarrow> int) \<Rightarrow> nat \<Rightarrow> (int \<times> int list) list \<Rightarrow> bool \<times> whatTheFeeFee list" where
  "processRows expFee n [] = (True, [])"
| "processRows expFee n ((blocks, row) # rows) =
     (if length row \<noteq> n then (False, replicate (Suc (length rows)) \<lparr> blocks_wf = 0, feesPerKB = [] \<rparr>)
      else case processRows expFee n rows of (ok, fs) \<Rightarrow> (ok, \<lparr> blocks_wf = blocks, feesPerKB = map expFee row \<rparr> # fs))"

definition whatTheFeeProcessData :: "(int \<Rightarrow> int) \<Rightarrow> int \<Rightarrow> whatTheFeeServiceResult \<Rightarrow> whatTheFeeData \<Rightarrow> bool \<times> whatTheFeeData" where
  "whatTheFeeProcessData expFee now data s =
     (if Index_wf data = [] \<or> length (Index_wf data) \<noteq> length (Data_wf data) \<or> Columns data = [] then (False, s)
      else
        case processRows expFee (length (Columns data)) (zip (Index_wf data) (Data_wf data)) of
          (ok, fs) \<Rightarrow> (ok, s\<lparr> probabilities := Columns data, fees := fs, lastSync := (if ok then Some now else lastSync s) \<rparr>))"

text \<open>One round of the downloader: every 60th successful download is compared with the estimates of the node.\<close>

definition whatTheFeeRound :: "(int \<Rightarrow> int) \<Rightarrow> int \<Rightarrow> go_error + whatTheFeeServiceResult \<Rightarrow> nat \<times> whatTheFeeData \<Rightarrow> bool \<times> nat \<times> whatTheFeeData" where
  "whatTheFeeRound expFee now r = (\<lambda>(counter, s).
     case r of
       Inl _ \<Rightarrow> (False, counter, s)
     | Inr data \<Rightarrow>
         (case whatTheFeeProcessData expFee now data s of
            (ok, s') \<Rightarrow> if ok then (counter mod 60 = 0, counter + 1, s') else (False, counter, s')))"

section \<open>Clients\<close>

text \<open>A client has no parser before it is initialised; \<open>p0\<close> stands for none.\<close>

record bitcoin_client =
  rpc_cl :: BitcoinRPC
  conn_cl :: rpc_conn
  config_cl :: ClientConfiguration

definition setChainConfig :: "ClientConfiguration \<Rightarrow> bitcoin_client \<Rightarrow> bitcoin_client" where
  "setChainConfig c b = b\<lparr> config_cl := c, rpc_cl := (rpc_cl b)\<lparr> ChainConfig := RPCConfiguration.truncate c \<rparr> \<rparr>"

definition checkClientConfiguration :: "ClientConfiguration \<Rightarrow> ClientConfiguration" where
  "checkClientConfiguration c = c\<lparr> BlockAddressesToKeep_c := max 100 (BlockAddressesToKeep_c c),
     MempoolWorkers := max 1 (MempoolWorkers c), MempoolSubWorkers := max 1 (MempoolSubWorkers c),
     SupportsEstimateFee := True, SupportsEstimateSmartFee := True \<rparr>"

definition NewBitcoinRPC :: "BlockChainParser \<Rightarrow> json \<Rightarrow> go_error + bitcoin_client" where
  "NewBitcoinRPC p0 config =
     rbind (Annotatef ''Invalid configuration file'' (readConfiguration config)) (\<lambda>c.
     let c = checkClientConfiguration c in
     Inr \<lparr> rpc_cl = \<lparr> Parser = p0, ParseBlocks = Parse c, Testnet = False, Network = '''', ChainConfig = RPCConfiguration.truncate c \<rparr>,
           conn_cl = \<lparr> rpcURL = RPCURL c, user = RPCUser c, password = RPCPass c, marshaler = JSONMarshalerV2 \<rparr>, config_cl = c \<rparr>)"

definition NewSkyrRPC :: "BlockChainParser \<Rightarrow> json \<Rightarrow> go_error + bitcoin_client" where
  "NewSkyrRPC p0 config =
     rbind (NewBitcoinRPC p0 config) (\<lambda>b.
     let b = setChainConfig ((config_cl b)\<lparr> SupportsEstimateFee := True, SupportsEstimateSmartFee := False \<rparr>) b in
     Inr (b\<lparr> conn_cl := (conn_cl b)\<lparr> marshaler := JSONMarshalerV1 \<rparr> \<rparr>))"

definition started :: "BlockChainParser \<Rightarrow> bool \<Rightarrow> bitcoin_client \<Rightarrow> bitcoin_client" where
  "started p mainnet b = b\<lparr> rpc_cl := (rpc_cl b)\<lparr> Parser := p, Testnet := \<not> mainnet, Network := (if mainnet then ''livenet'' else ''testnet'') \<rparr> \<rparr>"

text \<open>When the alternative estimates cannot be started the setting is dropped.\<close>

definition Initialize_btc ::
    "(string \<Rightarrow> ClientConfiguration \<Rightarrow> BlockChainParser) \<Rightarrow> (string \<Rightarrow> bool) \<Rightarrow> (string \<Rightarrow> go_error + json) \<Rightarrow> 'n node \<Rightarrow> bitcoin_client \<Rightarrow> ('n, bitcoin_client) action" where
  "Initialize_btc parserFor mainNet parse N b =
     (let b = setChainConfig ((config_cl b)\<lparr> SupportsEstimateFee := False \<rparr>) b in
      abind (GetChainInfo_btc N) (\<lambda>ci.
      let b = started (parserFor (Chain_in ci) (config_cl b)) (mainNet (Chain_in ci)) b;
          c = config_cl b in
      ret (if AlternativeEstimateFee c = ''whatthefee'' \<and> isl (InitWhatTheFee parse (AlternativeEstimateFeeParams c))
           then setChainConfig (c\<lparr> AlternativeEstimateFee := '''' \<rparr>) b else b)))"

definition Initialize_skyr :: "('a, 'k) skyr_packages \<Rightarrow> vlq \<Rightarrow> parser_packages \<Rightarrow> 'n node \<Rightarrow> bitcoin_client \<Rightarrow> ('n, bitcoin_client) action" where
  "Initialize_skyr B v P N b =
     abind (GetChainInfo_skyr (rpc_cl b) N) (\<lambda>ci.
     let params = GetChainParams B (Chain_in ci) in
     ret (started (NewSkyrParser B v P params (Configuration.truncate (config_cl b))) (Net params = MainnetMagic) b))"

definition GetCoinName_rpc :: "bitcoin_client \<Rightarrow> string" where
  "GetCoinName_rpc b = CoinName_cc (config_cl b)"

definition GetSubversion_rpc :: "bitcoin_client \<Rightarrow> string" where
  "GetSubversion_rpc b = Subversion_cc (config_cl b)"

section \<open>Properties\<close>

lemma started_simps [simp]:
  "ChainConfig (rpc_cl (started p m b)) = ChainConfig (rpc_cl b)" "config_cl (started p m b) = config_cl b" "Parser (rpc_cl (started p m b)) = p"
  "Testnet (rpc_cl (started p m b)) = (\<not> m)" "Network (rpc_cl (started p m b)) = (if m then ''livenet'' else ''testnet'')" "conn_cl (started p m b) = conn_cl b"
  by (simp_all add: started_def)

lemma setChainConfig_simps [simp]:
  "ChainConfig (rpc_cl (setChainConfig c b)) = RPCConfiguration.truncate c" "config_cl (setChainConfig c b) = c" "Parser (rpc_cl (setChainConfig c b)) = Parser (rpc_cl b)"
  "Testnet (rpc_cl (setChainConfig c b)) = Testnet (rpc_cl b)" "Network (rpc_cl (setChainConfig c b)) = Network (rpc_cl b)" "conn_cl (setChainConfig c b) = conn_cl b"
  by (simp_all add: setChainConfig_def)

lemma truncate_supports [simp]:
  "SupportsEstimateFee (RPCConfiguration.truncate c) = SupportsEstimateFee c" "SupportsEstimateSmartFee (RPCConfiguration.truncate c) = SupportsEstimateSmartFee c"
  by (simp_all add: RPCConfiguration.truncate_def)

lemma NewBitcoinRPC_config:
  assumes "NewBitcoinRPC p0 config = Inr b"
  shows "SupportsEstimateSmartFee (config_cl b)" and "100 \<le> BlockAddressesToKeep_c (config_cl b)"
proof -
  from assms obtain c where "config_cl b = checkClientConfiguration c"
    unfolding NewBitcoinRPC_def Let_def by (auto elim!: rbind_eq_InrE)
  then show "SupportsEstimateSmartFee (config_cl b)" "100 \<le> BlockAddressesToKeep_c (config_cl b)"
    by (simp_all add: checkClientConfiguration_def)
qed

lemma Initialize_btc_result:
  assumes "Initialize_btc parserFor mainNet parse N b0 n = (Inr b, n')"
  obtains ci where "GetChainInfo_btc N n = (Inr ci, n')" "SupportsEstimateFee (ChainConfig (rpc_cl b)) = False"
    "SupportsEstimateSmartFee (ChainConfig (rpc_cl b)) = SupportsEstimateSmartFee (config_cl b0)"
    "Testnet (rpc_cl b) = (\<not> mainNet (Chain_in ci))" "Network (rpc_cl b) = (if mainNet (Chain_in ci) then ''livenet'' else ''testnet'')"
    "BlockAddressesToKeep_c (config_cl b) = BlockAddressesToKeep_c (config_cl b0)"
proof -
  let ?b = "setChainConfig ((config_cl b0)\<lparr> SupportsEstimateFee := False \<rparr>) b0"
  from assms obtain ci where ci: "GetChainInfo_btc N n = (Inr ci, n')"
    and b: "b = (let b = started (parserFor (Chain_in ci) (config_cl ?b)) (mainNet (Chain_in ci)) ?b; c = config_cl b in
      if AlternativeEstimateFee c = ''whatthefee'' \<and> isl (InitWhatTheFee parse (AlternativeEstimateFeeParams c)) then setChainConfig (c\<lparr> AlternativeEstimateFee := '''' \<rparr>) b else b)"
    unfolding Initialize_btc_def Let_def abind_eq_Inr_iff ret_def by blast
  show thesis by (rule that[OF ci]) (simp_all add: b Let_def)
qed

text \<open>
  How a started client estimates fees. The bitcoin client asks for a smart estimate in both cases, conservatively for \<open>EstimateFee\<close>; the Skyr client asks for a plain estimate in both cases and sends the legacy encoding. Both know the
  network and the parser that belong to the chain that the node reports, and keep at least 100 blocks and one worker.
\<close>

theorem started_clients:
  assumes "NewBitcoinRPC p0 config = Inr b0" "Initialize_btc parserFor mainNet parse N b0 n = (Inr b, n')"
    and "NewSkyrRPC p0 config = Inr z0" "Initialize_skyr B v P N z0 m = (Inr z, m')"
  shows "EstimateFee_rpc (rpc_cl b) N blocks = EstimateSmartFee_rpc (rpc_cl b) N blocks True \<and> \<not> SupportsEstimateFee (ChainConfig (rpc_cl b)) \<and>
    EstimateSmartFee_rpc (rpc_cl z) N blocks cons = EstimateFee_rpc (rpc_cl z) N blocks \<and> marshaler (conn_cl z) = JSONMarshalerV1 \<and>
    100 \<le> BlockAddressesToKeep_c (config_cl b) \<and> 100 \<le> BlockAddressesToKeep_c (config_cl z) \<and>
    (\<exists>ci. GetChainInfo_btc N n = (Inr ci, n') \<and> Testnet (rpc_cl b) = (\<not> mainNet (Chain_in ci)) \<and> (Network (rpc_cl b) = ''livenet'' \<longleftrightarrow> mainNet (Chain_in ci))) \<and>
    (\<exists>ci. GetChainInfo_skyr (rpc_cl z0) N m = (Inr ci, m') \<and> (Testnet (rpc_cl z) \<longleftrightarrow> Chain_in ci = ''test'') \<and> (Network (rpc_cl z) = ''livenet'' \<longleftrightarrow> Chain_in ci \<noteq> ''test'') \<and>
      Parser (rpc_cl z) = NewSkyrParser B v P (GetChainParams B (Chain_in ci)) (Configuration.truncate (config_cl z)))"
proof -
  obtain ci where ci: "GetChainInfo_btc N n = (Inr ci, n')" "SupportsEstimateFee (ChainConfig (rpc_cl b)) = False" "SupportsEstimateSmartFee (ChainConfig (rpc_cl b)) = True"
      "Testnet (rpc_cl b) = (\<not> mainNet (Chain_in ci))" "Network (rpc_cl b) = (if mainNet (Chain_in ci) then ''livenet'' else ''testnet'')"
      "BlockAddressesToKeep_c (config_cl b) = BlockAddressesToKeep_c (config_cl b0)"
    using Initialize_btc_result[OF assms(2)] NewBitcoinRPC_config[OF assms(1)] by metis
  obtain cz where cz: "GetChainInfo_skyr (rpc_cl z0) N m = (Inr cz, m')"
      "z = started (NewSkyrParser B v P (GetChainParams B (Chain_in cz)) (Configuration.truncate (config_cl z0))) (Net (GetChainParams B (Chain_in cz)) = MainnetMagic) z0"
    using assms(4) by (auto simp: Initialize_skyr_def Let_def abind_eq_Inr_iff)
  from assms(3) obtain b1 where b1: "NewBitcoinRPC p0 config = Inr b1"
      "z0 = (let b = setChainConfig ((config_cl b1)\<lparr> SupportsEstimateFee := True, SupportsEstimateSmartFee := False \<rparr>) b1 in
         b\<lparr> conn_cl := (conn_cl b)\<lparr> marshaler := JSONMarshalerV1 \<rparr> \<rparr>)"
    unfolding NewSkyrRPC_def Let_def by (auto elim!: rbind_eq_InrE)
  then have keep: "100 \<le> BlockAddressesToKeep_c (config_cl b0)" "100 \<le> BlockAddressesToKeep_c (config_cl z0)"
    using NewBitcoinRPC_config(2)[OF assms(1)] NewBitcoinRPC_config(2)[OF b1(1)] by (simp_all add: Let_def)
  have z0: "SupportsEstimateFee (ChainConfig (rpc_cl z0))" "\<not> SupportsEstimateSmartFee (ChainConfig (rpc_cl z0))" "marshaler (conn_cl z0) = JSONMarshalerV1"
    using b1(2) by (simp_all add: Let_def)
  have net: "Net (GetChainParams B chain) = MainnetMagic \<longleftrightarrow> chain \<noteq> ''test''" for chain
    by (simp add: GetChainParams_def TestNetParams_def MainNetParams_def MainnetMagic_def TestnetMagic_def)
  have eb: "EstimateFee_rpc (rpc_cl b) N blocks = EstimateSmartFee_rpc (rpc_cl b) N blocks True"
    using ci(2,3) by (simp add: EstimateFee_rpc_def EstimateSmartFee_rpc_def numeral_2_eq_2)
  have ez: "EstimateSmartFee_rpc (rpc_cl z) N blocks cons = EstimateFee_rpc (rpc_cl z) N blocks"
    using z0 by (simp add: cz(2) EstimateFee_rpc_def EstimateSmartFee_rpc_def numeral_2_eq_2)
  show ?thesis using ci cz keep z0 eb ez net by simp
qed

text \<open>A node of the test net that answers the questions of the start.\<close>

definition startNode :: "Block list node" where
  "startNode = listNode
     \<lparr> getblockchaininfo := ret (None, \<lparr> Chain_ci = ''test'', Blocks_ci = 3, Headers_ci = 3, Bestblockhash_ci = ''0a'', Difficulty_ci = ''1'', SizeOnDisk_ci = 0, Warnings_ci = '''' \<rparr>),
       getnetworkinfo := ret (None, \<lparr> Version_ni = ''1'', Subversion_ni = '''', ProtocolVersion_ni = ''2'', Timeoffset_ni = 0, Warnings_ni = '''' \<rparr>),
       getinfo := ret (None, \<lparr> TransparentSupply_gi = ''1'', ShieldSupply_gi = ''0'', MoneySupply_gi = ''1'' \<rparr>), getmasternodecount := ret (None, 4),
       getconnectioncount := ret (None, 5) \<rparr>"

theorem started_clients_witness:
  "\<exists>(b :: bitcoin_client) (z :: bitcoin_client). EstimateFee_rpc (rpc_cl b) startNode 2 = EstimateSmartFee_rpc (rpc_cl b) startNode 2 True \<and>
     EstimateSmartFee_rpc (rpc_cl z) startNode 2 False = EstimateFee_rpc (rpc_cl z) startNode 2 \<and> Testnet (rpc_cl z) \<and> 100 \<le> BlockAddressesToKeep_c (config_cl z)"
proof -
  let ?P = "\<lparr> parser_packages.UnmarshalTx = (\<lambda>_. notSupported), proto = \<lparr> Marshal = (\<lambda>_. notSupported), Unmarshal = (\<lambda>_. notSupported) \<rparr> \<rparr>"
  obtain c where c: "readConfiguration (JObject []) = Inr c" by (simp add: readConfiguration_def membersOf_def jsonMember_def valuesFor_def)
  obtain b0 where b0: "NewBitcoinRPC (hexParser 300) (JObject []) = Inr b0" by (simp add: NewBitcoinRPC_def c Let_def Annotatef_def)
  obtain z0 where z0: "NewSkyrRPC (hexParser 300) (JObject []) = Inr z0" by (simp add: NewSkyrRPC_def b0 Let_def)
  obtain ci where ci: "GetChainInfo_btc startNode [] = (Inr ci, [])" "Chain_in ci = ''test''"
    by (simp add: GetChainInfo_btc_def startNode_def)
  have "\<exists>cz. GetChainInfo_skyr (rpc_cl z0) startNode [] = (Inr cz, []) \<and> Chain_in cz = ''test''"
    by (simp add: GetChainInfo_skyr_def ci) (simp add: startNode_def ci)
  then obtain cz where cz: "GetChainInfo_skyr (rpc_cl z0) startNode [] = (Inr cz, [])" "Chain_in cz = ''test''" by blast
  obtain b where b: "Initialize_btc (\<lambda>_ _. hexParser 300) (\<lambda>_. False) (\<lambda>_. Inl typeError) startNode b0 [] = (Inr b, [])"
    by (simp add: Initialize_btc_def Let_def ci)
  obtain z where z: "Initialize_skyr tinySkyr base128 ?P startNode z0 [] = (Inr z, [])"
    by (simp add: Initialize_skyr_def Let_def cz)
  from started_clients[OF b0 b z0 z, of 2 False] cz show ?thesis by auto
qed

lemma processRows_ok: "processRows expFee n rows = (ok, fs) \<Longrightarrow> length fs = length rows \<and> (ok \<longleftrightarrow> list_all (\<lambda>(_, row). length row = n) rows)"
  by (induction rows arbitrary: ok fs) (auto split: if_splits prod.splits)

lemma processRows_rows:
  "processRows expFee n rows = (True, fs) \<Longrightarrow> fs = map (\<lambda>(b, row). \<lparr> blocks_wf = b, feesPerKB = map expFee row \<rparr>) rows"
  by (induction rows arbitrary: fs) (auto split: if_splits prod.splits)

lemma processRows_bad:
  "processRows expFee n rows = (False, fs) \<Longrightarrow> \<exists>i < length rows. length (snd (rows ! i)) \<noteq> n \<and> fs ! i = \<lparr> blocks_wf = 0, feesPerKB = [] \<rparr>"
proof (induction rows arbitrary: fs)
  case (Cons r rows)
  obtain b row where r: "r = (b, row)" by fastforce
  show ?case
  proof (cases "length row = n")
    case True
    with Cons.prems r obtain fs' where fs': "processRows expFee n rows = (False, fs')" "fs = \<lparr> blocks_wf = b, feesPerKB = map expFee row \<rparr> # fs'"
      by (auto split: prod.splits)
    from Cons.IH[OF fs'(1)] obtain i where "i < length rows" "length (snd (rows ! i)) \<noteq> n" "fs' ! i = \<lparr> blocks_wf = 0, feesPerKB = [] \<rparr>" by blast
    then show ?thesis using fs'(2) by (intro exI[of _ "Suc i"]) simp
  qed (use Cons.prems r in auto)
qed simp

text \<open>The table of the alternative estimates has a row for each entry of the answer exactly when the answer is rectangular; otherwise the table is replaced up to the first bad row and empty from there on, and the time of the last sync stays.\<close>

theorem fee_table_result:
  assumes "whatTheFeeProcessData expFee now data s = (ok, s')" "Index_wf data \<noteq> []" "length (Index_wf data) = length (Data_wf data)" "Columns data \<noteq> []"
  shows "(ok \<longleftrightarrow> (\<forall>row \<in> set (Data_wf data). length row = length (Columns data))) \<and> length (fees s') = length (Index_wf data) \<and>
    (ok \<longrightarrow> lastSync s' = Some now \<and> fees s' = map2 (\<lambda>b row. \<lparr> blocks_wf = b, feesPerKB = map expFee row \<rparr>) (Index_wf data) (Data_wf data)) \<and>
    (\<not> ok \<longrightarrow> lastSync s' = lastSync s \<and> \<lparr> blocks_wf = 0, feesPerKB = [] \<rparr> \<in> set (fees s'))"
proof -
  obtain fs where p: "processRows expFee (length (Columns data)) (zip (Index_wf data) (Data_wf data)) = (ok, fs)"
    and s': "s' = s\<lparr> probabilities := Columns data, fees := fs, lastSync := (if ok then Some now else lastSync s) \<rparr>"
    using assms by (auto simp: whatTheFeeProcessData_def split: prod.splits)
  have "list_all (\<lambda>(_, row). length row = length (Columns data)) (zip (Index_wf data) (Data_wf data)) \<longleftrightarrow> (\<forall>row \<in> set (Data_wf data). length row = length (Columns data))"
    using assms(3) by (auto simp: list_all_length all_set_conv_all_nth)
  moreover have "\<lparr> blocks_wf = 0, feesPerKB = [] \<rparr> \<in> set fs" if "\<not> ok"
  proof -
    from p that have "processRows expFee (length (Columns data)) (zip (Index_wf data) (Data_wf data)) = (False, fs)" by simp
    from processRows_bad[OF this] obtain i where "i < length (zip (Index_wf data) (Data_wf data))" "fs ! i = \<lparr> blocks_wf = 0, feesPerKB = [] \<rparr>" by blast
    then show ?thesis using processRows_ok[OF p] nth_mem[of i fs] by simp
  qed
  moreover have "fs = map2 (\<lambda>b row. \<lparr> blocks_wf = b, feesPerKB = map expFee row \<rparr>) (Index_wf data) (Data_wf data)" if ok
    using processRows_rows[of expFee "length (Columns data)" "zip (Index_wf data) (Data_wf data)" fs] p that by simp
  ultimately show ?thesis using processRows_ok[OF p] s' assms(3) by auto
qed

theorem fee_table_result_witness:
  "\<exists>s. whatTheFeeProcessData (\<lambda>l. 1000 + l) 5 \<lparr> Index_wf = [3, 6], Columns = [''0.05'', ''0.2''], Data_wf = [[60, 180], [20]] \<rparr>
       \<lparr> probabilities = [], fees = [], lastSync = None \<rparr> = (False, s) \<and> length (fees s) = 2 \<and> lastSync s = None"
proof -
  let ?d = "\<lparr> Index_wf = [3, 6], Columns = [''0.05'', ''0.2''], Data_wf = [[60, 180], [20]] \<rparr>"
  obtain ok s where r: "whatTheFeeProcessData (\<lambda>l. 1000 + l) 5 ?d \<lparr> probabilities = [], fees = [], lastSync = None \<rparr> = (ok, s)" by fastforce
  from fee_table_result[OF r] r show ?thesis by auto
qed

end
