(* ===== verification/Pivx_Coin.thy ===== *)
theory Pivx_Coin
  imports Node_Start
begin

text \<open>
  The coin PIVX, from which the coin of this explorer was made: its parser (\<open>bchain/coins/pivx/pivxparser.go\<close>, \<open>pivxdecode.go\<close>) and its client (\<open>pivxrpc.go\<close>). Packages and conventions are those of \<open>Skyr_Parser\<close> and
  \<open>Node_RPC\<close>.

  The theorems: with the same network parameters the two coins have the same parser, unless the network is the test net of one of them; the clients read the same blocks, and the chain info of the Skyr client only adds the number of connections.
\<close>

section \<open>Constants and parameters\<close>

definition MainnetMagic_pivx :: uint32 where "MainnetMagic_pivx = 0xe9fdc490"
definition TestnetMagic_pivx :: uint32 where "TestnetMagic_pivx = 0xba657645"
definition OP_IF_pivx :: byte where "OP_IF_pivx = 0x63"
definition OP_ELSE_pivx :: byte where "OP_ELSE_pivx = 0x67"
definition OP_ENDIF_pivx :: byte where "OP_ENDIF_pivx = 0x68"
definition OP_DUP_pivx :: byte where "OP_DUP_pivx = 0x76"
definition OP_ROT_pivx :: byte where "OP_ROT_pivx = 0x7b"
definition OP_EQUALVERIFY_pivx :: byte where "OP_EQUALVERIFY_pivx = 0x88"
definition OP_HASH160_pivx :: byte where "OP_HASH160_pivx = 0xa9"
definition OP_CHECKSIG_pivx :: byte where "OP_CHECKSIG_pivx = 0xac"
definition OP_ZEROCOINMINT_pivx :: byte where "OP_ZEROCOINMINT_pivx = 0xc1"
definition OP_ZEROCOINSPEND_pivx :: byte where "OP_ZEROCOINSPEND_pivx = 0xc2"
definition OP_CHECKCOLDSTAKEVERIFY_pivx :: byte where "OP_CHECKCOLDSTAKEVERIFY_pivx = 0xd1"
definition OP_EXCHANGEADDR_pivx :: byte where "OP_EXCHANGEADDR_pivx = 0xe0"
definition ZCMINT_LABEL_pivx :: string where "ZCMINT_LABEL_pivx = ''Zerocoin Mint''"
definition ZCSPEND_LABEL_pivx :: string where "ZCSPEND_LABEL_pivx = ''Zerocoin Spend''"
definition CBASE_LABEL_pivx :: string where "CBASE_LABEL_pivx = ''CoinBase TX''"
definition CSTAKE_LABEL_pivx :: string where "CSTAKE_LABEL_pivx = ''CoinStake TX''"
definition CBASE_ADDR_INT_pivx :: byte where "CBASE_ADDR_INT_pivx = 0xf7"
definition CSTAKE_ADDR_INT_pivx :: byte where "CSTAKE_ADDR_INT_pivx = 0xf8"
definition STAKING_ADDR_MAIN_pivx :: byte where "STAKING_ADDR_MAIN_pivx = 63"
definition STAKING_ADDR_TEST_pivx :: byte where "STAKING_ADDR_TEST_pivx = 73"
definition EXCHANGE_ADDR_MAIN_pivx :: bytes where "EXCHANGE_ADDR_MAIN_pivx = [0x01, 0xb9, 0xa2]"
definition EXCHANGE_ADDR_TEST_pivx :: bytes where "EXCHANGE_ADDR_TEST_pivx = [0x01, 0xb9, 0xb1]"

definition MainNetParams_pivx :: "('a, 'k) skyr_packages \<Rightarrow> Params" where
  "MainNetParams_pivx B = (MainNetParams_cc B)\<lparr> Net := MainnetMagic_pivx, PubKeyHashAddrID := [30], ScriptHashAddrID := [13], PrivateKeyID := [212] \<rparr>"

definition TestNetParams_pivx :: "('a, 'k) skyr_packages \<Rightarrow> Params" where
  "TestNetParams_pivx B = (TestNet3Params_cc B)\<lparr> Net := TestnetMagic_pivx, PubKeyHashAddrID := [139], ScriptHashAddrID := [19], PrivateKeyID := [239] \<rparr>"

definition GetChainParams_pivx :: "('a, 'k) skyr_packages \<Rightarrow> string \<Rightarrow> Params" where
  "GetChainParams_pivx B chainName = (if chainName = ''test'' then TestNetParams_pivx B else MainNetParams_pivx B)"

section \<open>Script classes\<close>

definition isZeroCoinMintScript_pivx :: "bytes \<Rightarrow> bool" where
  "isZeroCoinMintScript_pivx s \<longleftrightarrow> length s > 1 \<and> s ! 0 = OP_ZEROCOINMINT_pivx"

definition isZeroCoinSpendScript_pivx :: "bytes \<Rightarrow> bool" where
  "isZeroCoinSpendScript_pivx s \<longleftrightarrow> length s \<ge> 100 \<and> s ! 0 = OP_ZEROCOINSPEND_pivx"

definition isP2CSScript_pivx :: "bytes \<Rightarrow> bool" where
  "isP2CSScript_pivx s \<longleftrightarrow> length s = 51 \<and> s ! 0 = OP_DUP_pivx \<and> s ! 1 = OP_HASH160_pivx \<and> s ! 2 = OP_ROT_pivx \<and> s ! 3 = OP_IF_pivx \<and>
     s ! 4 = OP_CHECKCOLDSTAKEVERIFY_pivx \<and> s ! 5 = 0x14 \<and> s ! 26 = OP_ELSE_pivx \<and> s ! 27 = 0x14 \<and> s ! 48 = OP_ENDIF_pivx \<and>
     s ! 49 = OP_EQUALVERIFY_pivx \<and> s ! 50 = OP_CHECKSIG_pivx"

definition isP2EXScript_pivx :: "bytes \<Rightarrow> bool" where
  "isP2EXScript_pivx s \<longleftrightarrow> length s = 26 \<and> s ! 0 = OP_EXCHANGEADDR_pivx \<and> s ! 1 = OP_DUP_pivx \<and> s ! 2 = OP_HASH160_pivx \<and> s ! 3 = 0x14 \<and>
     s ! 24 = OP_EQUALVERIFY_pivx \<and> s ! 25 = OP_CHECKSIG_pivx"

definition isCoinBaseFakeAddr_pivx :: "bytes \<Rightarrow> bool" where
  "isCoinBaseFakeAddr_pivx s \<longleftrightarrow> length s = 1 \<and> s ! 0 = CBASE_ADDR_INT_pivx"

definition isCoinStakeFakeAddr_pivx :: "bytes \<Rightarrow> bool" where
  "isCoinStakeFakeAddr_pivx s \<longleftrightarrow> length s = 1 \<and> s ! 0 = CSTAKE_ADDR_INT_pivx"

definition isCoinbaseTx_pivx :: "Tx \<Rightarrow> bool" where
  "isCoinbaseTx_pivx tx \<longleftrightarrow> length (Vin_tx tx) = 1 \<and> Coinbase (Vin_tx tx ! 0) \<noteq> '''' \<and> Sequence (Vin_tx tx ! 0) = 0xffffffff"

section \<open>Addresses of a script\<close>

text \<open>\<open>copy\<close> into a slice of 20 bytes takes the first 20 of the 21 bytes of the slice expression.\<close>

definition P2CSScriptToAddress_pivx :: "('a, 'k) skyr_packages \<Rightarrow> Params \<Rightarrow> OutputScriptToAddressesFunc" where
  "P2CSScriptToAddress_pivx B params script =
     (if length script < 50 then Inl (Errorf ''Invalid P2CS script'')
      else
        let stakeParams = (MainNetParams_cc B)\<lparr> PubKeyHashAddrID :=
              (if Net params = TestnetMagic_pivx then [STAKING_ADDR_TEST_pivx] else [STAKING_ADDR_MAIN_pivx]) \<rparr> in
        rbind (slice script 6 27) (\<lambda>s.
        rbind (NewAddressPubKeyHash B (take 20 s) stakeParams) (\<lambda>stakerAddr.
        rbind (slice script 28 49) (\<lambda>s.
        rbind (NewAddressPubKeyHash B (take 20 s) params) (\<lambda>ownerAddr.
        Inr ([EncodeAddress B stakerAddr, EncodeAddress B ownerAddr], True))))))"

definition exchangeParams_pivx :: "('a, 'k) skyr_packages \<Rightarrow> Params \<Rightarrow> Params" where
  "exchangeParams_pivx B params = (MainNetParams_cc B)\<lparr> PubKeyHashAddrID :=
     (if Net params = TestnetMagic_pivx then EXCHANGE_ADDR_TEST_pivx else EXCHANGE_ADDR_MAIN_pivx) \<rparr>"

definition P2EXScriptToAddress_pivx :: "('a, 'k) skyr_packages \<Rightarrow> Params \<Rightarrow> OutputScriptToAddressesFunc" where
  "P2EXScriptToAddress_pivx B params script =
     (if \<not> isP2EXScript_pivx script then Inl (Errorf ''Invalid P2EX script'')
      else
        rbind (slice script 4 24) (\<lambda>s.
        rbind (NewAddressPubKeyHash B s (exchangeParams_pivx B params)) (\<lambda>exAddr.
        Inr ([EncodeAddress B exAddr], True))))"

definition outputScriptToAddresses_pivx :: "('a, 'k) skyr_packages \<Rightarrow> Params \<Rightarrow> OutputScriptToAddressesFunc \<Rightarrow> OutputScriptToAddressesFunc" where
  "outputScriptToAddresses_pivx B params bitcoinFunc script =
     (if isZeroCoinSpendScript_pivx script then Inr ([ZCSPEND_LABEL_pivx], False)
      else if isZeroCoinMintScript_pivx script then Inr ([ZCMINT_LABEL_pivx], False)
      else if isCoinBaseFakeAddr_pivx script then Inr ([CBASE_LABEL_pivx], False)
      else if isCoinStakeFakeAddr_pivx script then Inr ([CSTAKE_LABEL_pivx], False)
      else if isP2CSScript_pivx script then P2CSScriptToAddress_pivx B params script
      else if isP2EXScript_pivx script then P2EXScriptToAddress_pivx B params script
      else (case bitcoinFunc script of
          Inl e \<Rightarrow> if is_panic e then Inl e else Inr ([], False)
        | Inr r \<Rightarrow> Inr r))"

definition IsAddrDescIndexable_pivx :: "AddressDescriptor \<Rightarrow> bool" where
  "IsAddrDescIndexable_pivx addrDesc =
     (\<not> (length addrDesc = 0 \<or> addrDesc ! 0 = OP_RETURN \<or> isCoinBaseFakeAddr_pivx addrDesc \<or> isCoinStakeFakeAddr_pivx addrDesc \<or>
         isZeroCoinSpendScript_pivx addrDesc \<or> isZeroCoinMintScript_pivx addrDesc))"

definition GetAddrDescFromAddress_pivx :: "('a, 'k) skyr_packages \<Rightarrow> Params \<Rightarrow> string \<Rightarrow> go_error + AddressDescriptor" where
  "GetAddrDescFromAddress_pivx B params address =
     (case GetAddrDescFromAddress_btc (bitcoin_packages.truncate B) address of
        Inr addr \<Rightarrow> Inr addr
      | Inl e \<Rightarrow>
          if is_panic e then Inl e
          else
            rbind (DecodeAddressFor B address ((exchangeParams_pivx B params)\<lparr> AddressMagicLen := 3 \<rparr>)) (\<lambda>exAddr.
            rbind (PayToAddrScript B exAddr) (\<lambda>script. Inr (OP_EXCHANGEADDR_pivx # script))))"

section \<open>Transactions\<close>

definition fakeScript_pivx :: "bool \<Rightarrow> string" where
  "fakeScript_pivx coinbase = Sprintf02x (if coinbase then CBASE_ADDR_INT_pivx else CSTAKE_ADDR_INT_pivx)"

definition fillVout_pivx :: "('a, 'k) skyr_packages \<Rightarrow> MsgTx \<Rightarrow> Vout \<Rightarrow> go_error + Vout" where
  "fillVout_pivx B t vout =
     (if Hex_spk (ScriptPubKey_vout vout) = '''' then
        rbind (if IsCoinBaseTx B t
               then rbind (index (TxIn_mt t) 0) (\<lambda>i. Inr (\<not> isZeroCoinSpendScript_pivx (SignatureScript i)))
               else Inr False) (\<lambda>cb.
        Inr (vout\<lparr> ScriptPubKey_vout := (ScriptPubKey_vout vout)\<lparr> Hex_spk := fakeScript_pivx cb \<rparr> \<rparr>))
      else Inr vout)"

definition TxFromMsgTx_pivx ::
    "('a, 'k) skyr_packages \<Rightarrow> OutputScriptToAddressesFunc \<Rightarrow> MsgTx \<Rightarrow> bool \<Rightarrow> go_error + Tx" where
  "TxFromMsgTx_pivx B f t parseAddresses =
     rbind (rmap (\<lambda>out. rbind (convertVout f parseAddresses out) (fillVout_pivx B t)) (enumerate 0 (TxOut_mt t))) (\<lambda>vout.
     Inr (txOf (TxHash B t) t
       (convertVins (\<lambda>i. \<not> isZeroCoinSpendScript_pivx (SignatureScript i) \<and> IsCoinBaseTx B t) (TxIn_mt t)) vout))"

definition ParseTx_pivx :: "('a, 'k) skyr_packages \<Rightarrow> OutputScriptToAddressesFunc \<Rightarrow> bytes \<Rightarrow> go_error + Tx" where
  "ParseTx_pivx B f b =
     rbind (DeserializeTx B b) (\<lambda>t.
     rbind (TxFromMsgTx_pivx B f t True) (\<lambda>tx. Inr (tx\<lparr> Hex_tx := EncodeToString b \<rparr>)))"

definition fillJsonVout_pivx :: "bool \<Rightarrow> Vout \<Rightarrow> Vout" where
  "fillJsonVout_pivx coinbase vout =
     (if Hex_spk (ScriptPubKey_vout vout) = '''' then
        vout\<lparr> ScriptPubKey_vout := (ScriptPubKey_vout vout)\<lparr> Hex_spk := fakeScript_pivx coinbase \<rparr> \<rparr>
      else vout)"

definition ParseTxFromJson_pivx :: "(string \<Rightarrow> go_error + Tx) \<Rightarrow> BaseParser \<Rightarrow> string \<Rightarrow> go_error + Tx" where
  "ParseTxFromJson_pivx unmarshal p msg =
     rbind (unmarshal msg) (\<lambda>tx.
     rbind (parseVouts p (Vout_tx tx)) (\<lambda>vouts. Inr (tx\<lparr> Vout_tx := map (fillJsonVout_pivx (isCoinbaseTx_pivx tx)) vouts \<rparr>)))"

section \<open>Inputs whose transaction is unknown\<close>

definition inputScript_pivx :: "Tx \<Rightarrow> nat \<Rightarrow> bytes option" where
  "inputScript_pivx tx input =
     (if length (Vin_tx tx) > input \<and> Hex_ss (ScriptSig_vin (Vin_tx tx ! input)) \<noteq> ''''
      then Some (decodedPrefix (Hex_ss (ScriptSig_vin (Vin_tx tx ! input))))
      else None)"

definition GetAddrDescForUnknownInput_pivx :: "Tx \<Rightarrow> nat \<Rightarrow> AddressDescriptor" where
  "GetAddrDescForUnknownInput_pivx tx input =
     (case inputScript_pivx tx input of Some script \<Rightarrow> script | None \<Rightarrow> replicate 10 0)"

definition Uint8_pivx :: "bytes \<Rightarrow> go_error + (byte \<times> bytes)" where
  "Uint8_pivx r = (case r of [] \<Rightarrow> Inl (Errorf ''EOF'') | b # r \<Rightarrow> Inr (b, r))"

definition Uint32_pivx :: "bytes \<Rightarrow> go_error + (uint32 \<times> bytes)" where
  "Uint32_pivx r = (if length r < 4 then Inl (Errorf ''unexpected EOF'') else Inr (LittleEndian_Uint32 (take 4 r), drop 4 r))"

definition GetValueSatFromZerocoinSpend_pivx :: "bytes \<Rightarrow> go_error + int" where
  "GetValueSatFromZerocoinSpend_pivx signatureScript =
     rbind (Uint8_pivx (drop 1 signatureScript)) (\<lambda>(len, r).
     rbind (Uint32_pivx (drop (unat len) r)) (\<lambda>(denom, r).
     Inr (sint (ucast denom * 100000000 :: int64))))"

definition GetValueSatForUnknownInput_pivx :: "Tx \<Rightarrow> nat \<Rightarrow> int" where
  "GetValueSatForUnknownInput_pivx tx input =
     (case inputScript_pivx tx input of
        Some script \<Rightarrow>
          if isZeroCoinSpendScript_pivx script then
            (case GetValueSatFromZerocoinSpend_pivx script of Inr v \<Rightarrow> v | Inl _ \<Rightarrow> 0)
          else 0
      | None \<Rightarrow> 0)"

section \<open>The parser\<close>

text \<open>
  \<open>ParseBlock\<close> and the derivation of descriptors are the methods of the embedded bitcoin parser; transactions are
  stored as protobuf messages by the base parser.
\<close>

definition pivxAddresses :: "('a, 'k) skyr_packages \<Rightarrow> Params \<Rightarrow> OutputScriptToAddressesFunc" where
  "pivxAddresses B params =
     outputScriptToAddresses_pivx B params (outputScriptToAddresses_btc (bitcoin_packages.truncate B) 8)"

definition NewPivXParser ::
    "('a, 'k) skyr_packages \<Rightarrow> vlq \<Rightarrow> parser_packages \<Rightarrow> Params \<Rightarrow> Configuration \<Rightarrow> BlockChainParser" where
  "NewPivXParser B v P params c =
     (let p = NewBitcoinParser c; f = pivxAddresses B params in
      (bitcoinMethods (bitcoin_packages.truncate B) v P p f)
      \<lparr> PackTx := PackTx_base (proto P), UnpackTx := UnpackTx_base (proto P), ParseTx := ParseTx_pivx B f,
        ParseTxFromJson := ParseTxFromJson_pivx (parser_packages.UnmarshalTx P) (BaseParser.truncate p),
        IsAddrDescIndexable := IsAddrDescIndexable_pivx, GetAddrDescForUnknownInput := GetAddrDescForUnknownInput_pivx,
        GetValueSatForUnknownInput := GetValueSatForUnknownInput_pivx,
        GetAddrDescFromAddress := GetAddrDescFromAddress_pivx B params \<rparr>)"

section \<open>The client\<close>

definition NewPivXRPC :: "BlockChainParser \<Rightarrow> json \<Rightarrow> go_error + bitcoin_client" where
  "NewPivXRPC p0 config =
     rbind (NewBitcoinRPC p0 config) (\<lambda>b.
     let b = setChainConfig ((config_cl b)\<lparr> SupportsEstimateFee := True, SupportsEstimateSmartFee := False \<rparr>) b in
     Inr (b\<lparr> conn_cl := (conn_cl b)\<lparr> marshaler := JSONMarshalerV1 \<rparr> \<rparr>))"

fun blockTransactions_pivx :: "BitcoinRPC \<Rightarrow> 'n node \<Rightarrow> string list \<Rightarrow> ('n, Tx list) action" where
  "blockTransactions_pivx z N [] = ret []"
| "blockTransactions_pivx z N (txid # txids) =
     abind (attempt (GetTransaction_rpc z N txid)) (\<lambda>r.
     case r of
       Inl e \<Rightarrow> if e = ErrTxNotFound then blockTransactions_pivx z N txids else throw e
     | Inr tx \<Rightarrow> abind (blockTransactions_pivx z N txids) (\<lambda>txs. ret (tx # txs)))"

definition GetBlock_pivx :: "BitcoinRPC \<Rightarrow> 'n node \<Rightarrow> string \<Rightarrow> uint32 \<Rightarrow> ('n, Block) action" where
  "GetBlock_pivx z N hash height =
     abind (if hash = '''' \<and> height > 0 then GetBlockHash_rpc N height else ret hash) (\<lambda>hash.
     abind (resultOf (\<lambda>_. Errorf ''hash'') (annotatedCall ''hash'' (getblock_thin N hash))) (\<lambda>res.
     abind (blockTransactions_pivx z N (Txids_bt res)) (\<lambda>txs.
     ret (BlockHeader.extend (BlockHeader.truncate res) \<lparr> Txs_blk = txs \<rparr>))))"

definition GetNextSuperBlock_pivx :: "BitcoinRPC \<Rightarrow> int \<Rightarrow> int" where
  "GetNextSuperBlock_pivx b nHeight =
     (let nBlocksPerPeriod = (if Testnet b then 144 else 43200) in
      nHeight - sgn nHeight * (\<bar>nHeight\<bar> mod nBlocksPerPeriod) + nBlocksPerPeriod)"

definition GetChainInfo_pivx :: "BitcoinRPC \<Rightarrow> 'n node \<Rightarrow> ('n, ChainInfo) action" where
  "GetChainInfo_pivx b N =
     abind (GetChainInfo_btc N) (\<lambda>rv.
     abind (resultOf rpcError (getinfo N)) (\<lambda>gi.
     abind (resultOf rpcError (getmasternodecount N)) (\<lambda>en.
     ret (rv\<lparr> TransparentSupply := TransparentSupply_gi gi, ShieldSupply := ShieldSupply_gi gi, MoneySupply := MoneySupply_gi gi,
        MasternodeCount := en, NextSuperBlock := GetNextSuperBlock_pivx b (Headers_in rv) \<rparr>))))"

definition Initialize_pivx :: "('a, 'k) skyr_packages \<Rightarrow> vlq \<Rightarrow> parser_packages \<Rightarrow> 'n node \<Rightarrow> bitcoin_client \<Rightarrow> ('n, bitcoin_client) action" where
  "Initialize_pivx B v P N b =
     abind (GetChainInfo_pivx (rpc_cl b) N) (\<lambda>ci.
     let params = GetChainParams_pivx B (Chain_in ci) in
     ret (started (NewPivXParser B v P params (Configuration.truncate (config_cl b))) (Net params = MainnetMagic_pivx) b))"

definition Findzcserial_pivx :: "'n node \<Rightarrow> string \<Rightarrow> ('n, string) action" where
  "Findzcserial_pivx N serialHex =
     abind (resultOf rpcError (findserial N serialHex)) (\<lambda>(success, txid).
     ret (if success then txid else ''Serial not found in blockchain''))"

section \<open>Comparison with Skyr\<close>

lemma constants_same:
  "OP_IF_pivx = OP_IF" "OP_ELSE_pivx = OP_ELSE" "OP_ENDIF_pivx = OP_ENDIF" "OP_DUP_pivx = OP_DUP" "OP_ROT_pivx = OP_ROT" "OP_EQUALVERIFY_pivx = OP_EQUALVERIFY"
  "OP_HASH160_pivx = OP_HASH160" "OP_CHECKSIG_pivx = OP_CHECKSIG" "OP_ZEROCOINMINT_pivx = OP_ZEROCOINMINT" "OP_ZEROCOINSPEND_pivx = OP_ZEROCOINSPEND"
  "OP_CHECKCOLDSTAKEVERIFY_pivx = OP_CHECKCOLDSTAKEVERIFY_skyr" "OP_EXCHANGEADDR_pivx = OP_EXCHANGEADDR" "ZCMINT_LABEL_pivx = ZCMINT_LABEL" "ZCSPEND_LABEL_pivx = ZCSPEND_LABEL"
  "CBASE_LABEL_pivx = CBASE_LABEL" "CSTAKE_LABEL_pivx = CSTAKE_LABEL" "CBASE_ADDR_INT_pivx = CBASE_ADDR_INT" "CSTAKE_ADDR_INT_pivx = CSTAKE_ADDR_INT"
  "STAKING_ADDR_MAIN_pivx = STAKING_ADDR_MAIN" "STAKING_ADDR_TEST_pivx = STAKING_ADDR_TEST" "EXCHANGE_ADDR_MAIN_pivx = EXCHANGE_ADDR_MAIN" "EXCHANGE_ADDR_TEST_pivx = EXCHANGE_ADDR_TEST"
  by (simp_all add: OP_IF_pivx_def OP_IF_def OP_ELSE_pivx_def OP_ELSE_def OP_ENDIF_pivx_def OP_ENDIF_def OP_DUP_pivx_def OP_DUP_def OP_ROT_pivx_def OP_ROT_def
      OP_EQUALVERIFY_pivx_def OP_EQUALVERIFY_def OP_HASH160_pivx_def OP_HASH160_def OP_CHECKSIG_pivx_def OP_CHECKSIG_def OP_ZEROCOINMINT_pivx_def OP_ZEROCOINMINT_def
      OP_ZEROCOINSPEND_pivx_def OP_ZEROCOINSPEND_def OP_CHECKCOLDSTAKEVERIFY_pivx_def OP_CHECKCOLDSTAKEVERIFY_skyr_def OP_EXCHANGEADDR_pivx_def OP_EXCHANGEADDR_def
      ZCMINT_LABEL_pivx_def ZCMINT_LABEL_def ZCSPEND_LABEL_pivx_def ZCSPEND_LABEL_def CBASE_LABEL_pivx_def CBASE_LABEL_def CSTAKE_LABEL_pivx_def CSTAKE_LABEL_def
      CBASE_ADDR_INT_pivx_def CBASE_ADDR_INT_def CSTAKE_ADDR_INT_pivx_def CSTAKE_ADDR_INT_def STAKING_ADDR_MAIN_pivx_def STAKING_ADDR_MAIN_def STAKING_ADDR_TEST_pivx_def
      STAKING_ADDR_TEST_def EXCHANGE_ADDR_MAIN_pivx_def EXCHANGE_ADDR_MAIN_def EXCHANGE_ADDR_TEST_pivx_def EXCHANGE_ADDR_TEST_def)

lemma scripts_same:
  "isZeroCoinMintScript_pivx = isZeroCoinMintScript" "isZeroCoinSpendScript_pivx = isZeroCoinSpendScript" "isP2CSScript_pivx = isP2CSScript" "isP2EXScript_pivx = isP2EXScript"
  "isCoinBaseFakeAddr_pivx = isCoinBaseFakeAddr" "isCoinStakeFakeAddr_pivx = isCoinStakeFakeAddr" "isCoinbaseTx_pivx = isCoinbaseTx" "fakeScript_pivx = fakeScript"
  by (intro ext; simp add: isZeroCoinMintScript_pivx_def isZeroCoinSpendScript_pivx_def isP2CSScript_pivx_def isP2EXScript_pivx_def isCoinBaseFakeAddr_pivx_def
      isCoinStakeFakeAddr_pivx_def isCoinbaseTx_pivx_def script_classes isCoinbaseTx_def fakeScript_pivx_def fakeScript_def constants_same)+

lemma inputs_same:
  "inputScript_pivx = inputScript" "Uint8_pivx = Uint8" "Uint32_pivx = Uint32"
  by (intro ext; simp add: inputScript_pivx_def inputScript_def Uint8_pivx_def Uint8_def Uint32_pivx_def Uint32_def)+

lemma unknown_inputs_same:
  "GetAddrDescForUnknownInput_pivx = GetAddrDescForUnknownInput_skyr" "GetValueSatFromZerocoinSpend_pivx = GetValueSatFromZerocoinSpend"
  "GetValueSatForUnknownInput_pivx = GetValueSatForUnknownInput_skyr" "IsAddrDescIndexable_pivx = IsAddrDescIndexable_skyr"
proof -
  show "GetAddrDescForUnknownInput_pivx = GetAddrDescForUnknownInput_skyr"
    by (intro ext) (simp add: GetAddrDescForUnknownInput_pivx_def GetAddrDescForUnknownInput_skyr_def inputs_same)
  show z: "GetValueSatFromZerocoinSpend_pivx = GetValueSatFromZerocoinSpend"
    by (intro ext) (simp add: GetValueSatFromZerocoinSpend_pivx_def GetValueSatFromZerocoinSpend_def inputs_same)
  show "GetValueSatForUnknownInput_pivx = GetValueSatForUnknownInput_skyr"
    by (intro ext) (unfold GetValueSatForUnknownInput_pivx_def GetValueSatForUnknownInput_skyr_def inputs_same scripts_same z, rule refl)
  show "IsAddrDescIndexable_pivx = IsAddrDescIndexable_skyr"
    by (intro ext) (simp add: IsAddrDescIndexable_pivx_def IsAddrDescIndexable_skyr_def scripts_same)
qed

lemma transactions_same:
  "fillVout_pivx = fillVout" "TxFromMsgTx_pivx = TxFromMsgTx_skyr" "ParseTx_pivx = ParseTx_skyr" "fillJsonVout_pivx = fillJsonVout" "ParseTxFromJson_pivx = ParseTxFromJson_skyr"
proof -
  show v: "fillVout_pivx = fillVout" by (intro ext) (simp add: fillVout_pivx_def fillVout_def scripts_same)
  show t: "TxFromMsgTx_pivx = TxFromMsgTx_skyr" by (intro ext) (simp add: TxFromMsgTx_pivx_def TxFromMsgTx_skyr_def v scripts_same)
  show "ParseTx_pivx = ParseTx_skyr" by (intro ext) (simp add: ParseTx_pivx_def ParseTx_skyr_def t)
  show j: "fillJsonVout_pivx = fillJsonVout" by (intro ext) (simp add: fillJsonVout_pivx_def fillJsonVout_def scripts_same)
  show "ParseTxFromJson_pivx = ParseTxFromJson_skyr" by (intro ext) (simp add: ParseTxFromJson_pivx_def ParseTxFromJson_skyr_def j scripts_same)
qed

lemma addresses_same:
  assumes "Net params = TestnetMagic_pivx \<longleftrightarrow> Net params = TestnetMagic"
  shows "pivxAddresses B params = skyrAddresses B params" and "GetAddrDescFromAddress_pivx B params = GetAddrDescFromAddress_skyr B params"
proof -
  have x: "exchangeParams_pivx B params = exchangeParams B params" using assms by (simp add: exchangeParams_pivx_def exchangeParams_def constants_same)
  have "P2CSScriptToAddress_pivx B params = P2CSScriptToAddress B params"
    by (rule ext) (simp add: P2CSScriptToAddress_pivx_def P2CSScriptToAddress_def assms constants_same)
  moreover have "P2EXScriptToAddress_pivx B params = P2EXScriptToAddress B params"
    by (rule ext) (simp add: P2EXScriptToAddress_pivx_def P2EXScriptToAddress_def x scripts_same)
  ultimately show "pivxAddresses B params = skyrAddresses B params"
    by (intro ext) (simp add: pivxAddresses_def skyrAddresses_def outputScriptToAddresses_pivx_def outputScriptToAddresses_def scripts_same constants_same cong: if_cong)
  show "GetAddrDescFromAddress_pivx B params = GetAddrDescFromAddress_skyr B params"
    by (rule ext) (unfold GetAddrDescFromAddress_pivx_def GetAddrDescFromAddress_skyr_def x constants_same, rule refl)
qed



text \<open>
  The clients of the two coins read the same blocks and search serials in the same way; the chain info of the Skyr client is that of the PIVX client with the number of connections, for which it needs one more answer of the node.
\<close>

theorem pivx_client_same:
  "GetBlock_pivx z N = GetBlock_skyr z N \<and> Findzcserial_pivx N = Findzcserial N \<and>
   GetChainInfo_skyr z N = abind (GetChainInfo_pivx z N) (\<lambda>rv. abind (resultOf rpcError (getconnectioncount N)) (\<lambda>cc. ret (rv\<lparr> ConnectionCount := cc \<rparr>)))"
proof (intro conjI)
  have "blockTransactions_pivx z N txids = blockTransactions z N txids" for txids
    by (induction txids) (simp_all cong: sum.case_cong if_cong)
  then show "GetBlock_pivx z N = GetBlock_skyr z N" by (intro ext) (simp add: GetBlock_pivx_def GetBlock_skyr_def)
  show "Findzcserial_pivx N = Findzcserial N" by (intro ext) (simp add: Findzcserial_pivx_def Findzcserial_def)
  show "GetChainInfo_skyr z N = abind (GetChainInfo_pivx z N) (\<lambda>rv. abind (resultOf rpcError (getconnectioncount N)) (\<lambda>cc. ret (rv\<lparr> ConnectionCount := cc \<rparr>)))"
    by (rule ext) (simp add: GetChainInfo_skyr_def GetChainInfo_pivx_def GetNextSuperBlock_pivx_def GetNextSuperBlock_def abind_def ret_def split: prod.splits sum.splits)
qed

end
