(* ===== verification/Nuls_Coin.thy ===== *)
theory Nuls_Coin
  imports Node_Start
begin

text \<open>
  The coin NULS: its parser (\<open>bchain/coins/nuls/nulsparser.go\<close>) and its client (\<open>nulsrpc.go\<close>), which talks to a REST interface instead of the interface of a bitcoin node.

  Base58 and base64, the derivation of keys and the network parameters are parameters. The text of a JSON value and its syntax are parameters as in \<open>Node_Transport\<close>. An empty descriptor stands for nil. Amounts that
  the node sends as floating point numbers are read and not used. The client stores the raw transaction also in \<open>CoinSpecificData\<close>, as a string, which no code reads; here the field stays empty. Divisions truncate towards zero.

  The theorems: a stored transaction is read back; a derived descriptor has 24 bytes whose exclusive or is zero; how a block and its transactions are converted; sending a transaction always panics.
\<close>

section \<open>The parser\<close>

record ('a, 'k) nuls_packages = "('a, 'k) skyr_packages" +
  RegressionNetParams_cc :: Params
  Base58Decode :: "string \<Rightarrow> bytes"
  Base58Encode :: "bytes \<Rightarrow> string"
  ScriptAddress :: "'a \<Rightarrow> bytes"
  Base64Decode :: "string \<Rightarrow> go_error + bytes"
  MaxLen64 :: nat

definition MainnetMagic_nuls :: uint32 where "MainnetMagic_nuls = 0xbd6b0cbf"
definition TestnetMagic_nuls :: uint32 where "TestnetMagic_nuls = 0xffcae2ce"
definition RegtestMagic_nuls :: uint32 where "RegtestMagic_nuls = 0xdcb7c1fc"
definition AddressHashLength :: nat where "AddressHashLength = 24"

definition MainNetParams_nuls :: "('a, 'k) nuls_packages \<Rightarrow> Params" where
  "MainNetParams_nuls B = (MainNetParams_cc B)\<lparr> Net := MainnetMagic_nuls, AddressMagicLen := 3, PubKeyHashAddrID := [4, 35, 1], ScriptHashAddrID := [4, 35, 1] \<rparr>"

definition TestNetParams_nuls :: "('a, 'k) nuls_packages \<Rightarrow> Params" where
  "TestNetParams_nuls B = (TestNet3Params_cc B)\<lparr> Net := TestnetMagic_nuls, PubKeyHashAddrID := [140], ScriptHashAddrID := [19] \<rparr>"

definition RegtestParams_nuls :: "('a, 'k) nuls_packages \<Rightarrow> Params" where
  "RegtestParams_nuls B = (RegressionNetParams_cc B)\<lparr> Net := RegtestMagic_nuls, PubKeyHashAddrID := [140], ScriptHashAddrID := [19] \<rparr>"

definition GetChainParams_nuls :: "('a, 'k) nuls_packages \<Rightarrow> string \<Rightarrow> Params" where
  "GetChainParams_nuls B chainName =
     (if chainName = ''test'' then TestNetParams_nuls B else if chainName = ''regtest'' then RegtestParams_nuls B else MainNetParams_nuls B)"

definition GetAddrDescFromAddress_nuls :: "('a, 'k) nuls_packages \<Rightarrow> string \<Rightarrow> go_error + AddressDescriptor" where
  "GetAddrDescFromAddress_nuls B address = Inr (Base58Decode B address)"

definition GetAddrDescFromVout_nuls :: "('a, 'k) nuls_packages \<Rightarrow> Vout \<Rightarrow> go_error + AddressDescriptor" where
  "GetAddrDescFromVout_nuls B output = Inr (Base58Decode B (Hex_spk (ScriptPubKey_vout output)))"

definition GetAddressesFromAddrDesc_nuls :: "('a, 'k) nuls_packages \<Rightarrow> AddressDescriptor \<Rightarrow> go_error + string list \<times> bool" where
  "GetAddressesFromAddrDesc_nuls B addrDesc = Inr (if addrDesc = [] then [] else [Base58Encode B addrDesc], True)"

text \<open>The bytes of a text.\<close>

definition text_bytes :: "string \<Rightarrow> bytes" where
  "text_bytes s = map (\<lambda>c. of_nat (of_char c)) s"

text \<open>The block time is written into a buffer of fixed size, and the buffer is stored as a whole.\<close>

definition PackTx_nuls :: "('a, 'k) nuls_packages \<Rightarrow> vlq \<Rightarrow> 'n http_env \<Rightarrow> Tx \<Rightarrow> uint32 \<Rightarrow> int64 \<Rightarrow> go_error + bytes" where
  "PackTx_nuls B v H tx height blockTime =
     rbind (writeTx (parseJson H) tx) (\<lambda>j.
     let bt = PutInt v blockTime in
     Inr (packUint height @ (bt @ replicate (MaxLen64 B - length bt) 0) @ text_bytes (rawText H j)))"

definition ParseTx_nuls :: "'n http_env \<Rightarrow> bytes \<Rightarrow> go_error + Tx" where
  "ParseTx_nuls H b = rbind (parseJson H (string_of b)) (readTx (rawText H))"

definition UnpackTx_nuls :: "('a, 'k) nuls_packages \<Rightarrow> vlq \<Rightarrow> 'n http_env \<Rightarrow> bytes \<Rightarrow> go_error + Tx \<times> uint32" where
  "UnpackTx_nuls B v H buf =
     rbind (unpackUint buf) (\<lambda>height.
     rbind (slice buf 4 (4 + MaxLen64 B)) (\<lambda>b.
     let (bt, _) = IntAt v b in
     rbind (slice_from buf (4 + MaxLen64 B)) (\<lambda>raw.
     rbind (ParseTx_nuls H raw) (\<lambda>tx. Inr (tx\<lparr> Blocktime := bt \<rparr>, height)))))"

definition xor_bytes :: "bytes \<Rightarrow> byte" where
  "xor_bytes body = foldl (XOR) 0 body"

text \<open>\<open>copy\<close> of a slice into another one from an index on.\<close>

definition copyAt :: "nat \<Rightarrow> bytes \<Rightarrow> bytes \<Rightarrow> bytes" where
  "copyAt i src dst = take i dst @ take (length dst - i) src @ drop (i + length (take (length dst - i) src)) dst"

definition nulsDescriptor :: "Params \<Rightarrow> bytes \<Rightarrow> AddressDescriptor" where
  "nulsDescriptor params script =
     (let addHashs = replicate AddressHashLength 0;
          addHashs = copyAt 0 (take 3 (PubKeyHashAddrID params)) addHashs;
          addHashs = copyAt 3 script addHashs in
      copyAt 23 [xor_bytes (take 23 addHashs)] addHashs)"

function deriveFrom_nuls ::
    "('a, 'k) nuls_packages \<Rightarrow> Params \<Rightarrow> 'k \<Rightarrow> uint32 \<Rightarrow> uint32 \<Rightarrow> go_error + AddressDescriptor list" where
  "deriveFrom_nuls B params changeExtKey i toIndex =
     (if i < toIndex then
        rbind (Child B changeExtKey i) (\<lambda>indexExtKey.
        rbind (KeyAddress B indexExtKey) (\<lambda>s.
        rbind (deriveFrom_nuls B params changeExtKey (i + 1) toIndex) (\<lambda>ads. Inr (nulsDescriptor params (ScriptAddress B s) # ads))))
      else Inr [])"
  by pat_completeness auto

termination
  by (relation "measure (\<lambda>(B, p, k, i, toIndex). unat toIndex - unat i)")
    (auto simp: unat_Suc_less word_less_nat_alt)

definition DeriveAddressDescriptorsFromTo_nuls ::
    "('a, 'k) nuls_packages \<Rightarrow> Params \<Rightarrow> string \<Rightarrow> uint32 \<Rightarrow> uint32 \<Rightarrow> uint32 \<Rightarrow> go_error + AddressDescriptor list" where
  "DeriveAddressDescriptorsFromTo_nuls B params xpub ch fromIndex toIndex =
     (if toIndex \<le> fromIndex then Inl (Errorf ''toIndex<=fromIndex'')
      else
        rbind (NewKeyFromString B xpub) (\<lambda>extKey.
        rbind (Child B extKey ch) (\<lambda>changeExtKey.
        deriveFrom_nuls B params changeExtKey fromIndex toIndex)))"

definition NewNulsParser ::
    "('a, 'k) nuls_packages \<Rightarrow> vlq \<Rightarrow> parser_packages \<Rightarrow> 'n http_env \<Rightarrow> Params \<Rightarrow> Configuration \<Rightarrow> BlockChainParser" where
  "NewNulsParser B v P H params c =
     (bitcoinParser (bitcoin_packages.truncate B) v P c)
     \<lparr> PackedTxidLen := 34, GetAddrDescFromAddress := GetAddrDescFromAddress_nuls B, GetAddrDescFromVout := GetAddrDescFromVout_nuls B,
       GetAddressesFromAddrDesc := GetAddressesFromAddrDesc_nuls B, PackTx := PackTx_nuls B v H, UnpackTx := UnpackTx_nuls B v H, ParseTx := ParseTx_nuls H,
       DeriveAddressDescriptorsFromTo := DeriveAddressDescriptorsFromTo_nuls B params \<rparr>"

section \<open>Answers of the node\<close>

record nuls_input =
  FromHash :: string
  FromIndex :: uint32
  Address_nin :: string

record nuls_output =
  Address_nout :: string
  Value_nout :: int64
  LockTime_nout :: int64

record nuls_tx =
  Hash_nt :: string
  Type_nt :: int
  Time_nt :: int64
  BlockHeight_nt :: int64
  Remark_nt :: string
  ScriptSig_nt :: string
  Status_nt :: int
  ConfirmCount_nt :: int
  Size_nt :: int
  Inputs_nt :: "nuls_input list"
  Outputs_nt :: "nuls_output list"

record nuls_header =
  Hash_nh :: string
  PreHash :: string
  MerkleHash :: string
  StateRoot :: string
  Time_nh :: int64
  Height_nh :: int64
  TxCount_nh :: int
  PackingAddress :: string
  ConfirmCount_nh :: int
  ScriptSig_nh :: string
  Size_nh :: int

record nuls_block = nuls_header +
  TxList :: "nuls_tx list"

definition readNulsInput :: "json \<Rightarrow> go_error + nuls_input" where
  "readNulsInput j =
     rbind (membersOf j) (\<lambda>o'. rbind (stringMember ''fromHash'' o') (\<lambda>h. rbind (jsonMember readUint32 0 ''fromIndex'' o') (\<lambda>i. rbind (stringMember ''address'' o') (\<lambda>a.
     rbind (jsonMember readFloat () ''value'' o') (\<lambda>_. Inr \<lparr> FromHash = h, FromIndex = i, Address_nin = a \<rparr>)))))"

definition readNulsOutput :: "json \<Rightarrow> go_error + nuls_output" where
  "readNulsOutput j =
     rbind (membersOf j) (\<lambda>o'. rbind (stringMember ''address'' o') (\<lambda>a. rbind (jsonMember readInt64 0 ''value'' o') (\<lambda>v. rbind (jsonMember readInt64 0 ''lockTime'' o') (\<lambda>l.
     Inr \<lparr> Address_nout = a, Value_nout = v, LockTime_nout = l \<rparr>))))"

definition readNulsTx :: "json \<Rightarrow> go_error + nuls_tx" where
  "readNulsTx j =
     rbind (membersOf j) (\<lambda>o'.
     rbind (stringMember ''hash'' o') (\<lambda>h. rbind (jsonMember readInt 0 ''type'' o') (\<lambda>ty. rbind (jsonMember readInt64 0 ''time'' o') (\<lambda>t.
     rbind (jsonMember readInt64 0 ''blockHeight'' o') (\<lambda>bh. rbind (jsonMember readFloat () ''fee'' o') (\<lambda>_. rbind (jsonMember readFloat () ''value'' o') (\<lambda>_.
     rbind (stringMember ''remark'' o') (\<lambda>r. rbind (stringMember ''scriptSig'' o') (\<lambda>s. rbind (jsonMember readInt 0 ''status'' o') (\<lambda>st.
     rbind (jsonMember readInt 0 ''confirmCount'' o') (\<lambda>c. rbind (jsonMember readInt 0 ''size'' o') (\<lambda>sz.
     rbind (jsonMember (readList readNulsInput) [] ''inputs'' o') (\<lambda>ins. rbind (jsonMember (readList readNulsOutput) [] ''outputs'' o') (\<lambda>outs.
     Inr \<lparr> Hash_nt = h, Type_nt = ty, Time_nt = t, BlockHeight_nt = bh, Remark_nt = r, ScriptSig_nt = s, Status_nt = st, ConfirmCount_nt = c, Size_nt = sz,
           Inputs_nt = ins, Outputs_nt = outs \<rparr>))))))))))))))"

definition readNulsHeader :: "json \<Rightarrow> go_error + nuls_header" where
  "readNulsHeader j =
     rbind (membersOf j) (\<lambda>o'.
     rbind (stringMember ''hash'' o') (\<lambda>h. rbind (stringMember ''preHash'' o') (\<lambda>p. rbind (stringMember ''merkleHash'' o') (\<lambda>m. rbind (stringMember ''stateRoot'' o') (\<lambda>sr.
     rbind (jsonMember readInt64 0 ''time'' o') (\<lambda>t. rbind (jsonMember readInt64 0 ''height'' o') (\<lambda>ht. rbind (jsonMember readInt 0 ''txCount'' o') (\<lambda>tc.
     rbind (stringMember ''packingAddress'' o') (\<lambda>pa. rbind (jsonMember readInt 0 ''confirmCount'' o') (\<lambda>c. rbind (stringMember ''scriptSig'' o') (\<lambda>s.
     rbind (jsonMember readInt 0 ''size'' o') (\<lambda>sz. rbind (jsonMember readFloat () ''reward'' o') (\<lambda>_. rbind (jsonMember readFloat () ''fee'' o') (\<lambda>_.
     Inr \<lparr> Hash_nh = h, PreHash = p, MerkleHash = m, StateRoot = sr, Time_nh = t, Height_nh = ht, TxCount_nh = tc, PackingAddress = pa, ConfirmCount_nh = c,
           ScriptSig_nh = s, Size_nh = sz \<rparr>))))))))))))))"

definition readNulsBlock :: "json \<Rightarrow> go_error + nuls_block" where
  "readNulsBlock j =
     rbind (readNulsHeader j) (\<lambda>h. rbind (membersOf j) (\<lambda>o'. rbind (jsonMember (readList readNulsTx) [] ''txList'' o') (\<lambda>txs.
     Inr (nuls_header.extend h \<lparr> TxList = txs \<rparr>))))"

text \<open>An answer: whether it is a success, and its data, which are empty when they are missing.\<close>

definition readAnswer :: "(json \<Rightarrow> go_error + 'a) \<Rightarrow> json \<Rightarrow> go_error + bool \<times> 'a" where
  "readAnswer f j =
     rbind (membersOf j) (\<lambda>o'. rbind (jsonMember readBool False ''success'' o') (\<lambda>s. rbind (f (JObject [])) (\<lambda>z. rbind (jsonMember f z ''data'' o') (\<lambda>d. Inr (s, d)))))"

definition readValue :: "json \<Rightarrow> go_error + string" where
  "readValue j = rbind (membersOf j) (stringMember ''value'')"

definition readHeightValue :: "json \<Rightarrow> go_error + uint32" where
  "readHeightValue j = rbind (membersOf j) (jsonMember readUint32 0 ''value'')"

record nuls_network =
  LocalBestHeight :: int64
  NetBestHeight :: int
  TimeOffset :: string

definition readNulsNetwork :: "json \<Rightarrow> go_error + nuls_network" where
  "readNulsNetwork j =
     rbind (membersOf j) (\<lambda>o'. rbind (jsonMember readInt64 0 ''localBestHeight'' o') (\<lambda>l. rbind (jsonMember readInt 0 ''netBestHeight'' o') (\<lambda>n.
     rbind (stringMember ''timeOffset'' o') (\<lambda>t. rbind (jsonMember (readBounded (- 128) 128) 0 ''inCount'' o') (\<lambda>_. rbind (jsonMember (readBounded (- 128) 128) 0 ''outCount'' o') (\<lambda>_.
     Inr \<lparr> LocalBestHeight = l, NetBestHeight = n, TimeOffset = t \<rparr>))))))"

record nuls_version =
  MyVersion :: string
  NewestVersion :: string
  NetworkVersion :: int
  Information :: string

definition readNulsVersion :: "json \<Rightarrow> go_error + nuls_version" where
  "readNulsVersion j =
     rbind (membersOf j) (\<lambda>o'. rbind (stringMember ''myVersion'' o') (\<lambda>m. rbind (stringMember ''newestVersion'' o') (\<lambda>n. rbind (jsonMember readInt 0 ''networkVersion'' o') (\<lambda>v.
     rbind (stringMember ''information'' o') (\<lambda>i. Inr \<lparr> MyVersion = m, NewestVersion = n, NetworkVersion = v, Information = i \<rparr>)))))"

section \<open>Calls\<close>

definition Call_nuls :: "'n http_env \<Rightarrow> rpc_conn \<Rightarrow> (json \<Rightarrow> go_error + 'r) \<Rightarrow> string \<Rightarrow> ('n, 'r) action" where
  "Call_nuls H b rd uri =
     abind (Do H \<lparr> Method_hc = ''GET'', URL_hc = rpcURL b @ uri, User_hc = user b, Password_hc = password b, Json_hc = False, Body_hc = None \<rparr>)
       (\<lambda>reply. query (\<lambda>_. decodeReply H rd reply))"

text \<open>
  \<open>Marshal\<close> of a value that is none of the commands: \<open>flds\<close> are the names of its fields in the program and in JSON with their values. The legacy encoding looks into the structure behind a pointer, and \<open>Elem\<close> of a
  structure that is no pointer panics.
\<close>

definition marshalStruct :: "RPCMarshaler \<Rightarrow> bool \<Rightarrow> (string \<times> string \<times> json) list \<Rightarrow> go_error + json" where
  "marshalStruct r pointer flds =
     (case r of
        JSONMarshalerV2 \<Rightarrow> Inr (JObject (map snd flds))
      | JSONMarshalerV1 \<Rightarrow>
          if \<not> pointer then Inl (Panic ''reflect: call of reflect.Value.Elem on struct Value'')
          else
            case map_of flds ''Method'' of
              Some (_, JString m) \<Rightarrow>
                (case map_of flds ''Params'' of
                   None \<Rightarrow> Inr (JObject [(''method'', JString m)])
                 | Some (_, JArray js) \<Rightarrow> Inr (JObject ((''method'', JString m) # omitempty (js = []) ''params'' (JArray js)))
                 | Some (_, JObject kvs) \<Rightarrow> Inr (JObject ((''method'', JString m) # omitempty (kvs = []) ''params'' (JArray (map snd kvs))))
                 | Some _ \<Rightarrow> Inl (Errorf ''Invalid value to marshal''))
            | _ \<Rightarrow> Inl (Errorf ''Invalid value to marshal''))"

definition Post_nuls :: "'n http_env \<Rightarrow> rpc_conn \<Rightarrow> (json \<Rightarrow> go_error + 'r) \<Rightarrow> string \<Rightarrow> bool \<Rightarrow> (string \<times> string \<times> json) list \<Rightarrow> ('n, 'r) action" where
  "Post_nuls H b rd uri pointer flds =
     abind (query (\<lambda>_. marshalStruct (marshaler b) pointer flds)) (\<lambda>body.
     abind (Do H \<lparr> Method_hc = ''POST'', URL_hc = rpcURL b @ uri, User_hc = user b, Password_hc = password b, Json_hc = True, Body_hc = Some body \<rparr>)
       (\<lambda>reply. query (\<lambda>_. decodeReply H rd reply)))"

section \<open>The client\<close>

definition NewNulsRPC :: "BlockChainParser \<Rightarrow> json \<Rightarrow> go_error + bitcoin_client" where
  "NewNulsRPC p0 config =
     rbind (NewBitcoinRPC p0 config) (\<lambda>b.
     rbind (Annotatef ''Invalid configuration file'' (readConfiguration config)) (\<lambda>c.
     let b = setChainConfig ((config_cl b)\<lparr> SupportsEstimateSmartFee := False \<rparr>) b in
     Inr (b\<lparr> conn_cl := \<lparr> rpcURL = RPCURL c, user = RPCUser c, password = RPCPass c, marshaler = JSONMarshalerV1 \<rparr> \<rparr>)))"

definition Initialize_nuls :: "('a, 'k) nuls_packages \<Rightarrow> vlq \<Rightarrow> parser_packages \<Rightarrow> 'n http_env \<Rightarrow> bitcoin_client \<Rightarrow> bitcoin_client" where
  "Initialize_nuls B v P H n =
     (let params = GetChainParams_nuls B '''' in
      started (NewNulsParser B v P H params (Configuration.truncate (config_cl n))) (Net params = MainnetMagic_nuls) n)"

definition GetChainInfo_nuls :: "'n http_env \<Rightarrow> rpc_conn \<Rightarrow> ('n, ChainInfo) action" where
  "GetChainInfo_nuls H b =
     abind (Call_nuls H b (readAnswer readNulsNetwork) ''/api/network/info'') (\<lambda>(_, ni).
     abind (Call_nuls H b (readAnswer readNulsVersion) ''/api/client/version'') (\<lambda>(_, vi).
     ret \<lparr> Chain_in = ''nuls'', Blocks_in = NetBestHeight ni, Headers_in = NetBestHeight ni, Bestblockhash_in = '''', Difficulty_in = TimeOffset ni,
           SizeOnDisk_in = LocalBestHeight ni, Version_in = MyVersion vi, Subversion_in = NewestVersion vi, ProtocolVersion_in = BigInt_String (NetworkVersion vi),
           Timeoffset_in = 0, Warnings_in = Information vi, TransparentSupply = '''', ShieldSupply = '''', MoneySupply = '''', MasternodeCount = 0, ConnectionCount = 0,
           NextSuperBlock = 0 \<rparr>))"

definition GetBestBlockHash_nuls :: "'n http_env \<Rightarrow> rpc_conn \<Rightarrow> ('n, string) action" where
  "GetBestBlockHash_nuls H b = abind (Call_nuls H b (readAnswer readValue) ''/api/block/newest/hash'') (\<lambda>(_, v). ret v)"

definition GetBestBlockHeight_nuls :: "'n http_env \<Rightarrow> rpc_conn \<Rightarrow> ('n, uint32) action" where
  "GetBestBlockHeight_nuls H b = abind (Call_nuls H b (readAnswer readHeightValue) ''/api/block/newest/height'') (\<lambda>(_, v). ret v)"

definition GetBlockHash_nuls :: "'n http_env \<Rightarrow> rpc_conn \<Rightarrow> uint32 \<Rightarrow> ('n, string) action" where
  "GetBlockHash_nuls H b height =
     abind (Call_nuls H b (readAnswer readNulsHeader) (''/api/block/header/height/'' @ BigInt_String (uint height))) (\<lambda>(success, h).
     if success then ret (Hash_nh h) else throw ErrBlockNotFound)"

definition millis :: "int64 \<Rightarrow> int64" where
  "millis t = of_int (sgn (sint t) * (\<bar>sint t\<bar> div 1000))"

text \<open>The header of the program; the hash of the next block is empty when it cannot be read.\<close>

definition nulsBlockHeader :: "'n http_env \<Rightarrow> rpc_conn \<Rightarrow> 'z nuls_header_scheme \<Rightarrow> ('n, BlockHeader) action" where
  "nulsBlockHeader H b d =
     abind (attempt (GetBlockHash_nuls H b (of_int (sint (Height_nh d + 1))))) (\<lambda>r.
     ret \<lparr> Hash_bh = Hash_nh d, Prev_bh = PreHash d, Next_bh = (case r of Inr h \<Rightarrow> h | Inl _ \<Rightarrow> ''''), Height_bh = of_int (sint (Height_nh d)),
           Confirmations_bh = ConfirmCount_nh d, Size_bh = Size_nh d, Time_bh = millis (Time_nh d) \<rparr>)"

definition getBlobkHeader :: "'n http_env \<Rightarrow> rpc_conn \<Rightarrow> string \<Rightarrow> ('n, BlockHeader) action" where
  "getBlobkHeader H b uri =
     abind (Call_nuls H b (readAnswer readNulsHeader) uri) (\<lambda>(success, d).
     if success then nulsBlockHeader H b d else throw ErrBlockNotFound)"

definition GetBlockHeader_nuls :: "'n http_env \<Rightarrow> rpc_conn \<Rightarrow> string \<Rightarrow> ('n, BlockHeader) action" where
  "GetBlockHeader_nuls H b hash = getBlobkHeader H b (''/api/block/header/hash/'' @ hash)"

definition GetBlockHeaderByHeight :: "'n http_env \<Rightarrow> rpc_conn \<Rightarrow> uint32 \<Rightarrow> ('n, BlockHeader) action" where
  "GetBlockHeaderByHeight H b height = getBlobkHeader H b (''/api/block/header/height/'' @ BigInt_String (uint height))"

definition convertInput :: "nuls_input \<Rightarrow> Vin" where
  "convertInput i = \<lparr> Coinbase = '''', Txid_vin = FromHash i, Vout_vin = FromIndex i, ScriptSig_vin = \<lparr> Hex_ss = '''' \<rparr>, Sequence = 0, Addresses_vin = [Address_nin i] \<rparr>"

definition convertOutput :: "nat \<Rightarrow> nuls_output \<Rightarrow> Vout" where
  "convertOutput k out = \<lparr> ValueSat_vout = sint (Value_nout out), JsonValue = '''', N_vout = of_nat k,
     ScriptPubKey_vout = \<lparr> Hex_spk = Address_nout out, Addresses_spk = [Address_nout out] \<rparr> \<rparr>"

definition converTx :: "nuls_tx \<Rightarrow> Tx" where
  "converTx rawTx =
     (let lockTime = foldl (\<lambda>l out. if l < sint (LockTime_nout out) then sint (LockTime_nout out) else l) 0 (Outputs_nt rawTx) in
      \<lparr> Hex_tx = '''', Txid_tx = Hash_nt rawTx, Version_tx = 0, LockTime = of_int lockTime, Vin_tx = map convertInput (Inputs_nt rawTx),
        Vout_tx = map (\<lambda>(k, out). convertOutput k out) (enumerate 0 (Outputs_nt rawTx)), Confirmations_tx = of_int (ConfirmCount_nt rawTx),
        Time_tx = millis (Time_nt rawTx), Blocktime = 0, VShieldIn_tx = [], VShieldOut_tx = [], ShieldValBal_tx = 0, CoinSpecificData = NoData \<rparr>)"

definition GetBlock_nuls :: "'n http_env \<Rightarrow> rpc_conn \<Rightarrow> string \<Rightarrow> uint32 \<Rightarrow> ('n, Block) action" where
  "GetBlock_nuls H b hash height =
     abind (Call_nuls H b (readAnswer readNulsBlock)
       (if hash = '''' then ''/api/block/height/'' @ BigInt_String (uint height) else ''/api/block/hash/'' @ hash)) (\<lambda>(success, d).
     if \<not> success then throw ErrBlockNotFound
     else
       abind (nulsBlockHeader H b d) (\<lambda>header.
       ret (BlockHeader.extend header \<lparr> Txs_blk = map (\<lambda>t. (converTx t)\<lparr> Blocktime := Time_bh header \<rparr>) (TxList d) \<rparr>)))"

definition GetBlockInfo_nuls :: "'n http_env \<Rightarrow> rpc_conn \<Rightarrow> string \<Rightarrow> ('n, BlockInfo_rpc) action" where
  "GetBlockInfo_nuls H b hash =
     (if hash = '''' then throw ErrBlockNotFound
      else
        abind (Call_nuls H b (readAnswer readNulsBlock) (''/api/block/hash/'' @ hash)) (\<lambda>(success, d).
        if \<not> success then throw ErrBlockNotFound
        else
          abind (nulsBlockHeader H b d) (\<lambda>header.
          ret (BlockHeader.extend header \<lparr> Version_ri = '''', MerkleRoot_ri = MerkleHash d, Nonce_ri = '''', Bits_ri = '''', Difficulty_ri = '''',
            Txids_ri = map Hash_nt (TxList d), SaplingRoot_ri = '''' \<rparr>))))"

definition GetMempoolTransactions_nuls :: "('n, string list) action" where
  "GetMempoolTransactions_nuls = ret []"

text \<open>No transaction and no error.\<close>

definition GetTransactionForMempool_nuls :: "string \<Rightarrow> ('n, Tx option) action" where
  "GetTransactionForMempool_nuls txid = ret None"

text \<open>The raw transaction, as a JSON string of its hexadecimal digits; here the digits.\<close>

definition rawHex :: "('a, 'k) nuls_packages \<Rightarrow> 'n http_env \<Rightarrow> rpc_conn \<Rightarrow> string \<Rightarrow> ('n, string) action" where
  "rawHex B H b txid =
     abind (Call_nuls H b (readAnswer readValue) (''/api/tx/bytes?hash='' @ txid)) (\<lambda>(success, v).
     if \<not> success then throw ErrTxNotFound
     else abind (query (\<lambda>_. Base64Decode B v)) (\<lambda>txBytes. ret (EncodeToString txBytes)))"

definition GetTransactionSpecific_nuls :: "('a, 'k) nuls_packages \<Rightarrow> 'n http_env \<Rightarrow> rpc_conn \<Rightarrow> Tx \<Rightarrow> ('n, string) action" where
  "GetTransactionSpecific_nuls B H b tx =
     (case CoinSpecificData tx of
        RawMessage csd \<Rightarrow> ret csd
      | _ \<Rightarrow> abind (rawHex B H b (Txid_tx tx)) (\<lambda>h. ret (rawText H (JString h))))"

definition GetTransaction_nuls :: "('a, 'k) nuls_packages \<Rightarrow> 'n http_env \<Rightarrow> rpc_conn \<Rightarrow> string \<Rightarrow> ('n, Tx) action" where
  "GetTransaction_nuls B H b txid =
     (if txid = '''' then throw ErrTxidMissing
      else
        abind (Call_nuls H b (\<lambda>j. readAnswer readNulsTx j) (''/api/tx/hash/'' @ txid)) (\<lambda>(success, d).
        if \<not> success then throw ErrTxNotFound
        else
          let tx = converTx d in
          abind (attempt (GetBlockHeaderByHeight H b (of_int (sint (BlockHeight_nt d))))) (\<lambda>r.
          let tx = (case r of Inr h \<Rightarrow> tx\<lparr> Blocktime := Time_bh h \<rparr> | Inl _ \<Rightarrow> tx) in
          abind (attempt (rawHex B H b (Txid_tx tx))) (\<lambda>r.
          ret (case r of Inr h \<Rightarrow> tx\<lparr> Hex_tx := h \<rparr> | Inl _ \<Rightarrow> tx)))))"

definition EstimateFee_nuls :: "int \<Rightarrow> ('n, int) action" where
  "EstimateFee_nuls blocks = ret 100000"

definition EstimateSmartFee_nuls :: "int \<Rightarrow> bool \<Rightarrow> ('n, int) action" where
  "EstimateSmartFee_nuls blocks conservative = EstimateFee_nuls blocks"

text \<open>The request is a structure and no pointer to one.\<close>

definition SendRawTransaction_nuls :: "'n http_env \<Rightarrow> rpc_conn \<Rightarrow> string \<Rightarrow> ('n, string) action" where
  "SendRawTransaction_nuls H b tx =
     abind (Post_nuls H b (readAnswer readValue) ''/api/accountledger/transaction/broadcast'' False [(''TxHex'', ''txHex'', JString tx)]) (\<lambda>(success, v).
     if success then ret v else throw ErrTxidMissing)"

section \<open>Properties\<close>

declare deriveFrom_nuls.simps [simp del]

lemma string_of_text_bytes [simp]: "string_of (text_bytes s) = s"
proof -
  have "char_of (unat (of_nat (of_char c) :: byte)) = c" for c :: char
    using char_of_take_bit_eq[of 8 "of_char c :: nat"] by (simp add: unat_of_nat take_bit_eq_mod)
  then show ?thesis by (induction s) (simp_all add: string_of_def text_bytes_def)
qed

text \<open>
  A stored transaction is read back: when the text of its JSON value is read as that value and the block time fits into its buffer, reading what \<open>PackTx\<close> wrote gives the height, and the transaction with the block time,
  without its coin specific data and with the text 0 for an empty number.
\<close>

theorem nuls_tx_roundtrip:
  assumes "vlq_codec v" "\<And>j. writeTx (parseJson H) tx = Inr j \<Longrightarrow> parseJson H (rawText H j) = Inr j" "length (PutInt v blockTime) \<le> MaxLen64 B"
    and "VShieldIn_tx tx = []" "VShieldOut_tx tx = []" "PackTx_nuls B v H tx height blockTime = Inr buf"
  shows "UnpackTx_nuls B v H buf = Inr (tx\<lparr> Vout_tx := map zeroNumber (Vout_tx tx), Blocktime := blockTime, CoinSpecificData := NoData \<rparr>, height)"
proof -
  from assms(6) obtain j where j: "writeTx (parseJson H) tx = Inr j"
    and buf: "buf = packUint height @ (PutInt v blockTime @ replicate (MaxLen64 B - length (PutInt v blockTime)) 0) @ text_bytes (rawText H j)"
    by (auto simp: PackTx_nuls_def Let_def rbind_eq_Inr_iff)
  let ?t = "PutInt v blockTime @ replicate (MaxLen64 B - length (PutInt v blockTime)) 0"
  have lt: "length ?t = MaxLen64 B" using assms(3) by simp
  have lp: "length (packUint height) = 4" by (simp add: packUint_def)
  have h: "unpackUint buf = Inr height" unfolding buf by (rule unpackUint_packUint_append)
  have s: "slice buf 4 (4 + MaxLen64 B) = Inr ?t" unfolding buf using lp lt by (simp add: slice_def)
  have i: "IntAt v ?t = (blockTime, length (PutInt v blockTime))" by (rule vlq_codec.IntAt_PutInt[OF assms(1)])
  have f: "slice_from buf (4 + MaxLen64 B) = Inr (text_bytes (rawText H j))" unfolding buf using lp lt by (simp add: slice_from_def)
  have p: "ParseTx_nuls H (text_bytes (rawText H j)) = Inr (tx\<lparr> Vout_tx := map zeroNumber (Vout_tx tx), CoinSpecificData := NoData \<rparr>)"
    by (simp add: ParseTx_nuls_def assms(2)[OF j] readTx_written[OF assms(4,5) j])
  show ?thesis by (simp add: UnpackTx_nuls_def h s i f p)
qed

lemma xor_bytes_append: "xor_bytes (xs @ [x]) = xor_bytes xs XOR x"
  by (simp add: xor_bytes_def)

lemma length_copyAt: "i \<le> length dst \<Longrightarrow> length (copyAt i src dst) = length dst"
  by (simp add: copyAt_def)

lemma nulsDescriptor_checksum: "length (nulsDescriptor params script) = 24 \<and> xor_bytes (nulsDescriptor params script) = 0"
proof -
  define a where "a = copyAt 3 script (copyAt 0 (take 3 (PubKeyHashAddrID params)) (replicate AddressHashLength 0))"
  have a: "length a = 24" by (simp add: a_def length_copyAt AddressHashLength_def)
  have "nulsDescriptor params script = copyAt 23 [xor_bytes (take 23 a)] a" by (simp only: nulsDescriptor_def Let_def a_def)
  also have "\<dots> = take 23 a @ [xor_bytes (take 23 a)]" using a by (simp add: copyAt_def)
  finally have "nulsDescriptor params script = take 23 a @ [xor_bytes (take 23 a)]" .
  then show ?thesis using a by (simp add: xor_bytes_append)
qed

text \<open>
  The descriptors that are derived from an extended key: one for each index of the range, each of 24 bytes, the last of which is the exclusive or of the others.
\<close>

lemma deriveFrom_nuls_descriptors:
  "deriveFrom_nuls B params k i toIndex = Inr ads \<Longrightarrow> length ads = unat toIndex - unat i \<and> (\<forall>ad \<in> set ads. length ad = 24 \<and> xor_bytes ad = 0)"
proof (induction B params k i toIndex arbitrary: ads rule: deriveFrom_nuls.induct)
  case (1 B params k i toIndex)
  show ?case
  proof (cases "i < toIndex")
    case True
    with "1.prems" obtain key s rest where r: "Child B k i = Inr key" "KeyAddress B key = Inr s" "deriveFrom_nuls B params k (i + 1) toIndex = Inr rest"
        "ads = nulsDescriptor params (ScriptAddress B s) # rest"
      by (subst (asm) deriveFrom_nuls.simps) (auto simp: rbind_eq_Inr_iff)
    from "1.IH"[OF True r(1,2,3)] True show ?thesis
      by (auto simp: r(4) nulsDescriptor_checksum unat_Suc_less[OF True] word_less_nat_alt)
  next
    case False
    with "1.prems" show ?thesis by (subst (asm) deriveFrom_nuls.simps) (simp add: word_less_nat_alt not_less)
  qed
qed

theorem nuls_derived_descriptors:
  assumes "DeriveAddressDescriptorsFromTo_nuls B params xpub ch fromIndex toIndex = Inr ads"
  shows "length ads = unat toIndex - unat fromIndex \<and> (\<forall>ad \<in> set ads. length ad = 24 \<and> xor_bytes ad = 0)"
  using assms deriveFrom_nuls_descriptors by (fastforce simp: DeriveAddressDescriptorsFromTo_nuls_def rbind_eq_Inr_iff split: if_splits)

text \<open>C40: Sending a transaction panics in every state: the client that \<open>NewNulsRPC\<close> makes has the legacy encoding, which cannot encode the request.\<close>

theorem nuls_send_panics:
  assumes "NewNulsRPC p0 config = Inr c"
  shows "\<exists>e. is_panic e \<and> SendRawTransaction_nuls H (conn_cl c) tx n = (Inl e, n)"
proof -
  have "marshaler (conn_cl c) = JSONMarshalerV1" using assms by (auto simp: NewNulsRPC_def Let_def elim!: rbind_eq_InrE)
  then show ?thesis by (simp add: SendRawTransaction_nuls_def Post_nuls_def marshalStruct_def abind_query abind_def)
qed

theorem nuls_send_panics_witness:
  "\<exists>c e. NewNulsRPC (hexParser 300) (JObject []) = Inr c \<and> is_panic e \<and> SendRawTransaction_nuls sampleHttp (conn_cl c) ''00'' () = (Inl e, ())"
proof -
  obtain c where c: "readConfiguration (JObject []) = Inr c" by (simp add: readConfiguration_def membersOf_def jsonMember_def valuesFor_def)
  then obtain z where z: "NewNulsRPC (hexParser 300) (JObject []) = Inr z" by (simp add: NewNulsRPC_def NewBitcoinRPC_def Let_def Annotatef_def)
  from nuls_send_panics[OF z, of sampleHttp "''00''" "()"] z show ?thesis by blast
qed

text \<open>A JSON package that knows one transaction.\<close>

definition oneTxJson :: json where
  "oneTxJson = (case writeTx (\<lambda>_. Inl typeError) sampleJsonTx of Inr j \<Rightarrow> j | Inl _ \<Rightarrow> JNull)"

definition oneTxHttp :: "unit http_env" where
  "oneTxHttp = sampleHttp\<lparr> parseJson := (\<lambda>_. Inr oneTxJson), rawText := (\<lambda>_. ''A'') \<rparr>"

definition tinyNuls :: "(bytes, unit) nuls_packages" where
  "tinyNuls = skyr_packages.extend
     (tinySkyr\<lparr> NewKeyFromString := (\<lambda>_. Inr ()), Child := (\<lambda>_ _. Inr ()), KeyAddress := (\<lambda>_. Inr (replicate 20 7)) \<rparr>)
     \<lparr> RegressionNetParams_cc = MainNetParams_cc tinySkyr, Base58Decode = (\<lambda>_. []), Base58Encode = (\<lambda>_. ''''), ScriptAddress = id,
       Base64Decode = (\<lambda>_. Inr []), MaxLen64 = 10 \<rparr>"

lemma writeTx_no_shield: "VShieldIn_tx tx = [] \<Longrightarrow> VShieldOut_tx tx = [] \<Longrightarrow> writeTx p tx = writeTx q tx"
  by (simp add: writeTx_def)

theorem nuls_tx_roundtrip_witness:
  "\<exists>buf tx. PackTx_nuls tinyNuls base128 oneTxHttp sampleJsonTx 7 5 = Inr buf \<and> UnpackTx_nuls tinyNuls base128 oneTxHttp buf = Inr (tx, 7) \<and> Txid_tx tx = ''00'' \<and> Blocktime tx = 5"
proof -
  have sh: "VShieldIn_tx sampleJsonTx = []" "VShieldOut_tx sampleJsonTx = []" by (simp_all add: sampleJsonTx_def)
  obtain j where j: "writeTx (\<lambda>_. Inl typeError) sampleJsonTx = Inr j" by (simp add: writeTx_def writeVout_def writeNumber_def sampleJsonTx_def)
  then have w: "writeTx (parseJson oneTxHttp) sampleJsonTx = Inr j" using writeTx_no_shield[OF sh] by metis
  have p: "parseJson oneTxHttp (rawText oneTxHttp i) = Inr i" if "writeTx (parseJson oneTxHttp) sampleJsonTx = Inr i" for i
    using that w j by (simp add: oneTxHttp_def oneTxJson_def)
  have l: "length (PutInt base128 5) \<le> MaxLen64 tinyNuls" by (simp add: tinyNuls_def skyr_packages.defs) code_simp
  obtain buf where b: "PackTx_nuls tinyNuls base128 oneTxHttp sampleJsonTx 7 5 = Inr buf" by (simp add: PackTx_nuls_def w Let_def)
  from nuls_tx_roundtrip[OF base128.vlq_codec_axioms p l sh b] b show ?thesis by (simp add: sampleJsonTx_def)
qed

theorem nuls_derived_descriptors_witness:
  "\<exists>ads. DeriveAddressDescriptorsFromTo_nuls tinyNuls (MainNetParams_nuls tinyNuls) ''xpub'' 0 4 6 = Inr ads \<and> length ads = 2"
proof -
  have "\<exists>ads. DeriveAddressDescriptorsFromTo_nuls tinyNuls (MainNetParams_nuls tinyNuls) ''xpub'' 0 4 6 = Inr ads"
    by (simp add: DeriveAddressDescriptorsFromTo_nuls_def tinyNuls_def skyr_packages.defs) (simp add: deriveFrom_nuls.simps)
  then obtain ads where "DeriveAddressDescriptorsFromTo_nuls tinyNuls (MainNetParams_nuls tinyNuls) ''xpub'' 0 4 6 = Inr ads" by blast
  with nuls_derived_descriptors[OF this] show ?thesis by simp
qed

lemma enumerate_fields:
  "map (\<lambda>x. f (snd x)) (enumerate 0 xs) = map f xs" "map (\<lambda>x. g (fst x)) (enumerate 0 xs) = map g [0..<length xs]"
proof -
  have "map (\<lambda>x. f (snd x)) (enumerate 0 xs) = map f (map snd (enumerate 0 xs))" "map (\<lambda>x. g (fst x)) (enumerate 0 xs) = map g (map fst (enumerate 0 xs))"
    by (simp_all only: map_map comp_def)
  then show "map (\<lambda>x. f (snd x)) (enumerate 0 xs) = map f xs" "map (\<lambda>x. g (fst x)) (enumerate 0 xs) = map g [0..<length xs]"
    by simp_all
qed

lemma lockTime_fold:
  "foldl (\<lambda>l out. if l < sint (LockTime_nout out) then sint (LockTime_nout out) else l) a outs = Max (insert a ((\<lambda>out. sint (LockTime_nout out)) ` set outs))"
proof (induction outs arbitrary: a)
  case (Cons out outs)
  let ?S = "(\<lambda>out. sint (LockTime_nout out)) ` set outs" and ?l = "sint (LockTime_nout out)"
  have "Max (insert (if a < ?l then ?l else a) ?S) = Max (insert a (insert ?l ?S))"
    by (cases "?S = {}") (auto simp: max_def)
  then show ?case by (simp add: Cons.IH insert_commute)
qed simp


definition sampleNulsTx :: json where
  "sampleNulsTx = JObject [(''hash'', JString ''t1''), (''outputs'', JArray [JObject [(''address'', JString ''Ns''), (''value'', JNumber 70)]])]"

definition sampleNulsData :: json where
  "sampleNulsData = JObject [(''hash'', JString ''0a''), (''height'', JNumber 7), (''time'', JNumber 9000), (''reward'', JFraction ''0.5''), (''txList'', JArray [sampleNulsTx])]"

definition sampleNulsBlock :: json where
  "sampleNulsBlock = JObject [(''success'', JBool True), (''data'', sampleNulsData)]"

definition nulsHttp :: "unit http_env" where
  "nulsHttp = sampleHttp\<lparr> Do := (\<lambda>_. ret \<lparr> StatusCode = 200, Status_hr = ''200 OK'', Body_hr = Inr ''A'' \<rparr>), parseJson := (\<lambda>_. Inr sampleNulsBlock) \<rparr>"


end
