(* ===== verification/Spec2Isabelle.thy ===== *)
theory Spec2Isabelle
  imports Parallel_Sync Websocket_Locks Public_Server Socket_IO Main_Program Column_Stats Top_Holders Chain_Metrics Pivx_Coin Nuls_Coin
begin

text \<open>
  \<^bold>\<open>Verification of the Skyr block explorer (SkynetResearchProject/Skyr-BlockExplorer).\<close>

  The program follows the node of a coin, keeps an index of its chain in a key-value store, and answers questions about transactions, addresses and blocks over HTTP and
  websockets. It is written in Go; the paths below are those of the files under \<open>src/\<close>.

  \<^bold>\<open>Parts and their interaction.\<close> A client of the node (\<open>bchain/coins/.../*rpc.go\<close>) fetches blocks and transactions, which the parser of the coin
  (\<open>*parser.go\<close>) decodes and whose output scripts it turns into address descriptors. The synchronisation (\<open>db/sync.go\<close>) compares the best block of the node with that of the
  index, undoes the blocks of a fork and connects the missing ones. Connecting (\<open>db/rocksdb.go\<close>, \<open>db/rocksdb_ethereumtype.go\<close>, \<open>db/bulkconnect.go\<close>) writes block infos,
  the transactions of each address, their balances and unspent outputs, and what is needed to undo the block. The mempools (\<open>bchain/*mempool*.go\<close>) hold what is not yet in a block.
  The API worker (\<open>api/\<close>) joins the index, the mempool and the transaction cache (\<open>db/txcache.go\<close>) into answers, which the public server
  (\<open>server/public.go\<close>), the websocket server (\<open>server/websocket.go\<close>) and the socket.io server (\<open>server/socketio.go\<close>) give to their clients; the last two also send news of blocks and
  addresses to subscribers. The program (\<open>blockbook.go\<close>) takes the database into use, runs the loops that synchronise the index and the mempool when the node sends notifications, and ends them at a signal.

  \<^bold>\<open>Conventions.\<close> A Go function that returns a value and an error is a function into \<open>go_error + 'a\<close>, or an action \<open>'w \<Rightarrow> (go_error + 'a) \<times> 'w\<close> where it changes a state or
  calls the node; a panic and a call that never returns are the errors \<open>Panic\<close> and \<open>Hang\<close>, which no code but \<open>recover\<close> looks at. Structs are records, with a suffix where a name is
  used twice; integers have their width (\<open>uint32\<close>, \<open>int64\<close> are words; the \<open>int\<close> of Go is an integer with its wrap-around written out where it matters); Go maps are
  association lists with distinct keys, whose order stands for the order of one iteration; \<open>big.Int\<close> is \<open>int\<close>. Packages that are not part of the repository are parameters: records of
  functions, with what is relied on as locales.

  \<^bold>\<open>Theories.\<close>

  \<^item> \<open>Prelude\<close>: errors, the error monad, slices with their bounds, maps, shared lemmas. \<open>Internal_State\<close>: \<open>common/internalstate.go\<close>. \<open>Packages\<close>: the store (\<open>gorocksdb\<close>),
    variable-length integers (\<open>go-vlq\<close>) and script builder as parameters, with locales \<open>rocks_store\<close>, \<open>reliable_store\<close> and \<open>vlq_codec\<close>, interpreted on a store in memory and on the encoding
    by groups of seven bits. \<open>Chain_Types\<close>: \<open>bchain/types.go\<close> and the locale \<open>txid_parser\<close> of what the index expects of a parser.

  \<^item> The store. \<open>Packing\<close>, \<open>Tx_Addresses\<close>, \<open>Addr_Balance\<close>, \<open>Address_Index\<close>: the formats of the columns; every record is read back from its encoding (locale \<open>delimited\<close>), the list of unspent
    outputs stays in step with the balance, the iteration over an address reports its transactions from the newest on. \<open>Rocks_DB\<close>: the handle, block infos, stored transactions and the
    internal state. \<open>Column_Stats\<close>: counting the rows of a column, which is exact although the iterator is reopened. \<open>Bitcoin_Index\<close>, \<open>Bitcoin_Disconnect\<close>, \<open>Ethereum_Index\<close>, \<open>Connect_Block\<close>: connecting and disconnecting of blocks and the bulk mode; connecting refines adding a
    block to an abstract chain, disconnecting removes exactly the range, an undone input is as before, the bulk mode loses nothing.

  \<^item> Synchronisation. \<open>Sync_Worker\<close>: \<open>resyncIndex\<close> and what it calls, over a back end of the locale \<open>chain_backend\<close>: a resync catches up and recovers from a fork. \<open>Parallel_Sync\<close>: the
    goroutines of \<open>ConnectBlocksParallel\<close> as a step relation: they never skip a block, end, and complete without errors; with an error after the last height they can wait forever.

  \<^item> Node and coins. \<open>Base_Parser\<close>, \<open>Btc_Parser\<close>, \<open>Skyr_Parser\<close>, \<open>Eth_Parser\<close>: the parsers with their round trips, each an interpretation of \<open>txid_parser\<close>. \<open>Node_RPC\<close>: the clients of
    the bitcoin and the Skyr node; the locale \<open>chain_node\<close> says what a node that serves a chain answers, and is a sublocale of \<open>chain_backend\<close>, so that the index follows such a node.
    \<open>Tx_Cache\<close>: the cache of transactions, and the actions all later theories are written in. \<open>Mempool\<close>: both mempools; their maps agree.
    \<open>Eth_RPC\<close>: the client of an Ethereum node, with the reading of its JSON answers. Predicates that the operations keep are the locales \<open>client_frame\<close> and \<open>mempool_client\<close>, interpreted on the
    invariant of the client: whatever the order of requests and notifications, its mempool stays consistent; a block has the token events of its transactions, which leave the mempool; confirmations are bounded.

  \<^item> Below and around the clients. \<open>Go_Json\<close> and \<open>Tx_Json\<close>: values of JSON and how \<open>encoding/json\<close> reads and writes transactions and blocks; a transaction is read back. \<open>Node_Transport\<close>: the commands of the
    clients, the two encodings of \<open>codec.go\<close> and the HTTP calls, which give the answers that \<open>Node_RPC\<close> starts from; which commands an encoding tells apart. \<open>Node_Start\<close>: configuration, constructors and
    \<open>Initialize\<close> of the clients, the table of alternative fees. \<open>Chain_Metrics\<close>: the table of coins, the defaults of \<open>BaseChain\<close>, and the wrapper that measures every call; the locale \<open>chain_view\<close> is a
    client seen through a map of its state, interpreted on the wrapper, so that a resync does the same with and without metrics and the index follows the node as the program runs it.

  \<^item> Two more coins. \<open>Pivx_Coin\<close>: parser and client of PIVX, from which those of Skyr were made; they are the same up to the parameters of the networks. \<open>Nuls_Coin\<close>: parser and client of NULS, a node with a REST interface;
    what a block of its answers becomes, the descriptors that are derived, and that sending a transaction always panics.

  \<^item> API. \<open>Api_Types\<close> with paging, \<open>Api_Tx\<close>, \<open>Api_Address\<close>, \<open>Xpub\<close>, \<open>Api_V1\<close>, \<open>System_Info\<close>: the worker's answers. The history of an address, its unspent outputs and totals are those of
    the index; \<open>Top_Holders\<close>: the richest addresses are in order, and their groups add up; a scan of an extended key finds a full gap (locale \<open>xpub_parser\<close>, interpreted on the bitcoin and the Skyr parser); the cache of keys is bounded; amounts of version 1 are read back.

  \<^item> Servers. \<open>Websocket\<close>: channels, requests and subscriptions as a state machine with its invariant; \<open>Websocket_Locks\<close>: the locks of broadcasts and closes step by step.
    \<open>Supply_Format\<close> and \<open>Public_Server\<close>: routes, handlers and answers of the HTTP server. \<open>Socket_IO\<close>: the socket.io server, over rooms of the locale \<open>socketio_rooms\<close>: what an item of a
    history says, and who gets notifications.

  \<^item> The program. \<open>Main_Program\<close>: a database that a crash left in the middle of a bulk import is refused (locale \<open>state_json\<close> for the stored state); what a rollback does; the debounced loop as a step
    relation with a clock, whose delay and pauses are bounded; the goroutines of the shutdown as a step relation that ends.

  \<^bold>\<open>State and operations.\<close> The state of the index is the record \<open>RocksDB\<close>, with the contents of the store; \<open>Worker\<close> adds the cache, the state of the node and the mempool; an operation of the code is
  the definition of the same name, with a suffix where Go has methods of the same name on several types (\<open>GetBlock_btc\<close>, \<open>GetBlock_skyr\<close>, \<open>GetBlock_w\<close>). A part of a long function is a
  definition of its own when it is a loop body or a step that lemmas speak about.

  \<^bold>\<open>Loops.\<close> Loops over data are structural or have a termination proof. Two loops whose end is a theorem are partial functions, with \<open>None\<close> for a run without end: the rollback
  (\<open>rollback_result\<close>) and the counting of a column (\<open>column_stats_exact\<close>). Three loops need the outside world to make progress, and are run with fuel that is an argument: a resync that restarts
  itself (more fuel than the number of missing blocks plus two is enough, \<open>resync_catches_up\<close> and \<open>resync_recovers_from_fork\<close>), the scan of an extended key (\<open>N + 2\<close> rounds
  are enough when only the first \<open>N\<close> addresses are used, \<open>xpub_scan_returns\<close>), and the two fee estimates that call each other (two calls are enough, \<open>fee_estimates_end\<close>). The loop that repeats a
  request for an extended key while the index changes takes the list of these changes, one for each round. Running out of fuel is the error \<open>Hang\<close>, so no theorem takes it for a result.

  \<^bold>\<open>What the theorems found.\<close> Among others: a fork down to the first block is not handled; the parallel connect can wait forever after an error; undoing two blocks at once can leave an output of a
  deleted transaction; a page size of 0 panics; a broadcast and a close can deadlock; a transaction that cannot be decoded panics; every redirect of a search panics after it was sent; a supply with one
  decimal panics; a rollback to height 0 never ends; a notification at the wrong moment of the shutdown crashes a program that follows an Ethereum node; the list of the richest addresses panics with
  fewer than 65 addresses; the client of NULS cannot send a transaction; the legacy encoding does not tell the two verbose forms of a block apart.

  \<^bold>\<open>Not modelled.\<close> The transport: HTTP, TLS, frames of websockets, protobuf and template texts, sockets and files, which are parameters, as is the syntax of JSON; its values are read and written as the node clients do, elsewhere JSON is a parameter. The parsers and clients of
  the coins other than bitcoin, Skyr, PIVX, NULS and Ethereum: variations of the bitcoin ones for coins that this explorer does not follow. Fee statistics, which only go to the log, metrics other than those of the node calls, database options and memory reports: no
  other part depends on them. In \<open>blockbook.go\<close> the flags and the start of the servers: wiring of the parts. Floating-point numbers are rational numbers, without rounding. Concurrency is
  modelled where the code relies on it (parallel connect, locks of the websocket server, interference with a request for an extended key, shutdown); elsewhere an operation is one step, as the mutexes of the code make it.
\<close>

end
